(* ===== verification/HSP_Prelude.thy ===== *)
theory HSP_Prelude
  imports
    Main
    "HOL-Library.Word"
    "HOL-Library.Char_ord"
    "HOL-Library.List_Lexorder"
    "HOL-Library.Option_ord"
    "HOL-Library.Product_Lexorder"
    "HOL-Library.Sublist"
begin

text \<open>
  The prelude of the development: the machine integers and byte strings of the Rust sources,
  the part of the Rust standard library they call (string slicing, trimming, splitting,
  decimal formatting, \<open>BTreeMap\<close>), the result monad that the fallible and stateful code is
  written in, and the contracts (locales) several components share.

  A Rust \<open>String\<close> is its UTF-8 byte sequence, a \<open>char list\<close> whose characters are bytes; a
  \<open>Vec<u8>\<close> is a list of 8-bit words. A \<open>BTreeMap\<close> is the list of its entries in key order.
\<close>

unbundle bit_operations_syntax

section \<open>Numbers, bytes, results\<close>

type_synonym byte = "8 word"
type_synonym u8 = "8 word"
type_synonym u16 = "16 word"
type_synonym u32 = "32 word"
type_synonym u64 = "64 word"

abbreviation Ok :: "'a \<Rightarrow> 'e + 'a" where "Ok \<equiv> Inr"
abbreviation Err :: "'e \<Rightarrow> 'e + 'a" where "Err \<equiv> Inl"

text \<open>The collections the component proofs draw on.\<close>

named_theorems preserves_rules \<open>rules that a stateful computation keeps a state predicate\<close>
named_theorems yields_rules \<open>rules on the results a stateful computation can return\<close>

definition saturating_add :: "u64 \<Rightarrow> u64 \<Rightarrow> u64" where
  "saturating_add a b = (if a + b < a then - 1 else a + b)"

definition saturating_sub :: "u64 \<Rightarrow> u64 \<Rightarrow> u64" where
  "saturating_sub a b = (if a < b then 0 else a - b)"

definition usize_u64 :: "nat \<Rightarrow> u64" where
  "usize_u64 n = of_nat n"

definition as_bytes :: "string \<Rightarrow> byte list" where
  "as_bytes s = map of_char s"

definition from_bytes :: "byte list \<Rightarrow> string" where
  "from_bytes bs = map (\<lambda>b. char_of (unat b)) bs"

text \<open>\<open>uN::to_be_bytes\<close> and \<open>uN::from_be_bytes\<close> on an \<open>n\<close>-byte value.\<close>

fun to_be_bytes :: "nat \<Rightarrow> nat \<Rightarrow> byte list" where
  "to_be_bytes 0 v = []"
| "to_be_bytes (Suc n) v = to_be_bytes n (v div 256) @ [of_nat (v mod 256)]"

definition from_be_bytes :: "byte list \<Rightarrow> nat" where
  "from_be_bytes bs = foldl (\<lambda>acc b. acc * 256 + unat b) 0 bs"

lemma unat_saturating_add:
  "unat (saturating_add a b) = min (unat a + unat b) (2 ^ 64 - 1)"
proof (cases "unat a + unat b < 2 ^ 64")
  case True
  then have "unat (a + b) = unat a + unat b"
    by (simp add: unat_word_ariths)
  then show ?thesis
    using True by (simp add: saturating_add_def word_less_nat_alt)
next
  case False
  have "unat b < 2 ^ 64"
    using unsigned_less [of b, where 'a = nat] by simp
  moreover have "unat a < 2 ^ 64"
    using unsigned_less [of a, where 'a = nat] by simp
  ultimately have "(unat a + unat b) mod 2 ^ 64 = unat a + unat b - 2 ^ 64"
    using False by (simp add: mod_if)
  then have "unat (a + b) < unat a"
    using False \<open>unat b < 2 ^ 64\<close> by (simp add: unat_word_ariths)
  then show ?thesis
    using False by (simp add: saturating_add_def word_less_nat_alt unsigned_minus_1_eq_mask
        mask_eq_exp_minus_1)
qed

lemma unat_saturating_sub: "unat (saturating_sub a b) = unat a - unat b"
  by (simp add: saturating_sub_def word_less_nat_alt unat_sub_if')

lemma length_as_bytes [simp]: "length (as_bytes s) = length s"
  by (simp add: as_bytes_def)

lemma as_bytes_append [simp]: "as_bytes (s @ t) = as_bytes s @ as_bytes t"
  by (simp add: as_bytes_def)

lemma unat_of_char_byte [simp]: "unat (of_char c :: byte) = of_char c"
proof -
  have "(of_char c :: byte) = of_nat (of_char c)"
    by (simp add: of_char_def)
  then have "unat (of_char c :: byte) = of_char c mod 2 ^ LENGTH(8)"
    by (simp only: unat_of_nat take_bit_eq_mod)
  then show ?thesis
    by simp
qed

lemma from_bytes_as_bytes [simp]: "from_bytes (as_bytes s) = s"
  by (simp add: as_bytes_def from_bytes_def comp_def)

lemma as_bytes_inject [simp]: "as_bytes s = as_bytes t \<longleftrightarrow> s = t"
  by (metis from_bytes_as_bytes)

lemma length_to_be_bytes [simp]: "length (to_be_bytes n v) = n"
  by (induction n arbitrary: v) simp_all

lemma from_be_bytes_snoc: "from_be_bytes (bs @ [b]) = from_be_bytes bs * 256 + unat b"
  by (simp add: from_be_bytes_def)

lemma from_to_be_bytes: "v < 256 ^ n \<Longrightarrow> from_be_bytes (to_be_bytes n v) = v"
proof (induction n arbitrary: v)
  case 0
  then show ?case by (simp add: from_be_bytes_def)
next
  case (Suc n)
  then have "v div 256 < 256 ^ n"
    by (simp add: less_mult_imp_div_less mult.commute)
  then have "from_be_bytes (to_be_bytes n (v div 256)) = v div 256"
    by (rule Suc.IH)
  moreover have "unat (of_nat (v mod 256) :: byte) = v mod 256"
    by (simp add: unat_of_nat take_bit_eq_mod)
  ultimately show ?case
    by (simp add: from_be_bytes_snoc)
qed

section \<open>Strings\<close>

text \<open>
  Fixed ASCII bytes, \<open>str::split\<close> on an ASCII byte, \<open>join\<close>, \<open>starts_with\<close> and
  \<open>to_ascii_lowercase\<close>.
\<close>

fun split_char :: "char \<Rightarrow> string \<Rightarrow> string list" where
  "split_char c [] = [[]]"
| "split_char c (x # xs) =
     (if x = c then [] # split_char c xs
      else case split_char c xs of [] \<Rightarrow> [[x]] | s # ss \<Rightarrow> (x # s) # ss)"

fun join_with :: "string \<Rightarrow> string list \<Rightarrow> string" where
  "join_with sep [] = []"
| "join_with sep [s] = s"
| "join_with sep (s # t # ss) = s @ sep @ join_with sep (t # ss)"

definition starts_with :: "string \<Rightarrow> string \<Rightarrow> bool" where
  "starts_with s p \<longleftrightarrow> take (length p) s = p"

definition ascii_lower :: "char \<Rightarrow> char" where
  "ascii_lower c = (let n = of_char c :: nat in if 65 \<le> n \<and> n \<le> 90 then char_of (n + 32) else c)"

definition to_ascii_lowercase :: "string \<Rightarrow> string" where
  "to_ascii_lowercase s = map ascii_lower s"

lemma split_char_not_Nil [simp]: "split_char c s \<noteq> []"
  by (induction s) (auto split: list.splits)

lemma join_split_char [simp]: "join_with [c] (split_char c s) = s"
proof (induction s)
  case Nil
  then show ?case by simp
next
  case (Cons x xs)
  obtain t ts where ts: "split_char c xs = t # ts"
    by (cases "split_char c xs") auto
  then show ?case
    using Cons.IH by (cases ts) auto
qed

lemma split_char_seg: "seg \<in> set (split_char c s) \<Longrightarrow> c \<notin> set seg"
proof (induction s arbitrary: seg)
  case Nil
  then show ?case by simp
next
  case (Cons x xs)
  obtain t ts where ts: "split_char c xs = t # ts"
    by (cases "split_char c xs") auto
  then show ?case
    using Cons.prems Cons.IH by (auto split: if_splits)
qed

lemma split_join_char:
  "ss \<noteq> [] \<Longrightarrow> (\<And>s. s \<in> set ss \<Longrightarrow> c \<notin> set s) \<Longrightarrow> split_char c (join_with [c] ss) = ss"
proof (induction "[c]" ss rule: join_with.induct)
  case (2 s)
  then have "c \<notin> set s" by simp
  then have "split_char c s = [s]" by (induction s) auto
  then show ?case by simp
next
  case (3 s t ss)
  have "split_char c (s @ [c] @ r) = s # split_char c r" if "c \<notin> set s" for r s
    using that by (induction s) auto
  then show ?case
    using 3 by simp
qed simp

lemma starts_with_iff: "starts_with s p \<longleftrightarrow> prefix p s"
  unfolding starts_with_def prefix_def by (metis append_eq_conv_conj append_take_drop_id)

text \<open>
  \<open>str::trim\<close> removes leading and trailing Unicode white space. \<open>ws_len s\<close> is the length in
  bytes of the white-space character that the UTF-8 string \<open>s\<close> starts with, 0 if it starts with
  another character; \<open>ws_len_rev\<close> reads a reversed string, for the trailing end.
\<close>

fun ws_code :: "nat list \<Rightarrow> bool" where
  "ws_code [a] = (9 \<le> a \<and> a \<le> 13 \<or> a = 32)"
| "ws_code [a, b] = (a = 0xC2 \<and> (b = 0x85 \<or> b = 0xA0))"
| "ws_code [a, b, c] =
     (a = 0xE1 \<and> b = 0x9A \<and> c = 0x80
      \<or> a = 0xE2 \<and> b = 0x80 \<and> (0x80 \<le> c \<and> c \<le> 0x8A \<or> c = 0xA8 \<or> c = 0xA9 \<or> c = 0xAF)
      \<or> a = 0xE2 \<and> b = 0x81 \<and> c = 0x9F
      \<or> a = 0xE3 \<and> b = 0x80 \<and> c = 0x80)"
| "ws_code _ = False"

definition ws_len :: "string \<Rightarrow> nat" where
  "ws_len s = (let codes = (\<lambda>n. map of_char (take n s)) in
     if ws_code (codes 1) then 1 else if ws_code (codes 2) then 2
     else if ws_code (codes 3) then 3 else 0)"

definition ws_len_rev :: "string \<Rightarrow> nat" where
  "ws_len_rev s = (let codes = (\<lambda>n. rev (map of_char (take n s))) in
     if ws_code (codes 1) then 1 else if ws_code (codes 2) then 2
     else if ws_code (codes 3) then 3 else 0)"

lemma ws_len_Nil [simp]: "ws_len [] = 0" "ws_len_rev [] = 0"
  by (simp_all add: ws_len_def ws_len_rev_def)

lemma ws_len_pos: "0 < ws_len s \<Longrightarrow> s \<noteq> []" "0 < ws_len_rev s \<Longrightarrow> s \<noteq> []"
  by auto

function trim_start :: "string \<Rightarrow> string" where
  "trim_start s = (if ws_len s = 0 then s else trim_start (drop (ws_len s) s))"
  by pat_completeness auto
termination
  by (relation "measure length") (auto intro!: diff_less dest: ws_len_pos)

function trim_start_rev :: "string \<Rightarrow> string" where
  "trim_start_rev s = (if ws_len_rev s = 0 then s else trim_start_rev (drop (ws_len_rev s) s))"
  by pat_completeness auto
termination
  by (relation "measure length") (auto intro!: diff_less dest: ws_len_pos)

declare trim_start.simps [simp del] trim_start_rev.simps [simp del]

definition trim :: "string \<Rightarrow> string" where
  "trim s = rev (trim_start_rev (rev (trim_start s)))"

text \<open>Decimal formatting: \<open>format!("{n}")\<close> and \<open>format!("{n:020}")\<close>.\<close>

fun show_nat :: "nat \<Rightarrow> string" where
  "show_nat n = (if n < 10 then [char_of (48 + n)] else show_nat (n div 10) @ [char_of (48 + n mod 10)])"

declare show_nat.simps [simp del]

definition pad_zeros :: "nat \<Rightarrow> string \<Rightarrow> string" where
  "pad_zeros w s = replicate (w - length s) CHR ''0'' @ s"

definition read_nat :: "string \<Rightarrow> nat" where
  "read_nat s = foldl (\<lambda>acc c. acc * 10 + (of_char c - 48)) 0 s"

lemma read_nat_snoc: "read_nat (s @ [c]) = read_nat s * 10 + (of_char c - 48)"
  by (simp add: read_nat_def)

lemma read_show_nat [simp]: "read_nat (show_nat n) = n"
proof (induction n rule: show_nat.induct)
  case (1 n)
  show ?case
  proof (cases "n < 10")
    case True
    then show ?thesis by (simp add: show_nat.simps [of n] read_nat_def)
  next
    case False
    then show ?thesis using 1 by (simp add: show_nat.simps [of n] read_nat_snoc)
  qed
qed

lemma show_nat_inject [simp]: "show_nat m = show_nat n \<longleftrightarrow> m = n"
  by (metis read_show_nat)

lemma read_pad_zeros [simp]: "read_nat (pad_zeros w s) = read_nat s"
proof -
  have "foldl (\<lambda>acc c. acc * 10 + (of_char c - 48)) 0 (replicate k CHR ''0'') = (0 :: nat)" for k
    by (induction k) simp_all
  then show ?thesis by (simp add: read_nat_def pad_zeros_def)
qed

section \<open>\<open>BTreeMap\<close>\<close>

text \<open>
  A \<open>BTreeMap\<close> is its entry list in strictly increasing key order (\<open>btm_ok\<close>); iteration is the
  list itself, \<open>get\<close> is \<open>map_of\<close>. Two well-formed maps with the same lookups are the same list,
  so Rust's \<open>==\<close> on maps is equality of the lists.
\<close>

type_synonym ('k, 'v) btm = "('k \<times> 'v) list"

abbreviation btm_get :: "('k, 'v) btm \<Rightarrow> 'k \<Rightarrow> 'v option" where "btm_get m k \<equiv> map_of m k"

definition btm_ok :: "('k::linorder, 'v) btm \<Rightarrow> bool" where
  "btm_ok m \<longleftrightarrow> sorted_wrt (<) (map fst m)"

primrec btm_insert :: "'k::linorder \<Rightarrow> 'v \<Rightarrow> ('k, 'v) btm \<Rightarrow> ('k, 'v) btm" where
  "btm_insert k v [] = [(k, v)]"
| "btm_insert k v (e # m) =
     (if fst e < k then e # btm_insert k v m
      else if fst e = k then (k, v) # m
      else (k, v) # e # m)"

definition btm_remove :: "'k \<Rightarrow> ('k, 'v) btm \<Rightarrow> ('k, 'v) btm" where
  "btm_remove k m = filter (\<lambda>e. fst e \<noteq> k) m"

lemma btm_ok_Nil [simp]: "btm_ok []"
  by (simp add: btm_ok_def)

lemma btm_ok_Cons: "btm_ok (e # m) \<longleftrightarrow> (\<forall>x\<in>set m. fst e < fst x) \<and> btm_ok m"
  by (auto simp: btm_ok_def)

lemma btm_get_insert [simp]: "btm_get (btm_insert k v m) = (map_of m)(k \<mapsto> v)"
  by (induction m) auto

lemma set_btm_insert: "set (btm_insert k v m) \<subseteq> insert (k, v) (set m)"
  by (induction m) auto

lemma btm_ok_insert [simp]: "btm_ok m \<Longrightarrow> btm_ok (btm_insert k v m)"
proof (induction m)
  case Nil
  then show ?case by (simp add: btm_ok_def)
next
  case (Cons e m)
  have "fst e < fst x" if "fst e < k" "x \<in> set (btm_insert k v m)" for x
    using that Cons.prems set_btm_insert [of k v m] by (auto simp: btm_ok_Cons)
  moreover have "k < fst x" if "k < fst e" "x \<in> set m" for x
    using that Cons.prems by (force simp: btm_ok_Cons)
  ultimately show ?case
    using Cons by (auto simp: btm_ok_Cons)
qed

lemma btm_get_remove [simp]: "btm_get (btm_remove k m) = (map_of m)(k := None)"
  by (induction m) (auto simp: btm_remove_def fun_eq_iff)

lemma btm_ok_remove [simp]: "btm_ok m \<Longrightarrow> btm_ok (btm_remove k m)"
  unfolding btm_ok_def btm_remove_def by (induction m) auto

lemma btm_ok_distinct: "btm_ok m \<Longrightarrow> distinct (map fst m)"
  unfolding btm_ok_def by (metis strict_sorted_iff)

lemma btm_eqI:
  assumes "btm_ok m" "btm_ok n" "map_of m = map_of n"
  shows "m = n"
proof -
  have "set m = set n"
    using assms by (metis btm_ok_distinct map_of_inject_set)
  moreover have "sorted (map fst m)" "sorted (map fst n)"
    using assms(1,2) unfolding btm_ok_def by (simp_all add: strict_sorted_iff)
  moreover have "inj_on fst (set m \<union> set n)"
    using assms(1) \<open>set m = set n\<close> btm_ok_distinct distinct_map by (metis Un_absorb)
  ultimately show ?thesis
    using assms(1,2) btm_ok_distinct by (metis map_sorted_distinct_set_unique)
qed

section \<open>Fallible stateful computations\<close>

text \<open>
  A method that takes \<open>&self\<close> over interior mutable state and returns \<open>Result<T, E>\<close> is a
  function from the state to the result and the new state. \<open>bnd\<close> is the \<open>?\<close> operator: an error
  returns at once and keeps the effects made so far.
\<close>

type_synonym ('s, 'e, 'a) comp = "'s \<Rightarrow> ('e + 'a) \<times> 's"

definition ret :: "'a \<Rightarrow> ('s, 'e, 'a) comp" where
  "ret x s = (Ok x, s)"

definition throw :: "'e \<Rightarrow> ('s, 'e, 'a) comp" where
  "throw e s = (Err e, s)"

definition bnd :: "('s, 'e, 'a) comp \<Rightarrow> ('a \<Rightarrow> ('s, 'e, 'b) comp) \<Rightarrow> ('s, 'e, 'b) comp" where
  "bnd m f s = (case m s of (Err e, s') \<Rightarrow> (Err e, s') | (Ok x, s') \<Rightarrow> f x s')"

definition lift_result :: "'e + 'a \<Rightarrow> ('s, 'e, 'a) comp" where
  "lift_result r s = (r, s)"

definition ensure :: "bool \<Rightarrow> 'e \<Rightarrow> ('s, 'e, unit) comp" where
  "ensure b e s = (if b then Ok () else Err e, s)"

definition ok_or :: "'a option \<Rightarrow> 'e \<Rightarrow> 'e + 'a" where
  "ok_or x e = (case x of None \<Rightarrow> Err e | Some y \<Rightarrow> Ok y)"

definition map_err :: "('e \<Rightarrow> 'f) \<Rightarrow> 'e + 'a \<Rightarrow> 'f + 'a" where
  "map_err f r = (case r of Err e \<Rightarrow> Err (f e) | Ok x \<Rightarrow> Ok x)"

text \<open>The \<open>?\<close> operator of code that touches no state.\<close>

definition rbnd :: "'e + 'a \<Rightarrow> ('a \<Rightarrow> 'e + 'b) \<Rightarrow> 'e + 'b" where
  "rbnd r f = (case r of Err e \<Rightarrow> Err e | Ok x \<Rightarrow> f x)"

lemma rbnd_Ok [simp]: "rbnd r f = Ok y \<longleftrightarrow> (\<exists>x. r = Ok x \<and> f x = Ok y)"
  by (cases r) (auto simp: rbnd_def)

lemma rbnd_simps [simp]: "rbnd (Ok x) f = f x" "rbnd (Err e) f = Err e"
  by (simp_all add: rbnd_def)

lemma if_Err_Ok: "(if b then Err e else r) = Ok y \<longleftrightarrow> \<not> b \<and> r = Ok y"
  by simp

lemma bnd_Ok:
  "bnd m f s = (Ok y, s') \<longleftrightarrow> (\<exists>x t. m s = (Ok x, t) \<and> f x t = (Ok y, s'))"
  by (auto simp: bnd_def split: prod.splits sum.splits)

lemma bnd_OkE:
  assumes "bnd m f s = (Ok y, s')"
  obtains x t where "m s = (Ok x, t)" "f x t = (Ok y, s')"
  using assms by (auto simp: bnd_Ok)

lemma bnd_Err:
  "bnd m f s = (Err e, s') \<longleftrightarrow>
     m s = (Err e, s') \<or> (\<exists>x t. m s = (Ok x, t) \<and> f x t = (Err e, s'))"
  by (auto simp: bnd_def split: prod.splits sum.splits)

lemma ensure_Ok [simp]: "ensure b e s = (Ok u, s') \<longleftrightarrow> b \<and> s' = s"
  by (auto simp: ensure_def)

lemma ret_Ok [simp]: "ret x s = (Ok y, s') \<longleftrightarrow> y = x \<and> s' = s"
  by (auto simp: ret_def)

lemma throw_Ok [simp]: "throw e s \<noteq> (Ok y, s')"
  by (auto simp: throw_def)

lemma lift_result_Ok [simp]: "lift_result r s = (Ok y, s') \<longleftrightarrow> r = Ok y \<and> s' = s"
  by (auto simp: lift_result_def)

lemma ok_or_Ok [simp]: "ok_or x e = Ok y \<longleftrightarrow> x = Some y"
  by (cases x) (auto simp: ok_or_def)

lemma map_err_Ok [simp]: "map_err f r = Ok y \<longleftrightarrow> r = Ok y"
  by (cases r) (auto simp: map_err_def)

text \<open>
  \<open>std::str::from_utf8\<close>: the length of the first UTF-8 sequence (well-formed as in the Unicode
  standard: shortest form, no surrogates, at most U+10FFFF), zero where there is none.
\<close>

definition utf8_cont :: "byte \<Rightarrow> bool" where
  "utf8_cont b \<longleftrightarrow> 0x80 \<le> b \<and> b \<le> 0xBF"

fun utf8_seq_len :: "byte list \<Rightarrow> nat" where
  "utf8_seq_len [] = 0"
| "utf8_seq_len (a # r) =
     (if a \<le> 0x7F then 1
      else if 0xC2 \<le> a \<and> a \<le> 0xDF then
        (case r of b # _ \<Rightarrow> if utf8_cont b then 2 else 0 | _ \<Rightarrow> 0)
      else if 0xE0 \<le> a \<and> a \<le> 0xEF then
        (case r of
           b # c # _ \<Rightarrow>
             if (if a = 0xE0 then 0xA0 else 0x80) \<le> b \<and> b \<le> (if a = 0xED then 0x9F else 0xBF) \<and> utf8_cont c
             then 3 else 0
         | _ \<Rightarrow> 0)
      else if 0xF0 \<le> a \<and> a \<le> 0xF4 then
        (case r of
           b # c # d # _ \<Rightarrow>
             if (if a = 0xF0 then 0x90 else 0x80) \<le> b \<and> b \<le> (if a = 0xF4 then 0x8F else 0xBF)
                \<and> utf8_cont c \<and> utf8_cont d
             then 4 else 0
         | _ \<Rightarrow> 0)
      else 0)"

function utf8_valid :: "byte list \<Rightarrow> bool" where
  "utf8_valid bs =
     (if bs = [] then True
      else if utf8_seq_len bs = 0 then False
      else utf8_valid (drop (utf8_seq_len bs) bs))"
  by pat_completeness auto
termination by (relation "measure length") auto

declare utf8_valid.simps [simp del]

definition str_from_utf8 :: "byte list \<Rightarrow> string option" where
  "str_from_utf8 bs = (if utf8_valid bs then Some (from_bytes bs) else None)"

text \<open>
  \<open>String::from_utf8_lossy\<close>: every maximal ill-formed part becomes U+FFFD. \<open>utf8_bad_len\<close> is the
  length of the part at the front.
\<close>

fun utf8_bad_len :: "byte list \<Rightarrow> nat" where
  "utf8_bad_len (a # b # c # _) =
     (if 0xF0 \<le> a \<and> a \<le> 0xF4 \<and> (if a = 0xF0 then 0x90 else 0x80) \<le> b
         \<and> b \<le> (if a = 0xF4 then 0x8F else 0xBF) then (if utf8_cont c then 3 else 2)
      else if 0xE0 \<le> a \<and> a \<le> 0xEF \<and> (if a = 0xE0 then 0xA0 else 0x80) \<le> b
         \<and> b \<le> (if a = 0xED then 0x9F else 0xBF) then 2
      else 1)"
| "utf8_bad_len [a, b] =
     (if (0xF0 \<le> a \<and> a \<le> 0xF4 \<and> (if a = 0xF0 then 0x90 else 0x80) \<le> b
           \<and> b \<le> (if a = 0xF4 then 0x8F else 0xBF))
         \<or> (0xE0 \<le> a \<and> a \<le> 0xEF \<and> (if a = 0xE0 then 0xA0 else 0x80) \<le> b
           \<and> b \<le> (if a = 0xED then 0x9F else 0xBF)) then 2
      else 1)"
| "utf8_bad_len _ = 1"

function from_utf8_lossy :: "byte list \<Rightarrow> string" where
  "from_utf8_lossy bs =
     (if bs = [] then []
      else if utf8_seq_len bs = 0 then
        [CHR 0xEF, CHR 0xBF, CHR 0xBD] @ from_utf8_lossy (drop (utf8_bad_len bs) bs)
      else from_bytes (take (utf8_seq_len bs) bs) @ from_utf8_lossy (drop (utf8_seq_len bs) bs))"
  by pat_completeness auto

lemma utf8_bad_len_pos: "0 < utf8_bad_len bs"
  by (cases bs rule: utf8_bad_len.cases) auto

termination from_utf8_lossy
  by (relation "measure length") (auto simp: utf8_bad_len_pos)

declare from_utf8_lossy.simps [simp del]

text \<open>
  A serde format for one type: the writer may refuse a value, and what it wrote the reader
  returns (\<open>codec_ok\<close>).
\<close>

record 'a codec =
  to_vec :: "'a \<Rightarrow> string + byte list"
  from_slice :: "byte list \<Rightarrow> string + 'a"

definition codec_ok :: "'a codec \<Rightarrow> bool" where
  "codec_ok c \<longleftrightarrow> (\<forall>v bs. to_vec c v = Ok bs \<longrightarrow> from_slice c bs = Ok v)"

lemma codec_okD: "codec_ok c \<Longrightarrow> to_vec c v = Ok bs \<Longrightarrow> from_slice c bs = Ok v"
  by (simp add: codec_ok_def)

text \<open>A codec that serializes nothing; it satisfies the law.\<close>

definition refusing_codec :: "'a codec" where
  "refusing_codec = \<lparr>to_vec = (\<lambda>_. Err ''unsupported''), from_slice = (\<lambda>_. Err ''unsupported'')\<rparr>"

lemma refusing_codec_ok [simp]: "codec_ok refusing_codec"
  by (simp add: codec_ok_def refusing_codec_def)

text \<open>\<open>preserves I m\<close>: whatever \<open>m\<close> returns, it keeps the state predicate \<open>I\<close>.\<close>

definition preserves :: "('s \<Rightarrow> bool) \<Rightarrow> ('s, 'e, 'a) comp \<Rightarrow> bool" where
  "preserves I m \<longleftrightarrow> (\<forall>s. I s \<longrightarrow> I (snd (m s)))"

lemma preservesD: "preserves I m \<Longrightarrow> m s = (r, s') \<Longrightarrow> I s \<Longrightarrow> I s'"
  unfolding preserves_def by (metis snd_conv)

lemma preserves_ret [preserves_rules]: "preserves I (ret x)"
  by (simp add: preserves_def ret_def)

lemma preserves_throw [preserves_rules]: "preserves I (throw e)"
  by (simp add: preserves_def throw_def)

lemma preserves_lift [preserves_rules]: "preserves I (lift_result r)"
  by (simp add: preserves_def lift_result_def)

lemma preserves_ensure [preserves_rules]: "preserves I (ensure b e)"
  by (simp add: preserves_def ensure_def)

lemma preserves_bnd [preserves_rules]:
  "preserves I m \<Longrightarrow> (\<And>x. preserves I (f x)) \<Longrightarrow> preserves I (bnd m f)"
  by (auto simp: preserves_def bnd_def split: prod.splits sum.splits; metis snd_conv)

lemma preserves_if [preserves_rules]:
  "(b \<Longrightarrow> preserves I m) \<Longrightarrow> (\<not> b \<Longrightarrow> preserves I n) \<Longrightarrow> preserves I (if b then m else n)"
  by simp

lemma preserves_option [preserves_rules]:
  "preserves I m \<Longrightarrow> (\<And>y. preserves I (f y)) \<Longrightarrow>
   preserves I (case x of None \<Rightarrow> m | Some y \<Rightarrow> f y)"
  by (cases x) simp_all

text \<open>
  A component as a state machine: \<open>run_steps\<close> serves a sequence of requests and collects the
  results. \<open>monotone_steps\<close> is the contract of a machine whose every step only moves up a
  preorder on its states.
\<close>

primrec run_steps :: "('l \<Rightarrow> 's \<Rightarrow> 'r \<times> 's) \<Rightarrow> 'l list \<Rightarrow> 's \<Rightarrow> 'r list \<times> 's" where
  "run_steps step [] s = ([], s)"
| "run_steps step (l # ls) s =
     (fst (step l s) # fst (run_steps step ls (snd (step l s))),
      snd (run_steps step ls (snd (step l s))))"

lemma run_steps_nth:
  "i < length ls \<Longrightarrow>
   fst (run_steps step ls s) ! i = fst (step (ls ! i) (snd (run_steps step (take i ls) s)))"
  by (induction ls arbitrary: s i) (auto simp: less_Suc_eq_0_disj)

lemma run_steps_take_Suc:
  "i < length ls \<Longrightarrow>
   snd (run_steps step (take (Suc i) ls) s) = snd (step (ls ! i) (snd (run_steps step (take i ls) s)))"
  by (induction ls arbitrary: s i) (auto simp: less_Suc_eq_0_disj)

locale monotone_steps =
  fixes step :: "'l \<Rightarrow> 's \<Rightarrow> 'r \<times> 's" and le :: "'s \<Rightarrow> 's \<Rightarrow> bool"
  assumes le_refl: "le s s"
    and le_trans: "le s t \<Longrightarrow> le t u \<Longrightarrow> le s u"
    and le_step: "le s (snd (step l s))"
begin

lemma run_le_Suc:
  "i < length ls \<Longrightarrow> le (snd (run_steps step (take i ls) s)) (snd (run_steps step (take (Suc i) ls) s))"
  using le_step by (simp add: run_steps_take_Suc)

lemma run_le:
  assumes "i \<le> j" "j \<le> length ls"
  shows "le (snd (run_steps step (take i ls) s)) (snd (run_steps step (take j ls) s))"
  using assms
proof (induction j rule: dec_induct)
  case base
  show ?case by (rule le_refl)
next
  case (step k)
  then show ?case using run_le_Suc [of k ls s] by (auto intro: le_trans)
qed

lemma run_le_all: "le s (snd (run_steps step ls s))"
  using run_le [of 0 "length ls" ls s] by simp

end

end
