(* ===== verification/HSP_Path.thy ===== *)
theory HSP_Path
  imports HSP_Prelude
begin

text \<open>
  The crate \<open>crates/hsp-path\<close>: one round of percent decoding, the rejection of nested
  encodings, canonical path segments, and the segment-wise prefix test that every path- or
  namespace-scoped capability is checked with.

  The decoder pushes each input byte as a Unicode scalar (\<open>byte as char\<close>), so a byte above
  \<open>0x7f\<close> becomes the two UTF-8 bytes of the corresponding Latin-1 character.
\<close>

section \<open>The functions\<close>

datatype PathError = InvalidPercentEncoding | DoublePercentDecodingForbidden

definition path_error_message :: "PathError \<Rightarrow> string" where
  "path_error_message e =
     (case e of
        InvalidPercentEncoding \<Rightarrow> ''invalid percent encoding''
      | DoublePercentDecodingForbidden \<Rightarrow> ''double percent decoding is forbidden'')"

text \<open>\<open>String::push(byte as char)\<close>: the UTF-8 encoding of the scalar value \<open>b\<close>.\<close>

definition push_latin1 :: "byte \<Rightarrow> string" where
  "push_latin1 b =
     (if unat b < 0x80 then [char_of (unat b)]
      else [char_of (0xC0 + unat b div 64), char_of (0x80 + unat b mod 64)])"

definition decode_hex :: "byte \<Rightarrow> PathError + byte" where
  "decode_hex b =
     (if 48 \<le> b \<and> b \<le> 57 then Ok (b - 48)
      else if 97 \<le> b \<and> b \<le> 102 then Ok (b - 97 + 10)
      else if 65 \<le> b \<and> b \<le> 70 then Ok (b - 65 + 10)
      else Err InvalidPercentEncoding)"

fun percent_decode_loop :: "byte list \<Rightarrow> string \<Rightarrow> PathError + string" where
  "percent_decode_loop [] output = Ok output"
| "percent_decode_loop (b # rest) output =
     (if b \<noteq> 37 then percent_decode_loop rest (output @ push_latin1 b)
      else case rest of
        high # low # rest' \<Rightarrow>
          (case decode_hex high of
             Err e \<Rightarrow> Err e
           | Ok h \<Rightarrow>
               (case decode_hex low of
                  Err e \<Rightarrow> Err e
                | Ok l \<Rightarrow> percent_decode_loop rest' (output @ push_latin1 (push_bit 4 h OR l))))
      | _ \<Rightarrow> Err InvalidPercentEncoding)"

definition percent_decode_once :: "string \<Rightarrow> PathError + string" where
  "percent_decode_once input = percent_decode_loop (as_bytes input) []"

definition is_ascii_hexdigit :: "byte \<Rightarrow> bool" where
  "is_ascii_hexdigit b \<longleftrightarrow>
     48 \<le> b \<and> b \<le> 57 \<or> 97 \<le> b \<and> b \<le> 102 \<or> 65 \<le> b \<and> b \<le> 70"

fun nested_percent :: "byte list \<Rightarrow> bool" where
  "nested_percent (a # b # c # rest) =
     (a = 37 \<and> is_ascii_hexdigit b \<and> is_ascii_hexdigit c \<or> nested_percent (b # c # rest))"
| "nested_percent _ = False"

definition contains_nested_percent_encoding :: "string \<Rightarrow> bool" where
  "contains_nested_percent_encoding input = nested_percent (as_bytes input)"

definition canonical_segments :: "string \<Rightarrow> PathError + string list" where
  "canonical_segments path =
     (case percent_decode_once path of
        Err e \<Rightarrow> Err e
      | Ok decoded \<Rightarrow>
          if contains_nested_percent_encoding decoded then Err DoublePercentDecodingForbidden
          else Ok (split_char CHR ''/'' decoded))"

definition canonical_path :: "string \<Rightarrow> PathError + string" where
  "canonical_path path =
     (case canonical_segments path of
        Err e \<Rightarrow> Err e
      | Ok segments \<Rightarrow> Ok (join_with ''/'' segments))"

definition segment_prefix_matches :: "string \<Rightarrow> string \<Rightarrow> bool" where
  "segment_prefix_matches p candidate =
     (case canonical_segments p of
        Err _ \<Rightarrow> False
      | Ok prefix_segments \<Rightarrow>
          (case canonical_segments candidate of
             Err _ \<Rightarrow> False
           | Ok candidate_segments \<Rightarrow>
               if length prefix_segments > length candidate_segments then False
               else list_all (\<lambda>(left, right). left = right)
                      (zip prefix_segments candidate_segments)))"

section \<open>Segments\<close>

lemma zip_all_eq_prefix:
  "length xs \<le> length ys \<Longrightarrow> list_all (\<lambda>(x, y). x = y) (zip xs ys) \<longleftrightarrow> prefix xs ys"
proof (induction xs arbitrary: ys)
  case Nil
  then show ?case by simp
next
  case (Cons x xs)
  then show ?case by (cases ys) auto
qed

lemma segment_prefix_matches_iff:
  "segment_prefix_matches p c \<longleftrightarrow>
     (\<exists>ps cs. canonical_segments p = Ok ps \<and> canonical_segments c = Ok cs \<and> prefix ps cs)"
  by (auto simp: segment_prefix_matches_def zip_all_eq_prefix not_less split: sum.splits
      dest: prefix_length_le)

lemma canonical_segments_Ok:
  "canonical_segments p = Ok segs \<longleftrightarrow>
     (\<exists>d. percent_decode_once p = Ok d \<and> \<not> contains_nested_percent_encoding d
        \<and> segs = split_char CHR ''/'' d)"
  by (auto simp: canonical_segments_def split: sum.splits if_splits)

lemma canonical_path_Ok:
  "canonical_path p = Ok q \<longleftrightarrow>
     percent_decode_once p = Ok q \<and> \<not> contains_nested_percent_encoding q"
  by (auto simp: canonical_path_def canonical_segments_def split: sum.splits if_splits)

lemma canonical_segments_path:
  "canonical_segments p = Ok segs \<longleftrightarrow>
     (\<exists>q. canonical_path p = Ok q \<and> segs = split_char CHR ''/'' q)"
  by (auto simp: canonical_segments_Ok canonical_path_Ok)

lemma split_char_eq_iff [simp]: "split_char c s = split_char c t \<longleftrightarrow> s = t"
  by (metis join_split_char)

lemma split_char_append_sep: "split_char c (s @ c # t) = split_char c s @ split_char c t"
proof (induction s)
  case Nil
  then show ?case by simp
next
  case (Cons x s)
  obtain u us where "split_char c s = u # us"
    by (cases "split_char c s") auto
  then show ?case using Cons by simp
qed

lemma join_with_append:
  "xs \<noteq> [] \<Longrightarrow> ys \<noteq> [] \<Longrightarrow> join_with sep (xs @ ys) = join_with sep xs @ sep @ join_with sep ys"
proof (induction sep xs rule: join_with.induct)
  case (2 sep s)
  then show ?case by (cases ys) auto
next
  case (3 sep s t ss)
  then show ?case by simp
qed simp

lemma prefix_split_char:
  "prefix (split_char c s) (split_char c t) \<longleftrightarrow> t = s \<or> starts_with t (s @ [c])"
proof
  assume "prefix (split_char c s) (split_char c t)"
  then obtain zs where zs: "split_char c t = split_char c s @ zs"
    by (auto simp: prefix_def)
  show "t = s \<or> starts_with t (s @ [c])"
  proof (cases "zs = []")
    case True
    then show ?thesis using zs by simp
  next
    case False
    have "t = join_with [c] (split_char c s @ zs)"
      using zs by (metis join_split_char)
    also have "\<dots> = s @ [c] @ join_with [c] zs"
      using False by (simp add: join_with_append)
    finally show ?thesis by (simp add: starts_with_iff prefix_def)
  qed
next
  assume "t = s \<or> starts_with t (s @ [c])"
  then show "prefix (split_char c s) (split_char c t)"
    by (auto simp: starts_with_iff prefix_def split_char_append_sep)
qed

section \<open>Decoding\<close>

definition is_ascii :: "string \<Rightarrow> bool" where
  "is_ascii s \<longleftrightarrow> list_all (\<lambda>c. (of_char c :: nat) < 0x80) s"

lemma decode_hex_Ok_iff: "(\<exists>v. decode_hex b = Ok v) \<longleftrightarrow> is_ascii_hexdigit b"
  by (auto simp: decode_hex_def is_ascii_hexdigit_def)

lemma decode_hex_Err: "\<not> is_ascii_hexdigit b \<Longrightarrow> decode_hex b = Err InvalidPercentEncoding"
  by (auto simp: decode_hex_def is_ascii_hexdigit_def)

lemma decode_hex_ErrD: "decode_hex b = Err e \<Longrightarrow> e = InvalidPercentEncoding"
  by (auto simp: decode_hex_def split: if_splits)

lemma of_char_byte_eq [simp]: "(of_char c :: byte) = 37 \<longleftrightarrow> c = CHR ''%''"
proof
  assume "(of_char c :: byte) = 37"
  then have "unat (of_char c :: byte) = 37" by simp
  then have "of_char c = (37::nat)" by simp
  then have "of_char c = (of_char CHR ''%'' :: nat)" by simp
  then show "c = CHR ''%''" by (rule of_char_eqI)
qed simp

lemma push_latin1_ascii: "(of_char c :: nat) < 0x80 \<Longrightarrow> push_latin1 (of_char c) = [c]"
  by (simp add: push_latin1_def)

lemma nested_percent_tl: "\<not> nested_percent (b # bs) \<Longrightarrow> \<not> nested_percent bs"
  by (cases bs rule: nested_percent.cases) auto

text \<open>
  Decoding an ASCII string without a nested encoding changes nothing, or fails on a percent
  sign that is not followed by two hexadecimal digits.
\<close>

lemma percent_decode_loop_canonical:
  "is_ascii q \<Longrightarrow> \<not> nested_percent (as_bytes q) \<Longrightarrow>
   percent_decode_loop (as_bytes q) acc =
     (if CHR ''%'' \<in> set q then Err InvalidPercentEncoding else Ok (acc @ q))"
proof (induction q arbitrary: acc)
  case Nil
  then show ?case by (simp add: as_bytes_def)
next
  case (Cons c q)
  have q: "is_ascii q" "(of_char c :: nat) < 0x80" "\<not> nested_percent (as_bytes q)"
    using Cons.prems by (auto simp: is_ascii_def as_bytes_def dest: nested_percent_tl)
  show ?case
  proof (cases "c = CHR ''%''")
    case False
    then have "percent_decode_loop (as_bytes (c # q)) acc =
        percent_decode_loop (as_bytes q) (acc @ [c])"
      using q(2) by (simp add: as_bytes_def push_latin1_ascii)
    then show ?thesis using Cons.IH [OF q(1,3)] False by simp
  next
    case True
    show ?thesis
    proof (cases "as_bytes q" rule: nested_percent.cases)
      case (1 h l l' rest)
      then show ?thesis
        using True Cons.prems(2)
        by (auto simp: as_bytes_def decode_hex_Err split: sum.splits dest: decode_hex_ErrD)
    qed (use True Cons.prems(2) in
        \<open>auto simp: as_bytes_def decode_hex_Err split: sum.splits list.splits dest: decode_hex_ErrD\<close>)
  qed
qed

lemma canonical_path_again:
  assumes "canonical_path p = Ok q" and "is_ascii q"
  shows "canonical_path q =
    (if CHR ''%'' \<in> set q then Err InvalidPercentEncoding else Ok q)"
proof -
  have "\<not> nested_percent (as_bytes q)"
    using assms(1) by (simp add: canonical_path_Ok contains_nested_percent_encoding_def)
  then have "percent_decode_once q =
      (if CHR ''%'' \<in> set q then Err InvalidPercentEncoding else Ok q)"
    using percent_decode_loop_canonical [OF assms(2), of "[]"]
    by (simp add: percent_decode_once_def)
  moreover have "\<not> contains_nested_percent_encoding q"
    using assms(1) by (simp add: canonical_path_Ok)
  ultimately show ?thesis
    by (simp add: canonical_path_def canonical_segments_def)
qed

section \<open>Properties\<close>

text \<open>
  C32. The segment prefix test is exactly the test on canonical paths: the candidate is the
  prefix itself or continues it after a slash. So a capability scoped to \<open>tenant/a\<close> covers
  \<open>tenant/a/x\<close> and never \<open>tenant/alpha\<close>, and a path that does not canonicalise is never covered.
\<close>

theorem segment_prefix_matches_canonical:
  "segment_prefix_matches p c \<longleftrightarrow>
     (\<exists>cp cc. canonical_path p = Ok cp \<and> canonical_path c = Ok cc
        \<and> (cc = cp \<or> starts_with cc (cp @ ''/'')))"
  by (auto simp: segment_prefix_matches_iff canonical_segments_path prefix_split_char)

text \<open>
  C33. Canonicalisation is single-pass on ASCII: running it again on an ASCII result returns the
  same path when the result holds no percent sign and an error otherwise. A second pass, as the
  authorization of an already canonical path makes, never turns it into a different path.
\<close>

theorem canonical_path_single_pass:
  assumes "canonical_path p = Ok q" and "is_ascii q"
  shows "canonical_path q =
    (if CHR ''%'' \<in> set q then Err InvalidPercentEncoding else Ok q)"
  by (rule canonical_path_again [OF assms])

theorem canonical_path_single_pass_witness:
  "canonical_path ''tenant%2Fa'' = Ok ''tenant/a'' \<and> is_ascii ''tenant/a''
   \<and> canonical_path ''tenant/a'' = Ok ''tenant/a''"
proof -
  have h: "canonical_path ''tenant%2Fa'' = Ok ''tenant/a''" by code_simp
  have a: "is_ascii ''tenant/a''" by (simp add: is_ascii_def)
  show ?thesis using h a canonical_path_single_pass [OF h a] by simp
qed

text \<open>Decoding a string without a percent sign: every byte as the Latin-1 character it numbers.\<close>

definition latin1 :: "string \<Rightarrow> string" where
  "latin1 s = concat (map (\<lambda>c. push_latin1 (of_char c)) s)"

lemma latin1_simps [simp]:
  "latin1 [] = []" "latin1 (c # s) = push_latin1 (of_char c) @ latin1 s"
  by (simp_all add: latin1_def)

lemma is_ascii_simps [simp]: "is_ascii []" "is_ascii (c # s) \<longleftrightarrow> (of_char c :: nat) < 0x80 \<and> is_ascii s"
  by (simp_all add: is_ascii_def)

lemma push_latin1_cases:
  obtains "(of_char c :: nat) < 0x80" "push_latin1 (of_char c) = [c]"
  | x y where "0x80 \<le> (of_char c :: nat)" "0x80 \<le> (of_char x :: nat)" "0x80 \<le> (of_char y :: nat)"
      "push_latin1 (of_char c) = [x, y]"
proof (cases "(of_char c :: nat) < 0x80")
  case False
  have "(of_char c :: nat) div 64 < 64"
    by (cases c) (simp add: of_char_def)
  then show ?thesis
    using False that(2) [of "char_of (0xC0 + (of_char c :: nat) div 64)" "char_of (0x80 + (of_char c :: nat) mod 64)"]
    by (simp add: push_latin1_def)
qed (use that(1) push_latin1_ascii in blast)

lemma ascii_char_less: "(of_char CHR ''%'' :: nat) < 0x80" "(of_char CHR ''/'' :: nat) < 0x80"
  by simp_all

lemma mem_latin1_ascii: "(of_char d :: nat) < 0x80 \<Longrightarrow> d \<in> set (latin1 s) \<longleftrightarrow> d \<in> set s"
proof (induction s)
  case (Cons c s)
  then show ?case by (cases c rule: push_latin1_cases) auto
qed simp

lemma split_latin1: "split_char CHR ''/'' (latin1 s) = map latin1 (split_char CHR ''/'' s)"
proof (induction s)
  case (Cons c s)
  obtain u us where u: "split_char CHR ''/'' s = u # us" by (cases "split_char CHR ''/'' s") auto
  show ?case
  proof (cases c rule: push_latin1_cases)
    case 1
    then show ?thesis using Cons u by auto
  next
    case (2 x y)
    then have "x \<noteq> CHR ''/''" "y \<noteq> CHR ''/''" "c \<noteq> CHR ''/''" by auto
    then show ?thesis using Cons u 2 by simp
  qed
qed simp

lemma latin1_ascii: "is_ascii s \<Longrightarrow> latin1 s = s"
  by (induction s) (simp_all add: push_latin1_ascii)

lemma is_ascii_latin1: "is_ascii (latin1 s) \<longleftrightarrow> is_ascii s"
proof (induction s)
  case (Cons c s)
  then show ?case by (cases c rule: push_latin1_cases) auto
qed simp

lemma latin1_length: "length s \<le> length (latin1 s) \<and> (length (latin1 s) = length s \<longrightarrow> is_ascii s)"
proof (induction s)
  case (Cons c s)
  then show ?case by (cases c rule: push_latin1_cases) auto
qed simp

lemma latin1_fixed: "latin1 (latin1 s) = latin1 s \<longleftrightarrow> is_ascii s"
  by (metis latin1_ascii latin1_length is_ascii_latin1)

lemma no_percent_decode:
  "CHR ''%'' \<notin> set s \<Longrightarrow> percent_decode_loop (as_bytes s) acc = Ok (acc @ latin1 s)"
  by (induction s arbitrary: acc) (auto simp: as_bytes_def)

lemma no_percent_not_nested: "37 \<notin> set bs \<Longrightarrow> \<not> nested_percent bs"
  by (induction bs rule: nested_percent.induct) auto

lemma no_percent_canonical: "CHR ''%'' \<notin> set s \<Longrightarrow> canonical_path s = Ok (latin1 s)"
proof -
  assume s: "CHR ''%'' \<notin> set s"
  then have "CHR ''%'' \<notin> set (latin1 s)" by (simp add: mem_latin1_ascii ascii_char_less)
  then have "37 \<notin> set (as_bytes (latin1 s))" by (auto simp: as_bytes_def)
  then show ?thesis using no_percent_decode [OF s, of "[]"]
    by (simp add: canonical_path_Ok percent_decode_once_def contains_nested_percent_encoding_def
        no_percent_not_nested)
qed

lemma is_ascii_join: "list_all is_ascii ss \<Longrightarrow> is_ascii (join_with ''/'' ss)"
  by (induction "''/'' :: string" ss rule: join_with.induct) (auto simp: is_ascii_def)

lemma latin1_prefix:
  assumes "prefix (split_char CHR ''/'' (latin1 p)) (split_char CHR ''/'' (latin1 (latin1 c)))"
    and "prefix (split_char CHR ''/'' p) (split_char CHR ''/'' c)"
  shows "is_ascii p"
proof -
  let ?ps = "split_char CHR ''/'' p"
  obtain zs where zs: "split_char CHR ''/'' c = ?ps @ zs" using assms(2) by (auto simp: prefix_def)
  have "map latin1 ?ps = map latin1 (map latin1 ?ps)"
    using assms(1) by (auto simp: split_latin1 zs prefix_def append_eq_append_conv)
  then have "list_all is_ascii ?ps" by (auto simp: list_all_iff latin1_fixed [symmetric] map_eq_conv)
  then have "is_ascii (join_with ''/'' ?ps)" by (rule is_ascii_join)
  then show ?thesis by simp
qed

text \<open>
  C38. Authorizing a path that is already canonical refuses every path outside ASCII. Let a path
  without percent signs be a prefix itself, or lie below it. The prefix covers the path, but it
  covers the canonical form of the path, which is what \<open>BIND\<close>, \<open>UNBIND\<close>, \<open>RESOLVE\<close> and \<open>LIST\<close>
  authorize, exactly when the prefix is ASCII.
\<close>

theorem segment_prefix_matches_latin1:
  assumes "CHR ''%'' \<notin> set c" "c = p \<or> starts_with c (p @ ''/'')"
  shows "segment_prefix_matches p c \<and>
    (\<exists>cc. canonical_path c = Ok cc \<and> (segment_prefix_matches p cc \<longleftrightarrow> is_ascii p))"
proof -
  have p: "CHR ''%'' \<notin> set p" using assms by (auto simp: starts_with_iff prefix_def)
  have c: "CHR ''%'' \<notin> set (latin1 c)" using assms(1) by (simp add: mem_latin1_ascii ascii_char_less)
  have pc: "prefix (split_char CHR ''/'' p) (split_char CHR ''/'' c)" using assms(2) by (simp add: prefix_split_char)
  note canonical = no_percent_canonical [OF p] no_percent_canonical [OF assms(1)] no_percent_canonical [OF c]
  have "segment_prefix_matches p c"
    using pc by (simp add: segment_prefix_matches_iff canonical_segments_path canonical split_latin1 map_mono_prefix)
  moreover have "segment_prefix_matches p (latin1 c) \<longleftrightarrow> is_ascii p"
  proof
    assume "segment_prefix_matches p (latin1 c)"
    then show "is_ascii p"
      using pc latin1_prefix by (simp add: segment_prefix_matches_iff canonical_segments_path canonical)
  next
    assume "is_ascii p"
    then have "map latin1 (split_char CHR ''/'' p) = map latin1 (map latin1 (split_char CHR ''/'' p))"
      using split_latin1 [of p] split_latin1 [of "latin1 p"] by (simp add: latin1_ascii)
    then have "prefix (split_char CHR ''/'' (latin1 p)) (split_char CHR ''/'' (latin1 (latin1 c)))"
      using map_mono_prefix [OF map_mono_prefix [OF pc, of latin1], of latin1] by (simp only: split_latin1)
    then show "segment_prefix_matches p (latin1 c)"
      by (simp add: segment_prefix_matches_iff canonical_segments_path canonical)
  qed
  ultimately show ?thesis using canonical(2) by blast
qed

theorem segment_prefix_matches_latin1_witness:
  "segment_prefix_matches [CHR 0xC3, CHR 0xA9] [CHR 0xC3, CHR 0xA9, CHR ''/'', CHR ''x''] \<and>
   (\<exists>cc. canonical_path [CHR 0xC3, CHR 0xA9, CHR ''/'', CHR ''x''] = Ok cc \<and>
      \<not> segment_prefix_matches [CHR 0xC3, CHR 0xA9] cc)"
proof -
  have p: "\<not> is_ascii [CHR 0xC3, CHR 0xA9]" by simp
  show ?thesis
    using p segment_prefix_matches_latin1 [of "[CHR 0xC3, CHR 0xA9, CHR ''/'', CHR ''x'']" "[CHR 0xC3, CHR 0xA9]"]
    by (simp add: starts_with_iff)
qed

end
