(* ===== verification/HSP_Cbor.thy ===== *)
theory HSP_Cbor
  imports HSP_Prelude
begin

text \<open>
  The canonical CBOR encoding and the content identifiers of \<open>crates/hsp-core\<close>
  (\<open>CanonicalValue\<close>, \<open>encode_canonical_cbor\<close>, \<open>cid_from_bytes\<close>), with the readers of decoded
  CBOR maps that the page cursors use.

  SHA-256, base32, base64 and the CBOR reader are third-party crates: they are the fields of
  \<open>core_deps\<close>, the first argument of every definition that calls one of them.
\<close>

section \<open>Third-party code\<close>

text \<open>\<open>ciborium::Value\<close>, the dynamic CBOR value the cursors are decoded to.\<close>

datatype CborValue =
    Cb_Integer int
  | Cb_Bytes "byte list"
  | Cb_Float "64 word"
  | Cb_Text string
  | Cb_Bool bool
  | Cb_Null
  | Cb_Tag u64 CborValue
  | Cb_Array "CborValue list"
  | Cb_Map "(CborValue \<times> CborValue) list"

record core_deps =
  sha256 :: "byte list \<Rightarrow> byte list"
  base32_nopad :: "byte list \<Rightarrow> string"
  b64url_encode :: "byte list \<Rightarrow> string"
  b64url_decode :: "byte list \<Rightarrow> byte list option"
  cbor_from_reader :: "byte list \<Rightarrow> string + CborValue"

section \<open>Canonical values and their CBOR encoding\<close>

datatype CanonicalValue =
    CV_Unsigned u64
  | CV_Text string
  | CV_Bytes "byte list"
  | CV_Bool bool
  | CV_Array "CanonicalValue list"
  | CV_Map "(u64 \<times> CanonicalValue) list"

definition encode_major :: "u8 \<Rightarrow> u64 \<Rightarrow> byte list" where
  "encode_major major value =
     (if value \<le> 23 then [push_bit 5 major OR ucast value]
      else if value \<le> 0xff then [push_bit 5 major OR 24, ucast value]
      else if value \<le> 0xffff then (push_bit 5 major OR 25) # to_be_bytes 2 (unat value)
      else if value \<le> 0xffffffff then (push_bit 5 major OR 26) # to_be_bytes 4 (unat value)
      else (push_bit 5 major OR 27) # to_be_bytes 8 (unat value))"

fun encode_value :: "CanonicalValue \<Rightarrow> byte list" where
  "encode_value (CV_Unsigned number) = encode_major 0 number"
| "encode_value (CV_Bytes bytes) = encode_major 2 (usize_u64 (length bytes)) @ bytes"
| "encode_value (CV_Text text) = encode_major 3 (usize_u64 (length text)) @ as_bytes text"
| "encode_value (CV_Array items) =
     encode_major 4 (usize_u64 (length items)) @ concat (map encode_value items)"
| "encode_value (CV_Map entries) =
     encode_major 5 (usize_u64 (length entries)) @
     concat (map (\<lambda>e. encode_major 0 (fst e) @ encode_value (snd e)) entries)"
| "encode_value (CV_Bool b) = [if b then 0xf5 else 0xf4]"

definition encode_canonical_cbor :: "CanonicalValue \<Rightarrow> byte list" where
  "encode_canonical_cbor value = encode_value value"

definition cid_from_bytes :: "'x core_deps_scheme \<Rightarrow> byte list \<Rightarrow> string" where
  "cid_from_bytes D bytes = ''sha256-'' @ to_ascii_lowercase (base32_nopad D (sha256 D bytes))"

text \<open>\<open>if let Some(x) = field { map.insert(key, ..) }\<close>.\<close>

definition insert_some ::
  "u64 \<Rightarrow> ('a \<Rightarrow> CanonicalValue) \<Rightarrow> 'a option \<Rightarrow> (u64, CanonicalValue) btm
   \<Rightarrow> (u64, CanonicalValue) btm" where
  "insert_some k f x m = (case x of None \<Rightarrow> m | Some y \<Rightarrow> btm_insert k (f y) m)"

section \<open>The encoding is a prefix code\<close>

lemma bit_small_byte: "x < 2 ^ n \<Longrightarrow> bit (x :: byte) k \<Longrightarrow> k < n"
proof -
  assume x: "x < 2 ^ n" and b: "bit x k"
  have "take_bit n x = x"
  proof (cases "n < 8")
    case True
    then show ?thesis using x by (simp add: take_bit_eq_mod mod_word_less)
  next
    case False
    then show ?thesis by (simp add: take_bit_word_beyond_length_eq)
  qed
  then show "k < n" using b by (metis bit_take_bit_iff)
qed

lemma shift5_or: "m < 8 \<Longrightarrow> x < 32 \<Longrightarrow> unat (push_bit 5 m OR (x :: byte)) = 32 * unat m + unat x"
proof -
  assume m: "m < 8" and x: "x < 32"
  have "push_bit 5 m OR x = push_bit 5 m + x"
  proof (rule disjunctive_add [symmetric])
    fix k
    have "bit x k \<Longrightarrow> k < 5" using bit_small_byte [of x 5 k] x by simp
    then show "\<not> bit (push_bit 5 m) k \<or> \<not> bit x k" by (auto simp: bit_push_bit_iff)
  qed
  moreover have "push_bit 5 m = m * 32" by (simp add: push_bit_eq_mult)
  ultimately show ?thesis using m x 
   by (simp add: unat_word_ariths word_less_nat_alt)
qed

text \<open>The header of a CBOR item: the major type and the length class in the first byte.\<close>

definition major_head :: "u64 \<Rightarrow> byte \<times> nat" where
  "major_head v =
     (if v \<le> 23 then (ucast v, 0) else if v \<le> 0xff then (24, 1) else if v \<le> 0xffff then (25, 2)
      else if v \<le> 0xffffffff then (26, 4) else (27, 8))"

lemma encode_major_form:
  "encode_major m v =
     (push_bit 5 m OR fst (major_head v)) # to_be_bytes (snd (major_head v)) (unat v)"
proof (cases "23 < v \<and> v \<le> 0xff")
  case True
  then have "unat v mod 256 = unat v" by (simp add: word_le_nat_alt)
  then have "to_be_bytes 1 (unat v) = [ucast v]"
    by (simp add: of_nat_unat)
  then show ?thesis using True by (simp add: encode_major_def major_head_def)
next
  case False
  then show ?thesis by (auto simp: encode_major_def major_head_def)
qed

lemma major_head_small: "fst (major_head v) < 32"
proof (cases "v \<le> 23")
  case True
  then have "unat (ucast v :: byte) = unat v"
    by (simp add: word_le_nat_alt unsigned_ucast_eq take_bit_eq_mod)
  then have "(ucast v :: byte) < 32"
    using True by (simp add: word_le_nat_alt word_less_nat_alt)
  then show ?thesis using True by (simp add: major_head_def)
qed (simp add: major_head_def)

lemma major_head_fits: "v > 23 \<Longrightarrow> unat v < 256 ^ snd (major_head v)"
  using unsigned_less [of v, where 'a = nat]
  by (auto simp: major_head_def word_le_nat_alt word_less_nat_alt)

lemma major_head_inj:
  assumes "fst (major_head v) = fst (major_head w)"
  shows "snd (major_head v) = snd (major_head w) \<and> (v \<le> 23 \<longleftrightarrow> w \<le> 23) \<and> (v \<le> 23 \<longrightarrow> v = w)"
proof -
  have u: "unat (ucast x :: byte) = unat x" if "x \<le> (23 :: u64)" for x
    using that by (simp add: word_le_nat_alt unsigned_ucast_eq take_bit_eq_mod)
  have n: "unat (fst (major_head x)) \<le> 23 \<longleftrightarrow> x \<le> 23" for x
    using u [of x] by (auto simp: major_head_def word_le_nat_alt)
  have le: "v \<le> 23 \<longleftrightarrow> w \<le> 23" using assms n by metis
  show ?thesis
  proof (cases "v \<le> 23")
    case True
    with le have "w \<le> 23" by simp
    with True assms have "(ucast v :: byte) = ucast w" by (simp add: major_head_def)
    then have "unat v = unat w" using u True \<open>w \<le> 23\<close> by metis
    then have "v = w" by (simp only: word_unat_eq_iff)
    with True \<open>w \<le> 23\<close> show ?thesis by simp
  next
    case False
    with le assms show ?thesis by (auto simp: major_head_def split: if_splits)
  qed
qed

lemma div_mod_32_unique:
  assumes "32 * a + x = 32 * b + (y::nat)" "x < 32" "y < 32"
  shows "a = b \<and> x = y"
proof -
  have "(32 * a + x) div 32 = a" "(32 * b + y) div 32 = b"
    using assms(2,3) by simp_all
  then have "a = b" using assms(1) by simp
  then show ?thesis using assms(1) by simp
qed

lemma encode_major_prefix_free:
  assumes "m < 8" "n < 8" "encode_major m v @ xs = encode_major n w @ ys"
  shows "m = n \<and> v = w \<and> xs = ys"
proof -
  have head: "push_bit 5 m OR fst (major_head v) = push_bit 5 n OR fst (major_head w)"
    and tail: "to_be_bytes (snd (major_head v)) (unat v) @ xs =
               to_be_bytes (snd (major_head w)) (unat w) @ ys"
    using assms(3) by (simp_all add: encode_major_form)
  have "32 * unat m + unat (fst (major_head v)) = 32 * unat n + unat (fst (major_head w))"
    using head shift5_or [OF assms(1) major_head_small] shift5_or [OF assms(2) major_head_small]
    by metis
  moreover have "unat (fst (major_head v)) < 32" "unat (fst (major_head w)) < 32"
    using major_head_small by (simp_all add: word_less_nat_alt)
  ultimately have "unat m = unat n" "unat (fst (major_head v)) = unat (fst (major_head w))"
    using div_mod_32_unique by blast+
  then have m: "m = n" and eq: "fst (major_head v) = fst (major_head w)"
    by (simp_all only: word_unat_eq_iff)
  have sz: "snd (major_head v) = snd (major_head w)" and small: "v \<le> 23 \<longrightarrow> v = w"
    and le: "v \<le> 23 \<longleftrightarrow> w \<le> 23"
    using major_head_inj [OF eq] by blast+
  have bytes: "to_be_bytes (snd (major_head v)) (unat v) = to_be_bytes (snd (major_head w)) (unat w)"
    and rest: "xs = ys"
    using tail sz by (simp_all)
  have "v = w"
  proof (cases "v \<le> 23")
    case True
    then show ?thesis using small by simp
  next
    case False
    with le have "unat v < 256 ^ snd (major_head v)" "unat w < 256 ^ snd (major_head w)"
      using major_head_fits by auto
    then have "unat v = unat w"
      using bytes by (metis from_to_be_bytes)
    then show ?thesis by (simp only: word_unat_eq_iff)
  qed
  with m rest show ?thesis by simp
qed

text \<open>
  Lengths that fit into the 64-bit length field. Every value of a running program does: a
  Rust allocation is shorter than \<open>2\<^sup>6\<^sup>3\<close> bytes.
\<close>

fun cv_ok :: "CanonicalValue \<Rightarrow> bool" where
  "cv_ok (CV_Text t) = (length t < 2 ^ 64)"
| "cv_ok (CV_Bytes b) = (length b < 2 ^ 64)"
| "cv_ok (CV_Array xs) = (length xs < 2 ^ 64 \<and> (\<forall>x\<in>set xs. cv_ok x))"
| "cv_ok (CV_Map es) = (length es < 2 ^ 64 \<and> (\<forall>e\<in>set es. cv_ok (snd e)))"
| "cv_ok _ = True"

lemma usize_u64_inject:
  "a < 2 ^ 64 \<Longrightarrow> b < 2 ^ 64 \<Longrightarrow> usize_u64 a = usize_u64 b \<longleftrightarrow> a = b"
  by (auto simp: usize_u64_def word_unat_eq_iff unat_of_nat take_bit_eq_mod)

definition prefix_code_at :: "'a set \<Rightarrow> ('a \<Rightarrow> byte list) \<Rightarrow> 'a \<Rightarrow> bool" where
  "prefix_code_at A enc x \<longleftrightarrow>
     (\<forall>y xs ys. y \<in> A \<longrightarrow> enc x @ xs = enc y @ ys \<longrightarrow> x = y \<and> xs = ys)"

lemma concat_prefix_code:
  assumes "\<And>x. x \<in> set as \<Longrightarrow> prefix_code_at A enc x" "set bs \<subseteq> A" "length as = length bs"
    and "concat (map enc as) @ xs = concat (map enc bs) @ ys"
  shows "as = bs \<and> xs = ys"
  using assms(3,1,2,4)
proof (induction as bs arbitrary: xs ys rule: list_induct2)
  case Nil
  then show ?case by simp
next
  case (Cons a as b bs)
  from Cons.prems(3) have eq: "enc a @ (concat (map enc as) @ xs) = enc b @ (concat (map enc bs) @ ys)"
    by simp
  have "prefix_code_at A enc a" "b \<in> A" using Cons.prems(1,2) by auto
  then have "a = b \<and> concat (map enc as) @ xs = concat (map enc bs) @ ys"
    using eq unfolding prefix_code_at_def by blast
  then show ?case using Cons.IH [of xs ys] Cons.prems(1,2) by auto
qed

fun cv_major :: "CanonicalValue \<Rightarrow> u8" where
  "cv_major (CV_Unsigned _) = 0"
| "cv_major (CV_Bytes _) = 2"
| "cv_major (CV_Text _) = 3"
| "cv_major (CV_Array _) = 4"
| "cv_major (CV_Map _) = 5"
| "cv_major (CV_Bool _) = 7"

fun cv_arg :: "CanonicalValue \<Rightarrow> u64" where
  "cv_arg (CV_Unsigned n) = n"
| "cv_arg (CV_Bytes b) = usize_u64 (length b)"
| "cv_arg (CV_Text t) = usize_u64 (length t)"
| "cv_arg (CV_Array xs) = usize_u64 (length xs)"
| "cv_arg (CV_Map es) = usize_u64 (length es)"
| "cv_arg (CV_Bool b) = (if b then 21 else 20)"

abbreviation encode_entry :: "u64 \<times> CanonicalValue \<Rightarrow> byte list" where
  "encode_entry e \<equiv> encode_major 0 (fst e) @ encode_value (snd e)"

fun cv_body :: "CanonicalValue \<Rightarrow> byte list" where
  "cv_body (CV_Bytes b) = b"
| "cv_body (CV_Text t) = as_bytes t"
| "cv_body (CV_Array xs) = concat (map encode_value xs)"
| "cv_body (CV_Map es) = concat (map encode_entry es)"
| "cv_body _ = []"

lemma encode_value_form: "encode_value v = encode_major (cv_major v) (cv_arg v) @ cv_body v"
  by (cases v) (auto simp: encode_major_def)

lemma cv_major_small: "cv_major v < 8"
  by (cases v) auto

lemma encode_value_split:
  assumes "encode_value x @ xs = encode_value y @ ys"
  shows "cv_major x = cv_major y \<and> cv_arg x = cv_arg y \<and> cv_body x @ xs = cv_body y @ ys"
  using encode_major_prefix_free [OF cv_major_small cv_major_small,
      of x "cv_arg x" "cv_body x @ xs" y "cv_arg y" "cv_body y @ ys"] assms
  by (simp add: encode_value_form)

lemma encode_entry_prefix_code:
  assumes "prefix_code_at {y. cv_ok y} encode_value (snd e)"
  shows "prefix_code_at {d. cv_ok (snd d)} encode_entry e"
  unfolding prefix_code_at_def
proof (intro allI impI)
  fix d xs ys
  assume d: "d \<in> {d. cv_ok (snd d)}" and eq: "encode_entry e @ xs = encode_entry d @ ys"
  then have "fst e = fst d \<and> encode_value (snd e) @ xs = encode_value (snd d) @ ys"
    using encode_major_prefix_free [of 0 0 "fst e" "encode_value (snd e) @ xs" "fst d"
        "encode_value (snd d) @ ys"] by simp
  then show "e = d \<and> xs = ys"
    using assms d unfolding prefix_code_at_def by (metis mem_Collect_eq prod_eq_iff)
qed

lemma encode_value_prefix_code:
  "cv_ok x \<Longrightarrow> prefix_code_at {y. cv_ok y} encode_value x"
proof (induction x rule: encode_value.induct)
  case (4 items)
  show ?case
    unfolding prefix_code_at_def
  proof (intro allI impI)
    fix y xs ys
    assume y: "y \<in> {y. cv_ok y}" and eq: "encode_value (CV_Array items) @ xs = encode_value y @ ys"
    note sp = encode_value_split [OF eq]
    from sp obtain items' where y': "y = CV_Array items'" by (cases y) auto
    have "length items = length items'"
      using sp y y' 4(2) by (simp add: usize_u64_inject)
    moreover have "set items' \<subseteq> {y. cv_ok y}" using y y' by auto
    ultimately show "CV_Array items = y \<and> xs = ys"
      using concat_prefix_code [of items "{y. cv_ok y}" encode_value items' xs ys] 4 sp y'
      by auto
  qed
next
  case (5 es)
  show ?case
    unfolding prefix_code_at_def
  proof (intro allI impI)
    fix y xs ys
    assume y: "y \<in> {y. cv_ok y}" and eq: "encode_value (CV_Map es) @ xs = encode_value y @ ys"
    note sp = encode_value_split [OF eq]
    from sp obtain es' where y': "y = CV_Map es'" by (cases y) auto
    have "length es = length es'"
      using sp y y' 5(2) by (simp add: usize_u64_inject)
    moreover have "set es' \<subseteq> {d. cv_ok (snd d)}" using y y' by auto
    moreover have "prefix_code_at {d. cv_ok (snd d)} encode_entry e" if "e \<in> set es" for e
      using 5 that by (intro encode_entry_prefix_code) auto
    ultimately show "CV_Map es = y \<and> xs = ys"
      using concat_prefix_code [of es "{d. cv_ok (snd d)}" encode_entry es' xs ys] sp y'
      by auto
  qed
qed (auto simp: prefix_code_at_def usize_u64_inject simp del: encode_value.simps
    dest!: encode_value_split elim!: cv_major.elims split: if_splits)

lemma encode_canonical_cbor_inject:
  "cv_ok x \<Longrightarrow> cv_ok y \<Longrightarrow> encode_canonical_cbor x = encode_canonical_cbor y \<longleftrightarrow> x = y"
  using encode_value_prefix_code [of x] unfolding prefix_code_at_def encode_canonical_cbor_def
  by (metis append_Nil2 mem_Collect_eq)

text \<open>
  C21. The canonical CBOR of the protocol is a prefix code: two encodings, with anything behind
  them, agree only when the values and what follows agree. Records that are written one after the
  other are read back without a separator, and equal bytes mean equal values.
\<close>

theorem encode_canonical_cbor_prefix_free:
  assumes "cv_ok x" "cv_ok y"
  shows "encode_canonical_cbor x @ xs = encode_canonical_cbor y @ ys \<longleftrightarrow> x = y \<and> xs = ys"
  using encode_value_prefix_code [OF assms(1)] assms(2)
  unfolding prefix_code_at_def encode_canonical_cbor_def by blast

theorem encode_canonical_cbor_prefix_free_witness:
  "let x = CV_Array [CV_Unsigned 500, CV_Text ''a'']; y = CV_Array [CV_Unsigned 500]
   in encode_canonical_cbor x @ [] \<noteq> encode_canonical_cbor y @ [0x61, 0x61]"
  using encode_canonical_cbor_prefix_free
    [of "CV_Array [CV_Unsigned 500, CV_Text ''a'']" "CV_Array [CV_Unsigned 500]" "[]" "[0x61, 0x61]"]
  by (simp add: Let_def)

text \<open>The \<open>ciborium::Value\<close> that a canonical value reads back as.\<close>

fun cbor_of :: "CanonicalValue \<Rightarrow> CborValue" where
  "cbor_of (CV_Unsigned n) = Cb_Integer (uint n)"
| "cbor_of (CV_Text t) = Cb_Text t"
| "cbor_of (CV_Bytes b) = Cb_Bytes b"
| "cbor_of (CV_Bool b) = Cb_Bool b"
| "cbor_of (CV_Array xs) = Cb_Array (map cbor_of xs)"
| "cbor_of (CV_Map es) = Cb_Map (map (\<lambda>e. (Cb_Integer (uint (fst e)), cbor_of (snd e))) es)"

section \<open>A reference instance of the third-party code\<close>

text \<open>
  An executable instance of \<open>core_deps\<close> that satisfies every law the theorems assume, so that
  the laws are seen to hold together: the reader of definite-length CBOR items of RFC 8949, a
  two-letters-per-byte text encoding in place of base32 and base64, and the identity in place of
  SHA-256.
\<close>

definition rd_head :: "byte list \<Rightarrow> (nat \<times> nat \<times> byte list) option" where
  "rd_head bs =
     (case bs of
        [] \<Rightarrow> None
      | b # r \<Rightarrow>
          let m = unat b div 32; i = unat b mod 32;
              wide = (\<lambda>k. if k \<le> length r then Some (m, from_be_bytes (take k r), drop k r) else None)
          in if i \<le> 23 then Some (m, i, r)
             else if i = 24 then wide 1 else if i = 25 then wide 2 else if i = 26 then wide 4
             else if i = 27 then wide 8 else None)"

primrec rd_many :: "(byte list \<Rightarrow> ('a \<times> byte list) option) \<Rightarrow> nat \<Rightarrow> byte list \<Rightarrow> ('a list \<times> byte list) option" where
  "rd_many rd 0 bs = Some ([], bs)"
| "rd_many rd (Suc n) bs =
     (case rd bs of
        None \<Rightarrow> None
      | Some (x, r) \<Rightarrow>
          (case rd_many rd n r of None \<Rightarrow> None | Some (xs, r') \<Rightarrow> Some (x # xs, r')))"

definition rd_pair :: "(byte list \<Rightarrow> ('a \<times> byte list) option) \<Rightarrow> byte list \<Rightarrow> (('a \<times> 'a) \<times> byte list) option" where
  "rd_pair rd bs =
     (case rd bs of
        None \<Rightarrow> None
      | Some (k, r) \<Rightarrow> (case rd r of None \<Rightarrow> None | Some (v, r') \<Rightarrow> Some ((k, v), r')))"

primrec rd_item :: "nat \<Rightarrow> byte list \<Rightarrow> (CborValue \<times> byte list) option" where
  "rd_item 0 bs = None"
| "rd_item (Suc fuel) bs =
     (case rd_head bs of
        None \<Rightarrow> None
      | Some (m, n, r) \<Rightarrow>
          if m = 0 then Some (Cb_Integer (int n), r)
          else if m = 2 then
            if n \<le> length r then Some (Cb_Bytes (take n r), drop n r) else None
          else if m = 3 then
            if n \<le> length r then Some (Cb_Text (from_bytes (take n r)), drop n r) else None
          else if m = 4 then map_option (map_prod Cb_Array id) (rd_many (rd_item fuel) n r)
          else if m = 5 then map_option (map_prod Cb_Map id) (rd_many (rd_pair (rd_item fuel)) n r)
          else if m = 7 \<and> n = 20 then Some (Cb_Bool False, r)
          else if m = 7 \<and> n = 21 then Some (Cb_Bool True, r)
          else None)"

definition ref_cbor_from_reader :: "byte list \<Rightarrow> string + CborValue" where
  "ref_cbor_from_reader bs =
     (case rd_item (Suc (length bs)) bs of None \<Rightarrow> Err ''malformed item'' | Some (v, _) \<Rightarrow> Ok v)"

text \<open>The writer that \<open>rd_item\<close> inverts.\<close>

fun wr_item :: "CborValue \<Rightarrow> byte list" where
  "wr_item (Cb_Integer i) = encode_major 0 (word_of_int i)"
| "wr_item (Cb_Bytes b) = encode_major 2 (usize_u64 (length b)) @ b"
| "wr_item (Cb_Text t) = encode_major 3 (usize_u64 (length t)) @ as_bytes t"
| "wr_item (Cb_Array xs) = encode_major 4 (usize_u64 (length xs)) @ concat (map wr_item xs)"
| "wr_item (Cb_Map es) =
     encode_major 5 (usize_u64 (length es)) @ concat (map (\<lambda>e. wr_item (fst e) @ wr_item (snd e)) es)"
| "wr_item (Cb_Bool b) = [if b then 0xf5 else 0xf4]"
| "wr_item _ = []"

fun cb_ok :: "CborValue \<Rightarrow> bool" where
  "cb_ok (Cb_Integer i) = (0 \<le> i \<and> i < 2 ^ 64)"
| "cb_ok (Cb_Bytes b) = (length b < 2 ^ 64)"
| "cb_ok (Cb_Text t) = (length t < 2 ^ 64)"
| "cb_ok (Cb_Array xs) = (length xs < 2 ^ 64 \<and> (\<forall>x\<in>set xs. cb_ok x))"
| "cb_ok (Cb_Map es) = (length es < 2 ^ 64 \<and> (\<forall>e\<in>set es. cb_ok (fst e) \<and> cb_ok (snd e)))"
| "cb_ok (Cb_Bool b) = True"
| "cb_ok _ = False"

definition ref_text_encode :: "byte list \<Rightarrow> string" where
  "ref_text_encode bs =
     concat (map (\<lambda>b. [char_of (97 + unat b div 16), char_of (97 + unat b mod 16)]) bs)"

fun ref_text_decode :: "byte list \<Rightarrow> byte list option" where
  "ref_text_decode [] = Some []"
| "ref_text_decode [b] = None"
| "ref_text_decode (h # l # r) =
     map_option (Cons (of_nat ((unat h - 97) * 16 + (unat l - 97)))) (ref_text_decode r)"

definition ref_core_deps :: core_deps where
  "ref_core_deps =
     \<lparr>sha256 = (\<lambda>bs. bs), base32_nopad = ref_text_encode, b64url_encode = ref_text_encode,
      b64url_decode = ref_text_decode, cbor_from_reader = ref_cbor_from_reader\<rparr>"

lemma rd_head_encode:
  assumes "m < 8"
  shows "rd_head (encode_major m v @ r) = Some (unat m, unat v, r)"
proof -
  let ?h = "fst (major_head v)" and ?k = "snd (major_head v)"
  have b: "unat (push_bit 5 m OR ?h) = 32 * unat m + unat ?h"
    by (rule shift5_or [OF assms major_head_small])
  have h: "unat ?h < 32" using major_head_small [of v] by (simp add: word_less_nat_alt)
  have dm: "unat (push_bit 5 m OR ?h) div 32 = unat m" "unat (push_bit 5 m OR ?h) mod 32 = unat ?h"
    using b h by simp_all
  show ?thesis
  proof (cases "v \<le> 23")
    case True
    then have "unat ?h = unat v" "?k = 0"
      by (simp_all add: major_head_def word_le_nat_alt unsigned_ucast_eq take_bit_eq_mod)
    then show ?thesis using dm True
      by (simp add: encode_major_form rd_head_def word_le_nat_alt)
  next
    case False
    then have "from_be_bytes (to_be_bytes ?k (unat v)) = unat v"
      using major_head_fits [of v] by (intro from_to_be_bytes) simp
    then show ?thesis using dm False
      by (auto simp: encode_major_form rd_head_def major_head_def Let_def split: if_splits)
  qed
qed

lemma rd_many_encode:
  assumes "\<And>x r. x \<in> set xs \<Longrightarrow> rd (enc x @ r) = Some (f x, r)"
  shows "rd_many rd (length xs) (concat (map enc xs) @ r) = Some (map f xs, r)"
  using assms by (induction xs) simp_all

lemma length_encode_major: "0 < length (encode_major m v)"
  by (simp add: encode_major_form)

lemma length_concat_mem: "x \<in> set xs \<Longrightarrow> length (enc x) \<le> length (concat (map enc xs))"
  by (induction xs) auto

lemma unat_usize: "n < 2 ^ 64 \<Longrightarrow> unat (usize_u64 n) = n"
  by (simp add: usize_u64_def unat_of_nat take_bit_eq_mod)

abbreviation wr_entry :: "CborValue \<times> CborValue \<Rightarrow> byte list" where
  "wr_entry e \<equiv> wr_item (fst e) @ wr_item (snd e)"

lemma rd_item_wr:
  "cb_ok v \<Longrightarrow> length (wr_item v) \<le> fuel \<Longrightarrow> rd_item fuel (wr_item v @ r) = Some (v, r)"
proof (induction v arbitrary: fuel r rule: wr_item.induct)
  case (4 items)
  obtain f where f: "fuel = Suc f" "length (concat (map wr_item items)) \<le> f"
    using 4(3) length_encode_major [of 4 "usize_u64 (length items)"]
    by (cases fuel) (simp_all del: length_greater_0_conv length_concat)
  have "rd_item f (wr_item x @ r) = Some (x, r)" if "x \<in> set items" for x r
    using that 4 f(2) length_concat_mem [OF that, of wr_item] by simp
  then have "rd_many (rd_item f) (length items) (concat (map wr_item items) @ r)
      = Some (map (\<lambda>x. x) items, r)"
    by (rule rd_many_encode)
  then show ?case using f 4(2) by (simp add: rd_head_encode unat_usize)
next
  case (5 es)
  obtain f where f: "fuel = Suc f" "length (concat (map wr_entry es)) \<le> f"
    using 5(4) length_encode_major [of 5 "usize_u64 (length es)"]
    by (cases fuel) (simp_all del: length_greater_0_conv length_concat)
  have "rd_pair (rd_item f) (wr_entry e @ r) = Some (e, r)" if e: "e \<in> set es" for e r
  proof -
    have le: "length (wr_entry e) \<le> f"
      using f(2) length_concat_mem [OF e, of wr_entry] by simp
    then have "rd_item f (wr_item (snd e) @ r) = Some (snd e, r)"
      "rd_item f (wr_item (fst e) @ s) = Some (fst e, s)" for s
      using 5 e by simp_all
    then show ?thesis by (simp add: rd_pair_def)
  qed
  then have "rd_many (rd_pair (rd_item f)) (length es) (concat (map wr_entry es) @ r)
      = Some (map (\<lambda>e. e) es, r)"
    by (rule rd_many_encode)
  then show ?case using f 5(3) by (simp add: rd_head_encode unat_usize)
next
  case (1 i)
  then show ?case using length_encode_major [of 0 "word_of_int i"]
    by (cases fuel) (auto simp: rd_head_encode unsigned_of_int take_bit_int_eq_self)
next
  case (2 b)
  then show ?case using length_encode_major [of 2 "usize_u64 (length b)"]
    by (cases fuel) (auto simp: rd_head_encode unat_usize)
next
  case (3 t)
  then show ?case using length_encode_major [of 3 "usize_u64 (length t)"]
    by (cases fuel) (auto simp: rd_head_encode unat_usize)
next
  case (6 b)
  then show ?case by (cases fuel) (auto simp: rd_head_def)
qed simp_all

lemma wr_item_cbor_of: "wr_item (cbor_of v) = encode_value v"
  by (induction v rule: encode_value.induct) (auto simp: comp_def intro!: arg_cong [where f = concat])

lemma uint_u64_less: "uint (n :: u64) < 18446744073709551616"
  using unsigned_less [of n, where 'a = int] by simp

lemma cb_ok_cbor_of: "cb_ok (cbor_of v) = cv_ok v"
  by (induction v rule: encode_value.induct) (auto simp: uint_u64_less)

lemma ref_cbor_reads_item: "cb_ok v \<Longrightarrow> ref_cbor_from_reader (wr_item v) = Ok v"
  using rd_item_wr [of v "Suc (length (wr_item v))" "[]"] by (simp add: ref_cbor_from_reader_def)

lemma ref_cbor_reads: "cv_ok v \<Longrightarrow> ref_cbor_from_reader (encode_canonical_cbor v) = Ok (cbor_of v)"
  using ref_cbor_reads_item [of "cbor_of v"]
  by (simp add: encode_canonical_cbor_def wr_item_cbor_of cb_ok_cbor_of)

lemma ref_text_decode_encode [simp]: "ref_text_decode (as_bytes (ref_text_encode bs)) = Some bs"
proof (induction bs)
  case Nil
  then show ?case by (simp add: ref_text_encode_def as_bytes_def)
next
  case (Cons b bs)
  have "unat b < 256" using unsigned_less [of b, where 'a = nat] by simp
  then have "(97 + unat b div 16) mod 256 = 97 + unat b div 16"
    "(97 + unat b mod 16) mod 256 = 97 + unat b mod 16"
    by simp_all
  moreover have "of_nat (unat b div 16 * 16 + unat b mod 16) = b" by simp
  ultimately show ?case using Cons
    by (simp add: ref_text_encode_def as_bytes_def)
qed

lemma ref_text_encode_lower [simp]: "to_ascii_lowercase (ref_text_encode bs) = ref_text_encode bs"
proof (induction bs)
  case Nil
  then show ?case by (simp add: ref_text_encode_def to_ascii_lowercase_def)
next
  case (Cons b bs)
  have "unat b < 256" using unsigned_less [of b, where 'a = nat] by simp
  then have "(97 + unat b div 16) mod 256 = 97 + unat b div 16"
    "(97 + unat b mod 16) mod 256 = 97 + unat b mod 16"
    by simp_all
  with Cons show ?case
    by (simp add: ref_text_encode_def to_ascii_lowercase_def ascii_lower_def)
qed

end
