(* ===== verification/HSP_Core.thy ===== *)
theory HSP_Core
  imports HSP_Cbor
begin

text \<open>
  The crate \<open>crates/hsp-core\<close>: the protocol's data types, the validation of manifests,
  selectors and namespace records, their canonical values and content identifiers, and the two
  page cursors. Struct fields carry a short prefix of their struct's name, since HOL record
  fields are global.
\<close>

section \<open>Identifiers, enumerations, errors\<close>

datatype TenantId = TenantId (tenant_str: string)
datatype KeyPolicyId = KeyPolicyId (key_policy_str: string)
datatype EncryptionProfileId = EncryptionProfileId (encryption_profile_str: string)

type_synonym metadata = "(string, string) btm"

datatype VisibilityMode = ServerVisible | EncryptedOnly | Split

fun visibility_as_str :: "VisibilityMode \<Rightarrow> string" where
  "visibility_as_str ServerVisible = ''server_visible''"
| "visibility_as_str EncryptedOnly = ''encrypted_only''"
| "visibility_as_str Split = ''split''"

datatype CapabilityScope =
    Sc_Read | Sc_Write | Sc_Bind | Sc_Unbind | Sc_List | Sc_Subscribe | Sc_Pin | Sc_Replicate
  | Sc_AdminMetricsRead | Sc_AdminAuditRead | Sc_AdminRepair | Sc_AdminKeyRotate
  | Sc_AdminPolicyWrite

fun scope_as_str :: "CapabilityScope \<Rightarrow> string" where
  "scope_as_str Sc_Read = ''read''"
| "scope_as_str Sc_Write = ''write''"
| "scope_as_str Sc_Bind = ''bind''"
| "scope_as_str Sc_Unbind = ''unbind''"
| "scope_as_str Sc_List = ''list''"
| "scope_as_str Sc_Subscribe = ''subscribe''"
| "scope_as_str Sc_Pin = ''pin''"
| "scope_as_str Sc_Replicate = ''replicate''"
| "scope_as_str Sc_AdminMetricsRead = ''admin.metrics.read''"
| "scope_as_str Sc_AdminAuditRead = ''admin.audit.read''"
| "scope_as_str Sc_AdminRepair = ''admin.repair''"
| "scope_as_str Sc_AdminKeyRotate = ''admin.key.rotate''"
| "scope_as_str Sc_AdminPolicyWrite = ''admin.policy.write''"

datatype OperationName =
    Op_Info | Op_Head | Op_Get | Op_Resolve | Op_Bind | Op_Unbind | Op_List | Op_Subscribe
  | Op_PutInit | Op_PutChunk | Op_PutCommit

fun operation_as_str :: "OperationName \<Rightarrow> string" where
  "operation_as_str Op_Info = ''INFO''"
| "operation_as_str Op_Head = ''HEAD''"
| "operation_as_str Op_Get = ''GET''"
| "operation_as_str Op_Resolve = ''RESOLVE''"
| "operation_as_str Op_Bind = ''BIND''"
| "operation_as_str Op_Unbind = ''UNBIND''"
| "operation_as_str Op_List = ''LIST''"
| "operation_as_str Op_Subscribe = ''SUBSCRIBE''"
| "operation_as_str Op_PutInit = ''PUT_INIT''"
| "operation_as_str Op_PutChunk = ''PUT_CHUNK''"
| "operation_as_str Op_PutCommit = ''PUT_COMMIT''"

definition is_mutation :: "OperationName \<Rightarrow> bool" where
  "is_mutation op \<longleftrightarrow> op \<in> {Op_Bind, Op_Unbind, Op_PutInit, Op_PutChunk, Op_PutCommit}"

datatype ApiErrorCategory =
    Cat_Auth | Cat_Replay | Cat_Policy | Cat_Validation | Cat_Unsupported | Cat_NotFound
  | Cat_Conflict | Cat_Storage

record ApiError =
  err_category :: ApiErrorCategory
  err_code :: string
  err_message :: string

definition api_error :: "ApiErrorCategory \<Rightarrow> string \<Rightarrow> string \<Rightarrow> ApiError" where
  "api_error category code message =
     \<lparr>err_category = category, err_code = code, err_message = message\<rparr>"

definition api_error_display :: "ApiError \<Rightarrow> string" where
  "api_error_display e = err_code e @ '': '' @ err_message e"

section \<open>Service descriptions\<close>

record ServiceLimits =
  lim_max_chunk_size :: u64
  lim_max_manifest_size :: u64
  lim_max_object_size :: u64
  lim_max_parallel_chunk_streams :: u16

record BootstrapNativeEndpoint =
  bn_alpn :: string
  bn_host :: string
  bn_port :: u16

record BootstrapGatewayEndpoint =
  bg_base_url :: string

record BootstrapDocument =
  bd_version :: u8
  bd_authority :: string
  bd_native :: BootstrapNativeEndpoint
  bd_gateway :: BootstrapGatewayEndpoint
  bd_e2ee_required :: bool
  bd_storage_encryption_required :: bool
  bd_crypto_suite :: "string list"
  bd_key_wrapping_suite :: string
  bd_tenant_isolation_profile :: string
  bd_supported_token_profiles :: "string list"
  bd_supported_extensions :: "string list"
  bd_limits_revision :: u64
  bd_limits :: ServiceLimits

record InfoResponse =
  ir_version :: u8
  ir_authority_profile :: string
  ir_e2ee_required :: bool
  ir_storage_encryption_required :: bool
  ir_crypto_suite :: "string list"
  ir_key_wrapping_suite :: string
  ir_tenant_isolation_profile :: string
  ir_supported_token_profiles :: "string list"
  ir_supported_extensions :: "string list"
  ir_limits_revision :: u64
  ir_limits :: ServiceLimits

section \<open>Manifests\<close>

definition metadata_map_to_canonical_value :: "metadata \<Rightarrow> CanonicalValue" where
  "metadata_map_to_canonical_value metadata =
     CV_Array (map (\<lambda>(key, value). CV_Array [CV_Text key, CV_Text value]) metadata)"

record WrappedObjectKeyRecord =
  wk_recipient_key_id :: string
  wk_wrapping_suite :: string
  wk_wrapped_key_b64 :: string
  wk_key_version :: u32
  wk_encapsulated_key_b64 :: "string option"

definition wrapped_key_canonical_value :: "WrappedObjectKeyRecord \<Rightarrow> CanonicalValue" where
  "wrapped_key_canonical_value k =
     (let map = btm_insert 1 (CV_Text (wk_recipient_key_id k)) [];
          map = btm_insert 2 (CV_Text (wk_wrapping_suite k)) map;
          map = btm_insert 3 (CV_Text (wk_wrapped_key_b64 k)) map;
          map = btm_insert 4 (CV_Unsigned (ucast (wk_key_version k))) map;
          map = insert_some 5 CV_Text (wk_encapsulated_key_b64 k) map
      in CV_Map map)"

record EncryptionDescriptor =
  ed_encryption_profile_id :: EncryptionProfileId
  ed_key_policy_id :: KeyPolicyId
  ed_content_encryption_suite :: string
  ed_key_wrapping_suite :: string
  ed_metadata_visibility :: VisibilityMode
  ed_wrapped_object_keys :: "WrappedObjectKeyRecord list"
  ed_server_visible_metadata :: metadata
  ed_encrypted_client_metadata :: metadata

definition descriptor_validate :: "EncryptionDescriptor \<Rightarrow> ApiError + unit" where
  "descriptor_validate d =
     (if trim (ed_content_encryption_suite d) = [] then
        Err (api_error Cat_Validation ''missing_content_encryption_suite''
               ''content_encryption_suite must be set'')
      else if trim (ed_key_wrapping_suite d) = [] then
        Err (api_error Cat_Validation ''missing_key_wrapping_suite''
               ''key_wrapping_suite must be set'')
      else if ed_wrapped_object_keys d = [] then
        Err (api_error Cat_Validation ''missing_wrapped_object_keys''
               ''at least one wrapped object key record is required'')
      else Ok ())"

definition descriptor_canonical_value :: "EncryptionDescriptor \<Rightarrow> CanonicalValue" where
  "descriptor_canonical_value d =
     (let map = btm_insert 1 (CV_Text (encryption_profile_str (ed_encryption_profile_id d))) [];
          map = btm_insert 2 (CV_Text (key_policy_str (ed_key_policy_id d))) map;
          map = btm_insert 3 (CV_Text (ed_content_encryption_suite d)) map;
          map = btm_insert 4 (CV_Text (ed_key_wrapping_suite d)) map;
          map = btm_insert 5 (CV_Text (visibility_as_str (ed_metadata_visibility d))) map;
          map = btm_insert 6
                  (CV_Array (List.map wrapped_key_canonical_value (ed_wrapped_object_keys d))) map;
          map = btm_insert 7 (metadata_map_to_canonical_value (ed_server_visible_metadata d)) map;
          map = btm_insert 8 (metadata_map_to_canonical_value (ed_encrypted_client_metadata d)) map
      in CV_Map map)"

record ChunkRef =
  cr_chunk_index :: u32
  cr_cid :: string
  cr_offset :: u64
  cr_logical_len :: u64
  cr_stored_len :: u64
  cr_content_encoding :: string

definition chunk_ref_canonical_value :: "ChunkRef \<Rightarrow> CanonicalValue" where
  "chunk_ref_canonical_value c =
     (let map = btm_insert 1 (CV_Text (cr_cid c)) [];
          map = btm_insert 2 (CV_Unsigned (ucast (cr_chunk_index c))) map;
          map = btm_insert 3 (CV_Unsigned (cr_offset c)) map;
          map = btm_insert 4 (CV_Unsigned (cr_logical_len c)) map;
          map = btm_insert 5 (CV_Unsigned (cr_stored_len c)) map;
          map = btm_insert 6 (CV_Text (cr_content_encoding c)) map
      in CV_Map map)"

record Manifest =
  mf_version :: u8
  mf_tenant_id :: TenantId
  mf_logical_size :: u64
  mf_stored_size :: u64
  mf_chunker :: string
  mf_chunk_refs :: "ChunkRef list"
  mf_content_type :: string
  mf_created_at_ms :: u64
  mf_encryption_descriptor :: EncryptionDescriptor

definition manifest_validate :: "Manifest \<Rightarrow> ApiError + unit" where
  "manifest_validate m =
     (if mf_chunk_refs m = [] then
        Err (api_error Cat_Validation ''empty_chunk_refs''
               ''manifest must contain at least one chunk reference'')
      else if mf_stored_size m = 0 \<or> mf_logical_size m = 0 then
        Err (api_error Cat_Validation ''zero_sized_manifest''
               ''logical_size and stored_size must be non-zero'')
      else descriptor_validate (mf_encryption_descriptor m))"

definition manifest_canonical_value :: "Manifest \<Rightarrow> CanonicalValue" where
  "manifest_canonical_value m =
     (let map = btm_insert 1 (CV_Unsigned (ucast (mf_version m))) [];
          map = btm_insert 2 (CV_Text (tenant_str (mf_tenant_id m))) map;
          map = btm_insert 3 (CV_Unsigned (mf_logical_size m)) map;
          map = btm_insert 4 (CV_Unsigned (mf_stored_size m)) map;
          map = btm_insert 5 (CV_Text (mf_chunker m)) map;
          map = btm_insert 6
                  (CV_Array (List.map chunk_ref_canonical_value (mf_chunk_refs m))) map;
          map = btm_insert 7 (CV_Text (mf_content_type m)) map;
          map = btm_insert 8 (CV_Unsigned (mf_created_at_ms m)) map;
          map = btm_insert 9 (descriptor_canonical_value (mf_encryption_descriptor m)) map
      in CV_Map map)"

definition manifest_canonical_cbor_bytes :: "Manifest \<Rightarrow> byte list" where
  "manifest_canonical_cbor_bytes m = encode_canonical_cbor (manifest_canonical_value m)"

definition manifest_cid :: "'x core_deps_scheme \<Rightarrow> Manifest \<Rightarrow> string" where
  "manifest_cid D m = cid_from_bytes D (manifest_canonical_cbor_bytes m)"

section \<open>Capabilities\<close>

record ChannelBindingProof =
  cb_binding_kind :: string
  cb_proof_b64 :: string
  cb_nonce :: string

record CapabilityClaims =
  cl_iss :: string
  cl_sub :: string
  cl_aud :: string
  cl_exp :: u64
  cl_nbf :: "u64 option"
  cl_jti :: "string option"
  cl_ops :: "CapabilityScope list"
  cl_tenant_id :: TenantId
  cl_namespace_prefix :: "string option"
  cl_path_prefix :: "string option"
  cl_max_object_size :: "u64 option"
  cl_storage_classes :: "string list"
  cl_key_policy_id :: "KeyPolicyId option"
  cl_metadata_visibility :: "VisibilityMode option"

definition claims_canonical_value :: "CapabilityClaims \<Rightarrow> CanonicalValue" where
  "claims_canonical_value c =
     (let map = btm_insert 1 (CV_Text (cl_iss c)) [];
          map = btm_insert 2 (CV_Text (cl_sub c)) map;
          map = btm_insert 3 (CV_Text (cl_aud c)) map;
          map = btm_insert 4 (CV_Unsigned (cl_exp c)) map;
          map = insert_some 5 CV_Unsigned (cl_nbf c) map;
          map = insert_some 6 CV_Text (cl_jti c) map;
          map = btm_insert 7 (CV_Array (List.map (\<lambda>scope. CV_Text (scope_as_str scope)) (cl_ops c))) map;
          map = btm_insert 8 (CV_Text (tenant_str (cl_tenant_id c))) map;
          map = insert_some 9 CV_Text (cl_namespace_prefix c) map;
          map = insert_some 10 CV_Text (cl_path_prefix c) map;
          map = insert_some 11 CV_Unsigned (cl_max_object_size c) map;
          map = btm_insert 12 (CV_Array (List.map CV_Text (cl_storage_classes c))) map;
          map = insert_some 13 (\<lambda>k. CV_Text (key_policy_str k)) (cl_key_policy_id c) map;
          map = insert_some 14 (\<lambda>v. CV_Text (visibility_as_str v)) (cl_metadata_visibility c) map
      in CV_Map map)"

definition claims_canonical_cbor_bytes :: "CapabilityClaims \<Rightarrow> byte list" where
  "claims_canonical_cbor_bytes c = encode_canonical_cbor (claims_canonical_value c)"

section \<open>Selectors and namespace mutations\<close>

datatype ObjectSelectorKind = Sel_Cid | Sel_Namespace

record ObjectSelector =
  sel_kind :: ObjectSelectorKind
  sel_cid :: "string option"
  sel_namespace :: "string option"
  sel_path :: "string option"

definition selector_cid :: "string \<Rightarrow> ObjectSelector" where
  "selector_cid cid =
     \<lparr>sel_kind = Sel_Cid, sel_cid = Some cid, sel_namespace = None, sel_path = None\<rparr>"

definition selector_namespace :: "string \<Rightarrow> string \<Rightarrow> ObjectSelector" where
  "selector_namespace namespace path =
     \<lparr>sel_kind = Sel_Namespace, sel_cid = None, sel_namespace = Some namespace,
      sel_path = Some path\<rparr>"

text \<open>\<open>as_deref().unwrap_or_default().is_empty()\<close>\<close>

definition none_or_empty :: "string option \<Rightarrow> bool" where
  "none_or_empty x = (case x of None \<Rightarrow> True | Some s \<Rightarrow> s = [])"

definition selector_validate :: "ObjectSelector \<Rightarrow> ApiError + unit" where
  "selector_validate s =
     (case sel_kind s of
        Sel_Cid \<Rightarrow>
          if none_or_empty (sel_cid s) then
            Err (api_error Cat_Validation ''missing_cid_selector'' ''cid selector must include cid'')
          else Ok ()
      | Sel_Namespace \<Rightarrow>
          if none_or_empty (sel_namespace s) \<or> none_or_empty (sel_path s) then
            Err (api_error Cat_Validation ''missing_namespace_selector''
                   ''namespace selector must include namespace and path'')
          else Ok ())"

record AtomicBindRequest =
  ab_namespace :: string
  ab_path :: string
  ab_if_revision :: "u64 option"
  ab_metadata :: metadata
  ab_ttl_ms :: "u64 option"
  ab_signed_record_b64 :: string

datatype NamespaceMutationKind = NM_Bind | NM_Unbind | NM_HardDelete

fun mutation_kind_as_str :: "NamespaceMutationKind \<Rightarrow> string" where
  "mutation_kind_as_str NM_Bind = ''bind''"
| "mutation_kind_as_str NM_Unbind = ''unbind''"
| "mutation_kind_as_str NM_HardDelete = ''hard_delete''"

record NamespaceMutationRecord =
  nm_version :: u8
  nm_tenant_id :: TenantId
  nm_namespace :: string
  nm_path :: string
  nm_kind :: NamespaceMutationKind
  nm_target_cid :: "string option"
  nm_if_revision :: "u64 option"
  nm_ttl_ms :: "u64 option"
  nm_metadata :: metadata
  nm_issued_at_ms :: u64

definition mutation_record_validate :: "NamespaceMutationRecord \<Rightarrow> ApiError + unit" where
  "mutation_record_validate r =
     (if trim (nm_namespace r) = [] then
        Err (api_error Cat_Validation ''missing_namespace''
               ''namespace mutation must include namespace'')
      else if trim (nm_path r) = [] then
        Err (api_error Cat_Validation ''missing_path'' ''namespace mutation must include path'')
      else if nm_kind r = NM_Bind \<and> none_or_empty (nm_target_cid r) then
        Err (api_error Cat_Validation ''missing_target_cid''
               ''bind mutation must include target_cid'')
      else Ok ())"

definition mutation_record_canonical_value :: "NamespaceMutationRecord \<Rightarrow> CanonicalValue" where
  "mutation_record_canonical_value r =
     (let map = btm_insert 1 (CV_Unsigned (ucast (nm_version r))) [];
          map = btm_insert 2 (CV_Text (tenant_str (nm_tenant_id r))) map;
          map = btm_insert 3 (CV_Text (nm_namespace r)) map;
          map = btm_insert 4 (CV_Text (nm_path r)) map;
          map = btm_insert 5 (CV_Text (mutation_kind_as_str (nm_kind r))) map;
          map = insert_some 6 CV_Text (nm_target_cid r) map;
          map = insert_some 7 CV_Unsigned (nm_if_revision r) map;
          map = insert_some 8 CV_Unsigned (nm_ttl_ms r) map;
          map = btm_insert 9 (metadata_map_to_canonical_value (nm_metadata r)) map;
          map = btm_insert 10 (CV_Unsigned (nm_issued_at_ms r)) map
      in CV_Map map)"

definition mutation_record_canonical_cbor_bytes :: "NamespaceMutationRecord \<Rightarrow> byte list" where
  "mutation_record_canonical_cbor_bytes r =
     encode_canonical_cbor (mutation_record_canonical_value r)"

definition record_cid :: "'x core_deps_scheme \<Rightarrow> NamespaceMutationRecord \<Rightarrow> string" where
  "record_cid D r = cid_from_bytes D (mutation_record_canonical_cbor_bytes r)"

record SignedNamespaceMutation =
  sm_record :: NamespaceMutationRecord
  sm_cose_sign1_b64 :: string

record ResolveRequest =
  rs_tenant_id :: TenantId
  rs_namespace :: string
  rs_path :: string
  rs_at_revision :: "u64 option"
  rs_if_revision :: "u64 option"

record ResolveResponse =
  rr_revision :: u64
  rr_target_cid :: "string option"
  rr_manifest_cid :: "string option"
  rr_record_cid :: string
  rr_metadata :: metadata
  rr_tombstone :: bool

record BindRequest =
  br_tenant_id :: TenantId
  br_namespace :: string
  br_path :: string
  br_target_cid :: string
  br_if_revision :: "u64 option"
  br_if_absent :: bool
  br_metadata :: metadata
  br_ttl_ms :: "u64 option"
  br_idempotency_key :: string
  br_signed_record_b64 :: string

record BindResponse =
  bp_revision :: u64
  bp_record_cid :: string
  bp_event_seq :: u64

record UnbindRequest =
  ub_tenant_id :: TenantId
  ub_namespace :: string
  ub_path :: string
  ub_if_revision :: u64
  ub_hard_delete :: bool
  ub_idempotency_key :: string
  ub_signed_record_b64 :: string

record UnbindResponse =
  up_revision :: u64
  up_record_cid :: string
  up_event_seq :: u64
  up_tombstone :: bool

record ListRequest =
  lr_tenant_id :: TenantId
  lr_namespace :: string
  lr_prefix :: "string option"
  lr_cursor :: "string option"
  lr_limit :: "u32 option"
  lr_recursive :: bool
  lr_include_tombstones :: bool

record ListItem =
  li_namespace :: string
  li_path :: string
  li_target_cid :: "string option"
  li_manifest_cid :: "string option"
  li_revision :: u64
  li_record_cid :: string
  li_metadata :: metadata
  li_tombstone :: bool

record ListResponse =
  lp_items :: "ListItem list"
  lp_next_cursor :: "string option"
  lp_truncated :: bool
  lp_namespace_revision_snapshot :: u64

section \<open>Page cursors\<close>

definition invalid_cursor :: "string \<Rightarrow> ApiError" where
  "invalid_cursor message = api_error Cat_Validation ''invalid_cursor'' message"

definition cbor_key_eq :: "CborValue \<Rightarrow> u64 \<Rightarrow> bool" where
  "cbor_key_eq value key =
     (case value of Cb_Integer integer \<Rightarrow> integer = uint key | _ \<Rightarrow> False)"

definition cbor_entry :: "(CborValue \<times> CborValue) list \<Rightarrow> u64 \<Rightarrow> CborValue option" where
  "cbor_entry entries key =
     map_option snd (List.find (\<lambda>e. cbor_key_eq (fst e) key) entries)"

definition required_cbor_text ::
  "(CborValue \<times> CborValue) list \<Rightarrow> u64 \<Rightarrow> string \<Rightarrow> ApiError + string" where
  "required_cbor_text entries key field =
     (let failed = Err (invalid_cursor (''cursor field '' @ field @ '' is missing or invalid'')) in
      case cbor_entry entries key of
        Some (Cb_Text text) \<Rightarrow> if text \<noteq> [] then Ok text else failed
      | _ \<Rightarrow> failed)"

definition optional_cbor_text ::
  "(CborValue \<times> CborValue) list \<Rightarrow> u64 \<Rightarrow> ApiError + string option" where
  "optional_cbor_text entries key =
     (case cbor_entry entries key of
        Some (Cb_Text text) \<Rightarrow> Ok (Some text)
      | Some _ \<Rightarrow> Err (invalid_cursor ''cursor text field is invalid'')
      | None \<Rightarrow> Ok None)"

definition required_cbor_u64 ::
  "(CborValue \<times> CborValue) list \<Rightarrow> u64 \<Rightarrow> string \<Rightarrow> ApiError + u64" where
  "required_cbor_u64 entries key field =
     (case cbor_entry entries key of
        Some (Cb_Integer numeric) \<Rightarrow>
          if 0 \<le> numeric \<and> numeric < 2 ^ 64 then Ok (word_of_int numeric)
          else Err (invalid_cursor (''cursor field '' @ field @ '' must be unsigned''))
      | _ \<Rightarrow> Err (invalid_cursor (''cursor field '' @ field @ '' is missing or invalid'')))"

text \<open>The common head of both \<open>decode\<close> functions: base64url, CBOR, a map at the top.\<close>

definition decode_cursor_map ::
  "'x core_deps_scheme \<Rightarrow> string \<Rightarrow> ApiError + (CborValue \<times> CborValue) list" where
  "decode_cursor_map D encoded =
     (case b64url_decode D (as_bytes encoded) of
        None \<Rightarrow> Err (invalid_cursor ''cursor is not valid base64url data'')
      | Some bytes \<Rightarrow>
          (case cbor_from_reader D bytes of
             Err _ \<Rightarrow> Err (invalid_cursor ''cursor is not valid CBOR'')
           | Ok (Cb_Map entries) \<Rightarrow> Ok entries
           | Ok _ \<Rightarrow> Err (invalid_cursor ''cursor payload must be a CBOR map'')))"

record ListCursor =
  lc_tenant_id :: TenantId
  lc_namespace :: string
  lc_prefix :: "string option"
  lc_snapshot_revision :: u64
  lc_last_path :: string

definition list_cursor_canonical_value :: "ListCursor \<Rightarrow> CanonicalValue" where
  "list_cursor_canonical_value c =
     (let map = btm_insert 1 (CV_Text (tenant_str (lc_tenant_id c))) [];
          map = btm_insert 2 (CV_Text (lc_namespace c)) map;
          map = insert_some 3 CV_Text (lc_prefix c) map;
          map = btm_insert 4 (CV_Unsigned (lc_snapshot_revision c)) map;
          map = btm_insert 5 (CV_Text (lc_last_path c)) map
      in CV_Map map)"

definition list_cursor_encode :: "'x core_deps_scheme \<Rightarrow> ListCursor \<Rightarrow> string" where
  "list_cursor_encode D c = b64url_encode D (encode_canonical_cbor (list_cursor_canonical_value c))"

definition list_cursor_decode :: "'x core_deps_scheme \<Rightarrow> string \<Rightarrow> ApiError + ListCursor" where
  "list_cursor_decode D encoded =
     rbnd (decode_cursor_map D encoded) (\<lambda>entries.
     rbnd (required_cbor_text entries 1 ''tenant_id'') (\<lambda>tenant.
     rbnd (required_cbor_text entries 2 ''namespace'') (\<lambda>namespace.
     rbnd (optional_cbor_text entries 3) (\<lambda>prefix_opt.
     rbnd (required_cbor_u64 entries 4 ''snapshot_revision'') (\<lambda>snapshot_revision.
     rbnd (required_cbor_text entries 5 ''last_path'') (\<lambda>last_path.
     Ok \<lparr>lc_tenant_id = TenantId tenant, lc_namespace = namespace, lc_prefix = prefix_opt,
         lc_snapshot_revision = snapshot_revision, lc_last_path = last_path\<rparr>))))))"

record EventCursor =
  ec_tenant_id :: TenantId
  ec_next_seq :: u64

definition event_cursor_canonical_value :: "EventCursor \<Rightarrow> CanonicalValue" where
  "event_cursor_canonical_value c =
     (let map = btm_insert 1 (CV_Text (tenant_str (ec_tenant_id c))) [];
          map = btm_insert 2 (CV_Unsigned (ec_next_seq c)) map
      in CV_Map map)"

definition event_cursor_encode :: "'x core_deps_scheme \<Rightarrow> EventCursor \<Rightarrow> string" where
  "event_cursor_encode D c =
     b64url_encode D (encode_canonical_cbor (event_cursor_canonical_value c))"

definition event_cursor_decode :: "'x core_deps_scheme \<Rightarrow> string \<Rightarrow> ApiError + EventCursor" where
  "event_cursor_decode D encoded =
     rbnd (decode_cursor_map D encoded) (\<lambda>entries.
     rbnd (required_cbor_text entries 1 ''tenant_id'') (\<lambda>tenant.
     rbnd (required_cbor_u64 entries 2 ''next_seq'') (\<lambda>next_seq.
     Ok \<lparr>ec_tenant_id = TenantId tenant, ec_next_seq = next_seq\<rparr>)))"

section \<open>Events\<close>

datatype EventType =
    ObjectCommitted | NamespaceBound | NamespaceUnbound | NamespaceTombstoned | AuthDenied
  | PinAccepted

fun event_type_as_str :: "EventType \<Rightarrow> string" where
  "event_type_as_str ObjectCommitted = ''object.committed''"
| "event_type_as_str NamespaceBound = ''namespace.bound''"
| "event_type_as_str NamespaceUnbound = ''namespace.unbound''"
| "event_type_as_str NamespaceTombstoned = ''namespace.tombstoned''"
| "event_type_as_str AuthDenied = ''auth.denied''"
| "event_type_as_str PinAccepted = ''pin.accepted''"

record EventRecord =
  ev_version :: u8
  ev_seq :: u64
  ev_at_ms :: u64
  ev_event_type :: EventType
  ev_subject_kind :: string
  ev_namespace :: "string option"
  ev_path :: "string option"
  ev_cid :: "string option"
  ev_revision :: "u64 option"
  ev_trace_id :: "string option"
  ev_payload :: metadata

definition event_canonical_value :: "EventRecord \<Rightarrow> CanonicalValue" where
  "event_canonical_value e =
     (let map = btm_insert 0 (CV_Unsigned (ucast (ev_version e))) [];
          map = btm_insert 1 (CV_Unsigned (ev_seq e)) map;
          map = btm_insert 2 (CV_Unsigned (ev_at_ms e)) map;
          map = btm_insert 3 (CV_Text (event_type_as_str (ev_event_type e))) map;
          map = btm_insert 4 (CV_Text (ev_subject_kind e)) map;
          map = insert_some 5 CV_Text (ev_namespace e) map;
          map = insert_some 6 CV_Text (ev_path e) map;
          map = insert_some 7 CV_Text (ev_cid e) map;
          map = insert_some 8 CV_Unsigned (ev_revision e) map;
          map = insert_some 9 CV_Text (ev_trace_id e) map;
          map = btm_insert 10 (metadata_map_to_canonical_value (ev_payload e)) map
      in CV_Map map)"

definition event_canonical_cbor_bytes :: "EventRecord \<Rightarrow> byte list" where
  "event_canonical_cbor_bytes e = encode_canonical_cbor (event_canonical_value e)"

definition event_cid :: "'x core_deps_scheme \<Rightarrow> EventRecord \<Rightarrow> string" where
  "event_cid D e = cid_from_bytes D (event_canonical_cbor_bytes e)"

record SubscribeFilter =
  sf_namespace_prefix :: "string option"
  sf_path_exact :: "string option"
  sf_object_cid :: "string option"
  sf_event_type :: "EventType option"
  sf_tenant_scope :: "TenantId option"

record SubscribeRequest =
  sr_tenant_id :: TenantId
  sr_filters :: "SubscribeFilter list"
  sr_cursor :: "string option"
  sr_from_seq :: "u64 option"
  sr_heartbeat_ms :: "u64 option"
  sr_batch_max :: "u32 option"

record NoticeFrame =
  nf_kind :: string
  nf_message :: "string option"
  nf_cursor :: "string option"

datatype SubscribeEnvelopeKind = Env_Event | Env_Notice

record SubscribeEnvelope =
  se_kind :: SubscribeEnvelopeKind
  se_event :: "EventRecord option"
  se_notice :: "NoticeFrame option"

section \<open>Uploads and reads\<close>

record PutInitRequest =
  pi_tenant_id :: TenantId
  pi_manifest :: Manifest
  pi_idempotency_key :: string
  pi_encryption_profile_id :: EncryptionProfileId
  pi_key_policy_id :: KeyPolicyId
  pi_metadata_visibility :: VisibilityMode
  pi_storage_class :: string
  pi_atomic_bind :: "AtomicBindRequest option"

record PutInitResponse =
  pir_session_id :: string
  pir_missing_chunks :: "u32 list"
  pir_accepted_manifest_cid :: string
  pir_upload_deadline_ms :: u64
  pir_max_parallel_chunk_streams :: u16

record PutChunkRequest =
  pc_tenant_id :: TenantId
  pc_session_id :: string
  pc_chunk_index :: u32
  pc_chunk_cid :: string
  pc_chunk_offset :: u64
  pc_chunk_length :: u64
  pc_content_encoding :: string

record PutChunkResponse =
  pcr_stored :: bool
  pcr_duplicate :: bool
  pcr_verified_cid :: bool

record PutCommitRequest =
  pm_tenant_id :: TenantId
  pm_session_id :: string
  pm_manifest_cid :: string
  pm_idempotency_key :: string

record PutCommitResponse =
  pmr_object_cid :: string
  pmr_committed :: bool
  pmr_event_seq :: u64

datatype GetPreference = Pref_Raw | Pref_ChunkStream | Pref_ManifestOnly

fun preference_as_str :: "GetPreference \<Rightarrow> string" where
  "preference_as_str Pref_Raw = ''raw''"
| "preference_as_str Pref_ChunkStream = ''chunk-stream''"
| "preference_as_str Pref_ManifestOnly = ''manifest-only''"

record RangeSpec =
  rg_start :: u64
  rg_end :: u64

definition range_validate :: "RangeSpec \<Rightarrow> ApiError + unit" where
  "range_validate r =
     (if rg_start r > rg_end r then
        Err (api_error Cat_Validation ''invalid_range''
               ''range start must be less than or equal to end'')
      else Ok ())"

record HeadRequest =
  hq_tenant_id :: TenantId
  hq_selector :: ObjectSelector

record HeadResponse =
  hr_exists :: bool
  hr_deleted :: bool
  hr_cid :: string
  hr_object_cid :: string
  hr_manifest_cid :: string
  hr_integrity_hash :: string
  hr_storage_class :: string
  hr_resolved_namespace :: "string option"
  hr_resolved_path :: "string option"
  hr_resolved_revision :: "u64 option"
  hr_resolved_record_cid :: "string option"
  hr_size_bytes :: u64
  hr_ciphertext_size_bytes :: u64
  hr_logical_size :: u64
  hr_stored_size :: u64
  hr_content_type :: string
  hr_created_at_ms :: u64
  hr_encryption_profile_id :: EncryptionProfileId
  hr_key_policy_id :: KeyPolicyId
  hr_metadata_visibility :: VisibilityMode
  hr_server_visible_metadata :: metadata
  hr_encrypted_client_metadata_redacted :: bool

record GetRequest =
  gq_tenant_id :: TenantId
  gq_selector :: ObjectSelector
  gq_preference :: "GetPreference option"
  gq_range :: "RangeSpec option"

record GetChunkDescriptor =
  gd_chunk_index :: u32
  gd_chunk_cid :: string
  gd_chunk_offset :: u64
  gd_logical_range_start :: u64
  gd_logical_range_end :: u64
  gd_fragment_offset :: u64
  gd_fragment_length :: u64
  gd_content_encoding :: string

record GetResponseMeta =
  gm_exists :: bool
  gm_deleted :: bool
  gm_cid :: string
  gm_object_cid :: string
  gm_manifest_cid :: string
  gm_integrity_hash :: string
  gm_storage_class :: string
  gm_resolved_namespace :: "string option"
  gm_resolved_path :: "string option"
  gm_resolved_revision :: "u64 option"
  gm_resolved_record_cid :: "string option"
  gm_size_bytes :: u64
  gm_ciphertext_size_bytes :: u64
  gm_logical_size :: u64
  gm_stored_size :: u64
  gm_content_type :: string
  gm_created_at_ms :: u64
  gm_encryption_profile_id :: EncryptionProfileId
  gm_key_policy_id :: KeyPolicyId
  gm_metadata_visibility :: VisibilityMode
  gm_server_visible_metadata :: metadata
  gm_encrypted_client_metadata_redacted :: bool
  gm_preference :: GetPreference
  gm_manifest :: "Manifest option"
  gm_chunk_descriptors :: "GetChunkDescriptor list"

record GetChunk =
  gc_descriptor :: GetChunkDescriptor
  gc_bytes :: "byte list"

record GetResponse =
  gr_meta :: GetResponseMeta
  gr_chunks :: "GetChunk list"

section \<open>Frames and defaults\<close>

text \<open>\<open>serde_json::Value\<close>, the type of free-form header parameters, is the type variable \<open>'j\<close>.\<close>

record SettingsFrame =
  st_max_chunk_size :: u64
  st_max_manifest_size :: u64
  st_max_object_size :: u64
  st_max_parallel_streams :: u16
  st_supported_chunkers :: "string list"
  st_supported_content_encodings :: "string list"
  st_supported_token_profiles :: "string list"
  st_supported_extensions :: "string list"
  st_server_instance_id :: string
  st_event_replay_window_sec :: u64
  st_limits_revision :: u64

datatype PayloadMode = Payload_None | Payload_Json | Payload_Raw | Payload_ChunkStream

record 'j ReqHeader =
  rq_version :: u8
  rq_operation :: OperationName
  rq_request_id :: "u64 option"
  rq_payload_mode :: "PayloadMode option"
  rq_payload_length :: "u64 option"
  rq_params :: "(string, 'j) btm"
  rq_extensions :: "(string, 'j) btm"

record 'j ResHeader =
  rh_version :: u8
  rh_status_code :: u16
  rh_request_id :: "u64 option"
  rh_payload_mode :: "PayloadMode option"
  rh_payload_length :: "u64 option"
  rh_meta :: "(string, 'j) btm"
  rh_extensions :: "(string, 'j) btm"

record WireErrorFrame =
  we_category :: ApiErrorCategory
  we_code :: string
  we_message :: string

record GoAwayFrame =
  ga_reason :: string

record AuthFrame =
  af_token_b64 :: string
  af_channel_binding :: ChannelBindingProof

record ReadinessReport =
  rd_ready :: bool
  rd_kms_provider :: string
  rd_encrypted_store_roots :: "string list"

record ManifestRequirements =
  mr_encryption_descriptor_required :: bool
  mr_metadata_hidden_by_default :: bool
  mr_put_init_requires_key_policy :: bool

definition public_multitenant_manifest_requirements :: ManifestRequirements where
  "public_multitenant_manifest_requirements =
     \<lparr>mr_encryption_descriptor_required = True, mr_metadata_hidden_by_default = True,
      mr_put_init_requires_key_policy = True\<rparr>"

definition public_admin_scopes :: "CapabilityScope list" where
  "public_admin_scopes =
     [Sc_AdminMetricsRead, Sc_AdminAuditRead, Sc_AdminRepair, Sc_AdminKeyRotate,
      Sc_AdminPolicyWrite]"

definition default_limits :: ServiceLimits where
  "default_limits =
     \<lparr>lim_max_chunk_size = 4 * 1024 * 1024, lim_max_manifest_size = 8 * 1024 * 1024,
      lim_max_object_size = 4 * 1024 * 1024 * 1024, lim_max_parallel_chunk_streams = 8\<rparr>"

definition default_supported_chunkers :: "string list" where
  "default_supported_chunkers = [''fixed-1m'']"

definition default_supported_content_encodings :: "string list" where
  "default_supported_content_encodings = [''identity'']"

definition public_multitenant_crypto_suite :: "string list" where
  "public_multitenant_crypto_suite =
     [''Ed25519'', ''COSE_Sign1'', ''XChaCha20-Poly1305'', ''AES-256-GCM'', ''SHA-256'']"

definition beta_extensions :: "string list" where
  "beta_extensions = [''encrypted-store-alpha'', ''native-beta'', ''gateway-http3-beta'']"

definition public_multitenant_bootstrap_document :: "string \<Rightarrow> string \<Rightarrow> BootstrapDocument" where
  "public_multitenant_bootstrap_document authority base_url =
     \<lparr>bd_version = 1, bd_authority = authority,
      bd_native = \<lparr>bn_alpn = ''hsp/1'', bn_host = authority, bn_port = 443\<rparr>,
      bd_gateway = \<lparr>bg_base_url = base_url\<rparr>,
      bd_e2ee_required = True, bd_storage_encryption_required = True,
      bd_crypto_suite = public_multitenant_crypto_suite,
      bd_key_wrapping_suite = ''HPKE/X25519'',
      bd_tenant_isolation_profile = ''strict-per-tenant-key-domain'',
      bd_supported_token_profiles = [''cose-sign1''],
      bd_supported_extensions = beta_extensions,
      bd_limits_revision = 1, bd_limits = default_limits\<rparr>"

definition public_multitenant_info_response :: InfoResponse where
  "public_multitenant_info_response =
     \<lparr>ir_version = 1, ir_authority_profile = ''public-multi-tenant'',
      ir_e2ee_required = True, ir_storage_encryption_required = True,
      ir_crypto_suite = public_multitenant_crypto_suite,
      ir_key_wrapping_suite = ''HPKE/X25519'',
      ir_tenant_isolation_profile = ''strict-per-tenant-key-domain'',
      ir_supported_token_profiles = [''cose-sign1''],
      ir_supported_extensions = beta_extensions,
      ir_limits_revision = 1, ir_limits = default_limits\<rparr>"

definition public_multitenant_settings_frame :: "string \<Rightarrow> SettingsFrame" where
  "public_multitenant_settings_frame server_instance_id =
     \<lparr>st_max_chunk_size = lim_max_chunk_size default_limits,
      st_max_manifest_size = lim_max_manifest_size default_limits,
      st_max_object_size = lim_max_object_size default_limits,
      st_max_parallel_streams = lim_max_parallel_chunk_streams default_limits,
      st_supported_chunkers = default_supported_chunkers,
      st_supported_content_encodings = default_supported_content_encodings,
      st_supported_token_profiles = [''cose-sign1''],
      st_supported_extensions = beta_extensions,
      st_server_instance_id = server_instance_id,
      st_event_replay_window_sec = 3600,
      st_limits_revision = 1\<rparr>"

lemma visibility_as_str_inject [simp]: "visibility_as_str a = visibility_as_str b \<longleftrightarrow> a = b"
  by (cases a; cases b) auto

lemma mutation_kind_as_str_inject [simp]:
  "mutation_kind_as_str a = mutation_kind_as_str b \<longleftrightarrow> a = b"
  by (cases a; cases b) auto

lemma event_type_as_str_inject [simp]: "event_type_as_str a = event_type_as_str b \<longleftrightarrow> a = b"
  by (cases a; cases b) auto

lemma scope_as_str_inject [simp]: "scope_as_str a = scope_as_str b \<longleftrightarrow> a = b"
  by (cases a; cases b) auto

lemma ucast_u8_u64_inject [simp]: "(ucast (a :: u8) :: u64) = ucast b \<longleftrightarrow> a = b"
proof -
  have "ucast (ucast x :: u64) = x" for x :: u8
    by (rule ucast_up_ucast_id) (simp add: is_up)
  then show ?thesis by metis
qed

lemma ucast_u32_u64_inject [simp]: "(ucast (a :: u32) :: u64) = ucast b \<longleftrightarrow> a = b"
proof -
  have "ucast (ucast x :: u64) = x" for x :: u32
    by (rule ucast_up_ucast_id) (simp add: is_up)
  then show ?thesis by metis
qed

lemma newtype_str_inject [simp]:
  "tenant_str a = tenant_str b \<longleftrightarrow> a = b"
  "key_policy_str k = key_policy_str l \<longleftrightarrow> k = l"
  "encryption_profile_str p = encryption_profile_str q \<longleftrightarrow> p = q"
  by (metis TenantId.collapse, metis KeyPolicyId.collapse, metis EncryptionProfileId.collapse)

lemma metadata_canonical_inject [simp]:
  "metadata_map_to_canonical_value a = metadata_map_to_canonical_value b \<longleftrightarrow> a = b"
proof -
  have "inj (\<lambda>(key, value). CV_Array [CV_Text key, CV_Text value])"
    by (auto simp: inj_def)
  then show ?thesis
    by (simp add: metadata_map_to_canonical_value_def inj_map_eq_map)
qed

text \<open>Reading a canonical map by key recovers the fields, optional ones included.\<close>

fun cv_get :: "CanonicalValue \<Rightarrow> u64 \<Rightarrow> CanonicalValue option" where
  "cv_get (CV_Map m) k = map_of m k"
| "cv_get _ k = None"

lemma map_of_insert_some [simp]:
  "map_of (insert_some k f x m) =
     (case x of None \<Rightarrow> map_of m | Some y \<Rightarrow> (map_of m)(k \<mapsto> f y))"
  by (simp add: insert_some_def split: option.splits)

lemma map_option_inject_eq:
  "(\<And>x y. f x = f y \<longleftrightarrow> x = y) \<Longrightarrow> map_option f a = map_option f b \<longleftrightarrow> a = b"
  by (cases a; cases b) auto

lemma wrapped_key_fields:
  "cv_get (wrapped_key_canonical_value k) 1 = Some (CV_Text (wk_recipient_key_id k))"
  "cv_get (wrapped_key_canonical_value k) 2 = Some (CV_Text (wk_wrapping_suite k))"
  "cv_get (wrapped_key_canonical_value k) 3 = Some (CV_Text (wk_wrapped_key_b64 k))"
  "cv_get (wrapped_key_canonical_value k) 4 = Some (CV_Unsigned (ucast (wk_key_version k)))"
  "cv_get (wrapped_key_canonical_value k) 5 = map_option CV_Text (wk_encapsulated_key_b64 k)"
  by (simp_all add: wrapped_key_canonical_value_def Let_def split: option.splits)

lemma wrapped_key_canonical_inject [simp]:
  "wrapped_key_canonical_value a = wrapped_key_canonical_value b \<longleftrightarrow> a = b"
proof
  assume "wrapped_key_canonical_value a = wrapped_key_canonical_value b"
  note eq = arg_cong [where f = "\<lambda>v. cv_get v _", OF this]
  show "a = b"
    using eq [of 1] eq [of 2] eq [of 3] eq [of 4] eq [of 5]
    by (intro WrappedObjectKeyRecord.equality)
      (simp_all add: wrapped_key_fields map_option_inject_eq)
qed simp

lemma chunk_ref_canonical_inject [simp]:
  "chunk_ref_canonical_value a = chunk_ref_canonical_value b \<longleftrightarrow> a = b"
  by (cases a; cases b) (auto simp: chunk_ref_canonical_value_def)

lemma map_inject_eq: "(\<And>x y. f x = f y \<longleftrightarrow> x = y) \<Longrightarrow> map f xs = map f ys \<longleftrightarrow> xs = ys"
  by (simp add: inj_def inj_map_eq_map)

lemma descriptor_canonical_inject [simp]:
  "descriptor_canonical_value a = descriptor_canonical_value b \<longleftrightarrow> a = b"
  by (cases a; cases b) (auto simp: descriptor_canonical_value_def map_inject_eq)

lemma manifest_canonical_inject [simp]:
  "manifest_canonical_value a = manifest_canonical_value b \<longleftrightarrow> a = b"
  by (cases a; cases b) (auto simp: manifest_canonical_value_def map_inject_eq)

lemma mutation_record_fields:
  "cv_get (mutation_record_canonical_value r) 1 = Some (CV_Unsigned (ucast (nm_version r)))"
  "cv_get (mutation_record_canonical_value r) 2 = Some (CV_Text (tenant_str (nm_tenant_id r)))"
  "cv_get (mutation_record_canonical_value r) 3 = Some (CV_Text (nm_namespace r))"
  "cv_get (mutation_record_canonical_value r) 4 = Some (CV_Text (nm_path r))"
  "cv_get (mutation_record_canonical_value r) 5 = Some (CV_Text (mutation_kind_as_str (nm_kind r)))"
  "cv_get (mutation_record_canonical_value r) 6 = map_option CV_Text (nm_target_cid r)"
  "cv_get (mutation_record_canonical_value r) 7 = map_option CV_Unsigned (nm_if_revision r)"
  "cv_get (mutation_record_canonical_value r) 8 = map_option CV_Unsigned (nm_ttl_ms r)"
  "cv_get (mutation_record_canonical_value r) 9 =
     Some (metadata_map_to_canonical_value (nm_metadata r))"
  "cv_get (mutation_record_canonical_value r) 10 = Some (CV_Unsigned (nm_issued_at_ms r))"
  by (simp_all add: mutation_record_canonical_value_def Let_def split: option.splits)

lemma mutation_record_canonical_inject [simp]:
  "mutation_record_canonical_value a = mutation_record_canonical_value b \<longleftrightarrow> a = b"
proof
  assume "mutation_record_canonical_value a = mutation_record_canonical_value b"
  note eq = arg_cong [where f = "\<lambda>v. cv_get v _", OF this]
  show "a = b"
    using eq [of 1] eq [of 2] eq [of 3] eq [of 4] eq [of 5] eq [of 6] eq [of 7] eq [of 8]
      eq [of 9] eq [of 10]
    by (intro NamespaceMutationRecord.equality)
      (simp_all add: mutation_record_fields map_option_inject_eq)
qed simp

lemma claims_fields:
  "cv_get (claims_canonical_value c) 1 = Some (CV_Text (cl_iss c))"
  "cv_get (claims_canonical_value c) 2 = Some (CV_Text (cl_sub c))"
  "cv_get (claims_canonical_value c) 3 = Some (CV_Text (cl_aud c))"
  "cv_get (claims_canonical_value c) 4 = Some (CV_Unsigned (cl_exp c))"
  "cv_get (claims_canonical_value c) 5 = map_option CV_Unsigned (cl_nbf c)"
  "cv_get (claims_canonical_value c) 6 = map_option CV_Text (cl_jti c)"
  "cv_get (claims_canonical_value c) 7 =
     Some (CV_Array (map (\<lambda>scope. CV_Text (scope_as_str scope)) (cl_ops c)))"
  "cv_get (claims_canonical_value c) 8 = Some (CV_Text (tenant_str (cl_tenant_id c)))"
  "cv_get (claims_canonical_value c) 9 = map_option CV_Text (cl_namespace_prefix c)"
  "cv_get (claims_canonical_value c) 10 = map_option CV_Text (cl_path_prefix c)"
  "cv_get (claims_canonical_value c) 11 = map_option CV_Unsigned (cl_max_object_size c)"
  "cv_get (claims_canonical_value c) 12 = Some (CV_Array (map CV_Text (cl_storage_classes c)))"
  "cv_get (claims_canonical_value c) 13 =
     map_option (\<lambda>k. CV_Text (key_policy_str k)) (cl_key_policy_id c)"
  "cv_get (claims_canonical_value c) 14 =
     map_option (\<lambda>v. CV_Text (visibility_as_str v)) (cl_metadata_visibility c)"
  by (simp_all add: claims_canonical_value_def Let_def split: option.splits)

lemma claims_canonical_inject [simp]:
  "claims_canonical_value a = claims_canonical_value b \<longleftrightarrow> a = b"
proof
  assume "claims_canonical_value a = claims_canonical_value b"
  note eq = arg_cong [where f = "\<lambda>v. cv_get v _", OF this]
  show "a = b"
    using eq [of 1] eq [of 2] eq [of 3] eq [of 4] eq [of 5] eq [of 6] eq [of 7] eq [of 8]
      eq [of 9] eq [of 10] eq [of 11] eq [of 12] eq [of 13] eq [of 14]
    by (intro CapabilityClaims.equality)
      (simp_all add: claims_fields map_option_inject_eq map_inject_eq)
qed simp

lemma event_fields:
  "cv_get (event_canonical_value e) 0 = Some (CV_Unsigned (ucast (ev_version e)))"
  "cv_get (event_canonical_value e) 1 = Some (CV_Unsigned (ev_seq e))"
  "cv_get (event_canonical_value e) 2 = Some (CV_Unsigned (ev_at_ms e))"
  "cv_get (event_canonical_value e) 3 = Some (CV_Text (event_type_as_str (ev_event_type e)))"
  "cv_get (event_canonical_value e) 4 = Some (CV_Text (ev_subject_kind e))"
  "cv_get (event_canonical_value e) 5 = map_option CV_Text (ev_namespace e)"
  "cv_get (event_canonical_value e) 6 = map_option CV_Text (ev_path e)"
  "cv_get (event_canonical_value e) 7 = map_option CV_Text (ev_cid e)"
  "cv_get (event_canonical_value e) 8 = map_option CV_Unsigned (ev_revision e)"
  "cv_get (event_canonical_value e) 9 = map_option CV_Text (ev_trace_id e)"
  "cv_get (event_canonical_value e) 10 = Some (metadata_map_to_canonical_value (ev_payload e))"
  by (simp_all add: event_canonical_value_def Let_def split: option.splits)

lemma event_canonical_inject [simp]:
  "event_canonical_value a = event_canonical_value b \<longleftrightarrow> a = b"
proof
  assume "event_canonical_value a = event_canonical_value b"
  note eq = arg_cong [where f = "\<lambda>v. cv_get v _", OF this]
  show "a = b"
    using eq [of 0] eq [of 1] eq [of 2] eq [of 3] eq [of 4] eq [of 5] eq [of 6] eq [of 7]
      eq [of 8] eq [of 9] eq [of 10]
    by (intro EventRecord.equality) (simp_all add: event_fields map_option_inject_eq)
qed simp

section \<open>Content identifiers commit to content\<close>

text \<open>
  What the model uses of the third-party encoders. Base32 text in lower case determines the bytes
  (RFC 4648: the alphabet has one case); unpadded base64url decodes what it encoded; the CBOR
  reader returns a flat map of numbers and texts (the texts of the code, Rust strings) as it was
  written.
\<close>

definition base32_injective :: "'x core_deps_scheme \<Rightarrow> bool" where
  "base32_injective D \<longleftrightarrow>
     (\<forall>a b. to_ascii_lowercase (base32_nopad D a) = to_ascii_lowercase (base32_nopad D b) \<longrightarrow> a = b)"

fun cv_scalar :: "CanonicalValue \<Rightarrow> bool" where
  "cv_scalar (CV_Unsigned _) = True"
| "cv_scalar (CV_Text _) = True"
| "cv_scalar _ = False"

definition cursor_laws :: "'x core_deps_scheme \<Rightarrow> bool" where
  "cursor_laws D \<longleftrightarrow>
     (\<forall>bs. b64url_decode D (as_bytes (b64url_encode D bs)) = Some bs) \<and>
     (\<forall>m. cv_ok (CV_Map m) \<and> (\<forall>e\<in>set m. cv_scalar (snd e)) \<longrightarrow>
        cbor_from_reader D (encode_canonical_cbor (CV_Map m)) = Ok (cbor_of (CV_Map m)))"

definition sha256_collision :: "'x core_deps_scheme \<Rightarrow> byte list \<Rightarrow> byte list \<Rightarrow> bool" where
  "sha256_collision D x y \<longleftrightarrow> x \<noteq> y \<and> sha256 D x = sha256 D y"

lemma ref_base32_injective: "base32_injective ref_core_deps"
  unfolding base32_injective_def ref_core_deps_def
  by (simp, metis option.inject ref_text_decode_encode)

lemma ref_cursor_laws: "cursor_laws ref_core_deps"
  by (simp add: cursor_laws_def ref_core_deps_def ref_cbor_reads)

lemma cid_from_bytes_inject:
  "base32_injective D \<Longrightarrow> cid_from_bytes D x = cid_from_bytes D y \<Longrightarrow> sha256 D x = sha256 D y"
  by (auto simp: cid_from_bytes_def base32_injective_def)

text \<open>
  The contract of a content-addressed type: its canonical value determines it. Its identifier,
  the text form of the SHA-256 digest of the canonical CBOR, then commits to the value.
\<close>

locale content_addressed =
  fixes canonical_value :: "'a \<Rightarrow> CanonicalValue"
  assumes canonical_inject: "canonical_value a = canonical_value b \<Longrightarrow> a = b"
begin

lemma bytes_inject:
  "cv_ok (canonical_value a) \<Longrightarrow> cv_ok (canonical_value b) \<Longrightarrow>
   encode_canonical_cbor (canonical_value a) = encode_canonical_cbor (canonical_value b) \<Longrightarrow> a = b"
  by (auto simp: encode_canonical_cbor_inject intro: canonical_inject)

lemma cid_commits:
  assumes "base32_injective D" "cv_ok (canonical_value a)" "cv_ok (canonical_value b)"
    "cid_from_bytes D (encode_canonical_cbor (canonical_value a))
       = cid_from_bytes D (encode_canonical_cbor (canonical_value b))"
  shows "a = b \<or> sha256_collision D (encode_canonical_cbor (canonical_value a))
                    (encode_canonical_cbor (canonical_value b))"
  using bytes_inject [OF assms(2,3)] cid_from_bytes_inject [OF assms(1,4)]
  by (auto simp: sha256_collision_def)

end

interpretation manifests: content_addressed manifest_canonical_value
  by unfold_locales simp

interpretation mutation_records: content_addressed mutation_record_canonical_value
  by unfold_locales simp

interpretation events: content_addressed event_canonical_value
  by unfold_locales simp

interpretation claims: content_addressed claims_canonical_value
  by unfold_locales simp

text \<open>
  C20. A manifest's content identifier commits to the manifest: two manifests with the same
  \<open>manifest_cid\<close> are equal in every field, or their canonical bytes are a SHA-256 collision.
\<close>

theorem manifest_cid_commits:
  assumes "base32_injective D" "cv_ok (manifest_canonical_value m)" "cv_ok (manifest_canonical_value n)"
    "manifest_cid D m = manifest_cid D n"
  shows "m = n \<or> sha256_collision D (manifest_canonical_cbor_bytes m) (manifest_canonical_cbor_bytes n)"
  using manifests.cid_commits [of D m n] assms
  by (simp add: manifest_cid_def manifest_canonical_cbor_bytes_def)

definition sample_descriptor :: EncryptionDescriptor where
  "sample_descriptor =
     \<lparr>ed_encryption_profile_id = EncryptionProfileId ''p'', ed_key_policy_id = KeyPolicyId ''k'',
      ed_content_encryption_suite = ''XChaCha20-Poly1305'', ed_key_wrapping_suite = ''HPKE/X25519'',
      ed_metadata_visibility = EncryptedOnly,
      ed_wrapped_object_keys =
        [\<lparr>wk_recipient_key_id = ''r'', wk_wrapping_suite = ''HPKE/X25519'', wk_wrapped_key_b64 = ''AA'',
          wk_key_version = 1, wk_encapsulated_key_b64 = None\<rparr>],
      ed_server_visible_metadata = [], ed_encrypted_client_metadata = []\<rparr>"

definition sample_manifest :: Manifest where
  "sample_manifest =
     \<lparr>mf_version = 1, mf_tenant_id = TenantId ''t'', mf_logical_size = 2, mf_stored_size = 2,
      mf_chunker = ''fixed-1m'',
      mf_chunk_refs =
        [\<lparr>cr_chunk_index = 0, cr_cid = ''c'', cr_offset = 0, cr_logical_len = 2, cr_stored_len = 2,
          cr_content_encoding = ''identity''\<rparr>],
      mf_content_type = ''x'', mf_created_at_ms = 5, mf_encryption_descriptor = sample_descriptor\<rparr>"

lemma sample_manifest_ok:
  "cv_ok (manifest_canonical_value (sample_manifest\<lparr>mf_logical_size := n\<rparr>))"
  "cv_ok (manifest_canonical_value sample_manifest)"
  by (simp_all add: sample_manifest_def sample_descriptor_def manifest_canonical_value_def
      descriptor_canonical_value_def chunk_ref_canonical_value_def wrapped_key_canonical_value_def
      metadata_map_to_canonical_value_def insert_some_def)

theorem manifest_cid_commits_witness:
  "let D = ref_core_deps\<lparr>sha256 := \<lambda>_. []\<rparr>; m = sample_manifest; n = m\<lparr>mf_logical_size := 3\<rparr>
   in m \<noteq> n \<and> sha256_collision D (manifest_canonical_cbor_bytes m) (manifest_canonical_cbor_bytes n)"
proof -
  let ?D = "ref_core_deps\<lparr>sha256 := \<lambda>_. []\<rparr>" and ?n = "sample_manifest\<lparr>mf_logical_size := 3\<rparr>"
  have "base32_injective ?D" using ref_base32_injective by (simp add: base32_injective_def)
  moreover have "cv_ok (manifest_canonical_value sample_manifest)" "cv_ok (manifest_canonical_value ?n)"
    by (simp_all add: sample_manifest_ok)
  moreover have "manifest_cid ?D sample_manifest = manifest_cid ?D ?n"
    by (simp add: manifest_cid_def cid_from_bytes_def)
  moreover have "sample_manifest \<noteq> ?n" by (simp add: sample_manifest_def)
  ultimately show ?thesis using manifest_cid_commits [of ?D sample_manifest ?n] by (simp add: Let_def)
qed

text \<open>
  C34. A namespace mutation is tamper evident: its \<open>record_cid\<close> commits to every field of the
  record (tenant, namespace, path, kind, target, expected revision, lifetime, metadata and time),
  up to a SHA-256 collision.
\<close>

theorem record_cid_commits:
  assumes "base32_injective D" "cv_ok (mutation_record_canonical_value a)"
    "cv_ok (mutation_record_canonical_value b)" "record_cid D a = record_cid D b"
  shows "a = b \<or> sha256_collision D (mutation_record_canonical_cbor_bytes a)
                    (mutation_record_canonical_cbor_bytes b)"
  using mutation_records.cid_commits [of D a b] assms
  by (simp add: record_cid_def mutation_record_canonical_cbor_bytes_def)

definition sample_record :: NamespaceMutationRecord where
  "sample_record =
     \<lparr>nm_version = 1, nm_tenant_id = TenantId ''t'', nm_namespace = ''n'', nm_path = ''a/b'',
      nm_kind = NM_Bind, nm_target_cid = Some ''c'', nm_if_revision = None, nm_ttl_ms = None,
      nm_metadata = [], nm_issued_at_ms = 5\<rparr>"

lemma sample_record_ok:
  "cv_ok (mutation_record_canonical_value (sample_record\<lparr>nm_target_cid := Some ''r''\<rparr>))"
  "cv_ok (mutation_record_canonical_value sample_record)"
  by (simp_all add: sample_record_def mutation_record_canonical_value_def insert_some_def
      metadata_map_to_canonical_value_def)

theorem record_cid_commits_witness:
  "let D = ref_core_deps\<lparr>sha256 := \<lambda>_. []\<rparr>; a = sample_record;
       b = a\<lparr>nm_target_cid := Some ''r''\<rparr>
   in a \<noteq> b \<and> sha256_collision D (mutation_record_canonical_cbor_bytes a)
                 (mutation_record_canonical_cbor_bytes b)"
proof -
  let ?D = "ref_core_deps\<lparr>sha256 := \<lambda>_. []\<rparr>"
    and ?b = "sample_record\<lparr>nm_target_cid := Some ''r''\<rparr>"
  have "base32_injective ?D" using ref_base32_injective by (simp add: base32_injective_def)
  moreover have "record_cid ?D sample_record = record_cid ?D ?b"
    by (simp add: record_cid_def cid_from_bytes_def)
  moreover have "sample_record \<noteq> ?b" by (simp add: sample_record_def)
  ultimately show ?thesis
    using record_cid_commits [of ?D sample_record ?b] by (simp add: Let_def sample_record_ok)
qed

section \<open>Cursors\<close>

lemma cbor_entry_of:
  "cbor_entry (map (\<lambda>e. (Cb_Integer (uint (fst e)), cbor_of (snd e))) m) k = map_option cbor_of (map_of m k)"
  by (induction m) (auto simp: cbor_entry_def cbor_key_eq_def word_uint_eq_iff)

text \<open>The contract of an opaque cursor: what a page hands out, the next request reads back.\<close>

locale cursor_codec =
  fixes enc :: "'c \<Rightarrow> string" and dec :: "string \<Rightarrow> ApiError + 'c" and good :: "'c \<Rightarrow> bool"
  assumes dec_enc: "good c \<Longrightarrow> dec (enc c) = Ok c"
begin

lemma enc_inject: "good c \<Longrightarrow> good d \<Longrightarrow> enc c = enc d \<longleftrightarrow> c = d"
  using dec_enc by (metis sum.inject(2))

end

definition list_cursor_ok :: "ListCursor \<Rightarrow> bool" where
  "list_cursor_ok c \<longleftrightarrow>
     cv_ok (list_cursor_canonical_value c) \<and> tenant_str (lc_tenant_id c) \<noteq> [] \<and>
     lc_namespace c \<noteq> [] \<and> lc_last_path c \<noteq> []"

definition event_cursor_ok :: "EventCursor \<Rightarrow> bool" where
  "event_cursor_ok c \<longleftrightarrow>
     cv_ok (event_cursor_canonical_value c) \<and> tenant_str (ec_tenant_id c) \<noteq> []"

lemma decode_cursor_map_enc:
  assumes "cursor_laws D" "cv_ok (CV_Map m)" "\<forall>e\<in>set m. cv_scalar (snd e)"
  shows "decode_cursor_map D (b64url_encode D (encode_canonical_cbor (CV_Map m)))
     = Ok (map (\<lambda>e. (Cb_Integer (uint (fst e)), cbor_of (snd e))) m)"
  using assms by (simp add: cursor_laws_def decode_cursor_map_def)

lemma list_cursor_fields:
  obtains m where "list_cursor_canonical_value c = CV_Map m" "\<forall>e\<in>set m. cv_scalar (snd e)"
    "map_of m 1 = Some (CV_Text (tenant_str (lc_tenant_id c)))"
    "map_of m 2 = Some (CV_Text (lc_namespace c))"
    "map_of m 3 = map_option CV_Text (lc_prefix c)"
    "map_of m 4 = Some (CV_Unsigned (lc_snapshot_revision c))"
    "map_of m 5 = Some (CV_Text (lc_last_path c))"
  by (auto simp: list_cursor_canonical_value_def Let_def insert_some_def split: option.splits)

lemma list_cursor_dec_enc:
  assumes "cursor_laws D" "cv_ok (list_cursor_canonical_value c)"
  shows "list_cursor_decode D (list_cursor_encode D c) =
    (if tenant_str (lc_tenant_id c) = [] then
       Err (invalid_cursor ''cursor field tenant_id is missing or invalid'')
     else if lc_namespace c = [] then
       Err (invalid_cursor ''cursor field namespace is missing or invalid'')
     else if lc_last_path c = [] then
       Err (invalid_cursor ''cursor field last_path is missing or invalid'')
     else Ok c)"
proof -
  obtain m where m: "list_cursor_canonical_value c = CV_Map m" "\<forall>e\<in>set m. cv_scalar (snd e)"
    "map_of m 1 = Some (CV_Text (tenant_str (lc_tenant_id c)))"
    "map_of m 2 = Some (CV_Text (lc_namespace c))"
    "map_of m 3 = map_option CV_Text (lc_prefix c)"
    "map_of m 4 = Some (CV_Unsigned (lc_snapshot_revision c))"
    "map_of m 5 = Some (CV_Text (lc_last_path c))"
    by (rule list_cursor_fields)
  have "decode_cursor_map D (list_cursor_encode D c)
     = Ok (map (\<lambda>e. (Cb_Integer (uint (fst e)), cbor_of (snd e))) m)"
    using assms m(2) unfolding list_cursor_encode_def m(1) by (intro decode_cursor_map_enc)
  then show ?thesis
    using unsigned_less [of "lc_snapshot_revision c", where 'a = int]
    by (cases c; cases "lc_tenant_id c"; cases "lc_prefix c")
      (simp_all add: list_cursor_decode_def required_cbor_text_def optional_cbor_text_def
        required_cbor_u64_def cbor_entry_of m)
qed

lemma event_cursor_dec_enc:
  assumes "cursor_laws D" "event_cursor_ok c"
  shows "event_cursor_decode D (event_cursor_encode D c) = Ok c"
proof -
  obtain m where m: "event_cursor_canonical_value c = CV_Map m" "\<forall>e\<in>set m. cv_scalar (snd e)"
    "map_of m 1 = Some (CV_Text (tenant_str (ec_tenant_id c)))"
    "map_of m 2 = Some (CV_Unsigned (ec_next_seq c))"
    by (auto simp: event_cursor_canonical_value_def Let_def)
  have "decode_cursor_map D (event_cursor_encode D c)
     = Ok (map (\<lambda>e. (Cb_Integer (uint (fst e)), cbor_of (snd e))) m)"
    using assms m(2) unfolding event_cursor_encode_def event_cursor_ok_def m(1)
    by (intro decode_cursor_map_enc) auto
  then show ?thesis
    using unsigned_less [of "ec_next_seq c", where 'a = int] assms(2)
    by (cases c; cases "ec_tenant_id c")
      (simp_all add: event_cursor_decode_def required_cbor_text_def required_cbor_u64_def
        cbor_entry_of m event_cursor_ok_def)
qed

interpretation list_cursors: cursor_codec "list_cursor_encode D" "list_cursor_decode D"
  "\<lambda>c. cursor_laws D \<and> list_cursor_ok c" for D
  by unfold_locales (simp add: list_cursor_dec_enc list_cursor_ok_def)

interpretation event_cursors: cursor_codec "event_cursor_encode D" "event_cursor_decode D"
  "\<lambda>c. cursor_laws D \<and> event_cursor_ok c" for D
  by unfold_locales (simp add: event_cursor_dec_enc)

text \<open>
  C36. A list cursor that a page hands out is read back field for field by the next request; a
  cursor with an empty tenant, namespace or last path is refused, with the message of the first
  such field.
\<close>

theorem list_cursor_roundtrip:
  assumes "cursor_laws D" "cv_ok (list_cursor_canonical_value c)"
  shows "list_cursor_decode D (list_cursor_encode D c) =
    (if tenant_str (lc_tenant_id c) = [] then
       Err (invalid_cursor ''cursor field tenant_id is missing or invalid'')
     else if lc_namespace c = [] then
       Err (invalid_cursor ''cursor field namespace is missing or invalid'')
     else if lc_last_path c = [] then
       Err (invalid_cursor ''cursor field last_path is missing or invalid'')
     else Ok c)"
  by (rule list_cursor_dec_enc [OF assms])

definition sample_list_cursor :: ListCursor where
  "sample_list_cursor =
     \<lparr>lc_tenant_id = TenantId ''t'', lc_namespace = ''n'', lc_prefix = Some ''a'',
      lc_snapshot_revision = 7, lc_last_path = ''a/b''\<rparr>"

lemma sample_list_cursor_ok:
  "cv_ok (list_cursor_canonical_value sample_list_cursor)"
  by (simp add: sample_list_cursor_def list_cursor_canonical_value_def insert_some_def)

theorem list_cursor_roundtrip_witness:
  "list_cursor_decode ref_core_deps (list_cursor_encode ref_core_deps sample_list_cursor)
     = Ok sample_list_cursor"
  using list_cursor_roundtrip [OF ref_cursor_laws sample_list_cursor_ok]
  by (simp add: sample_list_cursor_def)

end
