(* ===== verification/HSP_Auth.thy ===== *)
theory HSP_Auth
  imports HSP_Path HSP_Core
begin

text \<open>
  The crate \<open>crates/hsp-auth\<close>: the policy engine that authorizes a request from the claims of a
  capability token, its replay cache, the verification of COSE_Sign1 tokens and signed namespace
  records, and the TLS channel binding. The time of the clock is an argument; COSE, Ed25519 and
  the decoding of claims are fields of \<open>auth_deps\<close>.
\<close>

section \<open>Requests and decisions\<close>

record AuthContext =
  ac_claims :: CapabilityClaims
  ac_channel_binding :: "ChannelBindingProof option"

datatype ReplayStatus = Fresh | IdempotentRetry

record AuthorizationDecision =
  ad_replay_status :: ReplayStatus

record AuthRequestMeta =
  am_operation :: OperationName
  am_tenant_id :: TenantId
  am_subject :: string
  am_namespace :: "string option"
  am_path :: "string option"
  am_content_size :: "u64 option"
  am_storage_class :: "string option"
  am_key_policy_id :: "KeyPolicyId option"
  am_encryption_profile_id :: "EncryptionProfileId option"
  am_metadata_visibility :: "VisibilityMode option"
  am_idempotency_key :: "string option"

record IssuerRecord =
  is_issuer :: string
  is_key_id :: string
  is_algorithm :: string
  is_public_key_b64 :: string
  is_audiences :: "string list"

record IssuerRegistry =
  rg_issuers :: "IssuerRecord list"

record ReplayCache =
  rc_seen :: "string \<rightharpoonup> string"

record PolicyEngine =
  pe_replay_cache :: ReplayCache

definition policy_engine_new :: PolicyEngine where
  "policy_engine_new = \<lparr>pe_replay_cache = \<lparr>rc_seen = Map.empty\<rparr>\<rparr>"

datatype DenialReason =
    TenantMismatch | OperationNotAllowed | MissingChannelBinding | MissingJti | MissingKeyPolicyId
  | MissingEncryptionProfileId | KeyPolicyMismatch | MetadataVisibilityMismatch
  | NamespaceScopeMismatch | PathScopeMismatch | ObjectTooLarge | StorageClassMismatch
  | ExpiredToken | NotYetValid | ReplayDetected | InvalidSignedRecord

fun denial_message :: "DenialReason \<Rightarrow> string" where
  "denial_message TenantMismatch = ''tenant mismatch''"
| "denial_message OperationNotAllowed = ''operation not allowed''"
| "denial_message MissingChannelBinding = ''missing channel binding''"
| "denial_message MissingJti = ''missing jti''"
| "denial_message MissingKeyPolicyId = ''missing key policy id''"
| "denial_message MissingEncryptionProfileId = ''missing encryption profile id''"
| "denial_message KeyPolicyMismatch = ''key policy mismatch''"
| "denial_message MetadataVisibilityMismatch = ''metadata visibility mismatch''"
| "denial_message NamespaceScopeMismatch = ''namespace scope mismatch''"
| "denial_message PathScopeMismatch = ''path scope mismatch''"
| "denial_message ObjectTooLarge = ''object too large''"
| "denial_message StorageClassMismatch = ''storage class mismatch''"
| "denial_message ExpiredToken = ''expired token''"
| "denial_message NotYetValid = ''token not yet valid''"
| "denial_message ReplayDetected = ''replay detected''"
| "denial_message InvalidSignedRecord = ''invalid signed record''"

definition public_profile_requires_channel_binding :: bool where
  "public_profile_requires_channel_binding = True"

definition mutation_requires_jti :: "OperationName \<Rightarrow> bool" where
  "mutation_requires_jti op = is_mutation op"

definition granular_admin_scopes :: "CapabilityScope list" where
  "granular_admin_scopes =
     [Sc_AdminMetricsRead, Sc_AdminAuditRead, Sc_AdminRepair, Sc_AdminKeyRotate,
      Sc_AdminPolicyWrite]"

fun denial_category_code :: "DenialReason \<Rightarrow> ApiErrorCategory \<times> string" where
  "denial_category_code ReplayDetected = (Cat_Replay, ''replay_detected'')"
| "denial_category_code MissingChannelBinding = (Cat_Auth, ''missing_channel_binding'')"
| "denial_category_code MissingJti = (Cat_Auth, ''missing_jti'')"
| "denial_category_code TenantMismatch = (Cat_Auth, ''tenant_mismatch'')"
| "denial_category_code OperationNotAllowed = (Cat_Auth, ''operation_not_allowed'')"
| "denial_category_code MissingKeyPolicyId = (Cat_Policy, ''missing_key_policy_id'')"
| "denial_category_code MissingEncryptionProfileId = (Cat_Policy, ''missing_encryption_profile_id'')"
| "denial_category_code KeyPolicyMismatch = (Cat_Policy, ''key_policy_mismatch'')"
| "denial_category_code MetadataVisibilityMismatch = (Cat_Policy, ''metadata_visibility_mismatch'')"
| "denial_category_code NamespaceScopeMismatch = (Cat_Policy, ''namespace_scope_mismatch'')"
| "denial_category_code PathScopeMismatch = (Cat_Policy, ''path_scope_mismatch'')"
| "denial_category_code ObjectTooLarge = (Cat_Validation, ''object_too_large'')"
| "denial_category_code StorageClassMismatch = (Cat_Policy, ''storage_class_mismatch'')"
| "denial_category_code ExpiredToken = (Cat_Auth, ''token_expired'')"
| "denial_category_code NotYetValid = (Cat_Auth, ''token_not_yet_valid'')"
| "denial_category_code InvalidSignedRecord = (Cat_Auth, ''invalid_signed_record'')"

definition denial_to_api_error :: "DenialReason \<Rightarrow> ApiError" where
  "denial_to_api_error reason =
     (case denial_category_code reason of (category, code) \<Rightarrow>
        api_error category code (denial_message reason))"

section \<open>The policy engine\<close>

fun scope_matches_operation :: "CapabilityScope \<Rightarrow> OperationName \<Rightarrow> bool" where
  "scope_matches_operation scope Op_Info = (scope = Sc_Read)"
| "scope_matches_operation scope Op_Head = (scope = Sc_Read)"
| "scope_matches_operation scope Op_Get = (scope = Sc_Read)"
| "scope_matches_operation scope Op_Resolve = (scope = Sc_Read)"
| "scope_matches_operation scope Op_Bind = (scope = Sc_Bind \<or> scope = Sc_Write)"
| "scope_matches_operation scope Op_Unbind = (scope = Sc_Unbind \<or> scope = Sc_Bind \<or> scope = Sc_Write)"
| "scope_matches_operation scope Op_List = (scope = Sc_List \<or> scope = Sc_Read)"
| "scope_matches_operation scope Op_Subscribe = (scope = Sc_Subscribe \<or> scope = Sc_Read)"
| "scope_matches_operation scope Op_PutInit = (scope = Sc_Write)"
| "scope_matches_operation scope Op_PutChunk = (scope = Sc_Write)"
| "scope_matches_operation scope Op_PutCommit = (scope = Sc_Write)"

fun operation_requires_object_crypto :: "OperationName \<Rightarrow> bool" where
  "operation_requires_object_crypto Op_PutInit = True"
| "operation_requires_object_crypto Op_PutChunk = True"
| "operation_requires_object_crypto Op_PutCommit = True"
| "operation_requires_object_crypto _ = False"

definition replay_key :: "TenantId \<Rightarrow> string \<Rightarrow> OperationName \<Rightarrow> string \<Rightarrow> string" where
  "replay_key tenant_id jti operation subject =
     tenant_str tenant_id @ ''|'' @ jti @ ''|'' @ operation_as_str operation @ ''|'' @ subject"

definition observe ::
  "TenantId \<Rightarrow> string \<Rightarrow> OperationName \<Rightarrow> string \<Rightarrow> string option
   \<Rightarrow> (ReplayCache, DenialReason, ReplayStatus) comp" where
  "observe tenant_id jti operation subject idempotency_key cache =
     (if \<not> is_mutation operation then (Ok Fresh, cache)
      else
        let key = replay_key tenant_id jti operation subject in
        case rc_seen cache key of
          Some existing \<Rightarrow>
            if idempotency_key = Some existing then (Ok IdempotentRetry, cache)
            else (Err ReplayDetected, cache)
        | None \<Rightarrow>
            (Ok Fresh,
             cache\<lparr>rc_seen := (rc_seen cache)(key \<mapsto> (case idempotency_key of None \<Rightarrow> [] | Some k \<Rightarrow> k))\<rparr>))"

definition validate_time_window :: "u64 \<Rightarrow> CapabilityClaims \<Rightarrow> DenialReason + unit" where
  "validate_time_window now claims =
     (if now > cl_exp claims then Err ExpiredToken
      else case cl_nbf claims of
             Some nbf \<Rightarrow> if now < nbf then Err NotYetValid else Ok ()
           | None \<Rightarrow> Ok ())"

definition scope_check :: "string option \<Rightarrow> string option \<Rightarrow> DenialReason \<Rightarrow> DenialReason + unit" where
  "scope_check prefix_opt candidate reason =
     (case prefix_opt of
        None \<Rightarrow> Ok ()
      | Some p \<Rightarrow>
          (case candidate of
             None \<Rightarrow> Err reason
           | Some c \<Rightarrow> if \<not> segment_prefix_matches p c then Err reason else Ok ()))"

definition equal_check :: "'a option \<Rightarrow> 'a option \<Rightarrow> DenialReason \<Rightarrow> DenialReason + unit" where
  "equal_check expected actual reason =
     (case (expected, actual) of
        (Some e, Some a) \<Rightarrow> if a \<noteq> e then Err reason else Ok ()
      | _ \<Rightarrow> Ok ())"

definition deny_if :: "bool \<Rightarrow> DenialReason \<Rightarrow> DenialReason + unit" where
  "deny_if b reason = (if b then Err reason else Ok ())"

text \<open>The checks of \<open>authorize\<close> before the replay cache, in their order.\<close>

definition authorize_checks :: "u64 \<Rightarrow> AuthContext \<Rightarrow> AuthRequestMeta \<Rightarrow> DenialReason + unit" where
  "authorize_checks now auth meta =
     (let claims = ac_claims auth; op = am_operation meta in
      rbnd (validate_time_window now claims) (\<lambda>_.
      rbnd (deny_if (cl_tenant_id claims \<noteq> am_tenant_id meta) TenantMismatch) (\<lambda>_.
      rbnd (deny_if (\<not> list_ex (\<lambda>scope. scope_matches_operation scope op) (cl_ops claims))
              OperationNotAllowed) (\<lambda>_.
      rbnd (deny_if (is_mutation op \<and> public_profile_requires_channel_binding
                      \<and> ac_channel_binding auth = None) MissingChannelBinding) (\<lambda>_.
      rbnd (deny_if (operation_requires_object_crypto op \<and> am_key_policy_id meta = None)
              MissingKeyPolicyId) (\<lambda>_.
      rbnd (deny_if (operation_requires_object_crypto op \<and> am_encryption_profile_id meta = None)
              MissingEncryptionProfileId) (\<lambda>_.
      rbnd (deny_if (is_mutation op \<and> cl_jti claims = None) MissingJti) (\<lambda>_.
      rbnd (equal_check (cl_key_policy_id claims) (am_key_policy_id meta) KeyPolicyMismatch) (\<lambda>_.
      rbnd (equal_check (cl_metadata_visibility claims) (am_metadata_visibility meta)
              MetadataVisibilityMismatch) (\<lambda>_.
      rbnd (scope_check (cl_path_prefix claims) (am_path meta) PathScopeMismatch) (\<lambda>_.
      rbnd (scope_check (cl_namespace_prefix claims) (am_namespace meta) NamespaceScopeMismatch) (\<lambda>_.
      rbnd (case (cl_max_object_size claims, am_content_size meta) of
              (Some max_object_size, Some content_size) \<Rightarrow>
                deny_if (content_size > max_object_size) ObjectTooLarge
            | _ \<Rightarrow> Ok ()) (\<lambda>_.
      (case am_storage_class meta of
         None \<Rightarrow> Ok ()
       | Some storage_class \<Rightarrow>
           deny_if (cl_storage_classes claims \<noteq> [] \<and>
                    \<not> list_ex (\<lambda>allowed. allowed = storage_class) (cl_storage_classes claims))
             StorageClassMismatch))))))))))))))"

definition observe_engine ::
  "TenantId \<Rightarrow> string \<Rightarrow> OperationName \<Rightarrow> string \<Rightarrow> string option
   \<Rightarrow> (PolicyEngine, DenialReason, ReplayStatus) comp" where
  "observe_engine tenant_id jti operation subject idempotency_key pe =
     (case observe tenant_id jti operation subject idempotency_key (pe_replay_cache pe) of
        (r, cache) \<Rightarrow> (r, pe\<lparr>pe_replay_cache := cache\<rparr>))"

definition authorize ::
  "u64 \<Rightarrow> AuthContext \<Rightarrow> AuthRequestMeta \<Rightarrow> (PolicyEngine, DenialReason, AuthorizationDecision) comp" where
  "authorize now auth meta =
     bnd (lift_result (authorize_checks now auth meta)) (\<lambda>_.
     bnd (case cl_jti (ac_claims auth) of
            Some jti \<Rightarrow>
              observe_engine (am_tenant_id meta) jti (am_operation meta) (am_subject meta)
                (am_idempotency_key meta)
          | None \<Rightarrow> ret Fresh) (\<lambda>replay_status.
     ret \<lparr>ad_replay_status = replay_status\<rparr>))"

section \<open>Signed tokens\<close>

text \<open>
  \<open>coset::CoseSign1\<close>, \<open>ed25519_dalek\<close> and the serde forms of the payloads. \<open>cose_tbs\<close> is the
  byte string that \<open>verify_signature\<close> hands to its closure, from the token and the additional
  data.
\<close>

record CoseSign1 =
  cs_protected :: "byte list"
  cs_key_id :: "byte list"
  cs_payload :: "byte list option"
  cs_signature :: "byte list"

record auth_deps = core_deps +
  cose_from_slice :: "byte list \<Rightarrow> CoseSign1 option"
  cose_tbs :: "CoseSign1 \<Rightarrow> byte list \<Rightarrow> byte list"
  ed25519_key_ok :: "byte list \<Rightarrow> bool"
  ed25519_signature_ok :: "byte list \<Rightarrow> bool"
  ed25519_verify :: "byte list \<Rightarrow> byte list \<Rightarrow> byte list \<Rightarrow> bool"
  cbor_claims :: "byte list \<Rightarrow> string + CapabilityClaims"
  cbor_mutation :: "byte list \<Rightarrow> string + NamespaceMutationRecord"
  json_registry :: "byte list \<Rightarrow> string + IssuerRegistry"

text \<open>\<open>fs::read\<close> of the registry file is the argument.\<close>

definition registry_load :: "'x auth_deps_scheme \<Rightarrow> string + byte list \<Rightarrow> ApiError + IssuerRegistry" where
  "registry_load D read_result =
     rbnd (map_err (api_error Cat_Policy ''issuer_registry_read_failed'') read_result) (\<lambda>bytes.
     map_err (api_error Cat_Policy ''issuer_registry_invalid'') (json_registry D bytes))"

definition registry_resolve :: "IssuerRegistry \<Rightarrow> string \<Rightarrow> IssuerRecord option" where
  "registry_resolve registry issuer = List.find (\<lambda>c. is_issuer c = issuer) (rg_issuers registry)"

definition resolve_key_id :: "IssuerRegistry \<Rightarrow> byte list \<Rightarrow> IssuerRecord option" where
  "resolve_key_id registry key_id =
     (case str_from_utf8 key_id of
        None \<Rightarrow> None
      | Some k \<Rightarrow> List.find (\<lambda>c. is_key_id c = k) (rg_issuers registry))"

definition auth_error :: "string \<Rightarrow> string \<Rightarrow> ApiError" where
  "auth_error code message = api_error Cat_Auth code message"

text \<open>
  \<open>verify_cose_sign1_payload\<close>: \<open>decode\<close> is the serde reader of the payload type and
  \<open>json_str\<close> reads a text field of its JSON form (\<open>None\<close> where the type has no such field).
\<close>

definition verify_cose_sign1_payload ::
  "'x auth_deps_scheme \<Rightarrow> (byte list \<Rightarrow> string + 'a) \<Rightarrow> ('a \<Rightarrow> string \<Rightarrow> string option)
   \<Rightarrow> string \<Rightarrow> IssuerRegistry \<Rightarrow> string \<Rightarrow> ApiError + 'a" where
  "verify_cose_sign1_payload D decode json_str token_b64 registry payload_name =
     rbnd (ok_or (b64url_decode D (as_bytes token_b64))
             (auth_error ''invalid_token_base64'' (''invalid '' @ payload_name @ '' encoding''))) (\<lambda>token_bytes.
     rbnd (ok_or (cose_from_slice D token_bytes)
             (auth_error ''invalid_token_format'' (''invalid COSE_Sign1 '' @ payload_name))) (\<lambda>token.
     rbnd (ok_or (cs_payload token)
             (auth_error ''missing_token_payload'' (payload_name @ '' payload is missing''))) (\<lambda>payload.
     rbnd (map_err (\<lambda>_. auth_error ''invalid_token_claims'' (payload_name @ '' payload is not valid CBOR''))
             (decode payload)) (\<lambda>claims.
     rbnd (ok_or (case json_str claims ''iss'' of
                    Some issuer_name \<Rightarrow> registry_resolve registry issuer_name
                  | None \<Rightarrow>
                      if cs_key_id token \<noteq> [] then resolve_key_id registry (cs_key_id token) else None)
             (auth_error ''unknown_issuer'' (payload_name @ '' signer is not trusted''))) (\<lambda>issuer.
     if is_algorithm issuer \<noteq> ''Ed25519'' then
       Err (auth_error ''unsupported_token_algorithm'' ''issuer algorithm is not supported'')
     else if is_audiences issuer \<noteq> [] \<and>
             (case json_str claims ''aud'' of
                None \<Rightarrow> False
              | Some audience \<Rightarrow> \<not> list_ex (\<lambda>candidate. candidate = audience) (is_audiences issuer)) then
       Err (auth_error ''invalid_token_audience''
              (payload_name @ '' audience is not allowed by issuer registry''))
     else
     rbnd (ok_or (b64url_decode D (as_bytes (is_public_key_b64 issuer)))
             (auth_error ''invalid_issuer_key'' ''issuer public key encoding is invalid'')) (\<lambda>key.
     if length key \<noteq> 32 then
       Err (auth_error ''invalid_issuer_key'' ''issuer public key must be 32 bytes'')
     else if \<not> ed25519_key_ok D key then
       Err (auth_error ''invalid_issuer_key'' ''issuer public key is invalid'')
     else if \<not> ed25519_signature_ok D (cs_signature token) then
       Err (auth_error ''invalid_token_signature'' ''token signature is malformed'')
     else if \<not> ed25519_verify D key (cose_tbs D token []) (cs_signature token) then
       Err (auth_error ''invalid_token_signature'' ''token signature verification failed'')
     else Ok claims))))))"

fun claims_json_str :: "CapabilityClaims \<Rightarrow> string \<Rightarrow> string option" where
  "claims_json_str claims key =
     (if key = ''iss'' then Some (cl_iss claims)
      else if key = ''aud'' then Some (cl_aud claims)
      else None)"

definition verify_cose_sign1_token ::
  "'x auth_deps_scheme \<Rightarrow> string \<Rightarrow> IssuerRegistry \<Rightarrow> ApiError + CapabilityClaims" where
  "verify_cose_sign1_token D token_b64 registry =
     verify_cose_sign1_payload D (cbor_claims D) claims_json_str token_b64 registry ''capability token''"

definition verify_signed_namespace_record ::
  "'x auth_deps_scheme \<Rightarrow> string \<Rightarrow> IssuerRegistry \<Rightarrow> ApiError + NamespaceMutationRecord" where
  "verify_signed_namespace_record D token_b64 registry =
     verify_cose_sign1_payload D (cbor_mutation D) (\<lambda>_ _. None) token_b64 registry ''namespace mutation''"

definition verify_tls_exporter_binding ::
  "'x core_deps_scheme \<Rightarrow> byte list \<Rightarrow> ChannelBindingProof \<Rightarrow> ApiError + unit" where
  "verify_tls_exporter_binding D exported_key_material binding =
     (if cb_binding_kind binding \<noteq> ''tls-exporter'' then
        Err (auth_error ''invalid_channel_binding'' ''unsupported channel binding kind'')
      else if cb_proof_b64 binding \<noteq> b64url_encode D exported_key_material then
        Err (auth_error ''invalid_channel_binding'' ''channel binding proof verification failed'')
      else Ok ())"

definition tls_exporter_label :: "byte list" where
  "tls_exporter_label = as_bytes ''EXPORTER-HSP-Channel-Binding-v1''"

section \<open>What the policy engine permits\<close>

text \<open>
  The contract of \<open>authorize\<close>: the conditions on token and request, without an order between
  them.
\<close>

definition covers :: "string option \<Rightarrow> string option \<Rightarrow> bool" where
  "covers scope candidate \<longleftrightarrow>
     (\<forall>p. scope = Some p \<longrightarrow>
        (\<exists>c ps cs. candidate = Some c \<and> canonical_segments p = Ok ps \<and> canonical_segments c = Ok cs \<and>
           prefix ps cs))"

definition permitted :: "u64 \<Rightarrow> AuthContext \<Rightarrow> AuthRequestMeta \<Rightarrow> bool" where
  "permitted now auth meta \<longleftrightarrow>
     (let claims = ac_claims auth; op = am_operation meta in
      now \<le> cl_exp claims \<and> (\<forall>nbf. cl_nbf claims = Some nbf \<longrightarrow> nbf \<le> now) \<and>
      cl_tenant_id claims = am_tenant_id meta \<and>
      (\<exists>scope\<in>set (cl_ops claims). scope_matches_operation scope op) \<and>
      (is_mutation op \<longrightarrow> ac_channel_binding auth \<noteq> None \<and> cl_jti claims \<noteq> None) \<and>
      (operation_requires_object_crypto op \<longrightarrow>
         am_key_policy_id meta \<noteq> None \<and> am_encryption_profile_id meta \<noteq> None) \<and>
      (\<forall>e a. cl_key_policy_id claims = Some e \<and> am_key_policy_id meta = Some a \<longrightarrow> a = e) \<and>
      (\<forall>e a. cl_metadata_visibility claims = Some e \<and> am_metadata_visibility meta = Some a \<longrightarrow> a = e) \<and>
      covers (cl_path_prefix claims) (am_path meta) \<and>
      covers (cl_namespace_prefix claims) (am_namespace meta) \<and>
      (\<forall>m n. cl_max_object_size claims = Some m \<and> am_content_size meta = Some n \<longrightarrow> n \<le> m) \<and>
      (\<forall>c. am_storage_class meta = Some c \<and> cl_storage_classes claims \<noteq> [] \<longrightarrow>
         c \<in> set (cl_storage_classes claims)))"

lemma deny_if_Ok [simp]: "deny_if b r = Ok u \<longleftrightarrow> \<not> b"
  by (simp add: deny_if_def)

lemma equal_check_Ok: "equal_check e a r = Ok u \<longleftrightarrow> (\<forall>x y. e = Some x \<and> a = Some y \<longrightarrow> y = x)"
  by (auto simp: equal_check_def split: option.splits)

lemma scope_check_Ok: "scope_check p c r = Ok u \<longleftrightarrow> covers p c"
  by (auto simp: scope_check_def covers_def segment_prefix_matches_iff split: option.splits)

lemma validate_time_window_Ok:
  "validate_time_window now c = Ok u \<longleftrightarrow> now \<le> cl_exp c \<and> (\<forall>nbf. cl_nbf c = Some nbf \<longrightarrow> nbf \<le> now)"
  by (auto simp: validate_time_window_def not_less split: option.splits)

lemma authorize_checks_Ok: "authorize_checks now auth meta = Ok u \<longleftrightarrow> permitted now auth meta"
proof -
  have size: "(case (m, n) of (Some m, Some n) \<Rightarrow> deny_if (n > m) ObjectTooLarge | _ \<Rightarrow> Ok ()) = Ok u
      \<longleftrightarrow> (\<forall>a b. m = Some a \<and> n = Some b \<longrightarrow> b \<le> a)" for m n :: "u64 option" and u
    by (auto split: option.splits)
  have cls: "(case c of None \<Rightarrow> Ok () | Some k \<Rightarrow> deny_if (l \<noteq> [] \<and> \<not> list_ex (\<lambda>a. a = k) l) StorageClassMismatch)
      = Ok u \<longleftrightarrow> (\<forall>k. c = Some k \<and> l \<noteq> [] \<longrightarrow> k \<in> set l)" for c :: "string option" and l u
    by (auto simp: list_ex_iff split: option.splits)
  show ?thesis
    unfolding authorize_checks_def permitted_def Let_def rbnd_Ok deny_if_Ok equal_check_Ok
      scope_check_Ok validate_time_window_Ok size cls public_profile_requires_channel_binding_def
    unfolding list_ex_iff ex_simps simp_thms
    by (rule iffI; elim conjE; intro conjI; (assumption | simp))
qed

lemma observe_cases:
  "observe t j op s k c =
     (if \<not> is_mutation op then (Ok Fresh, c)
      else case rc_seen c (replay_key t j op s) of
             None \<Rightarrow> (Ok Fresh, c\<lparr>rc_seen := (rc_seen c)(replay_key t j op s \<mapsto> case_option [] id k)\<rparr>)
           | Some e \<Rightarrow> (if k = Some e then Ok IdempotentRetry else Err ReplayDetected, c))"
  by (auto simp: observe_def Let_def split: option.splits)

abbreviation seen :: "PolicyEngine \<Rightarrow> string \<rightharpoonup> string" where
  "seen pe \<equiv> rc_seen (pe_replay_cache pe)"

lemma authorize_granted:
  "authorize now auth meta pe = (Ok d, pe') \<longleftrightarrow>
     permitted now auth meta \<and>
     (case (is_mutation (am_operation meta), cl_jti (ac_claims auth)) of
        (True, Some jti) \<Rightarrow>
          (let key = replay_key (am_tenant_id meta) jti (am_operation meta) (am_subject meta) in
           case seen pe key of
             None \<Rightarrow>
               ad_replay_status d = Fresh \<and>
               pe' = pe\<lparr>pe_replay_cache := (pe_replay_cache pe)
                        \<lparr>rc_seen := (seen pe)(key \<mapsto> case_option [] id (am_idempotency_key meta))\<rparr>\<rparr>
           | Some existing \<Rightarrow>
               ad_replay_status d = IdempotentRetry \<and> am_idempotency_key meta = Some existing \<and> pe' = pe)
      | _ \<Rightarrow> ad_replay_status d = Fresh \<and> pe' = pe)"
  by (cases d; cases pe)
    (auto simp: authorize_def bnd_Ok authorize_checks_Ok observe_engine_def observe_cases Let_def
      split: option.splits prod.splits if_splits bool.splits)

lemma authorize_denied:
  "authorize now auth meta pe = (Err reason, pe') \<longleftrightarrow>
     pe' = pe \<and>
     (if permitted now auth meta then
        reason = ReplayDetected \<and> is_mutation (am_operation meta) \<and>
        (\<exists>jti existing. cl_jti (ac_claims auth) = Some jti \<and> am_idempotency_key meta \<noteq> Some existing \<and>
           seen pe (replay_key (am_tenant_id meta) jti (am_operation meta) (am_subject meta)) = Some existing)
      else authorize_checks now auth meta = Err reason)"
  using authorize_checks_Ok [of now auth meta "()"]
  by (cases "authorize_checks now auth meta"; cases "cl_jti (ac_claims auth)"; cases "is_mutation (am_operation meta)")
    (auto simp: authorize_def bnd_def lift_result_def observe_engine_def observe_cases ret_def split: option.splits)

text \<open>
  C1. \<open>authorize\<close> grants a request exactly when the token permits it (valid at this time, same
  tenant, a scope for the operation, channel binding and token id for a mutation, key policy and
  profile for an upload, path and namespace inside the token's prefixes, size and storage class
  allowed) and the replay cache does not hold the request under another idempotency key. The
  engine changes only by the entry of a granted fresh mutation: a retry and every denial leave it
  as it was. A denial names the failed check, or a replay when there is none.
\<close>

theorem authorize_iff:
  "(authorize now auth meta pe = (Ok d, pe') \<longleftrightarrow>
     permitted now auth meta \<and>
     (case (is_mutation (am_operation meta), cl_jti (ac_claims auth)) of
        (True, Some jti) \<Rightarrow>
          (let key = replay_key (am_tenant_id meta) jti (am_operation meta) (am_subject meta) in
           case seen pe key of
             None \<Rightarrow>
               ad_replay_status d = Fresh \<and>
               pe' = pe\<lparr>pe_replay_cache := (pe_replay_cache pe)
                        \<lparr>rc_seen := (seen pe)(key \<mapsto> case_option [] id (am_idempotency_key meta))\<rparr>\<rparr>
           | Some existing \<Rightarrow>
               ad_replay_status d = IdempotentRetry \<and> am_idempotency_key meta = Some existing \<and> pe' = pe)
      | _ \<Rightarrow> ad_replay_status d = Fresh \<and> pe' = pe)) \<and>
   (authorize now auth meta pe = (Err reason, pe') \<longleftrightarrow>
     pe' = pe \<and>
     (if permitted now auth meta then
        reason = ReplayDetected \<and> is_mutation (am_operation meta) \<and>
        (\<exists>jti existing. cl_jti (ac_claims auth) = Some jti \<and> am_idempotency_key meta \<noteq> Some existing \<and>
           seen pe (replay_key (am_tenant_id meta) jti (am_operation meta) (am_subject meta)) = Some existing)
      else authorize_checks now auth meta = Err reason))"
  using authorize_granted authorize_denied by blast

definition request_key :: "u64 \<times> AuthContext \<times> AuthRequestMeta \<Rightarrow> string option" where
  "request_key = (\<lambda>(now, auth, meta).
     if is_mutation (am_operation meta) then
       map_option (\<lambda>jti. replay_key (am_tenant_id meta) jti (am_operation meta) (am_subject meta))
         (cl_jti (ac_claims auth))
     else None)"

definition request_idempotency :: "u64 \<times> AuthContext \<times> AuthRequestMeta \<Rightarrow> string option" where
  "request_idempotency = (\<lambda>(now, auth, meta). am_idempotency_key meta)"

lemma authorize_eq:
  "authorize now auth meta pe =
     (case authorize_checks now auth meta of
        Err e \<Rightarrow> (Err e, pe)
      | Ok _ \<Rightarrow>
          (case request_key (now, auth, meta) of
             None \<Rightarrow> (Ok \<lparr>ad_replay_status = Fresh\<rparr>, pe)
           | Some key \<Rightarrow>
               (case seen pe key of
                  None \<Rightarrow>
                    (Ok \<lparr>ad_replay_status = Fresh\<rparr>,
                     pe\<lparr>pe_replay_cache := (pe_replay_cache pe)
                        \<lparr>rc_seen := (seen pe)(key \<mapsto> case_option [] id (am_idempotency_key meta))\<rparr>\<rparr>)
                | Some e \<Rightarrow>
                    (if am_idempotency_key meta = Some e then Ok \<lparr>ad_replay_status = IdempotentRetry\<rparr>
                     else Err ReplayDetected, pe))))"
  by (cases "authorize_checks now auth meta"; cases "cl_jti (ac_claims auth)";
      cases "is_mutation (am_operation meta)")
    (simp_all add: authorize_def bnd_def lift_result_def observe_engine_def observe_cases ret_def
      request_key_def split: option.split)

lemma authorize_seen_mono: "seen pe \<subseteq>\<^sub>m seen (snd (authorize now auth meta pe))"
  by (auto simp: authorize_eq map_le_def split: option.split sum.split)

abbreviation auth_step ::
  "u64 \<times> AuthContext \<times> AuthRequestMeta \<Rightarrow> (PolicyEngine, DenialReason, AuthorizationDecision) comp" where
  "auth_step \<equiv> \<lambda>(now, auth, meta). authorize now auth meta"

interpretation policy: monotone_steps auth_step "\<lambda>p q. seen p \<subseteq>\<^sub>m seen q"
  by unfold_locales (auto simp: authorize_seen_mono intro: map_le_trans)

lemma auth_step_fresh:
  assumes "fst (auth_step q pe) = Ok d" "ad_replay_status d = Fresh" "request_key q = Some key"
  shows "seen pe key = None"
    "seen (snd (auth_step q pe)) key = Some (case_option [] id (request_idempotency q))"
  using assms
  by (cases q; auto simp: authorize_eq request_idempotency_def split: option.split_asm sum.split_asm
      if_split_asm)+

lemma auth_step_known:
  assumes "fst (auth_step q pe) = Ok d" "request_key q = Some key" "seen pe key = Some e"
  shows "ad_replay_status d = IdempotentRetry \<and> request_idempotency q = Some e"
  using assms
  by (cases q; auto simp: authorize_eq request_idempotency_def split: option.split_asm sum.split_asm
      if_split_asm)

text \<open>
  C2. A mutation is authorized as fresh at most once: in any sequence of requests, once one was
  granted as fresh, every later request with the same tenant, token id, operation and subject is
  either denied or granted as an idempotent retry, and then it carries the idempotency key of the
  first (the empty key where the first had none).
\<close>

theorem authorize_fresh_once:
  assumes "rs = fst (run_steps auth_step reqs pe)" "i < j" "j < length reqs"
    and "request_key (reqs ! i) = Some key" "request_key (reqs ! j) = Some key"
    and "rs ! i = Ok d" "ad_replay_status d = Fresh" "rs ! j = Ok e"
  shows "ad_replay_status e = IdempotentRetry \<and>
    request_idempotency (reqs ! j) = Some (case_option [] id (request_idempotency (reqs ! i)))"
proof -
  let ?s = "\<lambda>n. snd (run_steps auth_step (take n reqs) pe)"
  have i: "fst (auth_step (reqs ! i) (?s i)) = Ok d" and j: "fst (auth_step (reqs ! j) (?s j)) = Ok e"
    using assms by (simp_all add: run_steps_nth)
  have "seen (?s (Suc i)) key = Some (case_option [] id (request_idempotency (reqs ! i)))"
    using auth_step_fresh(2) [OF i assms(7,4)] assms(2,3) by (simp add: run_steps_take_Suc)
  moreover have "seen (?s (Suc i)) \<subseteq>\<^sub>m seen (?s j)"
    using assms(2,3) by (intro policy.run_le) simp_all
  ultimately have "seen (?s j) key = Some (case_option [] id (request_idempotency (reqs ! i)))"
    by (auto simp: map_le_def dom_def)
  then show ?thesis by (rule auth_step_known [OF j assms(5)])
qed

definition sample_claims :: CapabilityClaims where
  "sample_claims =
     \<lparr>cl_iss = ''i'', cl_sub = ''s'', cl_aud = ''a'', cl_exp = 100, cl_nbf = None, cl_jti = Some ''j'',
      cl_ops = [Sc_Write], cl_tenant_id = TenantId ''t'', cl_namespace_prefix = None,
      cl_path_prefix = None, cl_max_object_size = None, cl_storage_classes = [],
      cl_key_policy_id = None, cl_metadata_visibility = None\<rparr>"

definition sample_auth :: AuthContext where
  "sample_auth =
     \<lparr>ac_claims = sample_claims,
      ac_channel_binding = Some \<lparr>cb_binding_kind = ''tls-exporter'', cb_proof_b64 = ''x'', cb_nonce = ''n''\<rparr>\<rparr>"

definition sample_meta :: "string option \<Rightarrow> AuthRequestMeta" where
  "sample_meta idem =
     \<lparr>am_operation = Op_Bind, am_tenant_id = TenantId ''t'', am_subject = ''s'', am_namespace = Some ''n'',
      am_path = Some ''a/b'', am_content_size = None, am_storage_class = None, am_key_policy_id = None,
      am_encryption_profile_id = None, am_metadata_visibility = None, am_idempotency_key = idem\<rparr>"

lemma authorize_permitted:
  assumes "permitted now auth meta" "cl_jti (ac_claims auth) = Some jti" "is_mutation (am_operation meta)"
  defines "key \<equiv> replay_key (am_tenant_id meta) jti (am_operation meta) (am_subject meta)"
  shows "fst (authorize now auth meta pe) =
     (case seen pe key of
        None \<Rightarrow> Ok \<lparr>ad_replay_status = Fresh\<rparr>
      | Some e \<Rightarrow> if am_idempotency_key meta = Some e then Ok \<lparr>ad_replay_status = IdempotentRetry\<rparr>
                  else Err ReplayDetected)"
    "seen (snd (authorize now auth meta pe)) =
     (if seen pe key = None then (seen pe)(key \<mapsto> case_option [] id (am_idempotency_key meta)) else seen pe)"
proof -
  have "authorize_checks now auth meta = Ok ()" using assms(1) authorize_checks_Ok by blast
  then show "fst (authorize now auth meta pe) =
     (case seen pe key of
        None \<Rightarrow> Ok \<lparr>ad_replay_status = Fresh\<rparr>
      | Some e \<Rightarrow> if am_idempotency_key meta = Some e then Ok \<lparr>ad_replay_status = IdempotentRetry\<rparr>
                  else Err ReplayDetected)"
    "seen (snd (authorize now auth meta pe)) =
     (if seen pe key = None then (seen pe)(key \<mapsto> case_option [] id (am_idempotency_key meta)) else seen pe)"
    using assms(2,3)
    by (simp_all add: authorize_def bnd_def lift_result_def observe_engine_def observe_cases ret_def
        key_def split: option.splits)
qed

definition bar_auth :: "string \<Rightarrow> string \<Rightarrow> AuthContext" where
  "bar_auth t j = sample_auth\<lparr>ac_claims := sample_claims\<lparr>cl_tenant_id := TenantId t, cl_jti := Some j\<rparr>\<rparr>"

definition bar_meta :: "string \<Rightarrow> string option \<Rightarrow> AuthRequestMeta" where
  "bar_meta t idem = (sample_meta idem)\<lparr>am_tenant_id := TenantId t\<rparr>"

lemma bar_meta_fields:
  "am_operation (bar_meta t idem) = Op_Bind" "am_subject (bar_meta t idem) = ''s''"
  "am_tenant_id (bar_meta t idem) = TenantId t" "am_idempotency_key (bar_meta t idem) = idem"
  "cl_jti (ac_claims (bar_auth t j)) = Some j" "is_mutation Op_Bind"
  by (simp_all add: bar_auth_def bar_meta_def sample_meta_def is_mutation_def)

lemma bar_permitted: "permitted 5 (bar_auth t j) (bar_meta t idem)"
  by (simp add: permitted_def bar_auth_def bar_meta_def sample_auth_def sample_claims_def
      sample_meta_def Let_def covers_def is_mutation_def)

lemmas bar_authorize =
  authorize_permitted [OF bar_permitted bar_meta_fields(5), unfolded bar_meta_fields(1-4), OF bar_meta_fields(6)]

lemma sample_run:
  "fst (run_steps auth_step
     [(5, bar_auth ''t'' ''j'', bar_meta ''t'' (Some ''k'')), (5, bar_auth ''t'' ''j'', bar_meta ''t'' (Some ''k''))]
     policy_engine_new) = [Ok \<lparr>ad_replay_status = Fresh\<rparr>, Ok \<lparr>ad_replay_status = IdempotentRetry\<rparr>]"
  by (simp add: bar_authorize policy_engine_new_def)

theorem authorize_fresh_once_witness:
  "let q = (5, bar_auth ''t'' ''j'', bar_meta ''t'' (Some ''k''));
       rs = fst (run_steps auth_step [q, q] policy_engine_new)
   in rs ! 0 = Ok \<lparr>ad_replay_status = Fresh\<rparr> \<and> rs ! 1 = Ok \<lparr>ad_replay_status = IdempotentRetry\<rparr> \<and>
      request_idempotency q = Some ''k''"
proof -
  let ?q = "(5, bar_auth ''t'' ''j'', bar_meta ''t'' (Some ''k''))"
  let ?key = "replay_key (TenantId ''t'') ''j'' Op_Bind ''s''"
  have "request_key ?q = Some ?key"
    by (simp add: request_key_def bar_meta_fields)
  then have "ad_replay_status \<lparr>ad_replay_status = IdempotentRetry\<rparr> = IdempotentRetry \<and>
      request_idempotency ?q = Some (case_option [] id (request_idempotency ?q))"
    using authorize_fresh_once [OF sample_run [symmetric], of 0 1 ?key "\<lparr>ad_replay_status = Fresh\<rparr>"
        "\<lparr>ad_replay_status = IdempotentRetry\<rparr>"]
    by simp
  then show ?thesis unfolding Let_def sample_run by (simp add: request_idempotency_def bar_meta_fields)
qed

text \<open>
  The replay key joins its parts with a bar that the parts may hold, so requests of two
  tenants can share one entry: after a request of one tenant, a first request of another tenant,
  with a token id it never used, is denied as a replay.
\<close>

lemma replay_key_ambiguous:
  "\<exists>auth1 meta1 auth2 meta2 pe.
     am_tenant_id meta1 \<noteq> am_tenant_id meta2 \<and> permitted 5 auth2 meta2 \<and>
     fst (authorize 5 auth2 meta2 policy_engine_new) = Ok \<lparr>ad_replay_status = Fresh\<rparr> \<and>
     authorize 5 auth1 meta1 policy_engine_new = (Ok \<lparr>ad_replay_status = Fresh\<rparr>, pe) \<and>
     fst (authorize 5 auth2 meta2 pe) = Err ReplayDetected"
proof (intro exI conjI)
  let ?pe = "snd (authorize 5 (bar_auth ''a|b'' ''c'') (bar_meta ''a|b'' None) policy_engine_new)"
  have same: "replay_key (TenantId ''a|b'') ''c'' Op_Bind ''s'' = replay_key (TenantId ''a'') ''b|c'' Op_Bind ''s''"
    by (simp add: replay_key_def)
  show "am_tenant_id (bar_meta ''a|b'' None) \<noteq> am_tenant_id (bar_meta ''a'' None)"
    by (simp add: bar_meta_fields)
  show "permitted 5 (bar_auth ''a'' ''b|c'') (bar_meta ''a'' None)" by (rule bar_permitted)
  show "fst (authorize 5 (bar_auth ''a'' ''b|c'') (bar_meta ''a'' None) policy_engine_new) = Ok \<lparr>ad_replay_status = Fresh\<rparr>"
    by (simp add: bar_authorize policy_engine_new_def)
  show "authorize 5 (bar_auth ''a|b'' ''c'') (bar_meta ''a|b'' None) policy_engine_new = (Ok \<lparr>ad_replay_status = Fresh\<rparr>, ?pe)"
    by (simp add: prod_eq_iff bar_authorize(1) policy_engine_new_def)
  show "fst (authorize 5 (bar_auth ''a'' ''b|c'') (bar_meta ''a'' None) ?pe) = Err ReplayDetected"
    by (simp add: bar_authorize same [symmetric] policy_engine_new_def)
qed

section \<open>Signed payloads\<close>

text \<open>
  C28. A capability token is accepted exactly when it is base64url of a COSE_Sign1 message whose
  payload decodes to the returned claims, the claims name an issuer of the registry (the first
  record of that name decides) with the Ed25519 algorithm, the audience is one the issuer may
  speak to, and the signature over the message verifies under that issuer's 32-byte key.
\<close>

theorem verify_token_iff:
  "verify_cose_sign1_token D token_b64 registry = Ok claims \<longleftrightarrow>
     (\<exists>bytes token payload issuer key.
        b64url_decode D (as_bytes token_b64) = Some bytes \<and> cose_from_slice D bytes = Some token \<and>
        cs_payload token = Some payload \<and> cbor_claims D payload = Ok claims \<and>
        registry_resolve registry (cl_iss claims) = Some issuer \<and> is_algorithm issuer = ''Ed25519'' \<and>
        (is_audiences issuer = [] \<or> cl_aud claims \<in> set (is_audiences issuer)) \<and>
        b64url_decode D (as_bytes (is_public_key_b64 issuer)) = Some key \<and> length key = 32 \<and>
        ed25519_key_ok D key \<and> ed25519_signature_ok D (cs_signature token) \<and>
        ed25519_verify D key (cose_tbs D token []) (cs_signature token))"
  unfolding verify_cose_sign1_token_def verify_cose_sign1_payload_def rbnd_Ok ok_or_Ok map_err_Ok
    if_Err_Ok
  by (simp add: list_ex_iff) blast

end
