(* ===== verification/HSP_Crypto.thy ===== *)
theory HSP_Crypto
  imports HSP_Core
begin

text \<open>
  The crate \<open>crates/hsp-crypto\<close>: runtime secrets, the local development KMS (envelope encryption
  of stored payloads, wrapping of object keys, encryption of client chunks) and the AWS KMS
  provider that calls the AWS command line.

  AES-GCM, XChaCha20-Poly1305, HKDF, base64 and the spawned command are fields of \<open>crypto_deps\<close>.
  The random generator is part of the state: \<open>en_stream\<close> is what it delivers, \<open>en_pos\<close> how much
  was taken, \<open>en_calls\<close> how many commands were run. Components with more state extend the record.
\<close>

section \<open>Third-party code and the environment\<close>

record entropy =
  en_stream :: "nat \<Rightarrow> byte"
  en_pos :: nat
  en_calls :: nat

definition fill_bytes :: "nat \<Rightarrow> ('z entropy_scheme, 'e, byte list) comp" where
  "fill_bytes n w =
     (Ok (map (\<lambda>i. en_stream w (en_pos w + i)) [0..<n]), w\<lparr>en_pos := en_pos w + n\<rparr>)"

record AwsCliGenerateDataKeyOutput =
  ag_plaintext :: string
  ag_ciphertext_blob :: string

record AwsCliDecryptOutput =
  ad_plaintext :: string

record AwsCliEncryptOutput =
  ae_ciphertext_blob :: string

record command_output =
  co_success :: bool
  co_stdout :: "byte list"
  co_stderr :: "byte list"

datatype JsonValue =
    JNull
  | JBool bool
  | JNumber int
  | JFloat "64 word"
  | JString string
  | JArray "JsonValue list"
  | JObject "(string \<times> JsonValue) list"

record crypto_deps = core_deps +
  b64_nopad_encode :: "byte list \<Rightarrow> string"
  b64_nopad_decode :: "byte list \<Rightarrow> byte list option"
  b64_pad_encode :: "byte list \<Rightarrow> string"
  b64_pad_decode :: "byte list \<Rightarrow> byte list option"
  aes_gcm_encrypt :: "byte list \<Rightarrow> byte list \<Rightarrow> byte list \<Rightarrow> byte list \<Rightarrow> byte list option"
  aes_gcm_decrypt :: "byte list \<Rightarrow> byte list \<Rightarrow> byte list \<Rightarrow> byte list \<Rightarrow> byte list option"
  xchacha_encrypt :: "byte list \<Rightarrow> byte list \<Rightarrow> byte list \<Rightarrow> byte list \<Rightarrow> byte list option"
  xchacha_decrypt :: "byte list \<Rightarrow> byte list \<Rightarrow> byte list \<Rightarrow> byte list \<Rightarrow> byte list option"
  hkdf_sha256 :: "byte list \<Rightarrow> byte list \<Rightarrow> byte list \<Rightarrow> nat \<Rightarrow> byte list option"
  run_command :: "nat \<Rightarrow> string \<Rightarrow> string list \<Rightarrow> string + command_output"
  json_value :: "byte list \<Rightarrow> string + JsonValue"
  json_generate_output :: "JsonValue \<Rightarrow> string + AwsCliGenerateDataKeyOutput"
  json_decrypt_output :: "JsonValue \<Rightarrow> string + AwsCliDecryptOutput"
  json_encrypt_output :: "JsonValue \<Rightarrow> string + AwsCliEncryptOutput"

section \<open>Suites, envelopes and errors\<close>

datatype SignatureSuite = Ed25519
datatype ContentEncryptionSuite = XChaCha20Poly1305
datatype StorageEncryptionSuite = Aes256Gcm
datatype KeyWrappingSuite = HpkeX25519
datatype HashSuite = Sha256

record CryptoProfile =
  cp_signature :: SignatureSuite
  cp_content_encryption :: ContentEncryptionSuite
  cp_storage_encryption :: StorageEncryptionSuite
  cp_key_wrapping :: KeyWrappingSuite
  cp_hash :: HashSuite

record StoredEnvelope =
  se_key_version :: u32
  se_tenant_id :: string
  se_store_kind :: string
  se_wrapped_dek_b64 :: string
  se_wrap_nonce_b64 :: string
  se_data_nonce_b64 :: string
  se_ciphertext_b64 :: string

record EncryptedClientChunk =
  cc_cid :: string
  cc_nonce_b64 :: string
  cc_ciphertext :: "byte list"

record LocalDevKms =
  lk_root_seed :: "byte list"
  lk_key_version :: u32

record AwsKmsProviderConfig =
  ak_key_alias :: string
  ak_region :: string
  ak_workload_identity_required :: bool

datatype AwsKmsRuntimeMode = LocalFallback | LiveCli

record AwsKmsProvider =
  ap_config :: AwsKmsProviderConfig
  ap_fallback :: LocalDevKms
  ap_runtime_mode :: AwsKmsRuntimeMode
  ap_cli_path :: string

datatype CryptoError =
    InvalidSeed
  | MissingRuntimeSecret string
  | WeakRuntimeSecret string
  | EncryptionFailed
  | DecryptionFailed
  | InvalidEnvelope
  | InvalidWrappedKey
  | MissingAwsKmsRuntime
  | InvalidAwsKmsRuntime
  | MissingWorkloadIdentity
  | MissingAwsCli
  | AwsCliFailed string

fun crypto_error_display :: "CryptoError \<Rightarrow> string" where
  "crypto_error_display InvalidSeed = ''invalid local KMS seed''"
| "crypto_error_display (MissingRuntimeSecret name) = name @ '' must be configured explicitly''"
| "crypto_error_display (WeakRuntimeSecret name) =
     name @ '' is empty, too short, or uses a forbidden default''"
| "crypto_error_display EncryptionFailed = ''encryption failed''"
| "crypto_error_display DecryptionFailed = ''decryption failed''"
| "crypto_error_display InvalidEnvelope = ''invalid encrypted envelope''"
| "crypto_error_display InvalidWrappedKey = ''invalid wrapped key record''"
| "crypto_error_display MissingAwsKmsRuntime = ''HSP_AWS_KMS_RUNTIME must be configured explicitly''"
| "crypto_error_display InvalidAwsKmsRuntime =
     ''HSP_AWS_KMS_RUNTIME must be either live-cli or local-dev''"
| "crypto_error_display MissingWorkloadIdentity = ''missing workload identity for AWS KMS provider''"
| "crypto_error_display MissingAwsCli = ''AWS CLI was not found for live AWS KMS mode''"
| "crypto_error_display (AwsCliFailed message) = ''AWS CLI request failed: '' @ message"

fun crypto_error_category :: "CryptoError \<Rightarrow> ApiErrorCategory" where
  "crypto_error_category InvalidEnvelope = Cat_Validation"
| "crypto_error_category InvalidWrappedKey = Cat_Validation"
| "crypto_error_category InvalidSeed = Cat_Policy"
| "crypto_error_category (MissingRuntimeSecret _) = Cat_Policy"
| "crypto_error_category (WeakRuntimeSecret _) = Cat_Policy"
| "crypto_error_category MissingAwsKmsRuntime = Cat_Policy"
| "crypto_error_category InvalidAwsKmsRuntime = Cat_Policy"
| "crypto_error_category MissingWorkloadIdentity = Cat_Policy"
| "crypto_error_category MissingAwsCli = Cat_Policy"
| "crypto_error_category EncryptionFailed = Cat_Storage"
| "crypto_error_category DecryptionFailed = Cat_Storage"
| "crypto_error_category (AwsCliFailed _) = Cat_Storage"

definition crypto_error_to_api :: "CryptoError \<Rightarrow> string \<Rightarrow> ApiError" where
  "crypto_error_to_api error message = api_error (crypto_error_category error) ''crypto_error'' message"

definition public_multitenant_crypto_profile :: CryptoProfile where
  "public_multitenant_crypto_profile =
     \<lparr>cp_signature = Ed25519, cp_content_encryption = XChaCha20Poly1305,
      cp_storage_encryption = Aes256Gcm, cp_key_wrapping = HpkeX25519, cp_hash = Sha256\<rparr>"

definition public_multitenant_crypto_suite_strings :: "string list" where
  "public_multitenant_crypto_suite_strings = public_multitenant_crypto_suite"

section \<open>Runtime secrets\<close>

definition MIN_RUNTIME_SECRET_BYTES :: nat where
  "MIN_RUNTIME_SECRET_BYTES = 32"

definition DEFAULT_KMS_SEED_LITERALS :: "string list" where
  "DEFAULT_KMS_SEED_LITERALS =
     [''hsp-secure-alpha-local-seed'', ''hsp-alpha-test-seed'', ''hsp-s3-runtime-seed'',
      ''hsp-cdn-runtime-seed'', ''hsp-aws-kms-fallback-seed'']"

definition DEFAULT_EDGE_SIGNING_SECRET_LITERALS :: "string list" where
  "DEFAULT_EDGE_SIGNING_SECRET_LITERALS = [''edge-secret'']"

definition eq_ignore_ascii_case :: "string \<Rightarrow> string \<Rightarrow> bool" where
  "eq_ignore_ascii_case a b \<longleftrightarrow> to_ascii_lowercase a = to_ascii_lowercase b"

definition validate_runtime_secret_bytes ::
  "string \<Rightarrow> byte list \<Rightarrow> string list \<Rightarrow> CryptoError + byte list" where
  "validate_runtime_secret_bytes secret_name value rejected_literals =
     (let decoded = str_from_utf8 value;
          material = (case decoded of None \<Rightarrow> [] | Some v \<Rightarrow> trim v);
          secret_len = (case decoded of None \<Rightarrow> length value | Some v \<Rightarrow> length (trim v)) in
      if secret_len < MIN_RUNTIME_SECRET_BYTES
         \<or> list_ex (\<lambda>literal. eq_ignore_ascii_case material literal) rejected_literals then
        Err (WeakRuntimeSecret secret_name)
      else Ok (case decoded of None \<Rightarrow> value | Some v \<Rightarrow> as_bytes (trim v)))"

definition validate_runtime_secret ::
  "string \<Rightarrow> string \<Rightarrow> string list \<Rightarrow> CryptoError + byte list" where
  "validate_runtime_secret secret_name value rejected_literals =
     validate_runtime_secret_bytes secret_name (as_bytes value) rejected_literals"

text \<open>The process environment is the argument \<open>env\<close>: \<open>env::var\<close> by name.\<close>

definition required_runtime_secret_from_env ::
  "(string \<Rightarrow> string option) \<Rightarrow> string \<Rightarrow> string list \<Rightarrow> CryptoError + byte list" where
  "required_runtime_secret_from_env env secret_name rejected_literals =
     rbnd (ok_or (env secret_name) (MissingRuntimeSecret secret_name)) (\<lambda>value.
     validate_runtime_secret secret_name value rejected_literals)"

definition from_seed :: "'x core_deps_scheme \<Rightarrow> byte list \<Rightarrow> CryptoError + LocalDevKms" where
  "from_seed D seed =
     (if seed = [] then Err InvalidSeed
      else Ok \<lparr>lk_root_seed = sha256 D seed, lk_key_version = 1\<rparr>)"

definition local_dev_kms_from_env ::
  "'x core_deps_scheme \<Rightarrow> (string \<Rightarrow> string option) \<Rightarrow> string \<Rightarrow> string list \<Rightarrow> CryptoError + LocalDevKms" where
  "local_dev_kms_from_env D env secret_name rejected_literals =
     rbnd (required_runtime_secret_from_env env secret_name rejected_literals) (from_seed D)"

section \<open>The local development KMS\<close>

definition aad :: "TenantId \<Rightarrow> string \<Rightarrow> string" where
  "aad tenant_id store_kind = ''hsp:'' @ tenant_str tenant_id @ '':'' @ store_kind"

definition decode_fixed ::
  "'x crypto_deps_scheme \<Rightarrow> nat \<Rightarrow> string \<Rightarrow> CryptoError \<Rightarrow> CryptoError + byte list" where
  "decode_fixed D n input error =
     rbnd (ok_or (b64_nopad_decode D (as_bytes input)) error) (\<lambda>decoded.
     if length decoded \<noteq> n then Err error else Ok decoded)"

definition decode_base64_any :: "'x crypto_deps_scheme \<Rightarrow> string \<Rightarrow> CryptoError \<Rightarrow> CryptoError + byte list" where
  "decode_base64_any D input error =
     (case b64_pad_decode D (as_bytes input) of
        Some bytes \<Rightarrow> Ok bytes
      | None \<Rightarrow> ok_or (b64_nopad_decode D (as_bytes input)) error)"

record AesEncrypted =
  ax_nonce :: "byte list"
  ax_ciphertext :: "byte list"

definition generate_object_data_key :: "('z entropy_scheme, 'e, byte list) comp" where
  "generate_object_data_key = fill_bytes 32"

definition derive_context_key ::
  "'x crypto_deps_scheme \<Rightarrow> LocalDevKms \<Rightarrow> TenantId \<Rightarrow> string \<Rightarrow> byte list \<Rightarrow> CryptoError + byte list" where
  "derive_context_key D kms tenant_id context label =
     (let info = context @ '':'' @ from_utf8_lossy label in
      ok_or (hkdf_sha256 D (lk_root_seed kms) (as_bytes (tenant_str tenant_id)) (as_bytes info) 32)
        EncryptionFailed)"

text \<open>\<open>new_from_slice\<close> of both ciphers accepts exactly 32-byte keys.\<close>

definition encrypt_aes_gcm ::
  "'x crypto_deps_scheme \<Rightarrow> byte list \<Rightarrow> byte list \<Rightarrow> byte list
   \<Rightarrow> ('z entropy_scheme, CryptoError, AesEncrypted) comp" where
  "encrypt_aes_gcm D key_material plaintext aad_bytes =
     bnd (ensure (length key_material = 32) EncryptionFailed) (\<lambda>_.
     bnd (fill_bytes 12) (\<lambda>nonce.
     bnd (lift_result (ok_or (aes_gcm_encrypt D key_material nonce plaintext aad_bytes)
                         EncryptionFailed)) (\<lambda>ciphertext.
     ret \<lparr>ax_nonce = nonce, ax_ciphertext = ciphertext\<rparr>)))"

definition decrypt_aes_gcm ::
  "'x crypto_deps_scheme \<Rightarrow> byte list \<Rightarrow> byte list \<Rightarrow> byte list \<Rightarrow> byte list \<Rightarrow> CryptoError + byte list" where
  "decrypt_aes_gcm D key_material nonce ciphertext aad_bytes =
     (if length key_material \<noteq> 32 then Err DecryptionFailed
      else ok_or (aes_gcm_decrypt D key_material nonce ciphertext aad_bytes) DecryptionFailed)"

definition local_encrypt_store_payload ::
  "'x crypto_deps_scheme \<Rightarrow> LocalDevKms \<Rightarrow> TenantId \<Rightarrow> string \<Rightarrow> byte list
   \<Rightarrow> ('z entropy_scheme, CryptoError, StoredEnvelope) comp" where
  "local_encrypt_store_payload D kms tenant_id store_kind plaintext =
     bnd generate_object_data_key (\<lambda>data_key.
     bnd (lift_result (derive_context_key D kms tenant_id store_kind (as_bytes ''store-kek''))) (\<lambda>kek.
     bnd (encrypt_aes_gcm D kek data_key (as_bytes (aad tenant_id store_kind))) (\<lambda>wrapped.
     bnd (encrypt_aes_gcm D data_key plaintext (as_bytes (aad tenant_id store_kind))) (\<lambda>payload.
     ret \<lparr>se_key_version = lk_key_version kms, se_tenant_id = tenant_str tenant_id,
          se_store_kind = store_kind,
          se_wrapped_dek_b64 = b64_nopad_encode D (ax_ciphertext wrapped),
          se_wrap_nonce_b64 = b64_nopad_encode D (ax_nonce wrapped),
          se_data_nonce_b64 = b64_nopad_encode D (ax_nonce payload),
          se_ciphertext_b64 = b64_nopad_encode D (ax_ciphertext payload)\<rparr>))))"

definition local_decrypt_store_payload ::
  "'x crypto_deps_scheme \<Rightarrow> LocalDevKms \<Rightarrow> TenantId \<Rightarrow> string \<Rightarrow> StoredEnvelope \<Rightarrow> CryptoError + byte list" where
  "local_decrypt_store_payload D kms tenant_id store_kind envelope =
     (if se_tenant_id envelope \<noteq> tenant_str tenant_id \<or> se_store_kind envelope \<noteq> store_kind then
        Err InvalidEnvelope
      else
        rbnd (derive_context_key D kms tenant_id store_kind (as_bytes ''store-kek'')) (\<lambda>kek.
        rbnd (decode_fixed D 12 (se_wrap_nonce_b64 envelope) InvalidEnvelope) (\<lambda>wrap_nonce.
        rbnd (ok_or (b64_nopad_decode D (as_bytes (se_wrapped_dek_b64 envelope))) InvalidEnvelope) (\<lambda>wrapped_dek.
        rbnd (decrypt_aes_gcm D kek wrap_nonce wrapped_dek (as_bytes (aad tenant_id store_kind))) (\<lambda>data_key.
        if length data_key \<noteq> 32 then Err InvalidEnvelope
        else
          rbnd (decode_fixed D 12 (se_data_nonce_b64 envelope) InvalidEnvelope) (\<lambda>data_nonce.
          rbnd (ok_or (b64_nopad_decode D (as_bytes (se_ciphertext_b64 envelope))) InvalidEnvelope) (\<lambda>ciphertext.
          decrypt_aes_gcm D data_key data_nonce ciphertext (as_bytes (aad tenant_id store_kind)))))))))"

definition local_wrap_object_key ::
  "'x crypto_deps_scheme \<Rightarrow> LocalDevKms \<Rightarrow> TenantId \<Rightarrow> string \<Rightarrow> byte list
   \<Rightarrow> ('z entropy_scheme, CryptoError, WrappedObjectKeyRecord) comp" where
  "local_wrap_object_key D kms tenant_id recipient_key_id object_key =
     bnd (lift_result (derive_context_key D kms tenant_id recipient_key_id
                         (as_bytes ''object-recipient-wrap''))) (\<lambda>wrapping_key.
     bnd (fill_bytes 24) (\<lambda>nonce.
     bnd (ensure (length wrapping_key = 32) EncryptionFailed) (\<lambda>_.
     bnd (lift_result (ok_or (xchacha_encrypt D wrapping_key nonce object_key
                                (as_bytes (aad tenant_id recipient_key_id))) EncryptionFailed)) (\<lambda>ciphertext.
     ret \<lparr>wk_recipient_key_id = recipient_key_id, wk_wrapping_suite = ''HPKE/X25519'',
          wk_wrapped_key_b64 = b64_nopad_encode D ciphertext, wk_key_version = lk_key_version kms,
          wk_encapsulated_key_b64 = Some (b64_nopad_encode D nonce)\<rparr>))))"

definition local_unwrap_object_key ::
  "'x crypto_deps_scheme \<Rightarrow> LocalDevKms \<Rightarrow> TenantId \<Rightarrow> WrappedObjectKeyRecord \<Rightarrow> CryptoError + byte list" where
  "local_unwrap_object_key D kms tenant_id rec =
     rbnd (ok_or (wk_encapsulated_key_b64 rec) InvalidWrappedKey) (\<lambda>nonce_b64.
     rbnd (decode_fixed D 24 nonce_b64 InvalidWrappedKey) (\<lambda>nonce.
     rbnd (ok_or (b64_nopad_decode D (as_bytes (wk_wrapped_key_b64 rec))) InvalidWrappedKey) (\<lambda>ciphertext.
     rbnd (derive_context_key D kms tenant_id (wk_recipient_key_id rec)
             (as_bytes ''object-recipient-wrap'')) (\<lambda>wrapping_key.
     if length wrapping_key \<noteq> 32 then Err DecryptionFailed
     else
       rbnd (ok_or (xchacha_decrypt D wrapping_key nonce ciphertext
                      (as_bytes (aad tenant_id (wk_recipient_key_id rec)))) DecryptionFailed) (\<lambda>plaintext.
       if length plaintext \<noteq> 32 then Err InvalidWrappedKey else Ok plaintext)))))"

definition encrypt_client_chunk ::
  "'x crypto_deps_scheme \<Rightarrow> byte list \<Rightarrow> byte list
   \<Rightarrow> ('z entropy_scheme, CryptoError, EncryptedClientChunk) comp" where
  "encrypt_client_chunk D object_key plaintext =
     bnd (ensure (length object_key = 32) EncryptionFailed) (\<lambda>_.
     bnd (fill_bytes 24) (\<lambda>nonce.
     bnd (lift_result (ok_or (xchacha_encrypt D object_key nonce plaintext
                                (as_bytes ''hsp-client-chunk'')) EncryptionFailed)) (\<lambda>ciphertext.
     ret \<lparr>cc_cid = cid_from_bytes D ciphertext, cc_nonce_b64 = b64_nopad_encode D nonce,
          cc_ciphertext = ciphertext\<rparr>)))"

definition decrypt_client_chunk ::
  "'x crypto_deps_scheme \<Rightarrow> byte list \<Rightarrow> string \<Rightarrow> byte list \<Rightarrow> CryptoError + byte list" where
  "decrypt_client_chunk D object_key nonce_b64 ciphertext =
     rbnd (decode_fixed D 24 nonce_b64 DecryptionFailed) (\<lambda>nonce.
     if length object_key \<noteq> 32 then Err DecryptionFailed
     else ok_or (xchacha_decrypt D object_key nonce ciphertext (as_bytes ''hsp-client-chunk''))
            DecryptionFailed)"

section \<open>The AWS KMS provider\<close>

definition with_local_fallback ::
  "'x crypto_deps_scheme \<Rightarrow> (string \<Rightarrow> string option) \<Rightarrow> AwsKmsProviderConfig \<Rightarrow> LocalDevKms
   \<Rightarrow> ('z entropy_scheme, CryptoError, AwsKmsProvider) comp" where
  "with_local_fallback D env config fallback =
     bnd (lift_result
            (case env ''HSP_AWS_KMS_RUNTIME'' of
               None \<Rightarrow> Err MissingAwsKmsRuntime
             | Some mode \<Rightarrow>
                 if mode = ''live-cli'' then Ok LiveCli
                 else if mode = ''local-dev'' then Ok LocalFallback
                 else Err InvalidAwsKmsRuntime)) (\<lambda>runtime_mode.
     bnd (ensure (\<not> (runtime_mode = LiveCli \<and> ak_workload_identity_required config
                       \<and> env ''AWS_WEB_IDENTITY_TOKEN_FILE'' = None \<and> env ''AWS_ROLE_ARN'' = None))
            MissingWorkloadIdentity) (\<lambda>_.
     let cli_path = (case env ''HSP_AWS_CLI_PATH'' of None \<Rightarrow> ''aws'' | Some p \<Rightarrow> p) in
     bnd (if runtime_mode = LiveCli then
            (\<lambda>w. (case run_command D (en_calls w) cli_path [''--version''] of
                    Err _ \<Rightarrow> Err MissingAwsCli | Ok _ \<Rightarrow> Ok (),
                  w\<lparr>en_calls := en_calls w + 1\<rparr>))
          else ret ()) (\<lambda>_.
     ret \<lparr>ap_config = config, ap_fallback = fallback, ap_runtime_mode = runtime_mode,
          ap_cli_path = cli_path\<rparr>)))"

definition aws_kms_new ::
  "'x crypto_deps_scheme \<Rightarrow> (string \<Rightarrow> string option) \<Rightarrow> AwsKmsProviderConfig \<Rightarrow> byte list
   \<Rightarrow> ('z entropy_scheme, CryptoError, AwsKmsProvider) comp" where
  "aws_kms_new D env config local_seed =
     bnd (lift_result (from_seed D local_seed)) (with_local_fallback D env config)"

definition use_live_cli :: "AwsKmsProvider \<Rightarrow> bool" where
  "use_live_cli p \<longleftrightarrow> ap_runtime_mode p = LiveCli"

definition aws_cli_json ::
  "'x crypto_deps_scheme \<Rightarrow> AwsKmsProvider \<Rightarrow> string list \<Rightarrow> ('z entropy_scheme, CryptoError, JsonValue) comp" where
  "aws_cli_json D p args w =
     (rbnd (map_err AwsCliFailed (run_command D (en_calls w) (ap_cli_path p) args)) (\<lambda>output.
      if \<not> co_success output then Err (AwsCliFailed (trim (from_utf8_lossy (co_stderr output))))
      else map_err AwsCliFailed (json_value D (co_stdout output))),
      w\<lparr>en_calls := en_calls w + 1\<rparr>)"

definition encryption_context_args :: "TenantId \<Rightarrow> string \<Rightarrow> string list" where
  "encryption_context_args tenant_id context =
     [''--encryption-context'', ''tenant_id='' @ tenant_str tenant_id, ''context='' @ context]"

definition generate_data_key_args :: "AwsKmsProvider \<Rightarrow> string list" where
  "generate_data_key_args p =
     [''kms'', ''generate-data-key'', ''--key-id'', ak_key_alias (ap_config p), ''--key-spec'', ''AES_256'',
      ''--region'', ak_region (ap_config p), ''--output'', ''json'']"

definition encrypt_args :: "AwsKmsProvider \<Rightarrow> string \<Rightarrow> string list" where
  "encrypt_args p plaintext =
     [''kms'', ''encrypt'', ''--key-id'', ak_key_alias (ap_config p), ''--plaintext'', plaintext,
      ''--region'', ak_region (ap_config p), ''--output'', ''json'']"

definition decrypt_args :: "AwsKmsProvider \<Rightarrow> string \<Rightarrow> string list" where
  "decrypt_args p blob =
     [''kms'', ''decrypt'', ''--ciphertext-blob'', blob, ''--region'', ak_region (ap_config p),
      ''--output'', ''json'']"

definition generate_data_key_live ::
  "'x crypto_deps_scheme \<Rightarrow> AwsKmsProvider \<Rightarrow> TenantId \<Rightarrow> string
   \<Rightarrow> ('z entropy_scheme, CryptoError, byte list \<times> string) comp" where
  "generate_data_key_live D p tenant_id store_kind =
     bnd (aws_cli_json D p (generate_data_key_args p @ encryption_context_args tenant_id store_kind)) (\<lambda>value.
     bnd (lift_result (map_err AwsCliFailed (json_generate_output D value))) (\<lambda>output.
     bnd (lift_result (decode_base64_any D (ag_plaintext output) DecryptionFailed)) (\<lambda>plaintext.
     bnd (ensure (length plaintext = 32) DecryptionFailed) (\<lambda>_.
     ret (plaintext, ag_ciphertext_blob output)))))"

text \<open>
  The common body of \<open>decrypt_data_key_live\<close> and \<open>unwrap_object_key_live\<close>, which differ in the
  encryption context and the error of a malformed key.
\<close>

definition decrypt_key_live ::
  "'x crypto_deps_scheme \<Rightarrow> AwsKmsProvider \<Rightarrow> TenantId \<Rightarrow> string \<Rightarrow> string \<Rightarrow> CryptoError
   \<Rightarrow> ('z entropy_scheme, CryptoError, byte list) comp" where
  "decrypt_key_live D p tenant_id context blob error =
     bnd (aws_cli_json D p (decrypt_args p blob @ encryption_context_args tenant_id context)) (\<lambda>value.
     bnd (lift_result (map_err AwsCliFailed (json_decrypt_output D value))) (\<lambda>output.
     bnd (lift_result (decode_base64_any D (ad_plaintext output) error)) (\<lambda>plaintext.
     bnd (ensure (length plaintext = 32) error) (\<lambda>_. ret plaintext))))"

definition decrypt_data_key_live ::
  "'x crypto_deps_scheme \<Rightarrow> AwsKmsProvider \<Rightarrow> TenantId \<Rightarrow> string \<Rightarrow> string
   \<Rightarrow> ('z entropy_scheme, CryptoError, byte list) comp" where
  "decrypt_data_key_live D p tenant_id store_kind wrapped_dek_b64 =
     decrypt_key_live D p tenant_id store_kind wrapped_dek_b64 DecryptionFailed"

definition wrap_object_key_live ::
  "'x crypto_deps_scheme \<Rightarrow> AwsKmsProvider \<Rightarrow> TenantId \<Rightarrow> string \<Rightarrow> byte list
   \<Rightarrow> ('z entropy_scheme, CryptoError, WrappedObjectKeyRecord) comp" where
  "wrap_object_key_live D p tenant_id recipient_key_id object_key =
     bnd (aws_cli_json D p
            (encrypt_args p (b64_pad_encode D object_key)
             @ encryption_context_args tenant_id (''recipient:'' @ recipient_key_id))) (\<lambda>value.
     bnd (lift_result (map_err AwsCliFailed (json_encrypt_output D value))) (\<lambda>output.
     ret \<lparr>wk_recipient_key_id = recipient_key_id, wk_wrapping_suite = ''AWS-KMS'',
          wk_wrapped_key_b64 = ae_ciphertext_blob output,
          wk_key_version = lk_key_version (ap_fallback p), wk_encapsulated_key_b64 = None\<rparr>))"

definition unwrap_object_key_live ::
  "'x crypto_deps_scheme \<Rightarrow> AwsKmsProvider \<Rightarrow> TenantId \<Rightarrow> WrappedObjectKeyRecord
   \<Rightarrow> ('z entropy_scheme, CryptoError, byte list) comp" where
  "unwrap_object_key_live D p tenant_id rec =
     decrypt_key_live D p tenant_id (''recipient:'' @ wk_recipient_key_id rec) (wk_wrapped_key_b64 rec)
       InvalidWrappedKey"

definition aws_encrypt_store_payload ::
  "'x crypto_deps_scheme \<Rightarrow> AwsKmsProvider \<Rightarrow> TenantId \<Rightarrow> string \<Rightarrow> byte list
   \<Rightarrow> ('z entropy_scheme, CryptoError, StoredEnvelope) comp" where
  "aws_encrypt_store_payload D p tenant_id store_kind plaintext =
     (if \<not> use_live_cli p then local_encrypt_store_payload D (ap_fallback p) tenant_id store_kind plaintext
      else
        bnd (generate_data_key_live D p tenant_id store_kind) (\<lambda>(data_key, wrapped_dek_b64).
        bnd (encrypt_aes_gcm D data_key plaintext (as_bytes (aad tenant_id store_kind))) (\<lambda>payload.
        ret \<lparr>se_key_version = lk_key_version (ap_fallback p), se_tenant_id = tenant_str tenant_id,
             se_store_kind = store_kind, se_wrapped_dek_b64 = wrapped_dek_b64,
             se_wrap_nonce_b64 = ''aws-kms-v1'',
             se_data_nonce_b64 = b64_nopad_encode D (ax_nonce payload),
             se_ciphertext_b64 = b64_nopad_encode D (ax_ciphertext payload)\<rparr>)))"

definition aws_decrypt_store_payload ::
  "'x crypto_deps_scheme \<Rightarrow> AwsKmsProvider \<Rightarrow> TenantId \<Rightarrow> string \<Rightarrow> StoredEnvelope
   \<Rightarrow> ('z entropy_scheme, CryptoError, byte list) comp" where
  "aws_decrypt_store_payload D p tenant_id store_kind envelope =
     (if \<not> use_live_cli p then
        lift_result (local_decrypt_store_payload D (ap_fallback p) tenant_id store_kind envelope)
      else if se_tenant_id envelope \<noteq> tenant_str tenant_id \<or> se_store_kind envelope \<noteq> store_kind then
        throw InvalidEnvelope
      else
        bnd (decrypt_data_key_live D p tenant_id store_kind (se_wrapped_dek_b64 envelope)) (\<lambda>data_key.
        bnd (lift_result (decode_fixed D 12 (se_data_nonce_b64 envelope) InvalidEnvelope)) (\<lambda>data_nonce.
        bnd (lift_result (ok_or (b64_nopad_decode D (as_bytes (se_ciphertext_b64 envelope)))
                            InvalidEnvelope)) (\<lambda>ciphertext.
        lift_result (decrypt_aes_gcm D data_key data_nonce ciphertext
                       (as_bytes (aad tenant_id store_kind)))))))"

section \<open>The provider interface\<close>

datatype KmsProvider = LocalKms LocalDevKms | AwsKms AwsKmsProvider

fun provider_name :: "KmsProvider \<Rightarrow> string" where
  "provider_name (LocalKms _) = ''local-dev-kms''"
| "provider_name (AwsKms _) = ''aws-kms''"

fun encrypt_store_payload ::
  "'x crypto_deps_scheme \<Rightarrow> KmsProvider \<Rightarrow> TenantId \<Rightarrow> string \<Rightarrow> byte list
   \<Rightarrow> ('z entropy_scheme, CryptoError, StoredEnvelope) comp" where
  "encrypt_store_payload D (LocalKms k) t kind plaintext = local_encrypt_store_payload D k t kind plaintext"
| "encrypt_store_payload D (AwsKms p) t kind plaintext = aws_encrypt_store_payload D p t kind plaintext"

fun decrypt_store_payload ::
  "'x crypto_deps_scheme \<Rightarrow> KmsProvider \<Rightarrow> TenantId \<Rightarrow> string \<Rightarrow> StoredEnvelope
   \<Rightarrow> ('z entropy_scheme, CryptoError, byte list) comp" where
  "decrypt_store_payload D (LocalKms k) t kind envelope =
     lift_result (local_decrypt_store_payload D k t kind envelope)"
| "decrypt_store_payload D (AwsKms p) t kind envelope = aws_decrypt_store_payload D p t kind envelope"

fun wrap_object_key_for_recipient ::
  "'x crypto_deps_scheme \<Rightarrow> KmsProvider \<Rightarrow> TenantId \<Rightarrow> string \<Rightarrow> byte list
   \<Rightarrow> ('z entropy_scheme, CryptoError, WrappedObjectKeyRecord) comp" where
  "wrap_object_key_for_recipient D (LocalKms k) t recipient key = local_wrap_object_key D k t recipient key"
| "wrap_object_key_for_recipient D (AwsKms p) t recipient key =
     (if use_live_cli p then wrap_object_key_live D p t recipient key
      else local_wrap_object_key D (ap_fallback p) t recipient key)"

fun unwrap_object_key_for_recipient ::
  "'x crypto_deps_scheme \<Rightarrow> KmsProvider \<Rightarrow> TenantId \<Rightarrow> WrappedObjectKeyRecord
   \<Rightarrow> ('z entropy_scheme, CryptoError, byte list) comp" where
  "unwrap_object_key_for_recipient D (LocalKms k) t rec = lift_result (local_unwrap_object_key D k t rec)"
| "unwrap_object_key_for_recipient D (AwsKms p) t rec =
     (if use_live_cli p then unwrap_object_key_live D p t rec
      else lift_result (local_unwrap_object_key D (ap_fallback p) t rec))"

definition rewrap_store_envelope ::
  "'x crypto_deps_scheme \<Rightarrow> KmsProvider \<Rightarrow> TenantId \<Rightarrow> string \<Rightarrow> StoredEnvelope
   \<Rightarrow> ('z entropy_scheme, CryptoError, StoredEnvelope) comp" where
  "rewrap_store_envelope D kms tenant_id store_kind envelope =
     bnd (decrypt_store_payload D kms tenant_id store_kind envelope) (\<lambda>plaintext.
     encrypt_store_payload D kms tenant_id store_kind plaintext)"

section \<open>Laws of the third-party code\<close>

text \<open>
  Documented behaviour: base64 decodes what it encoded, the AEAD ciphers decrypt what they
  encrypted, HKDF returns the number of bytes asked for, and AWS KMS decrypts the blob of a data
  key, under the encryption context it was generated in, to that data key, and the blob of a
  plaintext it was asked to encrypt to that plaintext, in the base64 form it was given in.
\<close>

definition crypto_laws :: "'x crypto_deps_scheme \<Rightarrow> bool" where
  "crypto_laws D \<longleftrightarrow>
     (\<forall>bs. b64_nopad_decode D (as_bytes (b64_nopad_encode D bs)) = Some bs) \<and>
     (\<forall>k n m a c. aes_gcm_encrypt D k n m a = Some c \<longrightarrow> aes_gcm_decrypt D k n c a = Some m) \<and>
     (\<forall>k n m a c. xchacha_encrypt D k n m a = Some c \<longrightarrow> xchacha_decrypt D k n c a = Some m) \<and>
     (\<forall>salt ikm info n k. hkdf_sha256 D salt ikm info n = Some k \<longrightarrow> length k = n)"

definition aws_returns :: "'x crypto_deps_scheme \<Rightarrow> AwsKmsProvider \<Rightarrow> nat \<Rightarrow> string list \<Rightarrow> JsonValue \<Rightarrow> bool" where
  "aws_returns D p i args value \<longleftrightarrow>
     (\<exists>output. run_command D i (ap_cli_path p) args = Ok output \<and> co_success output \<and>
        json_value D (co_stdout output) = Ok value)"

definition aws_data_key_law :: "'x crypto_deps_scheme \<Rightarrow> AwsKmsProvider \<Rightarrow> bool" where
  "aws_data_key_law D p \<longleftrightarrow>
     (\<forall>i j tenant_id context value generated value' decrypted.
        aws_returns D p i (generate_data_key_args p @ encryption_context_args tenant_id context) value \<and>
        json_generate_output D value = Ok generated \<and>
        aws_returns D p j (decrypt_args p (ag_ciphertext_blob generated)
                             @ encryption_context_args tenant_id context) value' \<and>
        json_decrypt_output D value' = Ok decrypted \<longrightarrow>
        ad_plaintext decrypted = ag_plaintext generated)"

definition aws_encrypt_law :: "'x crypto_deps_scheme \<Rightarrow> AwsKmsProvider \<Rightarrow> bool" where
  "aws_encrypt_law D p \<longleftrightarrow>
     (\<forall>bs. b64_pad_decode D (as_bytes (b64_pad_encode D bs)) = Some bs) \<and>
     (\<forall>i j tenant_id context plaintext value encrypted value' decrypted.
        aws_returns D p i (encrypt_args p plaintext @ encryption_context_args tenant_id context) value \<and>
        json_encrypt_output D value = Ok encrypted \<and>
        aws_returns D p j (decrypt_args p (ae_ciphertext_blob encrypted)
                             @ encryption_context_args tenant_id context) value' \<and>
        json_decrypt_output D value' = Ok decrypted \<longrightarrow>
        ad_plaintext decrypted = plaintext)"

fun kms_live :: "KmsProvider \<Rightarrow> bool" where
  "kms_live (LocalKms _) = False"
| "kms_live (AwsKms p) = use_live_cli p"

fun kms_laws :: "'x crypto_deps_scheme \<Rightarrow> KmsProvider \<Rightarrow> bool" where
  "kms_laws D (LocalKms _) = crypto_laws D"
| "kms_laws D (AwsKms p) = (crypto_laws D \<and> aws_data_key_law D p)"

fun kms_wrap_laws :: "'x crypto_deps_scheme \<Rightarrow> KmsProvider \<Rightarrow> bool" where
  "kms_wrap_laws D (LocalKms _) = crypto_laws D"
| "kms_wrap_laws D (AwsKms p) = (crypto_laws D \<and> aws_encrypt_law D p)"

lemma fill_bytes_Ok: "fill_bytes n w = (Ok bs, w') \<Longrightarrow> length bs = n"
  by (auto simp: fill_bytes_def)

lemma decode_fixed_encode:
  "crypto_laws D \<Longrightarrow> length bs = n \<Longrightarrow> decode_fixed D n (b64_nopad_encode D bs) e = Ok bs"
  by (simp add: decode_fixed_def crypto_laws_def)

lemma encrypt_aes_gcm_Ok:
  assumes "crypto_laws D" "encrypt_aes_gcm D key plaintext ad w = (Ok x, w')"
  shows "length key = 32" "length (ax_nonce x) = 12"
    "decrypt_aes_gcm D key (ax_nonce x) (ax_ciphertext x) ad = Ok plaintext"
  using assms by (auto simp: encrypt_aes_gcm_def bnd_Ok decrypt_aes_gcm_def crypto_laws_def
      dest: fill_bytes_Ok)

lemma derive_context_key_length:
  "crypto_laws D \<Longrightarrow> derive_context_key D kms t c l = Ok k \<Longrightarrow> length k = 32"
  by (auto simp: derive_context_key_def Let_def crypto_laws_def)

lemma local_store_roundtrip:
  fixes w :: "'z entropy_scheme"
  assumes laws: "crypto_laws D" and enc: "local_encrypt_store_payload D kms t kind plaintext w = (Ok env, w')"
  shows "local_decrypt_store_payload D kms t kind env = Ok plaintext"
proof -
  let ?ad = "as_bytes (aad t kind)"
  obtain key kek wrapped payload and w1 w2 w3 :: "'z entropy_scheme" where
    kek: "derive_context_key D kms t kind (as_bytes ''store-kek'') = Ok kek"
    and wrapped: "encrypt_aes_gcm D kek key ?ad w1 = (Ok wrapped, w2)"
    and payload: "encrypt_aes_gcm D key plaintext ?ad w2 = (Ok payload, w3)"
    and env: "se_tenant_id env = tenant_str t" "se_store_kind env = kind"
      "se_wrapped_dek_b64 env = b64_nopad_encode D (ax_ciphertext wrapped)"
      "se_wrap_nonce_b64 env = b64_nopad_encode D (ax_nonce wrapped)"
      "se_data_nonce_b64 env = b64_nopad_encode D (ax_nonce payload)"
      "se_ciphertext_b64 env = b64_nopad_encode D (ax_ciphertext payload)"
    using enc unfolding local_encrypt_store_payload_def generate_object_data_key_def
    by (elim bnd_OkE) auto
  have dec: "b64_nopad_decode D (as_bytes (b64_nopad_encode D bs)) = Some bs" for bs
    using laws by (simp add: crypto_laws_def)
  show ?thesis
    using encrypt_aes_gcm_Ok [OF laws wrapped] encrypt_aes_gcm_Ok [OF laws payload] kek
    by (simp add: local_decrypt_store_payload_def env dec decode_fixed_encode [OF laws])
qed

lemma aws_cli_json_Ok:
  "aws_cli_json D p args w = (Ok v, w') \<longleftrightarrow>
     aws_returns D p (en_calls w) args v \<and> w' = w\<lparr>en_calls := en_calls w + 1\<rparr>"
  by (auto simp: aws_cli_json_def aws_returns_def if_Err_Ok)

lemma aws_cli_json_Err:
  "aws_cli_json D p args w = (Err e, w') \<Longrightarrow> \<exists>m. e = AwsCliFailed m"
  by (auto simp: aws_cli_json_def rbnd_def map_err_def split: sum.splits if_splits)

lemma generate_data_key_live_Ok:
  assumes "generate_data_key_live D p t c w = (Ok (key, blob), w')"
  obtains val out where
    "aws_returns D p (en_calls w) (generate_data_key_args p @ encryption_context_args t c) val"
    "json_generate_output D val = Ok out" "blob = ag_ciphertext_blob out"
    "decode_base64_any D (ag_plaintext out) DecryptionFailed = Ok key" "length key = 32"
  using assms by (auto simp: generate_data_key_live_def bnd_Ok aws_cli_json_Ok)

text \<open>
  What \<open>decrypt_key_live\<close> returns for a blob that AWS can only decrypt to one text: the bytes of
  that text, or a failure of the AWS command.
\<close>

lemma decrypt_key_live_outcome:
  assumes law: "\<And>val' o'. aws_returns D p (en_calls v) (decrypt_args p blob @ encryption_context_args t c) val'
      \<Longrightarrow> json_decrypt_output D val' = Ok o' \<Longrightarrow> ad_plaintext o' = b64"
    and b64: "decode_base64_any D b64 e = Ok key" "length key = 32"
    and dec: "decrypt_key_live D p t c blob e v = (r, v')"
  shows "r = Ok key \<or> (\<exists>m. r = Err (AwsCliFailed m))"
proof -
  obtain res v2 where cli: "aws_cli_json D p (decrypt_args p blob @ encryption_context_args t c) v = (res, v2)"
    by force
  show ?thesis
  proof (cases res)
    case (Inl x)
    then show ?thesis using cli dec aws_cli_json_Err [OF cli [unfolded Inl]]
      by (auto simp: decrypt_key_live_def bnd_def)
  next
    case (Inr val')
    then have "ad_plaintext o' = b64" if "json_decrypt_output D val' = Ok o'" for o'
      using cli that by (intro law) (simp_all add: aws_cli_json_Ok)
    then show ?thesis using cli Inr dec b64
      by (cases "json_decrypt_output D val'")
        (auto simp: decrypt_key_live_def bnd_def lift_result_def map_err_def ensure_def ret_def)
  qed
qed

lemma decrypt_generated_key:
  assumes law: "aws_data_key_law D p" and gen: "generate_data_key_live D p t c w = (Ok (key, blob), w')"
    and dec: "decrypt_data_key_live D p t c blob v = (r, v')"
  shows "r = Ok key \<or> (\<exists>m. r = Err (AwsCliFailed m))"
proof -
  obtain val out where val:
    "aws_returns D p (en_calls w) (generate_data_key_args p @ encryption_context_args t c) val"
    "json_generate_output D val = Ok out" "blob = ag_ciphertext_blob out"
    and b64: "decode_base64_any D (ag_plaintext out) DecryptionFailed = Ok key" "length key = 32"
    using gen by (rule generate_data_key_live_Ok)
  show ?thesis
  proof (rule decrypt_key_live_outcome [OF _ b64 dec [unfolded decrypt_data_key_live_def]])
    fix val' o'
    assume "aws_returns D p (en_calls v) (decrypt_args p blob @ encryption_context_args t c) val'"
      "json_decrypt_output D val' = Ok o'"
    then show "ad_plaintext o' = ag_plaintext out"
      using law val unfolding aws_data_key_law_def by blast
  qed
qed

lemma unwrap_wrapped_live:
  assumes law: "aws_encrypt_law D p" and key: "length key = 32"
    and wrap: "wrap_object_key_live D p t recipient key w = (Ok rec, w')"
  shows "fst (unwrap_object_key_live D p t rec v) = Ok key \<or>
    (\<exists>m. fst (unwrap_object_key_live D p t rec v) = Err (AwsCliFailed m))"
proof -
  let ?ctx = "encryption_context_args t (''recipient:'' @ recipient)"
  obtain val out where val: "aws_returns D p (en_calls w) (encrypt_args p (b64_pad_encode D key) @ ?ctx) val"
    "json_encrypt_output D val = Ok out"
    and rec: "wk_recipient_key_id rec = recipient" "wk_wrapped_key_b64 rec = ae_ciphertext_blob out"
    using wrap by (auto simp: wrap_object_key_live_def bnd_Ok aws_cli_json_Ok)
  have b64: "decode_base64_any D (b64_pad_encode D key) InvalidWrappedKey = Ok key"
    using law by (simp add: decode_base64_any_def aws_encrypt_law_def)
  obtain r v' where dec: "unwrap_object_key_live D p t rec v = (r, v')" by force
  have "r = Ok key \<or> (\<exists>m. r = Err (AwsCliFailed m))"
  proof (rule decrypt_key_live_outcome [OF _ b64 key dec [unfolded unwrap_object_key_live_def rec]])
    fix val' o'
    assume "aws_returns D p (en_calls v) (decrypt_args p (ae_ciphertext_blob out) @ ?ctx) val'"
      "json_decrypt_output D val' = Ok o'"
    then show "ad_plaintext o' = b64_pad_encode D key"
      using law val unfolding aws_encrypt_law_def by blast
  qed
  then show ?thesis by (simp add: dec)
qed

lemma aws_store_roundtrip:
  assumes laws: "crypto_laws D" "aws_data_key_law D p" and live: "use_live_cli p"
    and enc: "aws_encrypt_store_payload D p t kind plaintext w = (Ok env, w')"
  shows "fst (aws_decrypt_store_payload D p t kind env v) = Ok plaintext \<or>
    (\<exists>m. fst (aws_decrypt_store_payload D p t kind env v) = Err (AwsCliFailed m))"
proof -
  let ?ad = "as_bytes (aad t kind)"
  obtain key blob w1 payload where gen: "generate_data_key_live D p t kind w = (Ok (key, blob), w1)"
    and payload: "encrypt_aes_gcm D key plaintext ?ad w1 = (Ok payload, w')"
    and env: "se_tenant_id env = tenant_str t" "se_store_kind env = kind" "se_wrapped_dek_b64 env = blob"
      "se_data_nonce_b64 env = b64_nopad_encode D (ax_nonce payload)"
      "se_ciphertext_b64 env = b64_nopad_encode D (ax_ciphertext payload)"
    using enc live by (auto simp: aws_encrypt_store_payload_def elim!: bnd_OkE)
  have dec: "b64_nopad_decode D (as_bytes (b64_nopad_encode D bs)) = Some bs" for bs
    using laws(1) by (simp add: crypto_laws_def)
  obtain r v1 where r: "decrypt_data_key_live D p t kind blob v = (r, v1)" by force
  show ?thesis using live r decrypt_generated_key [OF laws(2) gen r] encrypt_aes_gcm_Ok [OF laws(1) payload]
    by (auto simp: aws_decrypt_store_payload_def env bnd_def lift_result_def dec
        decode_fixed_encode [OF laws(1)] ok_or_def)
qed


text \<open>
  The contract of an envelope KMS: what it encrypted for a tenant and a store kind it decrypts
  for them, without touching the state, and an envelope serves no other tenant and no other kind.
\<close>

locale envelope_kms =
  fixes enc :: "TenantId \<Rightarrow> string \<Rightarrow> byte list \<Rightarrow> 'w \<Rightarrow> (CryptoError + StoredEnvelope) \<times> 'w"
    and dec :: "TenantId \<Rightarrow> string \<Rightarrow> StoredEnvelope \<Rightarrow> 'w \<Rightarrow> (CryptoError + byte list) \<times> 'w"
    and good :: bool
  assumes dec_enc: "good \<Longrightarrow> enc t k plaintext w = (Ok env, w') \<Longrightarrow> dec t k env v = (Ok plaintext, v)"
    and dec_scope: "dec t k env v = (Ok plaintext, v') \<Longrightarrow> se_tenant_id env = tenant_str t \<and> se_store_kind env = k"
begin

lemma enc_scope:
  "good \<Longrightarrow> enc t k plaintext w = (Ok env, w') \<Longrightarrow> se_tenant_id env = tenant_str t \<and> se_store_kind env = k"
  by (rule dec_scope [OF dec_enc])

lemma rewrap:
  assumes "good" "bnd (dec t k env) (enc t k) w = (Ok env', w')" "dec t k env w = (Ok plaintext, w)"
  shows "dec t k env' v = (Ok plaintext, v)"
  using assms dec_enc by (auto simp: bnd_def)

end

lemma decrypt_store_payload_scope:
  "decrypt_store_payload D kms t k env v = (Ok plaintext, v') \<Longrightarrow>
     se_tenant_id env = tenant_str t \<and> se_store_kind env = k"
  by (cases kms)
    (auto simp: local_decrypt_store_payload_def aws_decrypt_store_payload_def split: if_split_asm)

lemma kms_store_roundtrip_stateless:
  assumes "crypto_laws D" "\<not> kms_live kms" "encrypt_store_payload D kms t k plaintext w = (Ok env, w')"
  shows "decrypt_store_payload D kms t k env v = (Ok plaintext, v)"
  using assms
  by (cases kms)
    (auto simp: aws_encrypt_store_payload_def aws_decrypt_store_payload_def lift_result_def
      dest: local_store_roundtrip)

interpretation offline_kms: envelope_kms "encrypt_store_payload D kms" "decrypt_store_payload D kms"
  "crypto_laws D \<and> \<not> kms_live kms"
  for D :: "'x crypto_deps_scheme" and kms
proof unfold_locales
qed (auto dest: kms_store_roundtrip_stateless decrypt_store_payload_scope)

lemma kms_decrypts_encrypted:
  fixes w v :: "'z entropy_scheme"
  assumes "kms_laws D kms" "encrypt_store_payload D kms t k plaintext w = (Ok env, w')"
  shows "fst (decrypt_store_payload D kms t k env v) = Ok plaintext \<or>
    kms_live kms \<and> (\<exists>m. fst (decrypt_store_payload D kms t k env v) = Err (AwsCliFailed m))"
proof (cases "kms_live kms")
  case True
  then obtain p where p: "kms = AwsKms p" "use_live_cli p" by (cases kms) auto
  then show ?thesis using assms aws_store_roundtrip [of D p t k plaintext w env w' v] by simp
next
  case False
  moreover have "crypto_laws D" using assms(1) by (cases kms) auto
  ultimately show ?thesis using offline_kms.dec_enc [OF _ assms(2), of v] by simp
qed

lemma encrypt_store_payload_scope:
  "encrypt_store_payload D kms t k plaintext w = (Ok env, w') \<Longrightarrow>
     se_tenant_id env = tenant_str t \<and> se_store_kind env = k"
  by (cases kms) (auto simp: local_encrypt_store_payload_def aws_encrypt_store_payload_def
      split: if_split_asm elim!: bnd_OkE)

text \<open>
  C17. Whatever a KMS provider encrypts for a tenant and a store kind, it decrypts to the same
  bytes at any later time; a provider that calls AWS may instead report that the AWS command
  failed, and nothing else.
\<close>

theorem kms_store_roundtrip:
  fixes w v :: "'z entropy_scheme"
  assumes "kms_laws D kms" "encrypt_store_payload D kms t k plaintext w = (Ok env, w')"
  shows "fst (decrypt_store_payload D kms t k env v) = Ok plaintext \<or>
    kms_live kms \<and> (\<exists>m. fst (decrypt_store_payload D kms t k env v) = Err (AwsCliFailed m))"
  using assms by (rule kms_decrypts_encrypted)

text \<open>
  C19. Rotating an envelope keeps its content, for every provider: where
  \<open>rewrap_store_envelope\<close> returns a new envelope, the old one decrypted to some bytes, the new one
  is bound to the same tenant and kind, and at any later time it decrypts to the same bytes; a
  provider that calls AWS may instead report that the AWS command failed, and nothing else.
\<close>

theorem rewrap_keeps_payload:
  fixes w v :: "'z entropy_scheme"
  assumes "kms_laws D kms" "rewrap_store_envelope D kms t k env w = (Ok env', w')"
  shows "\<exists>plaintext w1. decrypt_store_payload D kms t k env w = (Ok plaintext, w1) \<and>
    se_tenant_id env' = se_tenant_id env \<and> se_store_kind env' = se_store_kind env \<and>
    (fst (decrypt_store_payload D kms t k env' v) = Ok plaintext \<or>
     kms_live kms \<and> (\<exists>m. fst (decrypt_store_payload D kms t k env' v) = Err (AwsCliFailed m)))"
proof -
  obtain plaintext w1 where dec: "decrypt_store_payload D kms t k env w = (Ok plaintext, w1)"
    and enc: "encrypt_store_payload D kms t k plaintext w1 = (Ok env', w')"
    using assms(2) unfolding rewrap_store_envelope_def by (rule bnd_OkE)
  show ?thesis
    using dec kms_decrypts_encrypted [OF assms(1) enc, of v] encrypt_store_payload_scope [OF enc]
      decrypt_store_payload_scope [OF dec] by simp
qed

text \<open>
  C18. An envelope is bound to its tenant and store kind: no provider decrypts it for another
  tenant or as another kind of record, and the refusal comes before any key is used.
\<close>

theorem envelope_isolation:
  assumes "encrypt_store_payload D kms t k plaintext w = (Ok env, w')" "(t', k') \<noteq> (t, k)"
  shows "decrypt_store_payload D kms t' k' env v = (Err InvalidEnvelope, v)"
proof -
  have "se_tenant_id env = tenant_str t \<and> se_store_kind env = k"
    using assms(1) by (rule encrypt_store_payload_scope)
  then have "se_tenant_id env \<noteq> tenant_str t' \<or> se_store_kind env \<noteq> k'"
    using assms(2) by (cases t; cases t') auto
  then show ?thesis
    by (cases kms) (auto simp: local_decrypt_store_payload_def aws_decrypt_store_payload_def
        lift_result_def throw_def)
qed


lemma local_object_key_roundtrip:
  assumes "crypto_laws D" "length key = 32" "local_wrap_object_key D k t recipient key w = (Ok rec, w')"
  shows "local_unwrap_object_key D k t rec = Ok key"
proof -
  have dec: "b64_nopad_decode D (as_bytes (b64_nopad_encode D bs)) = Some bs" for bs
    using assms(1) by (simp add: crypto_laws_def)
  have xd: "xchacha_encrypt D k n m a = Some c \<Longrightarrow> xchacha_decrypt D k n c a = Some m" for k n m a c
    using assms(1) by (simp add: crypto_laws_def)
  show ?thesis
    using assms unfolding local_wrap_object_key_def
    by (auto elim!: bnd_OkE dest!: fill_bytes_Ok
        simp: local_unwrap_object_key_def decode_fixed_encode dec if_Err_Ok xd)
qed

lemma unwrap_object_key_length:
  "unwrap_object_key_for_recipient D kms t rec v = (Ok key, v') \<Longrightarrow> length key = 32"
  by (cases kms) (auto simp: local_unwrap_object_key_def unwrap_object_key_live_def decrypt_key_live_def
      if_Err_Ok bnd_Ok lift_result_def split: if_split_asm)

text \<open>
  C35. For every provider, a 32-byte object key wrapped for a recipient is unwrapped to the same key
  at any later time; a provider that calls AWS may instead report that the AWS command failed, and
  nothing else. Whatever record unwrapping is given, a key that it returns is 32 bytes long.
\<close>

theorem object_key_roundtrip:
  fixes w v :: "'z entropy_scheme"
  assumes "kms_wrap_laws D kms" "length key = 32"
    and "wrap_object_key_for_recipient D kms t recipient key w = (Ok rec, w')"
  shows "(fst (unwrap_object_key_for_recipient D kms t rec v) = Ok key \<or>
      kms_live kms \<and> (\<exists>m. fst (unwrap_object_key_for_recipient D kms t rec v) = Err (AwsCliFailed m))) \<and>
    (fst (unwrap_object_key_for_recipient D kms t' rec' v) = Ok key' \<longrightarrow> length key' = 32)"
proof
  show "fst (unwrap_object_key_for_recipient D kms t rec v) = Ok key \<or>
      kms_live kms \<and> (\<exists>m. fst (unwrap_object_key_for_recipient D kms t rec v) = Err (AwsCliFailed m))"
    using assms by (cases kms)
      (auto simp: lift_result_def dest: local_object_key_roundtrip unwrap_wrapped_live [where v = v])
  show "fst (unwrap_object_key_for_recipient D kms t' rec' v) = Ok key' \<longrightarrow> length key' = 32"
    by (cases "unwrap_object_key_for_recipient D kms t' rec' v") (auto dest: unwrap_object_key_length)
qed

text \<open>
  A client chunk decrypts to its plaintext under its object key and nonce, and its identifier
  is the content identifier of the ciphertext, the bytes that the server stores and verifies.
\<close>

lemma client_chunk_roundtrip:
  assumes "crypto_laws D" "encrypt_client_chunk D key plaintext w = (Ok chunk, w')"
  shows "decrypt_client_chunk D key (cc_nonce_b64 chunk) (cc_ciphertext chunk) = Ok plaintext \<and>
    cc_cid chunk = cid_from_bytes D (cc_ciphertext chunk)"
  using assms unfolding encrypt_client_chunk_def
  by (auto elim!: bnd_OkE dest!: fill_bytes_Ok
      simp: decrypt_client_chunk_def decode_fixed_encode crypto_laws_def)

text \<open>
  A runtime secret is accepted exactly when, trimmed of white space (or as it is, where it is
  not UTF-8), it has at least 32 bytes and is, in any letter case, none of the forbidden literals;
  the accepted secret is the trimmed text.
\<close>

lemma validate_runtime_secret_iff:
  "validate_runtime_secret name secret_text literals = Ok bytes \<longleftrightarrow>
     (let secret = (if utf8_valid (as_bytes secret_text) then as_bytes (trim secret_text) else as_bytes secret_text);
          shown = (if utf8_valid (as_bytes secret_text) then trim secret_text else [])
      in bytes = secret \<and> 32 \<le> length secret \<and>
         (\<forall>literal\<in>set literals. to_ascii_lowercase shown \<noteq> to_ascii_lowercase literal))"
  by (auto simp: validate_runtime_secret_def validate_runtime_secret_bytes_def str_from_utf8_def Let_def
      MIN_RUNTIME_SECRET_BYTES_def eq_ignore_ascii_case_def list_ex_iff if_Err_Ok)

section \<open>Witnesses\<close>

text \<open>An instance of the third-party code that satisfies the laws.\<close>

definition ref_crypto_deps :: crypto_deps where
  "ref_crypto_deps = core_deps.extend ref_core_deps
     \<lparr>b64_nopad_encode = ref_text_encode, b64_nopad_decode = ref_text_decode,
      b64_pad_encode = ref_text_encode, b64_pad_decode = ref_text_decode,
      aes_gcm_encrypt = (\<lambda>k n m a. Some (n @ m)), aes_gcm_decrypt = (\<lambda>k n c a. Some (drop (length n) c)),
      xchacha_encrypt = (\<lambda>k n m a. Some (n @ m)), xchacha_decrypt = (\<lambda>k n c a. Some (drop (length n) c)),
      hkdf_sha256 = (\<lambda>salt ikm info n. Some (replicate n 7)),
      run_command = (\<lambda>i path args. Ok \<lparr>co_success = True, co_stdout = [], co_stderr = []\<rparr>),
      json_value = (\<lambda>bs. Ok JNull),
      json_generate_output = (\<lambda>v. Ok \<lparr>ag_plaintext = ref_text_encode (replicate 32 9), ag_ciphertext_blob = ''b''\<rparr>),
      json_decrypt_output = (\<lambda>v. Ok \<lparr>ad_plaintext = ref_text_encode (replicate 32 9)\<rparr>),
      json_encrypt_output = (\<lambda>v. Ok \<lparr>ae_ciphertext_blob = ''b''\<rparr>)\<rparr>"

lemma ref_crypto_simps [simp]:
  "b64_nopad_encode ref_crypto_deps = ref_text_encode" "b64_nopad_decode ref_crypto_deps = ref_text_decode"
  "b64_pad_encode ref_crypto_deps = ref_text_encode" "b64_pad_decode ref_crypto_deps = ref_text_decode"
  "aes_gcm_encrypt ref_crypto_deps = (\<lambda>k n m a. Some (n @ m))"
  "aes_gcm_decrypt ref_crypto_deps = (\<lambda>k n c a. Some (drop (length n) c))"
  "xchacha_encrypt ref_crypto_deps = (\<lambda>k n m a. Some (n @ m))"
  "xchacha_decrypt ref_crypto_deps = (\<lambda>k n c a. Some (drop (length n) c))"
  "hkdf_sha256 ref_crypto_deps = (\<lambda>salt ikm info n. Some (replicate n 7))"
  "run_command ref_crypto_deps = (\<lambda>i path args. Ok \<lparr>co_success = True, co_stdout = [], co_stderr = []\<rparr>)"
  "json_value ref_crypto_deps = (\<lambda>bs. Ok JNull)"
  "json_generate_output ref_crypto_deps = (\<lambda>v. Ok \<lparr>ag_plaintext = ref_text_encode (replicate 32 9), ag_ciphertext_blob = ''b''\<rparr>)"
  "json_decrypt_output ref_crypto_deps = (\<lambda>v. Ok \<lparr>ad_plaintext = ref_text_encode (replicate 32 9)\<rparr>)"
  by (simp_all add: ref_crypto_deps_def core_deps.defs)

lemma ref_crypto_laws: "crypto_laws ref_crypto_deps"
  by (auto simp: crypto_laws_def)

lemma ref_kms_laws: "kms_laws ref_crypto_deps kms"
  by (cases kms) (auto simp: ref_crypto_laws aws_data_key_law_def)

definition sample_kms :: LocalDevKms where
  "sample_kms = \<lparr>lk_root_seed = replicate 32 1, lk_key_version = 1\<rparr>"

definition sample_aws :: AwsKmsProvider where
  "sample_aws =
     \<lparr>ap_config = \<lparr>ak_key_alias = ''k'', ak_region = ''r'', ak_workload_identity_required = False\<rparr>,
      ap_fallback = sample_kms, ap_runtime_mode = LiveCli, ap_cli_path = ''aws''\<rparr>"

definition sample_entropy :: entropy where
  "sample_entropy = \<lparr>en_stream = (\<lambda>i. of_nat i), en_pos = 0, en_calls = 0\<rparr>"

lemma sample_encrypt:
  "\<exists>env w'. encrypt_store_payload ref_crypto_deps (LocalKms sample_kms) t k plaintext w = (Ok env, w')"
  "\<exists>env w'. encrypt_store_payload ref_crypto_deps (AwsKms sample_aws) t k plaintext w = (Ok env, w')"
  by (auto simp: local_encrypt_store_payload_def aws_encrypt_store_payload_def use_live_cli_def sample_aws_def
      generate_data_key_live_def aws_cli_json_def decode_base64_any_def generate_object_data_key_def
      derive_context_key_def bnd_def lift_result_def ret_def ensure_def encrypt_aes_gcm_def fill_bytes_def
      ok_or_def map_err_def split: sum.splits prod.splits)

theorem kms_store_roundtrip_witness:
  "\<exists>env w'. encrypt_store_payload ref_crypto_deps (AwsKms sample_aws) (TenantId ''t'') ''object'' [1, 2] sample_entropy
       = (Ok env, w') \<and>
     (fst (decrypt_store_payload ref_crypto_deps (AwsKms sample_aws) (TenantId ''t'') ''object'' env w') = Ok [1, 2] \<or>
      (\<exists>m. fst (decrypt_store_payload ref_crypto_deps (AwsKms sample_aws) (TenantId ''t'') ''object'' env w')
         = Err (AwsCliFailed m)))"
proof -
  obtain env w' where e: "encrypt_store_payload ref_crypto_deps (AwsKms sample_aws) (TenantId ''t'') ''object'' [1, 2]
      sample_entropy = (Ok env, w')"
    using sample_encrypt(2) by blast
  show ?thesis using kms_store_roundtrip [OF ref_kms_laws e, of w'] e by blast
qed

theorem rewrap_keeps_payload_witness:
  "\<exists>env env' (w' :: entropy) w''. decrypt_store_payload ref_crypto_deps (LocalKms sample_kms) (TenantId ''t'') ''object'' env w' = (Ok [1, 2], w') \<and>
     rewrap_store_envelope ref_crypto_deps (LocalKms sample_kms) (TenantId ''t'') ''object'' env w' = (Ok env', w'') \<and>
     fst (decrypt_store_payload ref_crypto_deps (LocalKms sample_kms) (TenantId ''t'') ''object'' env' sample_entropy)
       = Ok [1, 2]"
proof -
  let ?enc = "encrypt_store_payload ref_crypto_deps (LocalKms sample_kms) (TenantId ''t'') ''object'' [1, 2]"
  obtain env w' where e: "?enc sample_entropy = (Ok env, w')" using sample_encrypt(1) by blast
  have d: "decrypt_store_payload ref_crypto_deps (LocalKms sample_kms) (TenantId ''t'') ''object'' env w' = (Ok [1, 2], w')"
    using kms_store_roundtrip_stateless [OF ref_crypto_laws _ e] by simp
  obtain env' w'' where "?enc w' = (Ok env', w'')" using sample_encrypt(1) by blast
  then have r: "rewrap_store_envelope ref_crypto_deps (LocalKms sample_kms) (TenantId ''t'') ''object'' env w' = (Ok env', w'')"
    using d by (simp add: rewrap_store_envelope_def bnd_def lift_result_def)
  show ?thesis
    using d r rewrap_keeps_payload [OF ref_kms_laws r, of sample_entropy] by auto
qed

theorem envelope_isolation_witness:
  "\<exists>env w'. encrypt_store_payload ref_crypto_deps (LocalKms sample_kms) (TenantId ''t'') ''object'' [1, 2] sample_entropy
       = (Ok env, w') \<and>
     decrypt_store_payload ref_crypto_deps (LocalKms sample_kms) (TenantId ''u'') ''object'' env w' = (Err InvalidEnvelope, w')"
proof -
  obtain env w' where e: "encrypt_store_payload ref_crypto_deps (LocalKms sample_kms) (TenantId ''t'') ''object'' [1, 2]
      sample_entropy = (Ok env, w')"
    using sample_encrypt(1) by blast
  show ?thesis using e envelope_isolation [OF e, of "TenantId ''u''" "''object''" w'] by auto
qed

text \<open>An AWS that returns each plaintext as its own blob: it decrypts what it encrypted.\<close>

definition aws_crypto_deps :: crypto_deps where
  "aws_crypto_deps = ref_crypto_deps
     \<lparr>run_command := (\<lambda>i path args. Ok \<lparr>co_success = True,
        co_stdout = as_bytes (if args ! 1 = ''encrypt'' then args ! 5 else args ! 3), co_stderr = []\<rparr>),
      json_value := (\<lambda>bs. Ok (JString (from_bytes bs))),
      json_encrypt_output := (\<lambda>v. case v of JString s \<Rightarrow> Ok \<lparr>ae_ciphertext_blob = s\<rparr> | _ \<Rightarrow> Err []),
      json_decrypt_output := (\<lambda>v. case v of JString s \<Rightarrow> Ok \<lparr>ad_plaintext = s\<rparr> | _ \<Rightarrow> Err [])\<rparr>"

lemma aws_crypto_simps:
  "run_command aws_crypto_deps = (\<lambda>i path args. Ok \<lparr>co_success = True,
     co_stdout = as_bytes (if args ! 1 = ''encrypt'' then args ! 5 else args ! 3), co_stderr = []\<rparr>)"
  "json_value aws_crypto_deps = (\<lambda>bs. Ok (JString (from_bytes bs)))"
  "json_encrypt_output aws_crypto_deps (JString s) = Ok \<lparr>ae_ciphertext_blob = s\<rparr>"
  "json_decrypt_output aws_crypto_deps (JString s) = Ok \<lparr>ad_plaintext = s\<rparr>"
  "b64_pad_encode aws_crypto_deps = ref_text_encode" "b64_pad_decode aws_crypto_deps = ref_text_decode"
  by (simp_all add: aws_crypto_deps_def)

lemma aws_crypto_laws: "kms_wrap_laws aws_crypto_deps (AwsKms p)"
proof -
  have "crypto_laws aws_crypto_deps"
    using ref_crypto_laws by (simp add: crypto_laws_def aws_crypto_deps_def)
  moreover have "aws_encrypt_law aws_crypto_deps p"
    by (auto simp: aws_encrypt_law_def aws_returns_def aws_crypto_simps encrypt_args_def decrypt_args_def)
  ultimately show ?thesis by simp
qed

theorem object_key_roundtrip_witness:
  "\<exists>rec w'. wrap_object_key_for_recipient aws_crypto_deps (AwsKms sample_aws) (TenantId ''t'') ''r'' (replicate 32 5)
       sample_entropy = (Ok rec, w') \<and> kms_live (AwsKms sample_aws) \<and>
     fst (unwrap_object_key_for_recipient aws_crypto_deps (AwsKms sample_aws) (TenantId ''t'') rec w')
       = Ok (replicate 32 5)"
proof -
  have live: "use_live_cli sample_aws" by (simp add: use_live_cli_def sample_aws_def)
  obtain rec w' where e: "wrap_object_key_for_recipient aws_crypto_deps (AwsKms sample_aws) (TenantId ''t'') ''r''
      (replicate 32 5) sample_entropy = (Ok rec, w')"
    by (auto simp: live wrap_object_key_live_def bnd_def aws_cli_json_def aws_crypto_simps lift_result_def
        map_err_def ret_def)
  have "fst (unwrap_object_key_for_recipient aws_crypto_deps (AwsKms sample_aws) (TenantId ''t'') rec w')
      \<noteq> Err (AwsCliFailed m)" for m
    by (auto simp: live unwrap_object_key_live_def decrypt_key_live_def bnd_def aws_cli_json_def aws_crypto_simps
        lift_result_def map_err_def ret_def decode_base64_any_def ensure_def throw_def ok_or_def
        split: option.splits)
  then show ?thesis using e live object_key_roundtrip [OF aws_crypto_laws _ e, of w'] by auto
qed

end
