(* ===== verification/HSP_Machine.thy ===== *)
theory HSP_Machine
  imports HSP_Crypto
begin

text \<open>
  The machine the service runs on (\<open>world\<close>, an extension of \<open>entropy\<close>): a clock, whose successive
  readings are \<open>w_clock\<close>; a filesystem, the content of its files by path and the set of its
  directories; and a remote object store reached over HTTP, its objects by URL.

  Every system call takes the next entry of \<open>w_io\<close>, which says whether the call succeeds; a write
  that fails may leave a part of its bytes behind. The remote server and the order in which a
  directory is read are parameters of the components that use them.
\<close>

section \<open>Clock and filesystem\<close>

datatype io_outcome = IoOk | IoFail string "nat option"

record world = entropy +
  w_clock :: "nat \<Rightarrow> u64"
  w_ticks :: nat
  w_io :: "nat \<Rightarrow> io_outcome"
  w_io_calls :: nat
  w_files :: "string \<rightharpoonup> byte list"
  w_dirs :: "string set"
  w_http_calls :: nat
  w_objects :: "string \<rightharpoonup> byte list"

definition now_ms :: "('z world_scheme, 'e, u64) comp" where
  "now_ms w = (Ok (w_clock w (w_ticks w)), w\<lparr>w_ticks := w_ticks w + 1\<rparr>)"

definition elapsed_ms :: "u64 \<Rightarrow> ('z world_scheme, 'e, u64) comp" where
  "elapsed_ms start_ms = bnd now_ms (\<lambda>now. ret (saturating_sub now start_ms))"

definition next_io :: "'z world_scheme \<Rightarrow> io_outcome" where
  "next_io w = w_io w (w_io_calls w)"

definition io_done :: "'z world_scheme \<Rightarrow> 'z world_scheme" where
  "io_done w = w\<lparr>w_io_calls := w_io_calls w + 1\<rparr>"

text \<open>\<open>PathBuf::join\<close> and \<open>Path::parent\<close> on paths written with single slashes.\<close>

definition path_join :: "string \<Rightarrow> string \<Rightarrow> string" where
  "path_join root key =
     (if starts_with key ''/'' then key
      else if root = [] \<or> last root = CHR ''/'' then root @ key
      else root @ ''/'' @ key)"

definition path_parent :: "string \<Rightarrow> string option" where
  "path_parent path =
     (if path = [] \<or> path = ''/'' then None
      else
        let segs = butlast (split_char (CHR ''/'') path) in
        if segs = [[]] then Some ''/'' else Some (join_with ''/'' segs))"

text \<open>A directory with all the directories above it.\<close>

definition path_ancestors :: "string \<Rightarrow> string set" where
  "path_ancestors path =
     (let segs = split_char (CHR ''/'') path in
      set (map (\<lambda>n. join_with ''/'' (take n segs)) [1..<Suc (length segs)]))"

definition io_not_found :: string where
  "io_not_found = ''No such file or directory (os error 2)''"

text \<open>
  \<open>Path::exists\<close>, which answers false when the query itself fails. The keys of the store name
  files and its root names a directory, so the two uses ask for a file and for a directory.
\<close>

definition file_exists :: "string \<Rightarrow> ('z world_scheme, 'e, bool) comp" where
  "file_exists path w = (Ok (next_io w = IoOk \<and> w_files w path \<noteq> None), io_done w)"

definition dir_exists :: "string \<Rightarrow> ('z world_scheme, 'e, bool) comp" where
  "dir_exists path w = (Ok (next_io w = IoOk \<and> path \<in> w_dirs w), io_done w)"

definition fs_read :: "string \<Rightarrow> ('z world_scheme, string, byte list) comp" where
  "fs_read path w =
     (case next_io w of
        IoFail message _ \<Rightarrow> (Err message, io_done w)
      | IoOk \<Rightarrow> (ok_or (w_files w path) io_not_found, io_done w))"

definition create_dir_all :: "string \<Rightarrow> ('z world_scheme, string, unit) comp" where
  "create_dir_all path w =
     (case next_io w of
        IoFail message _ \<Rightarrow> (Err message, io_done w)
      | IoOk \<Rightarrow> (Ok (), (io_done w)\<lparr>w_dirs := w_dirs w \<union> path_ancestors path\<rparr>))"

definition fs_write :: "string \<Rightarrow> byte list \<Rightarrow> ('z world_scheme, string, unit) comp" where
  "fs_write path bytes w =
     (case next_io w of
        IoOk \<Rightarrow> (Ok (), (io_done w)\<lparr>w_files := (w_files w)(path \<mapsto> bytes)\<rparr>)
      | IoFail message None \<Rightarrow> (Err message, io_done w)
      | IoFail message (Some n) \<Rightarrow>
          (Err message, (io_done w)\<lparr>w_files := (w_files w)(path \<mapsto> take n bytes)\<rparr>))"

definition remove_file :: "string \<Rightarrow> ('z world_scheme, string, unit) comp" where
  "remove_file path w =
     (case next_io w of
        IoFail message _ \<Rightarrow> (Err message, io_done w)
      | IoOk \<Rightarrow> (Ok (), (io_done w)\<lparr>w_files := (w_files w)(path := None)\<rparr>))"

text \<open>\<open>OpenOptions::create_new\<close>: \<open>Ok False\<close> stands for \<open>ErrorKind::AlreadyExists\<close>.\<close>

definition open_new :: "string \<Rightarrow> ('z world_scheme, string, bool) comp" where
  "open_new path w =
     (case next_io w of
        IoFail message _ \<Rightarrow> (Err message, io_done w)
      | IoOk \<Rightarrow>
          if w_files w path \<noteq> None then (Ok False, io_done w)
          else (Ok True, (io_done w)\<lparr>w_files := (w_files w)(path \<mapsto> [])\<rparr>))"

definition sync_all :: "('z world_scheme, string, unit) comp" where
  "sync_all w =
     (case next_io w of
        IoFail message _ \<Rightarrow> (Err message, io_done w)
      | IoOk \<Rightarrow> (Ok (), io_done w))"

definition on_err :: "('e \<Rightarrow> 'f) \<Rightarrow> ('s, 'e, 'a) comp \<Rightarrow> ('s, 'f, 'a) comp" where
  "on_err f m s = (case m s of (r, s') \<Rightarrow> (map_err f r, s'))"

definition dir_entry :: "('z world_scheme, string, unit) comp" where
  "dir_entry w =
     (case next_io w of
        IoFail message _ \<Rightarrow> (Err message, io_done w)
      | IoOk \<Rightarrow> (Ok (), io_done w))"

text \<open>
  What the system calls do when they succeed. \<open>io_reliable\<close> says that every later call succeeds.
\<close>

definition io_reliable :: "'z world_scheme \<Rightarrow> bool" where
  "io_reliable w \<longleftrightarrow> (\<forall>n \<ge> w_io_calls w. w_io w n = IoOk)"

lemma io_reliable_next: "io_reliable w \<Longrightarrow> next_io w = IoOk"
  by (simp add: io_reliable_def next_io_def)

lemma io_reliable_done [simp]: "io_reliable w \<Longrightarrow> io_reliable (io_done w)"
  by (simp add: io_reliable_def io_done_def)

lemma io_reliable_update [simp]:
  "io_reliable (w\<lparr>w_files := f\<rparr>) = io_reliable w" "io_reliable (w\<lparr>w_dirs := d\<rparr>) = io_reliable w"
  by (simp_all add: io_reliable_def)

lemma io_done_simps [simp]:
  "w_files (io_done w) = w_files w" "w_dirs (io_done w) = w_dirs w" "w_objects (io_done w) = w_objects w"
  by (simp_all add: io_done_def)

section \<open>Text\<close>

text \<open>\<open>trim_start_matches\<close>, \<open>trim_end_matches\<close> and \<open>trim_matches\<close> of a character, \<open>strip_prefix\<close>,
  \<open>find\<close> and \<open>replace\<close> of a string.\<close>

definition trim_start_char :: "char \<Rightarrow> string \<Rightarrow> string" where
  "trim_start_char c s = dropWhile (\<lambda>x. x = c) s"

definition trim_end_char :: "char \<Rightarrow> string \<Rightarrow> string" where
  "trim_end_char c s = rev (dropWhile (\<lambda>x. x = c) (rev s))"

definition trim_char :: "char \<Rightarrow> string \<Rightarrow> string" where
  "trim_char c s = trim_end_char c (trim_start_char c s)"

definition strip_prefix :: "string \<Rightarrow> string \<Rightarrow> string option" where
  "strip_prefix p s = (if starts_with s p then Some (drop (length p) s) else None)"

fun str_find :: "string \<Rightarrow> string \<Rightarrow> nat option" where
  "str_find needle [] = (if needle = [] then Some 0 else None)"
| "str_find needle (c # s) =
     (if starts_with (c # s) needle then Some 0 else map_option Suc (str_find needle s))"

function str_replace :: "string \<Rightarrow> string \<Rightarrow> string \<Rightarrow> string" where
  "str_replace from to s =
     (if s = [] \<or> from = [] then s
      else if starts_with s from then to @ str_replace from to (drop (length from) s)
      else hd s # str_replace from to (tl s))"
  by pat_completeness auto
termination by (relation "measure (\<lambda>(_, _, s). length s)") auto

declare str_replace.simps [simp del]

text \<open>Upper-case hexadecimal of a byte, as \<open>{:02X}\<close> prints it.\<close>

definition hex_digit :: "nat \<Rightarrow> char" where
  "hex_digit n = (if n < 10 then char_of (48 + n) else char_of (55 + n))"

definition hex_upper :: "char \<Rightarrow> string" where
  "hex_upper c = [hex_digit (of_char c div 16), hex_digit (of_char c mod 16)]"

lemma str_find_bound: "str_find needle s = Some i \<Longrightarrow> i + length needle \<le> length s"
proof (induction s arbitrary: i)
  case (Cons c s)
  show ?case
  proof (cases "starts_with (c # s) needle")
    case True
    then show ?thesis
      using Cons.prems by (auto simp: starts_with_def) (metis length_take length_Cons min.cobounded1)
  next
    case False
    then show ?thesis using Cons by auto
  qed
qed (auto split: if_splits)

end
