(* ===== verification/HSP_S3_Backend.thy ===== *)
theory HSP_S3_Backend
  imports HSP_Machine
begin

text \<open>
  The S3 backend of \<open>crates/hsp-service/src/store.rs\<close>: \<open>S3ObjectStore\<close> with its request signing,
  key encoding and response handling, and the configuration read from the environment.

  The HTTP client, the TLS library, the hash functions and the calendar are fields of
  \<open>backend_deps\<close>; \<open>s3_serve\<close> is the remote server, which may answer anything. What S3 documents
  of its conditional \<open>PUT\<close> is the predicate \<open>s3_conditional_put\<close> of the theory \<open>HSP_Store\<close>.
\<close>

section \<open>Third-party code\<close>

record HttpRequest =
  ht_method :: string
  ht_url :: string
  ht_headers :: "(string \<times> string) list"
  ht_body :: "byte list option"

text \<open>A response body: the bytes that arrive, and the error after them, if there is one.\<close>

record HttpBody =
  hb_bytes :: "byte list"
  hb_error :: "string option"

datatype HttpResult = Http_Ok HttpBody | Http_Status u16 HttpBody | Http_Transport string

record DateTime =
  dt_year :: nat
  dt_month :: nat
  dt_day :: nat
  dt_hour :: nat
  dt_minute :: nat
  dt_second :: nat

record backend_deps = crypto_deps +
  hmac_sha256 :: "byte list \<Rightarrow> byte list \<Rightarrow> byte list"
  hex_encode :: "byte list \<Rightarrow> string"
  offset_date_time :: "u64 \<Rightarrow> DateTime"
  s3_serve :: "nat \<Rightarrow> HttpRequest \<Rightarrow> (string \<rightharpoonup> byte list) \<Rightarrow> HttpResult \<times> (string \<rightharpoonup> byte list)"
  s3_page_fuel :: nat
  b64_std_decode :: "byte list \<Rightarrow> string + byte list"
  parsable_certificates :: "byte list list \<Rightarrow> nat"
  read_dir :: "nat \<Rightarrow> (string \<rightharpoonup> byte list) \<Rightarrow> string set \<Rightarrow> string \<Rightarrow> string list"

section \<open>Configuration\<close>

record S3StorageBackendConfig =
  s3c_endpoint_url :: string
  s3c_bucket :: string
  s3c_region :: string
  s3c_prefix :: string
  s3c_access_key :: string
  s3c_secret_key :: string
  s3c_ca_cert_path :: "string option"

datatype StorageBackendConfig = Backend_Filesystem | Backend_S3 S3StorageBackendConfig

record S3ObjectStore =
  s3_config :: S3StorageBackendConfig
  s3_endpoint_url :: string
  s3_endpoint_host :: string

definition config_error :: "string \<Rightarrow> ApiError" where
  "config_error message = api_error Cat_Storage ''storage_config_invalid'' message"

definition first_non_empty :: "string \<Rightarrow> string \<Rightarrow> string" where
  "first_non_empty value fallback = (if trim value = [] then fallback else trim value)"

definition redact_nonempty :: "string \<Rightarrow> string" where
  "redact_nonempty value = (if trim value = [] then [] else ''<redacted>'')"

definition normalize_store_prefix :: "string \<Rightarrow> string" where
  "normalize_store_prefix pfx =
     (let trimmed = trim_char CHR ''/'' (trim pfx) in if trimmed = [] then [] else trimmed @ ''/'')"

definition env_optional_path :: "(string \<Rightarrow> string option) \<Rightarrow> string \<Rightarrow> string option" where
  "env_optional_path env name =
     (case env name of
        None \<Rightarrow> None
      | Some value \<Rightarrow> if trim value = [] then None else Some (trim value))"

definition env_required :: "(string \<Rightarrow> string option) \<Rightarrow> string \<Rightarrow> ApiError + string" where
  "env_required env name =
     ok_or (env_optional_path env name) (config_error (name @ '' is required''))"

definition env_or :: "(string \<Rightarrow> string option) \<Rightarrow> string \<Rightarrow> string \<Rightarrow> string" where
  "env_or env name fallback = (case env name of None \<Rightarrow> fallback | Some value \<Rightarrow> value)"

definition env_either :: "(string \<Rightarrow> string option) \<Rightarrow> string \<Rightarrow> string \<Rightarrow> ApiError + string" where
  "env_either env first second =
     ok_or (case env first of Some value \<Rightarrow> Some value | None \<Rightarrow> env second)
       (config_error (first @ '' or '' @ second @ '' is required''))"

text \<open>\<open>{value:?}\<close>, for strings without unprintable characters outside ASCII.\<close>

definition debug_char :: "char \<Rightarrow> string" where
  "debug_char c =
     (let n = of_char c :: nat in
      if n = 34 \<or> n = 92 then [CHR 0x5C, c]
      else if n = 0 then [CHR 0x5C, CHR ''0'']
      else if n = 9 then [CHR 0x5C, CHR ''t'']
      else if n = 10 then [CHR 0x5C, CHR ''n'']
      else if n = 13 then [CHR 0x5C, CHR ''r'']
      else if n < 16 then [CHR 0x5C, CHR ''u'', CHR ''{'', ascii_lower (hex_digit n), CHR ''}'']
      else if n < 32 \<or> n = 127 then CHR 0x5C # ''u{'' @ to_ascii_lowercase (hex_upper c) @ ''}''
      else [c])"

definition debug_str :: "string \<Rightarrow> string" where
  "debug_str s = CHR 0x22 # concat (map debug_char s) @ [CHR 0x22]"

definition storage_backend_config_from_env :: "(string \<Rightarrow> string option) \<Rightarrow> ApiError + StorageBackendConfig" where
  "storage_backend_config_from_env env =
     (let value = to_ascii_lowercase (trim (env_or env ''HSP_STORAGE_BACKEND'' ''filesystem'')) in
      if value \<in> {[], ''filesystem'', ''fs''} then Ok Backend_Filesystem
      else if value = ''s3'' then
        rbnd (env_required env ''HSP_BACKING_S3_ENDPOINT'') (\<lambda>endpoint_url.
        rbnd (env_required env ''HSP_BACKING_S3_BUCKET'') (\<lambda>bucket.
        rbnd (env_either env ''HSP_BACKING_S3_ACCESS_KEY'' ''AWS_ACCESS_KEY_ID'') (\<lambda>access_key.
        rbnd (env_either env ''HSP_BACKING_S3_SECRET_KEY'' ''AWS_SECRET_ACCESS_KEY'') (\<lambda>secret_key.
        Ok (Backend_S3
          \<lparr>s3c_endpoint_url = endpoint_url, s3c_bucket = bucket,
           s3c_region = env_or env ''HSP_BACKING_S3_REGION'' ''us-east-1'',
           s3c_prefix = env_or env ''HSP_BACKING_S3_PREFIX'' [], s3c_access_key = access_key,
           s3c_secret_key = secret_key,
           s3c_ca_cert_path = env_optional_path env ''HSP_BACKING_S3_CA_CERT_PATH''\<rparr>)))))
      else
        Err (config_error (''unsupported HSP_STORAGE_BACKEND '' @ debug_str value @ ''; use filesystem or s3'')))"

definition endpoint_host :: "string \<Rightarrow> ApiError + string" where
  "endpoint_host endpoint_url =
     rbnd (ok_or (case strip_prefix ''https://'' endpoint_url of
                    Some rest \<Rightarrow> Some rest
                  | None \<Rightarrow> strip_prefix ''http://'' endpoint_url)
             (config_error ''HSP_BACKING_S3_ENDPOINT must start with http:// or https://'')) (\<lambda>without_scheme.
     let host = trim (hd (split_char CHR ''/'' without_scheme)) in
     if host = [] then Err (config_error ''HSP_BACKING_S3_ENDPOINT host is empty'') else Ok host)"

text \<open>\<open>str::lines\<close> on the text between the PEM markers.\<close>

definition strip_cr :: "string \<Rightarrow> string" where
  "strip_cr line = (if line \<noteq> [] \<and> last line = CHR 0x0D then butlast line else line)"

definition str_lines :: "string \<Rightarrow> string list" where
  "str_lines s =
     (let parts = split_char CHR 0x0A s in
      map strip_cr (butlast parts) @ (if last parts = [] then [] else [last parts]))"

definition pem_begin :: string where "pem_begin = ''-----BEGIN CERTIFICATE-----''"
definition pem_end :: string where "pem_end = ''-----END CERTIFICATE-----''"

function pem_blocks :: "(byte list \<Rightarrow> string + byte list) \<Rightarrow> string \<Rightarrow> string + byte list list" where
  "pem_blocks decode rest =
     (case str_find pem_begin rest of
        None \<Rightarrow> Ok []
      | Some start \<Rightarrow>
          let after_begin = drop (start + length pem_begin) rest in
          (case str_find pem_end after_begin of
             None \<Rightarrow> Err ''certificate block is missing END marker''
           | Some stop \<Rightarrow>
               let body = take stop after_begin;
                   base64_body = concat (filter (\<lambda>line. line \<noteq> []) (map trim (str_lines body))) in
               (case decode (as_bytes base64_body) of
                  Err error \<Rightarrow> Err (''certificate base64 decode failed: '' @ error)
                | Ok der \<Rightarrow>
                    rbnd (pem_blocks decode (drop (stop + length pem_end) after_begin)) (\<lambda>ders. Ok (der # ders)))))"
  by pat_completeness auto
termination
proof (relation "measure (\<lambda>(_, rest). length rest)")
  fix decode :: "byte list \<Rightarrow> string + byte list" and rest start ab stop b64 der and body :: string
  assume "str_find pem_begin rest = Some start" "ab = drop (start + length pem_begin) rest"
  then show "((decode, drop (stop + length pem_end) ab), decode, rest) \<in> measure (\<lambda>(_, rest). length rest)"
    using str_find_bound [of pem_begin rest start] by (auto simp: pem_begin_def)
qed simp

declare pem_blocks.simps [simp del]

definition parse_pem_certificates :: "'x backend_deps_scheme \<Rightarrow> byte list \<Rightarrow> string + byte list list" where
  "parse_pem_certificates D pem =
     rbnd (ok_or (str_from_utf8 pem) ''CA bundle is not valid UTF-8 PEM'') (pem_blocks (b64_std_decode D))"

definition ca_error :: "string \<Rightarrow> string \<Rightarrow> ApiError" where
  "ca_error code message = api_error Cat_Storage code message"

text \<open>The agent itself has no state the backend reads; building it is the check of the bundle.\<close>

definition build_s3_agent ::
  "'x backend_deps_scheme \<Rightarrow> string option \<Rightarrow> ('z world_scheme, ApiError, unit) comp" where
  "build_s3_agent D ca_cert_path =
     (case ca_cert_path of
        None \<Rightarrow> ret ()
      | Some path \<Rightarrow>
          bnd (on_err (\<lambda>error. ca_error ''s3_ca_read_failed'' (''failed to read '' @ path @ '': '' @ error))
                 (fs_read path)) (\<lambda>pem.
          bnd (lift_result (map_err (\<lambda>error.
                 ca_error ''s3_ca_parse_failed'' (''failed to parse '' @ path @ '': '' @ error))
                 (parse_pem_certificates D pem))) (\<lambda>certs.
          bnd (ensure (certs \<noteq> [])
                 (ca_error ''s3_ca_parse_failed'' (path @ '' does not contain PEM certificates''))) (\<lambda>_.
          ensure (parsable_certificates D certs \<noteq> 0)
            (ca_error ''s3_ca_parse_failed'' (path @ '' does not contain usable CA certificates''))))))"

definition s3_object_store_new ::
  "'x backend_deps_scheme \<Rightarrow> S3StorageBackendConfig \<Rightarrow> ('z world_scheme, ApiError, S3ObjectStore) comp" where
  "s3_object_store_new D config =
     (let endpoint_url = trim_end_char CHR ''/'' (trim (s3c_endpoint_url config)) in
      bnd (ensure (endpoint_url \<noteq> []) (config_error ''HSP_BACKING_S3_ENDPOINT is required'')) (\<lambda>_.
      bnd (ensure (trim (s3c_bucket config) \<noteq> []) (config_error ''HSP_BACKING_S3_BUCKET is required'')) (\<lambda>_.
      bnd (ensure (trim (s3c_access_key config) \<noteq> [])
             (config_error ''HSP_BACKING_S3_ACCESS_KEY or AWS_ACCESS_KEY_ID is required'')) (\<lambda>_.
      bnd (ensure (trim (s3c_secret_key config) \<noteq> [])
             (config_error ''HSP_BACKING_S3_SECRET_KEY or AWS_SECRET_ACCESS_KEY is required'')) (\<lambda>_.
      bnd (lift_result (endpoint_host endpoint_url)) (\<lambda>host.
      bnd (build_s3_agent D (s3c_ca_cert_path config)) (\<lambda>_.
      ret \<lparr>s3_config =
             \<lparr>s3c_endpoint_url = endpoint_url, s3c_bucket = trim (s3c_bucket config),
              s3c_region = first_non_empty (s3c_region config) ''us-east-1'',
              s3c_prefix = normalize_store_prefix (s3c_prefix config),
              s3c_access_key = trim (s3c_access_key config), s3c_secret_key = trim (s3c_secret_key config),
              s3c_ca_cert_path = s3c_ca_cert_path config\<rparr>,
           s3_endpoint_url = endpoint_url, s3_endpoint_host = host\<rparr>)))))))"

section \<open>Encoding of keys and queries\<close>

definition unreserved :: "char \<Rightarrow> bool" where
  "unreserved c \<longleftrightarrow>
     (let n = of_char c :: nat in
      48 \<le> n \<and> n \<le> 57 \<or> 65 \<le> n \<and> n \<le> 90 \<or> 97 \<le> n \<and> n \<le> 122 \<or> c \<in> {CHR ''-'', CHR ''_'', CHR ''.'', CHR ''~''})"

definition percent_encode :: "string \<Rightarrow> bool \<Rightarrow> string" where
  "percent_encode value encode_slash =
     concat (map (\<lambda>c. if unreserved c \<or> \<not> encode_slash \<and> c = CHR ''/'' then [c] else CHR ''%'' # hex_upper c) value)"

definition percent_encode_path_segment :: "string \<Rightarrow> string" where
  "percent_encode_path_segment value = percent_encode value False"

definition percent_encode_query :: "string \<Rightarrow> string" where
  "percent_encode_query value = percent_encode value True"

definition encode_s3_key_path :: "string \<Rightarrow> string" where
  "encode_s3_key_path key =
     join_with ''/'' (map percent_encode_path_segment
       (filter (\<lambda>segment. segment \<noteq> []) (split_char CHR ''/'' (trim_char CHR ''/'' key))))"

definition canonical_query_string :: "(string \<times> string) list \<Rightarrow> string" where
  "canonical_query_string query =
     join_with ''&'' (map (\<lambda>(key, value). key @ ''='' @ value)
       (sort (map (\<lambda>(key, value). (percent_encode_query key, percent_encode_query value)) query)))"

definition backend_key :: "S3ObjectStore \<Rightarrow> string \<Rightarrow> string" where
  "backend_key st key =
     (let trimmed = trim_char CHR ''/'' key; pfx = trim_char CHR ''/'' (s3c_prefix (s3_config st)) in
      if pfx = [] then trimmed else if trimmed = [] then pfx else pfx @ ''/'' @ trimmed)"

definition strip_backend_prefix :: "S3ObjectStore \<Rightarrow> string \<Rightarrow> string" where
  "strip_backend_prefix st key =
     (let pfx = trim_char CHR ''/'' (s3c_prefix (s3_config st)) in
      if pfx = [] then trim_start_char CHR ''/'' key
      else
        trim_start_char CHR ''/''
          (case strip_prefix pfx (trim_start_char CHR ''/'' key) of Some rest \<Rightarrow> rest | None \<Rightarrow> key))"

section \<open>Signed requests\<close>

definition amz_timestamp :: "'x backend_deps_scheme \<Rightarrow> ('z world_scheme, 'e, string) comp" where
  "amz_timestamp D =
     bnd now_ms (\<lambda>ms.
     let now = offset_date_time D ms in
     ret (pad_zeros 4 (show_nat (dt_year now)) @ pad_zeros 2 (show_nat (dt_month now)) @
          pad_zeros 2 (show_nat (dt_day now)) @ ''T'' @ pad_zeros 2 (show_nat (dt_hour now)) @
          pad_zeros 2 (show_nat (dt_minute now)) @ pad_zeros 2 (show_nat (dt_second now)) @ ''Z''))"

definition signing_key :: "'x backend_deps_scheme \<Rightarrow> string \<Rightarrow> string \<Rightarrow> string \<Rightarrow> byte list" where
  "signing_key D secret_key date region =
     (let date_key = hmac_sha256 D (as_bytes (''AWS4'' @ secret_key)) (as_bytes date);
          region_key = hmac_sha256 D date_key (as_bytes region);
          service_key = hmac_sha256 D region_key (as_bytes ''s3'')
      in hmac_sha256 D service_key (as_bytes ''aws4_request''))"

definition s3_canonical_uri :: "S3ObjectStore \<Rightarrow> string \<Rightarrow> string" where
  "s3_canonical_uri st key =
     (let encoded_key = encode_s3_key_path key;
          bucket = percent_encode_path_segment (s3c_bucket (s3_config st)) in
      if encoded_key = [] then ''/'' @ bucket @ ''/'' else ''/'' @ bucket @ ''/'' @ encoded_key)"

definition s3_url :: "S3ObjectStore \<Rightarrow> string \<Rightarrow> (string \<times> string) list \<Rightarrow> string" where
  "s3_url st key query =
     (let canonical_query = canonical_query_string query in
      if canonical_query = [] then s3_endpoint_url st @ s3_canonical_uri st key
      else s3_endpoint_url st @ s3_canonical_uri st key @ ''?'' @ canonical_query)"

definition s3_authorization ::
  "'x backend_deps_scheme \<Rightarrow> S3ObjectStore \<Rightarrow> string \<Rightarrow> string \<Rightarrow> (string \<times> string) list \<Rightarrow> string
   \<Rightarrow> (string \<times> string) list \<Rightarrow> string \<Rightarrow> string" where
  "s3_authorization D st method key query payload_hash extra_headers timestamp =
     (let nl = [CHR 0x0A];
          date = take 8 timestamp;
          headers = sort_key fst
            ([(''host'', s3_endpoint_host st), (''x-amz-content-sha256'', payload_hash),
              (''x-amz-date'', timestamp)] @ extra_headers);
          signed_headers = join_with '';'' (map fst headers);
          canonical_headers =
            concat (map (\<lambda>(name, value). to_ascii_lowercase name @ '':'' @ trim value @ nl) headers);
          canonical_request =
            method @ nl @ s3_canonical_uri st key @ nl @ canonical_query_string query @ nl @
            canonical_headers @ nl @ signed_headers @ nl @ payload_hash;
          credential_scope = date @ ''/'' @ s3c_region (s3_config st) @ ''/s3/aws4_request'';
          string_to_sign =
            ''AWS4-HMAC-SHA256'' @ nl @ timestamp @ nl @ credential_scope @ nl @
            hex_encode D (sha256 D (as_bytes canonical_request));
          key_bytes = signing_key D (s3c_secret_key (s3_config st)) date (s3c_region (s3_config st));
          signature = hex_encode D (hmac_sha256 D key_bytes (as_bytes string_to_sign))
      in ''AWS4-HMAC-SHA256 Credential='' @ s3c_access_key (s3_config st) @ ''/'' @ credential_scope @
         '', SignedHeaders='' @ signed_headers @ '', Signature='' @ signature)"

definition s3_http_request ::
  "'x backend_deps_scheme \<Rightarrow> S3ObjectStore \<Rightarrow> string \<Rightarrow> string \<Rightarrow> (string \<times> string) list
   \<Rightarrow> byte list option \<Rightarrow> (string \<times> string) list \<Rightarrow> string \<Rightarrow> HttpRequest" where
  "s3_http_request D st method key query body extra_headers timestamp =
     (let payload = (case body of None \<Rightarrow> [] | Some bytes \<Rightarrow> bytes);
          payload_hash = hex_encode D (sha256 D payload) in
      \<lparr>ht_method = method, ht_url = s3_url st key query,
       ht_headers =
         [(''Authorization'', s3_authorization D st method key query payload_hash extra_headers timestamp),
          (''Host'', s3_endpoint_host st), (''x-amz-content-sha256'', payload_hash),
          (''x-amz-date'', timestamp)] @ extra_headers,
       ht_body = body\<rparr>)"

datatype S3Response = S3_Ok "byte list" | S3_Status u16 string

definition MAX_S3_BACKEND_RESPONSE_BYTES :: nat where
  "MAX_S3_BACKEND_RESPONSE_BYTES = 128 * 1024 * 1024"

definition read_response_bytes :: "HttpBody \<Rightarrow> ApiError + byte list" where
  "read_response_bytes body =
     (let bytes = take (MAX_S3_BACKEND_RESPONSE_BYTES + 1) (hb_bytes body) in
      if length (hb_bytes body) \<le> MAX_S3_BACKEND_RESPONSE_BYTES \<and> hb_error body \<noteq> None then
        Err (api_error Cat_Storage ''s3_read_failed'' (the (hb_error body)))
      else if length bytes > MAX_S3_BACKEND_RESPONSE_BYTES then
        Err (api_error Cat_Storage ''s3_response_too_large''
               ''S3 backend response exceeds the configured read limit'')
      else Ok bytes)"

definition read_success_response :: "HttpBody \<Rightarrow> ApiError + S3Response" where
  "read_success_response body = rbnd (read_response_bytes body) (\<lambda>bytes. Ok (S3_Ok bytes))"

definition read_response_body :: "HttpBody \<Rightarrow> string" where
  "read_response_body body =
     (case read_response_bytes body of Ok bytes \<Rightarrow> from_utf8_lossy bytes | Err _ \<Rightarrow> [])"

text \<open>One HTTP exchange: the remote server answers and may change its objects.\<close>

definition http_call ::
  "'x backend_deps_scheme \<Rightarrow> HttpRequest \<Rightarrow> ('z world_scheme, 'e, HttpResult) comp" where
  "http_call D request w =
     (case s3_serve D (w_http_calls w) request (w_objects w) of
        (result, objects) \<Rightarrow> (Ok result, w\<lparr>w_http_calls := w_http_calls w + 1, w_objects := objects\<rparr>))"

definition s3_request ::
  "'x backend_deps_scheme \<Rightarrow> S3ObjectStore \<Rightarrow> string \<Rightarrow> string \<Rightarrow> (string \<times> string) list
   \<Rightarrow> byte list option \<Rightarrow> (string \<times> string) list \<Rightarrow> ('z world_scheme, ApiError, S3Response) comp" where
  "s3_request D st method key query body extra_headers =
     bnd (amz_timestamp D) (\<lambda>timestamp.
     bnd (http_call D (s3_http_request D st method key query body extra_headers timestamp)) (\<lambda>result.
     lift_result (case result of
       Http_Ok response \<Rightarrow> read_success_response response
     | Http_Status status response \<Rightarrow> Ok (S3_Status status (read_response_body response))
     | Http_Transport error \<Rightarrow> Err (api_error Cat_Storage ''s3_transport_failed'' error))))"

definition request_status ::
  "'x backend_deps_scheme \<Rightarrow> S3ObjectStore \<Rightarrow> string \<Rightarrow> string \<Rightarrow> (string \<times> string) list
   \<Rightarrow> byte list option \<Rightarrow> (string \<times> string) list \<Rightarrow> ('z world_scheme, ApiError, u16) comp" where
  "request_status D st method key query body extra_headers =
     bnd (s3_request D st method key query body extra_headers) (\<lambda>response.
     ret (case response of S3_Ok _ \<Rightarrow> 200 | S3_Status status _ \<Rightarrow> status))"

definition storage_status_error :: "string \<Rightarrow> u16 \<Rightarrow> string \<Rightarrow> ApiError" where
  "storage_status_error code status detail =
     api_error Cat_Storage code
       (''S3 returned status '' @ show_nat (unat status) @ (if trim detail = [] then [] else '': '' @ trim detail))"

section \<open>Object operations\<close>

definition head_bucket_s3 :: "'x backend_deps_scheme \<Rightarrow> S3ObjectStore \<Rightarrow> ('z world_scheme, ApiError, unit) comp" where
  "head_bucket_s3 D st =
     bnd (request_status D st ''HEAD'' [] [] None []) (\<lambda>status.
     ensure (200 \<le> status \<and> status < 300) (storage_status_error ''s3_head_bucket_failed'' status []))"

definition head_object_s3 ::
  "'x backend_deps_scheme \<Rightarrow> S3ObjectStore \<Rightarrow> string \<Rightarrow> ('z world_scheme, ApiError, bool) comp" where
  "head_object_s3 D st key =
     bnd (request_status D st ''HEAD'' (backend_key st key) [] None []) (\<lambda>status.
     if 200 \<le> status \<and> status \<le> 299 then ret True
     else if status = 404 then ret False
     else throw (storage_status_error ''s3_head_object_failed'' status key))"

definition get_object_s3 ::
  "'x backend_deps_scheme \<Rightarrow> S3ObjectStore \<Rightarrow> string \<Rightarrow> ('z world_scheme, ApiError, byte list option) comp" where
  "get_object_s3 D st key =
     bnd (s3_request D st ''GET'' (backend_key st key) [] None []) (\<lambda>response.
     case response of
       S3_Ok bytes \<Rightarrow> ret (Some bytes)
     | S3_Status status body \<Rightarrow>
         if status = 404 then ret None
         else throw (storage_status_error ''s3_get_object_failed'' status (first_non_empty body key)))"

definition put_object_s3 ::
  "'x backend_deps_scheme \<Rightarrow> S3ObjectStore \<Rightarrow> string \<Rightarrow> byte list \<Rightarrow> bool
   \<Rightarrow> ('z world_scheme, ApiError, bool) comp" where
  "put_object_s3 D st key bytes only_if_absent =
     (let extra_headers = (if only_if_absent then [(''if-none-match'', ''*'')] else []) in
      bnd (s3_request D st ''PUT'' (backend_key st key) [] (Some bytes) extra_headers) (\<lambda>response.
      case response of
        S3_Ok _ \<Rightarrow> ret True
      | S3_Status status body \<Rightarrow>
          if (status = 409 \<or> status = 412) \<and> only_if_absent then ret False
          else throw (storage_status_error ''s3_put_object_failed'' status (first_non_empty body key))))"

definition delete_object_s3 ::
  "'x backend_deps_scheme \<Rightarrow> S3ObjectStore \<Rightarrow> string \<Rightarrow> ('z world_scheme, ApiError, unit) comp" where
  "delete_object_s3 D st key =
     bnd (s3_request D st ''DELETE'' (backend_key st key) [] None []) (\<lambda>response.
     case response of
       S3_Ok _ \<Rightarrow> ret ()
     | S3_Status status body \<Rightarrow>
         if status = 404 then ret ()
         else throw (storage_status_error ''s3_delete_object_failed'' status (first_non_empty body key)))"

section \<open>Listing\<close>

definition xml_unescape :: "string \<Rightarrow> string" where
  "xml_unescape value =
     str_replace ''&amp;'' ''&''
       (str_replace ''&apos;'' [CHR 0x27]
         (str_replace ''&quot;'' [CHR 0x22]
           (str_replace ''&gt;'' ''>'' (str_replace ''&lt;'' ''<'' value))))"

function xml_values :: "string \<Rightarrow> string \<Rightarrow> string list" where
  "xml_values body tag =
     (let open_tag = ''<'' @ tag @ ''>''; close_tag = ''</'' @ tag @ ''>'' in
      case str_find open_tag body of
        None \<Rightarrow> []
      | Some start \<Rightarrow>
          let rest = drop (start + length open_tag) body in
          (case str_find close_tag rest of
             None \<Rightarrow> []
           | Some stop \<Rightarrow>
               xml_unescape (take stop rest) # xml_values (drop (stop + length close_tag) rest) tag))"
  by pat_completeness auto
termination
  by (relation "measure (\<lambda>(body, _). length body)") (auto dest!: str_find_bound)

declare xml_values.simps [simp del]

definition list_query :: "string \<Rightarrow> string option \<Rightarrow> (string \<times> string) list" where
  "list_query pfx continuation_token =
     [(''list-type'', ''2''), (''prefix'', pfx), (''max-keys'', ''1000'')] @
     (case continuation_token of None \<Rightarrow> [] | Some token \<Rightarrow> [(''continuation-token'', token)])"

definition next_page :: "string \<Rightarrow> string option" where
  "next_page body =
     (case xml_values body ''IsTruncated'' of
        value # _ \<Rightarrow>
          if to_ascii_lowercase value = ''true'' then
            (case xml_values body ''NextContinuationToken'' of token # _ \<Rightarrow> Some token | [] \<Rightarrow> None)
          else None
      | [] \<Rightarrow> None)"

text \<open>
  The server decides when the listing ends, so the loop has fuel: \<open>list_not_finished\<close> stands for
  a listing that is still running after \<open>s3_page_fuel\<close> pages and is not an error of the source.
\<close>

definition list_not_finished :: ApiError where
  "list_not_finished = api_error Cat_Storage ''model_list_not_finished'' []"

primrec list_pages ::
  "'x backend_deps_scheme \<Rightarrow> S3ObjectStore \<Rightarrow> string \<Rightarrow> nat \<Rightarrow> string option
   \<Rightarrow> ('z world_scheme, ApiError, string list) comp" where
  "list_pages D st pfx 0 token = throw list_not_finished"
| "list_pages D st pfx (Suc fuel) token =
     bnd (s3_request D st ''GET'' [] (list_query pfx token) None []) (\<lambda>response.
     case response of
       S3_Status status body \<Rightarrow>
         throw (storage_status_error ''s3_list_objects_failed'' status (first_non_empty body pfx))
     | S3_Ok bytes \<Rightarrow>
         let body = from_utf8_lossy bytes; keys = map (strip_backend_prefix st) (xml_values body ''Key'') in
         case next_page body of
           None \<Rightarrow> ret keys
         | Some next_token \<Rightarrow>
             bnd (list_pages D st pfx fuel (Some next_token)) (\<lambda>rest. ret (keys @ rest)))"

definition list_keys_s3 ::
  "'x backend_deps_scheme \<Rightarrow> S3ObjectStore \<Rightarrow> string \<Rightarrow> ('z world_scheme, ApiError, string list) comp" where
  "list_keys_s3 D st pfx = list_pages D st (backend_key st pfx) (s3_page_fuel D) None"

end
