(* ===== verification/HSP_Store.thy ===== *)
theory HSP_Store
  imports HSP_S3_Backend
begin

text \<open>
  \<open>StoreBackend\<close> of \<open>crates/hsp-service/src/store.rs\<close>: one interface over the filesystem and the
  S3 backend, its contract as the locale \<open>blob_store\<close> with an interpretation on each of the two,
  and what the filesystem backend guarantees when system calls fail.
\<close>

section \<open>The backend\<close>

datatype StoreBackend = Filesystem string | S3 S3ObjectStore

definition storage_read_error :: "string \<Rightarrow> ApiError" where
  "storage_read_error error = api_error Cat_Storage ''store_read_failed'' error"

definition storage_write_error :: "string \<Rightarrow> ApiError" where
  "storage_write_error error = api_error Cat_Storage ''store_write_failed'' error"

definition storage_create_error :: "string \<Rightarrow> ApiError" where
  "storage_create_error error = api_error Cat_Storage ''store_create_failed'' error"

definition storage_sync_error :: "string \<Rightarrow> ApiError" where
  "storage_sync_error error = api_error Cat_Storage ''store_sync_failed'' error"

definition storage_delete_error :: "string \<Rightarrow> ApiError" where
  "storage_delete_error error = api_error Cat_Storage ''store_delete_failed'' error"

definition mkdir_error :: "string \<Rightarrow> ApiError" where
  "mkdir_error error = api_error Cat_Storage ''mkdir_failed'' error"

definition is_ok :: "('s, 'e, 'a) comp \<Rightarrow> ('s, 'f, bool) comp" where
  "is_ok m s = (case m s of (r, s') \<Rightarrow> (Ok (case r of Ok _ \<Rightarrow> True | Err _ \<Rightarrow> False), s'))"

definition unwrap_or_false :: "('s, 'e, bool) comp \<Rightarrow> ('s, 'f, bool) comp" where
  "unwrap_or_false m s = (case m s of (r, s') \<Rightarrow> (Ok (case r of Ok b \<Rightarrow> b | Err _ \<Rightarrow> False), s'))"

definition store_from_config ::
  "'x backend_deps_scheme \<Rightarrow> string \<Rightarrow> StorageBackendConfig \<Rightarrow> ('z world_scheme, ApiError, StoreBackend) comp" where
  "store_from_config D root_dir config =
     (case config of
        Backend_Filesystem \<Rightarrow> ret (Filesystem root_dir)
      | Backend_S3 c \<Rightarrow> bnd (s3_object_store_new D c) (\<lambda>st. ret (S3 st)))"

fun store_ready :: "'x backend_deps_scheme \<Rightarrow> StoreBackend \<Rightarrow> ('z world_scheme, 'e, bool) comp" where
  "store_ready D (Filesystem root_dir) = dir_exists root_dir"
| "store_ready D (S3 st) = is_ok (head_bucket_s3 D st)"

fun ensure_roots :: "string \<Rightarrow> string list \<Rightarrow> ('z world_scheme, ApiError, unit) comp" where
  "ensure_roots root_dir [] = ret ()"
| "ensure_roots root_dir (kind # kinds) =
     bnd (on_err mkdir_error (create_dir_all (path_join root_dir kind))) (\<lambda>_.
     ensure_roots root_dir kinds)"

fun store_ensure_roots ::
  "'x backend_deps_scheme \<Rightarrow> StoreBackend \<Rightarrow> string list \<Rightarrow> ('z world_scheme, ApiError, unit) comp" where
  "store_ensure_roots D (Filesystem root_dir) kinds = ensure_roots root_dir kinds"
| "store_ensure_roots D (S3 st) kinds = head_bucket_s3 D st"

fun store_exists ::
  "'x backend_deps_scheme \<Rightarrow> StoreBackend \<Rightarrow> string \<Rightarrow> ('z world_scheme, 'e, bool) comp" where
  "store_exists D (Filesystem root_dir) key = file_exists (path_join root_dir key)"
| "store_exists D (S3 st) key = unwrap_or_false (head_object_s3 D st key)"

fun store_read ::
  "'x backend_deps_scheme \<Rightarrow> StoreBackend \<Rightarrow> string \<Rightarrow> ('z world_scheme, ApiError, byte list option) comp" where
  "store_read D (Filesystem root_dir) key =
     (let path = path_join root_dir key in
      bnd (file_exists path) (\<lambda>exists.
      if \<not> exists then ret None
      else bnd (on_err storage_read_error (fs_read path)) (\<lambda>bytes. ret (Some bytes))))"
| "store_read D (S3 st) key = get_object_s3 D st key"

definition make_parent :: "string \<Rightarrow> ('z world_scheme, ApiError, unit) comp" where
  "make_parent path =
     (case path_parent path of
        None \<Rightarrow> ret ()
      | Some parent \<Rightarrow> on_err mkdir_error (create_dir_all parent))"

fun store_write ::
  "'x backend_deps_scheme \<Rightarrow> StoreBackend \<Rightarrow> string \<Rightarrow> byte list \<Rightarrow> ('z world_scheme, ApiError, unit) comp" where
  "store_write D (Filesystem root_dir) key bytes =
     (let path = path_join root_dir key in
      bnd (make_parent path) (\<lambda>_.
      on_err storage_write_error (fs_write path bytes)))"
| "store_write D (S3 st) key bytes = bnd (put_object_s3 D st key bytes False) (\<lambda>_. ret ())"

fun store_create ::
  "'x backend_deps_scheme \<Rightarrow> StoreBackend \<Rightarrow> string \<Rightarrow> byte list \<Rightarrow> ('z world_scheme, ApiError, bool) comp" where
  "store_create D (Filesystem root_dir) key bytes =
     (let path = path_join root_dir key in
      bnd (make_parent path) (\<lambda>_.
      bnd (on_err storage_create_error (open_new path)) (\<lambda>opened.
      if \<not> opened then ret False
      else
        bnd (on_err storage_write_error (fs_write path bytes)) (\<lambda>_.
        bnd (on_err storage_sync_error sync_all) (\<lambda>_.
        ret True)))))"
| "store_create D (S3 st) key bytes = put_object_s3 D st key bytes True"

fun store_delete ::
  "'x backend_deps_scheme \<Rightarrow> StoreBackend \<Rightarrow> string \<Rightarrow> ('z world_scheme, ApiError, unit) comp" where
  "store_delete D (Filesystem root_dir) key =
     (let path = path_join root_dir key in
      bnd (file_exists path) (\<lambda>exists.
      if exists then on_err storage_delete_error (remove_file path) else ret ()))"
| "store_delete D (S3 st) key = delete_object_s3 D st key"

text \<open>\<open>fs::read_dir\<close>: the names in the order the system gives them.\<close>

definition fs_read_dir ::
  "'x backend_deps_scheme \<Rightarrow> string \<Rightarrow> ('z world_scheme, string, string list) comp" where
  "fs_read_dir D path w =
     (case next_io w of
        IoFail message _ \<Rightarrow> (Err message, io_done w)
      | IoOk \<Rightarrow>
          if path \<in> w_dirs w then (Ok (read_dir D (w_io_calls w) (w_files w) (w_dirs w) path), io_done w)
          else (Err io_not_found, io_done w))"

fun read_files :: "string \<Rightarrow> string list \<Rightarrow> ('z world_scheme, ApiError, byte list list) comp" where
  "read_files root [] = ret []"
| "read_files root (name # names) =
     bnd (on_err storage_read_error dir_entry) (\<lambda>_.
     let path = path_join root name in
     bnd (file_exists path) (\<lambda>is_file.
     if is_file then
       bnd (on_err storage_read_error (fs_read path)) (\<lambda>bytes.
       bnd (read_files root names) (\<lambda>rest. ret (bytes # rest)))
     else read_files root names))"

fun child_dirs :: "string \<Rightarrow> string list \<Rightarrow> ('z world_scheme, ApiError, string list) comp" where
  "child_dirs root [] = ret []"
| "child_dirs root (name # names) =
     bnd (on_err storage_read_error dir_entry) (\<lambda>_.
     bnd (dir_exists (path_join root name)) (\<lambda>is_dir.
     bnd (child_dirs root names) (\<lambda>rest. ret (if is_dir then name # rest else rest))))"

fun get_objects ::
  "'x backend_deps_scheme \<Rightarrow> S3ObjectStore \<Rightarrow> string list \<Rightarrow> ('z world_scheme, ApiError, byte list list) comp" where
  "get_objects D st [] = ret []"
| "get_objects D st (key # keys) =
     bnd (get_object_s3 D st key) (\<lambda>found.
     bnd (get_objects D st keys) (\<lambda>rest.
     ret (case found of Some bytes \<Rightarrow> bytes # rest | None \<Rightarrow> rest)))"

fun store_list_values ::
  "'x backend_deps_scheme \<Rightarrow> StoreBackend \<Rightarrow> string \<Rightarrow> ('z world_scheme, ApiError, byte list list) comp" where
  "store_list_values D (Filesystem root_dir) pfx =
     (let root = path_join root_dir pfx in
      bnd (dir_exists root) (\<lambda>exists.
      if \<not> exists then ret []
      else bnd (on_err storage_read_error (fs_read_dir D root)) (read_files root)))"
| "store_list_values D (S3 st) pfx = bnd (list_keys_s3 D st pfx) (get_objects D st)"

definition child_name :: "string \<Rightarrow> string \<Rightarrow> string option" where
  "child_name normalized_prefix key =
     (case strip_prefix normalized_prefix key of
        None \<Rightarrow> None
      | Some rest \<Rightarrow> (let child = hd (split_char CHR ''/'' rest) in if child = [] then None else Some child))"

fun store_list_child_dirs ::
  "'x backend_deps_scheme \<Rightarrow> StoreBackend \<Rightarrow> string \<Rightarrow> ('z world_scheme, ApiError, string list) comp" where
  "store_list_child_dirs D (Filesystem root_dir) pfx =
     (let root = path_join root_dir pfx in
      bnd (dir_exists root) (\<lambda>exists.
      if \<not> exists then ret []
      else bnd (on_err storage_read_error (fs_read_dir D root)) (child_dirs root)))"
| "store_list_child_dirs D (S3 st) pfx =
     (let normalized_prefix = normalize_store_prefix pfx in
      bnd (list_keys_s3 D st normalized_prefix) (\<lambda>keys.
      ret (sorted_list_of_set (set (List.map_filter (child_name normalized_prefix) keys)))))"

text \<open>Where the backend keeps the blob of a key.\<close>

fun store_path :: "StoreBackend \<Rightarrow> string \<Rightarrow> string" where
  "store_path (Filesystem root_dir) key = path_join root_dir key"
| "store_path (S3 st) key = s3_url st (backend_key st key) []"

section \<open>The contract of a blob store\<close>

text \<open>
  What the service relies on: with the store working (\<open>ok\<close>), every call succeeds and does to the
  stored blobs (\<open>view\<close>) exactly what its name says; \<open>create\<close> is the atomic test-and-set.
\<close>

locale blob_store =
  fixes loc :: "'k \<Rightarrow> 'p" and view :: "'s \<Rightarrow> 'p \<Rightarrow> 'v option" and ok :: "'s \<Rightarrow> bool"
    and rd :: "'k \<Rightarrow> ('s, 'e, 'v option) comp" and wr :: "'k \<Rightarrow> 'v \<Rightarrow> ('s, 'e, unit) comp"
    and cr :: "'k \<Rightarrow> 'v \<Rightarrow> ('s, 'e, bool) comp" and del :: "'k \<Rightarrow> ('s, 'e, unit) comp"
    and ex :: "'k \<Rightarrow> ('s, 'e, bool) comp" and fits :: "'v \<Rightarrow> bool"
  assumes rd_ok: "ok s \<Longrightarrow> \<exists>s'. rd k s = (Ok (view s (loc k)), s') \<and> view s' = view s \<and> ok s'"
    and wr_ok: "ok s \<Longrightarrow> fits v \<Longrightarrow> \<exists>s'. wr k v s = (Ok (), s') \<and> view s' = (view s)(loc k \<mapsto> v) \<and> ok s'"
    and cr_ok: "ok s \<Longrightarrow> fits v \<Longrightarrow> \<exists>s'. cr k v s = (Ok (view s (loc k) = None), s') \<and>
        view s' = (if view s (loc k) = None then (view s)(loc k \<mapsto> v) else view s) \<and> ok s'"
    and del_ok: "ok s \<Longrightarrow> \<exists>s'. del k s = (Ok (), s') \<and> view s' = (view s)(loc k := None) \<and> ok s'"
    and ex_ok: "ok s \<Longrightarrow> \<exists>s'. ex k s = (Ok (view s (loc k) \<noteq> None), s') \<and> view s' = view s \<and> ok s'"
begin

lemma rd_after_wr:
  assumes "ok s" "fits v" "wr k v s = (Ok (), s1)"
  shows "\<exists>s2. rd k' s1 = (Ok (if loc k' = loc k then Some v else view s (loc k')), s2)"
  using wr_ok [OF assms(1,2), of k] assms(3) rd_ok [of s1 k'] by auto

lemma cr_wins_once:
  assumes "ok s" "fits v" "fits v'" "cr k v s = (Ok b, s1)" "loc k' = loc k"
  shows "\<exists>s2. cr k' v' s1 = (Ok False, s2)"
  using cr_ok [OF assms(1,2), of k] assms(4,5) cr_ok [of s1 v' k'] assms(3) by auto

end

section \<open>The filesystem keeps the contract\<close>

lemma make_parent_ok:
  "io_reliable w \<Longrightarrow> \<exists>w'. make_parent path w = (Ok (), w') \<and> w_files w' = w_files w \<and> io_reliable w'"
  by (cases "path_parent path")
    (auto simp: make_parent_def ret_def on_err_def create_dir_all_def io_reliable_next map_err_def)

lemmas fs_defs = bnd_def ret_def on_err_def map_err_def file_exists_def fs_read_def fs_write_def
  open_new_def sync_all_def remove_file_def ok_or_def Let_def

interpretation filesystem: blob_store "store_path (Filesystem root)" w_files io_reliable
  "store_read D (Filesystem root)" "store_write D (Filesystem root)" "store_create D (Filesystem root)"
  "store_delete D (Filesystem root)" "store_exists D (Filesystem root)" "\<lambda>_. True"
  for root and D :: "'x backend_deps_scheme"
proof
  fix w :: "'z world_scheme" and k v
  assume ok: "io_reliable w"
  let ?sb = "Filesystem root"
  let ?p = "path_join root k"
  obtain w1 where mk: "make_parent ?p w = (Ok (), w1)" "w_files w1 = w_files w" "io_reliable w1"
    using make_parent_ok [OF ok] by blast
  note rel = io_reliable_next [OF ok] io_reliable_next [OF mk(3)]
  have rel': "next_io (io_done w1) = IoOk" "next_io (io_done w) = IoOk" "next_io (io_done (io_done w1)) = IoOk"
    using ok mk(3) by (simp_all add: io_reliable_next)
  show "\<exists>w'. store_read D ?sb k w = (Ok (w_files w (store_path ?sb k)), w') \<and> w_files w' = w_files w \<and> io_reliable w'"
    using ok rel rel' by (cases "w_files w ?p") (auto simp: fs_defs)
  show "\<exists>w'. store_write D ?sb k v w = (Ok (), w') \<and> w_files w' = (w_files w)(store_path ?sb k \<mapsto> v) \<and> io_reliable w'"
    using mk rel by (auto simp: fs_defs)
  show "\<exists>w'. store_delete D ?sb k w = (Ok (), w') \<and> w_files w' = (w_files w)(store_path ?sb k := None) \<and> io_reliable w'"
    using ok rel rel' by (cases "w_files w ?p") (auto simp: fs_defs fun_upd_idem)
  show "\<exists>w'. store_exists D ?sb k w = (Ok (w_files w (store_path ?sb k) \<noteq> None), w') \<and> w_files w' = w_files w \<and> io_reliable w'"
    using ok rel by (auto simp: fs_defs)
  show "\<exists>w'. store_create D ?sb k v w = (Ok (w_files w (store_path ?sb k) = None), w') \<and>
      w_files w' = (if w_files w (store_path ?sb k) = None then (w_files w)(store_path ?sb k \<mapsto> v) else w_files w) \<and>
      io_reliable w'"
    using mk rel rel' by (cases "w_files w ?p") (auto simp: fs_defs io_reliable_next)
qed

section \<open>S3 keeps the contract\<close>

text \<open>
  An S3 server at its best, the counterpart of \<open>io_reliable\<close>: every object request is served, none
  is refused, throttled, lost or in conflict with another. \<open>GET\<close> and \<open>HEAD\<close> answer 404 for an absent
  object, \<open>PUT\<close> stores the body, unless \<open>If-None-Match: *\<close> meets a present object, which is answered
  with 412, and \<open>DELETE\<close> succeeds whether or not the object is present. It is what the contract
  \<open>blob_store\<close> below is kept under; the exclusive creation at the end of this theory does not
  assume it.
\<close>

definition empty_body :: HttpBody where
  "empty_body = \<lparr>hb_bytes = [], hb_error = None\<rparr>"

definition s3_reliable :: "'x backend_deps_scheme \<Rightarrow> bool" where
  "s3_reliable D \<longleftrightarrow>
     (\<forall>n r B. CHR ''?'' \<notin> set (ht_url r) \<longrightarrow>
        (ht_method r = ''GET'' \<longrightarrow>
           (case B (ht_url r) of
              Some v \<Rightarrow> s3_serve D n r B = (Http_Ok \<lparr>hb_bytes = v, hb_error = None\<rparr>, B)
            | None \<Rightarrow> \<exists>body. s3_serve D n r B = (Http_Status 404 body, B))) \<and>
        (ht_method r = ''HEAD'' \<longrightarrow>
           (if B (ht_url r) \<noteq> None then s3_serve D n r B = (Http_Ok empty_body, B)
            else s3_serve D n r B = (Http_Status 404 empty_body, B))) \<and>
        (ht_method r = ''PUT'' \<longrightarrow> (\<forall>v. ht_body r = Some v \<longrightarrow>
           (if (''if-none-match'', ''*'') \<in> set (ht_headers r) \<and> B (ht_url r) \<noteq> None
            then \<exists>body. s3_serve D n r B = (Http_Status 412 body, B)
            else s3_serve D n r B = (Http_Ok empty_body, B(ht_url r \<mapsto> v))))) \<and>
        (ht_method r = ''DELETE'' \<longrightarrow> s3_serve D n r B = (Http_Ok empty_body, B(ht_url r := None))))"

definition s3_fits :: "byte list \<Rightarrow> bool" where
  "s3_fits v \<longleftrightarrow> length v \<le> MAX_S3_BACKEND_RESPONSE_BYTES"

definition s3_ok :: "'x backend_deps_scheme \<Rightarrow> S3ObjectStore \<Rightarrow> 'z world_scheme \<Rightarrow> bool" where
  "s3_ok D st w \<longleftrightarrow>
     s3_reliable D \<and> CHR ''?'' \<notin> set (s3_endpoint_url st) \<and>
     (\<forall>p v. w_objects w p = Some v \<longrightarrow> s3_fits v)"

lemma set_join_with: "set (join_with sep ss) \<subseteq> set sep \<union> \<Union> (set ` set ss)"
  by (induction sep ss rule: join_with.induct) auto

lemma hex_digit_not_question: "n < 16 \<Longrightarrow> hex_digit n \<noteq> CHR ''?''"
proof
  assume "n < 16" "hex_digit n = CHR ''?''"
  then have "of_char (hex_digit n) = (63 :: nat)" by simp
  then show False using \<open>n < 16\<close> by (auto simp: hex_digit_def split: if_splits)
qed

lemma percent_encode_no_question: "CHR ''?'' \<notin> set (percent_encode s b)"
proof -
  have "of_char c div 16 < (16 :: nat)" for c :: char
    by (cases c) (simp add: of_char_Char)
  then have "CHR ''?'' \<notin> set (hex_upper c)" for c
    using hex_digit_not_question [of "of_char c div 16"] hex_digit_not_question [of "of_char c mod 16"]
    by (simp add: hex_upper_def)
  then show ?thesis
    by (auto simp: percent_encode_def unreserved_def)
qed

lemma s3_url_no_question:
  assumes "CHR ''?'' \<notin> set (s3_endpoint_url st)"
  shows "CHR ''?'' \<notin> set (s3_url st key [])"
proof -
  have "CHR ''?'' \<notin> set (encode_s3_key_path key)"
    using set_join_with [of "''/''"] percent_encode_no_question
    by (fastforce simp: encode_s3_key_path_def percent_encode_path_segment_def)
  then show ?thesis
    using assms percent_encode_no_question
    by (auto simp: s3_url_def canonical_query_string_def s3_canonical_uri_def Let_def
        percent_encode_path_segment_def)
qed

lemma empty_body_read [simp]: "read_response_bytes empty_body = Ok []"
  by (simp add: read_response_bytes_def empty_body_def MAX_S3_BACKEND_RESPONSE_BYTES_def)

lemma fitting_body_read [simp]:
  "s3_fits v \<Longrightarrow> read_response_bytes \<lparr>hb_bytes = v, hb_error = None\<rparr> = Ok v"
  by (simp add: read_response_bytes_def s3_fits_def)

lemma s3_ok_endpoint: "s3_ok D st w \<Longrightarrow> CHR ''?'' \<notin> set (s3_endpoint_url st)"
  by (simp add: s3_ok_def)

lemma s3_request_object:
  fixes w :: "'z world_scheme"
  assumes "CHR ''?'' \<notin> set (s3_endpoint_url st)"
  shows "\<exists>w' r n. w_objects w' = snd (s3_serve D n r (w_objects w)) \<and> ht_method r = method \<and>
     ht_url r = s3_url st key [] \<and> CHR ''?'' \<notin> set (ht_url r) \<and> ht_body r = body \<and>
     ((''if-none-match'', ''*'') \<in> set (ht_headers r) \<longleftrightarrow> (''if-none-match'', ''*'') \<in> set extra) \<and>
     s3_request D st method key [] body extra w =
       (case fst (s3_serve D n r (w_objects w)) of
          Http_Ok response \<Rightarrow> read_success_response response
        | Http_Status status response \<Rightarrow> Ok (S3_Status status (read_response_body response))
        | Http_Transport error \<Rightarrow> Err (api_error Cat_Storage ''s3_transport_failed'' error), w')"
proof -
  obtain t and w1 :: "'z world_scheme"
    where t: "amz_timestamp D w = (Ok t :: ApiError + string, w1)" "w_objects w1 = w_objects w"
    by (auto simp: amz_timestamp_def bnd_def now_ms_def ret_def Let_def)
  let ?r = "s3_http_request D st method key [] body extra t"
  have "CHR ''?'' \<notin> set (ht_url ?r)" "ht_url ?r = s3_url st key []"
    using assms s3_url_no_question [of st key] by (simp_all add: s3_http_request_def Let_def)
  moreover have "(''if-none-match'', ''*'') \<in> set (ht_headers ?r) \<longleftrightarrow> (''if-none-match'', ''*'') \<in> set extra"
    by (simp add: s3_http_request_def Let_def)
  ultimately show ?thesis
    using t by (intro exI [of _ "w1\<lparr>w_http_calls := w_http_calls w1 + 1,
          w_objects := snd (s3_serve D (w_http_calls w1) ?r (w_objects w1))\<rparr>"] exI [of _ ?r]
          exI [of _ "w_http_calls w1"])
      (auto simp: s3_request_def bnd_def http_call_def lift_result_def s3_http_request_def Let_def
        split: prod.splits)
qed

lemma s3_reliableD:
  assumes "s3_reliable D" "CHR ''?'' \<notin> set (ht_url r)"
  shows "ht_method r = ''GET'' \<Longrightarrow> B (ht_url r) = Some v \<Longrightarrow>
      s3_serve D n r B = (Http_Ok \<lparr>hb_bytes = v, hb_error = None\<rparr>, B)"
    and "ht_method r = ''GET'' \<Longrightarrow> B (ht_url r) = None \<Longrightarrow> \<exists>body. s3_serve D n r B = (Http_Status 404 body, B)"
    and "ht_method r = ''HEAD'' \<Longrightarrow> s3_serve D n r B =
      (if B (ht_url r) = None then Http_Status 404 empty_body else Http_Ok empty_body, B)"
    and "ht_method r = ''PUT'' \<Longrightarrow> ht_body r = Some x \<Longrightarrow>
      (''if-none-match'', ''*'') \<notin> set (ht_headers r) \<or> B (ht_url r) = None \<Longrightarrow>
      s3_serve D n r B = (Http_Ok empty_body, B(ht_url r \<mapsto> x))"
    and "ht_method r = ''PUT'' \<Longrightarrow> ht_body r = Some x \<Longrightarrow>
      (''if-none-match'', ''*'') \<in> set (ht_headers r) \<Longrightarrow> B (ht_url r) \<noteq> None \<Longrightarrow>
      \<exists>body. s3_serve D n r B = (Http_Status 412 body, B)"
    and "ht_method r = ''DELETE'' \<Longrightarrow> s3_serve D n r B = (Http_Ok empty_body, B(ht_url r := None))"
  using assms unfolding s3_reliable_def by (auto split: option.splits) (metis option.distinct(1) option.inject)+

lemma s3_ok_update:
  "s3_ok D st w \<Longrightarrow> w_objects w' = (w_objects w)(p := x) \<Longrightarrow> (\<And>v. x = Some v \<Longrightarrow> s3_fits v) \<Longrightarrow> s3_ok D st w'"
  by (auto simp: s3_ok_def split: if_splits)

lemma s3_ok_same: "s3_ok D st w \<Longrightarrow> w_objects w' = w_objects w \<Longrightarrow> s3_ok D st w'"
  by (simp add: s3_ok_def)

lemma s3_get_ok:
  assumes "s3_ok D st w"
  shows "\<exists>w'. get_object_s3 D st k w = (Ok (w_objects w (store_path (S3 st) k)), w') \<and>
    w_objects w' = w_objects w \<and> s3_ok D st w'"
proof -
  obtain w' r n where q: "w_objects w' = snd (s3_serve D n r (w_objects w))" "ht_method r = ''GET''"
      "ht_url r = s3_url st (backend_key st k) []" "CHR ''?'' \<notin> set (ht_url r)"
      "s3_request D st ''GET'' (backend_key st k) [] None [] w =
       (case fst (s3_serve D n r (w_objects w)) of
          Http_Ok response \<Rightarrow> read_success_response response
        | Http_Status status response \<Rightarrow> Ok (S3_Status status (read_response_body response))
        | Http_Transport error \<Rightarrow> Err (api_error Cat_Storage ''s3_transport_failed'' error), w')"
    using s3_request_object [OF s3_ok_endpoint [OF assms], of D w "''GET''" "backend_key st k" None "[]"] by blast
  have sem: "s3_reliable D" using assms by (simp add: s3_ok_def)
  show ?thesis
  proof (cases "w_objects w (ht_url r)")
    case None
    then show ?thesis
      using s3_reliableD(2) [OF sem q(4,2), of "w_objects w" n] q assms
      by (auto simp: get_object_s3_def bnd_def ret_def intro: s3_ok_same)
  next
    case (Some v)
    then have "s3_fits v" using assms by (auto simp: s3_ok_def)
    then show ?thesis
      using s3_reliableD(1) [OF sem q(4,2), of "w_objects w" v n] q assms Some
      by (auto simp: get_object_s3_def bnd_def ret_def read_success_response_def intro: s3_ok_same)
  qed
qed

lemma s3_put_ok:
  assumes "s3_ok D st w" "s3_fits v"
  shows "\<exists>w'. put_object_s3 D st k v b w =
      (Ok (\<not> (b \<and> w_objects w (store_path (S3 st) k) \<noteq> None)), w') \<and> s3_ok D st w' \<and>
    w_objects w' = (if b \<and> w_objects w (store_path (S3 st) k) \<noteq> None then w_objects w
                    else (w_objects w)(store_path (S3 st) k \<mapsto> v))"
proof -
  let ?extra = "if b then [(''if-none-match'', ''*'')] else []"
  obtain w' r n where q: "w_objects w' = snd (s3_serve D n r (w_objects w))" "ht_method r = ''PUT''"
      "ht_url r = s3_url st (backend_key st k) []" "CHR ''?'' \<notin> set (ht_url r)" "ht_body r = Some v"
      "(''if-none-match'', ''*'') \<in> set (ht_headers r) \<longleftrightarrow> b"
      "s3_request D st ''PUT'' (backend_key st k) [] (Some v) ?extra w =
       (case fst (s3_serve D n r (w_objects w)) of
          Http_Ok response \<Rightarrow> read_success_response response
        | Http_Status status response \<Rightarrow> Ok (S3_Status status (read_response_body response))
        | Http_Transport error \<Rightarrow> Err (api_error Cat_Storage ''s3_transport_failed'' error), w')"
    using s3_request_object [OF s3_ok_endpoint [OF assms(1)], of D w "''PUT''" "backend_key st k" "Some v" ?extra] by auto
  have sem: "s3_reliable D" using assms(1) by (simp add: s3_ok_def)
  show ?thesis
  proof (cases "b \<and> w_objects w (ht_url r) \<noteq> None")
    case True
    then show ?thesis
      using s3_reliableD(5) [OF sem q(4,2,5), of "w_objects w" n] q assms
      by (auto simp: put_object_s3_def Let_def bnd_def ret_def intro: s3_ok_same)
  next
    case False
    then show ?thesis
      using s3_reliableD(4) [OF sem q(4,2,5), of "w_objects w" n] q assms
      by (auto simp: put_object_s3_def Let_def bnd_def ret_def read_success_response_def intro: s3_ok_update)
  qed
qed

lemma s3_delete_ok:
  assumes "s3_ok D st w"
  shows "\<exists>w'. delete_object_s3 D st k w = (Ok (), w') \<and>
    w_objects w' = (w_objects w)(store_path (S3 st) k := None) \<and> s3_ok D st w'"
proof -
  have sem: "s3_reliable D" using assms by (simp add: s3_ok_def)
  obtain w' r n where q: "w_objects w' = snd (s3_serve D n r (w_objects w))" "ht_method r = ''DELETE''"
      "ht_url r = s3_url st (backend_key st k) []" "CHR ''?'' \<notin> set (ht_url r)"
      "s3_request D st ''DELETE'' (backend_key st k) [] None [] w =
       (case fst (s3_serve D n r (w_objects w)) of
          Http_Ok response \<Rightarrow> read_success_response response
        | Http_Status status response \<Rightarrow> Ok (S3_Status status (read_response_body response))
        | Http_Transport error \<Rightarrow> Err (api_error Cat_Storage ''s3_transport_failed'' error), w')"
    using s3_request_object [OF s3_ok_endpoint [OF assms], of D w "''DELETE''" "backend_key st k" None "[]"] by blast
  show ?thesis
    using s3_reliableD(6) [OF sem q(4,2), of n "w_objects w"] q assms
    by (auto simp: delete_object_s3_def bnd_def ret_def read_success_response_def intro: s3_ok_update)
qed

lemma s3_head_ok:
  assumes "s3_ok D st w"
  shows "\<exists>w'. head_object_s3 D st k w = (Ok (w_objects w (store_path (S3 st) k) \<noteq> None), w') \<and>
    w_objects w' = w_objects w \<and> s3_ok D st w'"
proof -
  have sem: "s3_reliable D" using assms by (simp add: s3_ok_def)
  obtain w' r n where q: "w_objects w' = snd (s3_serve D n r (w_objects w))" "ht_method r = ''HEAD''"
      "ht_url r = s3_url st (backend_key st k) []" "CHR ''?'' \<notin> set (ht_url r)"
      "s3_request D st ''HEAD'' (backend_key st k) [] None [] w =
       (case fst (s3_serve D n r (w_objects w)) of
          Http_Ok response \<Rightarrow> read_success_response response
        | Http_Status status response \<Rightarrow> Ok (S3_Status status (read_response_body response))
        | Http_Transport error \<Rightarrow> Err (api_error Cat_Storage ''s3_transport_failed'' error), w')"
    using s3_request_object [OF s3_ok_endpoint [OF assms], of D w "''HEAD''" "backend_key st k" None "[]"] by blast
  show ?thesis
    using s3_reliableD(3) [OF sem q(4,2), of n "w_objects w"] q assms
    by (auto simp: head_object_s3_def request_status_def bnd_def ret_def read_success_response_def
        intro: s3_ok_same)
qed

interpretation s3: blob_store "store_path (S3 st)" w_objects "s3_ok D st"
  "store_read D (S3 st)" "store_write D (S3 st)" "store_create D (S3 st)"
  "store_delete D (S3 st)" "store_exists D (S3 st)" s3_fits
  for st and D :: "'x backend_deps_scheme"
proof
  fix w :: "'z world_scheme" and k v
  assume ok: "s3_ok D st w"
  show "\<exists>w'. store_read D (S3 st) k w = (Ok (w_objects w (store_path (S3 st) k)), w') \<and>
      w_objects w' = w_objects w \<and> s3_ok D st w'"
    using s3_get_ok [OF ok] by simp
  show "\<exists>w'. store_delete D (S3 st) k w = (Ok (), w') \<and>
      w_objects w' = (w_objects w)(store_path (S3 st) k := None) \<and> s3_ok D st w'"
    using s3_delete_ok [OF ok] by simp
  show "\<exists>w'. store_exists D (S3 st) k w = (Ok (w_objects w (store_path (S3 st) k) \<noteq> None), w') \<and>
      w_objects w' = w_objects w \<and> s3_ok D st w'"
    using s3_head_ok [OF ok, of k] by (auto simp: unwrap_or_false_def)
  assume fits: "s3_fits v"
  show "\<exists>w'. store_write D (S3 st) k v w = (Ok (), w') \<and>
      w_objects w' = (w_objects w)(store_path (S3 st) k \<mapsto> v) \<and> s3_ok D st w'"
    using s3_put_ok [OF ok fits, of k False] by (auto simp: bnd_def ret_def)
  show "\<exists>w'. store_create D (S3 st) k v w = (Ok (w_objects w (store_path (S3 st) k) = None), w') \<and>
      w_objects w' = (if w_objects w (store_path (S3 st) k) = None
        then (w_objects w)(store_path (S3 st) k \<mapsto> v) else w_objects w) \<and> s3_ok D st w'"
    using s3_put_ok [OF ok fits, of k True] by (auto simp: bnd_def ret_def)
qed

section \<open>The filesystem under I/O failures\<close>

lemma make_parent_files: "make_parent p w = (r, w') \<Longrightarrow> w_files w' = w_files w"
  by (auto simp: make_parent_def ret_def on_err_def create_dir_all_def
      split: option.splits io_outcome.splits prod.splits)

text \<open>
  C29. Creating is exclusive under every pattern of I/O failures: \<open>create\<close> reports true only when
  the key was absent, and then the whole blob is stored; it reports false only when the key was
  present; a present blob is never changed; and no other key is touched.
\<close>

theorem store_create_exclusive:
  assumes "store_create D (Filesystem root) k bytes w = (r, w')"
  shows "(r = Ok True \<longrightarrow> w_files w (path_join root k) = None \<and> w_files w' = (w_files w)(path_join root k \<mapsto> bytes)) \<and>
    (r = Ok False \<longrightarrow> w_files w (path_join root k) \<noteq> None) \<and>
    (w_files w (path_join root k) \<noteq> None \<longrightarrow> w_files w' = w_files w) \<and>
    (\<forall>p. p \<noteq> path_join root k \<longrightarrow> w_files w' p = w_files w p)"
proof -
  obtain m w1 where mk: "make_parent (path_join root k) w = (m, w1)" by force
  note f = make_parent_files [OF mk]
  show ?thesis using assms mk f
    by (cases m) (auto simp: fs_defs split: io_outcome.splits if_splits option.splits)
qed

text \<open>
  C31. A write either stores the whole blob, or reports an error and leaves the old blob or a
  prefix of the new one: the backend writes in place, so a reader after a failed write may meet a
  truncated blob. No other key is touched.
\<close>

theorem store_write_outcomes:
  assumes "store_write D (Filesystem root) k bytes w = (r, w')"
  shows "(r = Ok () \<longrightarrow> w_files w' = (w_files w)(path_join root k \<mapsto> bytes)) \<and>
    (r \<noteq> Ok () \<longrightarrow> w_files w' = w_files w \<or> (\<exists>n. w_files w' = (w_files w)(path_join root k \<mapsto> take n bytes))) \<and>
    (\<forall>p. p \<noteq> path_join root k \<longrightarrow> w_files w' p = w_files w p)"
proof -
  obtain m w1 where mk: "make_parent (path_join root k) w = (m, w1)" by force
  note f = make_parent_files [OF mk]
  show ?thesis using assms mk f
    by (cases m) (auto simp: fs_defs split: io_outcome.splits if_splits option.splits)
qed

section \<open>Exclusive creation on S3\<close>

text \<open>
  What S3 documents of a \<open>PUT\<close> with \<open>If-None-Match: *\<close>. A success has stored the body where no
  object was, 412 means that an object is present, 409 that another request on the key was under
  way, and both leave the objects as they are. Any other answer, and an answer that is lost, leaves
  open whether the request took effect; if it did, it did as a success does.
\<close>

definition s3_conditional_put :: "'x backend_deps_scheme \<Rightarrow> bool" where
  "s3_conditional_put D \<longleftrightarrow>
     (\<forall>n r B v. CHR ''?'' \<notin> set (ht_url r) \<and> ht_method r = ''PUT'' \<and> ht_body r = Some v \<and>
        (''if-none-match'', ''*'') \<in> set (ht_headers r) \<longrightarrow>
        (case s3_serve D n r B of
           (Http_Ok _, B') \<Rightarrow> B (ht_url r) = None \<and> B' = B(ht_url r \<mapsto> v)
         | (Http_Status status _, B') \<Rightarrow>
             if status = 412 then B (ht_url r) \<noteq> None \<and> B' = B
             else if status = 409 then B' = B
             else B' = B \<or> B (ht_url r) = None \<and> B' = B(ht_url r \<mapsto> v)
         | (Http_Transport _, B') \<Rightarrow> B' = B \<or> B (ht_url r) = None \<and> B' = B(ht_url r \<mapsto> v)))"

text \<open>The outcomes of \<open>create\<close>, for \<open>path\<close> the URL of the key and \<open>B\<close>, \<open>B'\<close> the objects before and after.\<close>

definition s3_created ::
  "'x backend_deps_scheme \<Rightarrow> string \<Rightarrow> byte list \<Rightarrow> (string \<rightharpoonup> byte list) \<Rightarrow> ApiError + bool
   \<Rightarrow> (string \<rightharpoonup> byte list) \<Rightarrow> bool" where
  "s3_created D path v B r B' \<longleftrightarrow>
     (case r of
        Ok True \<Rightarrow> B path = None \<and> B' = B(path \<mapsto> v)
      | Ok False \<Rightarrow> B' = B \<and> (B path \<noteq> None \<or> (\<exists>n q body. s3_serve D n q B = (Http_Status 409 body, B)))
      | Err _ \<Rightarrow> B' = B \<or> B path = None \<and> B' = B(path \<mapsto> v))"

lemma s3_create_outcome:
  fixes w :: "'z world_scheme"
  assumes law: "s3_conditional_put D" and url: "CHR ''?'' \<notin> set (s3_endpoint_url st)"
    and run: "store_create D (S3 st) k v w = (r, w')"
  shows "s3_created D (store_path (S3 st) k) v (w_objects w) r (w_objects w')"
proof -
  obtain w1 q n where q: "w_objects w1 = snd (s3_serve D n q (w_objects w))" "ht_method q = ''PUT''"
      "ht_url q = s3_url st (backend_key st k) []" "CHR ''?'' \<notin> set (ht_url q)" "ht_body q = Some v"
      "(''if-none-match'', ''*'') \<in> set (ht_headers q)"
      "s3_request D st ''PUT'' (backend_key st k) [] (Some v) [(''if-none-match'', ''*'')] w =
       (case fst (s3_serve D n q (w_objects w)) of
          Http_Ok response \<Rightarrow> read_success_response response
        | Http_Status status response \<Rightarrow> Ok (S3_Status status (read_response_body response))
        | Http_Transport error \<Rightarrow> Err (api_error Cat_Storage ''s3_transport_failed'' error), w1)"
    using s3_request_object [OF url, of D w "''PUT''" "backend_key st k" "Some v" "[(''if-none-match'', ''*'')]"] by auto
  obtain a B' where a: "s3_serve D n q (w_objects w) = (a, B')" by force
  note put = law [unfolded s3_conditional_put_def, rule_format, where r = q and v = v and n = n and B = "w_objects w", unfolded a]
  show ?thesis
  proof (cases a)
    case (Http_Ok body)
    then show ?thesis using q a run put
      by (cases "read_success_response body")
        (auto simp: s3_created_def put_object_s3_def Let_def bnd_def ret_def read_success_response_def)
  next
    case (Http_Status status body)
    then show ?thesis using q a run put
      by (auto simp: s3_created_def put_object_s3_def Let_def bnd_def ret_def throw_def split: if_splits)
  next
    case (Http_Transport error)
    then show ?thesis using q a run put
      by (auto simp: s3_created_def put_object_s3_def Let_def bnd_def)
  qed
qed

text \<open>
  C30. On S3, at an endpoint URL without a query, \<open>create\<close> is a test-and-set, whatever the server
  answers as long as it documents its conditional \<open>PUT\<close>. It reports true only where the key was free, and
  then the blob is stored whole and nothing else changes; it reports false only where the objects
  are as they were and the key was taken or the server answered that another request was in conflict;
  an error leaves the objects as they were or the blob stored whole at a free key. After a report
  of true no further \<open>create\<close> at the same URL reports true.
\<close>

theorem s3_create_exclusive:
  fixes w :: "'z world_scheme"
  assumes "s3_conditional_put D" "CHR ''?'' \<notin> set (s3_endpoint_url st)"
    and "store_create D (S3 st) k v w = (r, w1)"
  shows "s3_created D (store_path (S3 st) k) v (w_objects w) r (w_objects w1) \<and>
    (r = Ok True \<longrightarrow> (\<forall>k' v'. store_path (S3 st) k' = store_path (S3 st) k \<longrightarrow>
       fst (store_create D (S3 st) k' v' w1) \<noteq> Ok True))"
proof -
  have made: "s3_created D (store_path (S3 st) k) v (w_objects w) r (w_objects w1)"
    using assms by (rule s3_create_outcome)
  have "fst (store_create D (S3 st) k' v' w1) \<noteq> Ok True"
    if "r = Ok True" "store_path (S3 st) k' = store_path (S3 st) k" for k' v'
  proof -
    obtain r' w2 where c: "store_create D (S3 st) k' v' w1 = (r', w2)" by force
    have "w_objects w1 (store_path (S3 st) k') \<noteq> None" using made that by (simp add: s3_created_def)
    moreover have "s3_created D (store_path (S3 st) k') v' (w_objects w1) r' (w_objects w2)"
      using assms(1,2) c by (rule s3_create_outcome)
    ultimately have "r' \<noteq> Ok True" by (auto simp: s3_created_def)
    with c show ?thesis by simp
  qed
  with made show ?thesis by blast
qed

definition sample_world :: "(nat \<Rightarrow> io_outcome) \<Rightarrow> world" where
  "sample_world io =
     \<lparr>en_stream = (\<lambda>i. of_nat i), en_pos = 0, en_calls = 0, w_clock = (\<lambda>n. of_nat n), w_ticks = 0,
      w_io = io, w_io_calls = 0, w_files = Map.empty, w_dirs = {}, w_http_calls = 0, w_objects = Map.empty\<rparr>"

text \<open>A server that behaves as documented, for the witnesses.\<close>

definition ref_s3_serve ::
  "nat \<Rightarrow> HttpRequest \<Rightarrow> (string \<rightharpoonup> byte list) \<Rightarrow> HttpResult \<times> (string \<rightharpoonup> byte list)" where
  "ref_s3_serve n r B =
     (let url = ht_url r in
      if ht_method r = ''GET'' then
        (case B url of Some v \<Rightarrow> (Http_Ok \<lparr>hb_bytes = v, hb_error = None\<rparr>, B) | None \<Rightarrow> (Http_Status 404 empty_body, B))
      else if ht_method r = ''HEAD'' then
        (case B url of Some v \<Rightarrow> (Http_Ok empty_body, B) | None \<Rightarrow> (Http_Status 404 empty_body, B))
      else if ht_method r = ''PUT'' then
        (if (''if-none-match'', ''*'') \<in> set (ht_headers r) \<and> B url \<noteq> None then (Http_Status 412 empty_body, B)
         else (Http_Ok empty_body, B(url := ht_body r)))
      else (Http_Ok empty_body, B(url := None)))"

definition ref_backend_deps :: backend_deps where
  "ref_backend_deps = crypto_deps.extend ref_crypto_deps
     \<lparr>hmac_sha256 = (\<lambda>k m. k @ m), hex_encode = ref_text_encode,
      offset_date_time = (\<lambda>ms. \<lparr>dt_year = 2026, dt_month = 1, dt_day = 2, dt_hour = 3, dt_minute = 4, dt_second = 5\<rparr>),
      s3_serve = ref_s3_serve, s3_page_fuel = 1, b64_std_decode = (\<lambda>bs. Ok bs),
      parsable_certificates = length, read_dir = (\<lambda>n files dirs path. [])\<rparr>"

lemma ref_backend_simps [simp]: "s3_serve ref_backend_deps = ref_s3_serve"
  by (simp add: ref_backend_deps_def crypto_deps.defs core_deps.defs)

lemma ref_s3_reliable: "s3_reliable ref_backend_deps"
  by (auto simp: s3_reliable_def ref_s3_serve_def Let_def split: option.splits)

definition sample_s3 :: S3ObjectStore where
  "sample_s3 =
     \<lparr>s3_config = \<lparr>s3c_endpoint_url = ''http://s3'', s3c_bucket = ''b'', s3c_region = ''us-east-1'', s3c_prefix = [],
                   s3c_access_key = ''a'', s3c_secret_key = ''s'', s3c_ca_cert_path = None\<rparr>,
      s3_endpoint_url = ''http://s3'', s3_endpoint_host = ''s3''\<rparr>"

theorem store_create_exclusive_witness:
  "let w = sample_world (\<lambda>_. IoOk); (r, w') = store_create ref_backend_deps (Filesystem ''/d'') ''a/b'' [1, 2] w
   in r = Ok True \<and> w_files w' = [''/d/a/b'' \<mapsto> [1, 2]]"
proof -
  obtain r w' where c: "store_create ref_backend_deps (Filesystem ''/d'') ''a/b'' [1, 2] (sample_world (\<lambda>_. IoOk)) = (r, w')" by force
  have "r = Ok True"
    using filesystem.cr_ok [where s = "sample_world (\<lambda>_. IoOk)" and v = "[1, 2]" and D = ref_backend_deps and root = "''/d''" and k = "''a/b''"] c
    by (auto simp: io_reliable_def sample_world_def)
  then show ?thesis using store_create_exclusive [OF c] c
    by (simp add: Let_def sample_world_def path_join_def starts_with_def)
qed

theorem store_write_outcomes_witness:
  "let w = sample_world (\<lambda>n. if n = 1 then IoFail ''disk full'' (Some 1) else IoOk);
       (r, w') = store_write ref_backend_deps (Filesystem ''/d'') ''a/b'' [1, 2] w
   in r = Err (storage_write_error ''disk full'') \<and>
      (w_files w' = Map.empty \<or> (\<exists>n. w_files w' = [''/d/a/b'' \<mapsto> take n [1, 2]]))"
proof -
  let ?w = "sample_world (\<lambda>n. if n = 1 then IoFail ''disk full'' (Some 1) else IoOk)"
  obtain r w' where c: "store_write ref_backend_deps (Filesystem ''/d'') ''a/b'' [1, 2] ?w = (r, w')" by force
  have "r = Err (storage_write_error ''disk full'')"
    using c by (auto simp: sample_world_def fs_defs make_parent_def create_dir_all_def next_io_def io_done_def
        path_join_def path_parent_def starts_with_def)
  then show ?thesis using store_write_outcomes [OF c] c
    by (simp add: Let_def sample_world_def path_join_def starts_with_def)
qed

lemma ref_s3_conditional_put: "s3_conditional_put ref_backend_deps"
  by (auto simp: s3_conditional_put_def ref_s3_serve_def Let_def)

theorem s3_create_exclusive_witness:
  "\<exists>w1. store_create ref_backend_deps (S3 sample_s3) ''k'' [1, 2] (sample_world (\<lambda>_. IoOk)) = (Ok True, w1) \<and>
     w_objects w1 = [store_path (S3 sample_s3) ''k'' \<mapsto> [1, 2]] \<and>
     fst (store_create ref_backend_deps (S3 sample_s3) ''k'' [3] w1) \<noteq> Ok True"
proof -
  have ok: "s3_ok ref_backend_deps sample_s3 (sample_world (\<lambda>_. IoOk))" "s3_fits [1, 2]"
    by (simp_all add: s3_ok_def ref_s3_reliable sample_s3_def sample_world_def s3_fits_def
        MAX_S3_BACKEND_RESPONSE_BYTES_def)
  obtain w1 where c: "store_create ref_backend_deps (S3 sample_s3) ''k'' [1, 2] (sample_world (\<lambda>_. IoOk)) = (Ok True, w1)"
    using s3.cr_ok [OF ok, of "''k''"] by (auto simp: sample_world_def)
  show ?thesis
    using c s3_create_exclusive [OF ref_s3_conditional_put s3_ok_endpoint [OF ok(1)] c]
    by (auto simp: s3_created_def sample_world_def)
qed

end
