(* ===== verification/HSP_Service_Base.thy ===== *)
theory HSP_Service_Base
  imports HSP_Auth HSP_Store
begin

text \<open>
  The state of \<open>AlphaService\<close> (\<open>crates/hsp-service/src/lib.rs\<close>) and what its operations share:
  the records it stores, metrics and logs, the encrypted JSON store, authorization with the
  durable replay records, event sequence, namespace state, journal and revisions.

  The service proper (configuration, KMS, backend, issuer registry) never changes and is the
  argument \<open>svc\<close>. What changes is the machine and, in memory, the policy engine, the metrics and
  the logs: the record \<open>service\<close>. The JSON form of each stored type is a field of \<open>service_deps\<close>.
\<close>

section \<open>Records\<close>

record AlphaConfig =
  cf_authority :: string
  cf_gateway_base_url :: string
  cf_root_dir :: string
  cf_native_port :: u16
  cf_server_instance_id :: string
  cf_storage_backend :: StorageBackendConfig

record AlphaService =
  as_config :: AlphaConfig
  as_kms :: LocalDevKms
  as_store :: StoreBackend
  as_issuer_registry :: "IssuerRegistry option"

record ServiceMetricEntry =
  sme_operation :: string
  sme_tenant_id :: string
  sme_namespace :: "string option"
  sme_status_code :: u16
  sme_outcome :: string
  sme_count :: u64
  sme_latency_ms_sum :: u64
  sme_object_size_bytes_sum :: u64

record StructuredLogRecord =
  slr_at_ms :: u64
  slr_operation :: string
  slr_tenant_id :: string
  slr_namespace :: "string option"
  slr_status_code :: u16
  slr_outcome :: string
  slr_latency_ms :: u64
  slr_object_size_bytes :: "u64 option"
  slr_error_code :: "string option"

text \<open>\<open>MetricKey\<close> is ordered as the derived \<open>Ord\<close> does, field by field.\<close>

datatype MetricKey =
  MetricKey (mk_operation: string) (mk_tenant_id: string) (mk_namespace: "string option")
    (mk_status_code: u16) (mk_outcome: string)

definition metric_key_tuple :: "MetricKey \<Rightarrow> string \<times> string \<times> string option \<times> u16 \<times> string" where
  "metric_key_tuple k =
     (mk_operation k, mk_tenant_id k, mk_namespace k, mk_status_code k, mk_outcome k)"

lemma metric_key_tuple_inject [simp]: "metric_key_tuple a = metric_key_tuple b \<longleftrightarrow> a = b"
  by (cases a; cases b) (simp add: metric_key_tuple_def)

instantiation MetricKey :: linorder
begin

definition less_eq_MetricKey :: "MetricKey \<Rightarrow> MetricKey \<Rightarrow> bool" where
  "a \<le> b \<longleftrightarrow> metric_key_tuple a \<le> metric_key_tuple b"

definition less_MetricKey :: "MetricKey \<Rightarrow> MetricKey \<Rightarrow> bool" where
  "a < b \<longleftrightarrow> metric_key_tuple a < metric_key_tuple b"

instance
proof
  fix a b c :: MetricKey
  show "(a < b) = (a \<le> b \<and> \<not> b \<le> a)"
    by (simp add: less_eq_MetricKey_def less_MetricKey_def less_le_not_le)
  show "a \<le> a" by (simp add: less_eq_MetricKey_def)
  show "a \<le> b \<Longrightarrow> b \<le> c \<Longrightarrow> a \<le> c" by (auto simp: less_eq_MetricKey_def)
  show "a \<le> b \<Longrightarrow> b \<le> a \<Longrightarrow> a = b"
    unfolding less_eq_MetricKey_def by (metis antisym metric_key_tuple_inject)
  show "a \<le> b \<or> b \<le> a" unfolding less_eq_MetricKey_def by (rule linear)
qed

end

record MetricValue =
  mv_count :: u64
  mv_latency_ms_sum :: u64
  mv_object_size_bytes_sum :: u64

record Observation =
  ob_operation :: string
  ob_tenant_id :: TenantId
  ob_namespace :: "string option"
  ob_status_code :: u16
  ob_outcome :: string
  ob_latency_ms :: u64
  ob_object_size_bytes :: "u64 option"
  ob_error_code :: "string option"

record UploadSessionRecord =
  us_session_id :: string
  us_tenant_id :: TenantId
  us_manifest :: Manifest
  us_manifest_cid :: string
  us_idempotency_key :: string
  us_storage_class :: string
  us_atomic_bind :: "AtomicBindRequest option"
  us_uploaded_chunks :: "u32 list"
  us_committed :: bool
  us_created_at_ms :: u64
  us_upload_deadline_ms :: u64

record ManifestRecord =
  mrec_tenant_id :: TenantId
  mrec_manifest :: Manifest
  mrec_manifest_cid :: string
  mrec_object_cid :: string
  mrec_storage_class :: string
  mrec_committed_at_ms :: u64

record 'r IdempotencyRecord =
  idr_response :: 'r

record ReplayRecord =
  rp_tenant_id :: TenantId
  rp_jti :: string
  rp_operation :: string
  rp_subject :: string
  rp_idempotency_key :: string
  rp_observed_at_ms :: u64

record AuditRecord =
  au_seq :: u64
  au_tenant_id :: TenantId
  au_operation :: string
  au_subject :: string
  au_at_ms :: u64

record SequenceState =
  sq_next_seq :: u64

record NamespaceBindingState =
  nb_path :: string
  nb_target_cid :: "string option"
  nb_manifest_cid :: "string option"
  nb_revision :: u64
  nb_record_cid :: string
  nb_metadata :: metadata
  nb_tombstone :: bool

record NamespaceCurrentState =
  nc_namespace :: string
  nc_revision :: u64
  nc_bindings :: "(string, NamespaceBindingState) btm"

record NamespaceRevisionState =
  nr_next_revision :: u64

record NamespaceJournalEntry =
  nj_revision :: u64
  nj_record :: NamespaceMutationRecord
  nj_record_cid :: string
  nj_target_cid :: "string option"
  nj_manifest_cid :: "string option"
  nj_metadata :: metadata
  nj_tombstone :: bool

record SelectorResolution =
  srs_manifest_cid :: string
  srs_namespace :: "string option"
  srs_path :: "string option"
  srs_revision :: "u64 option"
  srs_record_cid :: "string option"

section \<open>State and third-party code\<close>

record service = world +
  sv_policy_engine :: PolicyEngine
  sv_metrics :: "(MetricKey, MetricValue) btm"
  sv_logs :: "StructuredLogRecord list"

type_synonym 'a svc_op = "(service, ApiError, 'a) comp"

record service_deps = backend_deps +
  auth_code :: auth_deps
  json_envelope :: "StoredEnvelope codec"
  json_session :: "UploadSessionRecord codec"
  json_manifest_record :: "ManifestRecord codec"
  json_idem_put_init :: "PutInitResponse IdempotencyRecord codec"
  json_idem_put_commit :: "PutCommitResponse IdempotencyRecord codec"
  json_idem_bind :: "BindResponse IdempotencyRecord codec"
  json_idem_unbind :: "UnbindResponse IdempotencyRecord codec"
  json_replay :: "ReplayRecord codec"
  json_audit :: "AuditRecord codec"
  json_sequence :: "SequenceState codec"
  json_ns_current :: "NamespaceCurrentState codec"
  json_ns_revision :: "NamespaceRevisionState codec"
  json_ns_journal :: "NamespaceJournalEntry list codec"
  json_event :: "EventRecord codec"

text \<open>A closure that runs on the error, and a result that is discarded (\<open>let _ =\<close>).\<close>

definition on_error :: "('s, 'e, 'a) comp \<Rightarrow> ('e \<Rightarrow> ('s, 'f, 'a) comp) \<Rightarrow> ('s, 'f, 'a) comp" where
  "on_error m h s = (case m s of (Ok x, s') \<Rightarrow> (Ok x, s') | (Err e, s') \<Rightarrow> h e s')"

definition discard :: "('s, 'e, 'a) comp \<Rightarrow> ('s, 'f, unit) comp" where
  "discard m s = (Ok (), snd (m s))"

section \<open>Metrics and logs\<close>

definition MAX_LOG_RECORDS :: nat where
  "MAX_LOG_RECORDS = 1024"

definition metric_key :: "Observation \<Rightarrow> MetricKey" where
  "metric_key ob =
     MetricKey (ob_operation ob) (tenant_str (ob_tenant_id ob)) (ob_namespace ob) (ob_status_code ob)
       (ob_outcome ob)"

definition metric_bump :: "Observation \<Rightarrow> MetricValue \<Rightarrow> MetricValue" where
  "metric_bump ob v =
     \<lparr>mv_count = saturating_add (mv_count v) 1,
      mv_latency_ms_sum = saturating_add (mv_latency_ms_sum v) (ob_latency_ms ob),
      mv_object_size_bytes_sum =
        saturating_add (mv_object_size_bytes_sum v)
          (case ob_object_size_bytes ob of None \<Rightarrow> 0 | Some n \<Rightarrow> n)\<rparr>"

definition metric_default :: MetricValue where
  "metric_default = \<lparr>mv_count = 0, mv_latency_ms_sum = 0, mv_object_size_bytes_sum = 0\<rparr>"

definition push_log :: "StructuredLogRecord \<Rightarrow> StructuredLogRecord list \<Rightarrow> StructuredLogRecord list" where
  "push_log rec logs =
     (let logs' = logs @ [rec] in
      if length logs' > MAX_LOG_RECORDS then drop (length logs' - MAX_LOG_RECORDS) logs' else logs')"

definition record_observation :: "Observation \<Rightarrow> (service, 'e, unit) comp" where
  "record_observation ob s =
     (let key = metric_key ob;
          v = (case btm_get (sv_metrics s) key of None \<Rightarrow> metric_default | Some v \<Rightarrow> v);
          s1 = s\<lparr>sv_metrics := btm_insert key (metric_bump ob v) (sv_metrics s)\<rparr> in
      bnd now_ms (\<lambda>at_ms s2.
        (Ok (),
         s2\<lparr>sv_logs := push_log
              \<lparr>slr_at_ms = at_ms, slr_operation = ob_operation ob,
               slr_tenant_id = tenant_str (ob_tenant_id ob), slr_namespace = ob_namespace ob,
               slr_status_code = ob_status_code ob, slr_outcome = ob_outcome ob,
               slr_latency_ms = ob_latency_ms ob, slr_object_size_bytes = ob_object_size_bytes ob,
               slr_error_code = ob_error_code ob\<rparr> (sv_logs s2)\<rparr>)) s1)"

definition metrics_snapshot :: "service \<Rightarrow> ServiceMetricEntry list" where
  "metrics_snapshot s =
     map (\<lambda>(key, v).
       \<lparr>sme_operation = mk_operation key, sme_tenant_id = mk_tenant_id key,
        sme_namespace = mk_namespace key, sme_status_code = mk_status_code key,
        sme_outcome = mk_outcome key, sme_count = mv_count v,
        sme_latency_ms_sum = mv_latency_ms_sum v,
        sme_object_size_bytes_sum = mv_object_size_bytes_sum v\<rparr>) (sv_metrics s)"

definition structured_logs :: "service \<Rightarrow> StructuredLogRecord list" where
  "structured_logs s = sv_logs s"

definition replace_char :: "char \<Rightarrow> string \<Rightarrow> string \<Rightarrow> string" where
  "replace_char c to text = concat (map (\<lambda>x. if x = c then to else [x]) text)"

definition prometheus_escape :: "string \<Rightarrow> string" where
  "prometheus_escape value =
     replace_char (CHR 0x0A) [CHR 0x5C, CHR ''n'']
       (replace_char (CHR 0x22) [CHR 0x5C, CHR 0x22]
         (replace_char (CHR 0x5C) [CHR 0x5C, CHR 0x5C] value))"

definition prometheus_labels :: "ServiceMetricEntry \<Rightarrow> string" where
  "prometheus_labels entry =
     (let q = [CHR 0x22] in
      ''operation='' @ q @ prometheus_escape (sme_operation entry) @ q @ '',tenant='' @ q @
      prometheus_escape (sme_tenant_id entry) @ q @ '',namespace='' @ q @
      prometheus_escape (case sme_namespace entry of None \<Rightarrow> [] | Some n \<Rightarrow> n) @ q @ '',status_code='' @ q @
      show_nat (unat (sme_status_code entry)) @ q @ '',outcome='' @ q @
      prometheus_escape (sme_outcome entry) @ q)"

definition prometheus_series :: "string \<Rightarrow> (ServiceMetricEntry \<Rightarrow> u64) \<Rightarrow> ServiceMetricEntry list \<Rightarrow> string" where
  "prometheus_series name value entries =
     concat (map (\<lambda>entry.
       name @ ''{'' @ prometheus_labels entry @ ''} '' @ show_nat (unat (value entry)) @ [CHR 0x0A]) entries)"

definition prometheus_metrics :: "service \<Rightarrow> string" where
  "prometheus_metrics s =
     (let entries = metrics_snapshot s; nl = [CHR 0x0A] in
      ''# HELP hsp_requests_total HSP requests by operation, tenant, namespace, status, and outcome.'' @ nl @
      ''# TYPE hsp_requests_total counter'' @ nl @
      prometheus_series ''hsp_requests_total'' sme_count entries @
      ''# HELP hsp_request_latency_ms_sum Total observed HSP request latency in milliseconds.'' @ nl @
      ''# TYPE hsp_request_latency_ms_sum counter'' @ nl @
      prometheus_series ''hsp_request_latency_ms_sum'' sme_latency_ms_sum entries @
      ''# HELP hsp_object_size_bytes_sum Total observed HSP object or chunk size in bytes.'' @ nl @
      ''# TYPE hsp_object_size_bytes_sum counter'' @ nl @
      prometheus_series ''hsp_object_size_bytes_sum'' sme_object_size_bytes_sum entries)"

section \<open>Service information\<close>

definition store_kinds :: "string list" where
  "store_kinds =
     [''chunks'', ''manifests'', ''namespace-current'', ''namespace-journal'', ''namespace-revisions'',
      ''sessions'', ''audit'', ''idempotency'', ''replay'', ''events'']"

text \<open>What a new \<open>AlphaService\<close> holds in memory; the machine stays as it is.\<close>

definition reset_memory :: "(service, 'e, unit) comp" where
  "reset_memory s = (Ok (), s\<lparr>sv_policy_engine := policy_engine_new, sv_metrics := [], sv_logs := []\<rparr>)"

definition alpha_service_new :: "'x backend_deps_scheme \<Rightarrow> AlphaConfig \<Rightarrow> LocalDevKms \<Rightarrow> AlphaService svc_op" where
  "alpha_service_new D config kms =
     bnd (store_from_config D (cf_root_dir config) (cf_storage_backend config)) (\<lambda>store.
     let svc = \<lparr>as_config = config, as_kms = kms, as_store = store, as_issuer_registry = None\<rparr> in
     bnd reset_memory (\<lambda>_.
     bnd (store_ensure_roots D (as_store svc) store_kinds) (\<lambda>_. ret svc)))"

definition alpha_service_with_kms_seed ::
  "'x backend_deps_scheme \<Rightarrow> string \<Rightarrow> byte list \<Rightarrow> AlphaService svc_op" where
  "alpha_service_with_kms_seed D root_dir kms_seed =
     bnd (lift_result (map_err (\<lambda>error. crypto_error_to_api error ''failed to initialize configured KMS'')
            (from_seed D kms_seed))) (\<lambda>kms.
     alpha_service_new D
       \<lparr>cf_authority = ''localhost'', cf_gateway_base_url = ''https://localhost/v1/'', cf_root_dir = root_dir,
        cf_native_port = 443, cf_server_instance_id = ''hsp-alpha-dev'',
        cf_storage_backend = Backend_Filesystem\<rparr> kms)"

definition default_alpha_service ::
  "'x backend_deps_scheme \<Rightarrow> (string \<Rightarrow> string option) \<Rightarrow> string \<Rightarrow> AlphaService svc_op" where
  "default_alpha_service D env root_dir =
     bnd (lift_result (map_err (\<lambda>error.
            crypto_error_to_api error ''HSP_KMS_SEED must be configured for alpha service KMS'')
            (required_runtime_secret_from_env env ''HSP_KMS_SEED'' DEFAULT_KMS_SEED_LITERALS))) (\<lambda>seed.
     alpha_service_with_kms_seed D root_dir seed)"

definition with_issuer_registry :: "AlphaService \<Rightarrow> IssuerRegistry \<Rightarrow> AlphaService" where
  "with_issuer_registry svc registry = svc\<lparr>as_issuer_registry := Some registry\<rparr>"

definition bootstrap_document :: "AlphaService \<Rightarrow> BootstrapDocument" where
  "bootstrap_document svc =
     (let document = public_multitenant_bootstrap_document (cf_authority (as_config svc))
                       (cf_gateway_base_url (as_config svc)) in
      document\<lparr>bd_native := (bd_native document)\<lparr>bn_port := cf_native_port (as_config svc)\<rparr>\<rparr>)"

definition info :: InfoResponse where
  "info = public_multitenant_info_response"

definition settings :: "AlphaService \<Rightarrow> SettingsFrame" where
  "settings svc = public_multitenant_settings_frame (cf_server_instance_id (as_config svc))"

definition readiness :: "'x backend_deps_scheme \<Rightarrow> AlphaService \<Rightarrow> (service, 'e, ReadinessReport) comp" where
  "readiness D svc =
     bnd (store_ready D (as_store svc)) (\<lambda>ready.
     ret \<lparr>rd_ready = ready, rd_kms_provider = ''local-dev-kms'', rd_encrypted_store_roots = store_kinds\<rparr>)"

section \<open>The encrypted store\<close>

definition tenant_store_dir :: "'x core_deps_scheme \<Rightarrow> TenantId \<Rightarrow> string" where
  "tenant_store_dir D tenant_id = b64url_encode D (as_bytes (tenant_str tenant_id))"

definition store_file_name :: "'x core_deps_scheme \<Rightarrow> string \<Rightarrow> string" where
  "store_file_name D key = cid_from_bytes D (as_bytes key) @ ''.json.enc''"

definition store_key :: "'x core_deps_scheme \<Rightarrow> TenantId \<Rightarrow> string \<Rightarrow> string \<Rightarrow> string" where
  "store_key D tenant_id store_kind key =
     store_kind @ ''/'' @ tenant_store_dir D tenant_id @ ''/'' @ store_file_name D key"

definition idempotency_key :: "'x core_deps_scheme \<Rightarrow> TenantId \<Rightarrow> string \<Rightarrow> string \<Rightarrow> string" where
  "idempotency_key D tenant_id op value =
     op @ ''-'' @ cid_from_bytes D (as_bytes (tenant_str tenant_id)) @ ''-'' @ cid_from_bytes D (as_bytes value)"

definition durable_replay_key ::
  "'x core_deps_scheme \<Rightarrow> TenantId \<Rightarrow> string \<Rightarrow> OperationName \<Rightarrow> string \<Rightarrow> string" where
  "durable_replay_key D tenant_id jti operation subject =
     to_ascii_lowercase (operation_as_str operation) @ ''-'' @
     cid_from_bytes D (as_bytes (replay_key tenant_id jti operation subject))"

definition write_envelope ::
  "service_deps \<Rightarrow> AlphaService \<Rightarrow> TenantId \<Rightarrow> string \<Rightarrow> string \<Rightarrow> StoredEnvelope \<Rightarrow> unit svc_op" where
  "write_envelope D svc tenant_id store_kind key envelope =
     bnd (lift_result (map_err (api_error Cat_Storage ''envelope_serialize_failed'')
                         (to_vec (json_envelope D) envelope))) (\<lambda>bytes.
     store_write D (as_store svc) (store_key D tenant_id store_kind key) bytes)"

definition create_envelope ::
  "service_deps \<Rightarrow> AlphaService \<Rightarrow> TenantId \<Rightarrow> string \<Rightarrow> string \<Rightarrow> StoredEnvelope \<Rightarrow> bool svc_op" where
  "create_envelope D svc tenant_id store_kind key envelope =
     bnd (lift_result (map_err (api_error Cat_Storage ''envelope_serialize_failed'')
                         (to_vec (json_envelope D) envelope))) (\<lambda>bytes.
     store_create D (as_store svc) (store_key D tenant_id store_kind key) bytes)"

definition kms_observation :: "TenantId \<Rightarrow> u64 option \<Rightarrow> string \<Rightarrow> Observation" where
  "kms_observation tenant_id sz code =
     \<lparr>ob_operation = ''kms_error'', ob_tenant_id = tenant_id, ob_namespace = None, ob_status_code = 500,
      ob_outcome = ''kms_error'', ob_latency_ms = 0, ob_object_size_bytes = sz,
      ob_error_code = Some code\<rparr>"

definition write_encrypted_bytes ::
  "service_deps \<Rightarrow> AlphaService \<Rightarrow> TenantId \<Rightarrow> string \<Rightarrow> string \<Rightarrow> byte list \<Rightarrow> unit svc_op" where
  "write_encrypted_bytes D svc tenant_id store_kind key bytes =
     bnd (on_error (local_encrypt_store_payload D (as_kms svc) tenant_id store_kind bytes) (\<lambda>error.
            let e = crypto_error_to_api error ''failed to encrypt store payload'' in
            bnd (record_observation (kms_observation tenant_id (Some (usize_u64 (length bytes))) (err_code e)))
              (\<lambda>_. throw e))) (\<lambda>envelope.
     write_envelope D svc tenant_id store_kind key envelope)"

definition write_encrypted_json ::
  "service_deps \<Rightarrow> AlphaService \<Rightarrow> 'a codec \<Rightarrow> TenantId \<Rightarrow> string \<Rightarrow> string \<Rightarrow> 'a \<Rightarrow> unit svc_op" where
  "write_encrypted_json D svc c tenant_id store_kind key value =
     bnd (lift_result (map_err (api_error Cat_Storage ''json_serialize_failed'') (to_vec c value))) (\<lambda>bytes.
     write_encrypted_bytes D svc tenant_id store_kind key bytes)"

definition create_encrypted_json ::
  "service_deps \<Rightarrow> AlphaService \<Rightarrow> 'a codec \<Rightarrow> TenantId \<Rightarrow> string \<Rightarrow> string \<Rightarrow> 'a \<Rightarrow> bool svc_op" where
  "create_encrypted_json D svc c tenant_id store_kind key value =
     bnd (lift_result (map_err (api_error Cat_Storage ''json_serialize_failed'') (to_vec c value))) (\<lambda>bytes.
     bnd (on_err (\<lambda>error. crypto_error_to_api error ''failed to encrypt store payload'')
            (local_encrypt_store_payload D (as_kms svc) tenant_id store_kind bytes)) (\<lambda>envelope.
     create_envelope D svc tenant_id store_kind key envelope))"

definition read_encrypted_bytes ::
  "service_deps \<Rightarrow> AlphaService \<Rightarrow> TenantId \<Rightarrow> string \<Rightarrow> string \<Rightarrow> byte list option svc_op" where
  "read_encrypted_bytes D svc tenant_id store_kind key =
     bnd (store_read D (as_store svc) (store_key D tenant_id store_kind key)) (\<lambda>found.
     case found of
       None \<Rightarrow> ret None
     | Some bytes \<Rightarrow>
         bnd (lift_result (map_err (api_error Cat_Storage ''envelope_deserialize_failed'')
                             (from_slice (json_envelope D) bytes))) (\<lambda>envelope.
         on_error (bnd (lift_result (local_decrypt_store_payload D (as_kms svc) tenant_id store_kind envelope))
                     (\<lambda>plaintext. ret (Some plaintext))) (\<lambda>error.
           let e = crypto_error_to_api error ''failed to decrypt store payload'' in
           bnd (record_observation (kms_observation tenant_id None (err_code e))) (\<lambda>_. throw e))))"

definition read_encrypted_json ::
  "service_deps \<Rightarrow> AlphaService \<Rightarrow> 'a codec \<Rightarrow> TenantId \<Rightarrow> string \<Rightarrow> string \<Rightarrow> 'a option svc_op" where
  "read_encrypted_json D svc c tenant_id store_kind key =
     bnd (read_encrypted_bytes D svc tenant_id store_kind key) (\<lambda>found.
     case found of
       None \<Rightarrow> ret None
     | Some bytes \<Rightarrow>
         lift_result (map_err (api_error Cat_Storage ''json_deserialize_failed'')
                        (rbnd (from_slice c bytes) (\<lambda>v. Ok (Some v)))))"

definition delete_store_key ::
  "service_deps \<Rightarrow> AlphaService \<Rightarrow> TenantId \<Rightarrow> string \<Rightarrow> string \<Rightarrow> unit svc_op" where
  "delete_store_key D svc tenant_id store_kind key =
     store_delete D (as_store svc) (store_key D tenant_id store_kind key)"

definition chunk_exists :: "service_deps \<Rightarrow> AlphaService \<Rightarrow> TenantId \<Rightarrow> string \<Rightarrow> (service, 'e, bool) comp" where
  "chunk_exists D svc tenant_id cid = store_exists D (as_store svc) (store_key D tenant_id ''chunks'' cid)"

definition manifest_record :: "service_deps \<Rightarrow> AlphaService \<Rightarrow> TenantId \<Rightarrow> string \<Rightarrow> ManifestRecord svc_op" where
  "manifest_record D svc tenant_id mcid =
     bnd (read_encrypted_json D svc (json_manifest_record D) tenant_id ''manifests'' mcid) (\<lambda>found.
     lift_result (ok_or found (api_error Cat_NotFound ''manifest_not_found'' ''manifest not found'')))"

section \<open>Events and audit\<close>

definition next_event_seq :: "service_deps \<Rightarrow> AlphaService \<Rightarrow> TenantId \<Rightarrow> u64 svc_op" where
  "next_event_seq D svc tenant_id =
     bnd (read_encrypted_json D svc (json_sequence D) tenant_id ''events'' ''sequence'') (\<lambda>found.
     let current = (case found of None \<Rightarrow> 1 | Some state \<Rightarrow> sq_next_seq state) in
     bnd (write_encrypted_json D svc (json_sequence D) tenant_id ''events'' ''sequence''
            \<lparr>sq_next_seq = current + 1\<rparr>) (\<lambda>_.
     ret current))"

definition next_read_event_seq :: "service_deps \<Rightarrow> AlphaService \<Rightarrow> TenantId \<Rightarrow> u64 svc_op" where
  "next_read_event_seq D svc tenant_id =
     bnd (read_encrypted_json D svc (json_sequence D) tenant_id ''events'' ''sequence'') (\<lambda>found.
     ret (case found of None \<Rightarrow> 1 | Some state \<Rightarrow> sq_next_seq state))"

definition event_key :: "u64 \<Rightarrow> string" where
  "event_key seq = ''event-'' @ pad_zeros 20 (show_nat (unat seq))"

definition append_event :: "service_deps \<Rightarrow> AlphaService \<Rightarrow> TenantId \<Rightarrow> EventRecord \<Rightarrow> u64 svc_op" where
  "append_event D svc tenant_id event =
     bnd (next_event_seq D svc tenant_id) (\<lambda>seq.
     bnd (write_encrypted_json D svc (json_event D) tenant_id ''events'' (event_key seq)
            (event\<lparr>ev_seq := seq\<rparr>)) (\<lambda>_.
     ret seq))"

definition write_audit ::
  "service_deps \<Rightarrow> AlphaService \<Rightarrow> TenantId \<Rightarrow> u64 \<Rightarrow> string \<Rightarrow> string \<Rightarrow> unit svc_op" where
  "write_audit D svc tenant_id seq operation subject =
     bnd now_ms (\<lambda>at_ms.
     write_encrypted_json D svc (json_audit D) tenant_id ''audit''
       (show_nat (unat seq) @ ''-'' @ cid_from_bytes D (as_bytes subject))
       \<lparr>au_seq = seq, au_tenant_id = tenant_id, au_operation = operation, au_subject = subject,
        au_at_ms = at_ms\<rparr>)"

section \<open>Authorization\<close>

definition denied_observation :: "AuthRequestMeta \<Rightarrow> string \<Rightarrow> Observation" where
  "denied_observation meta code =
     \<lparr>ob_operation = ''auth_denied'', ob_tenant_id = am_tenant_id meta, ob_namespace = am_namespace meta,
      ob_status_code = 403, ob_outcome = ''auth_denied'', ob_latency_ms = 0,
      ob_object_size_bytes = am_content_size meta, ob_error_code = Some code\<rparr>"

definition authorization_denied_api_error ::
  "service_deps \<Rightarrow> AlphaService \<Rightarrow> AuthRequestMeta \<Rightarrow> DenialReason \<Rightarrow> (service, 'e, ApiError) comp" where
  "authorization_denied_api_error D svc meta reason =
     (let error = denial_to_api_error reason in
      bnd (record_observation (denied_observation meta (err_code error))) (\<lambda>_.
      bnd now_ms (\<lambda>at_ms.
      bnd (discard (append_event D svc (am_tenant_id meta)
             \<lparr>ev_version = 1, ev_seq = 0, ev_at_ms = at_ms, ev_event_type = AuthDenied,
              ev_subject_kind = ''auth'', ev_namespace = am_namespace meta, ev_path = am_path meta,
              ev_cid = None, ev_revision = None, ev_trace_id = None,
              ev_payload =
                btm_insert ''operation'' (operation_as_str (am_operation meta))
                  (btm_insert ''code'' (err_code error) [])\<rparr>)) (\<lambda>_.
      ret error))))"

definition policy_authorize ::
  "AuthContext \<Rightarrow> AuthRequestMeta \<Rightarrow> (service, DenialReason, AuthorizationDecision) comp" where
  "policy_authorize auth meta =
     bnd now_ms (\<lambda>now s.
       case authorize now auth meta (sv_policy_engine s) of
         (r, engine) \<Rightarrow> (r, s\<lparr>sv_policy_engine := engine\<rparr>))"

definition observe_durable_replay ::
  "service_deps \<Rightarrow> AlphaService \<Rightarrow> AuthContext \<Rightarrow> AuthRequestMeta \<Rightarrow> AuthorizationDecision
   \<Rightarrow> AuthorizationDecision svc_op" where
  "observe_durable_replay D svc auth meta decision =
     (if \<not> is_mutation (am_operation meta) then ret decision
      else
        case cl_jti (ac_claims auth) of
          None \<Rightarrow> ret decision
        | Some jti \<Rightarrow>
            let key = durable_replay_key D (am_tenant_id meta) jti (am_operation meta) (am_subject meta) in
            bnd now_ms (\<lambda>observed_at_ms.
            let replay_record =
                  \<lparr>rp_tenant_id = am_tenant_id meta, rp_jti = jti,
                   rp_operation = operation_as_str (am_operation meta), rp_subject = am_subject meta,
                   rp_idempotency_key = (case am_idempotency_key meta of None \<Rightarrow> [] | Some k \<Rightarrow> k),
                   rp_observed_at_ms = observed_at_ms\<rparr> in
            bnd (create_encrypted_json D svc (json_replay D) (am_tenant_id meta) ''replay'' key replay_record) (\<lambda>created.
            if created then ret decision
            else
              bnd (read_encrypted_json D svc (json_replay D) (am_tenant_id meta) ''replay'' key) (\<lambda>found.
              bnd (lift_result (ok_or found
                     (api_error Cat_Storage ''replay_record_missing''
                        ''replay record disappeared after create conflict''))) (\<lambda>existing.
              if am_idempotency_key meta = Some (rp_idempotency_key existing) then
                ret (decision\<lparr>ad_replay_status := IdempotentRetry\<rparr>)
              else
                bnd (authorization_denied_api_error D svc meta ReplayDetected) throw)))))"

definition service_authorize ::
  "service_deps \<Rightarrow> AlphaService \<Rightarrow> AuthContext \<Rightarrow> AuthRequestMeta \<Rightarrow> AuthorizationDecision svc_op" where
  "service_authorize D svc auth meta =
     bnd (on_error (policy_authorize auth meta) (\<lambda>reason.
            bnd (authorization_denied_api_error D svc meta reason) throw)) (\<lambda>decision.
     observe_durable_replay D svc auth meta decision)"

section \<open>Namespace state, journal and revisions\<close>

definition canonical_namespace_and_path :: "string \<Rightarrow> string \<Rightarrow> ApiError + string \<times> string" where
  "canonical_namespace_and_path namespace path =
     rbnd (map_err (\<lambda>e. api_error Cat_Validation ''invalid_namespace'' (path_error_message e))
             (canonical_path namespace)) (\<lambda>ns.
     rbnd (map_err (\<lambda>e. api_error Cat_Validation ''invalid_path'' (path_error_message e))
             (canonical_path path)) (\<lambda>p.
     Ok (ns, p)))"

definition namespace_current_state ::
  "service_deps \<Rightarrow> AlphaService \<Rightarrow> TenantId \<Rightarrow> string \<Rightarrow> NamespaceCurrentState svc_op" where
  "namespace_current_state D svc tenant_id namespace =
     bnd (read_encrypted_json D svc (json_ns_current D) tenant_id ''namespace-current'' namespace) (\<lambda>found.
     ret (case found of
            Some state \<Rightarrow> state
          | None \<Rightarrow> \<lparr>nc_namespace = namespace, nc_revision = 0, nc_bindings = []\<rparr>))"

definition write_namespace_current_state ::
  "service_deps \<Rightarrow> AlphaService \<Rightarrow> TenantId \<Rightarrow> string \<Rightarrow> NamespaceCurrentState \<Rightarrow> unit svc_op" where
  "write_namespace_current_state D svc tenant_id namespace state =
     write_encrypted_json D svc (json_ns_current D) tenant_id ''namespace-current'' namespace state"

definition namespace_journal ::
  "service_deps \<Rightarrow> AlphaService \<Rightarrow> TenantId \<Rightarrow> string \<Rightarrow> NamespaceJournalEntry list svc_op" where
  "namespace_journal D svc tenant_id namespace =
     bnd (read_encrypted_json D svc (json_ns_journal D) tenant_id ''namespace-journal'' namespace) (\<lambda>found.
     ret (case found of None \<Rightarrow> [] | Some journal \<Rightarrow> journal))"

definition append_namespace_journal ::
  "service_deps \<Rightarrow> AlphaService \<Rightarrow> TenantId \<Rightarrow> string \<Rightarrow> NamespaceJournalEntry \<Rightarrow> unit svc_op" where
  "append_namespace_journal D svc tenant_id namespace entry =
     bnd (namespace_journal D svc tenant_id namespace) (\<lambda>journal.
     write_encrypted_json D svc (json_ns_journal D) tenant_id ''namespace-journal'' namespace (journal @ [entry]))"

definition next_namespace_revision :: "service_deps \<Rightarrow> AlphaService \<Rightarrow> TenantId \<Rightarrow> string \<Rightarrow> u64 svc_op" where
  "next_namespace_revision D svc tenant_id namespace =
     bnd (read_encrypted_json D svc (json_ns_revision D) tenant_id ''namespace-revisions'' namespace) (\<lambda>found.
     let revision = (case found of None \<Rightarrow> 1 | Some state \<Rightarrow> nr_next_revision state) in
     bnd (write_encrypted_json D svc (json_ns_revision D) tenant_id ''namespace-revisions'' namespace
            \<lparr>nr_next_revision = revision + 1\<rparr>) (\<lambda>_.
     ret revision))"

definition journal_step ::
  "NamespaceJournalEntry \<Rightarrow> (string, NamespaceBindingState) btm \<Rightarrow> (string, NamespaceBindingState) btm" where
  "journal_step entry bindings =
     (let path = nm_path (nj_record entry) in
      if nj_tombstone entry then
        btm_insert path
          \<lparr>nb_path = path, nb_target_cid = None, nb_manifest_cid = None, nb_revision = nj_revision entry,
           nb_record_cid = nj_record_cid entry, nb_metadata = nj_metadata entry, nb_tombstone = True\<rparr> bindings
      else if nm_kind (nj_record entry) = NM_HardDelete then btm_remove path bindings
      else
        btm_insert path
          \<lparr>nb_path = path, nb_target_cid = nj_target_cid entry, nb_manifest_cid = nj_manifest_cid entry,
           nb_revision = nj_revision entry, nb_record_cid = nj_record_cid entry,
           nb_metadata = nj_metadata entry, nb_tombstone = False\<rparr> bindings)"

fun replay_journal ::
  "u64 \<Rightarrow> NamespaceJournalEntry list \<Rightarrow> (string, NamespaceBindingState) btm
   \<Rightarrow> (string, NamespaceBindingState) btm" where
  "replay_journal limit [] bindings = bindings"
| "replay_journal limit (entry # entries) bindings =
     (if nj_revision entry > limit then bindings
      else replay_journal limit entries (journal_step entry bindings))"

definition namespace_snapshot_at ::
  "service_deps \<Rightarrow> AlphaService \<Rightarrow> TenantId \<Rightarrow> string \<Rightarrow> u64 option \<Rightarrow> NamespaceCurrentState svc_op" where
  "namespace_snapshot_at D svc tenant_id namespace at_revision =
     (case at_revision of
        None \<Rightarrow> namespace_current_state D svc tenant_id namespace
      | Some revision_limit \<Rightarrow>
          bnd (namespace_journal D svc tenant_id namespace) (\<lambda>journal.
          ret \<lparr>nc_namespace = namespace, nc_revision = revision_limit,
               nc_bindings = replay_journal revision_limit journal []\<rparr>))"

definition path_not_bound :: ApiError where
  "path_not_bound = api_error Cat_NotFound ''path_not_bound'' ''namespace path is not bound''"

definition revision_conflict :: ApiError where
  "revision_conflict = api_error Cat_Conflict ''revision_conflict'' ''namespace revision precondition failed''"

definition binding_response :: "NamespaceBindingState \<Rightarrow> ResolveResponse" where
  "binding_response binding =
     \<lparr>rr_revision = nb_revision binding, rr_target_cid = nb_target_cid binding,
      rr_manifest_cid = nb_manifest_cid binding, rr_record_cid = nb_record_cid binding,
      rr_metadata = nb_metadata binding, rr_tombstone = nb_tombstone binding\<rparr>"

definition snapshot_lookup ::
  "NamespaceCurrentState \<Rightarrow> string \<Rightarrow> u64 option \<Rightarrow> ApiError + ResolveResponse" where
  "snapshot_lookup snapshot path if_revision =
     rbnd (ok_or (btm_get (nc_bindings snapshot) path) path_not_bound) (\<lambda>binding.
     case if_revision of
       Some expected_revision \<Rightarrow>
         if nb_revision binding \<noteq> expected_revision then Err revision_conflict
         else Ok (binding_response binding)
     | None \<Rightarrow> Ok (binding_response binding))"

definition resolve_snapshot ::
  "service_deps \<Rightarrow> AlphaService \<Rightarrow> TenantId \<Rightarrow> string \<Rightarrow> string \<Rightarrow> u64 option \<Rightarrow> u64 option
   \<Rightarrow> ResolveResponse svc_op" where
  "resolve_snapshot D svc tenant_id namespace path at_revision if_revision =
     bnd (lift_result (canonical_namespace_and_path namespace path)) (\<lambda>(ns, p).
     bnd (namespace_snapshot_at D svc tenant_id ns at_revision) (\<lambda>snapshot.
     lift_result (snapshot_lookup snapshot p if_revision)))"

text \<open>\<open>the\<close> is the \<open>expect\<close> of the source: both callers validate the selector first.\<close>

definition selector_resolution ::
  "service_deps \<Rightarrow> AlphaService \<Rightarrow> TenantId \<Rightarrow> ObjectSelector \<Rightarrow> SelectorResolution svc_op" where
  "selector_resolution D svc tenant_id selector =
     (case sel_kind selector of
        Sel_Cid \<Rightarrow>
          ret \<lparr>srs_manifest_cid = the (sel_cid selector), srs_namespace = None, srs_path = None,
               srs_revision = None, srs_record_cid = None\<rparr>
      | Sel_Namespace \<Rightarrow>
          let namespace = the (sel_namespace selector); path = the (sel_path selector) in
          bnd (resolve_snapshot D svc tenant_id namespace path None None) (\<lambda>resolved.
          bnd (ensure (\<not> rr_tombstone resolved)
                 (api_error Cat_NotFound ''path_tombstoned'' ''namespace path is tombstoned'')) (\<lambda>_.
          bnd (lift_result (ok_or (rr_manifest_cid resolved)
                 (api_error Cat_NotFound ''path_not_bound''
                    ''namespace path does not resolve to a committed object''))) (\<lambda>mcid.
          ret \<lparr>srs_manifest_cid = mcid, srs_namespace = Some namespace, srs_path = Some path,
               srs_revision = Some (rr_revision resolved), srs_record_cid = Some (rr_record_cid resolved)\<rparr>))))"

end
