(* ===== verification/HSP_Service.thy ===== *)
theory HSP_Service
  imports HSP_Service_Base
begin

text \<open>
  The mutating operations of \<open>AlphaService\<close> (\<open>crates/hsp-service/src/lib.rs\<close>): the upload protocol
  (\<open>put_init\<close>, \<open>put_chunk\<close>, \<open>put_commit\<close>) and the namespace (\<open>resolve\<close>, \<open>bind\<close>,
  \<open>unbind\<close>). Each is a computation on the service state in the order of the source.
\<close>

definition auth_meta :: "OperationName \<Rightarrow> TenantId \<Rightarrow> string \<Rightarrow> AuthRequestMeta" where
  "auth_meta operation tenant_id subject =
     \<lparr>am_operation = operation, am_tenant_id = tenant_id, am_subject = subject, am_namespace = None,
      am_path = None, am_content_size = None, am_storage_class = None, am_key_policy_id = None,
      am_encryption_profile_id = None, am_metadata_visibility = None, am_idempotency_key = None\<rparr>"

definition observe_op ::
  "u64 \<Rightarrow> string \<Rightarrow> TenantId \<Rightarrow> string option \<Rightarrow> u16 \<Rightarrow> string \<Rightarrow> u64 option \<Rightarrow> string option
   \<Rightarrow> (service, 'e, unit) comp" where
  "observe_op started_at_ms operation tenant_id namespace status_code outcome object_size error_code =
     bnd (elapsed_ms started_at_ms) (\<lambda>latency_ms.
     record_observation
       \<lparr>ob_operation = operation, ob_tenant_id = tenant_id, ob_namespace = namespace,
        ob_status_code = status_code, ob_outcome = outcome, ob_latency_ms = latency_ms,
        ob_object_size_bytes = object_size, ob_error_code = error_code\<rparr>)"

definition validation_error :: "string \<Rightarrow> string \<Rightarrow> ApiError" where
  "validation_error code message = api_error Cat_Validation code message"

section \<open>Uploading\<close>

definition put_init_validate :: "PutInitRequest \<Rightarrow> ApiError + unit" where
  "put_init_validate request =
     (let manifest = pi_manifest request; descriptor = mf_encryption_descriptor manifest in
      rbnd (manifest_validate manifest) (\<lambda>_.
      if mf_tenant_id manifest \<noteq> pi_tenant_id request then
        Err (validation_error ''manifest_tenant_mismatch'' ''manifest tenant_id must match request tenant_id'')
      else if ed_key_policy_id descriptor \<noteq> pi_key_policy_id request then
        Err (validation_error ''manifest_key_policy_mismatch''
               ''manifest encryption descriptor key_policy_id must match PUT_INIT key_policy_id'')
      else if ed_encryption_profile_id descriptor \<noteq> pi_encryption_profile_id request then
        Err (validation_error ''manifest_encryption_profile_mismatch''
               ''manifest encryption descriptor encryption_profile_id must match PUT_INIT encryption_profile_id'')
      else if ed_metadata_visibility descriptor \<noteq> pi_metadata_visibility request then
        Err (validation_error ''manifest_visibility_mismatch''
               ''manifest metadata_visibility must match PUT_INIT metadata_visibility'')
      else Ok ()))"

primrec missing_chunks :: "service_deps \<Rightarrow> AlphaService \<Rightarrow> TenantId \<Rightarrow> ChunkRef list \<Rightarrow> u32 list svc_op" where
  "missing_chunks D svc tenant_id [] = ret []"
| "missing_chunks D svc tenant_id (chunk # chunks) =
     bnd (chunk_exists D svc tenant_id (cr_cid chunk)) (\<lambda>exists.
     bnd (missing_chunks D svc tenant_id chunks) (\<lambda>rest.
     ret (if exists then rest else cr_chunk_index chunk # rest)))"

definition put_init_meta :: "PutInitRequest \<Rightarrow> string \<Rightarrow> AuthRequestMeta" where
  "put_init_meta request mcid =
     (auth_meta Op_PutInit (pi_tenant_id request) mcid)
       \<lparr>am_namespace := map_option ab_namespace (pi_atomic_bind request),
        am_path := map_option ab_path (pi_atomic_bind request),
        am_content_size := Some (mf_stored_size (pi_manifest request)),
        am_storage_class := Some (pi_storage_class request),
        am_key_policy_id := Some (pi_key_policy_id request),
        am_encryption_profile_id := Some (pi_encryption_profile_id request),
        am_metadata_visibility := Some (pi_metadata_visibility request),
        am_idempotency_key := Some (pi_idempotency_key request)\<rparr>"

definition put_init_fresh ::
  "service_deps \<Rightarrow> AlphaService \<Rightarrow> PutInitRequest \<Rightarrow> string \<Rightarrow> string \<Rightarrow> u64 \<Rightarrow> PutInitResponse svc_op" where
  "put_init_fresh D svc request mcid idem_key started_at_ms =
     bnd (missing_chunks D svc (pi_tenant_id request) (mf_chunk_refs (pi_manifest request))) (\<lambda>missing.
     bnd now_ms (\<lambda>created_at_ms.
     bnd now_ms (\<lambda>now.
     let session_record =
           \<lparr>us_session_id = ''session-'' @ mcid, us_tenant_id = pi_tenant_id request,
            us_manifest = pi_manifest request, us_manifest_cid = mcid,
            us_idempotency_key = pi_idempotency_key request, us_storage_class = pi_storage_class request,
            us_atomic_bind = pi_atomic_bind request, us_uploaded_chunks = [], us_committed = False,
            us_created_at_ms = created_at_ms, us_upload_deadline_ms = now + 15 * 60 * 1000\<rparr> in
     bnd (write_encrypted_json D svc (json_session D) (pi_tenant_id request) ''sessions''
            (us_session_id session_record) session_record) (\<lambda>_.
     let response =
           \<lparr>pir_session_id = us_session_id session_record, pir_missing_chunks = missing,
            pir_accepted_manifest_cid = mcid,
            pir_upload_deadline_ms = us_upload_deadline_ms session_record,
            pir_max_parallel_chunk_streams = lim_max_parallel_chunk_streams (ir_limits info)\<rparr> in
     bnd (write_encrypted_json D svc (json_idem_put_init D) (pi_tenant_id request) ''idempotency''
            idem_key \<lparr>idr_response = response\<rparr>) (\<lambda>_.
     bnd (observe_op started_at_ms ''put_init'' (pi_tenant_id request)
            (map_option ab_namespace (pi_atomic_bind request)) 200 ''ok''
            (Some (mf_stored_size (pi_manifest request))) None) (\<lambda>_.
     ret response))))))"

definition put_init :: "service_deps \<Rightarrow> AlphaService \<Rightarrow> AuthContext \<Rightarrow> PutInitRequest \<Rightarrow> PutInitResponse svc_op" where
  "put_init D svc auth request =
     bnd now_ms (\<lambda>started_at_ms.
     bnd (lift_result (put_init_validate request)) (\<lambda>_.
     let mcid = manifest_cid D (pi_manifest request) in
     bnd (service_authorize D svc auth (put_init_meta request mcid)) (\<lambda>decision.
     let idem_key = idempotency_key D (pi_tenant_id request) ''put_init'' (pi_idempotency_key request) in
     bnd (if ad_replay_status decision = IdempotentRetry then
            read_encrypted_json D svc (json_idem_put_init D) (pi_tenant_id request) ''idempotency'' idem_key
          else ret None) (\<lambda>earlier.
     case earlier of
       Some rec \<Rightarrow>
         bnd (observe_op started_at_ms ''put_init'' (pi_tenant_id request)
                (map_option ab_namespace (pi_atomic_bind request)) 200 ''idempotent_retry''
                (Some (mf_stored_size (pi_manifest request))) None) (\<lambda>_.
         ret (idr_response rec))
     | None \<Rightarrow> put_init_fresh D svc request mcid idem_key started_at_ms))))"

definition upload_session_not_found :: ApiError where
  "upload_session_not_found = api_error Cat_NotFound ''upload_session_not_found'' ''upload session not found''"

definition read_session ::
  "service_deps \<Rightarrow> AlphaService \<Rightarrow> TenantId \<Rightarrow> string \<Rightarrow> UploadSessionRecord svc_op" where
  "read_session D svc tenant_id session_id =
     bnd (read_encrypted_json D svc (json_session D) tenant_id ''sessions'' session_id) (\<lambda>found.
     lift_result (ok_or found upload_session_not_found))"

definition put_chunk_check :: "UploadSessionRecord \<Rightarrow> PutChunkRequest \<Rightarrow> byte list \<Rightarrow> ApiError + unit" where
  "put_chunk_check session request ciphertext_chunk =
     (if us_committed session then
        Err (api_error Cat_Conflict ''upload_session_already_committed'' ''upload session is already committed'')
      else
        rbnd (ok_or (List.find (\<lambda>chunk. cr_chunk_index chunk = pc_chunk_index request)
                       (mf_chunk_refs (us_manifest session)))
                (validation_error ''unknown_chunk_index''
                   ''chunk_index is not present in the upload session manifest'')) (\<lambda>manifest_chunk.
        if cr_cid manifest_chunk \<noteq> pc_chunk_cid request \<or> cr_offset manifest_chunk \<noteq> pc_chunk_offset request
           \<or> cr_stored_len manifest_chunk \<noteq> pc_chunk_length request then
          Err (validation_error ''chunk_descriptor_mismatch''
                 ''chunk descriptor does not match manifest chunk reference'')
        else if pc_chunk_length request \<noteq> usize_u64 (length ciphertext_chunk) then
          Err (validation_error ''chunk_length_mismatch''
                 ''PUT_CHUNK chunk_length must match the actual ciphertext payload length'')
        else if usize_u64 (length ciphertext_chunk) > lim_max_chunk_size (ir_limits info) then
          Err (validation_error ''chunk_too_large'' ''ciphertext chunk exceeds max_chunk_size'')
        else Ok ()))"

definition put_chunk_meta :: "PutChunkRequest \<Rightarrow> UploadSessionRecord \<Rightarrow> nat \<Rightarrow> AuthRequestMeta" where
  "put_chunk_meta request session len =
     (auth_meta Op_PutChunk (pc_tenant_id request)
        (pc_session_id request @ '':'' @ show_nat (unat (pc_chunk_index request))))
       \<lparr>am_content_size := Some (usize_u64 len), am_storage_class := Some (us_storage_class session),
        am_key_policy_id := Some (ed_key_policy_id (mf_encryption_descriptor (us_manifest session))),
        am_encryption_profile_id :=
          Some (ed_encryption_profile_id (mf_encryption_descriptor (us_manifest session)))\<rparr>"

definition put_chunk ::
  "service_deps \<Rightarrow> AlphaService \<Rightarrow> AuthContext \<Rightarrow> PutChunkRequest \<Rightarrow> byte list \<Rightarrow> PutChunkResponse svc_op" where
  "put_chunk D svc auth request ciphertext_chunk =
     bnd now_ms (\<lambda>started_at_ms.
     if cid_from_bytes D ciphertext_chunk \<noteq> pc_chunk_cid request then
       bnd (observe_op started_at_ms ''integrity_error'' (pc_tenant_id request) None 400 ''integrity_error''
              (Some (usize_u64 (length ciphertext_chunk))) (Some ''chunk_cid_mismatch'')) (\<lambda>_.
       throw (validation_error ''chunk_cid_mismatch'' ''chunk ciphertext CID does not match request.chunk_cid''))
     else
       bnd (read_session D svc (pc_tenant_id request) (pc_session_id request)) (\<lambda>session.
       bnd (lift_result (put_chunk_check session request ciphertext_chunk)) (\<lambda>_.
       bnd (service_authorize D svc auth (put_chunk_meta request session (length ciphertext_chunk))) (\<lambda>_.
       bnd (chunk_exists D svc (pc_tenant_id request) (pc_chunk_cid request)) (\<lambda>duplicate.
       bnd (if \<not> duplicate then
              write_encrypted_bytes D svc (pc_tenant_id request) ''chunks'' (pc_chunk_cid request) ciphertext_chunk
            else ret ()) (\<lambda>_.
       let updated =
             (if pc_chunk_index request \<notin> set (us_uploaded_chunks session) then
                session\<lparr>us_uploaded_chunks := sort (us_uploaded_chunks session @ [pc_chunk_index request])\<rparr>
              else session) in
       bnd (write_encrypted_json D svc (json_session D) (pc_tenant_id request) ''sessions''
              (pc_session_id request) updated) (\<lambda>_.
       bnd (observe_op started_at_ms ''put_chunk'' (pc_tenant_id request) None 200
              (if duplicate then ''duplicate'' else ''ok'') (Some (usize_u64 (length ciphertext_chunk))) None) (\<lambda>_.
       ret \<lparr>pcr_stored = \<not> duplicate, pcr_duplicate = duplicate, pcr_verified_cid = True\<rparr>))))))))"

section \<open>The namespace\<close>

definition issuer_registry_missing :: ApiError where
  "issuer_registry_missing =
     api_error Cat_Policy ''issuer_registry_missing'' ''signed namespace mutations require an issuer registry''"

definition verify_signed_bind_record ::
  "service_deps \<Rightarrow> AlphaService \<Rightarrow> BindRequest \<Rightarrow> string \<Rightarrow> string \<Rightarrow> ApiError + NamespaceMutationRecord" where
  "verify_signed_bind_record D svc request namespace path =
     rbnd (ok_or (as_issuer_registry svc) issuer_registry_missing) (\<lambda>registry.
     rbnd (verify_signed_namespace_record (auth_code D) (br_signed_record_b64 request) registry) (\<lambda>rec.
     if nm_tenant_id rec \<noteq> br_tenant_id request \<or> nm_namespace rec \<noteq> namespace \<or> nm_path rec \<noteq> path
        \<or> nm_kind rec \<noteq> NM_Bind \<or> nm_target_cid rec \<noteq> Some (br_target_cid request)
        \<or> nm_if_revision rec \<noteq> br_if_revision request \<or> nm_ttl_ms rec \<noteq> br_ttl_ms request
        \<or> nm_metadata rec \<noteq> br_metadata request then
       Err (api_error Cat_Auth ''signed_record_mismatch''
              ''signed namespace mutation does not match bind request'')
     else rbnd (mutation_record_validate rec) (\<lambda>_. Ok rec)))"

definition verify_signed_unbind_record ::
  "service_deps \<Rightarrow> AlphaService \<Rightarrow> UnbindRequest \<Rightarrow> string \<Rightarrow> string \<Rightarrow> ApiError + NamespaceMutationRecord" where
  "verify_signed_unbind_record D svc request namespace path =
     rbnd (ok_or (as_issuer_registry svc) issuer_registry_missing) (\<lambda>registry.
     rbnd (verify_signed_namespace_record (auth_code D) (ub_signed_record_b64 request) registry) (\<lambda>rec.
     let expected_kind = (if ub_hard_delete request then NM_HardDelete else NM_Unbind) in
     if nm_tenant_id rec \<noteq> ub_tenant_id request \<or> nm_namespace rec \<noteq> namespace \<or> nm_path rec \<noteq> path
        \<or> nm_kind rec \<noteq> expected_kind \<or> nm_if_revision rec \<noteq> Some (ub_if_revision request) then
       Err (api_error Cat_Auth ''signed_record_mismatch''
              ''signed namespace mutation does not match unbind request'')
     else rbnd (mutation_record_validate rec) (\<lambda>_. Ok rec)))"

definition namespace_meta :: "OperationName \<Rightarrow> TenantId \<Rightarrow> string \<Rightarrow> string \<Rightarrow> AuthRequestMeta" where
  "namespace_meta operation tenant_id namespace path =
     (auth_meta operation tenant_id (namespace @ '':'' @ path))
       \<lparr>am_namespace := Some namespace, am_path := Some path\<rparr>"

definition bind_precondition :: "BindRequest \<Rightarrow> NamespaceBindingState option \<Rightarrow> ApiError + unit" where
  "bind_precondition request existing =
     (if br_if_absent request \<and> (case existing of None \<Rightarrow> False | Some b \<Rightarrow> \<not> nb_tombstone b) then
        Err (api_error Cat_Conflict ''revision_conflict'' ''path is already bound'')
      else
        case br_if_revision request of
          None \<Rightarrow> Ok ()
        | Some expected_revision \<Rightarrow>
            if (case existing of None \<Rightarrow> 0 | Some b \<Rightarrow> nb_revision b) \<noteq> expected_revision then
              Err revision_conflict
            else Ok ())"

definition bound_state :: "string \<Rightarrow> BindRequest \<Rightarrow> u64 \<Rightarrow> string \<Rightarrow> NamespaceBindingState" where
  "bound_state path request revision rcid =
     \<lparr>nb_path = path, nb_target_cid = Some (br_target_cid request),
      nb_manifest_cid = Some (br_target_cid request), nb_revision = revision, nb_record_cid = rcid,
      nb_metadata = br_metadata request, nb_tombstone = False\<rparr>"

text \<open>The part \<open>bind\<close> and \<open>unbind\<close> share: a new revision, the current state, the journal.\<close>

definition namespace_change ::
  "service_deps \<Rightarrow> AlphaService \<Rightarrow> TenantId \<Rightarrow> string \<Rightarrow> (u64 \<Rightarrow> NamespaceCurrentState)
   \<Rightarrow> (u64 \<Rightarrow> NamespaceJournalEntry) \<Rightarrow> u64 svc_op" where
  "namespace_change D svc tenant_id namespace state entry =
     bnd (next_namespace_revision D svc tenant_id namespace) (\<lambda>revision.
     bnd (write_namespace_current_state D svc tenant_id namespace (state revision)) (\<lambda>_.
     bnd (append_namespace_journal D svc tenant_id namespace (entry revision)) (\<lambda>_.
     ret revision)))"

definition bind_entry :: "NamespaceMutationRecord \<Rightarrow> NamespaceBindingState \<Rightarrow> NamespaceJournalEntry" where
  "bind_entry signed_record binding =
     \<lparr>nj_revision = nb_revision binding, nj_record = signed_record, nj_record_cid = nb_record_cid binding,
      nj_target_cid = nb_target_cid binding, nj_manifest_cid = nb_manifest_cid binding,
      nj_metadata = nb_metadata binding, nj_tombstone = False\<rparr>"

text \<open>After the change: the event, the audit record and the response.\<close>

definition bind_finish ::
  "service_deps \<Rightarrow> AlphaService \<Rightarrow> BindRequest \<Rightarrow> string \<Rightarrow> string \<Rightarrow> string \<Rightarrow> u64 \<Rightarrow> BindResponse svc_op" where
  "bind_finish D svc request namespace path rcid revision =
     bnd now_ms (\<lambda>at_ms.
     bnd (append_event D svc (br_tenant_id request)
            \<lparr>ev_version = 1, ev_seq = 0, ev_at_ms = at_ms, ev_event_type = NamespaceBound,
             ev_subject_kind = ''namespace'', ev_namespace = Some namespace, ev_path = Some path,
             ev_cid = Some (br_target_cid request), ev_revision = Some revision, ev_trace_id = None,
             ev_payload = br_metadata request\<rparr>) (\<lambda>event_seq.
     bnd (write_audit D svc (br_tenant_id request) event_seq (operation_as_str Op_Bind)
            (namespace @ '':'' @ path)) (\<lambda>_.
     ret \<lparr>bp_revision = revision, bp_record_cid = rcid, bp_event_seq = event_seq\<rparr>)))"

text \<open>\<open>bind_internal\<close> from the precondition on: the part that changes the namespace.\<close>

definition bind_apply ::
  "service_deps \<Rightarrow> AlphaService \<Rightarrow> BindRequest \<Rightarrow> string \<Rightarrow> string \<Rightarrow> NamespaceMutationRecord
   \<Rightarrow> BindResponse svc_op" where
  "bind_apply D svc request namespace path signed_record =
     bnd (ensure (\<not> (br_if_revision request = None \<and> \<not> br_if_absent request))
            (api_error Cat_Conflict ''precondition_required'' ''BIND requires if_revision or if_absent=true'')) (\<lambda>_.
     bnd (manifest_record D svc (br_tenant_id request) (br_target_cid request)) (\<lambda>_.
     bnd (namespace_current_state D svc (br_tenant_id request) namespace) (\<lambda>current.
     bnd (lift_result (bind_precondition request (btm_get (nc_bindings current) path))) (\<lambda>_.
     let rcid = record_cid D signed_record; binding = (\<lambda>revision. bound_state path request revision rcid) in
     bnd (namespace_change D svc (br_tenant_id request) namespace
            (\<lambda>revision. current\<lparr>nc_revision := revision,
                       nc_bindings := btm_insert path (binding revision) (nc_bindings current)\<rparr>)
            (\<lambda>revision. bind_entry signed_record (binding revision))) (\<lambda>revision.
     bind_finish D svc request namespace path rcid revision)))))"

definition bind_internal ::
  "service_deps \<Rightarrow> AlphaService \<Rightarrow> AuthContext \<Rightarrow> BindRequest \<Rightarrow> bool \<Rightarrow> BindResponse svc_op" where
  "bind_internal D svc auth request persist_idempotency =
     bnd (lift_result (canonical_namespace_and_path (br_namespace request) (br_path request))) (\<lambda>(namespace, path).
     bnd (lift_result (verify_signed_bind_record D svc request namespace path)) (\<lambda>signed_record.
     bnd (service_authorize D svc auth
            ((namespace_meta Op_Bind (br_tenant_id request) namespace path)
               \<lparr>am_idempotency_key := Some (br_idempotency_key request)\<rparr>)) (\<lambda>decision.
     let idem_key = idempotency_key D (br_tenant_id request) ''bind'' (br_idempotency_key request) in
     bnd (if persist_idempotency \<and> ad_replay_status decision = IdempotentRetry then
            read_encrypted_json D svc (json_idem_bind D) (br_tenant_id request) ''idempotency'' idem_key
          else ret None) (\<lambda>earlier.
     case earlier of
       Some rec \<Rightarrow> ret (idr_response rec)
     | None \<Rightarrow>
         bnd (bind_apply D svc request namespace path signed_record) (\<lambda>response.
         bnd (if persist_idempotency then
                write_encrypted_json D svc (json_idem_bind D) (br_tenant_id request) ''idempotency'' idem_key
                  \<lparr>idr_response = response\<rparr>
              else ret ()) (\<lambda>_.
         ret response))))))"

definition bind_op :: "service_deps \<Rightarrow> AlphaService \<Rightarrow> AuthContext \<Rightarrow> BindRequest \<Rightarrow> BindResponse svc_op" where
  "bind_op D svc auth request = bind_internal D svc auth request True"

definition unbound_state :: "string \<Rightarrow> u64 \<Rightarrow> string \<Rightarrow> NamespaceBindingState" where
  "unbound_state path revision rcid =
     \<lparr>nb_path = path, nb_target_cid = None, nb_manifest_cid = None, nb_revision = revision,
      nb_record_cid = rcid, nb_metadata = [], nb_tombstone = True\<rparr>"

definition unbind_entry :: "NamespaceMutationRecord \<Rightarrow> string \<Rightarrow> bool \<Rightarrow> u64 \<Rightarrow> NamespaceJournalEntry" where
  "unbind_entry signed_record rcid tombstone revision =
     \<lparr>nj_revision = revision, nj_record = signed_record, nj_record_cid = rcid,
      nj_target_cid = None, nj_manifest_cid = None, nj_metadata = [], nj_tombstone = tombstone\<rparr>"

definition unbind_finish ::
  "service_deps \<Rightarrow> AlphaService \<Rightarrow> UnbindRequest \<Rightarrow> string \<Rightarrow> string \<Rightarrow> string \<Rightarrow> bool \<Rightarrow> u64 \<Rightarrow> UnbindResponse svc_op" where
  "unbind_finish D svc request namespace path rcid tombstone revision =
     bnd now_ms (\<lambda>at_ms.
     bnd (append_event D svc (ub_tenant_id request)
            \<lparr>ev_version = 1, ev_seq = 0, ev_at_ms = at_ms,
             ev_event_type = (if tombstone then NamespaceTombstoned else NamespaceUnbound),
             ev_subject_kind = ''namespace'', ev_namespace = Some namespace, ev_path = Some path,
             ev_cid = None, ev_revision = Some revision, ev_trace_id = None, ev_payload = []\<rparr>) (\<lambda>event_seq.
     bnd (write_audit D svc (ub_tenant_id request) event_seq (operation_as_str Op_Unbind)
            (namespace @ '':'' @ path)) (\<lambda>_.
     ret \<lparr>up_revision = revision, up_record_cid = rcid, up_event_seq = event_seq, up_tombstone = tombstone\<rparr>)))"

definition unbind_apply ::
  "service_deps \<Rightarrow> AlphaService \<Rightarrow> UnbindRequest \<Rightarrow> string \<Rightarrow> string \<Rightarrow> NamespaceMutationRecord
   \<Rightarrow> UnbindResponse svc_op" where
  "unbind_apply D svc request namespace path signed_record =
     bnd (namespace_current_state D svc (ub_tenant_id request) namespace) (\<lambda>current.
     bnd (lift_result (ok_or (btm_get (nc_bindings current) path) path_not_bound)) (\<lambda>existing.
     bnd (ensure (nb_revision existing = ub_if_revision request) revision_conflict) (\<lambda>_.
     let rcid = record_cid D signed_record; tombstone = (\<not> ub_hard_delete request) in
     bnd (namespace_change D svc (ub_tenant_id request) namespace
            (\<lambda>revision. current\<lparr>nc_revision := revision,
               nc_bindings := (if tombstone then btm_insert path (unbound_state path revision rcid) (nc_bindings current)
                               else btm_remove path (nc_bindings current))\<rparr>)
            (unbind_entry signed_record rcid tombstone)) (\<lambda>revision.
     unbind_finish D svc request namespace path rcid tombstone revision))))"

definition unbind_internal ::
  "service_deps \<Rightarrow> AlphaService \<Rightarrow> AuthContext \<Rightarrow> UnbindRequest \<Rightarrow> bool \<Rightarrow> UnbindResponse svc_op" where
  "unbind_internal D svc auth request persist_idempotency =
     bnd now_ms (\<lambda>started_at_ms.
     bnd (lift_result (canonical_namespace_and_path (ub_namespace request) (ub_path request))) (\<lambda>(namespace, path).
     bnd (lift_result (verify_signed_unbind_record D svc request namespace path)) (\<lambda>signed_record.
     bnd (ensure (\<not> (ub_hard_delete request \<and> Sc_AdminRepair \<notin> set (cl_ops (ac_claims auth))))
            (api_error Cat_Policy ''hard_delete_requires_admin'' ''hard delete requires admin.repair scope'')) (\<lambda>_.
     bnd (service_authorize D svc auth
            ((namespace_meta Op_Unbind (ub_tenant_id request) namespace path)
               \<lparr>am_idempotency_key := Some (ub_idempotency_key request)\<rparr>)) (\<lambda>decision.
     let idem_key = idempotency_key D (ub_tenant_id request) ''unbind'' (ub_idempotency_key request) in
     bnd (if persist_idempotency \<and> ad_replay_status decision = IdempotentRetry then
            read_encrypted_json D svc (json_idem_unbind D) (ub_tenant_id request) ''idempotency'' idem_key
          else ret None) (\<lambda>earlier.
     case earlier of
       Some rec \<Rightarrow>
         bnd (observe_op started_at_ms ''delete'' (ub_tenant_id request) (Some namespace) 200
                ''idempotent_retry'' None None) (\<lambda>_.
         ret (idr_response rec))
     | None \<Rightarrow>
         bnd (unbind_apply D svc request namespace path signed_record) (\<lambda>response.
         bnd (if persist_idempotency then
                write_encrypted_json D svc (json_idem_unbind D) (ub_tenant_id request) ''idempotency'' idem_key
                  \<lparr>idr_response = response\<rparr>
              else ret ()) (\<lambda>_.
         bnd (observe_op started_at_ms ''delete'' (ub_tenant_id request) (Some namespace) 200
                (if up_tombstone response then ''tombstoned'' else ''hard_deleted'') None None) (\<lambda>_.
         ret response)))))))))"

definition unbind_op :: "service_deps \<Rightarrow> AlphaService \<Rightarrow> AuthContext \<Rightarrow> UnbindRequest \<Rightarrow> UnbindResponse svc_op" where
  "unbind_op D svc auth request = unbind_internal D svc auth request True"

definition resolve :: "service_deps \<Rightarrow> AlphaService \<Rightarrow> AuthContext \<Rightarrow> ResolveRequest \<Rightarrow> ResolveResponse svc_op" where
  "resolve D svc auth request =
     bnd (lift_result (canonical_namespace_and_path (rs_namespace request) (rs_path request))) (\<lambda>(namespace, path).
     bnd (service_authorize D svc auth (namespace_meta Op_Resolve (rs_tenant_id request) namespace path)) (\<lambda>_.
     bnd (namespace_snapshot_at D svc (rs_tenant_id request) namespace (rs_at_revision request)) (\<lambda>snapshot.
     lift_result (snapshot_lookup snapshot path (rs_if_revision request)))))"

section \<open>Committing an upload\<close>

definition put_commit_meta :: "PutCommitRequest \<Rightarrow> UploadSessionRecord \<Rightarrow> AuthRequestMeta" where
  "put_commit_meta request session =
     (auth_meta Op_PutCommit (pm_tenant_id request) (pm_session_id request))
       \<lparr>am_namespace := map_option ab_namespace (us_atomic_bind session),
        am_path := map_option ab_path (us_atomic_bind session),
        am_content_size := Some (mf_stored_size (us_manifest session)),
        am_storage_class := Some (us_storage_class session),
        am_key_policy_id := Some (ed_key_policy_id (mf_encryption_descriptor (us_manifest session))),
        am_encryption_profile_id :=
          Some (ed_encryption_profile_id (mf_encryption_descriptor (us_manifest session))),
        am_idempotency_key := Some (pm_idempotency_key request)\<rparr>"

definition missing_chunk_message :: "string \<Rightarrow> string" where
  "missing_chunk_message cid = ''missing ciphertext chunk '' @ cid"

primrec require_chunks :: "service_deps \<Rightarrow> AlphaService \<Rightarrow> TenantId \<Rightarrow> ChunkRef list \<Rightarrow> unit svc_op" where
  "require_chunks D svc tenant_id [] = ret ()"
| "require_chunks D svc tenant_id (chunk_ref # chunk_refs) =
     bnd (chunk_exists D svc tenant_id (cr_cid chunk_ref)) (\<lambda>exists.
     if \<not> exists then
       throw (api_error Cat_Conflict ''missing_chunk'' (missing_chunk_message (cr_cid chunk_ref)))
     else require_chunks D svc tenant_id chunk_refs)"

definition atomic_bind_request :: "PutCommitRequest \<Rightarrow> string \<Rightarrow> AtomicBindRequest \<Rightarrow> BindRequest" where
  "atomic_bind_request request object_cid atomic_bind =
     \<lparr>br_tenant_id = pm_tenant_id request, br_namespace = ab_namespace atomic_bind,
      br_path = ab_path atomic_bind, br_target_cid = object_cid,
      br_if_revision = ab_if_revision atomic_bind, br_if_absent = (ab_if_revision atomic_bind = None),
      br_metadata = ab_metadata atomic_bind, br_ttl_ms = ab_ttl_ms atomic_bind,
      br_idempotency_key = pm_idempotency_key request,
      br_signed_record_b64 = ab_signed_record_b64 atomic_bind\<rparr>"

definition commit_bind ::
  "service_deps \<Rightarrow> AlphaService \<Rightarrow> AuthContext \<Rightarrow> PutCommitRequest \<Rightarrow> UploadSessionRecord \<Rightarrow> ManifestRecord
   \<Rightarrow> unit svc_op" where
  "commit_bind D svc auth request session mrec =
     (case us_atomic_bind session of
        None \<Rightarrow> ret ()
      | Some atomic_bind \<Rightarrow>
          on_error
            (bnd (bind_internal D svc auth (atomic_bind_request request (mrec_object_cid mrec) atomic_bind) False)
               (\<lambda>_. ret ())) (\<lambda>error.
            bnd (discard (delete_store_key D svc (pm_tenant_id request) ''manifests'' (mrec_manifest_cid mrec)))
              (\<lambda>_. throw error)))"

definition commit_record :: "PutCommitRequest \<Rightarrow> UploadSessionRecord \<Rightarrow> u64 \<Rightarrow> ManifestRecord" where
  "commit_record request session committed_at_ms =
     \<lparr>mrec_tenant_id = pm_tenant_id request, mrec_manifest = us_manifest session,
      mrec_manifest_cid = us_manifest_cid session, mrec_object_cid = us_manifest_cid session,
      mrec_storage_class = us_storage_class session, mrec_committed_at_ms = committed_at_ms\<rparr>"

definition commit_event :: "PutCommitRequest \<Rightarrow> UploadSessionRecord \<Rightarrow> ManifestRecord \<Rightarrow> u64 \<Rightarrow> EventRecord" where
  "commit_event request session mrec at_ms =
     \<lparr>ev_version = 1, ev_seq = 0, ev_at_ms = at_ms, ev_event_type = ObjectCommitted,
      ev_subject_kind = ''object'', ev_namespace = map_option ab_namespace (us_atomic_bind session),
      ev_path = map_option ab_path (us_atomic_bind session), ev_cid = Some (mrec_object_cid mrec),
      ev_revision = None, ev_trace_id = None,
      ev_payload =
        btm_insert ''manifest_cid'' (mrec_manifest_cid mrec)
          (btm_insert ''session_id'' (pm_session_id request) [])\<rparr>"

text \<open>\<open>put_commit\<close> after authorization and the idempotent retry: the part that changes the store.\<close>

definition put_commit_fresh ::
  "service_deps \<Rightarrow> AlphaService \<Rightarrow> AuthContext \<Rightarrow> PutCommitRequest \<Rightarrow> UploadSessionRecord \<Rightarrow> string \<Rightarrow> u64
   \<Rightarrow> PutCommitResponse svc_op" where
  "put_commit_fresh D svc auth request session idem_key started_at_ms =
     bnd (require_chunks D svc (pm_tenant_id request) (mf_chunk_refs (us_manifest session))) (\<lambda>_.
     bnd now_ms (\<lambda>committed_at_ms.
     let mrec = commit_record request session committed_at_ms in
     bnd (write_encrypted_json D svc (json_manifest_record D) (pm_tenant_id request) ''manifests''
            (mrec_manifest_cid mrec) mrec) (\<lambda>_.
     bnd (commit_bind D svc auth request session mrec) (\<lambda>_.
     bnd now_ms (\<lambda>at_ms.
     bnd (append_event D svc (pm_tenant_id request) (commit_event request session mrec at_ms)) (\<lambda>seq.
     bnd (write_audit D svc (pm_tenant_id request) seq (operation_as_str Op_PutCommit)
            (pm_session_id request)) (\<lambda>_.
     bnd (write_encrypted_json D svc (json_session D) (pm_tenant_id request) ''sessions''
            (pm_session_id request) (session\<lparr>us_committed := True\<rparr>)) (\<lambda>_.
     let response = \<lparr>pmr_object_cid = mrec_object_cid mrec, pmr_committed = True, pmr_event_seq = seq\<rparr> in
     bnd (write_encrypted_json D svc (json_idem_put_commit D) (pm_tenant_id request) ''idempotency''
            idem_key \<lparr>idr_response = response\<rparr>) (\<lambda>_.
     bnd (observe_op started_at_ms ''put'' (pm_tenant_id request)
            (map_option ab_namespace (us_atomic_bind session)) 200 ''ok''
            (Some (mf_stored_size (us_manifest session))) None) (\<lambda>_.
     ret response))))))))))"

definition put_commit ::
  "service_deps \<Rightarrow> AlphaService \<Rightarrow> AuthContext \<Rightarrow> PutCommitRequest \<Rightarrow> PutCommitResponse svc_op" where
  "put_commit D svc auth request =
     bnd now_ms (\<lambda>started_at_ms.
     bnd (read_session D svc (pm_tenant_id request) (pm_session_id request)) (\<lambda>session.
     bnd (ensure (us_manifest_cid session = pm_manifest_cid request)
            (api_error Cat_Conflict ''manifest_cid_mismatch''
               ''request manifest_cid does not match upload session manifest'')) (\<lambda>_.
     bnd (service_authorize D svc auth (put_commit_meta request session)) (\<lambda>decision.
     let idem_key = idempotency_key D (pm_tenant_id request) ''put_commit'' (pm_idempotency_key request) in
     bnd (if ad_replay_status decision = IdempotentRetry then
            read_encrypted_json D svc (json_idem_put_commit D) (pm_tenant_id request) ''idempotency'' idem_key
          else ret None) (\<lambda>earlier.
     case earlier of
       Some rec \<Rightarrow>
         bnd (observe_op started_at_ms ''put'' (pm_tenant_id request)
                (map_option ab_namespace (us_atomic_bind session)) 200 ''idempotent_retry''
                (Some (mf_stored_size (us_manifest session))) None) (\<lambda>_.
         ret (idr_response rec))
     | None \<Rightarrow> put_commit_fresh D svc auth request session idem_key started_at_ms)))))"

end
