(* ===== verification/HSP_Query.thy ===== *)
theory HSP_Query
  imports HSP_Service
begin

text \<open>
  The reading operations of \<open>AlphaService\<close> (\<open>crates/hsp-service/src/lib.rs\<close>): \<open>head\<close> and
  \<open>get\<close>, \<open>list\<close>, and the event stream \<open>subscribe_start\<close> and \<open>subscribe_poll\<close>.
\<close>

section \<open>Objects\<close>

definition selector_meta :: "OperationName \<Rightarrow> TenantId \<Rightarrow> SelectorResolution \<Rightarrow> AuthRequestMeta" where
  "selector_meta operation tenant_id resolution =
     (auth_meta operation tenant_id (srs_manifest_cid resolution))
       \<lparr>am_namespace := srs_namespace resolution, am_path := srs_path resolution\<rparr>"

definition head_response :: "ManifestRecord \<Rightarrow> SelectorResolution \<Rightarrow> HeadResponse" where
  "head_response rec resolution =
     (let manifest = mrec_manifest rec; descriptor = mf_encryption_descriptor manifest in
      \<lparr>hr_exists = True, hr_deleted = False, hr_cid = mrec_object_cid rec,
       hr_object_cid = mrec_object_cid rec, hr_manifest_cid = mrec_manifest_cid rec,
       hr_integrity_hash = mrec_object_cid rec, hr_storage_class = mrec_storage_class rec,
       hr_resolved_namespace = srs_namespace resolution, hr_resolved_path = srs_path resolution,
       hr_resolved_revision = srs_revision resolution, hr_resolved_record_cid = srs_record_cid resolution,
       hr_size_bytes = mf_logical_size manifest, hr_ciphertext_size_bytes = mf_stored_size manifest,
       hr_logical_size = mf_logical_size manifest, hr_stored_size = mf_stored_size manifest,
       hr_content_type = mf_content_type manifest, hr_created_at_ms = mf_created_at_ms manifest,
       hr_encryption_profile_id = ed_encryption_profile_id descriptor,
       hr_key_policy_id = ed_key_policy_id descriptor,
       hr_metadata_visibility = ed_metadata_visibility descriptor,
       hr_server_visible_metadata = ed_server_visible_metadata descriptor,
       hr_encrypted_client_metadata_redacted = (ed_encrypted_client_metadata descriptor \<noteq> [])\<rparr>)"

definition head :: "service_deps \<Rightarrow> AlphaService \<Rightarrow> AuthContext \<Rightarrow> HeadRequest \<Rightarrow> HeadResponse svc_op" where
  "head D svc auth request =
     bnd now_ms (\<lambda>started_at_ms.
     bnd (lift_result (selector_validate (hq_selector request))) (\<lambda>_.
     bnd (selector_resolution D svc (hq_tenant_id request) (hq_selector request)) (\<lambda>resolution.
     bnd (service_authorize D svc auth (selector_meta Op_Head (hq_tenant_id request) resolution)) (\<lambda>_.
     bnd (manifest_record D svc (hq_tenant_id request) (srs_manifest_cid resolution)) (\<lambda>rec.
     let response = head_response rec resolution in
     bnd (observe_op started_at_ms ''head'' (hq_tenant_id request) (hr_resolved_namespace response) 200 ''ok''
            (Some (hr_ciphertext_size_bytes response)) None) (\<lambda>_.
     ret response))))))"

definition get_meta :: "ManifestRecord \<Rightarrow> SelectorResolution \<Rightarrow> GetPreference \<Rightarrow> GetResponseMeta" where
  "get_meta rec resolution preference =
     (let manifest = mrec_manifest rec; descriptor = mf_encryption_descriptor manifest in
      \<lparr>gm_exists = True, gm_deleted = False, gm_cid = mrec_object_cid rec,
       gm_object_cid = mrec_object_cid rec, gm_manifest_cid = mrec_manifest_cid rec,
       gm_integrity_hash = mrec_object_cid rec, gm_storage_class = mrec_storage_class rec,
       gm_resolved_namespace = srs_namespace resolution, gm_resolved_path = srs_path resolution,
       gm_resolved_revision = srs_revision resolution, gm_resolved_record_cid = srs_record_cid resolution,
       gm_size_bytes = mf_logical_size manifest, gm_ciphertext_size_bytes = mf_stored_size manifest,
       gm_logical_size = mf_logical_size manifest, gm_stored_size = mf_stored_size manifest,
       gm_content_type = mf_content_type manifest, gm_created_at_ms = mf_created_at_ms manifest,
       gm_encryption_profile_id = ed_encryption_profile_id descriptor,
       gm_key_policy_id = ed_key_policy_id descriptor,
       gm_metadata_visibility = ed_metadata_visibility descriptor,
       gm_server_visible_metadata = ed_server_visible_metadata descriptor,
       gm_encrypted_client_metadata_redacted = (ed_encrypted_client_metadata descriptor \<noteq> []),
       gm_preference = preference, gm_manifest = None, gm_chunk_descriptors = []\<rparr>)"

definition invalid_range :: "string \<Rightarrow> ApiError" where
  "invalid_range message = validation_error ''invalid_range'' message"

definition get_range :: "RangeSpec option \<Rightarrow> u64 \<Rightarrow> ApiError + u64 \<times> u64" where
  "get_range range_opt logical_size =
     (case range_opt of
        Some r \<Rightarrow>
          if rg_end r \<ge> logical_size then Err (invalid_range ''range end is outside object logical size'')
          else Ok (rg_start r, rg_end r)
      | None \<Rightarrow> Ok (0, saturating_sub logical_size 1))"

text \<open>\<open>bytes.get(a..b)\<close>, none where the range is not inside the slice.\<close>

definition slice_get :: "'a list \<Rightarrow> nat \<Rightarrow> nat \<Rightarrow> 'a list option" where
  "slice_get xs a b = (if a \<le> b \<and> b \<le> length xs then Some (take (b - a) (drop a xs)) else None)"

definition chunk_end :: "ChunkRef \<Rightarrow> u64" where
  "chunk_end chunk_ref = saturating_add (cr_offset chunk_ref) (saturating_sub (cr_logical_len chunk_ref) 1)"

definition chunk_fragment :: "u64 \<Rightarrow> u64 \<Rightarrow> ChunkRef \<Rightarrow> GetChunkDescriptor" where
  "chunk_fragment range_start range_end chunk_ref =
     (let fragment_start = max range_start (cr_offset chunk_ref);
          fragment_end = min range_end (chunk_end chunk_ref) in
      \<lparr>gd_chunk_index = cr_chunk_index chunk_ref, gd_chunk_cid = cr_cid chunk_ref,
       gd_chunk_offset = cr_offset chunk_ref, gd_logical_range_start = fragment_start,
       gd_logical_range_end = fragment_end,
       gd_fragment_offset = saturating_sub fragment_start (cr_offset chunk_ref),
       gd_fragment_length = saturating_add (saturating_sub fragment_end fragment_start) 1,
       gd_content_encoding = cr_content_encoding chunk_ref\<rparr>)"

definition read_chunk :: "service_deps \<Rightarrow> AlphaService \<Rightarrow> TenantId \<Rightarrow> string \<Rightarrow> byte list svc_op" where
  "read_chunk D svc tenant_id cid =
     bnd (read_encrypted_bytes D svc tenant_id ''chunks'' cid) (\<lambda>found.
     lift_result (ok_or found (api_error Cat_NotFound ''missing_chunk'' (missing_chunk_message cid))))"

primrec get_chunks ::
  "service_deps \<Rightarrow> AlphaService \<Rightarrow> TenantId \<Rightarrow> u64 \<Rightarrow> u64 \<Rightarrow> ChunkRef list \<Rightarrow> GetChunk list svc_op" where
  "get_chunks D svc tenant_id range_start range_end [] = ret []"
| "get_chunks D svc tenant_id range_start range_end (chunk_ref # chunk_refs) =
     (if chunk_end chunk_ref < range_start \<or> cr_offset chunk_ref > range_end then
        get_chunks D svc tenant_id range_start range_end chunk_refs
      else
        let descriptor = chunk_fragment range_start range_end chunk_ref in
        bnd (read_chunk D svc tenant_id (cr_cid chunk_ref)) (\<lambda>bytes.
        bnd (lift_result (ok_or
               (slice_get bytes (unat (gd_fragment_offset descriptor))
                  (unat (gd_fragment_offset descriptor + gd_fragment_length descriptor)))
               (invalid_range ''requested chunk fragment does not match stored ciphertext length''))) (\<lambda>fragment.
        bnd (get_chunks D svc tenant_id range_start range_end chunk_refs) (\<lambda>rest.
        ret (\<lparr>gc_descriptor = descriptor, gc_bytes = fragment\<rparr> # rest)))))"

definition get_validate :: "GetRequest \<Rightarrow> ApiError + unit" where
  "get_validate request =
     rbnd (selector_validate (gq_selector request)) (\<lambda>_.
     case gq_range request of None \<Rightarrow> Ok () | Some r \<Rightarrow> range_validate r)"

definition get :: "service_deps \<Rightarrow> AlphaService \<Rightarrow> AuthContext \<Rightarrow> GetRequest \<Rightarrow> GetResponse svc_op" where
  "get D svc auth request =
     bnd now_ms (\<lambda>started_at_ms.
     bnd (lift_result (get_validate request)) (\<lambda>_.
     bnd (selector_resolution D svc (gq_tenant_id request) (gq_selector request)) (\<lambda>resolution.
     bnd (service_authorize D svc auth (selector_meta Op_Get (gq_tenant_id request) resolution)) (\<lambda>_.
     bnd (manifest_record D svc (gq_tenant_id request) (srs_manifest_cid resolution)) (\<lambda>rec.
     let preference = (case gq_preference request of None \<Rightarrow> Pref_ChunkStream | Some p \<Rightarrow> p);
         meta = get_meta rec resolution preference;
         observe = (\<lambda>outcome. observe_op started_at_ms ''get'' (gq_tenant_id request)
                      (gm_resolved_namespace meta) 200 outcome (Some (gm_ciphertext_size_bytes meta)) None) in
     bnd (ensure (preference \<noteq> Pref_Raw)
            (api_error Cat_Unsupported ''unsupported_preference''
               ''raw GET is not supported in public E2EE beta'')) (\<lambda>_.
     if preference = Pref_ManifestOnly then
       bnd (observe ''manifest_only'') (\<lambda>_.
       ret \<lparr>gr_meta = meta\<lparr>gm_manifest := Some (mrec_manifest rec)\<rparr>, gr_chunks = []\<rparr>)
     else
       bnd (lift_result (get_range (gq_range request) (mf_logical_size (mrec_manifest rec)))) (\<lambda>(range_start, range_end).
       bnd (get_chunks D svc (gq_tenant_id request) range_start range_end
              (mf_chunk_refs (mrec_manifest rec))) (\<lambda>chunks.
       bnd (observe ''chunk_stream'') (\<lambda>_.
       ret \<lparr>gr_meta = meta\<lparr>gm_chunk_descriptors := map gc_descriptor chunks\<rparr>, gr_chunks = chunks\<rparr>)))))))))"

section \<open>Listing\<close>

definition list_canonical :: "ListRequest \<Rightarrow> ApiError + string \<times> string option" where
  "list_canonical request =
     rbnd (map_err (\<lambda>e. validation_error ''invalid_namespace'' (path_error_message e))
             (canonical_path (lr_namespace request))) (\<lambda>namespace.
     case lr_prefix request of
       None \<Rightarrow> Ok (namespace, None)
     | Some p \<Rightarrow>
         rbnd (map_err (\<lambda>e. validation_error ''invalid_prefix'' (path_error_message e))
                 (canonical_path p)) (\<lambda>cp.
         Ok (namespace, Some cp)))"

definition list_position ::
  "service_deps \<Rightarrow> AlphaService \<Rightarrow> ListRequest \<Rightarrow> string \<Rightarrow> string option \<Rightarrow> (u64 \<times> string option) svc_op" where
  "list_position D svc request namespace pfx =
     (case lr_cursor request of
        Some encoded \<Rightarrow>
          bnd (lift_result (list_cursor_decode D encoded)) (\<lambda>cursor.
          bnd (ensure (lc_tenant_id cursor = lr_tenant_id request \<and> lc_namespace cursor = namespace
                       \<and> lc_prefix cursor = pfx)
                 (invalid_cursor ''cursor does not match current list request'')) (\<lambda>_.
          ret (lc_snapshot_revision cursor, Some (lc_last_path cursor))))
      | None \<Rightarrow>
          bnd (namespace_current_state D svc (lr_tenant_id request) namespace) (\<lambda>current.
          ret (nc_revision current, None)))"

definition under_prefix :: "string option \<Rightarrow> string \<Rightarrow> bool" where
  "under_prefix pfx path =
     (case pfx of None \<Rightarrow> True | Some p \<Rightarrow> path = p \<or> starts_with path (p @ ''/''))"

definition list_items :: "string option \<Rightarrow> bool \<Rightarrow> NamespaceCurrentState \<Rightarrow> NamespaceBindingState list" where
  "list_items pfx include_tombstones snapshot =
     sort_key nb_path
       (filter (\<lambda>binding. include_tombstones \<or> \<not> nb_tombstone binding)
         (filter (\<lambda>binding. under_prefix pfx (nb_path binding)) (map snd (nc_bindings snapshot))))"

fun position :: "('a \<Rightarrow> bool) \<Rightarrow> 'a list \<Rightarrow> nat option" where
  "position P [] = None"
| "position P (x # xs) = (if P x then Some 0 else map_option Suc (position P xs))"

definition start_index :: "string option \<Rightarrow> NamespaceBindingState list \<Rightarrow> nat" where
  "start_index last_path items =
     (case last_path of
        None \<Rightarrow> 0
      | Some path \<Rightarrow>
          (case position (\<lambda>binding. nb_path binding = path) items of None \<Rightarrow> 0 | Some index \<Rightarrow> index + 1))"

definition list_item :: "string \<Rightarrow> NamespaceBindingState \<Rightarrow> ListItem" where
  "list_item namespace binding =
     \<lparr>li_namespace = namespace, li_path = nb_path binding, li_target_cid = nb_target_cid binding,
      li_manifest_cid = nb_manifest_cid binding, li_revision = nb_revision binding,
      li_record_cid = nb_record_cid binding, li_metadata = nb_metadata binding,
      li_tombstone = nb_tombstone binding\<rparr>"

definition list_page ::
  "'x core_deps_scheme \<Rightarrow> ListRequest \<Rightarrow> string \<Rightarrow> string option \<Rightarrow> u64 \<Rightarrow> string option
   \<Rightarrow> NamespaceCurrentState \<Rightarrow> ListResponse" where
  "list_page D request namespace pfx snapshot_revision last_path snapshot =
     (let limit = (case lr_limit request of None \<Rightarrow> 100 | Some n \<Rightarrow> unat n);
          all_items = list_items pfx (lr_include_tombstones request) snapshot;
          start = start_index last_path all_items;
          page = map (list_item namespace) (take limit (drop start all_items));
          truncated = start + length page < length all_items;
          cursor = \<lparr>lc_tenant_id = lr_tenant_id request, lc_namespace = namespace, lc_prefix = pfx,
                    lc_snapshot_revision = snapshot_revision,
                    lc_last_path = (if page = [] then [] else li_path (last page))\<rparr> in
      \<lparr>lp_items = page, lp_next_cursor = (if truncated then Some (list_cursor_encode D cursor) else None),
       lp_truncated = truncated, lp_namespace_revision_snapshot = snapshot_revision\<rparr>)"

definition list_op :: "service_deps \<Rightarrow> AlphaService \<Rightarrow> AuthContext \<Rightarrow> ListRequest \<Rightarrow> ListResponse svc_op" where
  "list_op D svc auth request =
     bnd (lift_result (list_canonical request)) (\<lambda>(namespace, pfx).
     bnd (service_authorize D svc auth
            ((auth_meta Op_List (lr_tenant_id request) (''list:'' @ namespace))
               \<lparr>am_namespace := Some namespace, am_path := pfx\<rparr>)) (\<lambda>_.
     bnd (list_position D svc request namespace pfx) (\<lambda>(snapshot_revision, last_path).
     bnd (namespace_snapshot_at D svc (lr_tenant_id request) namespace (Some snapshot_revision)) (\<lambda>snapshot.
     ret (list_page D request namespace pfx snapshot_revision last_path snapshot)))))"

section \<open>The event stream\<close>

definition filter_meta :: "TenantId \<Rightarrow> nat \<Rightarrow> SubscribeFilter \<Rightarrow> AuthRequestMeta" where
  "filter_meta tenant_id index flt =
     (auth_meta Op_Subscribe tenant_id (''events:filter:'' @ show_nat index))
       \<lparr>am_namespace := sf_namespace_prefix flt, am_path := sf_path_exact flt\<rparr>"

primrec authorize_filters ::
  "service_deps \<Rightarrow> AlphaService \<Rightarrow> AuthContext \<Rightarrow> TenantId \<Rightarrow> nat \<Rightarrow> SubscribeFilter list \<Rightarrow> unit svc_op" where
  "authorize_filters D svc auth tenant_id index [] = ret ()"
| "authorize_filters D svc auth tenant_id index (flt # filters) =
     bnd (service_authorize D svc auth (filter_meta tenant_id index flt)) (\<lambda>_.
     authorize_filters D svc auth tenant_id (Suc index) filters)"

definition ensure_event_cursor_within_window ::
  "service_deps \<Rightarrow> AlphaService \<Rightarrow> TenantId \<Rightarrow> u64 \<Rightarrow> unit svc_op" where
  "ensure_event_cursor_within_window D svc tenant_id next_seq =
     bnd (next_read_event_seq D svc tenant_id) (\<lambda>latest_next_seq.
     ensure (\<not> next_seq < saturating_sub latest_next_seq (st_event_replay_window_sec (settings svc)))
       (validation_error ''cursor_expired'' ''event cursor is outside the replay window''))"

definition subscribe_position :: "'x core_deps_scheme \<Rightarrow> SubscribeRequest \<Rightarrow> u64 \<Rightarrow> ApiError + u64" where
  "subscribe_position D request latest_next_seq =
     (case sr_cursor request of
        Some encoded \<Rightarrow>
          rbnd (event_cursor_decode D encoded) (\<lambda>decoded.
          if ec_tenant_id decoded \<noteq> sr_tenant_id request then
            Err (invalid_cursor ''event cursor tenant does not match request tenant'')
          else Ok (ec_next_seq decoded))
      | None \<Rightarrow> Ok (case sr_from_seq request of Some from_seq \<Rightarrow> from_seq | None \<Rightarrow> latest_next_seq))"

definition subscribe_start ::
  "service_deps \<Rightarrow> AlphaService \<Rightarrow> AuthContext \<Rightarrow> SubscribeRequest \<Rightarrow> EventCursor svc_op" where
  "subscribe_start D svc auth request =
     bnd (ensure (list_all (\<lambda>flt. sf_tenant_scope flt = None \<or>
                    sf_tenant_scope flt = Some (sr_tenant_id request)) (sr_filters request))
            (api_error Cat_Policy ''tenant_scope_mismatch''
               ''subscribe filter tenant_scope must match request tenant_id'')) (\<lambda>_.
     bnd (if sr_filters request = [] then
            bnd (service_authorize D svc auth (auth_meta Op_Subscribe (sr_tenant_id request) ''events''))
              (\<lambda>_. ret ())
          else authorize_filters D svc auth (sr_tenant_id request) 0 (sr_filters request)) (\<lambda>_.
     bnd (next_read_event_seq D svc (sr_tenant_id request)) (\<lambda>latest_next_seq.
     bnd (lift_result (subscribe_position D request latest_next_seq)) (\<lambda>next_seq.
     bnd (ensure_event_cursor_within_window D svc (sr_tenant_id request) next_seq) (\<lambda>_.
     ret \<lparr>ec_tenant_id = sr_tenant_id request, ec_next_seq = next_seq\<rparr>)))))"

text \<open>The loop over \<open>next_seq..latest_next_seq\<close>, with the events read so far.\<close>

primrec read_events ::
  "service_deps \<Rightarrow> AlphaService \<Rightarrow> TenantId \<Rightarrow> nat \<Rightarrow> u64 list \<Rightarrow> EventRecord list \<Rightarrow> EventRecord list svc_op" where
  "read_events D svc tenant_id batch_max [] items = ret items"
| "read_events D svc tenant_id batch_max (seq # seqs) items =
     (if length items \<ge> batch_max then ret items
      else
        bnd (read_encrypted_json D svc (json_event D) tenant_id ''events'' (event_key seq)) (\<lambda>found.
        read_events D svc tenant_id batch_max seqs
          (case found of None \<Rightarrow> items | Some event \<Rightarrow> items @ [event])))"

definition read_event_records_after ::
  "service_deps \<Rightarrow> AlphaService \<Rightarrow> TenantId \<Rightarrow> u64 \<Rightarrow> nat \<Rightarrow> EventRecord list svc_op" where
  "read_event_records_after D svc tenant_id next_seq batch_max =
     bnd (next_read_event_seq D svc tenant_id) (\<lambda>latest_next_seq.
     read_events D svc tenant_id batch_max
       (map word_of_nat [unat next_seq..<unat latest_next_seq]) [])"

definition event_matches_filter :: "EventRecord \<Rightarrow> SubscribeFilter \<Rightarrow> bool" where
  "event_matches_filter event flt \<longleftrightarrow>
     (case sf_namespace_prefix flt of
        None \<Rightarrow> True
      | Some namespace_prefix \<Rightarrow>
          (case ev_namespace event of
             None \<Rightarrow> False
           | Some namespace \<Rightarrow>
               namespace = namespace_prefix \<or> starts_with namespace (namespace_prefix @ ''/''))) \<and>
     (case sf_path_exact flt of None \<Rightarrow> True | Some path \<Rightarrow> ev_path event = Some path) \<and>
     (case sf_object_cid flt of None \<Rightarrow> True | Some cid \<Rightarrow> ev_cid event = Some cid) \<and>
     (case sf_event_type flt of None \<Rightarrow> True | Some event_type \<Rightarrow> ev_event_type event = event_type)"

definition poll_filter :: "SubscribeRequest \<Rightarrow> EventRecord \<Rightarrow> bool" where
  "poll_filter request event \<longleftrightarrow>
     sr_filters request = [] \<or> list_ex (event_matches_filter event) (sr_filters request)"

definition poll_cursor :: "SubscribeRequest \<Rightarrow> EventCursor \<Rightarrow> EventRecord list \<Rightarrow> EventCursor" where
  "poll_cursor request cursor filtered =
     \<lparr>ec_tenant_id = sr_tenant_id request,
      ec_next_seq = (if filtered = [] then ec_next_seq cursor else ev_seq (last filtered) + 1)\<rparr>"

definition poll_envelopes :: "'x core_deps_scheme \<Rightarrow> EventCursor \<Rightarrow> EventRecord list \<Rightarrow> SubscribeEnvelope list" where
  "poll_envelopes D next_cursor filtered =
     (if filtered = [] then
        [\<lparr>se_kind = Env_Notice, se_event = None,
          se_notice = Some \<lparr>nf_kind = ''heartbeat'', nf_message = None,
                            nf_cursor = Some (event_cursor_encode D next_cursor)\<rparr>\<rparr>]
      else map (\<lambda>event. \<lparr>se_kind = Env_Event, se_event = Some event, se_notice = None\<rparr>) filtered)"

definition subscribe_poll ::
  "service_deps \<Rightarrow> AlphaService \<Rightarrow> AuthContext \<Rightarrow> SubscribeRequest \<Rightarrow> EventCursor
   \<Rightarrow> (SubscribeEnvelope list \<times> EventCursor) svc_op" where
  "subscribe_poll D svc auth request cursor =
     bnd (subscribe_start D svc auth request) (\<lambda>_.
     let batch_max = (case sr_batch_max request of None \<Rightarrow> 64 | Some n \<Rightarrow> unat n) in
     bnd (read_event_records_after D svc (sr_tenant_id request) (ec_next_seq cursor) batch_max) (\<lambda>events.
     let filtered = filter (poll_filter request) events;
         next_cursor = poll_cursor request cursor filtered in
     ret (poll_envelopes D next_cursor filtered, next_cursor)))"

end
