(* ===== verification/HSP_Dist_Types.thy ===== *)
theory HSP_Dist_Types
  imports HSP_Query
begin

text \<open>
  The data of \<open>crates/hsp-distribution/src/lib.rs\<close>, the S3-like layer of buckets and objects over
  \<open>AlphaService\<close>: the records it stores, the requests it takes, the service, and the third-party
  code it calls.

  \<open>DistributionService\<close> never changes and is the argument \<open>ds\<close> of the operations; it holds the
  \<open>AlphaService\<close> it calls. What changes is the record \<open>service\<close> of that service. The third-party code
  of \<open>dist_deps\<close> is that of the service (\<open>alpha_code\<close>), the JSON form of the stored types, COSE
  signing, and the reading of an HTTP header value as text.
\<close>

section \<open>Stored records\<close>

record DistributionConfig =
  dc_alpha :: AlphaConfig
  dc_capability_audience :: string
  dc_immutable_cid_ttl_sec :: u64
  dc_namespace_ttl_sec :: u64
  dc_plaintext_profile_enabled :: bool
  dc_aws_kms :: "AwsKmsProviderConfig option"

record BucketRecord =
  bk_tenant_id :: TenantId
  bk_bucket :: string
  bk_namespace :: string
  bk_visibility_policy :: string
  bk_namespace_cache_ttl_sec :: u64
  bk_immutable_cid_cache_ttl_sec :: u64
  bk_created_at_ms :: u64

datatype AccessProfile = PublicCiphertext | TrustedEdgeV1

definition TRUSTED_EDGE_PROFILE :: string where
  "TRUSTED_EDGE_PROFILE = ''trusted-edge-v1''"

fun access_profile_as_str :: "AccessProfile \<Rightarrow> string" where
  "access_profile_as_str PublicCiphertext = ''public-ciphertext''"
| "access_profile_as_str TrustedEdgeV1 = TRUSTED_EDGE_PROFILE"

datatype CannedAcl = Acl_Private | Acl_PublicRead | Acl_AuthenticatedRead

fun canned_acl_as_str :: "CannedAcl \<Rightarrow> string" where
  "canned_acl_as_str Acl_Private = ''private''"
| "canned_acl_as_str Acl_PublicRead = ''public-read''"
| "canned_acl_as_str Acl_AuthenticatedRead = ''authenticated-read''"

record BucketAclRecord =
  ba_tenant_id :: TenantId
  ba_bucket :: string
  ba_acl :: CannedAcl
  ba_updated_at_ms :: u64

record ObjectAclRecord =
  oa_tenant_id :: TenantId
  oa_bucket :: string
  oa_key :: string
  oa_acl :: CannedAcl
  oa_updated_at_ms :: u64

record LifecycleRule =
  lcr_id :: string
  lcr_prefix :: "string option"
  lcr_expire_after_days :: "u32 option"
  lcr_transition_after_days :: "u32 option"
  lcr_transition_storage_class :: "string option"
  lcr_enabled :: bool

record LifecycleConfig =
  lcc_tenant_id :: TenantId
  lcc_bucket :: string
  lcc_rules :: "LifecycleRule list"
  lcc_updated_at_ms :: u64

record ObjectLockRecord =
  ol_tenant_id :: TenantId
  ol_bucket :: string
  ol_key :: string
  ol_immutable_until_ms :: "u64 option"
  ol_legal_hold :: bool
  ol_mode :: "string option"
  ol_updated_at_ms :: u64

record WebsiteConfig =
  wb_tenant_id :: TenantId
  wb_bucket :: string
  wb_enabled :: bool
  wb_index_document :: string
  wb_error_document :: string
  wb_access_profile :: AccessProfile
  wb_updated_at_ms :: u64

record ReplicationConfig =
  rcf_tenant_id :: TenantId
  rcf_source_bucket :: string
  rcf_destination_bucket :: string
  rcf_prefix :: "string option"
  rcf_enabled :: bool
  rcf_updated_at_ms :: u64

record ReplicationStatus =
  rst_tenant_id :: TenantId
  rst_source_bucket :: string
  rst_destination_bucket :: string
  rst_copied_objects :: u64
  rst_failed_objects :: u64
  rst_last_run_ms :: u64
  rst_last_error :: "string option"

record SigV4AccessKeyRecord =
  sk_access_key_id :: string
  sk_secret_access_key :: string
  sk_tenant_id :: TenantId
  sk_namespace_prefix :: "string option"
  sk_path_prefix :: "string option"
  sk_max_object_size :: "u64 option"
  sk_storage_classes :: "string list"
  sk_key_policy_id :: KeyPolicyId
  sk_metadata_visibility :: VisibilityMode
  sk_enabled :: bool

record DistributionMetadataRecord =
  dm_tenant_id :: TenantId
  dm_bucket :: string
  dm_edge_token_policy :: string
  dm_presign_enabled :: bool
  dm_updated_at_ms :: u64

record MultipartSessionRecord =
  ms_upload_id :: string
  ms_tenant_id :: TenantId
  ms_bucket :: string
  ms_key :: string
  ms_access_profile :: AccessProfile
  ms_payload_plaintext :: bool
  ms_content_type :: string
  ms_encryption_profile_id :: EncryptionProfileId
  ms_key_policy_id :: KeyPolicyId
  ms_metadata_visibility :: VisibilityMode
  ms_content_encryption_suite :: string
  ms_key_wrapping_suite :: string
  ms_wrapped_object_keys :: "WrappedObjectKeyRecord list"
  ms_server_visible_metadata :: metadata
  ms_encrypted_client_metadata :: metadata
  ms_storage_class :: string
  ms_initiated_at_ms :: u64
  ms_idempotency_key :: string
  ms_completed :: bool

record MultipartPartRecord =
  mp_upload_id :: string
  mp_part_number :: u32
  mp_etag :: string
  mp_length :: u64
  mp_created_at_ms :: u64

record PresignAuditRecord =
  pa_token_id :: string
  pa_tenant_id :: TenantId
  pa_method :: string
  pa_bucket :: "string option"
  pa_key :: "string option"
  pa_cid :: "string option"
  pa_expires_at_ms :: u64
  pa_created_at_ms :: u64

section \<open>Requests and responses\<close>

record BucketSummary =
  bsm_bucket :: string
  bsm_namespace :: string
  bsm_created_at_ms :: u64

record PutObjectRequest =
  po_tenant_id :: TenantId
  po_bucket :: string
  po_key :: string
  po_access_profile :: AccessProfile
  po_payload_plaintext :: bool
  po_content_type :: string
  po_encryption_profile_id :: EncryptionProfileId
  po_key_policy_id :: KeyPolicyId
  po_metadata_visibility :: VisibilityMode
  po_content_encryption_suite :: string
  po_key_wrapping_suite :: string
  po_wrapped_object_keys :: "WrappedObjectKeyRecord list"
  po_server_visible_metadata :: metadata
  po_encrypted_client_metadata :: metadata
  po_storage_class :: string
  po_idempotency_key :: string

record PutObjectResponse =
  por_bucket :: string
  por_key :: string
  por_object_cid :: string
  por_manifest_cid :: string
  por_etag :: string
  por_event_seq :: u64

record HeadObjectRequest =
  ho_tenant_id :: TenantId
  ho_bucket :: string
  ho_key :: string

record HeadObjectResponse =
  hor_exists :: bool
  hor_deleted :: bool
  hor_cid :: string
  hor_bucket :: string
  hor_key :: string
  hor_object_cid :: string
  hor_manifest_cid :: string
  hor_integrity_hash :: string
  hor_etag :: string
  hor_size_bytes :: u64
  hor_ciphertext_size_bytes :: u64
  hor_content_length :: u64
  hor_content_type :: string
  hor_last_modified_ms :: u64
  hor_encryption_profile_id :: EncryptionProfileId
  hor_key_policy_id :: KeyPolicyId
  hor_server_visible_metadata :: metadata
  hor_encrypted_client_metadata_redacted :: bool
  hor_metadata_visibility :: VisibilityMode

record GetObjectRequest =
  go_tenant_id :: TenantId
  go_bucket :: "string option"
  go_key :: "string option"
  go_cid :: "string option"
  go_access_profile :: AccessProfile
  go_prefer_plaintext :: bool
  go_range :: "RangeSpec option"
  go_if_match :: "string option"
  go_if_none_match :: "string option"

record GetObjectResponse =
  gor_head :: HeadObjectResponse
  gor_body :: "byte list"
  gor_immutable :: bool
  gor_cache_control :: string
  gor_content_range :: "string option"

record ManifestBuildInput =
  mb_tenant_id :: TenantId
  mb_ciphertext :: "byte list"
  mb_content_type :: string
  mb_encryption_profile_id :: EncryptionProfileId
  mb_key_policy_id :: KeyPolicyId
  mb_metadata_visibility :: VisibilityMode
  mb_content_encryption_suite :: string
  mb_key_wrapping_suite :: string
  mb_wrapped_object_keys :: "WrappedObjectKeyRecord list"
  mb_server_visible_metadata :: metadata
  mb_encrypted_client_metadata :: metadata

record ManifestChunkBuildInput =
  mcb_tenant_id :: TenantId
  mcb_chunk_refs :: "ChunkRef list"
  mcb_size_bytes :: u64
  mcb_content_type :: string
  mcb_encryption_profile_id :: EncryptionProfileId
  mcb_key_policy_id :: KeyPolicyId
  mcb_metadata_visibility :: VisibilityMode
  mcb_content_encryption_suite :: string
  mcb_key_wrapping_suite :: string
  mcb_wrapped_object_keys :: "WrappedObjectKeyRecord list"
  mcb_server_visible_metadata :: metadata
  mcb_encrypted_client_metadata :: metadata

record DeleteObjectRequest =
  dor_tenant_id :: TenantId
  dor_bucket :: string
  dor_key :: string
  dor_idempotency_key :: string

record DeleteObjectResponse =
  dop_bucket :: string
  dop_key :: string
  dop_tombstone :: bool
  dop_revision :: u64
  dop_record_cid :: string
  dop_event_seq :: u64

record ListObjectsRequest =
  lo_tenant_id :: TenantId
  lo_bucket :: string
  lo_prefix :: "string option"
  lo_continuation_token :: "string option"
  lo_limit :: "u32 option"

record ObjectListItem =
  oi_key :: string
  oi_etag :: string
  oi_content_length :: u64
  oi_content_type :: string
  oi_last_modified_ms :: u64
  oi_server_visible_metadata :: metadata

record ListObjectsResponse =
  lop_bucket :: string
  lop_items :: "ObjectListItem list"
  lop_next_continuation_token :: "string option"
  lop_is_truncated :: bool

record CopyObjectRequest =
  cyo_tenant_id :: TenantId
  cyo_source_bucket :: string
  cyo_source_key :: string
  cyo_destination_bucket :: string
  cyo_destination_key :: string
  cyo_idempotency_key :: string

record CopyObjectResponse =
  cyr_bucket :: string
  cyr_key :: string
  cyr_object_cid :: string
  cyr_revision :: u64
  cyr_record_cid :: string
  cyr_event_seq :: u64

record CreateMultipartUploadRequest =
  cm_tenant_id :: TenantId
  cm_bucket :: string
  cm_key :: string
  cm_access_profile :: AccessProfile
  cm_payload_plaintext :: bool
  cm_content_type :: string
  cm_encryption_profile_id :: EncryptionProfileId
  cm_key_policy_id :: KeyPolicyId
  cm_metadata_visibility :: VisibilityMode
  cm_content_encryption_suite :: string
  cm_key_wrapping_suite :: string
  cm_wrapped_object_keys :: "WrappedObjectKeyRecord list"
  cm_server_visible_metadata :: metadata
  cm_encrypted_client_metadata :: metadata
  cm_storage_class :: string
  cm_idempotency_key :: string

record CreateMultipartUploadResponse =
  cmr_bucket :: string
  cmr_key :: string
  cmr_upload_id :: string

record UploadPartRequest =
  upq_tenant_id :: TenantId
  upq_upload_id :: string
  upq_part_number :: u32

record UploadPartResponse =
  upp_upload_id :: string
  upp_part_number :: u32
  upp_etag :: string
  upp_length :: u64

record CompletedMultipartPart =
  cmp_part_number :: u32
  cmp_etag :: string

record CompleteMultipartUploadRequest =
  cmu_tenant_id :: TenantId
  cmu_upload_id :: string
  cmu_parts :: "CompletedMultipartPart list"

record AbortMultipartUploadRequest =
  amu_tenant_id :: TenantId
  amu_upload_id :: string

record EdgeTokenClaims =
  et_tenant_id :: TenantId
  et_bucket :: "string option"
  et_key :: "string option"
  et_cid :: "string option"
  et_access_profile :: AccessProfile
  et_method :: string
  et_exp :: u64

text \<open>
  A \<open>HeaderMap\<close> is the list of its fields in order of insertion, a name (in lower case, as \<open>HeaderName\<close>
  keeps it) and the bytes of the value.
\<close>

type_synonym HeaderMap = "(string \<times> byte list) list"

record HttpRequestBinding =
  hrb_method :: string
  hrb_raw_path :: string
  hrb_raw_query :: string
  hrb_headers :: HeaderMap
  hrb_body :: "byte list"

section \<open>The service and its third-party code\<close>

record DistributionService =
  ds_config :: DistributionConfig
  ds_alpha :: AlphaService
  ds_object_kms :: LocalDevKms
  ds_store_kms :: KmsProvider
  ds_store :: StoreBackend
  ds_issuer_registry :: IssuerRegistry
  ds_namespace_signing_key :: "byte list"
  ds_namespace_signing_key_id :: string
  ds_edge_signing_secret :: "byte list"

text \<open>
  \<open>cose_sign1 key kid payload\<close> is the serialized \<open>CoseSign1\<close> that the builder makes with the EdDSA
  header, the key id and the signature of the key. \<open>hmac_key_error\<close> is the error of
  \<open>HmacSha256::new_from_slice\<close>, if any.
\<close>

record dist_deps =
  alpha_code :: service_deps
  json_bucket :: "BucketRecord codec"
  json_dist_metadata :: "DistributionMetadataRecord codec"
  json_bucket_acl :: "BucketAclRecord codec"
  json_object_acl :: "ObjectAclRecord codec"
  json_lifecycle :: "LifecycleConfig codec"
  json_object_lock :: "ObjectLockRecord codec"
  json_website :: "WebsiteConfig codec"
  json_replication :: "ReplicationConfig codec"
  json_replication_status :: "ReplicationStatus codec"
  json_access_key :: "SigV4AccessKeyRecord codec"
  json_multipart_session :: "MultipartSessionRecord codec"
  json_multipart_part :: "MultipartPartRecord codec"
  json_presign_audit :: "PresignAuditRecord codec"
  json_edge_claims :: "EdgeTokenClaims codec"
  cbor_write_mutation :: "NamespaceMutationRecord \<Rightarrow> string + byte list"
  cose_sign1 :: "byte list \<Rightarrow> byte list \<Rightarrow> byte list \<Rightarrow> string + byte list"
  hmac_key_error :: "byte list \<Rightarrow> string option"
  header_to_str :: "byte list \<Rightarrow> string option"

definition BUCKET_REGISTRY_STORE :: string where "BUCKET_REGISTRY_STORE = ''bucket-registry''"
definition DISTRIBUTION_METADATA_STORE :: string where "DISTRIBUTION_METADATA_STORE = ''distribution-metadata''"
definition MULTIPART_SESSIONS_STORE :: string where "MULTIPART_SESSIONS_STORE = ''multipart-sessions''"
definition MULTIPART_PARTS_STORE :: string where "MULTIPART_PARTS_STORE = ''multipart-parts''"
definition PRESIGN_AUDIT_STORE :: string where "PRESIGN_AUDIT_STORE = ''presign-audit''"
definition ACL_STORE :: string where "ACL_STORE = ''acl''"
definition LIFECYCLE_STORE :: string where "LIFECYCLE_STORE = ''lifecycle''"
definition OBJECT_LOCK_STORE :: string where "OBJECT_LOCK_STORE = ''object-lock''"
definition WEBSITE_STORE :: string where "WEBSITE_STORE = ''website''"
definition REPLICATION_STORE :: string where "REPLICATION_STORE = ''replication''"
definition WORKER_CURSOR_STORE :: string where "WORKER_CURSOR_STORE = ''worker-cursor''"
definition DEFAULT_STORAGE_CLASS :: string where "DEFAULT_STORAGE_CLASS = ''hot''"
definition TRUSTED_EDGE_RECIPIENT_KEY_ID :: string where "TRUSTED_EDGE_RECIPIENT_KEY_ID = ''trusted-edge''"
definition FIXED_CHUNK_SIZE :: nat where "FIXED_CHUNK_SIZE = 1024 * 1024"

lemmas dist_stores =
  BUCKET_REGISTRY_STORE_def DISTRIBUTION_METADATA_STORE_def MULTIPART_SESSIONS_STORE_def MULTIPART_PARTS_STORE_def
  PRESIGN_AUDIT_STORE_def ACL_STORE_def LIFECYCLE_STORE_def OBJECT_LOCK_STORE_def WEBSITE_STORE_def
  REPLICATION_STORE_def WORKER_CURSOR_STORE_def

definition dist_store_kinds :: "string list" where
  "dist_store_kinds =
     [BUCKET_REGISTRY_STORE, DISTRIBUTION_METADATA_STORE, MULTIPART_SESSIONS_STORE, MULTIPART_PARTS_STORE,
      PRESIGN_AUDIT_STORE, ACL_STORE, LIFECYCLE_STORE, OBJECT_LOCK_STORE, WEBSITE_STORE, REPLICATION_STORE,
      WORKER_CURSOR_STORE]"

end
