(* ===== verification/HSP_Dist_Base.thy ===== *)
theory HSP_Dist_Base
  imports HSP_Dist_Types
begin

text \<open>
  What the operations of \<open>DistributionService\<close> (\<open>crates/hsp-distribution/src/lib.rs\<close>) share: names
  of buckets and objects, keys of the stored records, the encrypted store, scopes and access lists,
  object locks, signed namespace records, and the cutting of objects into chunks.
\<close>

section \<open>Names\<close>

definition canonical_bucket_name :: "string \<Rightarrow> ApiError + string" where
  "canonical_bucket_name bucket =
     (if trim bucket = [] \<or> CHR ''/'' \<in> set bucket then
        Err (api_error Cat_Validation ''invalid_bucket''
               (''bucket name must be non-empty and must not contain '' @ [CHR 0x27, CHR ''/'', CHR 0x27]))
      else
        rbnd (map_err (\<lambda>error. api_error Cat_Validation ''invalid_bucket'' (path_error_message error))
                (canonical_path bucket)) (\<lambda>canonical.
        if trim canonical = [] \<or> CHR ''/'' \<in> set canonical then
          Err (api_error Cat_Validation ''invalid_bucket''
                 ''bucket name must remain a single canonical segment after percent-decoding'')
        else Ok canonical))"

definition canonical_object_key_name :: "string \<Rightarrow> ApiError + string" where
  "canonical_object_key_name key =
     map_err (\<lambda>error. api_error Cat_Validation ''invalid_object_key'' (path_error_message error))
       (canonical_path key)"

text \<open>Lower-case hexadecimal, as \<open>{byte:02x}\<close> prints it.\<close>

definition hex_lower :: "byte list \<Rightarrow> string" where
  "hex_lower bytes =
     (let digit = (\<lambda>n. if n < 10 then char_of (48 + n) else char_of (87 + n)) in
      concat (map (\<lambda>b. [digit (unat b div 16), digit (unat b mod 16)]) bytes))"

definition hex_sha256 :: "'x core_deps_scheme \<Rightarrow> byte list \<Rightarrow> string" where
  "hex_sha256 D bytes = hex_lower (sha256 D bytes)"

definition multipart_part_store_key :: "string \<Rightarrow> u32 \<Rightarrow> string" where
  "multipart_part_store_key upload_id part_number =
     upload_id @ ''-part-'' @ pad_zeros 5 (show_nat (unat part_number))"

definition bucket_acl_store_key :: "string \<Rightarrow> string" where
  "bucket_acl_store_key bucket = ''bucket-'' @ bucket"

definition object_acl_store_key :: "string \<Rightarrow> string \<Rightarrow> string" where
  "object_acl_store_key bucket key = ''object-'' @ bucket @ ''-'' @ key"

definition lifecycle_store_key :: "string \<Rightarrow> string" where
  "lifecycle_store_key bucket = ''bucket-'' @ bucket"

definition object_lock_store_key :: "string \<Rightarrow> string \<Rightarrow> string" where
  "object_lock_store_key bucket key = ''object-'' @ bucket @ ''-'' @ key"

definition website_store_key :: "string \<Rightarrow> string" where
  "website_store_key bucket = ''bucket-'' @ bucket"

definition replication_config_store_key :: "string \<Rightarrow> string" where
  "replication_config_store_key source_bucket = ''config-'' @ source_bucket"

definition replication_status_store_key :: "string \<Rightarrow> string" where
  "replication_status_store_key source_bucket = ''status-'' @ source_bucket"

definition dist_tenant_store_dir :: "'x core_deps_scheme \<Rightarrow> TenantId \<Rightarrow> string" where
  "dist_tenant_store_dir D tenant_id = b64url_encode D (as_bytes (tenant_str tenant_id))"

definition decode_tenant_store_dir :: "'x core_deps_scheme \<Rightarrow> string \<Rightarrow> string option" where
  "decode_tenant_store_dir D input = Option.bind (b64url_decode D (as_bytes input)) str_from_utf8"

definition dist_store_file_name :: "'x core_deps_scheme \<Rightarrow> string \<Rightarrow> string" where
  "dist_store_file_name D key = hex_sha256 D (as_bytes key) @ ''.json.enc''"

definition dist_store_key :: "'x core_deps_scheme \<Rightarrow> TenantId \<Rightarrow> string \<Rightarrow> string \<Rightarrow> string" where
  "dist_store_key D tenant_id store_kind key =
     store_kind @ ''/'' @ dist_tenant_store_dir D tenant_id @ ''/'' @ dist_store_file_name D key"

section \<open>The encrypted store\<close>

definition storage_serialize_error :: "string \<Rightarrow> ApiError" where
  "storage_serialize_error message = api_error Cat_Storage ''json_serialize_failed'' message"

definition storage_deserialize_error :: "string \<Rightarrow> ApiError" where
  "storage_deserialize_error message = api_error Cat_Storage ''json_deserialize_failed'' message"

definition dist_encrypt_error :: "CryptoError \<Rightarrow> ApiError" where
  "dist_encrypt_error error = crypto_error_to_api error ''failed to encrypt distribution payload''"

definition dist_decrypt_error :: "CryptoError \<Rightarrow> ApiError" where
  "dist_decrypt_error error = crypto_error_to_api error ''failed to decrypt distribution payload''"

definition dist_write_envelope ::
  "dist_deps \<Rightarrow> DistributionService \<Rightarrow> TenantId \<Rightarrow> string \<Rightarrow> string \<Rightarrow> StoredEnvelope \<Rightarrow> unit svc_op" where
  "dist_write_envelope D ds tenant_id store_kind key envelope =
     bnd (lift_result (map_err storage_serialize_error (to_vec (json_envelope (alpha_code D)) envelope))) (\<lambda>bytes.
     store_write (alpha_code D) (ds_store ds) (dist_store_key (alpha_code D) tenant_id store_kind key) bytes)"

definition dist_write_encrypted_bytes ::
  "dist_deps \<Rightarrow> DistributionService \<Rightarrow> TenantId \<Rightarrow> string \<Rightarrow> string \<Rightarrow> byte list \<Rightarrow> unit svc_op" where
  "dist_write_encrypted_bytes D ds tenant_id store_kind key bytes =
     bnd (on_err dist_encrypt_error
            (encrypt_store_payload (alpha_code D) (ds_store_kms ds) tenant_id store_kind bytes)) (\<lambda>envelope.
     dist_write_envelope D ds tenant_id store_kind key envelope)"

definition dist_write_json ::
  "dist_deps \<Rightarrow> DistributionService \<Rightarrow> 'a codec \<Rightarrow> TenantId \<Rightarrow> string \<Rightarrow> string \<Rightarrow> 'a \<Rightarrow> unit svc_op" where
  "dist_write_json D ds c tenant_id store_kind key value =
     bnd (lift_result (map_err storage_serialize_error (to_vec c value))) (\<lambda>bytes.
     dist_write_encrypted_bytes D ds tenant_id store_kind key bytes)"

definition dist_open_envelope ::
  "dist_deps \<Rightarrow> DistributionService \<Rightarrow> TenantId \<Rightarrow> string \<Rightarrow> byte list \<Rightarrow> byte list svc_op" where
  "dist_open_envelope D ds tenant_id store_kind bytes =
     bnd (lift_result (map_err storage_deserialize_error (from_slice (json_envelope (alpha_code D)) bytes))) (\<lambda>envelope.
     on_err dist_decrypt_error
       (decrypt_store_payload (alpha_code D) (ds_store_kms ds) tenant_id store_kind envelope))"

definition dist_read_encrypted_bytes ::
  "dist_deps \<Rightarrow> DistributionService \<Rightarrow> TenantId \<Rightarrow> string \<Rightarrow> string \<Rightarrow> byte list option svc_op" where
  "dist_read_encrypted_bytes D ds tenant_id store_kind key =
     bnd (store_read (alpha_code D) (ds_store ds) (dist_store_key (alpha_code D) tenant_id store_kind key)) (\<lambda>found.
     case found of
       None \<Rightarrow> ret None
     | Some bytes \<Rightarrow> bnd (dist_open_envelope D ds tenant_id store_kind bytes) (\<lambda>plaintext. ret (Some plaintext)))"

definition dist_read_json ::
  "dist_deps \<Rightarrow> DistributionService \<Rightarrow> 'a codec \<Rightarrow> TenantId \<Rightarrow> string \<Rightarrow> string \<Rightarrow> 'a option svc_op" where
  "dist_read_json D ds c tenant_id store_kind key =
     bnd (dist_read_encrypted_bytes D ds tenant_id store_kind key) (\<lambda>found.
     case found of
       None \<Rightarrow> ret None
     | Some bytes \<Rightarrow>
         lift_result (map_err storage_deserialize_error (rbnd (from_slice c bytes) (\<lambda>v. Ok (Some v)))))"

text \<open>What does not decode as the type asked for is left out of a listing.\<close>

primrec dist_decode_all ::
  "dist_deps \<Rightarrow> DistributionService \<Rightarrow> 'a codec \<Rightarrow> TenantId \<Rightarrow> string \<Rightarrow> byte list list \<Rightarrow> 'a list svc_op" where
  "dist_decode_all D ds c tenant_id store_kind [] = ret []"
| "dist_decode_all D ds c tenant_id store_kind (bytes # rest) =
     bnd (dist_open_envelope D ds tenant_id store_kind bytes) (\<lambda>plaintext.
     bnd (dist_decode_all D ds c tenant_id store_kind rest) (\<lambda>items.
     ret (case from_slice c plaintext of Ok v \<Rightarrow> v # items | Err _ \<Rightarrow> items)))"

definition dist_list_json ::
  "dist_deps \<Rightarrow> DistributionService \<Rightarrow> 'a codec \<Rightarrow> TenantId \<Rightarrow> string \<Rightarrow> 'a list svc_op" where
  "dist_list_json D ds c tenant_id store_kind =
     bnd (store_list_values (alpha_code D) (ds_store ds)
            (store_kind @ ''/'' @ dist_tenant_store_dir (alpha_code D) tenant_id @ ''/'')) (\<lambda>values.
     dist_decode_all D ds c tenant_id store_kind values)"

definition dist_delete_store_key ::
  "dist_deps \<Rightarrow> DistributionService \<Rightarrow> TenantId \<Rightarrow> string \<Rightarrow> string \<Rightarrow> unit svc_op" where
  "dist_delete_store_key D ds tenant_id store_kind key =
     store_delete (alpha_code D) (ds_store ds) (dist_store_key (alpha_code D) tenant_id store_kind key)"

text \<open>\<open>Result::ok\<close> of an operation, and a record with a default made when there is none.\<close>

definition try_op :: "('s, 'e, 'a) comp \<Rightarrow> ('s, 'f, 'a option) comp" where
  "try_op m s = (case m s of (Ok x, s') \<Rightarrow> (Ok (Some x), s') | (Err _, s') \<Rightarrow> (Ok None, s'))"

section \<open>Scopes\<close>

definition namespace_scope_mismatch :: ApiError where
  "namespace_scope_mismatch =
     api_error Cat_Policy ''namespace_scope_mismatch'' ''bucket is outside the authenticated namespace scope''"

definition path_scope_mismatch :: ApiError where
  "path_scope_mismatch =
     api_error Cat_Policy ''path_scope_mismatch'' ''object key is outside the authenticated path scope''"

definition tenant_mismatch :: ApiError where
  "tenant_mismatch =
     api_error Cat_Auth ''tenant_mismatch'' ''tenant does not match the authenticated principal''"

definition has_read_capability :: "AuthContext \<Rightarrow> bool" where
  "has_read_capability auth \<longleftrightarrow>
     (\<exists>scope \<in> set (cl_ops (ac_claims auth)). scope \<in> {Sc_Read, Sc_List, Sc_Write})"

definition has_admin_repair :: "AuthContext \<Rightarrow> bool" where
  "has_admin_repair auth \<longleftrightarrow> Sc_AdminRepair \<in> set (cl_ops (ac_claims auth))"

definition has_cid_read_capability :: "AuthContext \<Rightarrow> bool" where
  "has_cid_read_capability auth \<longleftrightarrow> has_read_capability auth \<or> has_admin_repair auth"

definition ensure_bucket_scope_matches ::
  "AuthContext \<Rightarrow> string option \<Rightarrow> string option \<Rightarrow> ApiError + unit" where
  "ensure_bucket_scope_matches auth bucket key =
     rbnd (case cl_namespace_prefix (ac_claims auth) of
             None \<Rightarrow> Ok ()
           | Some namespace_prefix \<Rightarrow>
               rbnd (ok_or bucket namespace_scope_mismatch) (\<lambda>bucket.
               if segment_prefix_matches namespace_prefix bucket then Ok () else Err namespace_scope_mismatch)) (\<lambda>_.
     case cl_path_prefix (ac_claims auth) of
       None \<Rightarrow> Ok ()
     | Some path_prefix \<Rightarrow>
         rbnd (ok_or key path_scope_mismatch) (\<lambda>key.
         if segment_prefix_matches path_prefix key then Ok () else Err path_scope_mismatch))"

definition ensure_tenant_matches :: "AuthContext \<Rightarrow> TenantId \<Rightarrow> ApiError + unit" where
  "ensure_tenant_matches auth tenant_id =
     (if cl_tenant_id (ac_claims auth) \<noteq> tenant_id then Err tenant_mismatch else Ok ())"

definition ensure_bucket_mutation_scope_for ::
  "AuthContext \<Rightarrow> TenantId \<Rightarrow> string option \<Rightarrow> string option \<Rightarrow> ApiError + unit" where
  "ensure_bucket_mutation_scope_for auth tenant_id bucket key =
     (if cl_tenant_id (ac_claims auth) \<noteq> tenant_id then Err tenant_mismatch
      else if \<not> (\<exists>scope \<in> set (cl_ops (ac_claims auth)). scope \<in> {Sc_Write, Sc_Bind, Sc_Unbind}) then
        Err (api_error Cat_Auth ''operation_not_allowed'' ''bucket mutation requires write-capable credentials'')
      else ensure_bucket_scope_matches auth bucket key)"

definition ensure_bucket_read_scope_for_optional ::
  "AuthContext \<Rightarrow> TenantId \<Rightarrow> string option \<Rightarrow> string option \<Rightarrow> ApiError + unit" where
  "ensure_bucket_read_scope_for_optional auth tenant_id bucket key =
     (if cl_tenant_id (ac_claims auth) \<noteq> tenant_id then Err tenant_mismatch
      else if \<not> (\<exists>scope \<in> set (cl_ops (ac_claims auth)). scope \<in> {Sc_Read, Sc_List, Sc_Write}) then
        Err (api_error Cat_Auth ''operation_not_allowed'' ''bucket read requires read-capable credentials'')
      else ensure_bucket_scope_matches auth bucket key)"

definition ensure_bucket_read_scope :: "AuthContext \<Rightarrow> TenantId \<Rightarrow> ApiError + unit" where
  "ensure_bucket_read_scope auth tenant_id = ensure_bucket_read_scope_for_optional auth tenant_id None None"

definition ensure_unscoped_cid_read_scope :: "AuthContext \<Rightarrow> TenantId \<Rightarrow> ApiError + unit" where
  "ensure_unscoped_cid_read_scope auth tenant_id =
     (if cl_tenant_id (ac_claims auth) \<noteq> tenant_id then Err tenant_mismatch
      else if \<not> has_cid_read_capability auth then
        Err (api_error Cat_Auth ''operation_not_allowed'' ''CID read requires tenant read-capable credentials'')
      else if cl_namespace_prefix (ac_claims auth) \<noteq> None \<or> cl_path_prefix (ac_claims auth) \<noteq> None then
        Err (api_error Cat_Policy ''cid_scope_requires_binding''
               ''CID reads with scoped credentials require a proven bucket/key binding'')
      else Ok ())"

fun acl_allows_read :: "CannedAcl \<Rightarrow> bool" where
  "acl_allows_read Acl_Private = False"
| "acl_allows_read Acl_PublicRead = True"
| "acl_allows_read Acl_AuthenticatedRead = True"

definition acl_denied :: ApiError where
  "acl_denied = api_error Cat_Auth ''acl_denied'' ''read request is blocked by ACL policy''"

definition ensure_bucket_read_scope_for ::
  "dist_deps \<Rightarrow> DistributionService \<Rightarrow> AuthContext \<Rightarrow> TenantId \<Rightarrow> string \<Rightarrow> string option \<Rightarrow> unit svc_op" where
  "ensure_bucket_read_scope_for D ds auth tenant_id bucket key =
     bnd (ensure (cl_tenant_id (ac_claims auth) = tenant_id) tenant_mismatch) (\<lambda>_.
     if has_read_capability auth then lift_result (ensure_bucket_scope_matches auth (Some bucket) key)
     else
       bnd (dist_read_json D ds (json_bucket_acl D) tenant_id ACL_STORE (bucket_acl_store_key bucket)) (\<lambda>bucket_acl.
       if (case bucket_acl of None \<Rightarrow> False | Some rec \<Rightarrow> acl_allows_read (ba_acl rec)) then
         lift_result (ensure_bucket_scope_matches auth (Some bucket) key)
       else
         case key of
           None \<Rightarrow> throw acl_denied
         | Some k \<Rightarrow>
             bnd (dist_read_json D ds (json_object_acl D) tenant_id ACL_STORE (object_acl_store_key bucket k)) (\<lambda>object_acl.
             if (case object_acl of None \<Rightarrow> False | Some rec \<Rightarrow> acl_allows_read (oa_acl rec)) then
               lift_result (ensure_bucket_scope_matches auth (Some bucket) (Some k))
             else throw acl_denied)))"

section \<open>Buckets and locks\<close>

definition bucket_record :: "dist_deps \<Rightarrow> DistributionService \<Rightarrow> TenantId \<Rightarrow> string \<Rightarrow> BucketRecord option svc_op" where
  "bucket_record D ds tenant_id bucket = dist_read_json D ds (json_bucket D) tenant_id BUCKET_REGISTRY_STORE bucket"

definition bucket_not_found :: ApiError where
  "bucket_not_found = api_error Cat_NotFound ''bucket_not_found'' ''bucket not found''"

definition require_bucket :: "dist_deps \<Rightarrow> DistributionService \<Rightarrow> TenantId \<Rightarrow> string \<Rightarrow> BucketRecord svc_op" where
  "require_bucket D ds tenant_id bucket =
     bnd (lift_result (canonical_bucket_name bucket)) (\<lambda>bucket.
     bnd (bucket_record D ds tenant_id bucket) (\<lambda>found.
     lift_result (ok_or found bucket_not_found)))"

definition validate_access_profile :: "DistributionService \<Rightarrow> AccessProfile \<Rightarrow> bool \<Rightarrow> ApiError + unit" where
  "validate_access_profile ds access_profile plaintext_requested =
     (case access_profile of
        PublicCiphertext \<Rightarrow>
          if plaintext_requested then
            Err (api_error Cat_Unsupported ''trusted_edge_required''
                   ''plaintext serving requires trusted-edge-v1 profile'')
          else Ok ()
      | TrustedEdgeV1 \<Rightarrow>
          if plaintext_requested \<and> \<not> dc_plaintext_profile_enabled (ds_config ds) then
            Err (api_error Cat_Policy ''trusted_edge_required''
                   ''trusted-edge-v1 profile is disabled for this deployment'')
          else Ok ())"

definition require_admin_repair :: "AuthContext \<Rightarrow> string \<Rightarrow> ApiError + unit" where
  "require_admin_repair auth code =
     (if has_admin_repair auth then Ok ()
      else Err (api_error Cat_Policy code ''admin.repair scope is required for this lock operation''))"

definition ensure_retention_update_allowed ::
  "ObjectLockRecord \<Rightarrow> u64 option \<Rightarrow> string option \<Rightarrow> AuthContext \<Rightarrow> unit svc_op" where
  "ensure_retention_update_allowed current new_immutable_until_ms new_mode auth =
     (case ol_immutable_until_ms current of
        None \<Rightarrow> ret ()
      | Some current_until \<Rightarrow>
          bnd now_ms (\<lambda>now.
          if current_until \<le> now then ret ()
          else
            let shortens_or_clears =
                  (case new_immutable_until_ms of None \<Rightarrow> True | Some new_until \<Rightarrow> new_until < current_until);
                changes_active_mode = (ol_mode current \<noteq> new_mode) in
            if \<not> shortens_or_clears \<and> \<not> changes_active_mode then ret ()
            else if (case ol_mode current of None \<Rightarrow> False | Some mode \<Rightarrow> eq_ignore_ascii_case mode ''compliance'') then
              throw (api_error Cat_Conflict ''lock_conflict''
                       ''active compliance retention cannot be shortened or cleared'')
            else lift_result (require_admin_repair auth ''lock_conflict'')))"

definition lock_blocks_message :: "bool \<Rightarrow> string" where
  "lock_blocks_message delete_op =
     (if delete_op then ''object retention lock blocks delete before immutable-until''
      else ''object retention lock blocks overwrite before immutable-until'')"

definition ensure_object_mutation_unlocked ::
  "dist_deps \<Rightarrow> DistributionService \<Rightarrow> TenantId \<Rightarrow> string \<Rightarrow> string \<Rightarrow> bool \<Rightarrow> AuthContext \<Rightarrow> unit svc_op" where
  "ensure_object_mutation_unlocked D ds tenant_id bucket key delete_op auth =
     bnd (dist_read_json D ds (json_object_lock D) tenant_id OBJECT_LOCK_STORE (object_lock_store_key bucket key)) (\<lambda>found.
     case found of
       None \<Rightarrow> ret ()
     | Some lock \<Rightarrow>
         if ol_legal_hold lock then
           throw (api_error Cat_Conflict ''legal_hold_active'' ''object is under legal hold'')
         else
           case ol_immutable_until_ms lock of
             None \<Rightarrow> ret ()
           | Some until \<Rightarrow>
               bnd now_ms (\<lambda>now.
               ensure (\<not> (now < until \<and> \<not> has_admin_repair auth))
                 (api_error Cat_Conflict ''lock_conflict'' (lock_blocks_message delete_op))))"

text \<open>The lock of an object no lock was stored for.\<close>

definition default_object_lock :: "TenantId \<Rightarrow> string \<Rightarrow> string \<Rightarrow> u64 \<Rightarrow> ObjectLockRecord" where
  "default_object_lock tenant_id bucket key now =
     \<lparr>ol_tenant_id = tenant_id, ol_bucket = bucket, ol_key = key, ol_immutable_until_ms = None,
      ol_legal_hold = False, ol_mode = None, ol_updated_at_ms = now\<rparr>"

definition map_object_error :: "ApiError \<Rightarrow> ApiError" where
  "map_object_error error =
     (if err_code error \<in> {''path_not_bound'', ''path_tombstoned'', ''manifest_not_found''} then
        api_error Cat_NotFound ''object_not_found'' ''object not found''
      else error)"

definition sign_namespace_record ::
  "dist_deps \<Rightarrow> DistributionService \<Rightarrow> NamespaceMutationRecord \<Rightarrow> ApiError + string" where
  "sign_namespace_record D ds rec =
     rbnd (map_err (api_error Cat_Auth ''signed_record_encode_failed'') (cbor_write_mutation D rec)) (\<lambda>payload.
     rbnd (map_err (api_error Cat_Auth ''signed_record_encode_failed'')
             (cose_sign1 D (ds_namespace_signing_key ds) (as_bytes (ds_namespace_signing_key_id ds)) payload)) (\<lambda>token.
     Ok (b64url_encode (alpha_code D) token)))"

end
