(* ===== verification/HSP_Dist_Auth.thy ===== *)
theory HSP_Dist_Auth
  imports HSP_Dist_Base
begin

text \<open>
  How the distribution layer authenticates HTTP requests (\<open>crates/hsp-distribution/src/lib.rs\<close>):
  capability tokens with a proof of the request, AWS Signature V4 in a header or in a presigned
  URL, and edge tokens.
\<close>

section \<open>Text and headers\<close>

text \<open>\<open>str::split_once\<close> and \<open>rsplit_once\<close> of a character, \<open>split\<close> of a string, \<open>split_whitespace\<close>,
  \<open>parse::<u64>\<close>.\<close>

fun split_once :: "char \<Rightarrow> string \<Rightarrow> (string \<times> string) option" where
  "split_once c [] = None"
| "split_once c (x # xs) =
     (if x = c then Some ([], xs) else map_option (\<lambda>(a, b). (x # a, b)) (split_once c xs))"

definition rsplit_once :: "char \<Rightarrow> string \<Rightarrow> (string \<times> string) option" where
  "rsplit_once c s = map_option (\<lambda>(a, b). (rev b, rev a)) (split_once c (rev s))"

function split_str :: "string \<Rightarrow> string \<Rightarrow> string list" where
  "split_str sep s =
     (if sep = [] then [s]
      else case str_find sep s of
             None \<Rightarrow> [s]
           | Some i \<Rightarrow> take i s # split_str sep (drop (i + length sep) s))"
  by pat_completeness auto
termination
  by (relation "measure (\<lambda>(_, s). length s)") (auto simp: neq_Nil_conv dest!: str_find_bound)

declare split_str.simps [simp del]

fun skip_words :: "string \<Rightarrow> string \<Rightarrow> nat \<Rightarrow> string list" where
  "skip_words word [] skip = (if word = [] then [] else [rev word])"
| "skip_words word (c # s) (Suc skip) = skip_words word s skip"
| "skip_words word (c # s) 0 =
     (case ws_len (c # s) of
        0 \<Rightarrow> skip_words (c # word) s 0
      | Suc n \<Rightarrow> (if word = [] then [] else [rev word]) @ skip_words [] s n)"

definition split_whitespace :: "string \<Rightarrow> string list" where
  "split_whitespace s = skip_words [] s 0"

definition is_digit :: "char \<Rightarrow> bool" where
  "is_digit c \<longleftrightarrow> 48 \<le> (of_char c :: nat) \<and> (of_char c :: nat) \<le> 57"

definition parse_u64 :: "string \<Rightarrow> u64 option" where
  "parse_u64 s =
     (let digits = (case s of [] \<Rightarrow> [] | c # r \<Rightarrow> if c = CHR ''+'' then r else s) in
      if digits = [] \<or> \<not> list_all is_digit digits \<or> read_nat digits \<ge> 2 ^ 64 then None
      else Some (of_nat (read_nat digits)))"

text \<open>Slicing a string by bytes panics off a character boundary; \<open>slice_panic\<close> stands for that.\<close>

definition slice_panic :: ApiError where
  "slice_panic = api_error Cat_Storage ''panic'' ''byte index is not a char boundary''"

definition is_char_boundary :: "string \<Rightarrow> nat \<Rightarrow> bool" where
  "is_char_boundary s i \<longleftrightarrow> i = 0 \<or> i = length s \<or> i < length s \<and> \<not> utf8_cont (of_char (s ! i))"

definition str_slice :: "string \<Rightarrow> nat \<Rightarrow> nat \<Rightarrow> ApiError + string" where
  "str_slice s i j =
     (if is_char_boundary s i \<and> is_char_boundary s j then Ok (take (j - i) (drop i s)) else Err slice_panic)"

definition header_values :: "HeaderMap \<Rightarrow> string \<Rightarrow> byte list list" where
  "header_values headers name = map snd (filter (\<lambda>(n, _). n = to_ascii_lowercase name) headers)"

definition header_get :: "HeaderMap \<Rightarrow> string \<Rightarrow> byte list option" where
  "header_get headers name = (case header_values headers name of [] \<Rightarrow> None | v # _ \<Rightarrow> Some v)"

definition required_header :: "dist_deps \<Rightarrow> HeaderMap \<Rightarrow> string \<Rightarrow> ApiError + string" where
  "required_header D headers name =
     ok_or (Option.bind (header_get headers name) (header_to_str D))
       (api_error Cat_Auth ''missing_required_header''
          (''required header `'' @ name @ ''` is missing''))"

definition normalize_header_value :: "string \<Rightarrow> string" where
  "normalize_header_value value = join_with '' '' (split_whitespace value)"

section \<open>Dates\<close>

text \<open>Division of \<open>i64\<close> truncates towards zero.\<close>

definition tdiv :: "int \<Rightarrow> int \<Rightarrow> int" where
  "tdiv a b = sgn a * sgn b * (\<bar>a\<bar> div \<bar>b\<bar>)"

definition days_from_civil :: "int \<Rightarrow> int \<Rightarrow> int \<Rightarrow> int" where
  "days_from_civil year0 month day =
     (let year = year0 - (if month \<le> 2 then 1 else 0);
          era = tdiv (if year \<ge> 0 then year else year - 399) 400;
          yoe = year - era * 400;
          doy = tdiv (153 * (month + (if month > 2 then - 3 else 9)) + 2) 5 + day - 1;
          doe = yoe * 365 + tdiv yoe 4 - tdiv yoe 100 + doy in
      era * 146097 + doe - 719468)"

definition civil_from_days :: "int \<Rightarrow> int \<times> u64 \<times> u64" where
  "civil_from_days days =
     (let z = days + 719468;
          era = tdiv (if z \<ge> 0 then z else z - 146096) 146097;
          doe = z - era * 146097;
          yoe = tdiv (doe - tdiv doe 1460 + tdiv doe 36524 - tdiv doe 146096) 365;
          y = yoe + era * 400;
          doy = doe - (365 * yoe + tdiv yoe 4 - tdiv yoe 100);
          mp = tdiv (5 * doy + 2) 153;
          day = doy - tdiv (153 * mp + 2) 5 + 1;
          month = mp + (if mp < 10 then 3 else - 9);
          year = y + (if month \<le> 2 then 1 else 0) in
      (year, of_int month, of_int day))"

definition datetime_to_epoch_ms :: "u64 \<Rightarrow> u64 \<Rightarrow> u64 \<Rightarrow> u64 \<Rightarrow> u64 \<Rightarrow> u64 \<Rightarrow> u64" where
  "datetime_to_epoch_ms year month day hour minute second =
     (let days = days_from_civil (sint year) (sint month) (sint day) in
      (of_int days * 86400 + hour * 3600 + minute * 60 + second) * 1000)"

definition amz_date_from_epoch_ms :: "u64 \<Rightarrow> string" where
  "amz_date_from_epoch_ms epoch_ms =
     (let total_seconds = unat epoch_ms div 1000;
          days = int (total_seconds div 86400);
          seconds_of_day = total_seconds mod 86400;
          hour = seconds_of_day div 3600;
          minute = (seconds_of_day mod 3600) div 60;
          second = seconds_of_day mod 60;
          (year, month, day) = civil_from_days days in
      pad_zeros 4 (show_nat (nat year)) @ pad_zeros 2 (show_nat (unat month)) @ pad_zeros 2 (show_nat (unat day)) @
      ''T'' @ pad_zeros 2 (show_nat hour) @ pad_zeros 2 (show_nat minute) @ pad_zeros 2 (show_nat second) @ ''Z'')"

definition invalid_amz_date :: "string \<Rightarrow> ApiError" where
  "invalid_amz_date error_code = api_error Cat_Auth error_code ''invalid X-Amz-Date format''"

definition amz_field :: "string \<Rightarrow> string \<Rightarrow> nat \<Rightarrow> nat \<Rightarrow> ApiError + u64" where
  "amz_field error_code value i j =
     rbnd (str_slice value i j) (\<lambda>text. ok_or (parse_u64 text) (invalid_amz_date error_code))"

definition parse_amz_date_with_code :: "string \<Rightarrow> string \<Rightarrow> ApiError + u64" where
  "parse_amz_date_with_code value error_code =
     (if length value \<noteq> 16 \<or> last value \<noteq> CHR ''Z'' then Err (invalid_amz_date error_code)
      else
        rbnd (amz_field error_code value 0 4) (\<lambda>year.
        rbnd (amz_field error_code value 4 6) (\<lambda>month.
        rbnd (amz_field error_code value 6 8) (\<lambda>day.
        rbnd (amz_field error_code value 9 11) (\<lambda>hour.
        rbnd (amz_field error_code value 11 13) (\<lambda>minute.
        rbnd (amz_field error_code value 13 15) (\<lambda>second.
        Ok (datetime_to_epoch_ms year month day hour minute second))))))))"

definition MAX_SIGV4_CLOCK_SKEW_MS :: u64 where
  "MAX_SIGV4_CLOCK_SKEW_MS = 5 * 60 * 1000"

definition MAX_PRESIGN_EXPIRES_SEC :: u64 where
  "MAX_PRESIGN_EXPIRES_SEC = 7 * 24 * 60 * 60"

definition ensure_sigv4_time_window :: "u64 \<Rightarrow> string \<Rightarrow> string \<Rightarrow> unit svc_op" where
  "ensure_sigv4_time_window issued_at_ms error_code request_kind =
     bnd now_ms (\<lambda>now.
     if issued_at_ms > saturating_add now MAX_SIGV4_CLOCK_SKEW_MS then
       throw (api_error Cat_Auth error_code
                (request_kind @ '' has a future X-Amz-Date outside the allowed clock skew''))
     else if saturating_sub now issued_at_ms > MAX_SIGV4_CLOCK_SKEW_MS then
       throw (api_error Cat_Auth error_code (request_kind @ '' is older than the allowed clock skew window''))
     else ret ())"

section \<open>Signature V4\<close>

abbreviation sigv4_error :: "string \<Rightarrow> ApiError" where
  "sigv4_error \<equiv> api_error Cat_Auth ''invalid_sigv4''"

abbreviation presign_error :: "string \<Rightarrow> ApiError" where
  "presign_error \<equiv> api_error Cat_Auth ''invalid_presign''"

record ParsedSigV4Authorization =
  ps_access_key_id :: string
  ps_date :: string
  ps_region :: string
  ps_service :: string
  ps_credential_scope :: string
  ps_signed_headers :: "string list"
  ps_signature :: string

definition split_signed_headers :: "string \<Rightarrow> string list" where
  "split_signed_headers input = map to_ascii_lowercase (filter (\<lambda>value. value \<noteq> []) (split_char CHR '';'' input))"

definition parse_sigv4_credential :: "string \<Rightarrow> ApiError + string \<times> string \<times> string \<times> string" where
  "parse_sigv4_credential credential =
     (case split_char CHR ''/'' credential of
        [access_key_id, date, region, svc, kind] \<Rightarrow>
          if kind \<noteq> ''aws4_request'' then Err (sigv4_error ''credential scope is malformed'')
          else Ok (access_key_id, date, region, svc)
      | _ \<Rightarrow> Err (sigv4_error ''credential scope is malformed''))"

text \<open>The loop over the fields of the authorization header: the last of each kind counts.\<close>

fun sigv4_fields ::
  "string list \<Rightarrow> string option \<times> string list option \<times> string option
   \<Rightarrow> string option \<times> string list option \<times> string option" where
  "sigv4_fields [] found = found"
| "sigv4_fields (part # parts) (credential, signed_headers, signature) =
     (case strip_prefix ''Credential='' part of
        Some value \<Rightarrow> sigv4_fields parts (Some value, signed_headers, signature)
      | None \<Rightarrow>
          case strip_prefix ''SignedHeaders='' part of
            Some value \<Rightarrow> sigv4_fields parts (credential, Some (split_signed_headers value), signature)
          | None \<Rightarrow>
              case strip_prefix ''Signature='' part of
                Some value \<Rightarrow> sigv4_fields parts (credential, signed_headers, Some value)
              | None \<Rightarrow> sigv4_fields parts (credential, signed_headers, signature))"

definition parse_sigv4_authorization :: "string \<Rightarrow> ApiError + ParsedSigV4Authorization" where
  "parse_sigv4_authorization value =
     rbnd (ok_or (strip_prefix ''AWS4-HMAC-SHA256 '' value)
             (sigv4_error ''authorization header is not AWS4-HMAC-SHA256'')) (\<lambda>raw.
     case sigv4_fields (split_str '', '' raw) (None, None, None) of
       (credential, signed_headers, signature) \<Rightarrow>
         rbnd (ok_or credential (sigv4_error ''authorization header is missing Credential'')) (\<lambda>credential.
         rbnd (parse_sigv4_credential credential) (\<lambda>(access_key_id, date, region, svc).
         rbnd (ok_or signed_headers (sigv4_error ''authorization header is missing SignedHeaders'')) (\<lambda>signed_headers.
         rbnd (ok_or signature (sigv4_error ''authorization header is missing Signature'')) (\<lambda>signature.
         Ok \<lparr>ps_access_key_id = access_key_id, ps_date = date, ps_region = region, ps_service = svc,
             ps_credential_scope = date @ ''/'' @ region @ ''/'' @ svc @ ''/aws4_request'',
             ps_signed_headers = signed_headers, ps_signature = signature\<rparr>)))))"

fun strictly_ascending :: "string list \<Rightarrow> bool" where
  "strictly_ascending (a # b # rest) \<longleftrightarrow> a < b \<and> strictly_ascending (b # rest)"
| "strictly_ascending _ \<longleftrightarrow> True"

definition is_ascii_uppercase :: "char \<Rightarrow> bool" where
  "is_ascii_uppercase c \<longleftrightarrow> 65 \<le> (of_char c :: nat) \<and> (of_char c :: nat) \<le> 90"

definition validate_signed_headers :: "string list \<Rightarrow> ApiError + unit" where
  "validate_signed_headers signed_headers =
     (if signed_headers = [] then Err (sigv4_error ''signed headers list must not be empty'')
      else if ''host'' \<notin> set signed_headers then Err (sigv4_error ''signed headers must include host'')
      else if \<not> strictly_ascending signed_headers then
        Err (sigv4_error ''signed headers must be lowercase, unique, and sorted'')
      else if list_ex (\<lambda>header. header = [] \<or> list_ex is_ascii_uppercase header) signed_headers then
        Err (sigv4_error ''signed headers must be lowercase and non-empty'')
      else Ok ())"

definition required_single_signed_header :: "dist_deps \<Rightarrow> HeaderMap \<Rightarrow> string \<Rightarrow> ApiError + string" where
  "required_single_signed_header D headers name =
     (case header_values headers name of
        [] \<Rightarrow> Err (sigv4_error (''missing signed header `'' @ name @ ''`''))
      | [value] \<Rightarrow> ok_or (header_to_str D value) (sigv4_error (''signed header `'' @ name @ ''` is not valid ASCII''))
      | _ \<Rightarrow> Err (sigv4_error (''duplicate signed header `'' @ name @ ''` is not allowed'')))"

primrec canonical_headers :: "dist_deps \<Rightarrow> HeaderMap \<Rightarrow> string list \<Rightarrow> ApiError + string" where
  "canonical_headers D headers [] = Ok []"
| "canonical_headers D headers (header # rest) =
     rbnd (required_single_signed_header D headers header) (\<lambda>value.
     rbnd (canonical_headers D headers rest) (\<lambda>lines.
     Ok (to_ascii_lowercase header @ '':'' @ normalize_header_value value @ [CHR 0x0A] @ lines)))"

definition canonical_sigv4_request ::
  "dist_deps \<Rightarrow> string \<Rightarrow> string \<Rightarrow> string \<Rightarrow> HeaderMap \<Rightarrow> string list \<Rightarrow> string \<Rightarrow> ApiError + string" where
  "canonical_sigv4_request D method raw_path raw_query headers signed_headers payload_hash =
     rbnd (validate_signed_headers signed_headers) (\<lambda>_.
     rbnd (canonical_headers D headers signed_headers) (\<lambda>lines.
     let nl = [CHR 0x0A] in
     Ok (method @ nl @ raw_path @ nl @ raw_query @ nl @ lines @ nl @ join_with '';'' signed_headers @ nl @ payload_hash)))"

definition sigv4_string_to_sign :: "dist_deps \<Rightarrow> string \<Rightarrow> string \<Rightarrow> string \<Rightarrow> string" where
  "sigv4_string_to_sign D date credential_scope canonical_request =
     (let nl = [CHR 0x0A] in
      ''AWS4-HMAC-SHA256'' @ nl @ date @ nl @ credential_scope @ nl @
      hex_sha256 (alpha_code D) (as_bytes canonical_request))"

definition dist_hmac_sha256 :: "dist_deps \<Rightarrow> byte list \<Rightarrow> byte list \<Rightarrow> ApiError + byte list" where
  "dist_hmac_sha256 D key bytes =
     (case hmac_key_error D key of
        Some message \<Rightarrow> Err (sigv4_error message)
      | None \<Rightarrow> Ok (hmac_sha256 (alpha_code D) key bytes))"

definition sigv4_signature :: "dist_deps \<Rightarrow> string \<Rightarrow> string \<Rightarrow> string \<Rightarrow> string \<Rightarrow> string \<Rightarrow> ApiError + string" where
  "sigv4_signature D secret_access_key date region svc string_to_sign =
     rbnd (dist_hmac_sha256 D (as_bytes (''AWS4'' @ secret_access_key)) (as_bytes date)) (\<lambda>k_date.
     rbnd (dist_hmac_sha256 D k_date (as_bytes region)) (\<lambda>k_region.
     rbnd (dist_hmac_sha256 D k_region (as_bytes svc)) (\<lambda>k_service.
     rbnd (dist_hmac_sha256 D k_service (as_bytes ''aws4_request'')) (\<lambda>k_signing.
     rbnd (dist_hmac_sha256 D k_signing (as_bytes string_to_sign)) (\<lambda>mac.
     Ok (hex_lower mac))))))"

definition query_pair :: "string \<Rightarrow> string \<times> string" where
  "query_pair pair = (case split_once CHR ''='' pair of None \<Rightarrow> (pair, []) | Some kv \<Rightarrow> kv)"

fun query_pairs_into ::
  "string \<Rightarrow> string list \<Rightarrow> (string, string) btm \<Rightarrow> ApiError + (string, string) btm" where
  "query_pairs_into error_code [] pairs = Ok pairs"
| "query_pairs_into error_code (pair # rest) pairs =
     (case query_pair pair of
        (key, value) \<Rightarrow>
          if btm_get pairs key \<noteq> None then
            Err (api_error Cat_Auth error_code (''duplicate query parameter `'' @ key @ ''` is not allowed''))
          else query_pairs_into error_code rest (btm_insert key value pairs))"

definition parse_unique_query_pairs :: "string \<Rightarrow> string \<Rightarrow> ApiError + (string, string) btm" where
  "parse_unique_query_pairs input error_code =
     query_pairs_into error_code (filter (\<lambda>segment. segment \<noteq> []) (split_char CHR ''&'' input)) []"

definition canonical_presign_query :: "(string, string) btm \<Rightarrow> string" where
  "canonical_presign_query params =
     join_with ''&'' (map (\<lambda>(key, value). key @ ''='' @ value)
       (sort (filter (\<lambda>(key, _). key \<noteq> ''X-Amz-Signature'') params)))"

definition scopes_for_http_method :: "string \<Rightarrow> CapabilityScope list" where
  "scopes_for_http_method method =
     (if method \<in> {''GET'', ''HEAD''} then [Sc_Read, Sc_List]
      else if method \<in> {''PUT'', ''POST'', ''DELETE''} then [Sc_Read, Sc_Write, Sc_Bind, Sc_Unbind, Sc_List]
      else [Sc_Read])"

definition sigv4_auth_context :: "SigV4AccessKeyRecord \<Rightarrow> string \<Rightarrow> string \<Rightarrow> (service, 'e, AuthContext) comp" where
  "sigv4_auth_context rec method signature =
     bnd now_ms (\<lambda>now1.
     bnd now_ms (\<lambda>now2.
     ret \<lparr>ac_claims =
            \<lparr>cl_iss = ''sigv4'', cl_sub = sk_access_key_id rec, cl_aud = ''hsp-s3'',
             cl_exp = saturating_add now1 60000, cl_nbf = Some (saturating_sub now2 1000),
             cl_jti = Some signature, cl_ops = scopes_for_http_method method,
             cl_tenant_id = sk_tenant_id rec, cl_namespace_prefix = sk_namespace_prefix rec,
             cl_path_prefix = sk_path_prefix rec, cl_max_object_size = sk_max_object_size rec,
             cl_storage_classes = (if sk_storage_classes rec = [] then [DEFAULT_STORAGE_CLASS] else sk_storage_classes rec),
             cl_key_policy_id = Some (sk_key_policy_id rec),
             cl_metadata_visibility = Some (sk_metadata_visibility rec)\<rparr>,
          ac_channel_binding =
            Some \<lparr>cb_binding_kind = ''sigv4'', cb_proof_b64 = signature, cb_nonce = signature\<rparr>\<rparr>))"

section \<open>Access keys\<close>

definition register_sigv4_access_key :: "dist_deps \<Rightarrow> DistributionService \<Rightarrow> SigV4AccessKeyRecord \<Rightarrow> unit svc_op" where
  "register_sigv4_access_key D ds rec =
     bnd (ensure (\<not> (trim (sk_access_key_id rec) = [] \<or> trim (sk_secret_access_key rec) = []))
            (api_error Cat_Validation ''invalid_sigv4_access_key'' ''access key id and secret must be non-empty'')) (\<lambda>_.
     dist_write_json D ds (json_access_key D) (sk_tenant_id rec) DISTRIBUTION_METADATA_STORE
       (''access-key-'' @ sk_access_key_id rec) rec)"

text \<open>\<open>starts_with(|_: char| true)\<close> holds of every non-empty string.\<close>

primrec access_keys_of :: "dist_deps \<Rightarrow> DistributionService \<Rightarrow> string list \<Rightarrow> SigV4AccessKeyRecord list svc_op" where
  "access_keys_of D ds [] = ret []"
| "access_keys_of D ds (tenant # tenants) =
     bnd (dist_list_json D ds (json_access_key D)
            (TenantId (case decode_tenant_store_dir (alpha_code D) tenant of None \<Rightarrow> tenant | Some t \<Rightarrow> t))
            DISTRIBUTION_METADATA_STORE) (\<lambda>found.
     bnd (access_keys_of D ds tenants) (\<lambda>records.
     ret (filter (\<lambda>rec. sk_access_key_id rec \<noteq> []) found @ records)))"

definition list_all_access_keys :: "dist_deps \<Rightarrow> DistributionService \<Rightarrow> SigV4AccessKeyRecord list svc_op" where
  "list_all_access_keys D ds =
     bnd (store_list_child_dirs (alpha_code D) (ds_store ds) DISTRIBUTION_METADATA_STORE) (\<lambda>tenants.
     bnd (access_keys_of D ds tenants) (\<lambda>records.
     ret (filter (\<lambda>rec. sk_access_key_id rec \<noteq> []) records)))"

definition sigv4_access_key :: "dist_deps \<Rightarrow> DistributionService \<Rightarrow> string \<Rightarrow> SigV4AccessKeyRecord svc_op" where
  "sigv4_access_key D ds access_key_id =
     bnd (list_all_access_keys D ds) (\<lambda>records.
     case filter (\<lambda>rec. sk_access_key_id rec = access_key_id \<and> sk_enabled rec) records of
       [] \<Rightarrow> throw (sigv4_error ''unknown SigV4 access key id'')
     | rec # _ \<Rightarrow> ret rec)"

section \<open>Authenticating requests\<close>

definition header_payload_hash :: "dist_deps \<Rightarrow> HttpRequestBinding \<Rightarrow> string" where
  "header_payload_hash D binding =
     (case Option.bind (header_get (hrb_headers binding) ''x-amz-content-sha256'') (header_to_str D) of
        Some value \<Rightarrow> value
      | None \<Rightarrow> hex_sha256 (alpha_code D) (hrb_body binding))"

definition authenticate_header_sigv4 :: "dist_deps \<Rightarrow> DistributionService \<Rightarrow> HttpRequestBinding \<Rightarrow> AuthContext svc_op" where
  "authenticate_header_sigv4 D ds binding =
     bnd (lift_result (required_header D (hrb_headers binding) ''authorization'')) (\<lambda>authorization.
     bnd (lift_result (parse_sigv4_authorization authorization)) (\<lambda>parsed.
     bnd (sigv4_access_key D ds (ps_access_key_id parsed)) (\<lambda>rec.
     bnd (lift_result (required_header D (hrb_headers binding) ''x-amz-date'')) (\<lambda>request_date.
     bnd (lift_result (parse_amz_date_with_code request_date ''invalid_sigv4'')) (\<lambda>issued_at.
     bnd (ensure_sigv4_time_window issued_at ''invalid_sigv4'' ''header-based SigV4 request'') (\<lambda>_.
     bnd (ensure (starts_with request_date (ps_date parsed))
            (sigv4_error ''x-amz-date does not match credential scope date'')) (\<lambda>_.
     let payload_hash = header_payload_hash D binding in
     bnd (ensure (payload_hash = ''UNSIGNED-PAYLOAD'' \<or> payload_hash = hex_sha256 (alpha_code D) (hrb_body binding))
            (sigv4_error ''x-amz-content-sha256 does not match request body'')) (\<lambda>_.
     bnd (lift_result (canonical_sigv4_request D (hrb_method binding) (hrb_raw_path binding) (hrb_raw_query binding)
            (hrb_headers binding) (ps_signed_headers parsed) payload_hash)) (\<lambda>canonical.
     bnd (lift_result (sigv4_signature D (sk_secret_access_key rec) (ps_date parsed) (ps_region parsed) (ps_service parsed)
            (sigv4_string_to_sign D request_date (ps_credential_scope parsed) canonical))) (\<lambda>expected.
     bnd (ensure (expected = ps_signature parsed) (sigv4_error ''AWS Signature V4 verification failed'')) (\<lambda>_.
     sigv4_auth_context rec (hrb_method binding) (ps_signature parsed))))))))))))"

definition presign_param :: "(string, string) btm \<Rightarrow> string \<Rightarrow> ApiError + string" where
  "presign_param params name = ok_or (btm_get params name) (presign_error (''presigned URL is missing '' @ name))"

text \<open>The checks of a presigned URL: the access key that signed it, the signature and the expiry.\<close>

definition verify_presigned_sigv4 ::
  "dist_deps \<Rightarrow> DistributionService \<Rightarrow> HttpRequestBinding \<Rightarrow> (SigV4AccessKeyRecord \<times> string \<times> u64) svc_op" where
  "verify_presigned_sigv4 D ds binding =
     bnd (lift_result (parse_unique_query_pairs (hrb_raw_query binding) ''invalid_presign'')) (\<lambda>params.
     bnd (ensure (btm_get params ''X-Amz-Algorithm'' = Some ''AWS4-HMAC-SHA256'')
            (presign_error ''unsupported presign algorithm'')) (\<lambda>_.
     bnd (lift_result (presign_param params ''X-Amz-Credential'')) (\<lambda>credential.
     bnd (lift_result (presign_param params ''X-Amz-SignedHeaders'')) (\<lambda>signed_headers.
     bnd (lift_result (presign_param params ''X-Amz-Signature'')) (\<lambda>signature.
     bnd (lift_result (presign_param params ''X-Amz-Date'')) (\<lambda>date.
     bnd (lift_result (ok_or (Option.bind (btm_get params ''X-Amz-Expires'') parse_u64)
            (presign_error ''presigned URL has invalid X-Amz-Expires''))) (\<lambda>expires.
     bnd (ensure (\<not> expires > MAX_PRESIGN_EXPIRES_SEC)
            (presign_error ''presigned URL exceeds the maximum allowed expiry window'')) (\<lambda>_.
     bnd (lift_result (parse_amz_date_with_code date ''invalid_presign'')) (\<lambda>issued_at.
     bnd (ensure_sigv4_time_window issued_at ''invalid_presign'' ''presigned URL'') (\<lambda>_.
     let expires_at_ms = saturating_add issued_at (expires * 1000) in
     bnd now_ms (\<lambda>now.
     bnd (ensure (\<not> now > expires_at_ms) (presign_error ''presigned URL has expired'')) (\<lambda>_.
     bnd (lift_result (parse_sigv4_credential credential)) (\<lambda>(access_key_id, date_scope, region, svc).
     bnd (sigv4_access_key D ds access_key_id) (\<lambda>rec.
     bnd (lift_result (canonical_sigv4_request D (hrb_method binding) (hrb_raw_path binding)
            (canonical_presign_query params) (hrb_headers binding) (split_signed_headers signed_headers)
            ''UNSIGNED-PAYLOAD'')) (\<lambda>canonical.
     let scope = date_scope @ ''/'' @ region @ ''/'' @ svc @ ''/aws4_request'' in
     bnd (lift_result (sigv4_signature D (sk_secret_access_key rec) date_scope region svc
            (sigv4_string_to_sign D date scope canonical))) (\<lambda>expected.
     bnd (ensure (expected = signature) (presign_error ''presigned URL verification failed'')) (\<lambda>_.
     ret (rec, signature, expires_at_ms))))))))))))))))))"

definition authenticate_presigned_sigv4 :: "dist_deps \<Rightarrow> DistributionService \<Rightarrow> HttpRequestBinding \<Rightarrow> AuthContext svc_op" where
  "authenticate_presigned_sigv4 D ds binding =
     bnd (verify_presigned_sigv4 D ds binding) (\<lambda>(rec, signature, expires_at_ms).
     let token_id = cid_from_bytes (alpha_code D) (as_bytes (hrb_raw_query binding)) in
     bnd now_ms (\<lambda>created_at_ms.
     bnd (dist_write_json D ds (json_presign_audit D) (sk_tenant_id rec) PRESIGN_AUDIT_STORE token_id
            \<lparr>pa_token_id = token_id, pa_tenant_id = sk_tenant_id rec, pa_method = hrb_method binding,
             pa_bucket = None, pa_key = None, pa_cid = None, pa_expires_at_ms = expires_at_ms,
             pa_created_at_ms = created_at_ms\<rparr>) (\<lambda>_.
     sigv4_auth_context rec (hrb_method binding) signature)))"

definition authenticate_sigv4 :: "dist_deps \<Rightarrow> DistributionService \<Rightarrow> HttpRequestBinding \<Rightarrow> AuthContext svc_op" where
  "authenticate_sigv4 D ds binding =
     (if str_find ''X-Amz-Signature='' (hrb_raw_query binding) \<noteq> None then authenticate_presigned_sigv4 D ds binding
      else authenticate_header_sigv4 D ds binding)"

definition capability_proof :: "dist_deps \<Rightarrow> HttpRequestBinding \<Rightarrow> string \<Rightarrow> string \<Rightarrow> string" where
  "capability_proof D binding token_b64 nonce =
     (let nl = [CHR 0x0A] in
      b64url_encode (alpha_code D) (sha256 (alpha_code D) (as_bytes
        (token_b64 @ nl @ hrb_method binding @ nl @ hrb_raw_path binding @ nl @ hrb_raw_query binding @ nl @
         hex_sha256 (alpha_code D) (hrb_body binding) @ nl @ nonce))))"

definition authenticate_hsp_capability :: "dist_deps \<Rightarrow> DistributionService \<Rightarrow> HttpRequestBinding \<Rightarrow> ApiError + AuthContext" where
  "authenticate_hsp_capability D ds binding =
     rbnd (required_header D (hrb_headers binding) ''x-hsp-capability'') (\<lambda>token_b64.
     rbnd (required_header D (hrb_headers binding) ''x-hsp-request-nonce'') (\<lambda>nonce.
     rbnd (required_header D (hrb_headers binding) ''x-hsp-request-proof'') (\<lambda>proof_b64.
     rbnd (verify_cose_sign1_token (auth_code (alpha_code D)) token_b64 (ds_issuer_registry ds)) (\<lambda>claims.
     if cl_aud claims \<noteq> dc_capability_audience (ds_config ds) then
       Err (api_error Cat_Auth ''invalid_token_audience''
              ''capability token audience is not allowed for distribution surfaces'')
     else if proof_b64 \<noteq> capability_proof D binding token_b64 nonce then
       Err (api_error Cat_Auth ''invalid_request_binding''
              ''request binding proof does not match the canonical request'')
     else
       Ok \<lparr>ac_claims = claims,
           ac_channel_binding =
             Some \<lparr>cb_binding_kind = ''request-signature'', cb_proof_b64 = proof_b64, cb_nonce = nonce\<rparr>\<rparr>))))"

section \<open>Edge tokens\<close>

definition edge_signature :: "dist_deps \<Rightarrow> DistributionService \<Rightarrow> string \<Rightarrow> ApiError + string" where
  "edge_signature D ds payload_b64 =
     (case hmac_key_error D (ds_edge_signing_secret ds) of
        Some message \<Rightarrow> Err (api_error Cat_Auth ''edge_token_signing_failed'' message)
      | None \<Rightarrow>
          Ok (b64url_encode (alpha_code D)
                (hmac_sha256 (alpha_code D) (ds_edge_signing_secret ds) (as_bytes payload_b64))))"

definition mint_edge_token :: "dist_deps \<Rightarrow> DistributionService \<Rightarrow> EdgeTokenClaims \<Rightarrow> ApiError + string" where
  "mint_edge_token D ds claims =
     rbnd (map_err storage_serialize_error (to_vec (json_edge_claims D) claims)) (\<lambda>payload.
     let payload_b64 = b64url_encode (alpha_code D) payload in
     rbnd (edge_signature D ds payload_b64) (\<lambda>signature.
     Ok (payload_b64 @ ''.'' @ signature)))"

definition decode_edge_token :: "dist_deps \<Rightarrow> DistributionService \<Rightarrow> string \<Rightarrow> EdgeTokenClaims svc_op" where
  "decode_edge_token D ds token =
     bnd (lift_result (ok_or (split_once CHR ''.'' token)
            (api_error Cat_Auth ''edge_token_malformed'' ''edge token must contain payload and signature''))) (\<lambda>(payload_b64, signature).
     bnd (lift_result (edge_signature D ds payload_b64)) (\<lambda>expected.
     bnd (ensure (expected = signature)
            (api_error Cat_Auth ''invalid_edge_token'' ''edge token signature is invalid'')) (\<lambda>_.
     bnd (lift_result (ok_or (b64url_decode (alpha_code D) (as_bytes payload_b64))
            (api_error Cat_Auth ''invalid_edge_token'' ''edge token payload is not valid base64url''))) (\<lambda>payload.
     bnd (lift_result (map_err storage_deserialize_error (from_slice (json_edge_claims D) payload))) (\<lambda>claims.
     bnd now_ms (\<lambda>now.
     bnd (ensure (\<not> now > et_exp claims)
            (api_error Cat_Auth ''edge_token_expired'' ''edge token has expired'')) (\<lambda>_.
     ret claims)))))))"

definition ensure_edge_token_method :: "EdgeTokenClaims \<Rightarrow> string \<Rightarrow> ApiError + unit" where
  "ensure_edge_token_method claims request_method =
     (if eq_ignore_ascii_case (et_method claims) request_method then Ok ()
      else Err (api_error Cat_Auth ''invalid_edge_token_method''
                  ''edge token method does not match the request method''))"

definition authenticate_edge_token :: "dist_deps \<Rightarrow> DistributionService \<Rightarrow> string \<Rightarrow> string \<Rightarrow> AuthContext svc_op" where
  "authenticate_edge_token D ds token request_method =
     bnd (decode_edge_token D ds token) (\<lambda>claims.
     bnd (lift_result (ensure_edge_token_method claims request_method)) (\<lambda>_.
     bnd now_ms (\<lambda>now.
     ret \<lparr>ac_claims =
            \<lparr>cl_iss = ''hsp-cdn'', cl_sub = ''edge'', cl_aud = ''hsp-cdn'', cl_exp = et_exp claims,
             cl_nbf = Some (saturating_sub now 1000),
             cl_jti = Some (cid_from_bytes (alpha_code D) (as_bytes token)), cl_ops = [Sc_Read],
             cl_tenant_id = et_tenant_id claims, cl_namespace_prefix = et_bucket claims,
             cl_path_prefix = et_key claims, cl_max_object_size = None,
             cl_storage_classes = [DEFAULT_STORAGE_CLASS], cl_key_policy_id = None,
             cl_metadata_visibility = None\<rparr>,
          ac_channel_binding =
            Some \<lparr>cb_binding_kind = ''edge-token'',
                  cb_proof_b64 = (case rsplit_once CHR ''.'' token of None \<Rightarrow> [] | Some (_, signature) \<Rightarrow> signature),
                  cb_nonce = (case split_once CHR ''.'' token of None \<Rightarrow> [] | Some (payload_b64, _) \<Rightarrow> payload_b64)\<rparr>\<rparr>)))"

definition validate_edge_signing_secret :: "byte list \<Rightarrow> ApiError + unit" where
  "validate_edge_signing_secret secret =
     (let forbidden_default =
            list_ex (\<lambda>literal. eq_ignore_ascii_case (from_bytes secret) literal) DEFAULT_EDGE_SIGNING_SECRET_LITERALS in
      if length secret < MIN_RUNTIME_SECRET_BYTES \<or> forbidden_default then
        Err (api_error Cat_Policy ''weak_edge_signing_secret''
               ''edge signing secret must be configured explicitly and must not use a default value'')
      else Ok ())"

end
