(* ===== verification/HSP_Dist_Chunks.thy ===== *)
theory HSP_Dist_Chunks
  imports HSP_Dist_Base
begin

text \<open>
  Cutting an object into chunks (\<open>crates/hsp-distribution/src/lib.rs\<close>): \<open>chunk_ciphertext\<close> cuts a
  whole body, \<open>collect_fixed_chunk_refs\<close> and \<open>upload_fixed_chunks\<close> cut the parts of a multipart
  upload as they come, with what is left of one part carried over to the next. The main result is
  that the two agree: the references made from the parts are those of the concatenated body.
\<close>

section \<open>Whole bodies\<close>

record StagedChunk =
  sc_chunk_index :: u32
  sc_cid :: string
  sc_offset :: u64
  sc_stored_len :: u64
  sc_content_encoding :: string
  sc_bytes :: "byte list"

text \<open>\<open>slice::chunks\<close> for a positive size.\<close>

function chunks_of :: "nat \<Rightarrow> 'a list \<Rightarrow> 'a list list" where
  "chunks_of n xs = (if xs = [] \<or> n = 0 then [] else take n xs # chunks_of n (drop n xs))"
  by pat_completeness auto
termination by (relation "measure (\<lambda>(_, xs). length xs)") auto

declare chunks_of.simps [simp del]

definition staged_chunk :: "'x core_deps_scheme \<Rightarrow> nat \<Rightarrow> byte list \<Rightarrow> StagedChunk" where
  "staged_chunk D index chunk =
     \<lparr>sc_chunk_index = of_nat index, sc_cid = cid_from_bytes D chunk,
      sc_offset = usize_u64 (index * FIXED_CHUNK_SIZE), sc_stored_len = usize_u64 (length chunk),
      sc_content_encoding = ''identity'', sc_bytes = chunk\<rparr>"

definition chunk_ciphertext :: "'x core_deps_scheme \<Rightarrow> byte list \<Rightarrow> StagedChunk list" where
  "chunk_ciphertext D ciphertext =
     map (\<lambda>(index, chunk). staged_chunk D index chunk) (enumerate 0 (chunks_of FIXED_CHUNK_SIZE ciphertext))"

definition staged_chunk_ref :: "StagedChunk \<Rightarrow> ChunkRef" where
  "staged_chunk_ref chunk =
     \<lparr>cr_chunk_index = sc_chunk_index chunk, cr_cid = sc_cid chunk, cr_offset = sc_offset chunk,
      cr_logical_len = sc_stored_len chunk, cr_stored_len = sc_stored_len chunk,
      cr_content_encoding = sc_content_encoding chunk\<rparr>"

section \<open>Manifests\<close>

definition build_manifest_from_chunk_refs :: "ManifestChunkBuildInput \<Rightarrow> Manifest svc_op" where
  "build_manifest_from_chunk_refs input =
     bnd now_ms (\<lambda>now.
     let manifest =
           \<lparr>mf_version = 1, mf_tenant_id = mcb_tenant_id input, mf_logical_size = mcb_size_bytes input,
            mf_stored_size = mcb_size_bytes input, mf_chunker = ''fixed-1m'',
            mf_chunk_refs = mcb_chunk_refs input, mf_content_type = mcb_content_type input,
            mf_created_at_ms = now,
            mf_encryption_descriptor =
              \<lparr>ed_encryption_profile_id = mcb_encryption_profile_id input,
               ed_key_policy_id = mcb_key_policy_id input,
               ed_content_encryption_suite = mcb_content_encryption_suite input,
               ed_key_wrapping_suite = mcb_key_wrapping_suite input,
               ed_metadata_visibility = mcb_metadata_visibility input,
               ed_wrapped_object_keys = mcb_wrapped_object_keys input,
               ed_server_visible_metadata = mcb_server_visible_metadata input,
               ed_encrypted_client_metadata = mcb_encrypted_client_metadata input\<rparr>\<rparr> in
     bnd (lift_result (manifest_validate manifest)) (\<lambda>_. ret manifest))"

definition build_manifest :: "'x core_deps_scheme \<Rightarrow> ManifestBuildInput \<Rightarrow> Manifest svc_op" where
  "build_manifest D input =
     build_manifest_from_chunk_refs
       \<lparr>mcb_tenant_id = mb_tenant_id input,
        mcb_chunk_refs = map staged_chunk_ref (chunk_ciphertext D (mb_ciphertext input)),
        mcb_size_bytes = usize_u64 (length (mb_ciphertext input)), mcb_content_type = mb_content_type input,
        mcb_encryption_profile_id = mb_encryption_profile_id input, mcb_key_policy_id = mb_key_policy_id input,
        mcb_metadata_visibility = mb_metadata_visibility input,
        mcb_content_encryption_suite = mb_content_encryption_suite input,
        mcb_key_wrapping_suite = mb_key_wrapping_suite input,
        mcb_wrapped_object_keys = mb_wrapped_object_keys input,
        mcb_server_visible_metadata = mb_server_visible_metadata input,
        mcb_encrypted_client_metadata = mb_encrypted_client_metadata input\<rparr>"

section \<open>Parts of an upload\<close>

text \<open>
  The locals that the loops of the source update in place: the pending chunk, the next index and the
  next offset. \<open>FIXED_CHUNK_SIZE - pending_chunk.len()\<close> is a subtraction of \<open>usize\<close>; the branch
  \<open>capacity_overflow\<close> is its underflow, which no caller reaches.
\<close>

record chunk_cursor =
  ck_pending :: "byte list"
  ck_next_index :: u32
  ck_next_offset :: u64

definition chunk_cursor_start :: chunk_cursor where
  "chunk_cursor_start = \<lparr>ck_pending = [], ck_next_index = 0, ck_next_offset = 0\<rparr>"

definition fixed_chunk_ref :: "'x core_deps_scheme \<Rightarrow> u32 \<Rightarrow> u64 \<Rightarrow> byte list \<Rightarrow> ChunkRef" where
  "fixed_chunk_ref D chunk_index offset bytes =
     \<lparr>cr_chunk_index = chunk_index, cr_cid = cid_from_bytes D bytes, cr_offset = offset,
      cr_logical_len = usize_u64 (length bytes), cr_stored_len = usize_u64 (length bytes),
      cr_content_encoding = ''identity''\<rparr>"

definition object_too_large :: "string \<Rightarrow> ApiError" where
  "object_too_large message = api_error Cat_Validation ''object_too_large'' message"

definition capacity_overflow :: ApiError where
  "capacity_overflow = object_too_large ''attempt to subtract with overflow''"

definition checked_add :: "'a::len word \<Rightarrow> 'a word \<Rightarrow> 'a word option" where
  "checked_add a b = (if unat a + unat b < 2 ^ LENGTH('a) then Some (a + b) else None)"

definition advance_fixed_chunk_cursor :: "byte list \<Rightarrow> u32 \<Rightarrow> u64 \<Rightarrow> ApiError + u32 \<times> u64" where
  "advance_fixed_chunk_cursor bytes next_chunk_index next_chunk_offset =
     rbnd (ok_or (checked_add next_chunk_index 1) (object_too_large ''multipart object has too many chunks'')) (\<lambda>index.
     rbnd (ok_or (checked_add next_chunk_offset (usize_u64 (length bytes)))
             (object_too_large ''multipart object size overflows supported range'')) (\<lambda>offset.
     Ok (index, offset)))"

definition append_fixed_chunk_ref ::
  "'x core_deps_scheme \<Rightarrow> byte list \<Rightarrow> ChunkRef list \<Rightarrow> u32 \<Rightarrow> u64 \<Rightarrow> ApiError + ChunkRef list \<times> u32 \<times> u64" where
  "append_fixed_chunk_ref D bytes chunk_refs next_chunk_index next_chunk_offset =
     rbnd (advance_fixed_chunk_cursor bytes next_chunk_index next_chunk_offset) (\<lambda>(index, offset).
     Ok (chunk_refs @ [fixed_chunk_ref D next_chunk_index next_chunk_offset bytes], index, offset))"

lemma FIXED_CHUNK_SIZE_pos [simp]: "0 < FIXED_CHUNK_SIZE" "FIXED_CHUNK_SIZE \<noteq> 0"
  by (simp_all add: FIXED_CHUNK_SIZE_def)

function collect_fixed_chunk_refs ::
  "'x core_deps_scheme \<Rightarrow> byte list \<Rightarrow> chunk_cursor \<Rightarrow> ChunkRef list \<Rightarrow> ApiError + chunk_cursor \<times> ChunkRef list" where
  "collect_fixed_chunk_refs D remaining cur chunk_refs =
     (if remaining = [] then Ok (cur, chunk_refs)
      else if length (ck_pending cur) > FIXED_CHUNK_SIZE then Err capacity_overflow
      else
        let capacity = FIXED_CHUNK_SIZE - length (ck_pending cur);
            taken = min capacity (length remaining);
            pending = ck_pending cur @ take taken remaining;
            rest = drop taken remaining in
        if length pending = FIXED_CHUNK_SIZE then
          rbnd (append_fixed_chunk_ref D pending chunk_refs (ck_next_index cur) (ck_next_offset cur)) (\<lambda>(refs, index, offset).
          collect_fixed_chunk_refs D rest \<lparr>ck_pending = [], ck_next_index = index, ck_next_offset = offset\<rparr> refs)
        else collect_fixed_chunk_refs D rest (cur\<lparr>ck_pending := pending\<rparr>) chunk_refs)"
  by pat_completeness auto
termination
  by (relation "measure (\<lambda>(_, remaining, cur, _).
        2 * length remaining + (if length (ck_pending cur) = FIXED_CHUNK_SIZE then 1 else 0))")
    (auto simp: min_def split: if_splits)

declare collect_fixed_chunk_refs.simps [simp del]

definition flush_fixed_chunk_ref ::
  "'x core_deps_scheme \<Rightarrow> chunk_cursor \<Rightarrow> ChunkRef list \<Rightarrow> ApiError + chunk_cursor \<times> ChunkRef list" where
  "flush_fixed_chunk_ref D cur chunk_refs =
     (if ck_pending cur = [] then Ok (cur, chunk_refs)
      else
        rbnd (append_fixed_chunk_ref D (ck_pending cur) chunk_refs (ck_next_index cur) (ck_next_offset cur)) (\<lambda>(refs, index, offset).
        Ok (\<lparr>ck_pending = [], ck_next_index = index, ck_next_offset = offset\<rparr>, refs)))"

definition fixed_chunk_request :: "TenantId \<Rightarrow> string \<Rightarrow> ChunkRef \<Rightarrow> PutChunkRequest" where
  "fixed_chunk_request tenant_id session_id chunk_ref =
     \<lparr>pc_tenant_id = tenant_id, pc_session_id = session_id, pc_chunk_index = cr_chunk_index chunk_ref,
      pc_chunk_cid = cr_cid chunk_ref, pc_chunk_offset = cr_offset chunk_ref,
      pc_chunk_length = cr_stored_len chunk_ref, pc_content_encoding = cr_content_encoding chunk_ref\<rparr>"

definition put_fixed_chunk ::
  "service_deps \<Rightarrow> AlphaService \<Rightarrow> AuthContext \<Rightarrow> TenantId \<Rightarrow> string \<Rightarrow> byte list \<Rightarrow> u32 \<Rightarrow> u64
   \<Rightarrow> (u32 \<times> u64) svc_op" where
  "put_fixed_chunk D alpha auth tenant_id session_id bytes next_chunk_index next_chunk_offset =
     bnd (put_chunk D alpha auth
            (fixed_chunk_request tenant_id session_id (fixed_chunk_ref D next_chunk_index next_chunk_offset bytes)) bytes) (\<lambda>_.
     lift_result (advance_fixed_chunk_cursor bytes next_chunk_index next_chunk_offset))"

function upload_fixed_chunks ::
  "service_deps \<Rightarrow> AlphaService \<Rightarrow> AuthContext \<Rightarrow> TenantId \<Rightarrow> string \<Rightarrow> byte list \<Rightarrow> chunk_cursor
   \<Rightarrow> chunk_cursor svc_op" where
  "upload_fixed_chunks D alpha auth tenant_id session_id remaining cur =
     (if remaining = [] then ret cur
      else if length (ck_pending cur) > FIXED_CHUNK_SIZE then throw capacity_overflow
      else
        let capacity = FIXED_CHUNK_SIZE - length (ck_pending cur);
            taken = min capacity (length remaining);
            pending = ck_pending cur @ take taken remaining;
            rest = drop taken remaining in
        if length pending = FIXED_CHUNK_SIZE then
          bnd (put_fixed_chunk D alpha auth tenant_id session_id pending (ck_next_index cur) (ck_next_offset cur)) (\<lambda>(index, offset).
          upload_fixed_chunks D alpha auth tenant_id session_id rest
            \<lparr>ck_pending = [], ck_next_index = index, ck_next_offset = offset\<rparr>)
        else upload_fixed_chunks D alpha auth tenant_id session_id rest (cur\<lparr>ck_pending := pending\<rparr>))"
  by pat_completeness auto
termination
  by (relation "measure (\<lambda>(_, _, _, _, _, remaining, cur).
        2 * length remaining + (if length (ck_pending cur) = FIXED_CHUNK_SIZE then 1 else 0))")
    (auto simp: min_def split: if_splits)

declare upload_fixed_chunks.simps [simp del]

definition flush_fixed_chunk_upload ::
  "service_deps \<Rightarrow> AlphaService \<Rightarrow> AuthContext \<Rightarrow> TenantId \<Rightarrow> string \<Rightarrow> chunk_cursor \<Rightarrow> chunk_cursor svc_op" where
  "flush_fixed_chunk_upload D alpha auth tenant_id session_id cur =
     (if ck_pending cur = [] then ret cur
      else
        bnd (put_fixed_chunk D alpha auth tenant_id session_id (ck_pending cur) (ck_next_index cur) (ck_next_offset cur)) (\<lambda>(index, offset).
        ret \<lparr>ck_pending = [], ck_next_index = index, ck_next_offset = offset\<rparr>))"

text \<open>The loop of \<open>put_object\<close> over the chunks of a body.\<close>

primrec put_staged_chunks ::
  "service_deps \<Rightarrow> AlphaService \<Rightarrow> AuthContext \<Rightarrow> TenantId \<Rightarrow> string \<Rightarrow> StagedChunk list \<Rightarrow> unit svc_op" where
  "put_staged_chunks D alpha auth tenant_id session_id [] = ret ()"
| "put_staged_chunks D alpha auth tenant_id session_id (chunk # chunks) =
     bnd (put_chunk D alpha auth
            \<lparr>pc_tenant_id = tenant_id, pc_session_id = session_id, pc_chunk_index = sc_chunk_index chunk,
             pc_chunk_cid = sc_cid chunk, pc_chunk_offset = sc_offset chunk,
             pc_chunk_length = sc_stored_len chunk, pc_content_encoding = sc_content_encoding chunk\<rparr> (sc_bytes chunk)) (\<lambda>_.
     put_staged_chunks D alpha auth tenant_id session_id chunks)"

section \<open>Streams of parts\<close>

lemma chunks_of_Nil [simp]: "chunks_of n [] = []"
  by (simp add: chunks_of.simps)

lemma chunks_of_step: "xs \<noteq> [] \<Longrightarrow> 0 < n \<Longrightarrow> chunks_of n xs = take n xs # chunks_of n (drop n xs)"
  by (subst chunks_of.simps) simp

lemma concat_chunks_of: "0 < n \<Longrightarrow> concat (chunks_of n xs) = xs"
proof (induction n xs rule: chunks_of.induct)
  case (1 n xs)
  then show ?case by (cases "xs = []") (simp_all add: chunks_of_step)
qed

lemma chunks_of_append:
  assumes "0 < n" "n dvd length xs"
  shows "chunks_of n (xs @ ys) = chunks_of n xs @ chunks_of n ys"
  using assms
proof (induction n xs rule: chunks_of.induct)
  case (1 n xs)
  show ?case
  proof (cases "xs = []")
    case False
    then have "n \<le> length xs" using 1 by (auto intro: dvd_imp_le)
    then show ?thesis using 1 False by (simp add: chunks_of_step dvd_diff_nat)
  qed simp
qed

lemma length_chunks_of: "0 < n \<Longrightarrow> n dvd length xs \<Longrightarrow> length (chunks_of n xs) = length xs div n"
proof (induction n xs rule: chunks_of.induct)
  case (1 n xs)
  show ?case
  proof (cases "xs = []")
    case False
    then have "n \<le> length xs" using 1 by (auto intro: dvd_imp_le)
    then show ?thesis using 1 False by (simp add: chunks_of_step dvd_diff_nat le_div_geq)
  qed simp
qed

lemma length_chunks_of_le: "0 < n \<Longrightarrow> length xs \<le> n * k \<Longrightarrow> length (chunks_of n xs) \<le> k"
proof (induction k arbitrary: xs)
  case (Suc k)
  then show ?case by (cases "xs = []") (simp_all add: chunks_of_step)
qed simp

text \<open>The full chunks of a stream, and what is left of it.\<close>

definition full_part :: "byte list \<Rightarrow> byte list" where
  "full_part b = take (length b div FIXED_CHUNK_SIZE * FIXED_CHUNK_SIZE) b"

definition left_over :: "byte list \<Rightarrow> byte list" where
  "left_over b = drop (length b div FIXED_CHUNK_SIZE * FIXED_CHUNK_SIZE) b"

lemma full_part_short: "length b < FIXED_CHUNK_SIZE \<Longrightarrow> full_part b = [] \<and> left_over b = b"
  by (simp add: full_part_def left_over_def)

lemma full_part_long:
  assumes "FIXED_CHUNK_SIZE \<le> length b"
  shows "chunks_of FIXED_CHUNK_SIZE (full_part b) =
      take FIXED_CHUNK_SIZE b # chunks_of FIXED_CHUNK_SIZE (full_part (drop FIXED_CHUNK_SIZE b))"
    "left_over b = left_over (drop FIXED_CHUNK_SIZE b)"
proof -
  let ?F = FIXED_CHUNK_SIZE
  have k: "length b div ?F = Suc ((length b - ?F) div ?F)" using assms by (simp add: le_div_geq)
  have "full_part b = take ?F b @ full_part (drop ?F b)"
    by (simp add: full_part_def k take_add)
  moreover have "take ?F b \<noteq> []" using assms by (metis FIXED_CHUNK_SIZE_pos(2) length_0_conv length_take min.absorb2)
  ultimately show "chunks_of ?F (full_part b) = take ?F b # chunks_of ?F (full_part (drop ?F b))"
    using assms by (subst chunks_of_step) simp_all
  show "left_over b = left_over (drop ?F b)" by (simp add: left_over_def k add.commute)
qed

lemma full_part_append:
  "chunks_of FIXED_CHUNK_SIZE (full_part (a @ b)) =
     chunks_of FIXED_CHUNK_SIZE (full_part a) @ chunks_of FIXED_CHUNK_SIZE (full_part (left_over a @ b))"
  "left_over (a @ b) = left_over (left_over a @ b)"
proof -
  have "chunks_of FIXED_CHUNK_SIZE (full_part (a @ b)) =
      chunks_of FIXED_CHUNK_SIZE (full_part a) @ chunks_of FIXED_CHUNK_SIZE (full_part (left_over a @ b)) \<and>
      left_over (a @ b) = left_over (left_over a @ b)"
  proof (induction "length a" arbitrary: a rule: less_induct)
    case less
    show ?case
    proof (cases "length a < FIXED_CHUNK_SIZE")
      case False
      then have F: "FIXED_CHUNK_SIZE \<le> length a" "FIXED_CHUNK_SIZE \<le> length (a @ b)" by simp_all
      have "length (drop FIXED_CHUNK_SIZE a) < length a" using F(1) FIXED_CHUNK_SIZE_pos by (simp only: length_drop)
      then show ?thesis
        using less full_part_long [OF F(1)] full_part_long [OF F(2)] F(1) by simp
    next
      case True
      then show ?thesis by (simp add: full_part_short)
    qed
  qed
  then show "chunks_of FIXED_CHUNK_SIZE (full_part (a @ b)) =
      chunks_of FIXED_CHUNK_SIZE (full_part a) @ chunks_of FIXED_CHUNK_SIZE (full_part (left_over a @ b))"
    "left_over (a @ b) = left_over (left_over a @ b)" by simp_all
qed

lemma length_left_over: "length (left_over b) < FIXED_CHUNK_SIZE"
  by (simp add: left_over_def minus_div_mult_eq_mod)

lemma chunks_of_left_over:
  "chunks_of FIXED_CHUNK_SIZE b =
     chunks_of FIXED_CHUNK_SIZE (full_part b) @ (if left_over b = [] then [] else [left_over b])"
proof -
  have b: "full_part b @ left_over b = b" by (simp add: full_part_def left_over_def)
  have "FIXED_CHUNK_SIZE dvd length (full_part b)" by (simp add: full_part_def min_absorb2)
  then have "chunks_of FIXED_CHUNK_SIZE (full_part b @ left_over b) =
      chunks_of FIXED_CHUNK_SIZE (full_part b) @ chunks_of FIXED_CHUNK_SIZE (left_over b)"
    by (simp add: chunks_of_append)
  moreover have "chunks_of FIXED_CHUNK_SIZE (left_over b) = (if left_over b = [] then [] else [left_over b])"
    using length_left_over [of b] by (simp add: chunks_of_step)
  ultimately show ?thesis by (simp only: b)
qed

text \<open>What the loops do with the full chunks of what they are given.\<close>

primrec append_chunk_refs ::
  "'x core_deps_scheme \<Rightarrow> byte list list \<Rightarrow> ChunkRef list \<Rightarrow> u32 \<Rightarrow> u64 \<Rightarrow> ApiError + ChunkRef list \<times> u32 \<times> u64" where
  "append_chunk_refs D [] refs i off = Ok (refs, i, off)"
| "append_chunk_refs D (c # cs) refs i off =
     rbnd (append_fixed_chunk_ref D c refs i off) (\<lambda>(refs', i', off'). append_chunk_refs D cs refs' i' off')"

primrec put_chunk_stream ::
  "service_deps \<Rightarrow> AlphaService \<Rightarrow> AuthContext \<Rightarrow> TenantId \<Rightarrow> string \<Rightarrow> byte list list \<Rightarrow> u32 \<Rightarrow> u64 \<Rightarrow> (u32 \<times> u64) svc_op" where
  "put_chunk_stream D alpha auth t sid [] i off = ret (i, off)"
| "put_chunk_stream D alpha auth t sid (c # cs) i off =
     bnd (put_fixed_chunk D alpha auth t sid c i off) (\<lambda>(i', off'). put_chunk_stream D alpha auth t sid cs i' off')"

definition cursor_at :: "byte list \<Rightarrow> u32 \<Rightarrow> u64 \<Rightarrow> chunk_cursor" where
  "cursor_at pending i off = \<lparr>ck_pending = pending, ck_next_index = i, ck_next_offset = off\<rparr>"

lemma cursor_at_sels [simp]:
  "ck_pending (cursor_at p i off) = p" "ck_next_index (cursor_at p i off) = i" "ck_next_offset (cursor_at p i off) = off"
  "(cursor_at p i off)\<lparr>ck_pending := q\<rparr> = cursor_at q i off"
  by (simp_all add: cursor_at_def)

lemma append_chunk_refs_append:
  "append_chunk_refs D (cs @ ds) refs i off =
     rbnd (append_chunk_refs D cs refs i off) (\<lambda>(refs', i', off'). append_chunk_refs D ds refs' i' off')"
  by (induction cs arbitrary: refs i off) (auto simp: rbnd_def split: sum.splits)

lemma put_chunk_stream_append:
  "put_chunk_stream D alpha auth t sid (cs @ ds) i off =
     bnd (put_chunk_stream D alpha auth t sid cs i off) (\<lambda>(i', off'). put_chunk_stream D alpha auth t sid ds i' off')"
  by (induction cs arbitrary: i off) (auto simp: bnd_def ret_def fun_eq_iff split: sum.splits prod.splits)

lemma collect_stream:
  assumes "length p < FIXED_CHUNK_SIZE"
  shows "collect_fixed_chunk_refs D xs (cursor_at p i off) refs =
     rbnd (append_chunk_refs D (chunks_of FIXED_CHUNK_SIZE (full_part (p @ xs))) refs i off) (\<lambda>(refs', i', off').
     Ok (cursor_at (left_over (p @ xs)) i' off', refs'))"
  using assms
proof (induction "length xs" arbitrary: p xs i off refs rule: less_induct)
  case less
  let ?F = FIXED_CHUNK_SIZE
  show ?case
  proof (cases "length (p @ xs) < ?F")
    case True
    then show ?thesis
      using less.prems by (subst collect_fixed_chunk_refs.simps)
        (simp add: full_part_short Let_def collect_fixed_chunk_refs.simps [of D "[]"])
  next
    case False
    let ?n = "?F - length p"
    have n: "min ?n (length xs) = ?n" "xs \<noteq> []" "length (p @ take ?n xs) = ?F"
      using False less.prems by auto
    have shorter: "length (drop ?n xs) < length xs" using n(2) less.prems by (cases xs) auto
    have IH: "collect_fixed_chunk_refs D (drop ?n xs) (cursor_at [] i' off') refs' =
       rbnd (append_chunk_refs D (chunks_of ?F (full_part (drop ?n xs))) refs' i' off') (\<lambda>(refs', i', off').
       Ok (cursor_at (left_over (drop ?n xs)) i' off', refs'))" for i' off' refs'
      using less.hyps [OF shorter, of "[]"] by simp
    have "collect_fixed_chunk_refs D xs (cursor_at p i off) refs =
        rbnd (append_fixed_chunk_ref D (p @ take ?n xs) refs i off) (\<lambda>(refs', i', off').
        collect_fixed_chunk_refs D (drop ?n xs) (cursor_at [] i' off') refs')"
      using less.prems n by (subst collect_fixed_chunk_refs.simps) (simp add: Let_def cursor_at_def)
    then show ?thesis
      using full_part_long [of "p @ xs"] False less.prems by (simp add: IH not_less) (auto simp: rbnd_def split: sum.splits)
  qed
qed

lemma upload_stream:
  assumes "length p < FIXED_CHUNK_SIZE"
  shows "upload_fixed_chunks D alpha auth t sid xs (cursor_at p i off) =
     bnd (put_chunk_stream D alpha auth t sid (chunks_of FIXED_CHUNK_SIZE (full_part (p @ xs))) i off) (\<lambda>(i', off').
     ret (cursor_at (left_over (p @ xs)) i' off'))"
  using assms
proof (induction "length xs" arbitrary: p xs i off rule: less_induct)
  case less
  let ?F = FIXED_CHUNK_SIZE
  show ?case
  proof (cases "length (p @ xs) < ?F")
    case True
    then show ?thesis
      using less.prems by (subst upload_fixed_chunks.simps)
        (simp add: full_part_short Let_def upload_fixed_chunks.simps [of D alpha auth t sid "[]"] bnd_def ret_def fun_eq_iff)
  next
    case False
    let ?n = "?F - length p"
    have n: "min ?n (length xs) = ?n" "xs \<noteq> []" "length (p @ take ?n xs) = ?F"
      using False less.prems by auto
    have shorter: "length (drop ?n xs) < length xs" using n(2) less.prems by (cases xs) auto
    have IH: "upload_fixed_chunks D alpha auth t sid (drop ?n xs) (cursor_at [] i' off') =
       bnd (put_chunk_stream D alpha auth t sid (chunks_of ?F (full_part (drop ?n xs))) i' off') (\<lambda>(i', off').
       ret (cursor_at (left_over (drop ?n xs)) i' off'))" for i' off'
      using less.hyps [OF shorter, of "[]"] by simp
    have "upload_fixed_chunks D alpha auth t sid xs (cursor_at p i off) =
        bnd (put_fixed_chunk D alpha auth t sid (p @ take ?n xs) i off) (\<lambda>(i', off').
        upload_fixed_chunks D alpha auth t sid (drop ?n xs) (cursor_at [] i' off'))"
      using less.prems n by (subst upload_fixed_chunks.simps) (simp add: Let_def cursor_at_def)
    then show ?thesis
      using full_part_long [of "p @ xs"] False less.prems by (simp add: IH not_less)
        (auto simp: bnd_def fun_eq_iff split: sum.splits prod.splits)
  qed
qed

section \<open>Parts and bodies agree\<close>

lemma lift_result_ret: "lift_result (Ok x) = ret x"
  by (simp add: lift_result_def ret_def fun_eq_iff)

lemma chunks_of_lengths:
  "0 < n \<Longrightarrow> chunks_of n xs = cs @ c # ds \<Longrightarrow> ds \<noteq> [] \<Longrightarrow> length c = n"
  "0 < n \<Longrightarrow> c \<in> set (chunks_of n xs) \<Longrightarrow> length c \<le> n"
proof -
  show "0 < n \<Longrightarrow> chunks_of n xs = cs @ c # ds \<Longrightarrow> ds \<noteq> [] \<Longrightarrow> length c = n"
  proof (induction n xs arbitrary: cs rule: chunks_of.induct)
    case (1 n xs)
    then have "xs \<noteq> []" by auto
    then have step: "xs \<noteq> []" "take n xs # chunks_of n (drop n xs) = cs @ c # ds"
      using "1.prems" chunks_of_step [of xs n] by simp_all
    show ?case
    proof (cases cs)
      case Nil
      then have "c = take n xs" "chunks_of n (drop n xs) = ds" using step(2) by auto
      moreover have "drop n xs \<noteq> []" using calculation(2) "1.prems"(3) by auto
      ultimately show ?thesis by simp
    next
      case (Cons c' cs')
      then show ?thesis using 1 step by auto
    qed
  qed
  show "0 < n \<Longrightarrow> c \<in> set (chunks_of n xs) \<Longrightarrow> length c \<le> n"
  proof (induction n xs rule: chunks_of.induct)
    case (1 n xs)
    then show ?case by (cases "xs = []") (auto simp: chunks_of_step)
  qed
qed

text \<open>A list of chunks as \<open>chunks\<close> makes them: only the last may be shorter.\<close>

definition regular :: "byte list list \<Rightarrow> bool" where
  "regular cs \<longleftrightarrow> (\<forall>as c ds. cs = as @ c # ds \<longrightarrow> (if ds = [] then length c \<le> FIXED_CHUNK_SIZE else length c = FIXED_CHUNK_SIZE))"

lemma regular_chunks_of: "regular (chunks_of FIXED_CHUNK_SIZE xs)"
  using chunks_of_lengths(1) [of FIXED_CHUNK_SIZE xs] chunks_of_lengths(2) [of FIXED_CHUNK_SIZE _ xs]
  by (auto simp: regular_def)

lemma regular_Cons: "regular (c # cs) \<Longrightarrow> regular cs \<and> length c \<le> FIXED_CHUNK_SIZE \<and> (cs \<noteq> [] \<longrightarrow> length c = FIXED_CHUNK_SIZE)"
  unfolding regular_def
proof (intro conjI allI impI)
  assume h: "\<forall>as d ds. c # cs = as @ d # ds \<longrightarrow> (if ds = [] then length d \<le> FIXED_CHUNK_SIZE else length d = FIXED_CHUNK_SIZE)"
  show "if ds = [] then length d \<le> FIXED_CHUNK_SIZE else length d = FIXED_CHUNK_SIZE" if "cs = as @ d # ds" for as d ds
    using h [rule_format, of "c # as" d ds] that by simp
  show "length c = FIXED_CHUNK_SIZE" if "cs \<noteq> []"
    using h [rule_format, of "[]" c cs] that by simp_all
  show "length c \<le> FIXED_CHUNK_SIZE"
    using h [rule_format, of "[]" c cs] by (simp split: if_splits)
qed

lemma FIXED_CHUNK_SIZE_le: "FIXED_CHUNK_SIZE \<le> 2 ^ 20"
  by (simp add: FIXED_CHUNK_SIZE_def)

lemma checked_add_of_nat: "a + b < 2 ^ LENGTH('w) \<Longrightarrow> checked_add (of_nat a :: 'w::len word) (of_nat b) = Some (of_nat (a + b))"
  by (simp add: checked_add_def unsigned_of_nat take_bit_nat_eq_self)

lemma advance_regular:
  assumes "Suc k < 2 ^ 32" "length c \<le> FIXED_CHUNK_SIZE"
  shows "advance_fixed_chunk_cursor c (of_nat k) (usize_u64 (k * FIXED_CHUNK_SIZE)) =
    Ok (of_nat (Suc k), usize_u64 (k * FIXED_CHUNK_SIZE + length c))"
proof -
  have "k * FIXED_CHUNK_SIZE \<le> 2 ^ 32 * 2 ^ 20"
    by (rule mult_le_mono) (use assms(1) FIXED_CHUNK_SIZE_le in linarith)+
  moreover have "length c \<le> 2 ^ 20" using assms(2) FIXED_CHUNK_SIZE_le by linarith
  ultimately have total: "k * FIXED_CHUNK_SIZE + length c < 2 ^ LENGTH(64)" by simp
  have i: "checked_add (of_nat k) (1 :: u32) = Some (of_nat (Suc k))"
    using checked_add_of_nat [of k 1, where 'w = 32] assms(1) by simp
  show ?thesis
    unfolding advance_fixed_chunk_cursor_def usize_u64_def i checked_add_of_nat [OF total] ok_or_def rbnd_def by simp
qed

lemma append_regular:
  assumes "regular cs" "k + length cs < 2 ^ 32"
  shows "append_chunk_refs D cs refs (of_nat k) (usize_u64 (k * FIXED_CHUNK_SIZE)) =
    Ok (refs @ map (\<lambda>(i, c). staged_chunk_ref (staged_chunk D i c)) (enumerate k cs), of_nat (k + length cs),
        usize_u64 (k * FIXED_CHUNK_SIZE + length (concat cs)))"
  using assms
proof (induction cs arbitrary: k refs)
  case (Cons c cs)
  note c = regular_Cons [OF Cons.prems(1)]
  have adv: "append_fixed_chunk_ref D c refs (of_nat k) (usize_u64 (k * FIXED_CHUNK_SIZE)) =
      Ok (refs @ [staged_chunk_ref (staged_chunk D k c)], of_nat (Suc k), usize_u64 (k * FIXED_CHUNK_SIZE + length c))"
    using Cons.prems c by (simp add: append_fixed_chunk_ref_def advance_regular fixed_chunk_ref_def staged_chunk_ref_def
        staged_chunk_def del: of_nat_Suc)
  show ?case
  proof (cases "cs = []")
    case True
    then show ?thesis by (simp add: adv del: of_nat_Suc)
  next
    case False
    then have len: "k * FIXED_CHUNK_SIZE + length c = Suc k * FIXED_CHUNK_SIZE"
        "k * FIXED_CHUNK_SIZE + length (concat (c # cs)) = Suc k * FIXED_CHUNK_SIZE + length (concat cs)"
        "k + length (c # cs) = Suc k + length cs"
      using c by simp_all
    have "append_chunk_refs D cs refs' (of_nat (Suc k)) (usize_u64 (Suc k * FIXED_CHUNK_SIZE)) =
      Ok (refs' @ map (\<lambda>(i, c). staged_chunk_ref (staged_chunk D i c)) (enumerate (Suc k) cs), of_nat (Suc k + length cs),
        usize_u64 (Suc k * FIXED_CHUNK_SIZE + length (concat cs)))" for refs'
      using Cons.prems c by (intro Cons.IH) auto
    then show ?thesis
      unfolding append_chunk_refs.simps adv len by (simp del: of_nat_Suc mult_Suc add_Suc)
  qed
qed simp

lemma put_regular:
  assumes "regular cs" "k + length cs < 2 ^ 32"
  shows "put_chunk_stream D alpha auth t sid cs (of_nat k) (usize_u64 (k * FIXED_CHUNK_SIZE)) =
    bnd (put_staged_chunks D alpha auth t sid (map (\<lambda>(i, c). staged_chunk D i c) (enumerate k cs))) (\<lambda>_.
    ret (of_nat (k + length cs), usize_u64 (k * FIXED_CHUNK_SIZE + length (concat cs))))"
  using assms
proof (induction cs arbitrary: k)
  case Nil
  show ?case by (simp add: bnd_def ret_def fun_eq_iff)
next
  case (Cons c cs)
  note c = regular_Cons [OF Cons.prems(1)]
  let ?chunk = "staged_chunk D k c"
  have adv: "put_fixed_chunk D alpha auth t sid c (of_nat k) (usize_u64 (k * FIXED_CHUNK_SIZE)) =
      bnd (put_chunk D alpha auth
        \<lparr>pc_tenant_id = t, pc_session_id = sid, pc_chunk_index = sc_chunk_index ?chunk,
         pc_chunk_cid = sc_cid ?chunk, pc_chunk_offset = sc_offset ?chunk,
         pc_chunk_length = sc_stored_len ?chunk, pc_content_encoding = sc_content_encoding ?chunk\<rparr> (sc_bytes ?chunk)) (\<lambda>_.
      ret (of_nat (Suc k), usize_u64 (k * FIXED_CHUNK_SIZE + length c)))"
    using Cons.prems c by (simp add: put_fixed_chunk_def advance_regular fixed_chunk_request_def fixed_chunk_ref_def
        staged_chunk_def lift_result_ret del: of_nat_Suc)
  have assoc: "bnd (bnd m (\<lambda>_. ret x)) f = bnd m (\<lambda>_. f x)" for m :: "'m svc_op" and x :: 'x and f :: "'x \<Rightarrow> 'y svc_op"
    by (auto simp: bnd_def ret_def fun_eq_iff split: sum.splits prod.splits)
  have assoc': "bnd (bnd m (\<lambda>_. n)) f = bnd m (\<lambda>_. bnd n f)" for m :: "'m svc_op" and n :: "'n svc_op" and f :: "'n \<Rightarrow> 'y svc_op"
    by (auto simp: bnd_def fun_eq_iff split: sum.splits prod.splits)
  show ?case
  proof (cases "cs = []")
    case True
    then show ?thesis by (simp add: adv assoc assoc' del: of_nat_Suc)
  next
    case False
    then have len: "k * FIXED_CHUNK_SIZE + length c = Suc k * FIXED_CHUNK_SIZE"
        "k * FIXED_CHUNK_SIZE + length (concat (c # cs)) = Suc k * FIXED_CHUNK_SIZE + length (concat cs)"
        "k + length (c # cs) = Suc k + length cs"
      using c by simp_all
    have "put_chunk_stream D alpha auth t sid cs (of_nat (Suc k)) (usize_u64 (Suc k * FIXED_CHUNK_SIZE)) =
      bnd (put_staged_chunks D alpha auth t sid (map (\<lambda>(i, c). staged_chunk D i c) (enumerate (Suc k) cs))) (\<lambda>_.
      ret (of_nat (Suc k + length cs), usize_u64 (Suc k * FIXED_CHUNK_SIZE + length (concat cs))))"
      using Cons.prems c by (intro Cons.IH) auto
    then show ?thesis
      unfolding put_chunk_stream.simps adv len by (simp add: assoc assoc' del: of_nat_Suc mult_Suc add_Suc)
  qed
qed

text \<open>The two passes of \<open>complete_multipart_upload\<close> over the bytes of its parts, without the reading of the parts.\<close>

primrec collect_part_refs ::
  "'x core_deps_scheme \<Rightarrow> byte list list \<Rightarrow> chunk_cursor \<Rightarrow> ChunkRef list \<Rightarrow> ApiError + chunk_cursor \<times> ChunkRef list" where
  "collect_part_refs D [] cur refs = flush_fixed_chunk_ref D cur refs"
| "collect_part_refs D (part # parts) cur refs =
     rbnd (collect_fixed_chunk_refs D part cur refs) (\<lambda>(cur', refs'). collect_part_refs D parts cur' refs')"

primrec upload_parts ::
  "service_deps \<Rightarrow> AlphaService \<Rightarrow> AuthContext \<Rightarrow> TenantId \<Rightarrow> string \<Rightarrow> byte list list \<Rightarrow> chunk_cursor \<Rightarrow> chunk_cursor svc_op" where
  "upload_parts D alpha auth t sid [] cur = flush_fixed_chunk_upload D alpha auth t sid cur"
| "upload_parts D alpha auth t sid (part # parts) cur =
     bnd (upload_fixed_chunks D alpha auth t sid part cur) (upload_parts D alpha auth t sid parts)"

lemma collect_part_refs_stream:
  "length p < FIXED_CHUNK_SIZE \<Longrightarrow>
   collect_part_refs D parts (cursor_at p i off) refs =
     rbnd (append_chunk_refs D (chunks_of FIXED_CHUNK_SIZE (p @ concat parts)) refs i off) (\<lambda>(refs', i', off').
     Ok (cursor_at [] i' off', refs'))"
proof (induction parts arbitrary: p i off refs)
  case Nil
  then have "chunks_of FIXED_CHUNK_SIZE p = (if p = [] then [] else [p])"
    by (simp add: chunks_of_step)
  then show ?case
    by (auto simp: flush_fixed_chunk_ref_def rbnd_def cursor_at_def split: sum.splits)
next
  case (Cons part parts)
  have "chunks_of FIXED_CHUNK_SIZE (p @ part @ concat parts) =
      chunks_of FIXED_CHUNK_SIZE (full_part (p @ part)) @ chunks_of FIXED_CHUNK_SIZE (left_over (p @ part) @ concat parts)"
    using chunks_of_left_over [of "(p @ part) @ concat parts"] chunks_of_left_over [of "left_over (p @ part) @ concat parts"]
      full_part_append [of "p @ part" "concat parts"] by simp
  then show ?case
    using Cons.IH [OF length_left_over] Cons.prems
    by (simp add: collect_stream append_chunk_refs_append) (auto simp: rbnd_def split: sum.splits)
qed

lemma upload_parts_stream:
  "length p < FIXED_CHUNK_SIZE \<Longrightarrow>
   upload_parts D alpha auth t sid parts (cursor_at p i off) =
     bnd (put_chunk_stream D alpha auth t sid (chunks_of FIXED_CHUNK_SIZE (p @ concat parts)) i off) (\<lambda>(i', off').
     ret (cursor_at [] i' off'))"
proof (induction parts arbitrary: p i off)
  case Nil
  then have "chunks_of FIXED_CHUNK_SIZE p = (if p = [] then [] else [p])"
    by (simp add: chunks_of_step)
  then show ?case
    by (auto simp: flush_fixed_chunk_upload_def bnd_def ret_def cursor_at_def fun_eq_iff split: sum.splits prod.splits)
next
  case (Cons part parts)
  have "chunks_of FIXED_CHUNK_SIZE (p @ part @ concat parts) =
      chunks_of FIXED_CHUNK_SIZE (full_part (p @ part)) @ chunks_of FIXED_CHUNK_SIZE (left_over (p @ part) @ concat parts)"
    using chunks_of_left_over [of "(p @ part) @ concat parts"] chunks_of_left_over [of "left_over (p @ part) @ concat parts"]
      full_part_append [of "p @ part" "concat parts"] by simp
  then show ?case
    using Cons.IH [OF length_left_over] Cons.prems
    by (simp add: upload_stream put_chunk_stream_append)
      (auto simp: bnd_def ret_def fun_eq_iff split: sum.splits prod.splits)
qed

lemma chunk_cursor_start_at: "chunk_cursor_start = cursor_at [] 0 0"
  by (simp add: chunk_cursor_start_def cursor_at_def)

text \<open>
  C39. A multipart upload describes the object its parts make up. However a body of at most
  4294967295 MiB is cut into parts, the references the first pass over the parts collects are those
  that an upload of the whole body has, with its size.
\<close>

theorem multipart_refs_agree:
  assumes "length (concat parts) \<le> FIXED_CHUNK_SIZE * (2 ^ 32 - 1)"
  shows "collect_part_refs D parts chunk_cursor_start [] =
    Ok (\<lparr>ck_pending = [], ck_next_index = of_nat (length (chunk_ciphertext D (concat parts))),
         ck_next_offset = usize_u64 (length (concat parts))\<rparr>,
        map staged_chunk_ref (chunk_ciphertext D (concat parts)))"
proof -
  let ?cs = "chunks_of FIXED_CHUNK_SIZE (concat parts)"
  have "length ?cs \<le> 2 ^ 32 - 1" by (rule length_chunks_of_le) (use assms in simp_all)
  then have "append_chunk_refs D ?cs [] (of_nat 0) (usize_u64 (0 * FIXED_CHUNK_SIZE)) =
    Ok ([] @ map (\<lambda>(i, c). staged_chunk_ref (staged_chunk D i c)) (enumerate 0 ?cs), of_nat (0 + length ?cs),
        usize_u64 (0 * FIXED_CHUNK_SIZE + length (concat ?cs)))"
    by (intro append_regular regular_chunks_of) simp
  then show ?thesis
    using collect_part_refs_stream [of "[]" D parts 0 0 "[]"]
    by (simp add: chunk_cursor_start_at concat_chunks_of usize_u64_def chunk_ciphertext_def cursor_at_def comp_def case_prod_beta)
qed

text \<open>
  C40. A multipart upload stores the object its parts make up. Uploading the parts makes, in any
  state and with any outcome of the calls, the same calls of \<open>put_chunk\<close> with the same bytes as
  uploading the whole body does.
\<close>

theorem multipart_upload_agrees:
  assumes "length (concat parts) \<le> FIXED_CHUNK_SIZE * (2 ^ 32 - 1)"
  shows "upload_parts D alpha auth t sid parts chunk_cursor_start =
    bnd (put_staged_chunks D alpha auth t sid (chunk_ciphertext D (concat parts))) (\<lambda>_.
    ret \<lparr>ck_pending = [], ck_next_index = of_nat (length (chunk_ciphertext D (concat parts))),
         ck_next_offset = usize_u64 (length (concat parts))\<rparr>)"
proof -
  let ?cs = "chunks_of FIXED_CHUNK_SIZE (concat parts)"
  have "length ?cs \<le> 2 ^ 32 - 1" by (rule length_chunks_of_le) (use assms in simp_all)
  then have "put_chunk_stream D alpha auth t sid ?cs (of_nat 0) (usize_u64 (0 * FIXED_CHUNK_SIZE)) =
    bnd (put_staged_chunks D alpha auth t sid (map (\<lambda>(i, c). staged_chunk D i c) (enumerate 0 ?cs))) (\<lambda>_.
    ret (of_nat (0 + length ?cs), usize_u64 (0 * FIXED_CHUNK_SIZE + length (concat ?cs))))"
    by (intro put_regular regular_chunks_of) simp
  then have "upload_parts D alpha auth t sid parts (cursor_at [] 0 0) =
    bnd (bnd (put_staged_chunks D alpha auth t sid (chunk_ciphertext D (concat parts))) (\<lambda>_.
    ret (of_nat (length ?cs), usize_u64 (length (concat parts))))) (\<lambda>(i', off'). ret (cursor_at [] i' off'))"
    by (simp add: upload_parts_stream concat_chunks_of usize_u64_def chunk_ciphertext_def)
  then show ?thesis
    by (simp add: chunk_cursor_start_at cursor_at_def chunk_ciphertext_def)
      (auto simp: bnd_def ret_def fun_eq_iff split: sum.splits prod.splits)
qed

text \<open>Five bytes in three parts, one of them empty.\<close>

theorem multipart_refs_agree_witness:
  "collect_part_refs ref_core_deps [[1, 2], [], [3, 4, 5]] chunk_cursor_start [] =
    Ok (\<lparr>ck_pending = [], ck_next_index = 1, ck_next_offset = 5\<rparr>,
        [\<lparr>cr_chunk_index = 0, cr_cid = cid_from_bytes ref_core_deps [1, 2, 3, 4, 5], cr_offset = 0, cr_logical_len = 5,
          cr_stored_len = 5, cr_content_encoding = ''identity''\<rparr>])"
proof -
  have small: "5 \<le> FIXED_CHUNK_SIZE" "5 \<le> FIXED_CHUNK_SIZE * (2 ^ 32 - 1)" by (simp_all add: FIXED_CHUNK_SIZE_def)
  have "chunks_of FIXED_CHUNK_SIZE [1, 2, 3, 4, 5 :: byte] = [[1, 2, 3, 4, 5]]"
    using small(1) by (simp add: chunks_of_step)
  then show ?thesis
    using multipart_refs_agree [of "[[1, 2], [], [3, 4, 5]]" ref_core_deps] small(2)
    by (simp add: chunk_ciphertext_def staged_chunk_ref_def staged_chunk_def usize_u64_def)
qed

theorem multipart_upload_agrees_witness:
  "\<forall>D alpha auth t sid. upload_parts D alpha auth t sid [[1, 2], [], [3, 4, 5]] chunk_cursor_start =
    bnd (put_chunk D alpha auth
      \<lparr>pc_tenant_id = t, pc_session_id = sid, pc_chunk_index = 0, pc_chunk_cid = cid_from_bytes D [1, 2, 3, 4, 5],
       pc_chunk_offset = 0, pc_chunk_length = 5, pc_content_encoding = ''identity''\<rparr> [1, 2, 3, 4, 5]) (\<lambda>_.
    ret \<lparr>ck_pending = [], ck_next_index = 1, ck_next_offset = 5\<rparr>)" (is "\<forall>D alpha auth t sid. ?P D alpha auth t sid")
proof (intro allI)
  fix D alpha auth t sid
  have small: "5 \<le> FIXED_CHUNK_SIZE" "5 \<le> FIXED_CHUNK_SIZE * (2 ^ 32 - 1)" by (simp_all add: FIXED_CHUNK_SIZE_def)
  have "chunks_of FIXED_CHUNK_SIZE [1, 2, 3, 4, 5 :: byte] = [[1, 2, 3, 4, 5]]"
    using small(1) by (simp add: chunks_of_step)
  then show "?P D alpha auth t sid"
    using multipart_upload_agrees [of "[[1, 2], [], [3, 4, 5]]" D alpha auth t sid] small(2)
    by (simp add: chunk_ciphertext_def staged_chunk_def usize_u64_def) (simp add: bnd_def ret_def fun_eq_iff split: sum.splits prod.splits)
qed

end
