(* ===== verification/HSP_Distribution.thy ===== *)
theory HSP_Distribution
  imports HSP_Dist_Auth HSP_Dist_Chunks
begin

text \<open>
  The operations of \<open>DistributionService\<close> (\<open>crates/hsp-distribution/src/lib.rs\<close>): buckets and their
  configuration, objects over the upload and namespace protocol of \<open>AlphaService\<close>, multipart
  uploads and replication. Each is a computation on the state of the service in the order of the
  source.
\<close>

section \<open>Construction\<close>

definition distribution_service_new ::
  "dist_deps \<Rightarrow> (string \<Rightarrow> string option) \<Rightarrow> DistributionConfig \<Rightarrow> LocalDevKms \<Rightarrow> IssuerRegistry \<Rightarrow> byte list
   \<Rightarrow> string \<Rightarrow> byte list \<Rightarrow> DistributionService svc_op" where
  "distribution_service_new D env config kms registry namespace_key namespace_key_id edge_secret =
     bnd (lift_result (validate_edge_signing_secret edge_secret)) (\<lambda>_.
     bnd (ensure (resolve_key_id registry (as_bytes namespace_key_id) \<noteq> None)
            (api_error Cat_Policy ''distribution_signer_missing_from_registry''
               ''distribution namespace signer is not trusted by the issuer registry'')) (\<lambda>_.
     bnd (store_from_config (alpha_code D) (cf_root_dir (dc_alpha config)) (cf_storage_backend (dc_alpha config))) (\<lambda>store.
     bnd (alpha_service_new (alpha_code D) (dc_alpha config) kms) (\<lambda>alpha0.
     let alpha = with_issuer_registry alpha0 registry in
     bnd (case dc_aws_kms config of
            None \<Rightarrow> ret (LocalKms kms)
          | Some aws \<Rightarrow>
              bnd (on_err (\<lambda>error. crypto_error_to_api error ''failed to initialize AWS KMS adapter'')
                     (with_local_fallback (alpha_code D) env aws kms)) (\<lambda>provider. ret (AwsKms provider))) (\<lambda>store_kms.
     let ds = \<lparr>ds_config = config, ds_alpha = alpha, ds_object_kms = kms, ds_store_kms = store_kms, ds_store = store,
               ds_issuer_registry = registry, ds_namespace_signing_key = namespace_key,
               ds_namespace_signing_key_id = namespace_key_id, ds_edge_signing_secret = edge_secret\<rparr> in
     bnd (store_ensure_roots (alpha_code D) store dist_store_kinds) (\<lambda>_. ret ds))))))"

definition dist_metrics_snapshot :: "service \<Rightarrow> ServiceMetricEntry list" where
  "dist_metrics_snapshot s = metrics_snapshot s"

definition dist_prometheus_metrics :: "service \<Rightarrow> string" where
  "dist_prometheus_metrics s = prometheus_metrics s"

definition dist_structured_logs :: "service \<Rightarrow> StructuredLogRecord list" where
  "dist_structured_logs s = structured_logs s"

section \<open>Buckets\<close>

definition create_bucket :: "dist_deps \<Rightarrow> DistributionService \<Rightarrow> AuthContext \<Rightarrow> TenantId \<Rightarrow> string \<Rightarrow> BucketRecord svc_op" where
  "create_bucket D ds auth tenant_id bucket =
     bnd (lift_result (canonical_bucket_name bucket)) (\<lambda>bucket.
     bnd (lift_result (ensure_bucket_mutation_scope_for auth tenant_id (Some bucket) None)) (\<lambda>_.
     bnd (bucket_record D ds tenant_id bucket) (\<lambda>found.
     bnd (ensure (found = None) (api_error Cat_Conflict ''bucket_already_exists'' ''bucket already exists'')) (\<lambda>_.
     bnd now_ms (\<lambda>created_at_ms.
     let rec = \<lparr>bk_tenant_id = tenant_id, bk_bucket = bucket, bk_namespace = bucket,
                bk_visibility_policy = ''signed-only'',
                bk_namespace_cache_ttl_sec = dc_namespace_ttl_sec (ds_config ds),
                bk_immutable_cid_cache_ttl_sec = dc_immutable_cid_ttl_sec (ds_config ds),
                bk_created_at_ms = created_at_ms\<rparr> in
     bnd (dist_write_json D ds (json_bucket D) tenant_id BUCKET_REGISTRY_STORE bucket rec) (\<lambda>_.
     bnd now_ms (\<lambda>updated_at_ms.
     bnd (dist_write_json D ds (json_dist_metadata D) tenant_id DISTRIBUTION_METADATA_STORE (''bucket-meta-'' @ bucket)
            \<lparr>dm_tenant_id = tenant_id, dm_bucket = bucket, dm_edge_token_policy = ''signed'',
             dm_presign_enabled = True, dm_updated_at_ms = updated_at_ms\<rparr>) (\<lambda>_.
     ret rec))))))))"

definition bucket_summary :: "BucketRecord \<Rightarrow> BucketSummary" where
  "bucket_summary rec =
     \<lparr>bsm_bucket = bk_bucket rec, bsm_namespace = bk_namespace rec, bsm_created_at_ms = bk_created_at_ms rec\<rparr>"

definition list_buckets :: "dist_deps \<Rightarrow> DistributionService \<Rightarrow> AuthContext \<Rightarrow> TenantId \<Rightarrow> BucketSummary list svc_op" where
  "list_buckets D ds auth tenant_id =
     bnd (lift_result (ensure_bucket_read_scope auth tenant_id)) (\<lambda>_.
     bnd (dist_list_json D ds (json_bucket D) tenant_id BUCKET_REGISTRY_STORE) (\<lambda>records.
     ret (sort_key bsm_bucket (map bucket_summary records))))"

definition head_bucket :: "dist_deps \<Rightarrow> DistributionService \<Rightarrow> AuthContext \<Rightarrow> TenantId \<Rightarrow> string \<Rightarrow> BucketRecord svc_op" where
  "head_bucket D ds auth tenant_id bucket =
     bnd (lift_result (canonical_bucket_name bucket)) (\<lambda>bucket.
     bnd (ensure_bucket_read_scope_for D ds auth tenant_id bucket None) (\<lambda>_.
     bnd (bucket_record D ds tenant_id bucket) (\<lambda>found.
     lift_result (ok_or found bucket_not_found))))"

definition has_multipart_sessions :: "dist_deps \<Rightarrow> DistributionService \<Rightarrow> TenantId \<Rightarrow> string \<Rightarrow> bool svc_op" where
  "has_multipart_sessions D ds tenant_id bucket =
     bnd (dist_list_json D ds (json_multipart_session D) tenant_id MULTIPART_SESSIONS_STORE) (\<lambda>sessions.
     ret (list_ex (\<lambda>session. ms_bucket session = bucket \<and> \<not> ms_completed session) sessions))"

definition bucket_not_empty :: "string \<Rightarrow> ApiError" where
  "bucket_not_empty message = api_error Cat_Conflict ''bucket_not_empty'' message"

definition delete_bucket :: "dist_deps \<Rightarrow> DistributionService \<Rightarrow> AuthContext \<Rightarrow> TenantId \<Rightarrow> string \<Rightarrow> unit svc_op" where
  "delete_bucket D ds auth tenant_id bucket =
     bnd (lift_result (canonical_bucket_name bucket)) (\<lambda>bucket.
     bnd (lift_result (ensure_bucket_mutation_scope_for auth tenant_id (Some bucket) None)) (\<lambda>_.
     bnd (head_bucket D ds auth tenant_id bucket) (\<lambda>_.
     bnd (list_op (alpha_code D) (ds_alpha ds) auth
            \<lparr>lr_tenant_id = tenant_id, lr_namespace = bucket, lr_prefix = None, lr_cursor = None,
             lr_limit = Some 1, lr_recursive = True, lr_include_tombstones = False\<rparr>) (\<lambda>objects.
     bnd (ensure (lp_items objects = []) (bucket_not_empty ''bucket namespace still contains objects'')) (\<lambda>_.
     bnd (has_multipart_sessions D ds tenant_id bucket) (\<lambda>active.
     bnd (ensure (\<not> active) (bucket_not_empty ''bucket still has active multipart uploads'')) (\<lambda>_.
     bnd (dist_delete_store_key D ds tenant_id BUCKET_REGISTRY_STORE bucket) (\<lambda>_.
     dist_delete_store_key D ds tenant_id DISTRIBUTION_METADATA_STORE (''bucket-meta-'' @ bucket)))))))))"

section \<open>Access lists\<close>

definition put_bucket_acl ::
  "dist_deps \<Rightarrow> DistributionService \<Rightarrow> AuthContext \<Rightarrow> TenantId \<Rightarrow> string \<Rightarrow> CannedAcl \<Rightarrow> BucketAclRecord svc_op" where
  "put_bucket_acl D ds auth tenant_id bucket acl =
     bnd (lift_result (canonical_bucket_name bucket)) (\<lambda>bucket.
     bnd (lift_result (ensure_bucket_mutation_scope_for auth tenant_id (Some bucket) None)) (\<lambda>_.
     bnd (require_bucket D ds tenant_id bucket) (\<lambda>_.
     bnd now_ms (\<lambda>now.
     let rec = \<lparr>ba_tenant_id = tenant_id, ba_bucket = bucket, ba_acl = acl, ba_updated_at_ms = now\<rparr> in
     bnd (dist_write_json D ds (json_bucket_acl D) tenant_id ACL_STORE (bucket_acl_store_key bucket) rec) (\<lambda>_.
     ret rec)))))"

definition get_bucket_acl ::
  "dist_deps \<Rightarrow> DistributionService \<Rightarrow> AuthContext \<Rightarrow> TenantId \<Rightarrow> string \<Rightarrow> BucketAclRecord svc_op" where
  "get_bucket_acl D ds auth tenant_id bucket =
     bnd (lift_result (canonical_bucket_name bucket)) (\<lambda>bucket.
     bnd (ensure_bucket_read_scope_for D ds auth tenant_id bucket None) (\<lambda>_.
     bnd (require_bucket D ds tenant_id bucket) (\<lambda>_.
     bnd (dist_read_json D ds (json_bucket_acl D) tenant_id ACL_STORE (bucket_acl_store_key bucket)) (\<lambda>found.
     bnd now_ms (\<lambda>now.
     ret (case found of
            Some rec \<Rightarrow> rec
          | None \<Rightarrow> \<lparr>ba_tenant_id = tenant_id, ba_bucket = bucket, ba_acl = Acl_Private, ba_updated_at_ms = now\<rparr>))))))"

definition put_object_acl ::
  "dist_deps \<Rightarrow> DistributionService \<Rightarrow> AuthContext \<Rightarrow> TenantId \<Rightarrow> string \<Rightarrow> string \<Rightarrow> CannedAcl \<Rightarrow> ObjectAclRecord svc_op" where
  "put_object_acl D ds auth tenant_id bucket key acl =
     bnd (lift_result (canonical_bucket_name bucket)) (\<lambda>bucket.
     bnd (lift_result (canonical_object_key_name key)) (\<lambda>key.
     bnd (lift_result (ensure_bucket_mutation_scope_for auth tenant_id (Some bucket) (Some key))) (\<lambda>_.
     bnd (require_bucket D ds tenant_id bucket) (\<lambda>_.
     bnd now_ms (\<lambda>now.
     let rec = \<lparr>oa_tenant_id = tenant_id, oa_bucket = bucket, oa_key = key, oa_acl = acl, oa_updated_at_ms = now\<rparr> in
     bnd (dist_write_json D ds (json_object_acl D) tenant_id ACL_STORE (object_acl_store_key bucket key) rec) (\<lambda>_.
     ret rec))))))"

definition get_object_acl ::
  "dist_deps \<Rightarrow> DistributionService \<Rightarrow> AuthContext \<Rightarrow> TenantId \<Rightarrow> string \<Rightarrow> string \<Rightarrow> ObjectAclRecord svc_op" where
  "get_object_acl D ds auth tenant_id bucket key =
     bnd (lift_result (canonical_bucket_name bucket)) (\<lambda>bucket.
     bnd (lift_result (canonical_object_key_name key)) (\<lambda>key.
     bnd (ensure_bucket_read_scope_for D ds auth tenant_id bucket (Some key)) (\<lambda>_.
     bnd (require_bucket D ds tenant_id bucket) (\<lambda>_.
     bnd (dist_read_json D ds (json_object_acl D) tenant_id ACL_STORE (object_acl_store_key bucket key)) (\<lambda>found.
     bnd now_ms (\<lambda>now.
     ret (case found of
            Some rec \<Rightarrow> rec
          | None \<Rightarrow> \<lparr>oa_tenant_id = tenant_id, oa_bucket = bucket, oa_key = key, oa_acl = Acl_Private,
                     oa_updated_at_ms = now\<rparr>)))))))"

section \<open>Lifecycle and website configuration\<close>

definition lifecycle_rule_ok :: "LifecycleRule \<Rightarrow> bool" where
  "lifecycle_rule_ok rule \<longleftrightarrow>
     \<not> (lcr_expire_after_days rule = None \<and>
        (lcr_transition_after_days rule = None \<or> lcr_transition_storage_class rule = None))"

definition put_lifecycle_config ::
  "dist_deps \<Rightarrow> DistributionService \<Rightarrow> AuthContext \<Rightarrow> LifecycleConfig \<Rightarrow> LifecycleConfig svc_op" where
  "put_lifecycle_config D ds auth config =
     bnd (lift_result (canonical_bucket_name (lcc_bucket config))) (\<lambda>bucket.
     bnd (lift_result (ensure_bucket_mutation_scope_for auth (lcc_tenant_id config) (Some bucket) None)) (\<lambda>_.
     bnd (require_bucket D ds (lcc_tenant_id config) bucket) (\<lambda>_.
     bnd (ensure (list_all lifecycle_rule_ok (lcc_rules config))
            (api_error Cat_Validation ''lifecycle_conflict''
               ''lifecycle rule must define expiration or transition action'')) (\<lambda>_.
     bnd now_ms (\<lambda>now.
     let config = config\<lparr>lcc_bucket := bucket, lcc_updated_at_ms := now\<rparr> in
     bnd (dist_write_json D ds (json_lifecycle D) (lcc_tenant_id config) LIFECYCLE_STORE (lifecycle_store_key bucket) config) (\<lambda>_.
     ret config))))))"

definition get_lifecycle_config ::
  "dist_deps \<Rightarrow> DistributionService \<Rightarrow> AuthContext \<Rightarrow> TenantId \<Rightarrow> string \<Rightarrow> LifecycleConfig svc_op" where
  "get_lifecycle_config D ds auth tenant_id bucket =
     bnd (lift_result (canonical_bucket_name bucket)) (\<lambda>bucket.
     bnd (ensure_bucket_read_scope_for D ds auth tenant_id bucket None) (\<lambda>_.
     bnd (require_bucket D ds tenant_id bucket) (\<lambda>_.
     bnd (dist_read_json D ds (json_lifecycle D) tenant_id LIFECYCLE_STORE (lifecycle_store_key bucket)) (\<lambda>found.
     lift_result (ok_or found
       (api_error Cat_NotFound ''lifecycle_not_found'' ''bucket lifecycle configuration not found''))))))"

definition delete_lifecycle_config ::
  "dist_deps \<Rightarrow> DistributionService \<Rightarrow> AuthContext \<Rightarrow> TenantId \<Rightarrow> string \<Rightarrow> unit svc_op" where
  "delete_lifecycle_config D ds auth tenant_id bucket =
     bnd (lift_result (canonical_bucket_name bucket)) (\<lambda>bucket.
     bnd (lift_result (ensure_bucket_mutation_scope_for auth tenant_id (Some bucket) None)) (\<lambda>_.
     dist_delete_store_key D ds tenant_id LIFECYCLE_STORE (lifecycle_store_key bucket)))"

definition put_website_config ::
  "dist_deps \<Rightarrow> DistributionService \<Rightarrow> AuthContext \<Rightarrow> WebsiteConfig \<Rightarrow> WebsiteConfig svc_op" where
  "put_website_config D ds auth config =
     bnd (lift_result (canonical_bucket_name (wb_bucket config))) (\<lambda>bucket.
     bnd (lift_result (ensure_bucket_mutation_scope_for auth (wb_tenant_id config) (Some bucket) None)) (\<lambda>_.
     bnd (require_bucket D ds (wb_tenant_id config) bucket) (\<lambda>_.
     bnd (ensure (\<not> (wb_access_profile config \<noteq> TrustedEdgeV1 \<or> \<not> dc_plaintext_profile_enabled (ds_config ds)))
            (api_error Cat_Policy ''trusted_edge_required''
               ''website hosting mode is allowed only for trusted-edge-v1 profile'')) (\<lambda>_.
     bnd now_ms (\<lambda>now.
     let config = config\<lparr>wb_bucket := bucket, wb_updated_at_ms := now\<rparr> in
     bnd (dist_write_json D ds (json_website D) (wb_tenant_id config) WEBSITE_STORE (website_store_key bucket) config) (\<lambda>_.
     ret config))))))"

definition get_website_config ::
  "dist_deps \<Rightarrow> DistributionService \<Rightarrow> AuthContext \<Rightarrow> TenantId \<Rightarrow> string \<Rightarrow> WebsiteConfig svc_op" where
  "get_website_config D ds auth tenant_id bucket =
     bnd (lift_result (canonical_bucket_name bucket)) (\<lambda>bucket.
     bnd (ensure_bucket_read_scope_for D ds auth tenant_id bucket None) (\<lambda>_.
     bnd (dist_read_json D ds (json_website D) tenant_id WEBSITE_STORE (website_store_key bucket)) (\<lambda>found.
     lift_result (ok_or found
       (api_error Cat_NotFound ''website_config_not_found'' ''website configuration not found'')))))"

definition delete_website_config ::
  "dist_deps \<Rightarrow> DistributionService \<Rightarrow> AuthContext \<Rightarrow> TenantId \<Rightarrow> string \<Rightarrow> unit svc_op" where
  "delete_website_config D ds auth tenant_id bucket =
     bnd (lift_result (canonical_bucket_name bucket)) (\<lambda>bucket.
     bnd (lift_result (ensure_bucket_mutation_scope_for auth tenant_id (Some bucket) None)) (\<lambda>_.
     dist_delete_store_key D ds tenant_id WEBSITE_STORE (website_store_key bucket)))"

section \<open>Object locks\<close>

definition put_object_retention ::
  "dist_deps \<Rightarrow> DistributionService \<Rightarrow> AuthContext \<Rightarrow> TenantId \<Rightarrow> string \<Rightarrow> string \<Rightarrow> u64 option \<Rightarrow> string option
   \<Rightarrow> ObjectLockRecord svc_op" where
  "put_object_retention D ds auth tenant_id bucket key immutable_until_ms mode =
     bnd (lift_result (canonical_bucket_name bucket)) (\<lambda>bucket.
     bnd (lift_result (canonical_object_key_name key)) (\<lambda>key.
     bnd (lift_result (ensure_bucket_mutation_scope_for auth tenant_id (Some bucket) (Some key))) (\<lambda>_.
     bnd (require_bucket D ds tenant_id bucket) (\<lambda>_.
     bnd (dist_read_json D ds (json_object_lock D) tenant_id OBJECT_LOCK_STORE (object_lock_store_key bucket key)) (\<lambda>found.
     bnd now_ms (\<lambda>now.
     let rec = (case found of Some rec \<Rightarrow> rec | None \<Rightarrow> default_object_lock tenant_id bucket key now) in
     bnd (ensure_retention_update_allowed rec immutable_until_ms mode auth) (\<lambda>_.
     bnd now_ms (\<lambda>updated_at_ms.
     let rec = rec\<lparr>ol_immutable_until_ms := immutable_until_ms, ol_mode := mode, ol_updated_at_ms := updated_at_ms\<rparr> in
     bnd (dist_write_json D ds (json_object_lock D) tenant_id OBJECT_LOCK_STORE (object_lock_store_key bucket key) rec) (\<lambda>_.
     ret rec)))))))))"

definition put_object_legal_hold ::
  "dist_deps \<Rightarrow> DistributionService \<Rightarrow> AuthContext \<Rightarrow> TenantId \<Rightarrow> string \<Rightarrow> string \<Rightarrow> bool \<Rightarrow> ObjectLockRecord svc_op" where
  "put_object_legal_hold D ds auth tenant_id bucket key legal_hold =
     bnd (lift_result (canonical_bucket_name bucket)) (\<lambda>bucket.
     bnd (lift_result (canonical_object_key_name key)) (\<lambda>key.
     bnd (lift_result (ensure_bucket_mutation_scope_for auth tenant_id (Some bucket) (Some key))) (\<lambda>_.
     bnd (require_bucket D ds tenant_id bucket) (\<lambda>_.
     bnd (dist_read_json D ds (json_object_lock D) tenant_id OBJECT_LOCK_STORE (object_lock_store_key bucket key)) (\<lambda>found.
     bnd now_ms (\<lambda>now.
     let rec = (case found of Some rec \<Rightarrow> rec | None \<Rightarrow> default_object_lock tenant_id bucket key now) in
     bnd (lift_result (if ol_legal_hold rec \<and> \<not> legal_hold then require_admin_repair auth ''legal_hold_active'' else Ok ())) (\<lambda>_.
     bnd now_ms (\<lambda>updated_at_ms.
     let rec = rec\<lparr>ol_legal_hold := legal_hold, ol_updated_at_ms := updated_at_ms\<rparr> in
     bnd (dist_write_json D ds (json_object_lock D) (ol_tenant_id rec) OBJECT_LOCK_STORE
            (object_lock_store_key (ol_bucket rec) (ol_key rec)) rec) (\<lambda>_.
     ret rec)))))))))"

definition get_object_lock ::
  "dist_deps \<Rightarrow> DistributionService \<Rightarrow> AuthContext \<Rightarrow> TenantId \<Rightarrow> string \<Rightarrow> string \<Rightarrow> ObjectLockRecord svc_op" where
  "get_object_lock D ds auth tenant_id bucket key =
     bnd (lift_result (canonical_bucket_name bucket)) (\<lambda>bucket.
     bnd (lift_result (canonical_object_key_name key)) (\<lambda>key.
     bnd (ensure_bucket_read_scope_for D ds auth tenant_id bucket (Some key)) (\<lambda>_.
     bnd (dist_read_json D ds (json_object_lock D) tenant_id OBJECT_LOCK_STORE (object_lock_store_key bucket key)) (\<lambda>found.
     bnd now_ms (\<lambda>now.
     ret (case found of Some rec \<Rightarrow> rec | None \<Rightarrow> default_object_lock tenant_id bucket key now))))))"

section \<open>Uploading objects\<close>

text \<open>The locals of \<open>put_object\<close> that depend on whether the payload is plaintext.\<close>

record effective_payload =
  ef_ciphertext :: "byte list"
  ef_metadata :: metadata
  ef_wrapped_keys :: "WrappedObjectKeyRecord list"
  ef_content_suite :: string
  ef_wrapping_suite :: string

definition payload_as_given :: "PutObjectRequest \<Rightarrow> byte list \<Rightarrow> effective_payload" where
  "payload_as_given request payload =
     \<lparr>ef_ciphertext = payload, ef_metadata = po_server_visible_metadata request,
      ef_wrapped_keys = po_wrapped_object_keys request, ef_content_suite = po_content_encryption_suite request,
      ef_wrapping_suite = po_key_wrapping_suite request\<rparr>"

definition for_trusted_edge :: "WrappedObjectKeyRecord \<Rightarrow> bool" where
  "for_trusted_edge entry \<longleftrightarrow> wk_recipient_key_id entry = TRUSTED_EDGE_RECIPIENT_KEY_ID"

definition encrypt_plaintext_payload ::
  "dist_deps \<Rightarrow> DistributionService \<Rightarrow> PutObjectRequest \<Rightarrow> byte list \<Rightarrow> effective_payload svc_op" where
  "encrypt_plaintext_payload D ds request payload =
     bnd generate_object_data_key (\<lambda>object_key.
     bnd (on_err (\<lambda>error. crypto_error_to_api error ''failed to encrypt trusted-edge plaintext payload'')
            (encrypt_client_chunk (alpha_code D) object_key payload)) (\<lambda>encrypted.
     bnd (if list_ex for_trusted_edge (po_wrapped_object_keys request) then ret (po_wrapped_object_keys request)
          else
            bnd (on_err (\<lambda>error. crypto_error_to_api error ''failed to wrap trusted-edge object data key'')
                   (wrap_object_key_for_recipient (alpha_code D) (ds_store_kms ds) (po_tenant_id request)
                      TRUSTED_EDGE_RECIPIENT_KEY_ID object_key)) (\<lambda>wrapped.
            ret (po_wrapped_object_keys request @ [wrapped]))) (\<lambda>wrapped_object_keys.
     ret \<lparr>ef_ciphertext = cc_ciphertext encrypted,
          ef_metadata = btm_insert ''hsp-trusted-edge-nonce'' (cc_nonce_b64 encrypted) (po_server_visible_metadata request),
          ef_wrapped_keys = wrapped_object_keys,
          ef_content_suite =
            (if trim (po_content_encryption_suite request) = [] then ''XChaCha20-Poly1305''
             else po_content_encryption_suite request),
          ef_wrapping_suite =
            (if trim (po_key_wrapping_suite request) = [] then ''HPKE/X25519''
             else po_key_wrapping_suite request)\<rparr>)))"

definition validate_ciphertext_manifest_input :: "PutObjectRequest \<Rightarrow> byte list \<Rightarrow> ApiError + unit" where
  "validate_ciphertext_manifest_input request ciphertext =
     (if ciphertext = [] then
        Err (api_error Cat_Validation ''unsupported_plaintext_mode'' ''ciphertext object body must be non-empty'')
      else if \<not> po_payload_plaintext request \<and> po_wrapped_object_keys request = [] then
        Err (api_error Cat_Unsupported ''unsupported_plaintext_mode''
               ''ciphertext object uploads require wrapped object keys'')
      else Ok ())"

definition resolve_request :: "TenantId \<Rightarrow> string \<Rightarrow> string \<Rightarrow> ResolveRequest" where
  "resolve_request tenant_id namespace path =
     \<lparr>rs_tenant_id = tenant_id, rs_namespace = namespace, rs_path = path, rs_at_revision = None, rs_if_revision = None\<rparr>"

text \<open>The binding an upload replaces: a failing \<open>resolve\<close> counts as none.\<close>

definition existing_binding ::
  "dist_deps \<Rightarrow> DistributionService \<Rightarrow> AuthContext \<Rightarrow> TenantId \<Rightarrow> string \<Rightarrow> string \<Rightarrow> (service, 'e, ResolveResponse option) comp" where
  "existing_binding D ds auth tenant_id namespace path =
     bnd (try_op (resolve (alpha_code D) (ds_alpha ds) auth (resolve_request tenant_id namespace path))) (\<lambda>found.
     ret (case found of None \<Rightarrow> None | Some resolved \<Rightarrow> if rr_tombstone resolved then None else Some resolved))"

definition bind_mutation ::
  "TenantId \<Rightarrow> string \<Rightarrow> string \<Rightarrow> string \<Rightarrow> u64 option \<Rightarrow> metadata \<Rightarrow> u64 \<Rightarrow> NamespaceMutationRecord" where
  "bind_mutation tenant_id namespace path target_cid if_revision metadata now =
     \<lparr>nm_version = 1, nm_tenant_id = tenant_id, nm_namespace = namespace, nm_path = path, nm_kind = NM_Bind,
      nm_target_cid = Some target_cid, nm_if_revision = if_revision, nm_ttl_ms = None, nm_metadata = metadata,
      nm_issued_at_ms = now\<rparr>"

definition sign_atomic_bind ::
  "dist_deps \<Rightarrow> DistributionService \<Rightarrow> TenantId \<Rightarrow> string \<Rightarrow> string \<Rightarrow> string \<Rightarrow> u64 option \<Rightarrow> metadata
   \<Rightarrow> AtomicBindRequest svc_op" where
  "sign_atomic_bind D ds tenant_id namespace path target_cid if_revision metadata =
     bnd now_ms (\<lambda>now.
     bnd (lift_result (sign_namespace_record D ds
            (bind_mutation tenant_id namespace path target_cid if_revision metadata now))) (\<lambda>signed.
     ret \<lparr>ab_namespace = namespace, ab_path = path, ab_if_revision = if_revision, ab_metadata = metadata,
          ab_ttl_ms = None, ab_signed_record_b64 = signed\<rparr>))"

definition storage_class_or_default :: "string \<Rightarrow> string" where
  "storage_class_or_default storage_class = (if trim storage_class = [] then DEFAULT_STORAGE_CLASS else storage_class)"

definition put_object_manifest ::
  "dist_deps \<Rightarrow> PutObjectRequest \<Rightarrow> effective_payload \<Rightarrow> Manifest svc_op" where
  "put_object_manifest D request effective =
     build_manifest (alpha_code D)
       \<lparr>mb_tenant_id = po_tenant_id request, mb_ciphertext = ef_ciphertext effective,
        mb_content_type = po_content_type request, mb_encryption_profile_id = po_encryption_profile_id request,
        mb_key_policy_id = po_key_policy_id request, mb_metadata_visibility = po_metadata_visibility request,
        mb_content_encryption_suite = ef_content_suite effective, mb_key_wrapping_suite = ef_wrapping_suite effective,
        mb_wrapped_object_keys = ef_wrapped_keys effective, mb_server_visible_metadata = ef_metadata effective,
        mb_encrypted_client_metadata = po_encrypted_client_metadata request\<rparr>"

definition put_object_upload ::
  "dist_deps \<Rightarrow> DistributionService \<Rightarrow> AuthContext \<Rightarrow> PutObjectRequest \<Rightarrow> BucketRecord \<Rightarrow> string
   \<Rightarrow> effective_payload \<Rightarrow> u64 option \<Rightarrow> PutObjectResponse svc_op" where
  "put_object_upload D ds auth request bucket key effective existing_revision =
     bnd (put_object_manifest D request effective) (\<lambda>manifest.
     let mcid = manifest_cid (alpha_code D) manifest in
     bnd (sign_atomic_bind D ds (po_tenant_id request) (bk_namespace bucket) key mcid existing_revision
            (ef_metadata effective)) (\<lambda>atomic_bind.
     bnd (put_init (alpha_code D) (ds_alpha ds) auth
            \<lparr>pi_tenant_id = po_tenant_id request, pi_manifest = manifest,
             pi_idempotency_key = po_idempotency_key request,
             pi_encryption_profile_id = po_encryption_profile_id request,
             pi_key_policy_id = po_key_policy_id request, pi_metadata_visibility = po_metadata_visibility request,
             pi_storage_class = storage_class_or_default (po_storage_class request),
             pi_atomic_bind = Some atomic_bind\<rparr>) (\<lambda>init.
     bnd (put_staged_chunks (alpha_code D) (ds_alpha ds) auth (po_tenant_id request) (pir_session_id init)
            (chunk_ciphertext (alpha_code D) (ef_ciphertext effective))) (\<lambda>_.
     bnd (put_commit (alpha_code D) (ds_alpha ds) auth
            \<lparr>pm_tenant_id = po_tenant_id request, pm_session_id = pir_session_id init, pm_manifest_cid = mcid,
             pm_idempotency_key = po_idempotency_key request\<rparr>) (\<lambda>committed.
     ret \<lparr>por_bucket = bk_bucket bucket, por_key = key, por_object_cid = pmr_object_cid committed,
          por_manifest_cid = mcid, por_etag = pmr_object_cid committed,
          por_event_seq = pmr_event_seq committed\<rparr>)))))"

definition put_object ::
  "dist_deps \<Rightarrow> DistributionService \<Rightarrow> AuthContext \<Rightarrow> PutObjectRequest \<Rightarrow> byte list \<Rightarrow> PutObjectResponse svc_op" where
  "put_object D ds auth request payload =
     bnd (lift_result (validate_access_profile ds (po_access_profile request) (po_payload_plaintext request))) (\<lambda>_.
     bnd (require_bucket D ds (po_tenant_id request) (po_bucket request)) (\<lambda>bucket.
     bnd (lift_result (canonical_object_key_name (po_key request))) (\<lambda>key.
     bnd (lift_result (ensure_bucket_mutation_scope_for auth (po_tenant_id request) (Some (bk_bucket bucket)) (Some key))) (\<lambda>_.
     bnd (if po_payload_plaintext request then encrypt_plaintext_payload D ds request payload
          else ret (payload_as_given request payload)) (\<lambda>effective.
     bnd (lift_result (validate_ciphertext_manifest_input request (ef_ciphertext effective))) (\<lambda>_.
     bnd (existing_binding D ds auth (po_tenant_id request) (bk_namespace bucket) key) (\<lambda>existing.
     bnd (if existing \<noteq> None then
            ensure_object_mutation_unlocked D ds (po_tenant_id request) (bk_bucket bucket) key False auth
          else ret ()) (\<lambda>_.
     put_object_upload D ds auth request bucket key effective (map_option rr_revision existing)))))))))"

section \<open>Reading objects\<close>

definition manifest_missing_from_response :: ApiError where
  "manifest_missing_from_response =
     api_error Cat_Storage ''manifest_missing_from_response'' ''manifest-only read did not include a manifest''"

text \<open>The response to a read of the manifest, for a bucket and a key.\<close>

definition head_of_meta :: "string \<Rightarrow> string \<Rightarrow> GetResponseMeta \<Rightarrow> Manifest \<Rightarrow> HeadObjectResponse" where
  "head_of_meta bucket key meta manifest =
     \<lparr>hor_exists = gm_exists meta, hor_deleted = gm_deleted meta, hor_cid = gm_cid meta, hor_bucket = bucket,
      hor_key = key, hor_object_cid = gm_object_cid meta, hor_manifest_cid = gm_manifest_cid meta,
      hor_integrity_hash = gm_integrity_hash meta, hor_etag = gm_object_cid meta,
      hor_size_bytes = gm_size_bytes meta, hor_ciphertext_size_bytes = gm_ciphertext_size_bytes meta,
      hor_content_length = gm_stored_size meta, hor_content_type = gm_content_type meta,
      hor_last_modified_ms = mf_created_at_ms manifest,
      hor_encryption_profile_id = gm_encryption_profile_id meta, hor_key_policy_id = gm_key_policy_id meta,
      hor_server_visible_metadata = gm_server_visible_metadata meta,
      hor_encrypted_client_metadata_redacted = gm_encrypted_client_metadata_redacted meta,
      hor_metadata_visibility = gm_metadata_visibility meta\<rparr>"

definition get_request :: "TenantId \<Rightarrow> ObjectSelector \<Rightarrow> GetPreference \<Rightarrow> RangeSpec option \<Rightarrow> GetRequest" where
  "get_request tenant_id selector preference rng =
     \<lparr>gq_tenant_id = tenant_id, gq_selector = selector, gq_preference = Some preference, gq_range = rng\<rparr>"

definition head_object ::
  "dist_deps \<Rightarrow> DistributionService \<Rightarrow> AuthContext \<Rightarrow> HeadObjectRequest \<Rightarrow> HeadObjectResponse svc_op" where
  "head_object D ds auth request =
     bnd (require_bucket D ds (ho_tenant_id request) (ho_bucket request)) (\<lambda>bucket.
     bnd (lift_result (canonical_object_key_name (ho_key request))) (\<lambda>key.
     bnd (ensure_bucket_read_scope_for D ds auth (ho_tenant_id request) (bk_bucket bucket) (Some key)) (\<lambda>_.
     bnd (on_err map_object_error (get (alpha_code D) (ds_alpha ds) auth
            (get_request (ho_tenant_id request) (selector_namespace (bk_namespace bucket) key) Pref_ManifestOnly None))) (\<lambda>manifest_only.
     bnd (lift_result (ok_or (gm_manifest (gr_meta manifest_only)) manifest_missing_from_response)) (\<lambda>manifest.
     ret (head_of_meta (bk_bucket bucket) key (gr_meta manifest_only) manifest))))))"

text \<open>The binding a read by content identifier is checked against.\<close>

definition cid_binding ::
  "dist_deps \<Rightarrow> DistributionService \<Rightarrow> AuthContext \<Rightarrow> GetObjectRequest \<Rightarrow> string \<Rightarrow> (BucketRecord \<times> string) option svc_op" where
  "cid_binding D ds auth request cid =
     (case (go_bucket request, go_key request) of
        (Some bucket_name, Some key) \<Rightarrow>
          bnd (require_bucket D ds (go_tenant_id request) bucket_name) (\<lambda>bucket.
          bnd (lift_result (canonical_object_key_name key)) (\<lambda>key.
          bnd (ensure_bucket_read_scope_for D ds auth (go_tenant_id request) (bk_bucket bucket) (Some key)) (\<lambda>_.
          bnd (on_err map_object_error (resolve (alpha_code D) (ds_alpha ds) auth
                 (resolve_request (go_tenant_id request) (bk_namespace bucket) key))) (\<lambda>resolved.
          bnd (ensure (\<not> (rr_target_cid resolved \<noteq> Some cid \<and> rr_manifest_cid resolved \<noteq> Some cid))
                 (api_error Cat_Policy ''cid_binding_mismatch''
                    ''requested CID is not bound to the scoped bucket/key'')) (\<lambda>_.
          ret (Some (bucket, key)))))))
      | (None, None) \<Rightarrow>
          bnd (lift_result (ensure_unscoped_cid_read_scope auth (go_tenant_id request))) (\<lambda>_. ret None)
      | _ \<Rightarrow>
          throw (api_error Cat_Validation ''missing_cid_binding''
                   ''CID reads must provide both bucket and key when a binding is supplied''))"

definition select_by_cid ::
  "dist_deps \<Rightarrow> DistributionService \<Rightarrow> AuthContext \<Rightarrow> GetObjectRequest \<Rightarrow> string
   \<Rightarrow> (HeadObjectResponse \<times> ObjectSelector) svc_op" where
  "select_by_cid D ds auth request cid =
     bnd (cid_binding D ds auth request cid) (\<lambda>binding.
     let selector = (case binding of
                       Some (bucket, key) \<Rightarrow> selector_namespace (bk_namespace bucket) key
                     | None \<Rightarrow> selector_cid cid) in
     bnd (get (alpha_code D) (ds_alpha ds) auth
            (get_request (go_tenant_id request) selector Pref_ManifestOnly None)) (\<lambda>manifest_only.
     bnd (lift_result (ok_or (gm_manifest (gr_meta manifest_only)) manifest_missing_from_response)) (\<lambda>manifest.
     ret (head_of_meta (case binding of Some (bucket, _) \<Rightarrow> bk_bucket bucket | None \<Rightarrow> [])
            (case binding of Some (_, key) \<Rightarrow> key | None \<Rightarrow> cid) (gr_meta manifest_only) manifest,
          selector))))"

definition select_by_name ::
  "dist_deps \<Rightarrow> DistributionService \<Rightarrow> AuthContext \<Rightarrow> GetObjectRequest \<Rightarrow> (HeadObjectResponse \<times> ObjectSelector) svc_op" where
  "select_by_name D ds auth request =
     bnd (lift_result (ok_or (go_bucket request)
            (api_error Cat_Validation ''missing_bucket'' ''bucket is required when cid is not provided''))) (\<lambda>bucket_name.
     bnd (lift_result (ok_or (go_key request)
            (api_error Cat_Validation ''missing_object_key'' ''object key is required when cid is not provided''))) (\<lambda>key.
     bnd (head_object D ds auth
            \<lparr>ho_tenant_id = go_tenant_id request, ho_bucket = bucket_name, ho_key = key\<rparr>) (\<lambda>head.
     bnd (require_bucket D ds (go_tenant_id request) bucket_name) (\<lambda>bucket.
     bnd (lift_result (canonical_object_key_name key)) (\<lambda>key.
     ret (head, selector_namespace (bk_namespace bucket) key))))))"

definition etag_preconditions :: "GetObjectRequest \<Rightarrow> string \<Rightarrow> ApiError + unit" where
  "etag_preconditions request etag =
     rbnd (case go_if_match request of
             None \<Rightarrow> Ok ()
           | Some if_match \<Rightarrow>
               if if_match \<noteq> etag then
                 Err (api_error Cat_Conflict ''precondition_failed''
                        ''If-Match does not match the current ciphertext object identity'')
               else Ok ()) (\<lambda>_.
     case go_if_none_match request of
       None \<Rightarrow> Ok ()
     | Some if_none_match \<Rightarrow>
         if if_none_match = etag then
           Err (api_error Cat_Conflict ''not_modified''
                  ''If-None-Match matches the current ciphertext object identity'')
         else Ok ())"

definition unsupported_plaintext_mode :: "string \<Rightarrow> ApiError" where
  "unsupported_plaintext_mode message = api_error Cat_Unsupported ''unsupported_plaintext_mode'' message"

definition decrypt_object_body ::
  "dist_deps \<Rightarrow> DistributionService \<Rightarrow> AuthContext \<Rightarrow> GetObjectRequest \<Rightarrow> ObjectSelector \<Rightarrow> Manifest option
   \<Rightarrow> byte list \<Rightarrow> byte list svc_op" where
  "decrypt_object_body D ds auth request selector manifest body =
     bnd (ensure (go_range request = None)
            (api_error Cat_Unsupported ''unsupported_preference''
               ''trusted-edge plaintext mode does not support range reads'')) (\<lambda>_.
     bnd (case manifest of
            Some manifest \<Rightarrow> ret manifest
          | None \<Rightarrow>
              bnd (get (alpha_code D) (ds_alpha ds) auth
                     (get_request (go_tenant_id request) selector Pref_ManifestOnly None)) (\<lambda>manifest_only.
              lift_result (ok_or (gm_manifest (gr_meta manifest_only)) manifest_missing_from_response))) (\<lambda>manifest.
     let descriptor = mf_encryption_descriptor manifest in
     bnd (lift_result (ok_or (btm_get (ed_server_visible_metadata descriptor) ''hsp-trusted-edge-nonce'')
            (unsupported_plaintext_mode ''trusted-edge nonce metadata is missing for this object''))) (\<lambda>nonce_b64.
     bnd (lift_result (ok_or (List.find for_trusted_edge (ed_wrapped_object_keys descriptor))
            (unsupported_plaintext_mode ''trusted-edge wrapped object key is missing''))) (\<lambda>wrapped_key.
     bnd (on_err (\<lambda>error. crypto_error_to_api error ''failed to unwrap trusted-edge object key'')
            (unwrap_object_key_for_recipient (alpha_code D) (ds_store_kms ds) (go_tenant_id request) wrapped_key)) (\<lambda>object_key.
     lift_result (map_err (\<lambda>error. crypto_error_to_api error ''failed to decrypt trusted-edge object payload'')
       (decrypt_client_chunk (alpha_code D) object_key nonce_b64 body)))))))"

definition object_cache_control :: "DistributionService \<Rightarrow> bool \<Rightarrow> string" where
  "object_cache_control ds immutable =
     (if immutable then
        ''public, max-age='' @ show_nat (unat (dc_immutable_cid_ttl_sec (ds_config ds))) @ '', immutable''
      else ''private, max-age='' @ show_nat (unat (dc_namespace_ttl_sec (ds_config ds))))"

definition object_content_range :: "RangeSpec option \<Rightarrow> u64 \<Rightarrow> string option" where
  "object_content_range rng content_length =
     map_option (\<lambda>r. ''bytes '' @ show_nat (unat (rg_start r)) @ ''-'' @ show_nat (unat (rg_end r)) @ ''/'' @
                   show_nat (unat content_length)) rng"

definition get_object ::
  "dist_deps \<Rightarrow> DistributionService \<Rightarrow> AuthContext \<Rightarrow> GetObjectRequest \<Rightarrow> GetObjectResponse svc_op" where
  "get_object D ds auth request =
     bnd (lift_result (validate_access_profile ds (go_access_profile request) (go_prefer_plaintext request))) (\<lambda>_.
     bnd (ensure (cl_tenant_id (ac_claims auth) = go_tenant_id request) tenant_mismatch) (\<lambda>_.
     bnd (case go_cid request of
            Some cid \<Rightarrow> bnd (select_by_cid D ds auth request cid) (\<lambda>(head, selector). ret (head, selector, True))
          | None \<Rightarrow> bnd (select_by_name D ds auth request) (\<lambda>(head, selector). ret (head, selector, False))) (\<lambda>(head, selector, immutable).
     bnd (lift_result (etag_preconditions request (hor_etag head))) (\<lambda>_.
     bnd (get (alpha_code D) (ds_alpha ds) auth
            (get_request (go_tenant_id request) selector Pref_ChunkStream (go_range request))) (\<lambda>response.
     let body = concat (map gc_bytes (gr_chunks response)) in
     if go_prefer_plaintext request then
       bnd (decrypt_object_body D ds auth request selector (gm_manifest (gr_meta response)) body) (\<lambda>plaintext.
       ret \<lparr>gor_head = head\<lparr>hor_content_length := usize_u64 (length plaintext)\<rparr>, gor_body = plaintext,
            gor_immutable = immutable, gor_cache_control = ''private, no-store'', gor_content_range = None\<rparr>)
     else
       ret \<lparr>gor_head = head, gor_body = body, gor_immutable = immutable,
            gor_cache_control = object_cache_control ds immutable,
            gor_content_range = object_content_range (go_range request) (hor_content_length head)\<rparr>)))))"

section \<open>Deleting, listing and copying objects\<close>

definition object_not_found :: "string \<Rightarrow> ApiError" where
  "object_not_found message = api_error Cat_NotFound ''object_not_found'' message"

definition delete_object ::
  "dist_deps \<Rightarrow> DistributionService \<Rightarrow> AuthContext \<Rightarrow> DeleteObjectRequest \<Rightarrow> DeleteObjectResponse svc_op" where
  "delete_object D ds auth request =
     bnd (require_bucket D ds (dor_tenant_id request) (dor_bucket request)) (\<lambda>bucket.
     bnd (lift_result (canonical_object_key_name (dor_key request))) (\<lambda>key.
     bnd (lift_result (ensure_bucket_mutation_scope_for auth (dor_tenant_id request) (Some (bk_bucket bucket)) (Some key))) (\<lambda>_.
     bnd (on_err map_object_error (resolve (alpha_code D) (ds_alpha ds) auth
            (resolve_request (dor_tenant_id request) (bk_namespace bucket) key))) (\<lambda>resolved.
     bnd (ensure (\<not> rr_tombstone resolved) (object_not_found ''object is already tombstoned'')) (\<lambda>_.
     bnd (ensure_object_mutation_unlocked D ds (dor_tenant_id request) (dor_bucket request) key True auth) (\<lambda>_.
     bnd now_ms (\<lambda>now.
     bnd (lift_result (sign_namespace_record D ds
            \<lparr>nm_version = 1, nm_tenant_id = dor_tenant_id request, nm_namespace = bk_namespace bucket, nm_path = key,
             nm_kind = NM_Unbind, nm_target_cid = None, nm_if_revision = Some (rr_revision resolved),
             nm_ttl_ms = None, nm_metadata = [], nm_issued_at_ms = now\<rparr>)) (\<lambda>signed_record_b64.
     bnd (unbind_op (alpha_code D) (ds_alpha ds) auth
            \<lparr>ub_tenant_id = dor_tenant_id request, ub_namespace = bk_namespace bucket, ub_path = key,
             ub_if_revision = rr_revision resolved, ub_hard_delete = False,
             ub_idempotency_key = dor_idempotency_key request, ub_signed_record_b64 = signed_record_b64\<rparr>) (\<lambda>unbound.
     ret \<lparr>dop_bucket = dor_bucket request, dop_key = key, dop_tombstone = up_tombstone unbound,
          dop_revision = up_revision unbound, dop_record_cid = up_record_cid unbound,
          dop_event_seq = up_event_seq unbound\<rparr>)))))))))"

primrec head_items ::
  "dist_deps \<Rightarrow> DistributionService \<Rightarrow> AuthContext \<Rightarrow> TenantId \<Rightarrow> string \<Rightarrow> ListItem list \<Rightarrow> ObjectListItem list svc_op" where
  "head_items D ds auth tenant_id bucket [] = ret []"
| "head_items D ds auth tenant_id bucket (item # items) =
     bnd (head_object D ds auth \<lparr>ho_tenant_id = tenant_id, ho_bucket = bucket, ho_key = li_path item\<rparr>) (\<lambda>head.
     bnd (head_items D ds auth tenant_id bucket items) (\<lambda>rest.
     ret (\<lparr>oi_key = li_path item, oi_etag = hor_etag head, oi_content_length = hor_content_length head,
           oi_content_type = hor_content_type head, oi_last_modified_ms = hor_last_modified_ms head,
           oi_server_visible_metadata = hor_server_visible_metadata head\<rparr> # rest)))"

definition list_objects ::
  "dist_deps \<Rightarrow> DistributionService \<Rightarrow> AuthContext \<Rightarrow> ListObjectsRequest \<Rightarrow> ListObjectsResponse svc_op" where
  "list_objects D ds auth request =
     bnd (require_bucket D ds (lo_tenant_id request) (lo_bucket request)) (\<lambda>bucket.
     bnd (lift_result (case lo_prefix request of
            None \<Rightarrow> Ok None
          | Some p \<Rightarrow> rbnd (canonical_object_key_name p) (\<lambda>p. Ok (Some p)))) (\<lambda>pfx.
     bnd (ensure_bucket_read_scope_for D ds auth (lo_tenant_id request) (bk_bucket bucket) pfx) (\<lambda>_.
     bnd (list_op (alpha_code D) (ds_alpha ds) auth
            \<lparr>lr_tenant_id = lo_tenant_id request, lr_namespace = bk_namespace bucket, lr_prefix = pfx,
             lr_cursor = lo_continuation_token request, lr_limit = lo_limit request, lr_recursive = True,
             lr_include_tombstones = False\<rparr>) (\<lambda>listed.
     bnd (head_items D ds auth (lo_tenant_id request) (lo_bucket request) (lp_items listed)) (\<lambda>items.
     ret \<lparr>lop_bucket = lo_bucket request, lop_items = items, lop_next_continuation_token = lp_next_cursor listed,
          lop_is_truncated = lp_truncated listed\<rparr>)))))"

definition copy_object ::
  "dist_deps \<Rightarrow> DistributionService \<Rightarrow> AuthContext \<Rightarrow> CopyObjectRequest \<Rightarrow> CopyObjectResponse svc_op" where
  "copy_object D ds auth request =
     bnd (require_bucket D ds (cyo_tenant_id request) (cyo_source_bucket request)) (\<lambda>source_bucket.
     bnd (require_bucket D ds (cyo_tenant_id request) (cyo_destination_bucket request)) (\<lambda>destination_bucket.
     bnd (lift_result (canonical_object_key_name (cyo_source_key request))) (\<lambda>source_key.
     bnd (lift_result (canonical_object_key_name (cyo_destination_key request))) (\<lambda>destination_key.
     bnd (ensure_bucket_read_scope_for D ds auth (cyo_tenant_id request) (bk_bucket source_bucket) (Some source_key)) (\<lambda>_.
     bnd (lift_result (ensure_bucket_mutation_scope_for auth (cyo_tenant_id request)
            (Some (bk_bucket destination_bucket)) (Some destination_key))) (\<lambda>_.
     bnd (on_err map_object_error (resolve (alpha_code D) (ds_alpha ds) auth
            (resolve_request (cyo_tenant_id request) (bk_namespace source_bucket) source_key))) (\<lambda>source.
     bnd (ensure (\<not> rr_tombstone source) (object_not_found ''source object is tombstoned'')) (\<lambda>_.
     bnd (existing_binding D ds auth (cyo_tenant_id request) (bk_namespace destination_bucket) destination_key) (\<lambda>existing.
     let target_revision = map_option rr_revision existing in
     bnd (ensure_object_mutation_unlocked D ds (cyo_tenant_id request) (bk_bucket destination_bucket) destination_key False auth) (\<lambda>_.
     bnd (lift_result (ok_or (rr_target_cid source)
            (object_not_found ''source object does not resolve to a target CID''))) (\<lambda>target_cid.
     bnd now_ms (\<lambda>now.
     bnd (lift_result (sign_namespace_record D ds
            (bind_mutation (cyo_tenant_id request) (bk_namespace destination_bucket) destination_key target_cid
               target_revision [] now))) (\<lambda>signed_record_b64.
     bnd (bind_op (alpha_code D) (ds_alpha ds) auth
            \<lparr>br_tenant_id = cyo_tenant_id request, br_namespace = bk_namespace destination_bucket,
             br_path = destination_key, br_target_cid = target_cid, br_if_revision = target_revision,
             br_if_absent = (target_revision = None), br_metadata = [], br_ttl_ms = None,
             br_idempotency_key = cyo_idempotency_key request, br_signed_record_b64 = signed_record_b64\<rparr>) (\<lambda>response.
     ret \<lparr>cyr_bucket = cyo_destination_bucket request, cyr_key = destination_key, cyr_object_cid = target_cid,
          cyr_revision = bp_revision response, cyr_record_cid = bp_record_cid response,
          cyr_event_seq = bp_event_seq response\<rparr>))))))))))))))"

section \<open>Multipart uploads\<close>

definition create_multipart_upload ::
  "dist_deps \<Rightarrow> DistributionService \<Rightarrow> AuthContext \<Rightarrow> CreateMultipartUploadRequest \<Rightarrow> CreateMultipartUploadResponse svc_op" where
  "create_multipart_upload D ds auth request =
     bnd (lift_result (validate_access_profile ds (cm_access_profile request) (cm_payload_plaintext request))) (\<lambda>_.
     bnd (require_bucket D ds (cm_tenant_id request) (cm_bucket request)) (\<lambda>bucket.
     bnd (lift_result (canonical_object_key_name (cm_key request))) (\<lambda>key.
     bnd (lift_result (ensure_bucket_mutation_scope_for auth (cm_tenant_id request) (Some (bk_bucket bucket)) (Some key))) (\<lambda>_.
     bnd (ensure (\<not> (\<not> cm_payload_plaintext request \<and> cm_wrapped_object_keys request = []))
            (unsupported_plaintext_mode ''ciphertext object uploads require wrapped object keys'')) (\<lambda>_.
     bnd now_ms (\<lambda>now.
     let upload_id = ''multipart-'' @ cid_from_bytes (alpha_code D)
           (as_bytes (bk_bucket bucket @ '':'' @ key @ '':'' @ show_nat (unat now))) in
     bnd now_ms (\<lambda>initiated_at_ms.
     bnd (dist_write_json D ds (json_multipart_session D) (cm_tenant_id request) MULTIPART_SESSIONS_STORE upload_id
            \<lparr>ms_upload_id = upload_id, ms_tenant_id = cm_tenant_id request, ms_bucket = bk_bucket bucket, ms_key = key,
             ms_access_profile = cm_access_profile request, ms_payload_plaintext = cm_payload_plaintext request,
             ms_content_type = cm_content_type request, ms_encryption_profile_id = cm_encryption_profile_id request,
             ms_key_policy_id = cm_key_policy_id request, ms_metadata_visibility = cm_metadata_visibility request,
             ms_content_encryption_suite = cm_content_encryption_suite request,
             ms_key_wrapping_suite = cm_key_wrapping_suite request,
             ms_wrapped_object_keys = cm_wrapped_object_keys request,
             ms_server_visible_metadata = cm_server_visible_metadata request,
             ms_encrypted_client_metadata = cm_encrypted_client_metadata request,
             ms_storage_class = storage_class_or_default (cm_storage_class request),
             ms_initiated_at_ms = initiated_at_ms, ms_idempotency_key = cm_idempotency_key request,
             ms_completed = False\<rparr>) (\<lambda>_.
     ret \<lparr>cmr_bucket = bk_bucket bucket, cmr_key = cm_key request, cmr_upload_id = upload_id\<rparr>))))))))"

definition multipart_not_found :: "string \<Rightarrow> ApiError" where
  "multipart_not_found message = api_error Cat_NotFound ''multipart_not_found'' message"

definition multipart_conflict :: "string \<Rightarrow> ApiError" where
  "multipart_conflict message = api_error Cat_Conflict ''multipart_conflict'' message"

definition multipart_session :: "dist_deps \<Rightarrow> DistributionService \<Rightarrow> TenantId \<Rightarrow> string \<Rightarrow> MultipartSessionRecord svc_op" where
  "multipart_session D ds tenant_id upload_id =
     bnd (dist_read_json D ds (json_multipart_session D) tenant_id MULTIPART_SESSIONS_STORE upload_id) (\<lambda>found.
     lift_result (ok_or found (multipart_not_found ''multipart upload session not found'')))"

definition part_meta_key :: "string \<Rightarrow> string" where
  "part_meta_key part_key = ''part-meta-'' @ part_key"

definition upload_part ::
  "dist_deps \<Rightarrow> DistributionService \<Rightarrow> AuthContext \<Rightarrow> UploadPartRequest \<Rightarrow> byte list \<Rightarrow> UploadPartResponse svc_op" where
  "upload_part D ds auth request ciphertext_part =
     bnd (lift_result (ensure_tenant_matches auth (upq_tenant_id request))) (\<lambda>_.
     bnd (multipart_session D ds (upq_tenant_id request) (upq_upload_id request)) (\<lambda>session.
     bnd (lift_result (ensure_bucket_mutation_scope_for auth (upq_tenant_id request) (Some (ms_bucket session)) (Some (ms_key session)))) (\<lambda>_.
     bnd (ensure (\<not> ms_completed session) (multipart_conflict ''multipart upload is already completed'')) (\<lambda>_.
     let etag = cid_from_bytes (alpha_code D) ciphertext_part;
         part_key = multipart_part_store_key (upq_upload_id request) (upq_part_number request) in
     bnd (dist_write_encrypted_bytes D ds (upq_tenant_id request) MULTIPART_PARTS_STORE part_key ciphertext_part) (\<lambda>_.
     bnd now_ms (\<lambda>now.
     bnd (dist_write_json D ds (json_multipart_part D) (upq_tenant_id request) MULTIPART_SESSIONS_STORE (part_meta_key part_key)
            \<lparr>mp_upload_id = upq_upload_id request, mp_part_number = upq_part_number request, mp_etag = etag,
             mp_length = usize_u64 (length ciphertext_part), mp_created_at_ms = now\<rparr>) (\<lambda>_.
     ret \<lparr>upp_upload_id = upq_upload_id request, upp_part_number = upq_part_number request, upp_etag = etag,
          upp_length = usize_u64 (length ciphertext_part)\<rparr>)))))))"

definition multipart_parts :: "dist_deps \<Rightarrow> DistributionService \<Rightarrow> TenantId \<Rightarrow> string \<Rightarrow> MultipartPartRecord list svc_op" where
  "multipart_parts D ds tenant_id upload_id =
     bnd (dist_list_json D ds (json_multipart_part D) tenant_id MULTIPART_SESSIONS_STORE) (\<lambda>parts.
     ret (filter (\<lambda>part. mp_upload_id part = upload_id) parts))"

definition multipart_part_ciphertext ::
  "dist_deps \<Rightarrow> DistributionService \<Rightarrow> TenantId \<Rightarrow> string \<Rightarrow> CompletedMultipartPart \<Rightarrow> byte list svc_op" where
  "multipart_part_ciphertext D ds tenant_id upload_id part =
     (let part_key = multipart_part_store_key upload_id (cmp_part_number part) in
      bnd (dist_read_json D ds (json_multipart_part D) tenant_id MULTIPART_SESSIONS_STORE (part_meta_key part_key)) (\<lambda>found.
      bnd (lift_result (ok_or found (multipart_not_found ''multipart part metadata not found''))) (\<lambda>meta.
      bnd (ensure (\<not> (mp_upload_id meta \<noteq> upload_id \<or> mp_part_number meta \<noteq> cmp_part_number part))
             (multipart_conflict ''multipart part metadata does not match the requested upload session'')) (\<lambda>_.
      bnd (ensure (mp_etag meta = cmp_etag part)
             (multipart_conflict ''multipart part ETag does not match stored ciphertext part'')) (\<lambda>_.
      bnd (dist_read_encrypted_bytes D ds tenant_id MULTIPART_PARTS_STORE part_key) (\<lambda>stored.
      bnd (lift_result (ok_or stored (multipart_not_found ''multipart part ciphertext not found''))) (\<lambda>bytes.
      bnd (ensure (\<not> (mp_length meta \<noteq> usize_u64 (length bytes) \<or> cid_from_bytes (alpha_code D) bytes \<noteq> cmp_etag part))
             (multipart_conflict ''multipart part ciphertext does not match stored metadata'')) (\<lambda>_.
      ret bytes))))))))"

primrec delete_part_keys ::
  "dist_deps \<Rightarrow> DistributionService \<Rightarrow> TenantId \<Rightarrow> string \<Rightarrow> u32 list \<Rightarrow> unit svc_op" where
  "delete_part_keys D ds tenant_id upload_id [] = ret ()"
| "delete_part_keys D ds tenant_id upload_id (part_number # part_numbers) =
     (let part_key = multipart_part_store_key upload_id part_number in
      bnd (dist_delete_store_key D ds tenant_id MULTIPART_PARTS_STORE part_key) (\<lambda>_.
      bnd (dist_delete_store_key D ds tenant_id MULTIPART_SESSIONS_STORE (part_meta_key part_key)) (\<lambda>_.
      delete_part_keys D ds tenant_id upload_id part_numbers)))"

text \<open>A \<open>BTreeSet\<close> of part numbers is the sorted list of its elements.\<close>

definition cleanup_multipart ::
  "dist_deps \<Rightarrow> DistributionService \<Rightarrow> TenantId \<Rightarrow> string \<Rightarrow> u32 list \<Rightarrow> unit svc_op" where
  "cleanup_multipart D ds tenant_id upload_id part_numbers =
     bnd (delete_part_keys D ds tenant_id upload_id part_numbers) (\<lambda>_.
     dist_delete_store_key D ds tenant_id MULTIPART_SESSIONS_STORE upload_id)"

primrec collect_parts ::
  "dist_deps \<Rightarrow> DistributionService \<Rightarrow> TenantId \<Rightarrow> string \<Rightarrow> u32 option \<Rightarrow> CompletedMultipartPart list
   \<Rightarrow> chunk_cursor \<Rightarrow> ChunkRef list \<Rightarrow> (chunk_cursor \<times> ChunkRef list) svc_op" where
  "collect_parts D ds tenant_id upload_id previous [] cur chunk_refs =
     lift_result (flush_fixed_chunk_ref (alpha_code D) cur chunk_refs)"
| "collect_parts D ds tenant_id upload_id previous (part # parts) cur chunk_refs =
     bnd (ensure (case previous of None \<Rightarrow> True | Some p \<Rightarrow> \<not> cmp_part_number part \<le> p)
            (api_error Cat_Conflict ''invalid_part_order''
               ''complete multipart parts must be listed in strictly ascending part order'')) (\<lambda>_.
     bnd (multipart_part_ciphertext D ds tenant_id upload_id part) (\<lambda>bytes.
     bnd (lift_result (collect_fixed_chunk_refs (alpha_code D) bytes cur chunk_refs)) (\<lambda>(cur, chunk_refs).
     collect_parts D ds tenant_id upload_id (Some (cmp_part_number part)) parts cur chunk_refs)))"

primrec upload_collected_parts ::
  "dist_deps \<Rightarrow> DistributionService \<Rightarrow> AuthContext \<Rightarrow> TenantId \<Rightarrow> string \<Rightarrow> string \<Rightarrow> CompletedMultipartPart list
   \<Rightarrow> chunk_cursor \<Rightarrow> chunk_cursor svc_op" where
  "upload_collected_parts D ds auth tenant_id upload_id session_id [] cur =
     flush_fixed_chunk_upload (alpha_code D) (ds_alpha ds) auth tenant_id session_id cur"
| "upload_collected_parts D ds auth tenant_id upload_id session_id (part # parts) cur =
     bnd (multipart_part_ciphertext D ds tenant_id upload_id part) (\<lambda>bytes.
     bnd (upload_fixed_chunks (alpha_code D) (ds_alpha ds) auth tenant_id session_id bytes cur) (\<lambda>cur.
     upload_collected_parts D ds auth tenant_id upload_id session_id parts cur))"

definition complete_upload ::
  "dist_deps \<Rightarrow> DistributionService \<Rightarrow> AuthContext \<Rightarrow> CompleteMultipartUploadRequest \<Rightarrow> MultipartSessionRecord
   \<Rightarrow> BucketRecord \<Rightarrow> ChunkRef list \<Rightarrow> u64 \<Rightarrow> u64 option \<Rightarrow> (string \<times> PutCommitResponse) svc_op" where
  "complete_upload D ds auth request session bucket chunk_refs size_bytes existing_revision =
     bnd (build_manifest_from_chunk_refs
            \<lparr>mcb_tenant_id = cmu_tenant_id request, mcb_chunk_refs = chunk_refs, mcb_size_bytes = size_bytes,
             mcb_content_type = ms_content_type session,
             mcb_encryption_profile_id = ms_encryption_profile_id session,
             mcb_key_policy_id = ms_key_policy_id session, mcb_metadata_visibility = ms_metadata_visibility session,
             mcb_content_encryption_suite = ms_content_encryption_suite session,
             mcb_key_wrapping_suite = ms_key_wrapping_suite session,
             mcb_wrapped_object_keys = ms_wrapped_object_keys session,
             mcb_server_visible_metadata = ms_server_visible_metadata session,
             mcb_encrypted_client_metadata = ms_encrypted_client_metadata session\<rparr>) (\<lambda>manifest.
     let mcid = manifest_cid (alpha_code D) manifest in
     bnd (sign_atomic_bind D ds (cmu_tenant_id request) (bk_namespace bucket) (ms_key session) mcid existing_revision
            (ms_server_visible_metadata session)) (\<lambda>atomic_bind.
     bnd (put_init (alpha_code D) (ds_alpha ds) auth
            \<lparr>pi_tenant_id = cmu_tenant_id request, pi_manifest = manifest,
             pi_idempotency_key = ''complete-init-'' @ ms_idempotency_key session,
             pi_encryption_profile_id = ms_encryption_profile_id session,
             pi_key_policy_id = ms_key_policy_id session, pi_metadata_visibility = ms_metadata_visibility session,
             pi_storage_class = ms_storage_class session, pi_atomic_bind = Some atomic_bind\<rparr>) (\<lambda>init.
     bnd (upload_collected_parts D ds auth (cmu_tenant_id request) (cmu_upload_id request) (pir_session_id init)
            (cmu_parts request) chunk_cursor_start) (\<lambda>_.
     bnd (put_commit (alpha_code D) (ds_alpha ds) auth
            \<lparr>pm_tenant_id = cmu_tenant_id request, pm_session_id = pir_session_id init, pm_manifest_cid = mcid,
             pm_idempotency_key = ''complete-'' @ ms_idempotency_key session\<rparr>) (\<lambda>committed.
     ret (mcid, committed))))))"

definition complete_multipart_upload ::
  "dist_deps \<Rightarrow> DistributionService \<Rightarrow> AuthContext \<Rightarrow> CompleteMultipartUploadRequest \<Rightarrow> PutObjectResponse svc_op" where
  "complete_multipart_upload D ds auth request =
     bnd (lift_result (ensure_tenant_matches auth (cmu_tenant_id request))) (\<lambda>_.
     bnd (multipart_session D ds (cmu_tenant_id request) (cmu_upload_id request)) (\<lambda>session.
     bnd (lift_result (ensure_bucket_mutation_scope_for auth (cmu_tenant_id request) (Some (ms_bucket session)) (Some (ms_key session)))) (\<lambda>_.
     bnd (ensure (\<not> ms_completed session) (multipart_conflict ''multipart upload is already completed'')) (\<lambda>_.
     bnd (ensure (cmu_parts request \<noteq> [])
            (api_error Cat_Validation ''multipart_not_found'' ''complete multipart requires at least one uploaded part'')) (\<lambda>_.
     bnd (ensure (\<not> ms_payload_plaintext session)
            (unsupported_plaintext_mode ''multipart trusted-edge plaintext uploads require streaming encryption support'')) (\<lambda>_.
     bnd (collect_parts D ds (cmu_tenant_id request) (cmu_upload_id request) None (cmu_parts request)
            chunk_cursor_start []) (\<lambda>(cur, chunk_refs).
     bnd (ensure (chunk_refs \<noteq> [])
            (api_error Cat_Validation ''zero_sized_manifest'' ''complete multipart produced an empty object'')) (\<lambda>_.
     bnd (require_bucket D ds (cmu_tenant_id request) (ms_bucket session)) (\<lambda>bucket.
     bnd (existing_binding D ds auth (cmu_tenant_id request) (bk_namespace bucket) (ms_key session)) (\<lambda>existing.
     bnd (if existing \<noteq> None then
            ensure_object_mutation_unlocked D ds (cmu_tenant_id request) (bk_bucket bucket) (ms_key session) False auth
          else ret ()) (\<lambda>_.
     bnd (complete_upload D ds auth request session bucket chunk_refs (ck_next_offset cur)
            (map_option rr_revision existing)) (\<lambda>(mcid, committed).
     bnd (dist_write_json D ds (json_multipart_session D) (cmu_tenant_id request) MULTIPART_SESSIONS_STORE
            (cmu_upload_id request) (session\<lparr>ms_completed := True\<rparr>)) (\<lambda>_.
     bnd (cleanup_multipart D ds (cmu_tenant_id request) (cmu_upload_id request)
            (sorted_list_of_set (set (map cmp_part_number (cmu_parts request))))) (\<lambda>_.
     ret \<lparr>por_bucket = bk_bucket bucket, por_key = ms_key session, por_object_cid = pmr_object_cid committed,
          por_manifest_cid = mcid, por_etag = pmr_object_cid committed,
          por_event_seq = pmr_event_seq committed\<rparr>))))))))))))))"

definition abort_multipart_upload ::
  "dist_deps \<Rightarrow> DistributionService \<Rightarrow> AuthContext \<Rightarrow> AbortMultipartUploadRequest \<Rightarrow> unit svc_op" where
  "abort_multipart_upload D ds auth request =
     bnd (lift_result (ensure_tenant_matches auth (amu_tenant_id request))) (\<lambda>_.
     bnd (multipart_session D ds (amu_tenant_id request) (amu_upload_id request)) (\<lambda>session.
     bnd (lift_result (ensure_bucket_mutation_scope_for auth (amu_tenant_id request) (Some (ms_bucket session)) (Some (ms_key session)))) (\<lambda>_.
     bnd (multipart_parts D ds (amu_tenant_id request) (amu_upload_id request)) (\<lambda>parts.
     bnd (cleanup_multipart D ds (amu_tenant_id request) (amu_upload_id request)
            (sorted_list_of_set (set (map mp_part_number parts)))) (\<lambda>_.
     dist_delete_store_key D ds (amu_tenant_id request) MULTIPART_SESSIONS_STORE (amu_upload_id request))))))"

section \<open>Replication\<close>

definition put_replication_config ::
  "dist_deps \<Rightarrow> DistributionService \<Rightarrow> AuthContext \<Rightarrow> ReplicationConfig \<Rightarrow> ReplicationConfig svc_op" where
  "put_replication_config D ds auth config =
     bnd (lift_result (canonical_bucket_name (rcf_source_bucket config))) (\<lambda>source_bucket.
     bnd (lift_result (canonical_bucket_name (rcf_destination_bucket config))) (\<lambda>destination_bucket.
     bnd (lift_result (ensure_bucket_mutation_scope_for auth (rcf_tenant_id config) (Some source_bucket) (rcf_prefix config))) (\<lambda>_.
     bnd (lift_result (ensure_bucket_mutation_scope_for auth (rcf_tenant_id config) (Some destination_bucket) (rcf_prefix config))) (\<lambda>_.
     bnd (ensure (source_bucket \<noteq> destination_bucket)
            (api_error Cat_Validation ''lifecycle_conflict''
               ''replication source and destination buckets must differ'')) (\<lambda>_.
     bnd (require_bucket D ds (rcf_tenant_id config) source_bucket) (\<lambda>_.
     bnd (require_bucket D ds (rcf_tenant_id config) destination_bucket) (\<lambda>_.
     bnd now_ms (\<lambda>now.
     let config = config\<lparr>rcf_source_bucket := source_bucket, rcf_destination_bucket := destination_bucket,
                         rcf_updated_at_ms := now\<rparr> in
     bnd (dist_write_json D ds (json_replication D) (rcf_tenant_id config) REPLICATION_STORE
            (replication_config_store_key source_bucket) config) (\<lambda>_.
     ret config)))))))))"

definition get_replication_config ::
  "dist_deps \<Rightarrow> DistributionService \<Rightarrow> AuthContext \<Rightarrow> TenantId \<Rightarrow> string \<Rightarrow> ReplicationConfig svc_op" where
  "get_replication_config D ds auth tenant_id source_bucket =
     bnd (lift_result (canonical_bucket_name source_bucket)) (\<lambda>source_bucket.
     bnd (ensure_bucket_read_scope_for D ds auth tenant_id source_bucket None) (\<lambda>_.
     bnd (dist_read_json D ds (json_replication D) tenant_id REPLICATION_STORE (replication_config_store_key source_bucket)) (\<lambda>found.
     lift_result (ok_or found
       (api_error Cat_NotFound ''replication_not_found'' ''replication configuration not found'')))))"

definition get_replication_status ::
  "dist_deps \<Rightarrow> DistributionService \<Rightarrow> AuthContext \<Rightarrow> TenantId \<Rightarrow> string \<Rightarrow> ReplicationStatus svc_op" where
  "get_replication_status D ds auth tenant_id source_bucket =
     bnd (lift_result (canonical_bucket_name source_bucket)) (\<lambda>source_bucket.
     bnd (ensure_bucket_read_scope_for D ds auth tenant_id source_bucket None) (\<lambda>_.
     bnd (dist_read_json D ds (json_replication_status D) tenant_id REPLICATION_STORE (replication_status_store_key source_bucket)) (\<lambda>found.
     ret (case found of
            Some status \<Rightarrow> status
          | None \<Rightarrow>
              \<lparr>rst_tenant_id = tenant_id, rst_source_bucket = source_bucket, rst_destination_bucket = [],
               rst_copied_objects = 0, rst_failed_objects = 0, rst_last_run_ms = 0,
               rst_last_error = Some ''replication_not_started''\<rparr>))))"

definition delete_replication_config ::
  "dist_deps \<Rightarrow> DistributionService \<Rightarrow> AuthContext \<Rightarrow> TenantId \<Rightarrow> string \<Rightarrow> unit svc_op" where
  "delete_replication_config D ds auth tenant_id source_bucket =
     bnd (lift_result (canonical_bucket_name source_bucket)) (\<lambda>source_bucket.
     bnd (lift_result (ensure_bucket_mutation_scope_for auth tenant_id (Some source_bucket) None)) (\<lambda>_.
     bnd (dist_delete_store_key D ds tenant_id REPLICATION_STORE (replication_config_store_key source_bucket)) (\<lambda>_.
     dist_delete_store_key D ds tenant_id REPLICATION_STORE (replication_status_store_key source_bucket))))"

definition replication_idempotency_key :: "dist_deps \<Rightarrow> ReplicationConfig \<Rightarrow> string \<Rightarrow> u64 \<Rightarrow> string" where
  "replication_idempotency_key D config key now =
     ''replication-'' @ cid_from_bytes (alpha_code D) (as_bytes
       (rcf_source_bucket config @ '':'' @ rcf_destination_bucket config @ '':'' @ key @ '':'' @ show_nat (unat now)))"

text \<open>The loop over the listed objects, with the counts of copies and failures and the last error.\<close>

primrec replicate_objects ::
  "dist_deps \<Rightarrow> DistributionService \<Rightarrow> AuthContext \<Rightarrow> TenantId \<Rightarrow> ReplicationConfig \<Rightarrow> ObjectListItem list
   \<Rightarrow> u64 \<Rightarrow> u64 \<Rightarrow> string option \<Rightarrow> (service, 'e, u64 \<times> u64 \<times> string option) comp" where
  "replicate_objects D ds auth tenant_id config [] copied failed last_error = ret (copied, failed, last_error)"
| "replicate_objects D ds auth tenant_id config (object # objects) copied failed last_error =
     bnd now_ms (\<lambda>now s.
     case copy_object D ds auth
            \<lparr>cyo_tenant_id = tenant_id, cyo_source_bucket = rcf_source_bucket config, cyo_source_key = oi_key object,
             cyo_destination_bucket = rcf_destination_bucket config, cyo_destination_key = oi_key object,
             cyo_idempotency_key = replication_idempotency_key D config (oi_key object) now\<rparr> s of
       (Err error, s') \<Rightarrow>
         replicate_objects D ds auth tenant_id config objects copied (saturating_add failed 1) (Some (err_code error)) s'
     | (Ok _, s') \<Rightarrow>
         replicate_objects D ds auth tenant_id config objects (saturating_add copied 1) failed last_error s')"

definition run_replication_once ::
  "dist_deps \<Rightarrow> DistributionService \<Rightarrow> AuthContext \<Rightarrow> TenantId \<Rightarrow> string \<Rightarrow> ReplicationStatus svc_op" where
  "run_replication_once D ds auth tenant_id source_bucket =
     bnd (lift_result (canonical_bucket_name source_bucket)) (\<lambda>source_bucket.
     bnd (lift_result (ensure_bucket_mutation_scope_for auth tenant_id (Some source_bucket) None)) (\<lambda>_.
     bnd (get_replication_config D ds auth tenant_id source_bucket) (\<lambda>config.
     bnd (if rcf_enabled config then
            bnd (list_objects D ds auth
                   \<lparr>lo_tenant_id = tenant_id, lo_bucket = rcf_source_bucket config, lo_prefix = rcf_prefix config,
                    lo_continuation_token = None, lo_limit = Some 10000\<rparr>) (\<lambda>listed.
            replicate_objects D ds auth tenant_id config (lop_items listed) 0 0 None)
          else ret (0, 0, Some ''replication_disabled'')) (\<lambda>(copied, failed, last_error).
     bnd now_ms (\<lambda>last_run_ms.
     let status = \<lparr>rst_tenant_id = tenant_id, rst_source_bucket = rcf_source_bucket config,
                   rst_destination_bucket = rcf_destination_bucket config, rst_copied_objects = copied,
                   rst_failed_objects = failed, rst_last_run_ms = last_run_ms, rst_last_error = last_error\<rparr> in
     bnd (dist_write_json D ds (json_replication_status D) tenant_id REPLICATION_STORE
            (replication_status_store_key source_bucket) status) (\<lambda>_.
     ret status))))))"

section \<open>The passes over the parts\<close>

text \<open>
  \<open>collect_parts\<close> is the loop \<open>collect_part_refs\<close> over the ciphertexts it reads: when it succeeds, the
  parts were in strictly ascending order, each was read from the store, and the references are
  those of the bytes read.
\<close>

definition part_read ::
  "dist_deps \<Rightarrow> DistributionService \<Rightarrow> TenantId \<Rightarrow> string \<Rightarrow> CompletedMultipartPart \<Rightarrow> byte list \<Rightarrow> bool" where
  "part_read D ds tenant_id upload_id part bytes \<longleftrightarrow>
     (\<exists>s s'. multipart_part_ciphertext D ds tenant_id upload_id part s = (Ok bytes, s'))"

lemma collect_parts_Ok:
  "collect_parts D ds t uid previous parts cur refs s = (Ok res, s') \<Longrightarrow>
     \<exists>bodies. list_all2 (part_read D ds t uid) parts bodies \<and>
       collect_part_refs (alpha_code D) bodies cur refs = Ok res \<and>
       sorted_wrt (<) ((case previous of None \<Rightarrow> [] | Some p \<Rightarrow> [p]) @ map cmp_part_number parts)"
proof (induction parts arbitrary: previous cur refs s)
  case Nil
  then show ?case by (auto simp: lift_result_def split: option.splits)
next
  case (Cons part parts)
  obtain bytes cur' refs' s1 s2 s3 where
    order: "case previous of None \<Rightarrow> True | Some p \<Rightarrow> p < cmp_part_number part"
    and read: "multipart_part_ciphertext D ds t uid part s1 = (Ok bytes, s2)"
    and refs: "collect_fixed_chunk_refs (alpha_code D) bytes cur refs = Ok (cur', refs')"
    and rest: "collect_parts D ds t uid (Some (cmp_part_number part)) parts cur' refs' s3 = (Ok res, s')"
    using Cons.prems by (auto simp: bnd_Ok lift_result_def not_le split: option.splits)
  obtain bodies where b: "list_all2 (part_read D ds t uid) parts bodies"
    "collect_part_refs (alpha_code D) bodies cur' refs' = Ok res"
    "sorted_wrt (<) (cmp_part_number part # map cmp_part_number parts)"
    using Cons.IH [OF rest] by auto
  have "part_read D ds t uid part bytes" using read by (auto simp: part_read_def)
  then show ?case
    using b refs order by (intro exI [of _ "bytes # bodies"]) (auto split: option.splits)
qed

end
