(* ===== verification/HSP_Http.thy ===== *)
theory HSP_Http
  imports HSP_Distribution
begin

text \<open>
  What the HTTP servers (\<open>gateway/hsp-cdn\<close>, \<open>server/hsp-s3\<close> and \<open>gateway/hsp-gw\<close>) use of \<open>std\<close>, \<open>http\<close>
  and \<open>axum\<close>: text helpers, requests, responses and the outcome of a handler.

  The third-party code is the record \<open>http_deps\<close>: which header values \<open>http\<close> refuses, how \<open>axum\<close> matches
  a route, the error of a body over its limit, and the serializers of what the servers print.
\<close>

section \<open>Text\<close>

text \<open>\<open>ends_with\<close>, \<open>trim_start_matches\<close>, \<open>trim_end_matches\<close> and \<open>split_once\<close> of a string, \<open>parse::<u32>\<close>,
  \<open>to_string\<close> of a boolean and of an integer. Trimming an empty pattern changes
  nothing.\<close>

definition ends_with :: "string \<Rightarrow> string \<Rightarrow> bool" where
  "ends_with s p \<longleftrightarrow> starts_with (rev s) (rev p)"

function trim_start_str :: "string \<Rightarrow> string \<Rightarrow> string" where
  "trim_start_str p s = (if p \<noteq> [] \<and> starts_with s p then trim_start_str p (drop (length p) s) else s)"
  by pat_completeness auto
termination
  by (relation "measure (\<lambda>(_, s). length s)") (auto simp: starts_with_def, metis diff_less length_greater_0_conv take_Nil)

declare trim_start_str.simps [simp del]

definition trim_end_str :: "string \<Rightarrow> string \<Rightarrow> string" where
  "trim_end_str p s = rev (trim_start_str (rev p) (rev s))"

definition split_once_str :: "string \<Rightarrow> string \<Rightarrow> (string \<times> string) option" where
  "split_once_str sep s = map_option (\<lambda>i. (take i s, drop (i + length sep) s)) (str_find sep s)"

definition str_contains :: "string \<Rightarrow> string \<Rightarrow> bool" where
  "str_contains s needle \<longleftrightarrow> str_find needle s \<noteq> None"

definition parse_u32 :: "string \<Rightarrow> u32 option" where
  "parse_u32 s = (case parse_u64 s of None \<Rightarrow> None | Some n \<Rightarrow> if unat n < 2 ^ 32 then Some (of_nat (unat n)) else None)"

definition show_bool :: "bool \<Rightarrow> string" where
  "show_bool b = (if b then ''true'' else ''false'')"

definition show_u64 :: "u64 \<Rightarrow> string" where
  "show_u64 n = show_nat (unat n)"

definition quoted :: "string \<Rightarrow> string" where
  "quoted s = [CHR 0x22] @ s @ [CHR 0x22]"

text \<open>The pairs of a query string, collected into a \<open>BTreeMap\<close>: the last of two equal keys stays.\<close>

definition query_pairs :: "string \<Rightarrow> (string, string) btm" where
  "query_pairs query =
     foldl (\<lambda>m segment. btm_insert (fst (query_pair segment)) (snd (query_pair segment)) m) []
       (filter (\<lambda>segment. segment \<noteq> []) (split_char CHR ''&'' query))"

section \<open>Requests and responses\<close>

text \<open>The body of a request is what its stream gives: an error or all the bytes.\<close>

record HttpRequest =
  hq_method :: string
  hq_path :: string
  hq_query :: "string option"
  hq_headers :: HeaderMap
  hq_body :: "string + byte list"

record HttpResponse =
  rs_status :: nat
  rs_headers :: "(string \<times> string) list"
  rs_body :: "byte list"

record http_deps =
  dist_code :: dist_deps
  header_value_error :: "string \<Rightarrow> string option"
  length_limit_error :: string
  route_matches :: "string \<Rightarrow> string \<Rightarrow> bool"
  unrouted :: HttpResponse
  json_logs :: "StructuredLogRecord list \<Rightarrow> string + byte list"

definition query_text :: "HttpRequest \<Rightarrow> string" where
  "query_text request = (case hq_query request of None \<Rightarrow> [] | Some q \<Rightarrow> q)"

definition header_text :: "'x http_deps_scheme \<Rightarrow> HeaderMap \<Rightarrow> string \<Rightarrow> string option" where
  "header_text H headers name = Option.bind (header_get headers name) (header_to_str (dist_code H))"

definition has_header :: "HeaderMap \<Rightarrow> string \<Rightarrow> bool" where
  "has_header headers name \<longleftrightarrow> header_get headers name \<noteq> None"

text \<open>\<open>axum::body::to_bytes\<close> with a limit.\<close>

definition to_bytes :: "'x http_deps_scheme \<Rightarrow> nat \<Rightarrow> string + byte list \<Rightarrow> string + byte list" where
  "to_bytes H limit body =
     rbnd body (\<lambda>bytes. if length bytes > limit then Err (length_limit_error H) else Ok bytes)"

text \<open>The first header value that \<open>Response::builder\<close> refuses is the error of \<open>body\<close>.\<close>

primrec header_error :: "'x http_deps_scheme \<Rightarrow> (string \<times> string) list \<Rightarrow> string option" where
  "header_error H [] = None"
| "header_error H (h # hs) =
     (case header_value_error H (snd h) of Some message \<Rightarrow> Some message | None \<Rightarrow> header_error H hs)"

definition build_response ::
  "'x http_deps_scheme \<Rightarrow> (string \<Rightarrow> ApiError) \<Rightarrow> nat \<Rightarrow> (string \<times> string) list \<Rightarrow> byte list \<Rightarrow> ApiError + HttpResponse" where
  "build_response H to_error status headers body =
     (case header_error H headers of
        Some message \<Rightarrow> Err (to_error message)
      | None \<Rightarrow> Ok \<lparr>rs_status = status, rs_headers = headers, rs_body = body\<rparr>)"

text \<open>A panic ends the handler without a response; in the model it is an error value of its own.\<close>

definition panic :: "string \<Rightarrow> ApiError" where
  "panic message = api_error Cat_Storage ''panic'' message"

definition is_panic :: "ApiError \<Rightarrow> bool" where
  "is_panic error \<longleftrightarrow> err_code error = ''panic''"

text \<open>\<open>headers_mut().insert(name, value.parse().expect(..))\<close>.\<close>

definition insert_header ::
  "'x http_deps_scheme \<Rightarrow> string \<times> string \<Rightarrow> HttpResponse \<Rightarrow> ApiError + HttpResponse" where
  "insert_header H nv response =
     (case header_value_error H (snd nv) of
        Some message \<Rightarrow> Err (panic message)
      | None \<Rightarrow> Ok (response\<lparr>rs_headers := filter (\<lambda>h. fst h \<noteq> fst nv) (rs_headers response) @ [nv]\<rparr>))"

primrec insert_headers ::
  "'x http_deps_scheme \<Rightarrow> (string \<times> string) list \<Rightarrow> HttpResponse \<Rightarrow> ApiError + HttpResponse" where
  "insert_headers H [] response = Ok response"
| "insert_headers H (nv # nvs) response = rbnd (insert_header H nv response) (insert_headers H nvs)"

datatype http_outcome = Responded HttpResponse | Panicked string

definition respond :: "(ApiError \<Rightarrow> HttpResponse) \<Rightarrow> ('s, ApiError, HttpResponse) comp \<Rightarrow> 's \<Rightarrow> http_outcome \<times> 's" where
  "respond error_response m s =
     (case m s of
        (Ok response, s') \<Rightarrow> (Responded response, s')
      | (Err error, s') \<Rightarrow>
          ((if is_panic error then Panicked (err_message error) else Responded (error_response error)), s'))"

lemma respond_state [simp]: "snd (respond f m s) = snd (m s)"
  by (simp add: respond_def split: prod.split sum.split)

lemma build_response_body: "build_response H f st hs b = Ok r \<Longrightarrow> rs_body r = b \<and> rs_status r = st"
  by (auto simp: build_response_def split: option.splits)

lemma slice_panic_is_panic [simp]: "is_panic slice_panic" "is_panic (panic m)"
  by (simp_all add: is_panic_def slice_panic_def panic_def api_error_def)

end
