(* ===== verification/HSP_Cdn.thy ===== *)
theory HSP_Cdn
  imports HSP_Http
begin

text \<open>
  \<open>gateway/hsp-cdn/src/lib.rs\<close>: the edge server, which answers \<open>GET\<close> and \<open>HEAD\<close> of content identifiers and
  bucket keys from a cache in memory or from \<open>DistributionService\<close>, and a worker that follows the
  events of the service and drops what they make stale.

  \<open>CdnState\<close> never changes and is the argument \<open>st\<close>; the cache behind its lock and the state of the service
  are the record \<open>cdn_world\<close>. The times to live are \<open>u64\<close>, and the milliseconds wrap as in a release build.
\<close>

section \<open>State\<close>

definition MAX_CDN_REQUEST_BODY_BYTES :: nat where
  "MAX_CDN_REQUEST_BODY_BYTES = 0"

record CdnServerConfig =
  cdc_authority :: string
  cdc_gateway_base_url :: string
  cdc_root_dir :: string
  cdc_server_instance_id :: string
  cdc_capability_audience :: string
  cdc_immutable_cid_ttl_sec :: u64
  cdc_namespace_ttl_sec :: u64
  cdc_namespace_signing_seed :: "byte list"
  cdc_namespace_signing_key_id :: string
  cdc_edge_signing_secret :: "byte list"
  cdc_kms_seed :: "byte list"
  cdc_aws_kms :: "AwsKmsProviderConfig option"

record CdnState =
  cst_service :: DistributionService
  cst_immutable_cid_ttl_sec :: u64
  cst_namespace_ttl_sec :: u64

record CachedObject =
  co_body :: "byte list"
  co_content_type :: string
  co_etag :: string
  co_cache_control :: string
  co_content_length :: u64
  co_expires_at_ms :: u64

record cdn_world =
  cw_service :: service
  cw_cache :: "(string, CachedObject) btm"

text \<open>\<open>ErrorBody\<close> is the code and the message of an error; its JSON is a parameter.\<close>

record ErrorBody =
  eb_code :: string
  eb_message :: string

definition error_body_from :: "ApiError \<Rightarrow> ErrorBody" where
  "error_body_from error = \<lparr>eb_code = err_code error, eb_message = err_message error\<rparr>"

record cdn_deps = http_deps +
  json_error_body :: "ErrorBody \<Rightarrow> string + byte list"

type_synonym 'a cdn_op = "(cdn_world, ApiError, 'a) comp"

definition on_service :: "(service, 'e, 'a) comp \<Rightarrow> (cdn_world, 'e, 'a) comp" where
  "on_service m w = (case m (cw_service w) of (r, s) \<Rightarrow> (r, w\<lparr>cw_service := s\<rparr>))"

section \<open>Construction\<close>

definition cdn_build_distribution_service ::
  "dist_deps \<Rightarrow> (string \<Rightarrow> string option) \<Rightarrow> CdnServerConfig \<Rightarrow> string + byte list \<Rightarrow> DistributionService svc_op" where
  "cdn_build_distribution_service D env config registry_file =
     bnd (lift_result (registry_load (auth_code (alpha_code D)) registry_file)) (\<lambda>issuer_registry.
     bnd (lift_result (map_err (\<lambda>error. crypto_error_to_api error ''failed to initialize KMS'')
            (from_seed (alpha_code D) (cdc_kms_seed config)))) (\<lambda>kms.
     distribution_service_new D env
       \<lparr>dc_alpha =
          \<lparr>cf_authority = cdc_authority config, cf_gateway_base_url = cdc_gateway_base_url config,
           cf_root_dir = cdc_root_dir config, cf_native_port = 443,
           cf_server_instance_id = cdc_server_instance_id config, cf_storage_backend = Backend_Filesystem\<rparr>,
        dc_capability_audience = cdc_capability_audience config,
        dc_immutable_cid_ttl_sec = cdc_immutable_cid_ttl_sec config,
        dc_namespace_ttl_sec = cdc_namespace_ttl_sec config, dc_plaintext_profile_enabled = False,
        dc_aws_kms = cdc_aws_kms config\<rparr>
       kms issuer_registry (cdc_namespace_signing_seed config) (cdc_namespace_signing_key_id config)
       (cdc_edge_signing_secret config)))"

text \<open>\<open>run_cdn_server\<close> up to the listener: the service, an empty cache, and the times to live.\<close>

definition cdn_start ::
  "dist_deps \<Rightarrow> (string \<Rightarrow> string option) \<Rightarrow> CdnServerConfig \<Rightarrow> string + byte list \<Rightarrow> service \<Rightarrow> (ApiError + CdnState) \<times> cdn_world" where
  "cdn_start D env config registry_file s =
     (case cdn_build_distribution_service D env config registry_file s of
        (r, s') \<Rightarrow>
          (rbnd r (\<lambda>ds. Ok \<lparr>cst_service = ds, cst_immutable_cid_ttl_sec = cdc_immutable_cid_ttl_sec config,
                            cst_namespace_ttl_sec = cdc_namespace_ttl_sec config\<rparr>),
           \<lparr>cw_service = s', cw_cache = []\<rparr>))"

definition cdn_routes :: "string list" where
  "cdn_routes = [''/cid/{cid}'', ''/b/{bucket}/{*key}'']"

section \<open>Responses\<close>

definition cdn_http_error :: "string \<Rightarrow> ApiError" where
  "cdn_http_error message = api_error Cat_Storage ''http_build_failed'' message"

fun cdn_error_status :: "ApiErrorCategory \<Rightarrow> nat" where
  "cdn_error_status Cat_Auth = 403"
| "cdn_error_status Cat_Policy = 403"
| "cdn_error_status Cat_Replay = 409"
| "cdn_error_status Cat_Conflict = 409"
| "cdn_error_status Cat_Validation = 400"
| "cdn_error_status Cat_Unsupported = 400"
| "cdn_error_status Cat_NotFound = 404"
| "cdn_error_status Cat_Storage = 500"

definition cdn_api_error_response :: "'x cdn_deps_scheme \<Rightarrow> ApiError \<Rightarrow> HttpResponse" where
  "cdn_api_error_response H error =
     \<lparr>rs_status = cdn_error_status (err_category error), rs_headers = [(''content-type'', ''application/json'')],
      rs_body = (case json_error_body H (error_body_from error) of Ok bytes \<Rightarrow> bytes | Err _ \<Rightarrow> as_bytes ''{}'')\<rparr>"

definition cdn_text_response :: "'x http_deps_scheme \<Rightarrow> nat \<Rightarrow> string \<Rightarrow> string \<Rightarrow> ApiError + HttpResponse" where
  "cdn_text_response H status content_type body =
     build_response H cdn_http_error status [(''content-type'', content_type)] (as_bytes body)"

definition cdn_json_response :: "'x http_deps_scheme \<Rightarrow> nat \<Rightarrow> string + byte list \<Rightarrow> ApiError + HttpResponse" where
  "cdn_json_response H status serialized =
     rbnd (map_err (api_error Cat_Storage ''json_serialize_failed'') serialized) (\<lambda>body.
     build_response H cdn_http_error status [(''content-type'', ''application/json'')] body)"

definition cached_response :: "'x http_deps_scheme \<Rightarrow> string \<Rightarrow> CachedObject \<Rightarrow> string \<Rightarrow> ApiError + HttpResponse" where
  "cached_response H method entry cache_status =
     build_response H cdn_http_error 200
       [(''etag'', quoted (co_etag entry)), (''content-type'', co_content_type entry),
        (''content-length'', show_u64 (co_content_length entry)), (''cache-control'', co_cache_control entry),
        (''x-hsp-cache-status'', cache_status)]
       (if method = ''HEAD'' then [] else co_body entry)"

definition origin_headers :: "GetObjectResponse \<Rightarrow> string \<Rightarrow> (string \<times> string) list" where
  "origin_headers response cache_status =
     (let head = gor_head response in
      [(''etag'', quoted (hor_etag head)), (''content-type'', hor_content_type head),
       (''content-length'', show_nat (length (gor_body response))),
       (''cache-control'', gor_cache_control response), (''x-hsp-cache-status'', cache_status),
       (''x-hsp-exists'', show_bool (hor_exists head)), (''x-hsp-deleted'', show_bool (hor_deleted head)),
       (''x-hsp-cid'', hor_cid head), (''x-hsp-object-cid'', hor_object_cid head),
       (''x-hsp-manifest-cid'', hor_manifest_cid head), (''x-hsp-integrity-hash'', hor_integrity_hash head),
       (''x-hsp-size-bytes'', show_u64 (hor_size_bytes head)),
       (''x-hsp-ciphertext-size-bytes'', show_u64 (hor_ciphertext_size_bytes head)),
       (''x-hsp-created-at-ms'', show_u64 (hor_last_modified_ms head)),
       (''x-hsp-encryption-profile-id'', encryption_profile_str (hor_encryption_profile_id head)),
       (''x-hsp-key-policy-id'', key_policy_str (hor_key_policy_id head)),
       (''x-hsp-metadata-visibility'', visibility_as_str (hor_metadata_visibility head)),
       (''x-hsp-encrypted-client-metadata-redacted'',
          show_bool (hor_encrypted_client_metadata_redacted head))] @
      (case gor_content_range response of None \<Rightarrow> [] | Some content_range \<Rightarrow> [(''content-range'', content_range)]))"

definition origin_response ::
  "'x http_deps_scheme \<Rightarrow> string \<Rightarrow> GetObjectResponse \<Rightarrow> string \<Rightarrow> ApiError + HttpResponse" where
  "origin_response H method response cache_status =
     build_response H cdn_http_error (if gor_content_range response \<noteq> None then 206 else 200)
       (origin_headers response cache_status)
       (if method = ''HEAD'' then [] else gor_body response)"

section \<open>Requests\<close>

definition cdn_require_scope :: "AuthContext \<Rightarrow> CapabilityScope \<Rightarrow> ApiError + unit" where
  "cdn_require_scope auth scope =
     (if scope \<in> set (cl_ops (ac_claims auth)) then Ok ()
      else Err (api_error Cat_Policy ''missing_required_scope'' (scope_as_str scope @ '' scope is required'')))"

definition is_cacheable :: "GetObjectResponse \<Rightarrow> bool" where
  "is_cacheable response \<longleftrightarrow>
     \<not> list_ex (\<lambda>directive. eq_ignore_ascii_case (trim directive) ''no-store'')
         (split_char CHR '','' (gor_cache_control response))"

definition cdn_invalid_range :: ApiError where
  "cdn_invalid_range = api_error Cat_Validation ''invalid_range'' ''Range header is invalid''"

definition cdn_parse_range :: "'x http_deps_scheme \<Rightarrow> HeaderMap \<Rightarrow> ApiError + RangeSpec option" where
  "cdn_parse_range H headers =
     (case header_text H headers ''range'' of
        None \<Rightarrow> Ok None
      | Some header \<Rightarrow>
          rbnd (ok_or (strip_prefix ''bytes='' header) cdn_invalid_range) (\<lambda>raw.
          rbnd (ok_or (split_once CHR ''-'' raw) cdn_invalid_range) (\<lambda>(start, stop).
          rbnd (ok_or (parse_u64 start) cdn_invalid_range) (\<lambda>start.
          rbnd (ok_or (parse_u64 stop) cdn_invalid_range) (\<lambda>stop.
          Ok (Some \<lparr>rg_start = start, rg_end = stop\<rparr>))))))"

definition edge_token_of :: "'x http_deps_scheme \<Rightarrow> HeaderMap \<Rightarrow> string \<Rightarrow> string option" where
  "edge_token_of H headers query =
     (case header_text H headers ''x-hsp-edge-token'' of
        Some token \<Rightarrow> Some token
      | None \<Rightarrow> btm_get (query_pairs query) ''token'')"

definition cdn_authenticate_request ::
  "'x http_deps_scheme \<Rightarrow> DistributionService \<Rightarrow> string \<Rightarrow> string \<Rightarrow> string \<Rightarrow> HeaderMap \<Rightarrow> byte list \<Rightarrow> AuthContext svc_op" where
  "cdn_authenticate_request H ds method path query headers body =
     (let binding = \<lparr>hrb_method = method, hrb_raw_path = path, hrb_raw_query = query, hrb_headers = headers,
                     hrb_body = body\<rparr> in
      case edge_token_of H headers query of
        Some token \<Rightarrow> authenticate_edge_token (dist_code H) ds token method
      | None \<Rightarrow>
          if has_header headers ''x-hsp-capability'' then
            lift_result (authenticate_hsp_capability (dist_code H) ds binding)
          else if has_header headers ''authorization'' \<or> str_contains query ''X-Amz-Signature='' then
            authenticate_sigv4 (dist_code H) ds binding
          else
            throw (api_error Cat_Auth ''missing_auth''
                     ''CDN requests require edge token, HSP capability auth, or SigV4 auth''))"

definition edge_claims :: "'x http_deps_scheme \<Rightarrow> DistributionService \<Rightarrow> HeaderMap \<Rightarrow> string \<Rightarrow> EdgeTokenClaims svc_op" where
  "edge_claims H ds headers query =
     bnd (lift_result (ok_or (edge_token_of H headers query)
            (api_error Cat_Auth ''missing_edge_token'' ''edge token is missing''))) (\<lambda>token.
     decode_edge_token (dist_code H) ds token)"

definition cache_mode_suffix :: "bool \<Rightarrow> string" where
  "cache_mode_suffix plaintext = (if plaintext then ''plaintext'' else ''ciphertext'')"

definition cid_cache_key :: "TenantId \<Rightarrow> string \<Rightarrow> bool \<Rightarrow> string" where
  "cid_cache_key tenant_id cid plaintext =
     ''cid:'' @ tenant_str tenant_id @ '':'' @ cache_mode_suffix plaintext @ '':'' @ cid"

definition namespace_cache_key :: "TenantId \<Rightarrow> string \<Rightarrow> string \<Rightarrow> bool \<Rightarrow> string" where
  "namespace_cache_key tenant_id bucket key plaintext =
     ''ns:'' @ tenant_str tenant_id @ '':'' @ cache_mode_suffix plaintext @ '':'' @ bucket @ ''/'' @ key"

definition cache_insert :: "string \<Rightarrow> CachedObject \<Rightarrow> (cdn_world, 'e, unit) comp" where
  "cache_insert cache_key entry w = (Ok (), w\<lparr>cw_cache := btm_insert cache_key entry (cw_cache w)\<rparr>)"

definition cache_lookup :: "string \<Rightarrow> (cdn_world, 'e, CachedObject option) comp" where
  "cache_lookup cache_key w = (Ok (btm_get (cw_cache w) cache_key), w)"

definition cached_object_of :: "GetObjectResponse \<Rightarrow> u64 \<Rightarrow> CachedObject" where
  "cached_object_of fresh expires_at_ms =
     \<lparr>co_body = gor_body fresh, co_content_type = hor_content_type (gor_head fresh),
      co_etag = hor_etag (gor_head fresh), co_cache_control = gor_cache_control fresh,
      co_content_length = hor_content_length (gor_head fresh), co_expires_at_ms = expires_at_ms\<rparr>"

definition fetch_and_store ::
  "'x http_deps_scheme \<Rightarrow> CdnState \<Rightarrow> string \<Rightarrow> string \<Rightarrow> bool \<Rightarrow> u64 \<Rightarrow> GetObjectResponse svc_op \<Rightarrow> HttpResponse cdn_op" where
  "fetch_and_store H st method cache_key immutable now fetch =
     bnd (on_service fetch) (\<lambda>fresh.
     bnd (lift_result (origin_response H method fresh ''MISS'')) (\<lambda>response.
     let ttl = (if immutable then cst_immutable_cid_ttl_sec st else cst_namespace_ttl_sec st) in
     bnd (if gor_content_range fresh = None \<and> is_cacheable fresh then
            cache_insert cache_key (cached_object_of fresh (saturating_add now (ttl * 1000)))
          else ret ()) (\<lambda>_.
     ret response)))"

definition serve_cached_object ::
  "'x http_deps_scheme \<Rightarrow> CdnState \<Rightarrow> string \<Rightarrow> string \<Rightarrow> bool \<Rightarrow> bool \<Rightarrow> GetObjectResponse svc_op \<Rightarrow> HttpResponse cdn_op" where
  "serve_cached_object H st method cache_key immutable allow_cache_hit fetch =
     bnd (on_service now_ms) (\<lambda>now.
     bnd (if allow_cache_hit then cache_lookup cache_key else ret None) (\<lambda>entry.
     case entry of
       Some entry \<Rightarrow>
         if co_expires_at_ms entry \<ge> now then lift_result (cached_response H method entry ''HIT'')
         else fetch_and_store H st method cache_key immutable now fetch
     | None \<Rightarrow> fetch_and_store H st method cache_key immutable now fetch))"

text \<open>Plaintext is asked for with the \<open>mode\<close> of the query and allowed by the profile of the edge token.\<close>

definition cdn_prefer_plaintext :: "EdgeTokenClaims option \<Rightarrow> string \<Rightarrow> bool" where
  "cdn_prefer_plaintext claims query \<longleftrightarrow>
     (case claims of None \<Rightarrow> False | Some c \<Rightarrow> et_access_profile c = TrustedEdgeV1) \<and>
     btm_get (query_pairs query) ''mode'' = Some ''plaintext''"

definition cdn_access_profile :: "EdgeTokenClaims option \<Rightarrow> AccessProfile" where
  "cdn_access_profile claims = (case claims of None \<Rightarrow> PublicCiphertext | Some c \<Rightarrow> et_access_profile c)"

definition edge_scope_error :: "string \<Rightarrow> ApiError" where
  "edge_scope_error what =
     api_error Cat_Auth ''invalid_edge_token_scope'' (''edge token is not scoped to the requested '' @ what)"

definition cdn_get_request ::
  "AuthContext \<Rightarrow> EdgeTokenClaims option \<Rightarrow> (string \<times> string) option \<Rightarrow> string option \<Rightarrow> string \<Rightarrow> RangeSpec option \<Rightarrow> GetObjectRequest" where
  "cdn_get_request auth claims binding cid query rng =
     \<lparr>go_tenant_id = cl_tenant_id (ac_claims auth), go_bucket = map_option fst binding, go_key = map_option snd binding,
      go_cid = cid, go_access_profile = cdn_access_profile claims,
      go_prefer_plaintext = cdn_prefer_plaintext claims query, go_range = rng,
      go_if_match = None, go_if_none_match = None\<rparr>"

definition cdn_serve_cid ::
  "'x http_deps_scheme \<Rightarrow> CdnState \<Rightarrow> AuthContext \<Rightarrow> EdgeTokenClaims option \<Rightarrow> string \<Rightarrow> HeaderMap \<Rightarrow> string \<Rightarrow> string \<Rightarrow> HttpResponse cdn_op" where
  "cdn_serve_cid H st auth claims method headers cid query =
     bnd (ensure (case claims of None \<Rightarrow> True | Some c \<Rightarrow> et_cid c = Some cid) (edge_scope_error ''CID'')) (\<lambda>_.
     let cid_binding = (case claims of
                          None \<Rightarrow> None
                        | Some c \<Rightarrow>
                            (case (et_bucket c, et_key c) of
                               (Some bucket, Some key) \<Rightarrow> Some (bucket, key)
                             | _ \<Rightarrow> None)) in
     bnd (lift_result (cdn_parse_range H headers)) (\<lambda>rng.
     serve_cached_object H st method
       (cid_cache_key (cl_tenant_id (ac_claims auth)) cid (cdn_prefer_plaintext claims query)) True (rng = None)
       (get_object (dist_code H) (cst_service st) auth (cdn_get_request auth claims cid_binding (Some cid) query rng))))"

definition canonical_claim :: "(string \<Rightarrow> ApiError + string) \<Rightarrow> string option \<Rightarrow> ApiError + string option" where
  "canonical_claim canonical value =
     (case value of None \<Rightarrow> Ok None | Some v \<Rightarrow> rbnd (canonical v) (\<lambda>v. Ok (Some v)))"

definition cdn_check_binding_claims :: "EdgeTokenClaims option \<Rightarrow> string \<Rightarrow> string \<Rightarrow> ApiError + unit" where
  "cdn_check_binding_claims claims bucket key =
     (case claims of
        None \<Rightarrow> Ok ()
      | Some c \<Rightarrow>
          rbnd (canonical_claim canonical_bucket_name (et_bucket c)) (\<lambda>claims_bucket.
          rbnd (canonical_claim canonical_object_key_name (et_key c)) (\<lambda>claims_key.
          if claims_bucket \<noteq> Some bucket \<or> claims_key \<noteq> Some key then Err (edge_scope_error ''bucket/key'')
          else Ok ())))"

definition cdn_serve_binding ::
  "'x http_deps_scheme \<Rightarrow> CdnState \<Rightarrow> AuthContext \<Rightarrow> EdgeTokenClaims option \<Rightarrow> string \<Rightarrow> HeaderMap \<Rightarrow> string \<Rightarrow> string \<Rightarrow> HttpResponse cdn_op" where
  "cdn_serve_binding H st auth claims method headers raw query =
     bnd (lift_result (ok_or (split_once CHR ''/'' raw)
            (api_error Cat_Validation ''invalid_bucket_path'' ''bucket route must use /b/{bucket}/{key}''))) (\<lambda>(raw_bucket, raw_key).
     bnd (lift_result (canonical_bucket_name raw_bucket)) (\<lambda>bucket.
     bnd (lift_result (canonical_object_key_name raw_key)) (\<lambda>key.
     bnd (lift_result (cdn_check_binding_claims claims bucket key)) (\<lambda>_.
     bnd (lift_result (cdn_parse_range H headers)) (\<lambda>rng.
     serve_cached_object H st method
       (namespace_cache_key (cl_tenant_id (ac_claims auth)) bucket key (cdn_prefer_plaintext claims query)) False False
       (get_object (dist_code H) (cst_service st) auth
          (cdn_get_request auth claims (Some (bucket, key)) None query rng)))))))"

definition cdn_dispatch_request ::
  "'x http_deps_scheme \<Rightarrow> CdnState \<Rightarrow> AuthContext \<Rightarrow> EdgeTokenClaims option \<Rightarrow> string \<Rightarrow> HeaderMap \<Rightarrow> string \<Rightarrow> string \<Rightarrow> HttpResponse cdn_op" where
  "cdn_dispatch_request H st auth claims method headers path query =
     (case strip_prefix ''/cid/'' path of
        Some cid \<Rightarrow> cdn_serve_cid H st auth claims method headers cid query
      | None \<Rightarrow>
          (case strip_prefix ''/b/'' path of
             Some raw \<Rightarrow> cdn_serve_binding H st auth claims method headers raw query
           | None \<Rightarrow> throw (api_error Cat_NotFound ''route_not_found'' ''CDN route not found'')))"

text \<open>What follows the authentication, which the three routes of \<open>handle_request\<close> have in common.\<close>

definition cdn_answer ::
  "'x http_deps_scheme \<Rightarrow> CdnState \<Rightarrow> HttpRequest \<Rightarrow> AuthContext \<Rightarrow> HttpResponse cdn_op" where
  "cdn_answer H st request auth =
     (let method = hq_method request; path = hq_path request; query = query_text request; headers = hq_headers request in
      if method = ''GET'' \<and> path = ''/metrics'' then
        bnd (lift_result (cdn_require_scope auth Sc_AdminMetricsRead)) (\<lambda>_ w.
          (cdn_text_response H 200 ''text/plain; version=0.0.4'' (dist_prometheus_metrics (cw_service w)), w))
      else if method = ''GET'' \<and> path = ''/v1/observability/logs'' then
        bnd (lift_result (cdn_require_scope auth Sc_AdminAuditRead)) (\<lambda>_ w.
          (cdn_json_response H 200 (json_logs H (dist_structured_logs (cw_service w))), w))
      else
        bnd (on_service (try_op (edge_claims H (cst_service st) headers query))) (\<lambda>claims.
        cdn_dispatch_request H st auth claims method headers path query))"

definition cdn_handle ::
  "'x http_deps_scheme \<Rightarrow> CdnState \<Rightarrow> HttpRequest \<Rightarrow> HttpResponse cdn_op" where
  "cdn_handle H st request =
     (let method = hq_method request in
      bnd (ensure (\<not> (method \<noteq> ''GET'' \<and> method \<noteq> ''HEAD''))
             (api_error Cat_Unsupported ''method_not_allowed'' ''CDN only supports GET and HEAD'')) (\<lambda>_.
      bnd (lift_result (map_err (api_error Cat_Validation ''invalid_body'')
             (to_bytes H MAX_CDN_REQUEST_BODY_BYTES (hq_body request)))) (\<lambda>body.
      bnd (on_service (cdn_authenticate_request H (cst_service st) method (hq_path request) (query_text request)
             (hq_headers request) body))
        (cdn_answer H st request))))"

definition cdn_handle_request ::
  "'x cdn_deps_scheme \<Rightarrow> CdnState \<Rightarrow> HttpRequest \<Rightarrow> cdn_world \<Rightarrow> http_outcome \<times> cdn_world" where
  "cdn_handle_request H st request = respond (cdn_api_error_response H) (cdn_handle H st request)"

definition cdn_router ::
  "'x cdn_deps_scheme \<Rightarrow> CdnState \<Rightarrow> HttpRequest \<Rightarrow> cdn_world \<Rightarrow> http_outcome \<times> cdn_world" where
  "cdn_router H st request w =
     (if list_ex (\<lambda>pattern. route_matches H pattern (hq_path request)) cdn_routes then cdn_handle_request H st request w
      else (Responded (unrouted H), w))"

section \<open>Invalidation\<close>

definition tenant_ids_from_cache :: "(string, CachedObject) btm \<Rightarrow> TenantId list" where
  "tenant_ids_from_cache cache =
     map (TenantId \<circ> fst)
       (foldl (\<lambda>tenants key.
          case Option.bind (strip_prefix ''ns:'' key) (split_once CHR '':'') of
            None \<Rightarrow> tenants
          | Some (tenant, _) \<Rightarrow> btm_insert tenant () tenants) [] (map fst cache))"

definition internal_subscribe_auth :: "TenantId \<Rightarrow> (service, 'e, AuthContext) comp" where
  "internal_subscribe_auth tenant_id =
     bnd now_ms (\<lambda>now.
     bnd now_ms (\<lambda>then_ms.
     ret \<lparr>ac_claims =
            \<lparr>cl_iss = ''hsp-cdn'', cl_sub = ''cache-invalidator'', cl_aud = ''hsp-cdn'',
             cl_exp = saturating_add now 30000, cl_nbf = Some (saturating_sub then_ms 1000), cl_jti = None,
             cl_ops = [Sc_Read, Sc_Subscribe], cl_tenant_id = tenant_id, cl_namespace_prefix = None,
             cl_path_prefix = None, cl_max_object_size = None, cl_storage_classes = [''hot''],
             cl_key_policy_id = None, cl_metadata_visibility = None\<rparr>,
          ac_channel_binding = None\<rparr>))"

definition invalidates :: "EventType \<Rightarrow> bool" where
  "invalidates event_type \<longleftrightarrow> event_type \<in> {NamespaceBound, NamespaceUnbound, NamespaceTombstoned, ObjectCommitted}"

definition apply_event_invalidation ::
  "TenantId \<Rightarrow> EventRecord \<Rightarrow> (string, CachedObject) btm \<Rightarrow> (string, CachedObject) btm" where
  "apply_event_invalidation tenant_id event cache =
     (if invalidates (ev_event_type event) then
        case (ev_namespace event, ev_path event) of
          (Some namespace, Some path) \<Rightarrow>
            btm_remove (namespace_cache_key tenant_id namespace path True)
              (btm_remove (namespace_cache_key tenant_id namespace path False) cache)
        | _ \<Rightarrow> cache
      else cache)"

definition apply_envelope :: "TenantId \<Rightarrow> SubscribeEnvelope \<Rightarrow> (string, CachedObject) btm \<Rightarrow> (string, CachedObject) btm" where
  "apply_envelope tenant_id envelope cache =
     (if se_kind envelope \<noteq> Env_Event then cache
      else case se_event envelope of None \<Rightarrow> cache | Some event \<Rightarrow> apply_event_invalidation tenant_id event cache)"

definition invalidation_request :: "TenantId \<Rightarrow> (string, string) btm \<Rightarrow> SubscribeRequest" where
  "invalidation_request tenant_id cursors =
     \<lparr>sr_tenant_id = tenant_id,
      sr_filters = [\<lparr>sf_namespace_prefix = None, sf_path_exact = None, sf_object_cid = None, sf_event_type = None,
                     sf_tenant_scope = None\<rparr>],
      sr_cursor = btm_get cursors (tenant_str tenant_id),
      sr_from_seq = (if btm_get cursors (tenant_str tenant_id) = None then Some 0 else None),
      sr_heartbeat_ms = Some 50, sr_batch_max = Some 128\<rparr>"

text \<open>The cursors of the worker are passed on; an error leaves them as they were.\<close>

definition poll_cache_invalidation_events ::
  "dist_deps \<Rightarrow> CdnState \<Rightarrow> TenantId \<Rightarrow> (string, string) btm \<Rightarrow> (string, string) btm cdn_op" where
  "poll_cache_invalidation_events D st tenant_id cursors =
     (let alpha = ds_alpha (cst_service st); subscribe = invalidation_request tenant_id cursors in
      bnd (on_service (internal_subscribe_auth tenant_id)) (\<lambda>auth.
      bnd (on_service (subscribe_start (alpha_code D) alpha auth subscribe)) (\<lambda>cursor.
      bnd (on_service (subscribe_poll (alpha_code D) alpha auth subscribe cursor)) (\<lambda>(envelopes, next_cursor) w.
      (Ok (btm_insert (tenant_str tenant_id) (event_cursor_encode (alpha_code D) next_cursor) cursors),
       w\<lparr>cw_cache := fold (apply_envelope tenant_id) envelopes (cw_cache w)\<rparr>)))))"

primrec poll_tenants ::
  "dist_deps \<Rightarrow> CdnState \<Rightarrow> TenantId list \<Rightarrow> (string, string) btm \<Rightarrow> cdn_world \<Rightarrow> (string, string) btm \<times> cdn_world" where
  "poll_tenants D st [] cursors w = (cursors, w)"
| "poll_tenants D st (tenant # tenants) cursors w =
     (case poll_cache_invalidation_events D st tenant cursors w of
        (Ok cursors', w') \<Rightarrow> poll_tenants D st tenants cursors' w'
      | (Err error, w') \<Rightarrow>
          poll_tenants D st tenants
            (if err_code error = ''cursor_expired'' \<or> err_code error = ''invalid_cursor''
             then btm_remove (tenant_str tenant) cursors else cursors) w')"

text \<open>One turn of the worker of \<open>spawn_cache_invalidation_worker\<close>; it sleeps 750 ms between turns.\<close>

definition invalidation_turn ::
  "dist_deps \<Rightarrow> CdnState \<Rightarrow> (string, string) btm \<Rightarrow> cdn_world \<Rightarrow> (string, string) btm \<times> cdn_world" where
  "invalidation_turn D st cursors w = poll_tenants D st (tenant_ids_from_cache (cw_cache w)) cursors w"

end
