(* ===== verification/HSP_Encrypted.thy ===== *)
theory HSP_Encrypted
  imports HSP_Service_Base
begin

text \<open>
  The encrypted record store that every operation of the service goes through: what a record slot
  holds (\<open>peek\<close>), that reading returns it, that writing sets it and touches no other slot, and
  which files a computation can change at all, whatever system calls fail (\<open>confined\<close>).
\<close>

section \<open>Slots\<close>

definition slot :: "'x core_deps_scheme \<Rightarrow> AlphaService \<Rightarrow> TenantId \<Rightarrow> string \<Rightarrow> string \<Rightarrow> string" where
  "slot D svc t kind key = store_path (as_store svc) (store_key D t kind key)"

definition peek_bytes ::
  "service_deps \<Rightarrow> AlphaService \<Rightarrow> TenantId \<Rightarrow> string \<Rightarrow> string \<Rightarrow> (string \<rightharpoonup> byte list)
   \<Rightarrow> ApiError + byte list option" where
  "peek_bytes D svc t kind key files =
     (case files (slot D svc t kind key) of
        None \<Rightarrow> Ok None
      | Some bytes \<Rightarrow>
          rbnd (map_err (api_error Cat_Storage ''envelope_deserialize_failed'') (from_slice (json_envelope D) bytes)) (\<lambda>env.
          map_err (\<lambda>e. crypto_error_to_api e ''failed to decrypt store payload'')
            (rbnd (local_decrypt_store_payload D (as_kms svc) t kind env) (\<lambda>plaintext. Ok (Some plaintext)))))"

definition peek ::
  "service_deps \<Rightarrow> AlphaService \<Rightarrow> 'a codec \<Rightarrow> TenantId \<Rightarrow> string \<Rightarrow> string \<Rightarrow> (string \<rightharpoonup> byte list)
   \<Rightarrow> ApiError + 'a option" where
  "peek D svc c t kind key files =
     rbnd (peek_bytes D svc t kind key files) (\<lambda>found.
     case found of
       None \<Rightarrow> Ok None
     | Some bytes \<Rightarrow>
         map_err (api_error Cat_Storage ''json_deserialize_failed'') (rbnd (from_slice c bytes) (\<lambda>v. Ok (Some v))))"

definition plain_kind :: "string \<Rightarrow> bool" where
  "plain_kind kind \<longleftrightarrow> kind \<noteq> [] \<and> CHR ''/'' \<notin> set kind"

lemma plain_kind_literals [simp]:
  "plain_kind ''chunks''" "plain_kind ''manifests''" "plain_kind ''namespace-current''"
  "plain_kind ''namespace-journal''" "plain_kind ''namespace-revisions''" "plain_kind ''sessions''"
  "plain_kind ''audit''" "plain_kind ''idempotency''" "plain_kind ''replay''" "plain_kind ''events''"
  by (simp_all add: plain_kind_def)

lemma append_sep_eq:
  "c \<notin> set a \<Longrightarrow> c \<notin> set b \<Longrightarrow> a @ c # r = b @ c # s \<longleftrightarrow> a = b \<and> r = s"
  by (induction a arbitrary: b) (case_tac b, auto)+

lemma path_join_inject:
  assumes "\<not> starts_with a ''/''" "\<not> starts_with b ''/''"
  shows "path_join root a = path_join root b \<longleftrightarrow> a = b"
  using assms by (simp add: path_join_def)

lemma store_key_not_absolute: "plain_kind kind \<Longrightarrow> \<not> starts_with (store_key D t kind key) ''/''"
  by (cases kind) (auto simp: plain_kind_def store_key_def starts_with_def)

lemma slot_kind_neq:
  assumes "as_store svc = Filesystem root" "plain_kind k" "plain_kind k'" "k \<noteq> k'"
  shows "slot D svc t k key \<noteq> slot D svc t' k' key'"
proof -
  have "store_key D t k key \<noteq> store_key D t' k' key'"
    using assms(2-4) append_sep_eq [of "CHR ''/''" k k'] by (simp add: store_key_def plain_kind_def)
  then show ?thesis
    using assms by (simp add: slot_def path_join_inject store_key_not_absolute)
qed

lemma peek_bytes_cong:
  "f (slot D svc t kind key) = g (slot D svc t kind key) \<Longrightarrow>
   peek_bytes D svc t kind key f = peek_bytes D svc t kind key g"
  by (simp add: peek_bytes_def)

lemma peek_cong:
  "f (slot D svc t kind key) = g (slot D svc t kind key) \<Longrightarrow>
   peek D svc c t kind key f = peek D svc c t kind key g"
  by (simp add: peek_def peek_bytes_cong [of f D svc t kind key g])

lemma peek_other_kind:
  assumes "as_store svc = Filesystem root" "plain_kind k" "plain_kind k'" "k \<noteq> k'"
  shows "peek D svc c t k key (f(slot D svc t' k' key' := x)) = peek D svc c t k key f"
  using slot_kind_neq [OF assms, of D t key t' key'] by (intro peek_cong) simp

section \<open>What the computations leave alone\<close>

text \<open>The outcomes of the system calls and the readings of the clock are given from outside.\<close>

abbreviation fate :: "'z world_scheme \<Rightarrow> (nat \<Rightarrow> io_outcome) \<times> (nat \<Rightarrow> u64)" where
  "fate w \<equiv> (w_io w, w_clock w)"

lemma io_done_io [simp]: "w_io (io_done w) = w_io w" "w_clock (io_done w) = w_clock w"
  by (simp_all add: io_done_def)

lemma make_parent_io: "make_parent p w = (r, w') \<Longrightarrow> fate w' = fate w"
  by (auto simp: make_parent_def create_dir_all_def on_err_def ret_def Let_def
      split: option.splits io_outcome.splits prod.splits if_splits)

lemma store_create_io:
  assumes "store_create D (Filesystem root) k bytes w = (r, w')"
  shows "fate w' = fate w"
proof -
  obtain m w1 where mk: "make_parent (path_join root k) w = (m, w1)" by force
  show ?thesis using assms mk make_parent_io [OF mk]
    by (cases m) (auto simp: fs_defs split: io_outcome.splits if_splits option.splits)
qed

text \<open>\<open>quiet\<close>: the files, the backend's reliability and the policy engine stay as they are.\<close>

definition quiet :: "service \<Rightarrow> service \<Rightarrow> bool" where
  "quiet s s' \<longleftrightarrow> w_files s' = w_files s \<and> (io_reliable s \<longrightarrow> io_reliable s')
     \<and> w_io s' = w_io s \<and> w_clock s' = w_clock s \<and> sv_policy_engine s' = sv_policy_engine s"

lemma quiet_refl [simp]: "quiet s s"
  by (simp add: quiet_def)

lemma quiet_trans: "quiet s t \<Longrightarrow> quiet t u \<Longrightarrow> quiet s u"
  by (simp add: quiet_def)

lemma quietD:
  assumes "quiet s s'"
  shows "w_files s' = w_files s" "io_reliable s \<Longrightarrow> io_reliable s'" "sv_policy_engine s' = sv_policy_engine s"
    "w_io s' = w_io s" "w_clock s' = w_clock s"
  using assms by (simp_all add: quiet_def)

lemma now_ms_quiet: "now_ms s = (r, s') \<Longrightarrow> quiet s s'"
  by (auto simp: now_ms_def quiet_def io_reliable_def)

lemma record_observation_quiet: "record_observation ob s = (r, s') \<Longrightarrow> quiet s s' \<and> r = Ok ()"
  by (auto simp: record_observation_def quiet_def Let_def bnd_def now_ms_def io_reliable_def)

lemma local_encrypt_frame:
  fixes s s' :: service
  assumes "local_encrypt_store_payload D kms t k plaintext s = (r, s')"
  shows "quiet s s'"
  using assms
  by (auto simp: local_encrypt_store_payload_def generate_object_data_key_def fill_bytes_def bnd_def
      lift_result_def encrypt_aes_gcm_def ensure_def ret_def quiet_def io_reliable_def
      split: sum.splits if_splits prod.splits)

section \<open>Reading and writing records\<close>

text \<open>What the record store relies on: the ciphers and the JSON form of an envelope.\<close>

definition store_laws :: "service_deps \<Rightarrow> bool" where
  "store_laws D \<longleftrightarrow> crypto_laws D \<and> codec_ok (json_envelope D)"

definition fs_ready :: "AlphaService \<Rightarrow> service \<Rightarrow> bool" where
  "fs_ready svc s \<longleftrightarrow> (\<exists>root. as_store svc = Filesystem root) \<and> io_reliable s"

lemma fs_ready_quiet: "quiet s s' \<Longrightarrow> fs_ready svc s \<Longrightarrow> fs_ready svc s'"
  by (auto simp: fs_ready_def quiet_def)

lemma store_read_quiet:
  fixes s s' :: service
  assumes "fs_ready svc s" "store_read D (as_store svc) k s = (r, s')"
  shows "quiet s s' \<and> r = Ok (w_files s (store_path (as_store svc) k))"
proof -
  obtain root where root: "as_store svc = Filesystem root" and ok: "io_reliable s"
    using assms(1) by (auto simp: fs_ready_def)
  have "w_io s' = w_io s \<and> w_clock s' = w_clock s \<and> sv_policy_engine s' = sv_policy_engine s"
    using assms(2) by (auto simp: root fs_defs io_done_def split: option.splits io_outcome.splits if_splits)
  moreover have "w_files s' = w_files s \<and> io_reliable s' \<and> r = Ok (w_files s (store_path (as_store svc) k))"
    using filesystem.rd_ok [OF ok, where D = D and k = k and root = root] assms(2) by (auto simp: root)
  ultimately show ?thesis by (simp add: quiet_def)
qed

lemma read_encrypted_bytes_spec:
  assumes "fs_ready svc s" "read_encrypted_bytes D svc t kind key s = (r, s')"
  shows "quiet s s' \<and> r = peek_bytes D svc t kind key (w_files s)"
proof -
  obtain x s1 where rd: "store_read D (as_store svc) (store_key D t kind key) s = (x, s1)" by force
  have q: "quiet s s1" "x = Ok (w_files s (slot D svc t kind key))"
    using store_read_quiet [OF assms(1) rd] by (simp_all add: slot_def)
  show ?thesis
  proof (cases "w_files s (slot D svc t kind key)")
    case None
    then show ?thesis using assms(2) q rd
      by (simp add: read_encrypted_bytes_def bnd_def ret_def peek_bytes_def)
  next
    case (Some bytes)
    show ?thesis
    proof (cases "from_slice (json_envelope D) bytes")
      case (Inl e)
      then show ?thesis using assms(2) q rd Some
        by (simp add: read_encrypted_bytes_def bnd_def lift_result_def map_err_def peek_bytes_def)
    next
      case (Inr env)
      show ?thesis
      proof (cases "local_decrypt_store_payload D (as_kms svc) t kind env")
        case (Inr plaintext)
        then show ?thesis using assms(2) q rd Some \<open>from_slice (json_envelope D) bytes = Inr env\<close>
          by (simp add: read_encrypted_bytes_def bnd_def lift_result_def map_err_def peek_bytes_def
              on_error_def ret_def)
      next
        case (Inl e)
        let ?ob = "kms_observation t None (err_code (crypto_error_to_api e ''failed to decrypt store payload''))"
        obtain u s2 where ob: "record_observation ?ob s1 = (Ok u :: ApiError + unit, s2)" "quiet s1 s2"
          using record_observation_quiet [of ?ob s1] by (cases "record_observation ?ob s1 :: (ApiError + unit) \<times> _") auto
        then show ?thesis using assms(2) q rd Some \<open>from_slice (json_envelope D) bytes = Inr env\<close> Inl
          by (auto simp: read_encrypted_bytes_def bnd_def lift_result_def map_err_def peek_bytes_def
              on_error_def Let_def throw_def intro: quiet_trans)
      qed
    qed
  qed
qed

lemma read_encrypted_json_spec:
  assumes "fs_ready svc s" "read_encrypted_json D svc c t kind key s = (r, s')"
  shows "quiet s s' \<and> r = peek D svc c t kind key (w_files s)"
proof -
  obtain x s1 where rd: "read_encrypted_bytes D svc t kind key s = (x, s1)" by force
  note spec = read_encrypted_bytes_spec [OF assms(1) rd]
  show ?thesis
    using assms(2) rd spec
    by (auto simp: read_encrypted_json_def bnd_def ret_def lift_result_def peek_def rbnd_def
        split: sum.splits option.splits)
qed

lemma store_write_spec:
  fixes s s' :: service
  assumes "fs_ready svc s" "store_write D (as_store svc) k bytes s = (r, s')"
  shows "r = Ok () \<and> w_files s' = (w_files s)(store_path (as_store svc) k \<mapsto> bytes) \<and> io_reliable s' \<and>
    sv_policy_engine s' = sv_policy_engine s"
proof -
  obtain root where root: "as_store svc = Filesystem root" and ok: "io_reliable s"
    using assms(1) by (auto simp: fs_ready_def)
  have "sv_policy_engine s' = sv_policy_engine s"
    using assms(2) by (auto simp: root fs_defs make_parent_def create_dir_all_def io_done_def
        split: option.splits io_outcome.splits if_splits)
  then show ?thesis
    using filesystem.wr_ok [OF ok, where D = D and k = k and root = root and v = bytes] assms(2) by (auto simp: root)
qed

text \<open>After a write: the new value in its slot, every other file as it was.\<close>

definition wrote ::
  "service_deps \<Rightarrow> AlphaService \<Rightarrow> TenantId \<Rightarrow> string \<Rightarrow> string \<Rightarrow> byte list \<Rightarrow> service \<Rightarrow> service \<Rightarrow> bool" where
  "wrote D svc t kind key plaintext s s' \<longleftrightarrow>
     (\<exists>bytes. w_files s' = (w_files s)(slot D svc t kind key \<mapsto> bytes)) \<and>
     peek_bytes D svc t kind key (w_files s') = Ok (Some plaintext) \<and>
     io_reliable s' \<and> sv_policy_engine s' = sv_policy_engine s"

lemma encrypted_envelope_peek:
  assumes "store_laws D" "local_encrypt_store_payload D (as_kms svc) t kind plaintext (s :: service) = (Ok env, s1)"
    and "to_vec (json_envelope D) env = Ok bytes" "files (slot D svc t kind key) = Some bytes"
  shows "peek_bytes D svc t kind key files = Ok (Some plaintext)"
  using assms local_store_roundtrip [of D "as_kms svc" t kind plaintext s env s1]
  by (simp add: store_laws_def codec_okD peek_bytes_def map_err_def)

lemma write_encrypted_bytes_spec:
  assumes "store_laws D" "fs_ready svc s" "write_encrypted_bytes D svc t kind key plaintext s = (r, s')"
  shows "r = Ok () \<and> wrote D svc t kind key plaintext s s' \<or> (\<exists>e. r = Err e) \<and> quiet s s'"
proof -
  obtain x s1 where enc: "local_encrypt_store_payload D (as_kms svc) t kind plaintext s = (x, s1)" by force
  have q: "quiet s s1" by (rule local_encrypt_frame [OF enc])
  have ready: "fs_ready svc s1" by (rule fs_ready_quiet [OF q assms(2)])
  show ?thesis
  proof (cases x)
    case (Inl e)
    then show ?thesis
      using assms(3) enc q
      by (auto simp: write_encrypted_bytes_def bnd_def on_error_def Let_def throw_def
          split: prod.splits sum.splits dest!: record_observation_quiet intro: quiet_trans)
  next
    case (Inr env)
    show ?thesis
    proof (cases "to_vec (json_envelope D) env")
      case (Inl e)
      then show ?thesis
        using assms(3) enc q \<open>x = Inr env\<close>
        by (auto simp: write_encrypted_bytes_def bnd_def on_error_def write_envelope_def lift_result_def map_err_def)
    next
      case (Inr bytes)
      obtain y s2 where wr: "store_write D (as_store svc) (store_key D t kind key) bytes s1 = (y, s2)" by force
      have "r = y" "s' = s2"
        using assms(3) enc \<open>x = Inr env\<close> Inr wr
        by (auto simp: write_encrypted_bytes_def bnd_def on_error_def write_envelope_def lift_result_def map_err_def)
      moreover have "y = Ok () \<and> w_files s2 = (w_files s)(slot D svc t kind key \<mapsto> bytes) \<and> io_reliable s2 \<and>
          sv_policy_engine s2 = sv_policy_engine s"
        using store_write_spec [OF ready wr] quietD [OF q] by (simp add: slot_def)
      moreover have "peek_bytes D svc t kind key (w_files s2) = Ok (Some plaintext)"
        using encrypted_envelope_peek [OF assms(1) enc [unfolded \<open>x = Inr env\<close>] Inr, of "w_files s2" key] calculation
        by simp
      ultimately show ?thesis by (auto simp: wrote_def)
    qed
  qed
qed

definition wrote_json ::
  "service_deps \<Rightarrow> AlphaService \<Rightarrow> 'a codec \<Rightarrow> TenantId \<Rightarrow> string \<Rightarrow> string \<Rightarrow> 'a \<Rightarrow> service \<Rightarrow> service \<Rightarrow> bool" where
  "wrote_json D svc c t kind key v s s' \<longleftrightarrow>
     (\<exists>bytes. w_files s' = (w_files s)(slot D svc t kind key \<mapsto> bytes)) \<and>
     peek D svc c t kind key (w_files s') = Ok (Some v) \<and>
     io_reliable s' \<and> sv_policy_engine s' = sv_policy_engine s"

lemma write_encrypted_json_spec:
  assumes "store_laws D" "codec_ok c" "fs_ready svc s" "write_encrypted_json D svc c t kind key v s = (r, s')"
  shows "r = Ok () \<and> wrote_json D svc c t kind key v s s' \<or> (\<exists>e. r = Err e) \<and> quiet s s'"
proof (cases "to_vec c v")
  case (Inl e)
  then show ?thesis
    using assms(4) by (auto simp: write_encrypted_json_def bnd_def lift_result_def map_err_def)
next
  case (Inr bytes)
  then have wr: "write_encrypted_bytes D svc t kind key bytes s = (r, s')"
    using assms(4) by (simp add: write_encrypted_json_def bnd_def lift_result_def map_err_def)
  show ?thesis
    using write_encrypted_bytes_spec [OF assms(1,3) wr] codec_okD [OF assms(2) Inr]
    by (auto simp: wrote_def wrote_json_def peek_def map_err_def)
qed

lemma wrote_json_ready: "fs_ready svc s \<Longrightarrow> wrote_json D svc c t kind key v s s' \<Longrightarrow> fs_ready svc s'"
  by (auto simp: fs_ready_def wrote_json_def)

lemma wrote_json_other:
  assumes "wrote_json D svc c t kind key v s s'" "slot D svc t' kind' key' \<noteq> slot D svc t kind key"
  shows "peek D svc c' t' kind' key' (w_files s') = peek D svc c' t' kind' key' (w_files s)"
  using assms by (auto simp: wrote_json_def intro!: peek_cong)

lemma store_create_spec:
  fixes s s' :: service
  assumes "fs_ready svc s" "store_create D (as_store svc) k bytes s = (r, s')"
  shows "r = Ok (w_files s (store_path (as_store svc) k) = None) \<and> io_reliable s' \<and>
    w_io s' = w_io s \<and> w_clock s' = w_clock s \<and> sv_policy_engine s' = sv_policy_engine s \<and>
    w_files s' = (if w_files s (store_path (as_store svc) k) = None
      then (w_files s)(store_path (as_store svc) k \<mapsto> bytes) else w_files s)"
proof -
  obtain root where root: "as_store svc = Filesystem root" and ok: "io_reliable s"
    using assms(1) by (auto simp: fs_ready_def)
  have "sv_policy_engine s' = sv_policy_engine s"
    using assms(2) by (auto simp: root fs_defs make_parent_def create_dir_all_def io_done_def
        split: option.splits io_outcome.splits if_splits)
  moreover have "fate s' = fate s" using assms(2) unfolding root by (rule store_create_io)
  ultimately show ?thesis
    using filesystem.cr_ok [OF ok, where D = D and k = k and root = root and v = bytes] assms(2) by (auto simp: root)
qed

lemma create_encrypted_json_spec:
  assumes "store_laws D" "codec_ok c" "fs_ready svc s" "create_encrypted_json D svc c t kind key v s = (r, s')"
  shows "r = Ok True \<and> w_files s (slot D svc t kind key) = None \<and> wrote_json D svc c t kind key v s s' \<or>
    r = Ok False \<and> w_files s (slot D svc t kind key) \<noteq> None \<and> quiet s s' \<or> (\<exists>e. r = Err e) \<and> quiet s s'"
proof (cases "to_vec c v")
  case (Inl e)
  then show ?thesis
    using assms(4) by (auto simp: create_encrypted_json_def bnd_def lift_result_def map_err_def)
next
  case (Inr plaintext)
  obtain x s1 where enc: "local_encrypt_store_payload D (as_kms svc) t kind plaintext s = (x, s1)" by force
  have q: "quiet s s1" by (rule local_encrypt_frame [OF enc])
  show ?thesis
  proof (cases x)
    case (Inl e)
    then show ?thesis
      using assms(4) enc q Inr
      by (auto simp: create_encrypted_json_def bnd_def lift_result_def map_err_def on_err_def)
  next
    case env: (Inr env)
    show ?thesis
    proof (cases "to_vec (json_envelope D) env")
      case (Inl e)
      then show ?thesis
        using assms(4) enc q Inr env
        by (auto simp: create_encrypted_json_def bnd_def lift_result_def map_err_def on_err_def create_envelope_def)
    next
      case bytes: (Inr bytes)
      have cr: "store_create D (as_store svc) (store_key D t kind key) bytes s1 = (r, s')"
        using assms(4) enc q Inr env bytes
        by (simp add: create_encrypted_json_def bnd_def lift_result_def map_err_def on_err_def create_envelope_def)
      note spec = store_create_spec [OF fs_ready_quiet [OF q assms(3)] cr, folded slot_def]
      have "peek D svc c t kind key (w_files s') = Ok (Some v)" if "w_files s (slot D svc t kind key) = None"
        using encrypted_envelope_peek [OF assms(1) enc [unfolded env] bytes, of "w_files s'" key] that spec quietD [OF q]
          codec_okD [OF assms(2) Inr]
        by (simp add: peek_def map_err_def)
      then show ?thesis
        using spec quietD [OF q] assms(3)
        by (auto simp: wrote_json_def quiet_def fs_ready_def)
    qed
  qed
qed

section \<open>Which files a computation can change\<close>

text \<open>
  \<open>keeps J m\<close>: the computation \<open>m\<close> keeps the property \<open>J\<close> of the stored files whatever it returns
  and whichever system calls fail; \<open>J\<close> may also speak of the outcomes of the system calls and the
  readings of the clock, which no computation changes. \<open>free_at J p\<close>: the file at \<open>p\<close> does not matter to \<open>J\<close>.
\<close>

type_synonym disk_prop = "(nat \<Rightarrow> io_outcome) \<times> (nat \<Rightarrow> u64) \<Rightarrow> (string \<rightharpoonup> byte list) \<Rightarrow> bool"

definition keeps :: "disk_prop \<Rightarrow> ('z world_scheme, 'e, 'a) comp \<Rightarrow> bool" where
  "keeps J m \<longleftrightarrow> preserves (\<lambda>s. J (fate s) (w_files s)) m"

definition free_at :: "disk_prop \<Rightarrow> string \<Rightarrow> bool" where
  "free_at J p \<longleftrightarrow> (\<forall>io f x. J io f \<longrightarrow> J io (f(p := x)))"

named_theorems keeps_rules \<open>rules that a computation keeps a property of the stored files\<close>

lemma keepsI: "(\<And>s r s'. m s = (r, s') \<Longrightarrow> J (fate s) (w_files s) \<Longrightarrow> J (fate s') (w_files s')) \<Longrightarrow> keeps J m"
  unfolding keeps_def preserves_def by (metis prod.collapse)

lemma keepsD: "keeps J m \<Longrightarrow> m s = (r, s') \<Longrightarrow> J (fate s) (w_files s) \<Longrightarrow> J (fate s') (w_files s')"
  unfolding keeps_def by (erule preservesD)

lemma keeps_basic [keeps_rules]:
  "keeps J (ret x)" "keeps J (throw e)" "keeps J (lift_result r)" "keeps J (ensure b e)"
  unfolding keeps_def by (rule preserves_rules)+

lemma keeps_bnd [keeps_rules]: "keeps J m \<Longrightarrow> (\<And>x. keeps J (f x)) \<Longrightarrow> keeps J (bnd m f)"
  unfolding keeps_def by (rule preserves_bnd)

lemma keeps_bnd_result:
  "keeps J m \<Longrightarrow> (\<And>x s s'. m s = (Ok x, s') \<Longrightarrow> keeps J (f x)) \<Longrightarrow> keeps J (bnd m f)"
  by (rule keepsI) (auto simp: bnd_def split: prod.splits sum.splits; metis keepsD)

lemma keeps_lift_bnd:
  "(\<And>x. r = Ok x \<Longrightarrow> keeps J (f x)) \<Longrightarrow> keeps J (bnd (lift_result r) f)"
  by (rule keeps_bnd_result) (auto intro: keeps_basic)

lemma keeps_if [keeps_rules]:
  "(b \<Longrightarrow> keeps J m) \<Longrightarrow> (\<not> b \<Longrightarrow> keeps J n) \<Longrightarrow> keeps J (if b then m else n)"
  by simp

lemma keeps_option [keeps_rules]:
  "keeps J m \<Longrightarrow> (\<And>y. keeps J (f y)) \<Longrightarrow> keeps J (case x of None \<Rightarrow> m | Some y \<Rightarrow> f y)"
  by (cases x) simp_all

lemma keeps_prod [keeps_rules]: "(\<And>a b. keeps J (f a b)) \<Longrightarrow> keeps J (case p of (a, b) \<Rightarrow> f a b)"
  by (cases p) simp

lemma keeps_Let [keeps_rules]: "keeps J (f x) \<Longrightarrow> keeps J (Let x f)"
  by simp

lemma keeps_on_error [keeps_rules]: "keeps J m \<Longrightarrow> (\<And>e. keeps J (h e)) \<Longrightarrow> keeps J (on_error m h)"
  by (rule keepsI) (auto simp: on_error_def split: prod.splits sum.splits dest: keepsD)

lemma keeps_on_err [keeps_rules]: "keeps J m \<Longrightarrow> keeps J (on_err g m)"
  by (rule keepsI) (auto simp: on_err_def split: prod.splits dest: keepsD)

lemma keeps_discard [keeps_rules]: "keeps J m \<Longrightarrow> keeps J (discard m)"
  by (rule keepsI) (auto simp: discard_def prod_eq_iff intro: keepsD [of J m, OF _ prod.collapse [symmetric]])

lemma keeps_now_ms [keeps_rules]: "keeps J now_ms"
  by (rule keepsI) (auto simp: now_ms_def)

lemma keeps_elapsed_ms [keeps_rules]: "keeps J (elapsed_ms t)"
  unfolding elapsed_ms_def by (intro keeps_rules)

lemma keeps_record_observation [keeps_rules]: "keeps J (record_observation ob)"
  by (rule keepsI) (auto dest!: record_observation_quiet simp: quiet_def)

lemma keeps_encrypt [keeps_rules]:
  "keeps J (local_encrypt_store_payload D kms t k plaintext :: (service, CryptoError, StoredEnvelope) comp)"
  by (rule keepsI) (auto dest!: local_encrypt_frame simp: quiet_def)

lemma s3_request_files: "s3_request D st m k q b e s = (r, s') \<Longrightarrow> w_files s' = w_files s \<and> fate s' = fate s"
  by (auto simp: s3_request_def amz_timestamp_def now_ms_def ret_def bnd_def http_call_def lift_result_def Let_def
      split: prod.splits)

lemma keeps_s3_request [keeps_rules]: "keeps J (s3_request D st m k q b e)"
  by (rule keepsI) (auto dest: s3_request_files)

lemma keeps_S3Response [keeps_rules]:
  "(\<And>bs. keeps J (f bs)) \<Longrightarrow> (\<And>n b. keeps J (g n b)) \<Longrightarrow>
   keeps J (case x of S3_Ok bs \<Rightarrow> f bs | S3_Status n b \<Rightarrow> g n b)"
  by (cases x) simp_all

lemma keeps_s3 [keeps_rules]:
  "keeps J (get_object_s3 D st k)" "keeps J (put_object_s3 D st k v b)" "keeps J (delete_object_s3 D st k)"
  "keeps J (head_object_s3 D st k)"
  unfolding get_object_s3_def put_object_s3_def delete_object_s3_def head_object_s3_def request_status_def
  by (intro keeps_rules)+

lemma keeps_unwrap_or_false [keeps_rules]: "keeps J m \<Longrightarrow> keeps J (unwrap_or_false m)"
  by (rule keepsI) (auto simp: unwrap_or_false_def split: prod.splits dest: keepsD)

lemma keeps_file_exists [keeps_rules]: "keeps J (file_exists p)"
  by (rule keepsI) (auto simp: file_exists_def)

lemma keeps_fs_read [keeps_rules]: "keeps J (fs_read p)"
  by (rule keepsI) (auto simp: fs_read_def split: io_outcome.splits)

lemma keeps_store_read [keeps_rules]: "keeps J (store_read D sb k)"
  by (cases sb) (auto intro!: keeps_rules)

lemma keeps_store_exists [keeps_rules]: "keeps J (store_exists D sb k)"
  by (cases sb) (auto intro!: keeps_rules)

lemma keeps_make_parent [keeps_rules]: "keeps J (make_parent p)"
proof (rule keepsI)
  fix s r s' assume "make_parent p s = (r, s')" "J (fate s) (w_files s)"
  then show "J (fate s') (w_files s')" by (simp add: make_parent_files [of p s r s'] make_parent_io [of p s r s'])
qed

lemma keeps_fs_write:
  "(\<And>io f n. J io f \<Longrightarrow> J io (f(p \<mapsto> take n bytes))) \<Longrightarrow> keeps J (fs_write p bytes)"
proof (rule keepsI)
  fix s r s'
  assume J: "\<And>io f n. J io f \<Longrightarrow> J io (f(p \<mapsto> take n bytes))"
    and "fs_write p bytes s = (r, s')" "J (fate s) (w_files s)"
  then show "J (fate s') (w_files s')"
    using J [of "fate s" "w_files s" "length bytes"] by (auto simp: fs_write_def split: io_outcome.splits option.splits)
qed

lemma keeps_store_write:
  "(\<And>io f n. J io f \<Longrightarrow> J io (f(store_path sb k \<mapsto> take n bytes))) \<Longrightarrow> keeps J (store_write D sb k bytes)"
  by (cases sb) (auto intro!: keeps_rules keeps_fs_write)

lemma keeps_store_write_free: "free_at J (store_path sb k) \<Longrightarrow> keeps J (store_write D sb k bytes)"
  unfolding free_at_def by (rule keeps_store_write) blast

lemma store_create_files:
  assumes "store_create D (Filesystem root) k bytes w = (r, w')" "p \<noteq> path_join root k"
  shows "w_files w' p = w_files w p"
proof -
  obtain m w1 where mk: "make_parent (path_join root k) w = (m, w1)" by force
  show ?thesis using assms mk make_parent_files [OF mk]
    by (cases m) (auto simp: fs_defs split: io_outcome.splits if_splits option.splits)
qed

lemma keeps_store_create_free:
  assumes "free_at J (store_path sb k)"
  shows "keeps J (store_create D sb k bytes)"
proof (cases sb)
  case (Filesystem root)
  show ?thesis
  proof (rule keepsI)
    fix s r s' assume r: "store_create D sb k bytes s = (r, s')" "J (fate s) (w_files s)"
    have "fate s' = fate s" using r(1) unfolding Filesystem by (rule store_create_io)
    moreover have "w_files s' = (w_files s)(path_join root k := w_files s' (path_join root k))"
      using r(1) store_create_files [of D root k bytes s r s'] by (auto simp: Filesystem fun_eq_iff)
    ultimately show "J (fate s') (w_files s')"
      using assms r(2) by (metis Filesystem free_at_def store_path.simps(1))
  qed
qed (auto intro!: keeps_rules)

lemma keeps_store_delete_free:
  assumes "free_at J (store_path sb k)"
  shows "keeps J (store_delete D sb k)"
proof (cases sb)
  case (Filesystem root)
  have "keeps J (remove_file (path_join root k))"
    using assms by (intro keepsI) (auto simp: Filesystem remove_file_def free_at_def split: io_outcome.splits)
  then show ?thesis by (auto simp: Filesystem intro!: keeps_rules)
qed (auto intro!: keeps_rules)

lemma keeps_read_encrypted_bytes [keeps_rules]: "keeps J (read_encrypted_bytes D svc t kind key)"
  unfolding read_encrypted_bytes_def by (intro keeps_rules)

lemma keeps_read_encrypted_json [keeps_rules]: "keeps J (read_encrypted_json D svc c t kind key)"
  unfolding read_encrypted_json_def by (intro keeps_rules)

lemma keeps_chunk_exists [keeps_rules]: "keeps J (chunk_exists D svc t cid)"
  unfolding chunk_exists_def by (intro keeps_rules)

lemma keeps_write_envelope:
  "free_at J (slot D svc t kind key) \<Longrightarrow> keeps J (write_envelope D svc t kind key env)"
  unfolding write_envelope_def slot_def by (intro keeps_rules keeps_store_write_free)

lemma keeps_write_encrypted_bytes:
  "free_at J (slot D svc t kind key) \<Longrightarrow> keeps J (write_encrypted_bytes D svc t kind key bytes)"
  unfolding write_encrypted_bytes_def by (intro keeps_rules keeps_write_envelope)

lemma keeps_write_encrypted_json:
  "free_at J (slot D svc t kind key) \<Longrightarrow> keeps J (write_encrypted_json D svc c t kind key v)"
  unfolding write_encrypted_json_def by (intro keeps_rules keeps_write_encrypted_bytes)

lemma keeps_create_encrypted_json:
  "free_at J (slot D svc t kind key) \<Longrightarrow> keeps J (create_encrypted_json D svc c t kind key v)"
  unfolding create_encrypted_json_def create_envelope_def slot_def
  by (intro keeps_rules keeps_store_create_free)

lemma keeps_delete_store_key:
  "free_at J (slot D svc t kind key) \<Longrightarrow> keeps J (delete_store_key D svc t kind key)"
  unfolding delete_store_key_def slot_def by (rule keeps_store_delete_free)

end
