(* ===== verification/HSP_Cdn_Cache.thy ===== *)
theory HSP_Cdn_Cache
  imports HSP_Cdn HSP_Encrypted
begin

text \<open>
  The cache of the CDN: whatever the requests, an entry is the whole answer the distribution layer once gave
  for the tenant, the object and the mode of its key. And the edge tokens that open it: what the distribution
  layer mints, it accepts until it expires.
\<close>

section \<open>Edge tokens\<close>

lemma split_once_first: "c \<notin> set a \<Longrightarrow> split_once c (a @ c # b) = Some (a, b)"
  by (induction a) auto

text \<open>base64url decodes what it encoded and never writes a dot.\<close>

definition token_laws :: "dist_deps \<Rightarrow> bool" where
  "token_laws D \<longleftrightarrow>
     codec_ok (json_edge_claims D) \<and>
     (\<forall>bytes. b64url_decode (alpha_code D) (as_bytes (b64url_encode (alpha_code D) bytes)) = Some bytes) \<and>
     (\<forall>bytes. CHR ''.'' \<notin> set (b64url_encode (alpha_code D) bytes))"

lemma minted_token_decodes:
  assumes "token_laws D" "mint_edge_token D ds claims = Ok token"
  shows "decode_edge_token D ds token s =
    (if w_clock s (w_ticks s) \<le> et_exp claims then Ok claims
     else Err (api_error Cat_Auth ''edge_token_expired'' ''edge token has expired''),
     s\<lparr>w_ticks := Suc (w_ticks s)\<rparr>)"
proof -
  obtain payload sig where p: "to_vec (json_edge_claims D) claims = Ok payload"
      "edge_signature D ds (b64url_encode (alpha_code D) payload) = Ok sig"
      "token = b64url_encode (alpha_code D) payload @ CHR ''.'' # sig"
    using assms(2) by (auto simp: mint_edge_token_def rbnd_def Let_def split: sum.splits)
  have "split_once CHR ''.'' token = Some (b64url_encode (alpha_code D) payload, sig)"
    unfolding p(3) using assms(1) by (intro split_once_first) (simp add: token_laws_def)
  moreover have "from_slice (json_edge_claims D) payload = Ok claims"
    using assms(1) p(1) by (auto simp: token_laws_def dest: codec_okD)
  ultimately show ?thesis
    using assms(1) p(2)
    by (simp add: decode_edge_token_def bnd_def lift_result_def ok_or_def ensure_def token_laws_def map_err_def now_ms_def
        ret_def throw_def not_less)
qed

text \<open>
  C26. Edge tokens round trip: a token that the distribution layer minted is accepted, for the method it names
  in any letter case, until the time it expires, with credentials that allow reading and nothing else, for
  the tenant, bucket and key of its claims; for another method or after that time it is refused.
\<close>

theorem edge_token_roundtrip:
  assumes "token_laws D" "mint_edge_token D ds claims = Ok token"
  shows "if w_clock s (w_ticks s) \<le> et_exp claims \<and> eq_ignore_ascii_case (et_method claims) method
    then \<exists>auth s'. authenticate_edge_token D ds token method s = (Ok auth, s') \<and> cl_ops (ac_claims auth) = [Sc_Read] \<and>
      cl_tenant_id (ac_claims auth) = et_tenant_id claims \<and> cl_exp (ac_claims auth) = et_exp claims \<and>
      cl_namespace_prefix (ac_claims auth) = et_bucket claims \<and> cl_path_prefix (ac_claims auth) = et_key claims
    else isl (fst (authenticate_edge_token D ds token method s))"
  using minted_token_decodes [OF assms, of s]
  by (auto simp: authenticate_edge_token_def bnd_def ensure_edge_token_method_def lift_result_def now_ms_def ret_def)

section \<open>Where an entry comes from\<close>

text \<open>The key under which the answer to a request is kept.\<close>

definition key_of :: "GetObjectRequest \<Rightarrow> string \<Rightarrow> bool" where
  "key_of request key \<longleftrightarrow>
     (\<exists>cid. go_cid request = Some cid \<and> key = cid_cache_key (go_tenant_id request) cid (go_prefer_plaintext request)) \<or>
     (\<exists>bucket name. go_cid request = None \<and> go_bucket request = Some bucket \<and> go_key request = Some name \<and>
        key = namespace_cache_key (go_tenant_id request) bucket name (go_prefer_plaintext request))"

definition origin_entry :: "dist_deps \<Rightarrow> DistributionService \<Rightarrow> string \<Rightarrow> CachedObject \<Rightarrow> bool" where
  "origin_entry D ds key entry \<longleftrightarrow>
     (\<exists>auth request s fresh s' expires.
        get_object D ds auth request s = (Ok fresh, s') \<and> go_tenant_id request = cl_tenant_id (ac_claims auth) \<and>
        key_of request key \<and> entry = cached_object_of fresh expires \<and> gor_content_range fresh = None \<and> is_cacheable fresh)"

definition cache_sound :: "dist_deps \<Rightarrow> DistributionService \<Rightarrow> cdn_world \<Rightarrow> bool" where
  "cache_sound D ds w \<longleftrightarrow> (\<forall>key entry. btm_get (cw_cache w) key = Some entry \<longrightarrow> origin_entry D ds key entry)"

lemma on_service_cache: "cw_cache (snd (on_service m w)) = cw_cache w"
  by (simp add: on_service_def split: prod.split)

lemma on_service_sound: "preserves (cache_sound D ds) (on_service m)"
  by (simp add: preserves_def cache_sound_def on_service_cache)

lemma fetch_and_store_sound:
  assumes "dist_code H = D" "cst_service st = ds" "key_of request key" "go_tenant_id request = cl_tenant_id (ac_claims auth)"
  shows "preserves (cache_sound D ds) (fetch_and_store H st method key immutable now (get_object D ds auth request))"
  unfolding preserves_def
proof (intro allI impI)
  fix w
  assume sound: "cache_sound D ds w"
  obtain r s where g: "get_object D ds auth request (cw_service w) = (r, s)" by fastforce
  have stored: "origin_entry D ds key (cached_object_of fresh e)"
    if "r = Ok fresh" "gor_content_range fresh = None" "is_cacheable fresh" for fresh e
    using g that assms(3,4) unfolding origin_entry_def by blast
  show "cache_sound D ds (snd (fetch_and_store H st method key immutable now (get_object D ds auth request) w))"
    using sound g stored
    by (cases r) (auto simp: fetch_and_store_def bnd_def on_service_def lift_result_def Let_def cache_insert_def ret_def
        cache_sound_def split: sum.splits if_splits)
qed


lemma cache_lookup_sound: "preserves (cache_sound D ds) (cache_lookup key)"
  by (simp add: preserves_def cache_lookup_def)

lemma show_state_sound: "preserves (cache_sound D ds) (\<lambda>w. (f w, w))"
  by (simp add: preserves_def)

lemma serve_cached_object_sound:
  assumes "dist_code H = D" "cst_service st = ds" "key_of request key" "go_tenant_id request = cl_tenant_id (ac_claims auth)"
  shows "preserves (cache_sound D ds) (serve_cached_object H st method key immutable hit (get_object D ds auth request))"
  unfolding serve_cached_object_def
  by (intro preserves_rules on_service_sound cache_lookup_sound fetch_and_store_sound [OF assms])

lemma cdn_key_of:
  "key_of (cdn_get_request auth claims binding (Some cid) query rng)
     (cid_cache_key (cl_tenant_id (ac_claims auth)) cid (cdn_prefer_plaintext claims query))"
  "key_of (cdn_get_request auth claims (Some (bucket, name)) None query rng)
     (namespace_cache_key (cl_tenant_id (ac_claims auth)) bucket name (cdn_prefer_plaintext claims query))"
  by (auto simp: key_of_def cdn_get_request_def)

lemma preserves_case_prod: "(\<And>a b. preserves I (f a b)) \<Longrightarrow> preserves I (case p of (a, b) \<Rightarrow> f a b)"
  by (cases p) simp

lemma cdn_dispatch_sound:
  assumes "dist_code H = D" "cst_service st = ds"
  shows "preserves (cache_sound D ds) (cdn_dispatch_request H st auth claims method headers path query)"
  unfolding cdn_dispatch_request_def cdn_serve_cid_def cdn_serve_binding_def Let_def assms
  by (intro preserves_rules preserves_case_prod serve_cached_object_sound assms cdn_key_of) (simp_all add: cdn_get_request_def)

lemma cdn_router_sound:
  assumes "dist_code H = D" "cst_service st = ds" "cache_sound D ds w"
  shows "cache_sound D ds (snd (cdn_router H st request w))"
proof -
  have "preserves (cache_sound D ds) (cdn_handle H st request)"
    unfolding cdn_handle_def cdn_answer_def Let_def
    by (intro preserves_rules on_service_sound show_state_sound cdn_dispatch_sound assms)
  then show ?thesis using assms(3) by (simp add: cdn_router_def cdn_handle_request_def preserves_def)
qed

lemma apply_envelopes_shrink:
  "btm_get (fold (apply_envelope t) envelopes cache) key = Some entry \<Longrightarrow> btm_get cache key = Some entry"
proof (induction envelopes arbitrary: cache)
  case (Cons e es)
  then have "btm_get (apply_envelope t e cache) key = Some entry" by simp
  then show ?case
    by (auto simp: apply_envelope_def apply_event_invalidation_def split: if_splits option.splits)
qed simp

lemma poll_invalidation_sound: "preserves (cache_sound D ds) (poll_cache_invalidation_events E st t cursors)"
  unfolding poll_cache_invalidation_events_def Let_def
  by (intro preserves_rules on_service_sound preserves_case_prod)
    (auto simp: preserves_def cache_sound_def dest: apply_envelopes_shrink)

lemma invalidation_sound: "cache_sound D ds w \<Longrightarrow> cache_sound D ds (snd (invalidation_turn E st cursors w))"
proof -
  have "cache_sound D ds w \<Longrightarrow> cache_sound D ds (snd (poll_tenants E st ts cursors w))" for ts
  proof (induction ts arbitrary: cursors w)
    case (Cons t ts)
    obtain r w1 where p: "poll_cache_invalidation_events E st t cursors w = (r, w1)" by fastforce
    have "cache_sound D ds w1" by (rule preservesD [OF poll_invalidation_sound p Cons.prems])
    then show ?case using Cons.IH p by (cases r) simp_all
  qed simp
  then show "cache_sound D ds w \<Longrightarrow> ?thesis" by (simp add: invalidation_turn_def)
qed

section \<open>Runs of the CDN\<close>

text \<open>Requests, turns of the invalidation worker with any cursors, and whatever else happens to the service.\<close>

inductive cdn_run :: "'x cdn_deps_scheme \<Rightarrow> CdnState \<Rightarrow> cdn_world \<Rightarrow> bool" for H st where
  cdn_started: "cw_cache w = [] \<Longrightarrow> cdn_run H st w"
| cdn_request: "cdn_run H st w \<Longrightarrow> cdn_router H st request w = (out, w') \<Longrightarrow> cdn_run H st w'"
| cdn_worker: "cdn_run H st w \<Longrightarrow> invalidation_turn (dist_code H) st cursors w = (cursors', w') \<Longrightarrow> cdn_run H st w'"
| cdn_others: "cdn_run H st w \<Longrightarrow> cdn_run H st (w\<lparr>cw_service := s\<rparr>)"

text \<open>Decrypted bodies are answered with \<open>no-store\<close>.\<close>

lemma plaintext_not_cacheable:
  assumes "get_object D ds auth request s = (Ok fresh, s')" "is_cacheable fresh"
  shows "\<not> go_prefer_plaintext request"
proof
  assume "go_prefer_plaintext request"
  then have "gor_cache_control fresh = ''private, no-store''"
    using assms(1) by (auto simp: get_object_def bnd_Ok Let_def ret_def split: prod.splits)
  moreover have "list_ex (\<lambda>directive. eq_ignore_ascii_case (trim directive) ''no-store'') (split_char CHR '','' ''private, no-store'')"
    by code_simp
  ultimately show False using assms(2) by (simp add: is_cacheable_def)
qed

lemma cdn_run_sound: "cdn_run H st w \<Longrightarrow> cache_sound (dist_code H) (cst_service st) w"
proof (induction rule: cdn_run.induct)
  case (cdn_request w request out w')
  then show ?case using cdn_router_sound [OF refl refl, of H st w request] by simp
next
  case (cdn_worker w cursors cursors' w')
  then show ?case using invalidation_sound [of "dist_code H" "cst_service st" w "dist_code H" st cursors] by simp
qed (simp_all add: cache_sound_def)

lemma cache_keys_neq: "cid_cache_key t cid mode \<noteq> namespace_cache_key t' bucket name mode'"
  by (simp add: cid_cache_key_def namespace_cache_key_def)

lemma cid_cache_key_eq:
  assumes "cid_cache_key t cid mode = cid_cache_key t' cid' mode'" "CHR '':'' \<notin> set (tenant_str t)" "CHR '':'' \<notin> set (tenant_str t')"
  shows "t = t' \<and> cid = cid' \<and> mode = mode'"
proof -
  have "tenant_str t = tenant_str t' \<and> cache_mode_suffix mode @ '':'' @ cid = cache_mode_suffix mode' @ '':'' @ cid'"
    using assms append_sep_eq [of "CHR '':''" "tenant_str t" "tenant_str t'"] by (simp add: cid_cache_key_def)
  then show ?thesis
    by (cases t; cases t'; cases mode; cases mode') (simp_all add: cache_mode_suffix_def)
qed

text \<open>
  What the CDN keeps under the content identifier of a tenant is, after any sequence of requests, turns of
  the invalidation worker and other events, the body, type and entity tag that the distribution layer once
  returned whole to a request with credentials of the tenant it asked for; never a decrypted body; and that
  was a request for the same tenant and identifier, provided that the tenants have no colon in their
  identifiers.
\<close>

lemma cdn_cache_from_origin:
  assumes "cdn_run H st w" "btm_get (cw_cache w) (cid_cache_key t cid plaintext) = Some entry"
    and "CHR '':'' \<notin> set (tenant_str t)"
  shows "\<exists>auth request s fresh s'.
    get_object (dist_code H) (cst_service st) auth request s = (Ok fresh, s') \<and>
    gor_content_range fresh = None \<and> \<not> go_prefer_plaintext request \<and> co_body entry = gor_body fresh \<and>
    co_content_type entry = hor_content_type (gor_head fresh) \<and> co_etag entry = hor_etag (gor_head fresh) \<and>
    go_tenant_id request = cl_tenant_id (ac_claims auth) \<and>
    (CHR '':'' \<notin> set (tenant_str (go_tenant_id request)) \<longrightarrow>
       go_tenant_id request = t \<and> go_cid request = Some cid \<and> \<not> plaintext)"
proof -
  have "origin_entry (dist_code H) (cst_service st) (cid_cache_key t cid plaintext) entry"
    using cdn_run_sound [OF assms(1)] assms(2) by (simp add: cache_sound_def)
  moreover have "go_tenant_id r = t \<and> go_cid r = Some cid \<and> go_prefer_plaintext r = plaintext"
    if "key_of r (cid_cache_key t cid plaintext)" "CHR '':'' \<notin> set (tenant_str (go_tenant_id r))" for r
    using that(1) cid_cache_key_eq [OF _ assms(3) that(2)] cache_keys_neq by (auto simp: key_of_def)
  ultimately show ?thesis
    unfolding origin_entry_def by (fastforce simp: cached_object_of_def dest: plaintext_not_cacheable)
qed

text \<open>
  A hit in the cache is not authorized: a request for a content identifier that is kept and has not expired
  is answered from the cache for every holder of credentials of the tenant, whatever operations they allow,
  without a call of the distribution layer.
\<close>

lemma cdn_hit_unauthorized:
  assumes "btm_get (cw_cache w) (cid_cache_key (cl_tenant_id (ac_claims auth)) cid (cdn_prefer_plaintext claims query)) = Some entry"
    and "w_clock (cw_service w) (w_ticks (cw_service w)) \<le> co_expires_at_ms entry"
    and "case claims of None \<Rightarrow> True | Some c \<Rightarrow> et_cid c = Some cid" "header_text H headers ''range'' = None"
  shows "cdn_serve_cid H st auth claims method headers cid query w =
    (cached_response H method entry ''HIT'',
     w\<lparr>cw_service := (cw_service w)\<lparr>w_ticks := Suc (w_ticks (cw_service w))\<rparr>\<rparr>)"
  using assms
  by (simp add: cdn_serve_cid_def bnd_def ensure_def ret_def cdn_parse_range_def lift_result_def serve_cached_object_def
      on_service_def now_ms_def cache_lookup_def Let_def)

end
