(* ===== verification/HSP_Wire.thy ===== *)
theory HSP_Wire
  imports HSP_Core
begin

text \<open>
  The crate \<open>crates/hsp-wire\<close>: the framing of the native protocol. A frame is a one-byte type, a
  big-endian 32-bit length and a payload, written to and read from a byte stream.

  The streams are the model of \<open>AsyncWrite\<close> and \<open>AsyncRead\<close>: a writer has the bytes it accepted
  and may fail after a number of further bytes, a reader has the bytes that arrive before the end
  of the stream. The serde forms of the frame payloads are fields of \<open>wire_deps\<close>; the JSON values
  in request and response headers are left as the type parameter \<open>'j\<close>.
\<close>

section \<open>Byte streams\<close>

record byte_writer =
  wr_sent :: "byte list"
  wr_room :: "nat option"

record byte_reader =
  rd_pending :: "byte list"

definition io_broken :: string where
  "io_broken = ''broken pipe''"

definition io_eof :: string where
  "io_eof = ''early eof''"

definition write_all :: "byte list \<Rightarrow> (byte_writer, string, unit) comp" where
  "write_all bs w =
     (case wr_room w of
        None \<Rightarrow> (Ok (), w\<lparr>wr_sent := wr_sent w @ bs\<rparr>)
      | Some k \<Rightarrow>
          if length bs \<le> k then
            (Ok (), w\<lparr>wr_sent := wr_sent w @ bs, wr_room := Some (k - length bs)\<rparr>)
          else (Err io_broken, w\<lparr>wr_sent := wr_sent w @ take k bs, wr_room := Some 0\<rparr>))"

definition read_exact :: "nat \<Rightarrow> (byte_reader, string, byte list) comp" where
  "read_exact n r =
     (if n \<le> length (rd_pending r) then
        (Ok (take n (rd_pending r)), r\<lparr>rd_pending := drop n (rd_pending r)\<rparr>)
      else (Err io_eof, r\<lparr>rd_pending := []\<rparr>))"

section \<open>Frames\<close>

definition FRAME_HEADER_LEN :: nat where
  "FRAME_HEADER_LEN = 5"

definition MAX_CONTROL_FRAME_LEN :: nat where
  "MAX_CONTROL_FRAME_LEN = 8 * 1024 * 1024"

definition MAX_DATA_FRAME_LEN :: nat where
  "MAX_DATA_FRAME_LEN = 8 * 1024 * 1024"

datatype FrameType =
    FT_Settings | FT_Error | FT_Notice | FT_ReqHeader | FT_ResHeader | FT_Data | FT_End
  | FT_Event | FT_Ack | FT_Auth | FT_GoAway

fun frame_type_code :: "FrameType \<Rightarrow> u8" where
  "frame_type_code FT_Settings = 0x01"
| "frame_type_code FT_Error = 0x02"
| "frame_type_code FT_Notice = 0x03"
| "frame_type_code FT_ReqHeader = 0x10"
| "frame_type_code FT_ResHeader = 0x11"
| "frame_type_code FT_Data = 0x12"
| "frame_type_code FT_End = 0x13"
| "frame_type_code FT_Event = 0x14"
| "frame_type_code FT_Ack = 0x15"
| "frame_type_code FT_Auth = 0x16"
| "frame_type_code FT_GoAway = 0x17"

datatype WireCodecError =
    WE_Io string
  | WE_InvalidFrameType u8
  | WE_InvalidFrame string
  | WE_OversizedFrame FrameType nat

definition frame_type_try_from :: "u8 \<Rightarrow> WireCodecError + FrameType" where
  "frame_type_try_from v =
     (if v = 0x01 then Ok FT_Settings
      else if v = 0x02 then Ok FT_Error
      else if v = 0x03 then Ok FT_Notice
      else if v = 0x10 then Ok FT_ReqHeader
      else if v = 0x11 then Ok FT_ResHeader
      else if v = 0x12 then Ok FT_Data
      else if v = 0x13 then Ok FT_End
      else if v = 0x14 then Ok FT_Event
      else if v = 0x15 then Ok FT_Ack
      else if v = 0x16 then Ok FT_Auth
      else if v = 0x17 then Ok FT_GoAway
      else Err (WE_InvalidFrameType v))"

datatype 'j Frame =
    Fr_Settings SettingsFrame
  | Fr_Error WireErrorFrame
  | Fr_Notice NoticeFrame
  | Fr_ReqHeader "'j ReqHeader"
  | Fr_ResHeader "'j ResHeader"
  | Fr_Data "byte list"
  | Fr_End
  | Fr_Event EventRecord
  | Fr_Auth AuthFrame
  | Fr_GoAway GoAwayFrame

fun frame_type :: "'j Frame \<Rightarrow> FrameType" where
  "frame_type (Fr_Settings _) = FT_Settings"
| "frame_type (Fr_Error _) = FT_Error"
| "frame_type (Fr_Notice _) = FT_Notice"
| "frame_type (Fr_ReqHeader _) = FT_ReqHeader"
| "frame_type (Fr_ResHeader _) = FT_ResHeader"
| "frame_type (Fr_Data _) = FT_Data"
| "frame_type Fr_End = FT_End"
| "frame_type (Fr_Event _) = FT_Event"
| "frame_type (Fr_Auth _) = FT_Auth"
| "frame_type (Fr_GoAway _) = FT_GoAway"

text \<open>The third-party code of the crate: \<open>ciborium\<close> over the derived serde forms.\<close>

record 'j wire_deps = core_deps +
  cbor_settings :: "SettingsFrame \<Rightarrow> string + byte list"
  cbor_error :: "WireErrorFrame codec"
  cbor_notice :: "NoticeFrame codec"
  cbor_req_header :: "'j ReqHeader codec"
  cbor_res_header :: "'j ResHeader codec"
  cbor_event :: "EventRecord codec"
  cbor_auth :: "AuthFrame codec"
  cbor_go_away :: "GoAwayFrame codec"

section \<open>The settings frame\<close>

definition required_u64 :: "(string, CborValue) btm \<Rightarrow> string \<Rightarrow> WireCodecError + u64" where
  "required_u64 entries key =
     (case btm_get entries key of
        Some (Cb_Integer value) \<Rightarrow>
          if 0 \<le> value \<and> value < 2 ^ 64 then Ok (word_of_int value)
          else Err (WE_InvalidFrame (''SETTINGS '' @ key @ '' must be unsigned''))
      | _ \<Rightarrow> Err (WE_InvalidFrame (''SETTINGS '' @ key @ '' is missing or not an integer'')))"

definition required_text :: "(string, CborValue) btm \<Rightarrow> string \<Rightarrow> WireCodecError + string" where
  "required_text entries key =
     (let failed = Err (WE_InvalidFrame (''SETTINGS '' @ key @ '' is missing or not a text string'')) in
      case btm_get entries key of
        Some (Cb_Text value) \<Rightarrow> if value \<noteq> [] then Ok value else failed
      | _ \<Rightarrow> failed)"

fun collect_texts :: "WireCodecError \<Rightarrow> CborValue list \<Rightarrow> WireCodecError + string list" where
  "collect_texts e [] = Ok []"
| "collect_texts e (Cb_Text text # values) =
     rbnd (collect_texts e values) (\<lambda>texts. Ok (text # texts))"
| "collect_texts e (_ # values) = Err e"

definition required_text_array ::
  "(string, CborValue) btm \<Rightarrow> string \<Rightarrow> WireCodecError + string list" where
  "required_text_array entries key =
     (case btm_get entries key of
        Some (Cb_Array values) \<Rightarrow>
          collect_texts (WE_InvalidFrame (''SETTINGS '' @ key @ '' must contain only text values'')) values
      | _ \<Rightarrow> Err (WE_InvalidFrame (''SETTINGS '' @ key @ '' is missing or not an array'')))"

text \<open>The loop over the map: \<open>seen\<close> and \<open>entries\<close> grow together.\<close>

fun settings_entries ::
  "string set \<Rightarrow> (string, CborValue) btm \<Rightarrow> (CborValue \<times> CborValue) list
   \<Rightarrow> WireCodecError + (string, CborValue) btm" where
  "settings_entries seen entries [] = Ok entries"
| "settings_entries seen entries ((Cb_Text key, value) # rest) =
     (if key \<in> seen then Err (WE_InvalidFrame (''duplicate SETTINGS key: '' @ key))
      else settings_entries (insert key seen) (btm_insert key value entries) rest)"
| "settings_entries seen entries (_ # rest) =
     Err (WE_InvalidFrame ''SETTINGS keys must be text'')"

definition decode_settings_frame :: "'x core_deps_scheme \<Rightarrow> byte list \<Rightarrow> WireCodecError + SettingsFrame" where
  "decode_settings_frame D payload =
     rbnd (map_err WE_InvalidFrame (cbor_from_reader D payload)) (\<lambda>value.
     rbnd (case value of
             Cb_Map entries \<Rightarrow> Ok entries
           | _ \<Rightarrow> Err (WE_InvalidFrame ''SETTINGS payload must be a CBOR map'')) (\<lambda>pairs.
     rbnd (settings_entries {} [] pairs) (\<lambda>entries.
     rbnd (required_u64 entries ''max_chunk_size'') (\<lambda>max_chunk_size.
     rbnd (required_u64 entries ''max_manifest_size'') (\<lambda>max_manifest_size.
     rbnd (required_u64 entries ''max_object_size'') (\<lambda>max_object_size.
     rbnd (required_u64 entries ''max_parallel_streams'') (\<lambda>max_parallel_streams.
     rbnd (required_text_array entries ''supported_chunkers'') (\<lambda>supported_chunkers.
     rbnd (required_text_array entries ''supported_content_encodings'') (\<lambda>supported_content_encodings.
     rbnd (required_text_array entries ''supported_token_profiles'') (\<lambda>supported_token_profiles.
     rbnd (required_text_array entries ''supported_extensions'') (\<lambda>supported_extensions.
     rbnd (required_text entries ''server_instance_id'') (\<lambda>server_instance_id.
     rbnd (required_u64 entries ''event_replay_window_sec'') (\<lambda>event_replay_window_sec.
     rbnd (required_u64 entries ''limits_revision'') (\<lambda>limits_revision.
     Ok \<lparr>st_max_chunk_size = max_chunk_size, st_max_manifest_size = max_manifest_size,
         st_max_object_size = max_object_size, st_max_parallel_streams = ucast max_parallel_streams,
         st_supported_chunkers = supported_chunkers,
         st_supported_content_encodings = supported_content_encodings,
         st_supported_token_profiles = supported_token_profiles,
         st_supported_extensions = supported_extensions, st_server_instance_id = server_instance_id,
         st_event_replay_window_sec = event_replay_window_sec, st_limits_revision = limits_revision\<rparr>))))))))))))))"

section \<open>Writing and reading\<close>

definition enforce_frame_len :: "FrameType \<Rightarrow> nat \<Rightarrow> WireCodecError + unit" where
  "enforce_frame_len ft len =
     (let max_len = (case ft of FT_Data \<Rightarrow> MAX_DATA_FRAME_LEN | _ \<Rightarrow> MAX_CONTROL_FRAME_LEN) in
      if len > max_len then Err (WE_OversizedFrame ft len) else Ok ())"

definition encode_cbor :: "('a \<Rightarrow> string + byte list) \<Rightarrow> 'a \<Rightarrow> WireCodecError + byte list" where
  "encode_cbor into_writer v = map_err WE_InvalidFrame (into_writer v)"

fun encode_frame_payload :: "('j, 'x) wire_deps_scheme \<Rightarrow> 'j Frame \<Rightarrow> WireCodecError + byte list" where
  "encode_frame_payload D (Fr_Settings settings) = encode_cbor (cbor_settings D) settings"
| "encode_frame_payload D (Fr_Error error) = encode_cbor (to_vec (cbor_error D)) error"
| "encode_frame_payload D (Fr_Notice notice) = encode_cbor (to_vec (cbor_notice D)) notice"
| "encode_frame_payload D (Fr_ReqHeader h) = encode_cbor (to_vec (cbor_req_header D)) h"
| "encode_frame_payload D (Fr_ResHeader h) = encode_cbor (to_vec (cbor_res_header D)) h"
| "encode_frame_payload D (Fr_Data bytes) = Ok bytes"
| "encode_frame_payload D Fr_End = Ok []"
| "encode_frame_payload D (Fr_Event event) = encode_cbor (to_vec (cbor_event D)) event"
| "encode_frame_payload D (Fr_Auth auth) = encode_cbor (to_vec (cbor_auth D)) auth"
| "encode_frame_payload D (Fr_GoAway g) = encode_cbor (to_vec (cbor_go_away D)) g"

definition decode_cbor :: "'a codec \<Rightarrow> byte list \<Rightarrow> WireCodecError + 'a" where
  "decode_cbor c payload = map_err WE_InvalidFrame (from_slice c payload)"

fun decode_frame_payload ::
  "('j, 'x) wire_deps_scheme \<Rightarrow> FrameType \<Rightarrow> byte list \<Rightarrow> WireCodecError + 'j Frame" where
  "decode_frame_payload D FT_Settings p = rbnd (decode_settings_frame D p) (\<lambda>v. Ok (Fr_Settings v))"
| "decode_frame_payload D FT_Error p = rbnd (decode_cbor (cbor_error D) p) (\<lambda>v. Ok (Fr_Error v))"
| "decode_frame_payload D FT_Notice p = rbnd (decode_cbor (cbor_notice D) p) (\<lambda>v. Ok (Fr_Notice v))"
| "decode_frame_payload D FT_ReqHeader p =
     rbnd (decode_cbor (cbor_req_header D) p) (\<lambda>v. Ok (Fr_ReqHeader v))"
| "decode_frame_payload D FT_ResHeader p =
     rbnd (decode_cbor (cbor_res_header D) p) (\<lambda>v. Ok (Fr_ResHeader v))"
| "decode_frame_payload D FT_Data p = Ok (Fr_Data p)"
| "decode_frame_payload D FT_End p =
     (if p \<noteq> [] then Err (WE_InvalidFrame ''END frame must not carry payload'') else Ok Fr_End)"
| "decode_frame_payload D FT_Event p = rbnd (decode_cbor (cbor_event D) p) (\<lambda>v. Ok (Fr_Event v))"
| "decode_frame_payload D FT_Auth p = rbnd (decode_cbor (cbor_auth D) p) (\<lambda>v. Ok (Fr_Auth v))"
| "decode_frame_payload D FT_GoAway p = rbnd (decode_cbor (cbor_go_away D) p) (\<lambda>v. Ok (Fr_GoAway v))"
| "decode_frame_payload D FT_Ack p = Err (WE_InvalidFrame ''Ack is reserved in beta runtime'')"

definition io_step :: "('s, string, 'a) comp \<Rightarrow> ('s, WireCodecError, 'a) comp" where
  "io_step m s = (case m s of (r, s') \<Rightarrow> (map_err WE_Io r, s'))"

text \<open>\<open>flush\<close> of the modelled stream does nothing: every accepted byte is already sent.\<close>

definition write_frame ::
  "('j, 'x) wire_deps_scheme \<Rightarrow> 'j Frame \<Rightarrow> (byte_writer, WireCodecError, unit) comp" where
  "write_frame D frame =
     bnd (lift_result (encode_frame_payload D frame)) (\<lambda>payload.
     bnd (lift_result (enforce_frame_len (frame_type frame) (length payload))) (\<lambda>_.
     let header = frame_type_code (frame_type frame)
                    # to_be_bytes 4 (unat (of_nat (length payload) :: u32)) in
     bnd (io_step (write_all header)) (\<lambda>_.
     if payload \<noteq> [] then io_step (write_all payload) else ret ())))"

definition read_frame :: "('j, 'x) wire_deps_scheme \<Rightarrow> (byte_reader, WireCodecError, 'j Frame) comp" where
  "read_frame D =
     bnd (io_step (read_exact FRAME_HEADER_LEN)) (\<lambda>header.
     bnd (lift_result (frame_type_try_from (hd header))) (\<lambda>ft.
     let len = from_be_bytes (tl header) in
     bnd (lift_result (enforce_frame_len ft len)) (\<lambda>_.
     bnd (if len > 0 then io_step (read_exact len) else ret []) (\<lambda>payload.
     lift_result (decode_frame_payload D ft payload)))))"

definition hex2 :: "u8 \<Rightarrow> string" where
  "hex2 b = [''0123456789abcdef'' ! (unat b div 16), ''0123456789abcdef'' ! (unat b mod 16)]"

fun frame_type_debug :: "FrameType \<Rightarrow> string" where
  "frame_type_debug FT_Settings = ''Settings''"
| "frame_type_debug FT_Error = ''Error''"
| "frame_type_debug FT_Notice = ''Notice''"
| "frame_type_debug FT_ReqHeader = ''ReqHeader''"
| "frame_type_debug FT_ResHeader = ''ResHeader''"
| "frame_type_debug FT_Data = ''Data''"
| "frame_type_debug FT_End = ''End''"
| "frame_type_debug FT_Event = ''Event''"
| "frame_type_debug FT_Ack = ''Ack''"
| "frame_type_debug FT_Auth = ''Auth''"
| "frame_type_debug FT_GoAway = ''GoAway''"

fun wire_error_display :: "WireCodecError \<Rightarrow> string" where
  "wire_error_display (WE_Io error) = error"
| "wire_error_display (WE_InvalidFrameType ft) = ''invalid frame type 0x'' @ hex2 ft"
| "wire_error_display (WE_InvalidFrame message) = message"
| "wire_error_display (WE_OversizedFrame ft len) =
     ''oversized '' @ frame_type_debug ft @ '' frame ('' @ show_nat len @ '' bytes)''"

section \<open>Round trip\<close>

text \<open>The derived serde form of a settings frame: a map from field names, in declaration order.\<close>

definition settings_fields :: "SettingsFrame \<Rightarrow> (string \<times> CborValue) list" where
  "settings_fields st =
     (let num = (\<lambda>n :: u64. Cb_Integer (uint n)); texts = (\<lambda>ts. Cb_Array (map Cb_Text ts)) in
      [(''max_chunk_size'', num (st_max_chunk_size st)),
       (''max_manifest_size'', num (st_max_manifest_size st)),
       (''max_object_size'', num (st_max_object_size st)),
       (''max_parallel_streams'', num (ucast (st_max_parallel_streams st))),
       (''supported_chunkers'', texts (st_supported_chunkers st)),
       (''supported_content_encodings'', texts (st_supported_content_encodings st)),
       (''supported_token_profiles'', texts (st_supported_token_profiles st)),
       (''supported_extensions'', texts (st_supported_extensions st)),
       (''server_instance_id'', Cb_Text (st_server_instance_id st)),
       (''event_replay_window_sec'', num (st_event_replay_window_sec st)),
       (''limits_revision'', num (st_limits_revision st))])"

abbreviation text_entry :: "string \<times> CborValue \<Rightarrow> CborValue \<times> CborValue" where
  "text_entry kv \<equiv> (Cb_Text (fst kv), snd kv)"

definition text_map :: "(string \<times> CborValue) list \<Rightarrow> CborValue" where
  "text_map kvs = Cb_Map (map text_entry kvs)"

definition wire_laws :: "('j, 'x) wire_deps_scheme \<Rightarrow> bool" where
  "wire_laws D \<longleftrightarrow>
     (\<forall>st bs. cbor_settings D st = Ok bs \<longrightarrow> cbor_from_reader D bs = Ok (text_map (settings_fields st))) \<and>
     codec_ok (cbor_error D) \<and> codec_ok (cbor_notice D) \<and> codec_ok (cbor_req_header D) \<and>
     codec_ok (cbor_res_header D) \<and> codec_ok (cbor_event D) \<and> codec_ok (cbor_auth D) \<and>
     codec_ok (cbor_go_away D)"

lemma settings_entries_texts:
  assumes "distinct (map fst kvs)" "fst ` set kvs \<inter> seen = {}"
  shows "\<exists>m'. settings_entries seen m (map text_entry kvs) = Ok m' \<and> map_of m' = map_of m ++ map_of kvs"
  using assms
proof (induction kvs arbitrary: seen m)
  case (Cons kv kvs)
  obtain k v where kv: "kv = (k, v)" by force
  have d: "distinct (map fst kvs)" "fst ` set kvs \<inter> insert k seen = {}" "k \<notin> seen" "k \<notin> fst ` set kvs"
    using Cons.prems kv by auto
  then have e: "map_of (btm_insert k v m) ++ map_of kvs = map_of m ++ map_of (kv # kvs)"
    by (auto simp: kv fun_eq_iff map_add_def map_of_eq_None_iff [symmetric] split: option.splits)
  obtain m' where "settings_entries (insert k seen) (btm_insert k v m) (map text_entry kvs) = Ok m'"
    "map_of m' = map_of (btm_insert k v m) ++ map_of kvs"
    using Cons.IH [OF d(1,2)] by blast
  then show ?case using d(3) by (intro exI [of _ m'] conjI) (simp add: kv, simp only: e)
qed simp

lemma settings_entries_distinct:
  "settings_entries seen m ps = Ok m' \<Longrightarrow>
     \<exists>kvs. ps = map text_entry kvs \<and> distinct (map fst kvs) \<and> fst ` set kvs \<inter> seen = {}"
proof (induction seen m ps rule: settings_entries.induct)
  case (2 seen m key val rest)
  then obtain kvs where "rest = map text_entry kvs" "distinct (map fst kvs)"
    "fst ` set kvs \<inter> insert key seen = {}" "key \<notin> seen"
    by (auto split: if_splits)
  then show ?case by (intro exI [of _ "(key, val) # kvs"]) auto
qed simp_all

lemma collect_texts_map [simp]: "collect_texts e (map Cb_Text ts) = Ok ts"
  by (induction ts) simp_all

lemma settings_fields_distinct: "distinct (map fst (settings_fields st))"
  by (simp add: settings_fields_def)

lemma decode_settings_map:
  assumes "cbor_from_reader D bs = Ok (text_map kvs)" "distinct (map fst kvs)"
    and "map_of kvs = (map_of (settings_fields st))(''max_parallel_streams'' \<mapsto> Cb_Integer (uint n))"
    and "st_server_instance_id st \<noteq> []" "st_max_parallel_streams st = ucast (n :: u64)"
  shows "decode_settings_frame D bs = Ok st"
proof -
  obtain m where m: "settings_entries {} [] (map text_entry kvs) = Ok m"
    and g: "map_of m = (map_of (settings_fields st))(''max_parallel_streams'' \<mapsto> Cb_Integer (uint n))"
    using settings_entries_texts [OF assms(2), of "{}" "[]"] assms(3) by auto
  show ?thesis
    using assms(1,4,5) m
    by (simp add: decode_settings_frame_def text_map_def required_u64_def required_text_def
        required_text_array_def g settings_fields_def uint_u64_less)
qed

lemma decode_settings_fields:
  assumes "cbor_from_reader D bs = Ok (text_map (settings_fields st))" "st_server_instance_id st \<noteq> []"
  shows "decode_settings_frame D bs = Ok st"
proof (rule decode_settings_map [OF assms(1) settings_fields_distinct _ assms(2)])
  show "map_of (settings_fields st) = (map_of (settings_fields st))
      (''max_parallel_streams'' \<mapsto> Cb_Integer (uint (ucast (st_max_parallel_streams st) :: u64)))"
    by (rule ext) (simp add: settings_fields_def)
qed (simp add: ucast_up_ucast_id is_up)

primrec frame_ok :: "'j Frame \<Rightarrow> bool" where
  "frame_ok (Fr_Settings st) = (st_server_instance_id st \<noteq> [])"
| "frame_ok (Fr_Error _) = True"
| "frame_ok (Fr_Notice _) = True"
| "frame_ok (Fr_ReqHeader _) = True"
| "frame_ok (Fr_ResHeader _) = True"
| "frame_ok (Fr_Data _) = True"
| "frame_ok Fr_End = True"
| "frame_ok (Fr_Event _) = True"
| "frame_ok (Fr_Auth _) = True"
| "frame_ok (Fr_GoAway _) = True"

lemma decode_encode_payload:
  assumes "wire_laws D" "frame_ok f" "encode_frame_payload D f = Ok p"
  shows "decode_frame_payload D (frame_type f) p = Ok f"
  using assms
  by (cases f) (auto simp: wire_laws_def encode_cbor_def decode_cbor_def decode_settings_fields dest: codec_okD)

lemma refused_settings_map:
  assumes "cbor_from_reader D bs = Ok (text_map kvs)" "distinct (map fst kvs)"
    and "map_of kvs = map_of (settings_fields st)" "st_server_instance_id st = []"
  shows "\<exists>m. decode_settings_frame D bs = Err (WE_InvalidFrame m)"
proof -
  obtain m where m: "settings_entries {} [] (map text_entry kvs) = Ok m"
    and g: "map_of m = map_of (settings_fields st)"
    using settings_entries_texts [OF assms(2), of "{}" "[]"] assms(3) by auto
  have "decode_settings_frame D bs = Err (WE_InvalidFrame
      (''SETTINGS '' @ ''server_instance_id'' @ '' is missing or not a text string''))"
    using assms(1,4) m
    by (simp add: decode_settings_frame_def text_map_def required_u64_def required_text_def
        required_text_array_def g settings_fields_def uint_u64_less rbnd_def map_err_def)
  then show ?thesis by blast
qed

lemma refused_settings_payload:
  assumes "wire_laws D" "st_server_instance_id st = []" "encode_frame_payload D (Fr_Settings st) = Ok p"
  shows "\<exists>m. decode_frame_payload D FT_Settings p = Err (WE_InvalidFrame m)"
  using assms refused_settings_map [OF _ settings_fields_distinct refl assms(2), of D p]
  by (auto simp: wire_laws_def encode_cbor_def)

lemma frame_type_try_from_code [simp]: "frame_type_try_from (frame_type_code ft) = Ok ft"
  by (cases ft) (simp_all add: frame_type_try_from_def)

lemma enforce_frame_len_Ok:
  "enforce_frame_len ft n = Ok u \<longleftrightarrow> n \<le> 8 * 1024 * 1024"
  by (cases ft) (simp_all add: enforce_frame_len_def MAX_DATA_FRAME_LEN_def MAX_CONTROL_FRAME_LEN_def Let_def)

definition frame_bytes :: "'j Frame \<Rightarrow> byte list \<Rightarrow> byte list" where
  "frame_bytes f p = (frame_type_code (frame_type f) # to_be_bytes 4 (length p)) @ p"

lemma io_step_Ok [simp]: "io_step m s = (Ok x, s') \<longleftrightarrow> m s = (Ok x, s')"
  by (auto simp: io_step_def split: prod.splits)

lemma write_all_Ok: "write_all bs w = (Ok u, w') \<Longrightarrow> wr_sent w' = wr_sent w @ bs"
  by (auto simp: write_all_def split: option.splits if_splits)

lemma write_frame_Ok:
  assumes "write_frame D f w = (Ok u, w')"
  obtains p where "encode_frame_payload D f = Ok p" "length p \<le> 8 * 1024 * 1024"
    "wr_sent w' = wr_sent w @ frame_bytes f p"
proof -
  obtain p where p: "encode_frame_payload D f = Ok p" "length p \<le> 8 * 1024 * 1024"
    using assms by (auto simp: write_frame_def bnd_Ok enforce_frame_len_Ok)
  have l: "unat (of_nat (length p) :: u32) = length p"
    using p(2) by (simp add: unat_of_nat take_bit_eq_mod)
  obtain w1 where "write_all (frame_type_code (frame_type f) # to_be_bytes 4 (length p)) w = (Ok (), w1)"
    "if p \<noteq> [] then write_all p w1 = (Ok (), w') else w' = w1"
    using assms p(1) by (auto simp: write_frame_def bnd_Ok Let_def l split: if_splits)
  then have "wr_sent w' = wr_sent w @ frame_bytes f p"
    by (auto simp: frame_bytes_def split: if_splits dest!: write_all_Ok)
  with p that show ?thesis by blast
qed

lemma read_frame_bytes:
  assumes "length p \<le> 8 * 1024 * 1024"
  shows "read_frame D \<lparr>rd_pending = frame_bytes f p @ rest\<rparr>
    = (decode_frame_payload D (frame_type f) p, \<lparr>rd_pending = rest\<rparr>)"
proof -
  have "from_be_bytes (to_be_bytes 4 (length p)) = length p"
    using assms by (intro from_to_be_bytes) simp
  moreover have "enforce_frame_len (frame_type f) (length p) = Ok ()"
    using assms by (simp add: enforce_frame_len_Ok)
  moreover have "read_exact FRAME_HEADER_LEN \<lparr>rd_pending = frame_bytes f p @ rest\<rparr>
     = (Ok (frame_type_code (frame_type f) # to_be_bytes 4 (length p)), \<lparr>rd_pending = p @ rest\<rparr>)"
    by (simp add: read_exact_def FRAME_HEADER_LEN_def frame_bytes_def)
  ultimately show ?thesis
    by (simp add: read_frame_def bnd_def io_step_def lift_result_def map_err_def ret_def read_exact_def)
qed

primrec write_frames :: "('j, 'x) wire_deps_scheme \<Rightarrow> 'j Frame list \<Rightarrow> (byte_writer, WireCodecError, unit) comp" where
  "write_frames D [] = ret ()"
| "write_frames D (f # fs) = bnd (write_frame D f) (\<lambda>_. write_frames D fs)"

primrec read_frames :: "('j, 'x) wire_deps_scheme \<Rightarrow> nat \<Rightarrow> (byte_reader, WireCodecError, 'j Frame list) comp" where
  "read_frames D 0 = ret []"
| "read_frames D (Suc n) = bnd (read_frame D) (\<lambda>f. bnd (read_frames D n) (\<lambda>fs. ret (f # fs)))"

text \<open>
  C22. The framing is transparent: when a sequence of frames is written without an error, the
  bytes that reach the peer, whatever follows them, read back as the same sequence and leave
  exactly what follows. The one frame that is written and not read back is a settings frame with
  an empty server instance id: where the sequence holds one, reading ends with an
  invalid-frame error.
\<close>

theorem wire_stream_roundtrip:
  assumes "wire_laws D" "write_frames D fs w = (Ok (), w')"
  shows "\<exists>bytes. wr_sent w' = wr_sent w @ bytes \<and>
    (\<forall>rest. if \<forall>st. Fr_Settings st \<in> set fs \<longrightarrow> st_server_instance_id st \<noteq> []
       then read_frames D (length fs) \<lparr>rd_pending = bytes @ rest\<rparr> = (Ok fs, \<lparr>rd_pending = rest\<rparr>)
       else \<exists>m. fst (read_frames D (length fs) \<lparr>rd_pending = bytes @ rest\<rparr>) = Err (WE_InvalidFrame m))"
  using assms(2)
proof (induction fs arbitrary: w)
  case Nil
  then show ?case by (auto simp: ret_def)
next
  case (Cons f fs)
  obtain w1 where w1: "write_frame D f w = (Ok (), w1)" "write_frames D fs w1 = (Ok (), w')"
    using Cons.prems by (auto simp: bnd_Ok)
  obtain p where p: "encode_frame_payload D f = Ok p" "length p \<le> 8 * 1024 * 1024"
    "wr_sent w1 = wr_sent w @ frame_bytes f p"
    using w1(1) by (rule write_frame_Ok)
  obtain bytes where b: "wr_sent w' = wr_sent w1 @ bytes"
    "\<And>rest. if \<forall>st. Fr_Settings st \<in> set fs \<longrightarrow> st_server_instance_id st \<noteq> []
       then read_frames D (length fs) \<lparr>rd_pending = bytes @ rest\<rparr> = (Ok fs, \<lparr>rd_pending = rest\<rparr>)
       else \<exists>m. fst (read_frames D (length fs) \<lparr>rd_pending = bytes @ rest\<rparr>) = Err (WE_InvalidFrame m)"
    using Cons.IH [OF w1(2)] by auto
  have bytes: "wr_sent w' = wr_sent w @ (frame_bytes f p @ bytes)" using p(3) b(1) by simp
  have read: "read_frame D \<lparr>rd_pending = (frame_bytes f p @ bytes) @ rest\<rparr>
      = (decode_frame_payload D (frame_type f) p, \<lparr>rd_pending = bytes @ rest\<rparr>)" for rest
    using read_frame_bytes [OF p(2), of D f "bytes @ rest"] by simp
  show ?case
  proof (intro exI conjI allI, rule bytes)
    fix rest
    let ?r = "\<lparr>rd_pending = (frame_bytes f p @ bytes) @ rest\<rparr>"
    show "if \<forall>st. Fr_Settings st \<in> set (f # fs) \<longrightarrow> st_server_instance_id st \<noteq> []
      then read_frames D (length (f # fs)) ?r = (Ok (f # fs), \<lparr>rd_pending = rest\<rparr>)
      else \<exists>m. fst (read_frames D (length (f # fs)) ?r) = Err (WE_InvalidFrame m)"
    proof (cases "frame_ok f")
      case True
      then have "(\<forall>st. Fr_Settings st \<in> set (f # fs) \<longrightarrow> st_server_instance_id st \<noteq> []) \<longleftrightarrow>
          (\<forall>st. Fr_Settings st \<in> set fs \<longrightarrow> st_server_instance_id st \<noteq> [])"
        by auto
      moreover have "read_frames D (length (f # fs)) ?r
          = bnd (read_frames D (length fs)) (\<lambda>fs. ret (f # fs)) \<lparr>rd_pending = bytes @ rest\<rparr>"
        using read [of rest] decode_encode_payload [OF assms(1) True p(1)] by (simp add: bnd_def)
      ultimately show ?thesis using b(2) [of rest]
        by (cases "read_frames D (length fs) \<lparr>rd_pending = bytes @ rest\<rparr>")
          (auto simp add: bnd_def ret_def split: if_splits sum.splits)
    next
      case False
      then obtain st where st: "f = Fr_Settings st" "st_server_instance_id st = []" by (cases f) auto
      then obtain m where "decode_frame_payload D (frame_type f) p = Err (WE_InvalidFrame m)"
        using refused_settings_payload [OF assms(1) _ p(1) [unfolded st(1)]] by auto
      then show ?thesis using st read [of rest] by (auto simp: bnd_def)
    qed
  qed
qed


definition go_away_codec :: "GoAwayFrame codec" where
  "go_away_codec = \<lparr>to_vec = (\<lambda>g. Ok (as_bytes (ga_reason g))), from_slice = (\<lambda>bs. Ok \<lparr>ga_reason = from_bytes bs\<rparr>)\<rparr>"

definition ref_wire_deps :: "unit wire_deps" where
  "ref_wire_deps = core_deps.extend ref_core_deps
     \<lparr>cbor_settings = (\<lambda>st. let v = text_map (settings_fields st) in
                             if cb_ok v then Ok (wr_item v) else Err ''unsupported''),
      cbor_error = refusing_codec, cbor_notice = refusing_codec, cbor_req_header = refusing_codec,
      cbor_res_header = refusing_codec, cbor_event = refusing_codec, cbor_auth = refusing_codec,
      cbor_go_away = go_away_codec\<rparr>"

lemma ref_wire_laws: "wire_laws ref_wire_deps"
  by (auto simp: wire_laws_def ref_wire_deps_def core_deps.defs ref_core_deps_def go_away_codec_def
      codec_ok_def refusing_codec_def ref_cbor_reads_item Let_def split: if_splits)


definition sample_frames :: "unit Frame list" where
  "sample_frames =
     [Fr_Settings (public_multitenant_settings_frame ''s1''), Fr_Data [1, 2], Fr_End,
      Fr_GoAway \<lparr>ga_reason = ''bye''\<rparr>]"

lemma sample_settings_item:
  "cb_ok (text_map (settings_fields (public_multitenant_settings_frame ''s1'')))"
  "length (wr_item (text_map (settings_fields (public_multitenant_settings_frame ''s1'')))) \<le> 8388608"
  by (simp_all add: text_map_def settings_fields_def public_multitenant_settings_frame_def
      default_limits_def default_supported_chunkers_def default_supported_content_encodings_def
      beta_extensions_def usize_u64_def encode_major_form major_head_def)

lemma sample_frames_written:
  "fst (write_frames ref_wire_deps sample_frames \<lparr>wr_sent = [], wr_room = None\<rparr>) = Ok ()"
  using sample_settings_item
  by (simp add: sample_frames_def bnd_def write_frame_def lift_result_def ref_wire_deps_def
      core_deps.defs ref_core_deps_def encode_cbor_def map_err_def enforce_frame_len_def MAX_CONTROL_FRAME_LEN_def
      MAX_DATA_FRAME_LEN_def Let_def io_step_def write_all_def ret_def go_away_codec_def)

theorem wire_stream_roundtrip_witness:
  "\<exists>bytes w'. write_frames ref_wire_deps sample_frames \<lparr>wr_sent = [], wr_room = None\<rparr> = (Ok (), w') \<and>
     wr_sent w' = bytes \<and>
     read_frames ref_wire_deps 4 \<lparr>rd_pending = bytes @ [7]\<rparr> = (Ok sample_frames, \<lparr>rd_pending = [7]\<rparr>)"
proof -
  let ?w = "\<lparr>wr_sent = [], wr_room = None\<rparr>"
  obtain w' where w: "write_frames ref_wire_deps sample_frames ?w = (Ok (), w')"
    using sample_frames_written by (metis prod.collapse)
  have ok: "\<forall>st. Fr_Settings st \<in> set sample_frames \<longrightarrow> st_server_instance_id st \<noteq> []"
    and l: "length sample_frames = 4"
    by (simp_all add: sample_frames_def public_multitenant_settings_frame_def)
  show ?thesis using wire_stream_roundtrip [OF ref_wire_laws w] ok w unfolding l by force
qed

text \<open>\<open>takes_at_most n m\<close>: \<open>m\<close> removes at most \<open>n\<close> bytes from the front of the stream.\<close>

definition takes_at_most :: "nat \<Rightarrow> (byte_reader, 'e, 'a) comp \<Rightarrow> bool" where
  "takes_at_most n m \<longleftrightarrow> (\<forall>r. \<exists>k\<le>n. rd_pending (snd (m r)) = drop k (rd_pending r))"

lemma takes_read_exact: "takes_at_most n (io_step (read_exact n))"
  unfolding takes_at_most_def
proof
  fix r
  show "\<exists>k\<le>n. rd_pending (snd (io_step (read_exact n) r)) = drop k (rd_pending r)"
    by (cases "n \<le> length (rd_pending r)")
      (auto simp: read_exact_def io_step_def intro: exI [of _ "length (rd_pending r)"])
qed

lemma takes_pure: "takes_at_most n (lift_result x)" "takes_at_most n (ret y)"
  by (auto simp: takes_at_most_def lift_result_def ret_def intro: exI [of _ 0])

lemma takes_guard:
  "(\<And>x. r = Ok x \<Longrightarrow> takes_at_most n (f x)) \<Longrightarrow> takes_at_most n (bnd (lift_result r) f)"
  by (cases r) (auto simp: takes_at_most_def bnd_def lift_result_def intro: exI [of _ 0])

lemma takes_bnd:
  assumes "takes_at_most a m" "\<And>x. takes_at_most b (f x)"
  shows "takes_at_most (a + b) (bnd m f)"
  unfolding takes_at_most_def
proof
  fix r
  obtain res r1 where m: "m r = (res, r1)" by force
  obtain k where k: "k \<le> a" "rd_pending r1 = drop k (rd_pending r)"
    using assms(1) m unfolding takes_at_most_def by (metis snd_conv)
  show "\<exists>k\<le>a + b. rd_pending (snd (bnd m f r)) = drop k (rd_pending r)"
  proof (cases res)
    case (Inl e)
    then show ?thesis using k m by (auto simp: bnd_def intro: exI [of _ k])
  next
    case (Inr x)
    then obtain j where "j \<le> b" "rd_pending (snd (f x r1)) = drop j (rd_pending r1)"
      using assms(2) unfolding takes_at_most_def by blast
    then show ?thesis using k m Inr by (intro exI [of _ "j + k"]) (simp add: bnd_def)
  qed
qed

lemma takes_mono: "takes_at_most a m \<Longrightarrow> a \<le> b \<Longrightarrow> takes_at_most b m"
  unfolding takes_at_most_def by (meson le_trans)

lemma takes_payload:
  "len \<le> c \<Longrightarrow> takes_at_most c (if len > 0 then io_step (read_exact len) else ret [])"
  using takes_mono [OF takes_read_exact, of len c] by (auto intro: takes_pure)

lemma read_frame_takes: "takes_at_most (FRAME_HEADER_LEN + MAX_DATA_FRAME_LEN) (read_frame D)"
proof -
  have "takes_at_most (MAX_DATA_FRAME_LEN + 0)
          (bnd (if len > 0 then io_step (read_exact len) else ret [])
             (\<lambda>payload. lift_result (decode_frame_payload D ft payload)))"
    if "len \<le> MAX_DATA_FRAME_LEN" for len ft
    by (intro takes_bnd takes_payload takes_pure that)
  then show ?thesis
    unfolding read_frame_def Let_def
    by (intro takes_bnd takes_read_exact takes_guard)
      (auto simp: enforce_frame_len_Ok MAX_DATA_FRAME_LEN_def)
qed

text \<open>
  C27. Reading a frame is bounded: whatever the peer sends, one \<open>read_frame\<close> takes at most the
  header and the frame cap from the stream; and a header that announces more than the cap is
  refused as oversized before any byte of the payload is read.
\<close>

theorem read_frame_bounded:
  "(\<exists>n\<le>FRAME_HEADER_LEN + MAX_DATA_FRAME_LEN.
      rd_pending (snd (read_frame D r)) = drop n (rd_pending r)) \<and>
   (frame_type_try_from b = Ok ft \<and> length lens = 4 \<and> MAX_DATA_FRAME_LEN < from_be_bytes lens \<longrightarrow>
      read_frame D \<lparr>rd_pending = b # lens @ rest\<rparr>
        = (Err (WE_OversizedFrame ft (from_be_bytes lens)), \<lparr>rd_pending = rest\<rparr>))"
proof (intro conjI impI)
  show "\<exists>n\<le>FRAME_HEADER_LEN + MAX_DATA_FRAME_LEN.
      rd_pending (snd (read_frame D r)) = drop n (rd_pending r)"
    using read_frame_takes unfolding takes_at_most_def by blast
next
  assume a: "frame_type_try_from b = Ok ft \<and> length lens = 4 \<and> MAX_DATA_FRAME_LEN < from_be_bytes lens"
  then show "read_frame D \<lparr>rd_pending = b # lens @ rest\<rparr>
        = (Err (WE_OversizedFrame ft (from_be_bytes lens)), \<lparr>rd_pending = rest\<rparr>)"
    by (cases ft) (auto simp: read_frame_def bnd_def io_step_def read_exact_def FRAME_HEADER_LEN_def
        map_err_def lift_result_def enforce_frame_len_def MAX_CONTROL_FRAME_LEN_def MAX_DATA_FRAME_LEN_def
        Let_def)
qed


theorem read_frame_bounded_witness:
  "read_frame ref_wire_deps \<lparr>rd_pending = [0x12, 0xFF, 0, 0, 0, 9]\<rparr>
     = (Err (WE_OversizedFrame FT_Data 4278190080), \<lparr>rd_pending = [9]\<rparr>)"
proof -
  have h: "frame_type_try_from 0x12 = Ok FT_Data" "from_be_bytes [0xFF, 0, 0, 0] = 4278190080"
    by (simp_all add: frame_type_try_from_def from_be_bytes_def)
  then have "frame_type_try_from 0x12 = Ok FT_Data \<and> length [0xFF, 0, 0, 0 :: byte] = 4 \<and>
      MAX_DATA_FRAME_LEN < from_be_bytes [0xFF, 0, 0, 0]"
    by (simp add: MAX_DATA_FRAME_LEN_def)
  then show ?thesis
    using read_frame_bounded [of ref_wire_deps _ "0x12" FT_Data "[0xFF, 0, 0, 0]" "[9]"] h by simp
qed

lemma required_u64_Ok: "required_u64 m k = Ok n \<longleftrightarrow> map_of m k = Some (Cb_Integer (uint n))"
  by (auto simp: required_u64_def uint_u64_less unsigned_of_int take_bit_int_eq_self
      split: option.splits CborValue.splits if_splits)

lemma required_text_Ok: "required_text m k = Ok t \<longleftrightarrow> map_of m k = Some (Cb_Text t) \<and> t \<noteq> []"
  by (auto simp: required_text_def Let_def split: option.splits CborValue.splits if_splits)

lemma collect_texts_Ok: "collect_texts e vs = Ok ts \<longleftrightarrow> vs = map Cb_Text ts"
  by (induction e vs arbitrary: ts rule: collect_texts.induct) (auto simp: Cons_eq_map_conv)

lemma required_text_array_Ok:
  "required_text_array m k = Ok ts \<longleftrightarrow> map_of m k = Some (Cb_Array (map Cb_Text ts))"
  by (auto simp: required_text_array_def collect_texts_Ok split: option.splits CborValue.splits)

text \<open>
  C37. A settings frame is accepted only from a CBOR map with pairwise different text keys, and
  every field of the result is the entry of that name, unchanged, except for the number of
  parallel streams, which is the announced 64-bit number modulo \<open>2 ^ 16\<close>.
\<close>

theorem settings_frame_sound:
  assumes "decode_settings_frame D payload = Ok st"
  shows "\<exists>kvs n. cbor_from_reader D payload = Ok (text_map kvs) \<and> distinct (map fst kvs) \<and>
    st_server_instance_id st \<noteq> [] \<and>
    (\<forall>(k, v)\<in>set (settings_fields st). k \<noteq> ''max_parallel_streams'' \<longrightarrow> map_of kvs k = Some v) \<and>
    map_of kvs ''max_parallel_streams'' = Some (Cb_Integer (uint (n :: u64))) \<and>
    st_max_parallel_streams st = ucast n"
proof -
  obtain v where v: "cbor_from_reader D payload = Ok v"
    using assms by (auto simp: decode_settings_frame_def)
  then obtain pairs m where p: "cbor_from_reader D payload = Ok (Cb_Map pairs)"
    "settings_entries {} [] pairs = Ok m"
    using assms by (cases v) (auto simp: decode_settings_frame_def)
  obtain kvs where k: "pairs = map text_entry kvs" "distinct (map fst kvs)"
    using settings_entries_distinct [OF p(2)] by blast
  then have m: "map_of m = map_of kvs"
    using settings_entries_texts [OF k(2), of "{}" "[]"] p(2) by auto
  show ?thesis
    using assms p
    by (intro exI [of _ kvs])
      (auto simp: decode_settings_frame_def text_map_def k required_u64_Ok required_text_Ok
        required_text_array_Ok m settings_fields_def simp del: map_of.simps)
qed

definition truncating_settings :: "(string \<times> CborValue) list" where
  "truncating_settings =
     (''max_parallel_streams'', Cb_Integer 65544)
       # filter (\<lambda>kv. fst kv \<noteq> ''max_parallel_streams'')
           (settings_fields (public_multitenant_settings_frame ''s1''))"

lemma truncating_settings_decodes:
  defines "payload \<equiv> wr_item (text_map truncating_settings)"
  shows "cbor_from_reader ref_core_deps payload = Ok (text_map truncating_settings)"
    "decode_settings_frame ref_core_deps payload = Ok (public_multitenant_settings_frame ''s1'')"
proof -
  show r: "cbor_from_reader ref_core_deps payload = Ok (text_map truncating_settings)"
    by (simp add: payload_def ref_core_deps_def, rule ref_cbor_reads_item)
      (simp add: truncating_settings_def text_map_def settings_fields_def
        public_multitenant_settings_frame_def default_limits_def default_supported_chunkers_def
        default_supported_content_encodings_def beta_extensions_def)
  show "decode_settings_frame ref_core_deps payload = Ok (public_multitenant_settings_frame ''s1'')"
  proof (rule decode_settings_map [OF r, where n = 65544])
    show "distinct (map fst truncating_settings)"
      by (simp add: truncating_settings_def settings_fields_def)
    show "map_of truncating_settings = (map_of (settings_fields (public_multitenant_settings_frame ''s1'')))
        (''max_parallel_streams'' \<mapsto> Cb_Integer (uint (65544 :: u64)))"
      by (rule ext) (simp add: truncating_settings_def settings_fields_def)
  qed (simp_all add: public_multitenant_settings_frame_def default_limits_def)
qed

theorem settings_frame_sound_witness:
  "\<exists>kvs. cbor_from_reader ref_core_deps (wr_item (text_map truncating_settings)) = Ok (text_map kvs) \<and>
     distinct (map fst kvs) \<and> map_of kvs ''server_instance_id'' = Some (Cb_Text ''s1'')"
proof -
  obtain kvs where k: "cbor_from_reader ref_core_deps (wr_item (text_map truncating_settings)) = Ok (text_map kvs)"
    "distinct (map fst kvs)"
    "\<forall>(k, v)\<in>set (settings_fields (public_multitenant_settings_frame ''s1'')).
       k \<noteq> ''max_parallel_streams'' \<longrightarrow> map_of kvs k = Some v"
    using settings_frame_sound [OF truncating_settings_decodes(2)] by blast
  then show ?thesis
    by (intro exI [of _ kvs]) (simp add: settings_fields_def public_multitenant_settings_frame_def)
qed

text \<open>
  The number of parallel streams a peer announces is narrowed without a check: an offer of
  65544 streams is accepted and read as 8.
\<close>

lemma settings_streams_truncated:
  "\<exists>payload st. cbor_from_reader ref_core_deps payload = Ok (text_map truncating_settings) \<and>
     map_of truncating_settings ''max_parallel_streams'' = Some (Cb_Integer 65544) \<and>
     decode_settings_frame ref_core_deps payload = Ok st \<and> st_max_parallel_streams st = 8"
  using truncating_settings_decodes
  by (force simp: truncating_settings_def public_multitenant_settings_frame_def default_limits_def)

end
