(* ===== verification/HSP_Transport.thy ===== *)
theory HSP_Transport
  imports HSP_Http HSP_Wire
begin

text \<open>
  What the two servers over QUIC (\<open>gateway/hsp-gw\<close> and \<open>server/hspd\<close>) share: the JSON form of the
  requests and responses of the service, the binding of a capability to the TLS session, and the
  loop of a subscription.
\<close>

section \<open>JSON of requests and responses\<close>

record api_json =
  aj_bootstrap :: "BootstrapDocument \<Rightarrow> string + byte list"
  aj_info :: "InfoResponse \<Rightarrow> string + byte list"
  aj_logs :: "StructuredLogRecord list \<Rightarrow> string + byte list"
  aj_error :: "ApiError \<Rightarrow> string + byte list"
  aj_head_request :: "byte list \<Rightarrow> string + HeadRequest"
  aj_head :: "HeadResponse \<Rightarrow> string + byte list"
  aj_get_request :: "byte list \<Rightarrow> string + GetRequest"
  aj_get_meta :: "GetResponseMeta \<Rightarrow> string + byte list"
  aj_resolve_request :: "byte list \<Rightarrow> string + ResolveRequest"
  aj_resolve :: "ResolveResponse \<Rightarrow> string + byte list"
  aj_bind_request :: "byte list \<Rightarrow> string + BindRequest"
  aj_bind :: "BindResponse \<Rightarrow> string + byte list"
  aj_unbind_request :: "byte list \<Rightarrow> string + UnbindRequest"
  aj_unbind :: "UnbindResponse \<Rightarrow> string + byte list"
  aj_list_request :: "byte list \<Rightarrow> string + ListRequest"
  aj_list :: "ListResponse \<Rightarrow> string + byte list"
  aj_subscribe_request :: "byte list \<Rightarrow> string + SubscribeRequest"
  aj_envelope :: "SubscribeEnvelope \<Rightarrow> string + byte list"
  aj_put_init_request :: "byte list \<Rightarrow> string + PutInitRequest"
  aj_put_init :: "PutInitResponse \<Rightarrow> string + byte list"
  aj_put_chunk :: "PutChunkResponse \<Rightarrow> string + byte list"
  aj_put_commit_request :: "byte list \<Rightarrow> string + PutCommitRequest"
  aj_put_commit :: "PutCommitResponse \<Rightarrow> string + byte list"

section \<open>Channel binding\<close>

text \<open>
  \<open>Connection::export_keying_material\<close> of the TLS session, from the label and the context, is the
  argument \<open>tls_export\<close>; \<open>None\<close> is its error.
\<close>

type_synonym tls_exporter = "byte list \<Rightarrow> byte list \<Rightarrow> byte list option"

definition verify_channel ::
  "service_deps \<Rightarrow> tls_exporter \<Rightarrow> IssuerRegistry \<Rightarrow> string \<Rightarrow> ChannelBindingProof \<Rightarrow> ApiError + AuthContext" where
  "verify_channel D tls_export registry token_b64 binding =
     rbnd (verify_cose_sign1_token (auth_code D) token_b64 registry) (\<lambda>claims.
     rbnd (ok_or (tls_export tls_exporter_label (as_bytes (cb_nonce binding)))
             (api_error Cat_Auth ''invalid_channel_binding'' ''failed to export TLS keying material'')) (\<lambda>exported_key_material.
     rbnd (verify_tls_exporter_binding D exported_key_material binding) (\<lambda>_.
     Ok \<lparr>ac_claims = claims, ac_channel_binding = Some binding\<rparr>)))"

section \<open>The loop of a subscription\<close>

text \<open>
  One turn polls the service and sends what it got (\<open>poll\<close>): it stops with a result, or goes on with
  a new cursor and says whether it sent an event. After 20 turns in a row without an event the stream
  is closed (\<open>finish\<close>). While the loop sleeps, \<open>rest\<close> is what the rest of the system does to the state.
\<close>

partial_function (option) poll_loop ::
  "('c \<Rightarrow> 's \<Rightarrow> ('r + bool \<times> 'c) \<times> 's) \<Rightarrow> ('s \<Rightarrow> 'r \<times> 's) \<Rightarrow> (nat \<Rightarrow> 's \<Rightarrow> 's) \<Rightarrow> nat \<Rightarrow> nat \<Rightarrow> 'c \<Rightarrow> 's \<Rightarrow> ('r \<times> 's) option" where
  "poll_loop poll finish rest n idle_rounds cursor s =
     (case poll cursor s of
        (Inl r, s') \<Rightarrow> Some (r, s')
      | (Inr (emitted_event, next_cursor), s') \<Rightarrow>
          if (if emitted_event then 0 else idle_rounds + 1) \<ge> 20 then Some (finish s')
          else poll_loop poll finish rest (Suc n) (if emitted_event then 0 else idle_rounds + 1) next_cursor (rest n s'))"

text \<open>The state and cursor at the start of a turn, and whether it goes on without an event.\<close>

primrec poll_turn ::
  "('c \<Rightarrow> 's \<Rightarrow> ('r + bool \<times> 'c) \<times> 's) \<Rightarrow> (nat \<Rightarrow> 's \<Rightarrow> 's) \<Rightarrow> nat \<Rightarrow> 'c \<times> 's \<Rightarrow> nat \<Rightarrow> 'c \<times> 's" where
  "poll_turn poll rest n cs 0 = cs"
| "poll_turn poll rest n cs (Suc k) =
     (case poll (fst cs) (snd cs) of
        (Inr (_, next_cursor), s') \<Rightarrow> poll_turn poll rest (Suc n) (next_cursor, rest n s') k
      | (Inl _, s') \<Rightarrow> cs)"

definition sends_event :: "('c \<Rightarrow> 's \<Rightarrow> ('r + bool \<times> 'c) \<times> 's) \<Rightarrow> 'c \<times> 's \<Rightarrow> bool" where
  "sends_event poll cs \<longleftrightarrow> (\<exists>c s'. poll (fst cs) (snd cs) = (Inr (True, c), s'))"

lemma poll_loop_idle:
  assumes "\<forall>i<m. \<not> sends_event poll (poll_turn poll rest n (c, s) i)" "idle + m \<ge> 20" "m > 0"
  shows "\<exists>r. poll_loop poll finish rest n idle c s = Some r"
  using assms
proof (induction m arbitrary: n idle c s)
  case (Suc m)
  obtain x s' where p: "poll c s = (x, s')" by fastforce
  show ?case
  proof (cases x)
    case (Inr ec)
    obtain e c' where ec: "ec = (e, c')" by fastforce
    have quiet: "\<not> e" using Suc.prems(1)[rule_format, of 0] p Inr ec by (auto simp: sends_event_def)
    show ?thesis
    proof (cases "idle + 1 \<ge> 20")
      case False
      have "\<not> sends_event poll (poll_turn poll rest (Suc n) (c', rest n s') i)" if "i < m" for i
        using Suc.prems(1)[rule_format, of "Suc i"] that p Inr ec by simp
      then show ?thesis
        using Suc.IH [of "Suc n" c' "rest n s'" "idle + 1"] False Suc.prems(2) p Inr ec quiet
        by (subst poll_loop.simps) auto
    qed (use p Inr ec quiet in \<open>subst poll_loop.simps, auto\<close>)
  qed (use p in \<open>subst poll_loop.simps, simp\<close>)
qed simp

text \<open>Whatever happened before, twenty turns in a row without an event end the loop.\<close>

lemma poll_loop_returns:
  assumes "\<forall>i<20. \<not> sends_event poll (poll_turn poll rest n (c, s) (k + i))"
  shows "\<exists>r. poll_loop poll finish rest n idle c s = Some r"
  using assms
proof (induction k arbitrary: n idle c s)
  case 0
  then show ?case by (intro poll_loop_idle [of 20]) simp_all
next
  case (Suc k)
  obtain x s' where p: "poll c s = (x, s')" by fastforce
  show ?case
  proof (cases x)
    case (Inr ec)
    obtain e c' where ec: "ec = (e, c')" by fastforce
    have "\<exists>r. poll_loop poll finish rest (Suc n) j c' (rest n s') = Some r" for j
      using Suc.prems p Inr ec by (intro Suc.IH) simp
    then show ?thesis using p Inr ec by (subst poll_loop.simps) auto
  qed (use p in \<open>subst poll_loop.simps, simp\<close>)
qed

end
