(* ===== verification/HSP_Native.thy ===== *)
theory HSP_Native
  imports HSP_Transport
begin

text \<open>
  \<open>server/hspd/src/lib.rs\<close>: the native server, which speaks the frames of \<open>hsp-wire\<close> over QUIC. Each request has a
  stream of its own: an \<open>AUTH\<close> frame, a request header, the body in \<open>DATA\<close> frames and \<open>END\<close>; the answer is an
  \<open>ERROR\<close> frame, or a response header with its body, or the events of a subscription.

  \<open>NativeState\<close> never changes and is the argument \<open>st\<close>. The state is that of the service and of the two
  halves of the stream. The JSON values in headers are of type \<open>'j\<close>.
\<close>

section \<open>State\<close>

definition NATIVE_JSON_BODY_LIMIT_BYTES :: nat where
  "NATIVE_JSON_BODY_LIMIT_BYTES = 8 * 1024 * 1024"

record NativeBetaConfig =
  nbc_authority :: string
  nbc_gateway_base_url :: string
  nbc_root_dir :: string
  nbc_server_instance_id :: string
  nbc_kms_seed :: "byte list"

record NativeState =
  nst_service :: AlphaService
  nst_issuer_registry :: IssuerRegistry

record native_world =
  nw_service :: service
  nw_recv :: byte_reader
  nw_send :: byte_writer

text \<open>The third-party code: that of the service, the frames, the JSON of requests and responses, and JSON
  values inside headers.\<close>

record 'j native_deps =
  nd_service :: service_deps
  nd_wire :: "'j wire_deps"
  nd_json :: api_json
  json_meta_value :: "GetResponseMeta \<Rightarrow> string + 'j"
  json_string_value :: "string \<Rightarrow> 'j"
  json_put_chunk_params :: "(string, 'j) btm \<Rightarrow> string + PutChunkRequest"

type_synonym 'a native_op = "(native_world, WireCodecError, 'a) comp"

definition on_recv :: "(byte_reader, 'e, 'a) comp \<Rightarrow> (native_world, 'e, 'a) comp" where
  "on_recv m w = (case m (nw_recv w) of (r, s) \<Rightarrow> (r, w\<lparr>nw_recv := s\<rparr>))"

definition on_send :: "(byte_writer, 'e, 'a) comp \<Rightarrow> (native_world, 'e, 'a) comp" where
  "on_send m w = (case m (nw_send w) of (r, s) \<Rightarrow> (r, w\<lparr>nw_send := s\<rparr>))"

section \<open>Construction\<close>

definition native_runtime_kms :: "'x core_deps_scheme \<Rightarrow> byte list \<Rightarrow> ApiError + LocalDevKms" where
  "native_runtime_kms D seed =
     rbnd (map_err (\<lambda>error. crypto_error_to_api error ''HSP_KMS_SEED must be configured for native beta runtime KMS'')
             (validate_runtime_secret_bytes ''HSP_KMS_SEED'' seed DEFAULT_KMS_SEED_LITERALS)) (\<lambda>seed.
     map_err (\<lambda>error. crypto_error_to_api error ''failed to initialize native KMS'') (from_seed D seed))"

definition native_start ::
  "service_deps \<Rightarrow> NativeBetaConfig \<Rightarrow> string + byte list \<Rightarrow> u16 \<Rightarrow> NativeState svc_op" where
  "native_start D config registry_file local_port =
     bnd (lift_result (registry_load (auth_code D) registry_file)) (\<lambda>issuer_registry.
     bnd (lift_result (native_runtime_kms D (nbc_kms_seed config))) (\<lambda>kms.
     bnd (alpha_service_new D
            \<lparr>cf_authority = nbc_authority config, cf_gateway_base_url = nbc_gateway_base_url config,
             cf_root_dir = nbc_root_dir config, cf_native_port = local_port,
             cf_server_instance_id = nbc_server_instance_id config, cf_storage_backend = Backend_Filesystem\<rparr> kms) (\<lambda>svc.
     ret \<lparr>nst_service = with_issuer_registry svc issuer_registry, nst_issuer_registry = issuer_registry\<rparr>)))"

section \<open>Frames\<close>

definition api_to_wire :: "ApiError \<Rightarrow> WireCodecError" where
  "api_to_wire error = WE_InvalidFrame (err_code error @ '': '' @ err_message error)"

definition native_write :: "'j native_deps \<Rightarrow> 'j Frame \<Rightarrow> unit native_op" where
  "native_write N frame = on_send (write_frame (nd_wire N) frame)"

text \<open>The server opens a stream of its own for its settings.\<close>

definition send_settings :: "'j native_deps \<Rightarrow> AlphaService \<Rightarrow> (byte_writer, WireCodecError, unit) comp" where
  "send_settings N svc = write_frame (nd_wire N) (Fr_Settings (settings svc))"

definition res_header :: "u16 \<Rightarrow> PayloadMode \<Rightarrow> u64 option \<Rightarrow> (string, 'j) btm \<Rightarrow> 'j ResHeader" where
  "res_header status_code payload_mode payload_length meta =
     \<lparr>rh_version = 1, rh_status_code = status_code, rh_request_id = None, rh_payload_mode = Some payload_mode,
      rh_payload_length = payload_length, rh_meta = meta, rh_extensions = []\<rparr>"

definition write_json_response :: "'j native_deps \<Rightarrow> u16 \<Rightarrow> string + byte list \<Rightarrow> unit native_op" where
  "write_json_response N status_code serialized =
     bnd (lift_result (map_err WE_InvalidFrame serialized)) (\<lambda>body.
     bnd (native_write N (Fr_ResHeader (res_header status_code Payload_Json (Some (usize_u64 (length body))) []))) (\<lambda>_.
     bnd (native_write N (Fr_Data body)) (\<lambda>_.
     native_write N Fr_End)))"

primrec write_data_frames :: "'j native_deps \<Rightarrow> GetChunk list \<Rightarrow> unit native_op" where
  "write_data_frames N [] = ret ()"
| "write_data_frames N (chunk # chunks) =
     bnd (native_write N (Fr_Data (gc_bytes chunk))) (\<lambda>_. write_data_frames N chunks)"

definition write_chunk_stream_response ::
  "'j native_deps \<Rightarrow> u16 \<Rightarrow> GetResponseMeta \<Rightarrow> GetChunk list \<Rightarrow> unit native_op" where
  "write_chunk_stream_response N status_code meta chunks =
     bnd (lift_result (map_err WE_InvalidFrame (json_meta_value N meta))) (\<lambda>get_meta.
     bnd (native_write N (Fr_ResHeader (res_header status_code Payload_ChunkStream None [(''get_meta'', get_meta)]))) (\<lambda>_.
     bnd (write_data_frames N chunks) (\<lambda>_.
     native_write N Fr_End)))"

definition write_subscription_header :: "'j native_deps \<Rightarrow> EventCursor \<Rightarrow> unit native_op" where
  "write_subscription_header N cursor =
     native_write N (Fr_ResHeader (res_header 200 Payload_None None
       [(''cursor'', json_string_value N (event_cursor_encode (nd_service N) cursor))]))"

definition write_error :: "'j native_deps \<Rightarrow> ApiError \<Rightarrow> unit native_op" where
  "write_error N error =
     native_write N (Fr_Error \<lparr>we_category = err_category error, we_code = err_code error, we_message = err_message error\<rparr>)"

definition decode_json :: "string + 'a \<Rightarrow> WireCodecError + 'a" where
  "decode_json decoded = map_err WE_InvalidFrame decoded"

definition required_auth :: "AuthContext option \<Rightarrow> string \<Rightarrow> WireCodecError + AuthContext" where
  "required_auth auth operation =
     ok_or auth (api_to_wire (api_error Cat_Auth ''missing_auth_frame'' (operation @ '' requires AUTH frame'')))"

definition native_body_limit :: "'j ReqHeader \<Rightarrow> nat" where
  "native_body_limit header =
     (case rq_operation header of
        Op_Info \<Rightarrow> 0
      | Op_PutChunk \<Rightarrow> unat (lim_max_chunk_size (ir_limits info))
      | _ \<Rightarrow> NATIVE_JSON_BODY_LIMIT_BYTES)"

text \<open>
  The loop of \<open>read_body\<close>. Every frame takes at least its header from the stream, so the pending
  bytes are fuel enough: see \<open>read_body_fuel\<close> in the theory \<open>HSP_Native_Stream\<close>.
\<close>

primrec read_body_loop ::
  "'j native_deps \<Rightarrow> nat \<Rightarrow> nat \<Rightarrow> byte list \<Rightarrow> (byte_reader, WireCodecError, byte list) comp" where
  "read_body_loop N max_body_bytes 0 body = throw (WE_Io io_eof)"
| "read_body_loop N max_body_bytes (Suc fuel) body =
     bnd (read_frame (nd_wire N)) (\<lambda>frame.
     case frame of
       Fr_Data bytes \<Rightarrow>
         if length body + length bytes > max_body_bytes then
           throw (WE_InvalidFrame ''request body exceeds operation limit'')
         else read_body_loop N max_body_bytes fuel (body @ bytes)
     | Fr_End \<Rightarrow> ret body
     | _ \<Rightarrow> throw (WE_InvalidFrame (''unexpected frame '' @ frame_type_debug (frame_type frame) @ '' while reading body'')))"

definition read_body :: "'j native_deps \<Rightarrow> nat \<Rightarrow> (byte_reader, WireCodecError, byte list) comp" where
  "read_body N max_body_bytes r = read_body_loop N max_body_bytes (Suc (length (rd_pending r))) [] r"

section \<open>One request\<close>

definition verify_auth_frame ::
  "'j native_deps \<Rightarrow> tls_exporter \<Rightarrow> IssuerRegistry \<Rightarrow> AuthFrame \<Rightarrow> ApiError + AuthContext" where
  "verify_auth_frame N tls_export issuer_registry auth_frame =
     verify_channel (nd_service N) tls_export issuer_registry (af_token_b64 auth_frame) (af_channel_binding auth_frame)"

text \<open>The frames before the body: the header with the verified credentials, or an error frame for the peer.\<close>

definition read_request_head ::
  "'j native_deps \<Rightarrow> NativeState \<Rightarrow> tls_exporter \<Rightarrow> (ApiError + AuthContext option \<times> 'j ReqHeader) native_op" where
  "read_request_head N st tls_export =
     bnd (on_recv (read_frame (nd_wire N))) (\<lambda>first_frame.
     case first_frame of
       Fr_ReqHeader header \<Rightarrow>
         if rq_operation header = Op_Info then ret (Ok (None, header))
         else ret (Err (api_error Cat_Auth ''missing_auth_frame'' ''AUTH frame is required before request header''))
     | Fr_Auth auth_frame \<Rightarrow>
         bnd (lift_result (map_err api_to_wire (verify_auth_frame N tls_export (nst_issuer_registry st) auth_frame))) (\<lambda>auth.
         bnd (on_recv (read_frame (nd_wire N))) (\<lambda>frame.
         case frame of
           Fr_ReqHeader header \<Rightarrow> ret (Ok (Some auth, header))
         | _ \<Rightarrow> ret (Err (api_error Cat_Validation ''missing_req_header'' ''REQ_HEADER must follow AUTH''))))
     | Fr_Data _ \<Rightarrow>
         ret (Err (api_error Cat_Validation ''unexpected_data_frame'' ''DATA frame arrived before request header''))
     | _ \<Rightarrow> ret (Err (api_error Cat_Validation ''invalid_request_sequence'' ''unexpected frame order'')))"

text \<open>The result of an operation of the service, written to the stream.\<close>

definition native_reply ::
  "'j native_deps \<Rightarrow> 'a svc_op \<Rightarrow> ('a \<Rightarrow> unit native_op) \<Rightarrow> unit native_op" where
  "native_reply N m write_response w =
     (case m (nw_service w) of
        (Ok response, s) \<Rightarrow> write_response response (w\<lparr>nw_service := s\<rparr>)
      | (Err error, s) \<Rightarrow> write_error N error (w\<lparr>nw_service := s\<rparr>))"

definition native_get_reply :: "'j native_deps \<Rightarrow> GetResponse \<Rightarrow> unit native_op" where
  "native_get_reply N response =
     (if gm_preference (gr_meta response) = Pref_ManifestOnly then
        write_json_response N 200 (aj_get_meta (nd_json N) (gr_meta response))
      else write_chunk_stream_response N 200 (gr_meta response) (gr_chunks response))"

text \<open>Every operation but \<open>SUBSCRIBE\<close>: credentials, the request in JSON, the service, the answer.\<close>

definition native_dispatch ::
  "'j native_deps \<Rightarrow> NativeState \<Rightarrow> AuthContext option \<Rightarrow> 'j ReqHeader \<Rightarrow> byte list \<Rightarrow> unit native_op" where
  "native_dispatch N st auth header body =
     (let D = nd_service N; svc = nst_service st; J = nd_json N in
      case rq_operation header of
        Op_Info \<Rightarrow> write_json_response N 200 (aj_info J info)
      | Op_Head \<Rightarrow>
          bnd (lift_result (required_auth auth ''HEAD'')) (\<lambda>auth.
          bnd (lift_result (decode_json (aj_head_request J body))) (\<lambda>request.
          native_reply N (head D svc auth request) (\<lambda>r. write_json_response N 200 (aj_head J r))))
      | Op_Get \<Rightarrow>
          bnd (lift_result (required_auth auth ''GET'')) (\<lambda>auth.
          bnd (lift_result (decode_json (aj_get_request J body))) (\<lambda>request.
          native_reply N (get D svc auth request) (native_get_reply N)))
      | Op_Resolve \<Rightarrow>
          bnd (lift_result (required_auth auth ''RESOLVE'')) (\<lambda>auth.
          bnd (lift_result (decode_json (aj_resolve_request J body))) (\<lambda>request.
          native_reply N (resolve D svc auth request) (\<lambda>r. write_json_response N 200 (aj_resolve J r))))
      | Op_Bind \<Rightarrow>
          bnd (lift_result (required_auth auth ''BIND'')) (\<lambda>auth.
          bnd (lift_result (decode_json (aj_bind_request J body))) (\<lambda>request.
          native_reply N (bind_op D svc auth request) (\<lambda>r. write_json_response N 200 (aj_bind J r))))
      | Op_Unbind \<Rightarrow>
          bnd (lift_result (required_auth auth ''UNBIND'')) (\<lambda>auth.
          bnd (lift_result (decode_json (aj_unbind_request J body))) (\<lambda>request.
          native_reply N (unbind_op D svc auth request) (\<lambda>r. write_json_response N 200 (aj_unbind J r))))
      | Op_List \<Rightarrow>
          bnd (lift_result (required_auth auth ''LIST'')) (\<lambda>auth.
          bnd (lift_result (decode_json (aj_list_request J body))) (\<lambda>request.
          native_reply N (list_op D svc auth request) (\<lambda>r. write_json_response N 200 (aj_list J r))))
      | Op_PutInit \<Rightarrow>
          bnd (lift_result (required_auth auth ''PUT_INIT'')) (\<lambda>auth.
          bnd (lift_result (decode_json (aj_put_init_request J body))) (\<lambda>request.
          native_reply N (put_init D svc auth request) (\<lambda>r. write_json_response N 200 (aj_put_init J r))))
      | Op_PutChunk \<Rightarrow>
          bnd (lift_result (required_auth auth ''PUT_CHUNK'')) (\<lambda>auth.
          bnd (lift_result (decode_json (json_put_chunk_params N (rq_params header)))) (\<lambda>request.
          native_reply N (put_chunk D svc auth request body) (\<lambda>r. write_json_response N 200 (aj_put_chunk J r))))
      | Op_PutCommit \<Rightarrow>
          bnd (lift_result (required_auth auth ''PUT_COMMIT'')) (\<lambda>auth.
          bnd (lift_result (decode_json (aj_put_commit_request J body))) (\<lambda>request.
          native_reply N (put_commit D svc auth request) (\<lambda>r. write_json_response N 200 (aj_put_commit J r))))
      | Op_Subscribe \<Rightarrow> ret ())"

section \<open>Subscriptions\<close>

definition envelope_frame :: "SubscribeEnvelope \<Rightarrow> 'j Frame option" where
  "envelope_frame envelope =
     (case se_kind envelope of
        Env_Event \<Rightarrow> map_option Fr_Event (se_event envelope)
      | Env_Notice \<Rightarrow> map_option Fr_Notice (se_notice envelope))"

primrec write_envelopes :: "'j native_deps \<Rightarrow> SubscribeEnvelope list \<Rightarrow> unit native_op" where
  "write_envelopes N [] = ret ()"
| "write_envelopes N (envelope # envelopes) =
     bnd (case envelope_frame envelope of None \<Rightarrow> ret () | Some frame \<Rightarrow> native_write N frame) (\<lambda>_.
     write_envelopes N envelopes)"

definition emits_event :: "SubscribeEnvelope \<Rightarrow> bool" where
  "emits_event envelope \<longleftrightarrow> se_kind envelope = Env_Event \<and> se_event envelope \<noteq> None"

definition native_poll ::
  "'j native_deps \<Rightarrow> NativeState \<Rightarrow> AuthContext \<Rightarrow> SubscribeRequest \<Rightarrow> EventCursor \<Rightarrow> native_world
   \<Rightarrow> ((WireCodecError + unit) + bool \<times> EventCursor) \<times> native_world" where
  "native_poll N st auth request cursor w =
     (case subscribe_poll (nd_service N) (nst_service st) auth request cursor (nw_service w) of
        (Err error, s) \<Rightarrow>
          (case write_error N error (w\<lparr>nw_service := s\<rparr>) of (r, w') \<Rightarrow> (Inl r, w'))
      | (Ok (envelopes, next_cursor), s) \<Rightarrow>
          (case write_envelopes N envelopes (w\<lparr>nw_service := s\<rparr>) of
             (Err error, w') \<Rightarrow> (Inl (Err error), w')
           | (Ok _, w') \<Rightarrow> (Inr (list_ex emits_event envelopes, next_cursor), w')))"

definition native_finish :: "'j native_deps \<Rightarrow> unit native_op" where
  "native_finish N =
     bnd (native_write N (Fr_GoAway \<lparr>ga_reason = ''subscribe_idle_timeout''\<rparr>)) (\<lambda>_. native_write N Fr_End)"

definition native_heartbeat :: "SubscribeRequest \<Rightarrow> u64" where
  "native_heartbeat request = min (case sr_heartbeat_ms request of None \<Rightarrow> 250 | Some ms \<Rightarrow> ms) 5000"

definition native_subscribe_loop ::
  "'j native_deps \<Rightarrow> NativeState \<Rightarrow> (u64 \<Rightarrow> nat \<Rightarrow> service \<Rightarrow> service) \<Rightarrow> AuthContext \<Rightarrow> SubscribeRequest \<Rightarrow> EventCursor
   \<Rightarrow> native_world \<Rightarrow> ((WireCodecError + unit) \<times> native_world) option" where
  "native_subscribe_loop N st asleep auth request cursor w =
     poll_loop (native_poll N st auth request) (native_finish N)
       (\<lambda>n w. w\<lparr>nw_service := asleep (native_heartbeat request) n (nw_service w)\<rparr>) 0 0 cursor w"

definition native_subscribe ::
  "'j native_deps \<Rightarrow> NativeState \<Rightarrow> (u64 \<Rightarrow> nat \<Rightarrow> service \<Rightarrow> service) \<Rightarrow> AuthContext option \<Rightarrow> byte list
   \<Rightarrow> native_world \<Rightarrow> ((WireCodecError + unit) \<times> native_world) option" where
  "native_subscribe N st asleep auth body w =
     (case rbnd (required_auth auth ''SUBSCRIBE'') (\<lambda>auth.
           rbnd (decode_json (aj_subscribe_request (nd_json N) body)) (\<lambda>request. Ok (auth, request))) of
        Err error \<Rightarrow> Some (Err error, w)
      | Ok (auth, request) \<Rightarrow>
          (case subscribe_start (nd_service N) (nst_service st) auth request (nw_service w) of
             (Err error, s) \<Rightarrow> Some (write_error N error (w\<lparr>nw_service := s\<rparr>))
           | (Ok cursor, s) \<Rightarrow>
               (case write_subscription_header N cursor (w\<lparr>nw_service := s\<rparr>) of
                  (Err error, w') \<Rightarrow> Some (Err error, w')
                | (Ok _, w') \<Rightarrow> native_subscribe_loop N st asleep auth request cursor w')))"

text \<open>\<open>None\<close> is a subscription that never ends.\<close>

definition handle_request_stream ::
  "'j native_deps \<Rightarrow> NativeState \<Rightarrow> (u64 \<Rightarrow> nat \<Rightarrow> service \<Rightarrow> service) \<Rightarrow> tls_exporter
   \<Rightarrow> native_world \<Rightarrow> ((WireCodecError + unit) \<times> native_world) option" where
  "handle_request_stream N st asleep tls_export w =
     (case read_request_head N st tls_export w of
        (Err error, w') \<Rightarrow> Some (Err error, w')
      | (Ok (Err error), w') \<Rightarrow> Some (write_error N error w')
      | (Ok (Ok (auth, header)), w') \<Rightarrow>
          (case on_recv (read_body N (native_body_limit header)) w' of
             (Err error, w'') \<Rightarrow> Some (Err error, w'')
           | (Ok body, w'') \<Rightarrow>
               if rq_operation header = Op_Subscribe then native_subscribe N st asleep auth body w''
               else Some (native_dispatch N st auth header body w'')))"

end
