(* ===== verification/HSP_Gateway.thy ===== *)
theory HSP_Gateway
  imports HSP_Transport
begin

text \<open>
  \<open>gateway/hsp-gw/src/lib.rs\<close>: the HTTP/3 gateway to \<open>AlphaService\<close>. Every request but two carries a capability
  bound to the TLS session; \<open>route_request\<close> reads the path, the query and the body, calls one operation of
  the service and prints its answer.

  \<open>GatewayState\<close> never changes and is the argument \<open>st\<close>. The state is that of the service and of the
  HTTP/3 stream of one request: what \<open>recv_data\<close> will give, what was sent, and which sends fail.
\<close>

section \<open>State\<close>

definition GATEWAY_JSON_BODY_LIMIT_BYTES :: nat where
  "GATEWAY_JSON_BODY_LIMIT_BYTES = 8 * 1024 * 1024"

record GatewayBetaConfig =
  gwc_bind_port :: u16
  gwc_authority :: string
  gwc_gateway_base_url :: string
  gwc_root_dir :: string
  gwc_server_instance_id :: string
  gwc_native_port :: u16
  gwc_kms_seed :: "byte list"

record GatewayState =
  gws_service :: AlphaService
  gws_issuer_registry :: IssuerRegistry

datatype h3_sent = Sent_Response HttpResponse | Sent_Data "byte list" | Sent_Finish

record h3_stream =
  h3_incoming :: "(string + byte list) list"
  h3_log :: "h3_sent list"
  h3_send_error :: "nat \<Rightarrow> string option"

record gw_world =
  gw_service :: service
  gw_stream :: h3_stream

type_synonym 'a gw_op = "(gw_world, ApiError, 'a) comp"

record gw_deps = http_deps +
  gw_json :: api_json
  gw_meta_line :: "GetResponseMeta \<Rightarrow> string"
  gw_chunk_line :: "GetChunkDescriptor \<Rightarrow> string \<Rightarrow> string"
  uri_host :: "string \<Rightarrow> string option"
  uri_with_authority :: "string \<Rightarrow> string \<Rightarrow> string option"

abbreviation gw_code :: "'x http_deps_scheme \<Rightarrow> service_deps" where
  "gw_code H \<equiv> alpha_code (dist_code H)"

definition at_service :: "(service, 'e, 'a) comp \<Rightarrow> (gw_world, 'e, 'a) comp" where
  "at_service m w = (case m (gw_service w) of (r, s) \<Rightarrow> (r, w\<lparr>gw_service := s\<rparr>))"

definition h3_send :: "h3_sent \<Rightarrow> (gw_world, string, unit) comp" where
  "h3_send what w =
     (let stream = gw_stream w in
      case h3_send_error stream (length (h3_log stream)) of
        Some message \<Rightarrow> (Err message, w)
      | None \<Rightarrow> (Ok (), w\<lparr>gw_stream := stream\<lparr>h3_log := h3_log stream @ [what]\<rparr>\<rparr>))"

section \<open>Construction\<close>

definition gateway_runtime_kms :: "'x core_deps_scheme \<Rightarrow> byte list \<Rightarrow> ApiError + LocalDevKms" where
  "gateway_runtime_kms D seed =
     rbnd (map_err (\<lambda>error. crypto_error_to_api error ''HSP_KMS_SEED must be configured for gateway beta runtime KMS'')
             (validate_runtime_secret_bytes ''HSP_KMS_SEED'' seed DEFAULT_KMS_SEED_LITERALS)) (\<lambda>seed.
     map_err (\<lambda>error. crypto_error_to_api error ''failed to initialize gateway KMS'') (from_seed D seed))"

text \<open>\<open>uri_host\<close> is the host of a URL that parses and has one; \<open>uri_with_authority\<close> puts another authority in
  its place.\<close>

definition resolved_gateway_base_url :: "'x gw_deps_scheme \<Rightarrow> string \<Rightarrow> u16 \<Rightarrow> string" where
  "resolved_gateway_base_url H base_url local_port =
     (case uri_host H base_url of
        None \<Rightarrow> base_url
      | Some host \<Rightarrow>
          let authority_value =
                (if str_contains host '':'' \<and> \<not> starts_with host ''['' then
                   ''['' @ host @ '']:'' @ show_nat (unat local_port)
                 else host @ '':'' @ show_nat (unat local_port)) in
          case uri_with_authority H base_url authority_value of None \<Rightarrow> base_url | Some url \<Rightarrow> url)"

definition gateway_start ::
  "'x gw_deps_scheme \<Rightarrow> GatewayBetaConfig \<Rightarrow> string + byte list \<Rightarrow> u16 \<Rightarrow> GatewayState svc_op" where
  "gateway_start H config registry_file local_port =
     bnd (lift_result (registry_load (auth_code (gw_code H)) registry_file)) (\<lambda>issuer_registry.
     let gateway_base_url =
           (if gwc_bind_port config = 0 then resolved_gateway_base_url H (gwc_gateway_base_url config) local_port
            else gwc_gateway_base_url config) in
     bnd (lift_result (gateway_runtime_kms (gw_code H) (gwc_kms_seed config))) (\<lambda>kms.
     bnd (alpha_service_new (gw_code H)
            \<lparr>cf_authority = gwc_authority config, cf_gateway_base_url = gateway_base_url,
             cf_root_dir = gwc_root_dir config, cf_native_port = gwc_native_port config,
             cf_server_instance_id = gwc_server_instance_id config, cf_storage_backend = Backend_Filesystem\<rparr> kms) (\<lambda>svc.
     ret \<lparr>gws_service = with_issuer_registry svc issuer_registry, gws_issuer_registry = issuer_registry\<rparr>)))"

section \<open>Responses\<close>

type_synonym gw_response = "HttpResponse \<times> byte list list option"

definition http_build_error :: "string \<Rightarrow> ApiError" where
  "http_build_error message = api_error Cat_Validation ''gateway_response_build_failed'' message"

definition bad_json :: "string \<Rightarrow> ApiError" where
  "bad_json message = api_error Cat_Validation ''invalid_json'' message"

definition http_body_error :: "string \<Rightarrow> ApiError" where
  "http_body_error message = api_error Cat_Validation ''gateway_body_read_failed'' message"

definition http3_error :: "string \<Rightarrow> ApiError" where
  "http3_error message = api_error Cat_Validation ''gateway_stream_failed'' message"

definition gw_json_response :: "'x http_deps_scheme \<Rightarrow> nat \<Rightarrow> string + byte list \<Rightarrow> ApiError + gw_response" where
  "gw_json_response H status serialized =
     rbnd (map_err (api_error Cat_Validation ''json_encode_failed'') serialized) (\<lambda>body.
     rbnd (build_response H http_build_error status [(''content-type'', ''application/json'')] []) (\<lambda>response.
     Ok (response, Some [body])))"

definition gw_text_response :: "'x http_deps_scheme \<Rightarrow> nat \<Rightarrow> string \<Rightarrow> string \<Rightarrow> ApiError + gw_response" where
  "gw_text_response H status content_type body =
     rbnd (build_response H http_build_error status [(''content-type'', content_type)] []) (\<lambda>response.
     Ok (response, Some [as_bytes body]))"

definition newline :: string where
  "newline = [CHR 0x0A]"

definition chunk_stream_response ::
  "'x gw_deps_scheme \<Rightarrow> GetResponseMeta \<Rightarrow> GetChunk list \<Rightarrow> ApiError + gw_response" where
  "chunk_stream_response H meta chunks =
     rbnd (build_response H http_build_error 200 [(''content-type'', ''application/x-hsp-chunk-stream+jsonl'')] []) (\<lambda>response.
     Ok (response,
         Some (as_bytes (gw_meta_line H meta @ newline) #
               map (\<lambda>chunk. as_bytes (gw_chunk_line H (gc_descriptor chunk)
                                        (b64url_encode (gw_code H) (gc_bytes chunk)) @ newline)) chunks)))"

definition opt_header :: "string \<Rightarrow> string option \<Rightarrow> (string \<times> string) list" where
  "opt_header name value = (case value of None \<Rightarrow> [] | Some v \<Rightarrow> [(name, v)])"

definition gw_head_headers :: "HeadResponse \<Rightarrow> (string \<times> string) list" where
  "gw_head_headers h =
     [(''x-hsp-object-cid'', hr_object_cid h), (''x-hsp-exists'', ''true''), (''x-hsp-deleted'', ''false''),
      (''x-hsp-cid'', hr_cid h), (''x-hsp-manifest-cid'', hr_manifest_cid h),
      (''x-hsp-integrity-hash'', hr_integrity_hash h), (''x-hsp-storage-class'', hr_storage_class h),
      (''x-hsp-size-bytes'', show_u64 (hr_size_bytes h)),
      (''x-hsp-ciphertext-size-bytes'', show_u64 (hr_ciphertext_size_bytes h)),
      (''x-hsp-logical-size'', show_u64 (hr_logical_size h)), (''x-hsp-stored-size'', show_u64 (hr_stored_size h)),
      (''x-hsp-content-type'', hr_content_type h), (''x-hsp-created-at-ms'', show_u64 (hr_created_at_ms h)),
      (''x-hsp-encryption-profile-id'', encryption_profile_str (hr_encryption_profile_id h)),
      (''x-hsp-key-policy-id'', key_policy_str (hr_key_policy_id h)),
      (''x-hsp-metadata-visibility'', visibility_as_str (hr_metadata_visibility h)),
      (''x-hsp-encrypted-client-metadata-redacted'', show_bool (hr_encrypted_client_metadata_redacted h))] @
     opt_header ''x-hsp-resolved-namespace'' (hr_resolved_namespace h) @
     opt_header ''x-hsp-resolved-path'' (hr_resolved_path h) @
     opt_header ''x-hsp-resolved-revision'' (map_option show_u64 (hr_resolved_revision h)) @
     opt_header ''x-hsp-resolved-record-cid'' (hr_resolved_record_cid h)"

definition gw_head_response :: "'x http_deps_scheme \<Rightarrow> HeadResponse \<Rightarrow> ApiError + gw_response" where
  "gw_head_response H h =
     rbnd (build_response H http_build_error 200 (gw_head_headers h) []) (\<lambda>response. Ok (response, None))"

fun status_for_error :: "ApiErrorCategory \<Rightarrow> nat" where
  "status_for_error Cat_Auth = 401"
| "status_for_error Cat_Replay = 400"
| "status_for_error Cat_Policy = 400"
| "status_for_error Cat_Validation = 400"
| "status_for_error Cat_Unsupported = 400"
| "status_for_error Cat_Conflict = 400"
| "status_for_error Cat_NotFound = 404"
| "status_for_error Cat_Storage = 500"

fun category_as_str :: "ApiErrorCategory \<Rightarrow> string" where
  "category_as_str Cat_Auth = ''auth''"
| "category_as_str Cat_Replay = ''replay''"
| "category_as_str Cat_Policy = ''policy''"
| "category_as_str Cat_Validation = ''validation''"
| "category_as_str Cat_Unsupported = ''unsupported''"
| "category_as_str Cat_NotFound = ''not_found''"
| "category_as_str Cat_Conflict = ''conflict''"
| "category_as_str Cat_Storage = ''storage''"

definition gw_error_response :: "'x gw_deps_scheme \<Rightarrow> ApiError \<Rightarrow> string + gw_response" where
  "gw_error_response H error =
     rbnd (aj_error (gw_json H) error) (\<lambda>body.
     let headers = [(''content-type'', ''application/json''), (''x-hsp-error-code'', err_code error),
                    (''x-hsp-error-category'', category_as_str (err_category error))] in
     case header_error H headers of
       Some message \<Rightarrow> Err message
     | None \<Rightarrow> Ok (\<lparr>rs_status = status_for_error (err_category error), rs_headers = headers, rs_body = []\<rparr>,
                   Some [body]))"

section \<open>Reading a request\<close>

definition query_value :: "string \<Rightarrow> string \<Rightarrow> string option" where
  "query_value query key =
     map_of (List.map_filter (split_once CHR ''='') (split_char CHR ''&'' query)) key"

definition required_query :: "string \<Rightarrow> string \<Rightarrow> ApiError + string" where
  "required_query query key =
     ok_or (query_value query key)
       (api_error Cat_Validation (''missing_'' @ key) (key @ '' query parameter is required''))"

definition tenant_from_query :: "string \<Rightarrow> ApiError + TenantId" where
  "tenant_from_query query = rbnd (required_query query ''tenant_id'') (\<lambda>t. Ok (TenantId t))"

definition gw_required_header :: "'x http_deps_scheme \<Rightarrow> HeaderMap \<Rightarrow> string \<Rightarrow> ApiError + string" where
  "gw_required_header H headers name =
     ok_or (header_text H headers name)
       (api_error Cat_Auth ''missing_auth_header'' (name @ '' header is required''))"

definition gw_require_scope :: "AuthContext \<Rightarrow> CapabilityScope \<Rightarrow> ApiError + unit" where
  "gw_require_scope auth scope =
     (if scope \<in> set (cl_ops (ac_claims auth)) then Ok ()
      else Err (api_error Cat_Policy ''missing_required_scope'' (scope_as_str scope @ '' scope is required'')))"

definition split_namespace_operation :: "string \<Rightarrow> string \<Rightarrow> ApiError + string \<times> string" where
  "split_namespace_operation path marker =
     ok_or (split_once_str marker (trim_start_str ''/v1/namespaces/'' path))
       (api_error Cat_Validation ''invalid_namespace_route'' ''invalid namespace route'')"

definition split_namespace_object_route :: "string \<Rightarrow> string \<Rightarrow> ApiError + string \<times> string" where
  "split_namespace_object_route path pfx =
     ok_or (split_once CHR ''/'' (trim_start_str pfx path))
       (api_error Cat_Validation ''invalid_namespace_route'' ''invalid namespace object route'')"

definition parse_preference :: "string \<Rightarrow> GetPreference option" where
  "parse_preference value =
     (if value = ''chunk-stream'' then Some Pref_ChunkStream
      else if value = ''manifest-only'' then Some Pref_ManifestOnly
      else if value = ''raw'' then Some Pref_Raw
      else None)"

definition parse_event_type :: "string \<Rightarrow> EventType option" where
  "parse_event_type value =
     (if value = ''object.committed'' then Some ObjectCommitted
      else if value = ''namespace.bound'' then Some NamespaceBound
      else if value = ''namespace.unbound'' then Some NamespaceUnbound
      else if value = ''namespace.tombstoned'' then Some NamespaceTombstoned
      else if value = ''auth.denied'' then Some AuthDenied
      else if value = ''pin.accepted'' then Some PinAccepted
      else None)"

definition gw_invalid_range :: ApiError where
  "gw_invalid_range = api_error Cat_Validation ''invalid_range'' ''invalid range''"

definition invalid_revision :: ApiError where
  "invalid_revision = api_error Cat_Validation ''invalid_revision'' ''invalid revision''"

definition invalid_limit :: ApiError where
  "invalid_limit = api_error Cat_Validation ''invalid_limit'' ''invalid limit''"

definition invalid_heartbeat :: ApiError where
  "invalid_heartbeat = api_error Cat_Validation ''invalid_heartbeat_ms'' ''invalid heartbeat''"

text \<open>An optional parameter that must parse when it is there.\<close>

definition parsed_query :: "(string \<Rightarrow> 'a option) \<Rightarrow> ApiError \<Rightarrow> string \<Rightarrow> string \<Rightarrow> ApiError + 'a option" where
  "parsed_query parse error query key =
     (case query_value query key of
        None \<Rightarrow> Ok None
      | Some value \<Rightarrow> rbnd (ok_or (parse value) error) (\<lambda>v. Ok (Some v)))"

definition range_from_query :: "string \<Rightarrow> ApiError + RangeSpec option" where
  "range_from_query query =
     (case (query_value query ''range_start'', query_value query ''range_end'') of
        (Some start, Some stop) \<Rightarrow>
          rbnd (ok_or (parse_u64 start) gw_invalid_range) (\<lambda>start.
          rbnd (ok_or (parse_u64 stop) gw_invalid_range) (\<lambda>stop.
          Ok (Some \<lparr>rg_start = start, rg_end = stop\<rparr>)))
      | _ \<Rightarrow> Ok None)"

definition verify_gateway_auth ::
  "'x http_deps_scheme \<Rightarrow> tls_exporter \<Rightarrow> HeaderMap \<Rightarrow> IssuerRegistry \<Rightarrow> ApiError + AuthContext" where
  "verify_gateway_auth H tls_export headers issuer_registry =
     rbnd (gw_required_header H headers ''x-hsp-capability'') (\<lambda>token_b64.
     rbnd (gw_required_header H headers ''x-hsp-channel-binding-kind'') (\<lambda>binding_kind.
     rbnd (gw_required_header H headers ''x-hsp-channel-binding-proof'') (\<lambda>proof_b64.
     rbnd (gw_required_header H headers ''x-hsp-channel-binding-nonce'') (\<lambda>nonce.
     verify_channel (gw_code H) tls_export issuer_registry token_b64
       \<lparr>cb_binding_kind = binding_kind, cb_proof_b64 = proof_b64, cb_nonce = nonce\<rparr>))))"

text \<open>The loop of \<open>read_http_body\<close> over the incoming chunks; the stream has finitely many.\<close>

primrec read_chunks :: "nat \<Rightarrow> (string + byte list) list \<Rightarrow> byte list \<Rightarrow> (string + byte list) \<times> (string + byte list) list" where
  "read_chunks max_body_bytes [] body = (Ok body, [])"
| "read_chunks max_body_bytes (r # incoming) body =
     (case r of
        Err message \<Rightarrow> (Err message, incoming)
      | Ok chunk \<Rightarrow>
          if length body + length chunk > max_body_bytes then
            (Err ''request body exceeds operation limit'', incoming)
          else read_chunks max_body_bytes incoming (body @ chunk))"

definition read_http_body :: "nat \<Rightarrow> (gw_world, string, byte list) comp" where
  "read_http_body max_body_bytes w =
     (case read_chunks max_body_bytes (h3_incoming (gw_stream w)) [] of
        (r, rest) \<Rightarrow> (r, w\<lparr>gw_stream := (gw_stream w)\<lparr>h3_incoming := rest\<rparr>\<rparr>))"

definition gw_body :: "nat \<Rightarrow> byte list gw_op" where
  "gw_body max_body_bytes = on_err http_body_error (read_http_body max_body_bytes)"

section \<open>Routes\<close>

record gw_request =
  gwq_method :: string
  gwq_path :: string
  gwq_query :: string
  gwq_headers :: HeaderMap

definition gw_reply :: "'a svc_op \<Rightarrow> ('a \<Rightarrow> ApiError + gw_response) \<Rightarrow> gw_response gw_op" where
  "gw_reply m response = bnd (at_service m) (\<lambda>v. lift_result (response v))"

definition gw_get_reply :: "'x gw_deps_scheme \<Rightarrow> GetResponse \<Rightarrow> ApiError + gw_response" where
  "gw_get_reply H response =
     (if gm_preference (gr_meta response) = Pref_ManifestOnly then
        gw_json_response H 200 (aj_get_meta (gw_json H) (gr_meta response))
      else chunk_stream_response H (gr_meta response) (gr_chunks response))"

definition gw_get_object ::
  "'x gw_deps_scheme \<Rightarrow> GatewayState \<Rightarrow> AuthContext \<Rightarrow> string \<Rightarrow> ObjectSelector \<Rightarrow> gw_response gw_op" where
  "gw_get_object H st auth query selector =
     bnd (lift_result (range_from_query query)) (\<lambda>rng.
     bnd (lift_result (tenant_from_query query)) (\<lambda>tenant_id.
     gw_reply (get (gw_code H) (gws_service st) auth
                 \<lparr>gq_tenant_id = tenant_id, gq_selector = selector,
                  gq_preference = Option.bind (query_value query ''prefer'') parse_preference, gq_range = rng\<rparr>)
       (gw_get_reply H)))"

definition gw_head_object ::
  "'x gw_deps_scheme \<Rightarrow> GatewayState \<Rightarrow> AuthContext \<Rightarrow> string \<Rightarrow> ObjectSelector \<Rightarrow> (HeadResponse \<Rightarrow> ApiError + gw_response)
   \<Rightarrow> gw_response gw_op" where
  "gw_head_object H st auth query selector response =
     bnd (lift_result (tenant_from_query query)) (\<lambda>tenant_id.
     gw_reply (head (gw_code H) (gws_service st) auth \<lparr>hq_tenant_id = tenant_id, hq_selector = selector\<rparr>) response)"

definition gw_put_chunk ::
  "'x gw_deps_scheme \<Rightarrow> GatewayState \<Rightarrow> AuthContext \<Rightarrow> string \<Rightarrow> string \<Rightarrow> gw_response gw_op" where
  "gw_put_chunk H st auth chunk_path query =
     bnd (gw_body (unat (lim_max_chunk_size (ir_limits info)))) (\<lambda>body.
     let parts = split_str ''/chunks/'' (trim_start_str ''/v1/uploads/'' chunk_path) in
     bnd (ensure (length parts = 2)
            (api_error Cat_Validation ''invalid_chunk_path'' ''invalid upload chunk path'')) (\<lambda>_.
     bnd (lift_result (tenant_from_query query)) (\<lambda>tenant_id.
     bnd (lift_result (ok_or (parse_u32 (parts ! 1))
            (api_error Cat_Validation ''invalid_chunk_index'' ''invalid chunk index''))) (\<lambda>chunk_index.
     bnd (lift_result (required_query query ''chunk_cid'')) (\<lambda>chunk_cid.
     bnd (lift_result (required_query query ''chunk_offset'')) (\<lambda>offset.
     bnd (lift_result (ok_or (parse_u64 offset)
            (api_error Cat_Validation ''invalid_chunk_offset'' ''invalid chunk offset''))) (\<lambda>chunk_offset.
     bnd (lift_result (required_query query ''chunk_length'')) (\<lambda>len.
     bnd (lift_result (ok_or (parse_u64 len)
            (api_error Cat_Validation ''invalid_chunk_length'' ''invalid chunk length''))) (\<lambda>chunk_length.
     bnd (lift_result (required_query query ''content_encoding'')) (\<lambda>content_encoding.
     gw_reply (put_chunk (gw_code H) (gws_service st) auth
                 \<lparr>pc_tenant_id = tenant_id, pc_session_id = parts ! 0, pc_chunk_index = chunk_index,
                  pc_chunk_cid = chunk_cid, pc_chunk_offset = chunk_offset, pc_chunk_length = chunk_length,
                  pc_content_encoding = content_encoding\<rparr> body)
       (\<lambda>response. gw_json_response H 200 (aj_put_chunk (gw_json H) response))))))))))))"

definition gw_list ::
  "'x gw_deps_scheme \<Rightarrow> GatewayState \<Rightarrow> AuthContext \<Rightarrow> string \<Rightarrow> string \<Rightarrow> gw_response gw_op" where
  "gw_list H st auth namespace query =
     bnd (lift_result (tenant_from_query query)) (\<lambda>tenant_id.
     bnd (lift_result (parsed_query parse_u32 invalid_limit query ''limit'')) (\<lambda>limit.
     gw_reply (list_op (gw_code H) (gws_service st) auth
                 \<lparr>lr_tenant_id = tenant_id, lr_namespace = namespace, lr_prefix = query_value query ''prefix'',
                  lr_cursor = query_value query ''cursor'', lr_limit = limit,
                  lr_recursive = (query_value query ''recursive'' = Some ''true''),
                  lr_include_tombstones = (query_value query ''include_tombstones'' = Some ''true'')\<rparr>)
       (\<lambda>response. gw_json_response H 200 (aj_list (gw_json H) response))))"

definition gw_resolve ::
  "'x gw_deps_scheme \<Rightarrow> GatewayState \<Rightarrow> AuthContext \<Rightarrow> string \<Rightarrow> string \<Rightarrow> string \<Rightarrow> gw_response gw_op" where
  "gw_resolve H st auth namespace item_path query =
     bnd (lift_result (tenant_from_query query)) (\<lambda>tenant_id.
     bnd (lift_result (parsed_query parse_u64 invalid_revision query ''at_revision'')) (\<lambda>at_revision.
     bnd (lift_result (parsed_query parse_u64 invalid_revision query ''if_revision'')) (\<lambda>if_revision.
     gw_reply (resolve (gw_code H) (gws_service st) auth
                 \<lparr>rs_tenant_id = tenant_id, rs_namespace = namespace, rs_path = item_path,
                  rs_at_revision = at_revision, rs_if_revision = if_revision\<rparr>)
       (\<lambda>response. gw_json_response H 200 (aj_resolve (gw_json H) response)))))"

text \<open>The routes of objects (\<open>GET\<close> and \<open>HEAD\<close>), of uploads and of namespaces; \<open>None\<close> is the next group.\<close>

definition gw_object_routes ::
  "'x gw_deps_scheme \<Rightarrow> GatewayState \<Rightarrow> tls_exporter \<Rightarrow> gw_request \<Rightarrow> gw_response gw_op option" where
  "gw_object_routes H st tls_export request =
     (let path = gwq_path request; query = gwq_query request; method = gwq_method request;
          auth = lift_result (verify_gateway_auth H tls_export (gwq_headers request) (gws_issuer_registry st));
          ns = ''/v1/objects/namespace/''; by_cid = ''/v1/objects/cid/'';
          json_head = (\<lambda>response. gw_json_response H 200 (aj_head (gw_json H) response)) in
      if method = ''GET'' \<and> starts_with path ns \<and> ends_with path ''/metadata'' then
        Some (bnd (lift_result (split_namespace_object_route (trim_end_str ''/metadata'' path) ns)) (\<lambda>(namespace, item).
              bnd auth (\<lambda>auth. gw_head_object H st auth query (selector_namespace namespace item) json_head)))
      else if method = ''GET'' \<and> starts_with path by_cid \<and> ends_with path ''/metadata'' then
        Some (bnd auth (\<lambda>auth.
              gw_head_object H st auth query
                (selector_cid (trim_end_str ''/metadata'' (trim_start_str by_cid path))) json_head))
      else if method = ''GET'' \<and> starts_with path ns then
        Some (bnd (lift_result (split_namespace_object_route path ns)) (\<lambda>(namespace, item).
              bnd auth (\<lambda>auth. gw_get_object H st auth query (selector_namespace namespace item))))
      else if method = ''HEAD'' \<and> starts_with path ns then
        Some (bnd (lift_result (split_namespace_object_route path ns)) (\<lambda>(namespace, item).
              bnd auth (\<lambda>auth. gw_head_object H st auth query (selector_namespace namespace item) (gw_head_response H))))
      else if method = ''GET'' \<and> starts_with path by_cid then
        Some (bnd auth (\<lambda>auth. gw_get_object H st auth query (selector_cid (trim_start_str by_cid path))))
      else if method = ''HEAD'' \<and> starts_with path by_cid then
        Some (bnd auth (\<lambda>auth.
              gw_head_object H st auth query (selector_cid (trim_start_str by_cid path)) (gw_head_response H)))
      else None)"

definition gw_upload_routes ::
  "'x gw_deps_scheme \<Rightarrow> GatewayState \<Rightarrow> tls_exporter \<Rightarrow> gw_request \<Rightarrow> gw_response gw_op option" where
  "gw_upload_routes H st tls_export request =
     (let path = gwq_path request; query = gwq_query request; method = gwq_method request;
          auth = lift_result (verify_gateway_auth H tls_export (gwq_headers request) (gws_issuer_registry st));
          uploads = ''/v1/uploads/'' in
      if method = ''PUT'' \<and> starts_with path uploads \<and> str_contains path ''/chunks/'' then
        Some (bnd auth (\<lambda>auth. gw_put_chunk H st auth path query))
      else if method = ''POST'' \<and> starts_with path uploads \<and> ends_with path '':commit'' then
        Some (bnd auth (\<lambda>auth.
              bnd (gw_body GATEWAY_JSON_BODY_LIMIT_BYTES) (\<lambda>body.
              bnd (lift_result (map_err bad_json (aj_put_commit_request (gw_json H) body))) (\<lambda>commit.
              gw_reply (put_commit (gw_code H) (gws_service st) auth
                          (commit\<lparr>pm_session_id := trim_end_str '':commit'' (trim_start_str uploads path)\<rparr>))
                (\<lambda>response. gw_json_response H 200 (aj_put_commit (gw_json H) response))))))
      else None)"

definition gw_namespace_routes ::
  "'x gw_deps_scheme \<Rightarrow> GatewayState \<Rightarrow> tls_exporter \<Rightarrow> gw_request \<Rightarrow> gw_response gw_op option" where
  "gw_namespace_routes H st tls_export request =
     (let path = gwq_path request; query = gwq_query request; method = gwq_method request;
          auth = lift_result (verify_gateway_auth H tls_export (gwq_headers request) (gws_issuer_registry st));
          ns = ''/v1/namespaces/'' in
      if method = ''GET'' \<and> starts_with path ns \<and> str_contains path ''/resolve/'' then
        Some (bnd (lift_result (split_namespace_operation path ''/resolve/'')) (\<lambda>(namespace, item).
              bnd auth (\<lambda>auth. gw_resolve H st auth namespace item query)))
      else if method = ''PUT'' \<and> starts_with path ns \<and> str_contains path ''/bind/'' then
        Some (bnd (lift_result (split_namespace_operation path ''/bind/'')) (\<lambda>(namespace, item).
              bnd auth (\<lambda>auth.
              bnd (gw_body GATEWAY_JSON_BODY_LIMIT_BYTES) (\<lambda>body.
              bnd (lift_result (map_err bad_json (aj_bind_request (gw_json H) body))) (\<lambda>bind.
              gw_reply (bind_op (gw_code H) (gws_service st) auth (bind\<lparr>br_namespace := namespace, br_path := item\<rparr>))
                (\<lambda>response. gw_json_response H 200 (aj_bind (gw_json H) response)))))))
      else if method = ''DELETE'' \<and> starts_with path ns \<and> str_contains path ''/bind/'' then
        Some (bnd (lift_result (split_namespace_operation path ''/bind/'')) (\<lambda>(namespace, item).
              bnd auth (\<lambda>auth.
              bnd (gw_body GATEWAY_JSON_BODY_LIMIT_BYTES) (\<lambda>body.
              bnd (lift_result (map_err bad_json (aj_unbind_request (gw_json H) body))) (\<lambda>unbind.
              gw_reply (unbind_op (gw_code H) (gws_service st) auth (unbind\<lparr>ub_namespace := namespace, ub_path := item\<rparr>))
                (\<lambda>response. gw_json_response H 200 (aj_unbind (gw_json H) response)))))))
      else if method = ''GET'' \<and> starts_with path ns \<and> ends_with path ''/list'' then
        Some (bnd auth (\<lambda>auth.
              gw_list H st auth (trim_end_char CHR ''/'' (trim_end_str ''/list'' (trim_start_str ns path))) query))
      else None)"

definition gw_route_request ::
  "'x gw_deps_scheme \<Rightarrow> GatewayState \<Rightarrow> tls_exporter \<Rightarrow> gw_request \<Rightarrow> gw_response gw_op" where
  "gw_route_request H st tls_export request =
     (let path = gwq_path request; method = gwq_method request;
          auth = lift_result (verify_gateway_auth H tls_export (gwq_headers request) (gws_issuer_registry st)) in
      if method = ''GET'' \<and> path = ''/.well-known/hsp'' then
        lift_result (gw_json_response H 200 (aj_bootstrap (gw_json H) (bootstrap_document (gws_service st))))
      else if method = ''GET'' \<and> path = ''/v1/info'' then
        lift_result (gw_json_response H 200 (aj_info (gw_json H) info))
      else if method = ''GET'' \<and> path = ''/metrics'' then
        bnd auth (\<lambda>auth.
        bnd (lift_result (gw_require_scope auth Sc_AdminMetricsRead)) (\<lambda>_ w.
        (gw_text_response H 200 ''text/plain; version=0.0.4'' (prometheus_metrics (gw_service w)), w)))
      else if method = ''GET'' \<and> path = ''/v1/observability/logs'' then
        bnd auth (\<lambda>auth.
        bnd (lift_result (gw_require_scope auth Sc_AdminAuditRead)) (\<lambda>_ w.
        (gw_json_response H 200 (aj_logs (gw_json H) (structured_logs (gw_service w))), w)))
      else if method = ''POST'' \<and> path = ''/v1/uploads'' then
        bnd auth (\<lambda>auth.
        bnd (gw_body GATEWAY_JSON_BODY_LIMIT_BYTES) (\<lambda>body.
        bnd (lift_result (map_err bad_json (aj_put_init_request (gw_json H) body))) (\<lambda>init.
        gw_reply (put_init (gw_code H) (gws_service st) auth init)
          (\<lambda>response. gw_json_response H 200 (aj_put_init (gw_json H) response)))))
      else case gw_object_routes H st tls_export request of
        Some handler \<Rightarrow> handler
      | None \<Rightarrow>
          (case gw_upload_routes H st tls_export request of
             Some handler \<Rightarrow> handler
           | None \<Rightarrow>
               (case gw_namespace_routes H st tls_export request of
                  Some handler \<Rightarrow> handler
                | None \<Rightarrow> throw (api_error Cat_NotFound ''route_not_found'' ''gateway route not found''))))"

section \<open>Subscriptions\<close>

definition gw_subscribe_request :: "string \<Rightarrow> ApiError + SubscribeRequest" where
  "gw_subscribe_request query =
     rbnd (tenant_from_query query) (\<lambda>tenant_id.
     rbnd (parsed_query parse_u64 invalid_revision query ''from_seq'') (\<lambda>from_seq.
     rbnd (parsed_query parse_u64 invalid_heartbeat query ''heartbeat_ms'') (\<lambda>heartbeat_ms.
     rbnd (parsed_query parse_u32 invalid_limit query ''batch_max'') (\<lambda>batch_max.
     Ok \<lparr>sr_tenant_id = tenant_id,
         sr_filters = [\<lparr>sf_namespace_prefix = query_value query ''namespace_prefix'',
                        sf_path_exact = query_value query ''path_exact'',
                        sf_object_cid = query_value query ''object_cid'',
                        sf_event_type = Option.bind (query_value query ''event_type'') parse_event_type,
                        sf_tenant_scope = None\<rparr>],
         sr_cursor = query_value query ''cursor'', sr_from_seq = from_seq, sr_heartbeat_ms = heartbeat_ms,
         sr_batch_max = batch_max\<rparr>))))"

primrec gw_send_envelopes :: "'x gw_deps_scheme \<Rightarrow> SubscribeEnvelope list \<Rightarrow> unit gw_op" where
  "gw_send_envelopes H [] = ret ()"
| "gw_send_envelopes H (envelope # envelopes) =
     bnd (lift_result (map_err bad_json (aj_envelope (gw_json H) envelope))) (\<lambda>line.
     bnd (on_err http3_error (h3_send (Sent_Data (line @ as_bytes newline)))) (\<lambda>_.
     gw_send_envelopes H envelopes))"

definition gw_poll ::
  "'x gw_deps_scheme \<Rightarrow> GatewayState \<Rightarrow> AuthContext \<Rightarrow> SubscribeRequest \<Rightarrow> EventCursor \<Rightarrow> gw_world
   \<Rightarrow> ((ApiError + unit) + bool \<times> EventCursor) \<times> gw_world" where
  "gw_poll H st auth subscribe cursor w =
     (case bnd (at_service (subscribe_poll (gw_code H) (gws_service st) auth subscribe cursor)) (\<lambda>(envelopes, next_cursor).
           bnd (gw_send_envelopes H envelopes) (\<lambda>_.
           ret (list_ex (\<lambda>envelope. se_kind envelope = Env_Event) envelopes, next_cursor))) w of
        (Ok r, w') \<Rightarrow> (Inr r, w')
      | (Err error, w') \<Rightarrow> (Inl (Err error), w'))"

definition heartbeat_of :: "SubscribeRequest \<Rightarrow> u64" where
  "heartbeat_of subscribe = min (case sr_heartbeat_ms subscribe of None \<Rightarrow> 250 | Some ms \<Rightarrow> ms) 5000"

definition gw_subscribe_loop ::
  "'x gw_deps_scheme \<Rightarrow> GatewayState \<Rightarrow> (u64 \<Rightarrow> nat \<Rightarrow> service \<Rightarrow> service) \<Rightarrow> AuthContext \<Rightarrow> SubscribeRequest \<Rightarrow> EventCursor
   \<Rightarrow> gw_world \<Rightarrow> ((ApiError + unit) \<times> gw_world) option" where
  "gw_subscribe_loop H st asleep auth subscribe cursor w =
     poll_loop (gw_poll H st auth subscribe)
       (on_err http3_error (h3_send Sent_Finish))
       (\<lambda>n w. w\<lparr>gw_service := asleep (heartbeat_of subscribe) n (gw_service w)\<rparr>) 0 0 cursor w"

definition handle_gateway_subscribe ::
  "'x gw_deps_scheme \<Rightarrow> GatewayState \<Rightarrow> (u64 \<Rightarrow> nat \<Rightarrow> service \<Rightarrow> service) \<Rightarrow> tls_exporter \<Rightarrow> gw_request
   \<Rightarrow> gw_world \<Rightarrow> ((ApiError + unit) \<times> gw_world) option" where
  "handle_gateway_subscribe H st asleep tls_export request w =
     (case bnd (lift_result (verify_gateway_auth H tls_export (gwq_headers request) (gws_issuer_registry st))) (\<lambda>auth.
           bnd (lift_result (gw_subscribe_request (gwq_query request))) (\<lambda>subscribe.
           bnd (at_service (subscribe_start (gw_code H) (gws_service st) auth subscribe)) (\<lambda>cursor.
           bnd (lift_result (build_response H http_build_error 200
                  [(''content-type'', ''application/x-hsp-events+jsonl'')] [])) (\<lambda>response.
           bnd (on_err http3_error (h3_send (Sent_Response response))) (\<lambda>_.
           ret (auth, subscribe, cursor)))))) w of
        (Err error, w') \<Rightarrow> Some (Err error, w')
      | (Ok (auth, subscribe, cursor), w') \<Rightarrow> gw_subscribe_loop H st asleep auth subscribe cursor w')"

section \<open>One request of a connection\<close>

primrec h3_send_all :: "byte list list \<Rightarrow> (gw_world, string, unit) comp" where
  "h3_send_all [] = ret ()"
| "h3_send_all (chunk # chunks) = bnd (h3_send (Sent_Data chunk)) (\<lambda>_. h3_send_all chunks)"

definition gw_send_reply :: "gw_response \<Rightarrow> (gw_world, string, unit) comp" where
  "gw_send_reply reply =
     bnd (h3_send (Sent_Response (fst reply))) (\<lambda>_.
     bnd (case snd reply of None \<Rightarrow> ret () | Some chunks \<Rightarrow> h3_send_all chunks) (\<lambda>_.
     h3_send Sent_Finish))"

definition gw_send_error :: "'x gw_deps_scheme \<Rightarrow> ApiError \<Rightarrow> (gw_world, string, unit) comp" where
  "gw_send_error H error = bnd (lift_result (gw_error_response H error)) gw_send_reply"

text \<open>An error of this ends the connection. \<open>None\<close> is a subscription that never ends.\<close>

definition handle_gateway_request ::
  "'x gw_deps_scheme \<Rightarrow> GatewayState \<Rightarrow> (u64 \<Rightarrow> nat \<Rightarrow> service \<Rightarrow> service) \<Rightarrow> tls_exporter \<Rightarrow> gw_request
   \<Rightarrow> gw_world \<Rightarrow> ((string + unit) \<times> gw_world) option" where
  "handle_gateway_request H st asleep tls_export request w =
     (if gwq_method request = ''GET'' \<and> gwq_path request = ''/v1/events'' then
        map_option (\<lambda>(r, w'). case r of Ok _ \<Rightarrow> (Ok (), w') | Err error \<Rightarrow> gw_send_error H error w')
          (handle_gateway_subscribe H st asleep tls_export request w)
      else
        Some (case gw_route_request H st tls_export request w of
                (Ok reply, w') \<Rightarrow> gw_send_reply reply w'
              | (Err error, w') \<Rightarrow> gw_send_error H error w'))"

end
