(* ===== verification/HSP_Safety.thy ===== *)
theory HSP_Safety
  imports HSP_Encrypted HSP_Query
begin

text \<open>
  Safety of the service over any sequence of requests, with any system call failing: requests of
  one set of tenants never change a file of another tenant, and what a chunk slot holds is always
  content-addressed. Both are instances of one locale, in which every operation is gone through
  once.
\<close>

section \<open>The service as a request handler\<close>

datatype ServiceRequest =
    Rq_PutInit PutInitRequest
  | Rq_PutChunk PutChunkRequest "byte list"
  | Rq_PutCommit PutCommitRequest
  | Rq_Head HeadRequest
  | Rq_Get GetRequest
  | Rq_Resolve ResolveRequest
  | Rq_Bind BindRequest
  | Rq_Unbind UnbindRequest
  | Rq_List ListRequest
  | Rq_Subscribe SubscribeRequest
  | Rq_Poll SubscribeRequest EventCursor

fun request_tenant :: "ServiceRequest \<Rightarrow> TenantId" where
  "request_tenant (Rq_PutInit r) = pi_tenant_id r"
| "request_tenant (Rq_PutChunk r bytes) = pc_tenant_id r"
| "request_tenant (Rq_PutCommit r) = pm_tenant_id r"
| "request_tenant (Rq_Head r) = hq_tenant_id r"
| "request_tenant (Rq_Get r) = gq_tenant_id r"
| "request_tenant (Rq_Resolve r) = rs_tenant_id r"
| "request_tenant (Rq_Bind r) = br_tenant_id r"
| "request_tenant (Rq_Unbind r) = ub_tenant_id r"
| "request_tenant (Rq_List r) = lr_tenant_id r"
| "request_tenant (Rq_Subscribe r) = sr_tenant_id r"
| "request_tenant (Rq_Poll r c) = sr_tenant_id r"

fun serve :: "service_deps \<Rightarrow> AlphaService \<Rightarrow> AuthContext \<times> ServiceRequest \<Rightarrow> service \<Rightarrow> (unit + unit) \<times> service" where
  "serve D svc (auth, Rq_PutInit r) = discard (put_init D svc auth r)"
| "serve D svc (auth, Rq_PutChunk r bytes) = discard (put_chunk D svc auth r bytes)"
| "serve D svc (auth, Rq_PutCommit r) = discard (put_commit D svc auth r)"
| "serve D svc (auth, Rq_Head r) = discard (head D svc auth r)"
| "serve D svc (auth, Rq_Get r) = discard (get D svc auth r)"
| "serve D svc (auth, Rq_Resolve r) = discard (resolve D svc auth r)"
| "serve D svc (auth, Rq_Bind r) = discard (bind_op D svc auth r)"
| "serve D svc (auth, Rq_Unbind r) = discard (unbind_op D svc auth r)"
| "serve D svc (auth, Rq_List r) = discard (list_op D svc auth r)"
| "serve D svc (auth, Rq_Subscribe r) = discard (subscribe_start D svc auth r)"
| "serve D svc (auth, Rq_Poll r c) = discard (subscribe_poll D svc auth r c)"

section \<open>Invariants of the stored files\<close>

lemma keeps_policy_authorize [keeps_rules]: "keeps J (policy_authorize auth meta)"
  unfolding policy_authorize_def by (intro keeps_rules) (auto intro!: keepsI split: prod.splits)

text \<open>Authorizing writes the replay log and, when it denies, an event.\<close>

lemma keeps_authorize:
  assumes "\<And>key v. keeps J (create_encrypted_json D svc (json_replay D) (am_tenant_id meta) ''replay'' key v)"
    and "\<And>key v. keeps J (write_encrypted_json D svc (json_sequence D) (am_tenant_id meta) ''events'' key v)"
    and "\<And>key v. keeps J (write_encrypted_json D svc (json_event D) (am_tenant_id meta) ''events'' key v)"
  shows "keeps J (service_authorize D svc auth meta)"
  unfolding service_authorize_def observe_durable_replay_def authorization_denied_api_error_def append_event_def
    next_event_seq_def
  by (intro keeps_rules assms)

definition namespace_kinds :: "string list" where
  "namespace_kinds = [''namespace-current'', ''namespace-journal'', ''namespace-revisions'']"

lemma keeps_event_writes:
  assumes "\<And>kind key. kind \<in> {''audit'', ''events''} \<Longrightarrow> free_at J (slot D svc t kind key)"
  shows "keeps J (append_event D svc t ev)" "keeps J (write_audit D svc t seq op subject)"
  unfolding append_event_def next_event_seq_def write_audit_def
  by (intro keeps_rules keeps_write_encrypted_json assms; simp)+

text \<open>The slots a change of the namespace writes.\<close>

lemma keeps_namespace_writes:
  assumes "\<And>kind. kind \<in> set namespace_kinds \<Longrightarrow> free_at J (slot D svc t kind ns)"
  shows "keeps J (write_encrypted_json D svc c t ''namespace-current'' ns v)"
    "keeps J (write_encrypted_json D svc c t ''namespace-journal'' ns v)"
    "keeps J (write_encrypted_json D svc c t ''namespace-revisions'' ns v)"
  by (rule keeps_write_encrypted_json; rule assms; simp add: namespace_kinds_def)+

lemma keeps_bind_apply:
  assumes "\<And>kind key. kind \<in> {''audit'', ''events''} \<Longrightarrow> free_at J (slot D svc (br_tenant_id r) kind key)"
    and "\<And>kind. kind \<in> set namespace_kinds \<Longrightarrow> free_at J (slot D svc (br_tenant_id r) kind ns)"
  shows "keeps J (bind_apply D svc r ns path rec)"
  unfolding bind_apply_def bind_finish_def namespace_change_def next_namespace_revision_def write_namespace_current_state_def append_namespace_journal_def
    namespace_current_state_def namespace_journal_def manifest_record_def
  by (intro keeps_rules keeps_event_writes keeps_namespace_writes assms)

lemma keeps_unbind_apply:
  assumes "\<And>kind key. kind \<in> {''audit'', ''events''} \<Longrightarrow> free_at J (slot D svc (ub_tenant_id u) kind key)"
    and "\<And>kind. kind \<in> set namespace_kinds \<Longrightarrow> free_at J (slot D svc (ub_tenant_id u) kind ns)"
  shows "keeps J (unbind_apply D svc u ns path rec)"
  unfolding unbind_apply_def unbind_finish_def namespace_change_def next_namespace_revision_def write_namespace_current_state_def append_namespace_journal_def
    namespace_current_state_def namespace_journal_def
  by (intro keeps_rules keeps_event_writes keeps_namespace_writes assms)

text \<open>The kinds of record whose writes are obligations of their own.\<close>

definition data_kinds :: "string list" where
  "data_kinds = ''chunks'' # ''replay'' # namespace_kinds"

locale file_invariant =
  fixes D :: service_deps and svc :: AlphaService and T :: "TenantId set"
    and J :: disk_prop
  assumes free_kind: "t \<in> T \<Longrightarrow> kind \<in> set store_kinds \<Longrightarrow> kind \<notin> set data_kinds \<Longrightarrow> free_at J (slot D svc t kind key)"
    and bind_step: "br_tenant_id r \<in> T \<Longrightarrow> nm_path rec = path \<Longrightarrow> nm_kind rec = NM_Bind \<Longrightarrow>
      keeps J (bind_apply D svc r ns path rec)"
    and unbind_step: "ub_tenant_id u \<in> T \<Longrightarrow> nm_path rec = path \<Longrightarrow>
      nm_kind rec = (if ub_hard_delete u then NM_HardDelete else NM_Unbind) \<Longrightarrow>
      keeps J (unbind_apply D svc u ns path rec)"
    and replay_step: "t \<in> T \<Longrightarrow> keeps J (create_encrypted_json D svc (json_replay D) t ''replay'' key v)"
    and chunk_write: "t \<in> T \<Longrightarrow> keeps J (write_encrypted_bytes D svc t ''chunks'' (cid_from_bytes D bytes) bytes)"
begin

lemma keeps_json:
  assumes "t \<in> T" "kind \<in> set store_kinds" "kind \<notin> set data_kinds"
  shows "keeps J (write_encrypted_json D svc c t kind key v)" "keeps J (create_encrypted_json D svc c t kind key v)"
    "keeps J (delete_store_key D svc t kind key)"
  by (rule keeps_write_encrypted_json keeps_create_encrypted_json keeps_delete_store_key; rule free_kind [OF assms])+

lemma keeps_kinds:
  assumes "t \<in> T"
  shows "keeps J (write_encrypted_json D svc c t ''manifests'' key v)"
    "keeps J (write_encrypted_json D svc c t ''sessions'' key v)"
    "keeps J (write_encrypted_json D svc c t ''audit'' key v)"
    "keeps J (write_encrypted_json D svc c t ''idempotency'' key v)"
    "keeps J (write_encrypted_json D svc c t ''events'' key v)"
    "keeps J (delete_store_key D svc t ''manifests'' key)"
  by (rule keeps_json [OF assms]; simp add: store_kinds_def data_kinds_def namespace_kinds_def)+

lemma keeps_observe_op: "keeps J (observe_op a b c d e f g h)"
  unfolding observe_op_def by (intro keeps_rules)

lemma keeps_next_event_seq: "t \<in> T \<Longrightarrow> keeps J (next_event_seq D svc t)"
  unfolding next_event_seq_def by (intro keeps_rules keeps_kinds)

lemma keeps_append_event: "t \<in> T \<Longrightarrow> keeps J (append_event D svc t ev)"
  unfolding append_event_def by (intro keeps_rules keeps_kinds keeps_next_event_seq)

lemma keeps_write_audit: "t \<in> T \<Longrightarrow> keeps J (write_audit D svc t seq op subject)"
  unfolding write_audit_def by (intro keeps_rules keeps_kinds)

lemma keeps_service_authorize: "am_tenant_id meta \<in> T \<Longrightarrow> keeps J (service_authorize D svc auth meta)"
  by (intro keeps_authorize replay_step keeps_kinds)

end

lemma tenant_of_meta [simp]:
  "am_tenant_id (auth_meta op t subj) = t" "am_tenant_id (put_init_meta pinit mcid) = pi_tenant_id pinit"
  "am_tenant_id (put_chunk_meta pchunk sess n) = pc_tenant_id pchunk"
  "am_tenant_id (put_commit_meta pcommit sess) = pm_tenant_id pcommit"
  "am_tenant_id (namespace_meta op t ns p) = t" "am_tenant_id (selector_meta op t res) = t"
  "am_tenant_id (filter_meta t i flt) = t"
  by (simp_all add: auth_meta_def put_init_meta_def put_chunk_meta_def put_commit_meta_def namespace_meta_def
      selector_meta_def filter_meta_def)

lemma verified_bind_record:
  "verify_signed_bind_record D svc r ns path = Ok rec \<Longrightarrow> nm_path rec = path \<and> nm_kind rec = NM_Bind"
  by (auto simp: verify_signed_bind_record_def rbnd_def ok_or_def Let_def split: option.splits sum.splits if_splits)

lemma verified_unbind_record:
  "verify_signed_unbind_record D svc u ns path = Ok rec \<Longrightarrow>
   nm_path rec = path \<and> nm_kind rec = (if ub_hard_delete u then NM_HardDelete else NM_Unbind)"
  by (auto simp: verify_signed_unbind_record_def rbnd_def ok_or_def Let_def split: option.splits sum.splits if_splits)

context file_invariant
begin

lemmas op_rules = keeps_rules keeps_kinds keeps_observe_op keeps_append_event keeps_write_audit keeps_service_authorize

lemma keeps_reads:
  "keeps J (manifest_record D svc t cid)" "keeps J (next_read_event_seq D svc t)"
  "keeps J (namespace_current_state D svc t ns)" "keeps J (namespace_journal D svc t ns)"
  "keeps J (namespace_snapshot_at D svc t ns r)" "keeps J (read_session D svc t sid)"
  unfolding manifest_record_def next_read_event_seq_def namespace_current_state_def namespace_journal_def
    namespace_snapshot_at_def read_session_def
  by (intro keeps_rules)+

lemma keeps_selector_resolution: "keeps J (selector_resolution D svc t sel)"
  unfolding selector_resolution_def resolve_snapshot_def
  by (cases "sel_kind sel") (auto simp: Let_def intro!: op_rules keeps_reads)

lemma keeps_missing_chunks: "keeps J (missing_chunks D svc t chunks)"
  by (induction chunks) (auto intro!: keeps_rules)

lemma keeps_require_chunks: "keeps J (require_chunks D svc t chunks)"
  by (induction chunks) (auto intro!: keeps_rules)

lemma keeps_put_init: "pi_tenant_id r \<in> T \<Longrightarrow> keeps J (put_init D svc auth r)"
  unfolding put_init_def put_init_fresh_def
  by (intro op_rules keeps_missing_chunks; simp)

lemma keeps_put_chunk: "pc_tenant_id r \<in> T \<Longrightarrow> keeps J (put_chunk D svc auth r bytes)"
  unfolding put_chunk_def
  using chunk_write [of "pc_tenant_id r" bytes]
  by (intro op_rules keeps_reads; simp)

lemma keeps_bind_internal: "br_tenant_id r \<in> T \<Longrightarrow> keeps J (bind_internal D svc auth r b)"
  unfolding bind_internal_def
  by (intro keeps_lift_bnd keeps_prod op_rules bind_step; simp add: verified_bind_record)

lemma keeps_unbind_internal: "ub_tenant_id r \<in> T \<Longrightarrow> keeps J (unbind_internal D svc auth r b)"
  unfolding unbind_internal_def
  by (intro keeps_lift_bnd keeps_prod op_rules unbind_step; simp add: verified_unbind_record)

lemma keeps_commit_bind: "pm_tenant_id r \<in> T \<Longrightarrow> keeps J (commit_bind D svc auth r sess mrec)"
  unfolding commit_bind_def
  by (intro op_rules keeps_bind_internal; simp add: atomic_bind_request_def)

lemma keeps_put_commit: "pm_tenant_id r \<in> T \<Longrightarrow> keeps J (put_commit D svc auth r)"
  unfolding put_commit_def put_commit_fresh_def
  by (intro op_rules keeps_reads keeps_require_chunks keeps_commit_bind; simp)

lemma keeps_get_chunks: "keeps J (get_chunks D svc t a b chunks)"
  unfolding read_chunk_def by (induction chunks) (auto simp: read_chunk_def intro!: keeps_rules)

lemma keeps_queries:
  "hq_tenant_id hq \<in> T \<Longrightarrow> keeps J (head D svc auth hq)"
  "gq_tenant_id gq \<in> T \<Longrightarrow> keeps J (get D svc auth gq)"
  "rs_tenant_id rs \<in> T \<Longrightarrow> keeps J (resolve D svc auth rs)"
  "lr_tenant_id lr \<in> T \<Longrightarrow> keeps J (list_op D svc auth lr)"
  unfolding head_def get_def resolve_def list_op_def list_position_def
  by (intro op_rules keeps_reads keeps_selector_resolution keeps_get_chunks; simp)+

lemma keeps_authorize_filters: "t \<in> T \<Longrightarrow> keeps J (authorize_filters D svc auth t i fs)"
  by (induction fs arbitrary: i) (auto intro!: op_rules)

lemma keeps_read_events: "keeps J (read_events D svc t n seqs items)"
  by (induction seqs arbitrary: items) (auto intro!: keeps_rules)

lemma keeps_subscribe:
  "sr_tenant_id sr \<in> T \<Longrightarrow> keeps J (subscribe_start D svc auth sr)"
  "sr_tenant_id sr \<in> T \<Longrightarrow> keeps J (subscribe_poll D svc auth sr c)"
  unfolding subscribe_poll_def subscribe_start_def ensure_event_cursor_within_window_def read_event_records_after_def
  by (intro op_rules keeps_reads keeps_authorize_filters keeps_read_events; simp)+

lemma keeps_serve: "request_tenant req \<in> T \<Longrightarrow> keeps J (serve D svc (auth, req))"
  by (cases req)
    (simp_all add: bind_op_def unbind_op_def keeps_discard keeps_put_init keeps_put_chunk keeps_put_commit
      keeps_queries keeps_bind_internal keeps_unbind_internal keeps_subscribe)

lemma keeps_run:
  "(\<And>auth req. (auth, req) \<in> set reqs \<Longrightarrow> request_tenant req \<in> T) \<Longrightarrow> J (fate s) (w_files s) \<Longrightarrow>
   J (fate (snd (run_steps (serve D svc) reqs s))) (w_files (snd (run_steps (serve D svc) reqs s)))"
proof (induction reqs arbitrary: s)
  case (Cons ar reqs)
  obtain auth req where ar: "ar = (auth, req)" by (cases ar)
  have "J (fate (snd (serve D svc ar s))) (w_files (snd (serve D svc ar s)))"
    using Cons.prems keeps_serve [of req auth] by (auto simp: ar intro: keepsD [OF _ prod.collapse [symmetric]])
  moreover have "request_tenant req \<in> T" if "(auth, req) \<in> set reqs" for auth req
    using that by (intro Cons.prems(1) [of auth req]) simp
  ultimately show ?case using Cons.IH by simp
qed simp

end

text \<open>Where every record but a chunk is free, the steps of the namespace keep the property too.\<close>

locale record_free_invariant =
  fixes D :: service_deps and svc :: AlphaService and T :: "TenantId set" and J :: disk_prop
  assumes free_record: "t \<in> T \<Longrightarrow> kind \<in> set store_kinds \<Longrightarrow> kind \<noteq> ''chunks'' \<Longrightarrow> free_at J (slot D svc t kind key)"
    and chunk_step: "t \<in> T \<Longrightarrow> keeps J (write_encrypted_bytes D svc t ''chunks'' (cid_from_bytes D bytes) bytes)"
begin

lemma keeps_replay_record: "t \<in> T \<Longrightarrow> keeps J (create_encrypted_json D svc c t ''replay'' key v)"
  by (rule keeps_create_encrypted_json, rule free_record) (simp_all add: store_kinds_def)

lemma keeps_namespace_steps:
  "br_tenant_id r \<in> T \<Longrightarrow> keeps J (bind_apply D svc r ns path rec)"
  "ub_tenant_id u \<in> T \<Longrightarrow> keeps J (unbind_apply D svc u ns path rec)"
  by (rule keeps_bind_apply keeps_unbind_apply; rule free_record; auto simp: store_kinds_def namespace_kinds_def)+

end

sublocale record_free_invariant \<subseteq> file_invariant D svc T J
  by unfold_locales (simp_all add: free_record data_kinds_def namespace_kinds_def keeps_namespace_steps keeps_replay_record chunk_step)

section \<open>Tenant isolation\<close>

text \<open>What base64url guarantees of the directory names of tenants.\<close>

definition dir_laws :: "'x core_deps_scheme \<Rightarrow> bool" where
  "dir_laws D \<longleftrightarrow>
     (\<forall>a b. b64url_encode D a = b64url_encode D b \<longrightarrow> a = b) \<and> (\<forall>bs. CHR ''/'' \<notin> set (b64url_encode D bs))"

lemma slot_tenant_neq:
  assumes "as_store svc = Filesystem root" "dir_laws D" "t \<noteq> t'" "plain_kind k" "plain_kind k'"
  shows "slot D svc t k key \<noteq> slot D svc t' k' key'"
proof
  assume "slot D svc t k key = slot D svc t' k' key'"
  then have "store_key D t k key = store_key D t' k' key'"
    using assms by (simp add: slot_def path_join_inject store_key_not_absolute)
  then have "tenant_store_dir D t @ CHR ''/'' # store_file_name D key = tenant_store_dir D t' @ CHR ''/'' # store_file_name D key'"
    using assms(4,5) append_sep_eq [of "CHR ''/''" k k'] by (simp add: store_key_def plain_kind_def)
  then have "tenant_store_dir D t = tenant_store_dir D t'"
    using assms(2) append_sep_eq [of "CHR ''/''" "tenant_store_dir D t" "tenant_store_dir D t'"]
    by (simp add: tenant_store_dir_def dir_laws_def)
  then have "as_bytes (tenant_str t) = as_bytes (tenant_str t')"
    using assms(2) unfolding tenant_store_dir_def dir_laws_def by blast
  then show False using assms(3) by (cases t; cases t') simp
qed

definition isolated ::
  "service_deps \<Rightarrow> AlphaService \<Rightarrow> TenantId \<Rightarrow> (string \<rightharpoonup> byte list) \<Rightarrow> (string \<rightharpoonup> byte list) \<Rightarrow> bool" where
  "isolated D svc t f0 f \<longleftrightarrow>
     (dir_laws D \<and> (\<exists>root. as_store svc = Filesystem root) \<longrightarrow>
      (\<forall>kind key. plain_kind kind \<longrightarrow> f (slot D svc t kind key) = f0 (slot D svc t kind key)))"

lemma store_kinds_plain: "kind \<in> set store_kinds \<Longrightarrow> plain_kind kind"
  by (auto simp: store_kinds_def)

lemma isolated_free:
  assumes "t \<noteq> t'" "plain_kind kind"
  shows "free_at (\<lambda>_. isolated D svc t' f0) (slot D svc t kind key)"
  unfolding free_at_def isolated_def
proof (intro allI impI, elim conjE exE)
  fix io :: "(nat \<Rightarrow> io_outcome) \<times> (nat \<Rightarrow> u64)" and f x k key' root
  assume f: "dir_laws D \<and> (\<exists>root. as_store svc = Filesystem root) \<longrightarrow>
      (\<forall>kind key. plain_kind kind \<longrightarrow> f (slot D svc t' kind key) = f0 (slot D svc t' kind key))"
    and env: "dir_laws D" "as_store svc = Filesystem root" "plain_kind k"
  have "slot D svc t kind key \<noteq> slot D svc t' k key'"
    by (rule slot_tenant_neq [OF env(2,1) assms(1,2) env(3)])
  then show "(f(slot D svc t kind key := x)) (slot D svc t' k key') = f0 (slot D svc t' k key')"
    using f env by auto
qed

interpretation tenant_files: record_free_invariant D svc "{t. t \<noteq> victim}" "\<lambda>_. isolated D svc victim f0" for D svc victim f0
proof
  fix t kind key
  assume "t \<in> {t. t \<noteq> victim}" "kind \<in> set store_kinds"
  then show "free_at (\<lambda>_. isolated D svc victim f0) (slot D svc t kind key)"
    by (auto intro: isolated_free store_kinds_plain)
next
  fix t bytes
  assume "t \<in> {t. t \<noteq> victim}"
  then show "keeps (\<lambda>_. isolated D svc victim f0) (write_encrypted_bytes D svc t ''chunks'' (cid_from_bytes D bytes) bytes)"
    by (auto intro!: keeps_write_encrypted_bytes isolated_free)
qed

text \<open>
  C3. Tenants are isolated in the store: whatever requests the service serves for other tenants,
  with whatever credentials and whichever system calls fail, every file in a slot of a tenant is
  the same afterwards. (The tenant's directory name is base64url of its identifier.)
\<close>

theorem tenant_isolation:
  assumes "as_store svc = Filesystem root" "dir_laws D" "plain_kind kind"
    and "\<And>auth req. (auth, req) \<in> set reqs \<Longrightarrow> request_tenant req \<noteq> t"
  shows "w_files (snd (run_steps (serve D svc) reqs s)) (slot D svc t kind key) = w_files s (slot D svc t kind key)"
proof -
  have "isolated D svc t (w_files s) (w_files (snd (run_steps (serve D svc) reqs s)))"
    by (rule tenant_files.keeps_run) (use assms(4) in \<open>auto simp: isolated_def\<close>)
  then show ?thesis using assms(1-3) by (auto simp: isolated_def)
qed

section \<open>Content addressing\<close>

lemma keeps_write_encrypted_bytes_env:
  assumes "\<And>s env s1. local_encrypt_store_payload D (as_kms svc) t kind bytes (s :: service) = (Ok env, s1) \<Longrightarrow>
      keeps J (write_envelope D svc t kind key env)"
  shows "keeps J (write_encrypted_bytes D svc t kind key bytes)"
  unfolding write_encrypted_bytes_def
proof (rule keeps_bnd_result)
  fix env and s s' :: service
  assume "on_error (local_encrypt_store_payload D (as_kms svc) t kind bytes) (\<lambda>error.
      let e = crypto_error_to_api error ''failed to encrypt store payload'' in
      bnd (record_observation (kms_observation t (Some (usize_u64 (length bytes))) (err_code e))) (\<lambda>_. throw e)) s
      = (Ok env, s')"
  then have "local_encrypt_store_payload D (as_kms svc) t kind bytes s = (Ok env, s')"
    by (auto simp: on_error_def bnd_Ok Let_def split: prod.splits sum.splits)
  then show "keeps J (write_envelope D svc t kind key env)" by (rule assms)
qed (intro keeps_rules)


definition chunks_ok :: "service_deps \<Rightarrow> AlphaService \<Rightarrow> (string \<rightharpoonup> byte list) \<Rightarrow> bool" where
  "chunks_ok D svc f \<longleftrightarrow>
     (\<forall>t key bs. peek_bytes D svc t ''chunks'' key f = Ok (Some bs) \<longrightarrow>
        slot D svc t ''chunks'' (cid_from_bytes D bs) = slot D svc t ''chunks'' key)"

lemma chunks_ok_empty [simp]: "chunks_ok D svc Map.empty"
  by (simp add: chunks_ok_def peek_bytes_def)

text \<open>A strict prefix of the JSON text of an envelope is not the JSON text of an envelope.\<close>

definition integrity_laws :: "service_deps \<Rightarrow> AlphaService \<Rightarrow> bool" where
  "integrity_laws D svc \<longleftrightarrow>
     store_laws D \<and> (\<exists>root. as_store svc = Filesystem root) \<and>
     (\<forall>env bs n. to_vec (json_envelope D) env = Ok bs \<and> n < length bs \<longrightarrow>
        (\<exists>e. from_slice (json_envelope D) (take n bs) = Err e))"

lemma chunks_ok_free:
  assumes "plain_kind kind" "kind \<noteq> ''chunks''"
  shows "free_at (\<lambda>_ f. integrity_laws D svc \<longrightarrow> chunks_ok D svc f) (slot D svc t kind key)"
proof -
  have "peek_bytes D svc t' ''chunks'' key' (f(slot D svc t kind key := x)) = peek_bytes D svc t' ''chunks'' key' f"
    if "integrity_laws D svc" for t' key' f x
    using that slot_kind_neq [of svc _ "''chunks''" kind D t' key' t key] assms
    by (intro peek_bytes_cong) (auto simp: integrity_laws_def)
  then show ?thesis by (auto simp: free_at_def chunks_ok_def)
qed

lemma decrypted_tenant:
  "local_decrypt_store_payload D kms t k env = Ok bs \<Longrightarrow> local_decrypt_store_payload D kms t' k' env = Ok bs' \<Longrightarrow>
   t = t' \<and> bs = bs'"
  by (cases t; cases t') (auto simp: local_decrypt_store_payload_def split: if_splits)

lemma chunks_ok_update:
  assumes laws: "integrity_laws D svc" and ok: "chunks_ok D svc f"
    and enc: "local_encrypt_store_payload D (as_kms svc) t ''chunks'' bytes (s :: service) = (Ok env, s1)"
    and ser: "to_vec (json_envelope D) env = Ok raw"
  shows "chunks_ok D svc (f(slot D svc t ''chunks'' (cid_from_bytes D bytes) \<mapsto> take n raw))"
    (is "chunks_ok D svc (f(?p \<mapsto> _))")
  unfolding chunks_ok_def
proof (intro allI impI)
  fix t' key bs
  assume peek: "peek_bytes D svc t' ''chunks'' key (f(?p \<mapsto> take n raw)) = Ok (Some bs)"
  show "slot D svc t' ''chunks'' (cid_from_bytes D bs) = slot D svc t' ''chunks'' key"
  proof (cases "slot D svc t' ''chunks'' key = ?p")
    case False
    then show ?thesis
      using ok peek peek_bytes_cong [of "f(?p \<mapsto> take n raw)" D svc t' "''chunks''" key f] by (auto simp: chunks_ok_def)
  next
    case True
    have n: "\<not> n < length raw"
    proof
      assume "n < length raw"
      then obtain e where "from_slice (json_envelope D) (take n raw) = Err e"
        using laws ser unfolding integrity_laws_def by blast
      then show False using peek True by (simp add: peek_bytes_def map_err_def)
    qed
    then have "local_decrypt_store_payload D (as_kms svc) t' ''chunks'' env = Ok bs"
      using peek True ser laws by (auto simp: peek_bytes_def integrity_laws_def store_laws_def codec_okD)
    moreover have "local_decrypt_store_payload D (as_kms svc) t ''chunks'' env = Ok bytes"
      using local_store_roundtrip [OF _ enc] laws by (simp add: integrity_laws_def store_laws_def)
    ultimately have "t = t'" "bs = bytes" using decrypted_tenant by blast+
    then show ?thesis using True by simp
  qed
qed

interpretation chunk_files: record_free_invariant D svc UNIV "\<lambda>_ f. integrity_laws D svc \<longrightarrow> chunks_ok D svc f" for D svc
proof
  fix t kind key
  assume "kind \<in> set store_kinds" "kind \<noteq> ''chunks''"
  then show "free_at (\<lambda>_ f. integrity_laws D svc \<longrightarrow> chunks_ok D svc f) (slot D svc t kind key)"
    by (auto intro!: chunks_ok_free store_kinds_plain)
next
  fix t bytes
  show "keeps (\<lambda>_ f. integrity_laws D svc \<longrightarrow> chunks_ok D svc f)
      (write_encrypted_bytes D svc t ''chunks'' (cid_from_bytes D bytes) bytes)"
  proof (rule keeps_write_encrypted_bytes_env)
    fix s s1 :: service and env
    let ?J = "\<lambda>_ f. integrity_laws D svc \<longrightarrow> chunks_ok D svc f"
    assume enc: "local_encrypt_store_payload D (as_kms svc) t ''chunks'' bytes s = (Ok env, s1)"
    show "keeps ?J (write_envelope D svc t ''chunks'' (cid_from_bytes D bytes) env)"
      unfolding write_envelope_def
    proof (rule keeps_bnd_result)
      fix raw and u u' :: service
      assume "lift_result (map_err (api_error Cat_Storage ''envelope_serialize_failed'') (to_vec (json_envelope D) env)) u = (Ok raw, u')"
      then have raw: "to_vec (json_envelope D) env = Ok raw" by simp
      show "keeps ?J (store_write D (as_store svc) (store_key D t ''chunks'' (cid_from_bytes D bytes)) raw)"
        using chunks_ok_update [OF _ _ enc raw, unfolded slot_def] by (intro keeps_store_write) blast
    qed (rule keeps_rules)
  qed
qed

lemma store_read_sound:
  "store_read D (Filesystem root) k s = (Ok (Some bytes), s') \<Longrightarrow> w_files s (path_join root k) = Some bytes"
  by (auto simp: fs_defs split: io_outcome.splits if_splits option.splits)

lemma read_encrypted_bytes_sound:
  assumes "as_store svc = Filesystem root" "read_encrypted_bytes D svc t kind key s = (Ok (Some bs), s')"
  shows "peek_bytes D svc t kind key (w_files s) = Ok (Some bs)"
proof -
  obtain found s1 where rd: "store_read D (Filesystem root) (store_key D t kind key) s = (Ok found, s1)"
    and rest: "(case found of None \<Rightarrow> ret None | Some bytes \<Rightarrow>
        bnd (lift_result (map_err (api_error Cat_Storage ''envelope_deserialize_failed'')
                             (from_slice (json_envelope D) bytes))) (\<lambda>envelope.
        on_error (bnd (lift_result (local_decrypt_store_payload D (as_kms svc) t kind envelope))
                    (\<lambda>plaintext. ret (Some plaintext))) (\<lambda>error.
           let e = crypto_error_to_api error ''failed to decrypt store payload'' in
           bnd (record_observation (kms_observation t None (err_code e))) (\<lambda>_. throw e)))) s1 = (Ok (Some bs), s')"
    using assms by (auto simp: read_encrypted_bytes_def bnd_Ok)
  obtain bytes where found: "found = Some bytes" using rest by (cases found) auto
  then have slot: "w_files s (slot D svc t kind key) = Some bytes"
    using store_read_sound rd by (auto simp: slot_def assms(1))
  show ?thesis
    using rest slot found
    by (auto simp: peek_bytes_def bnd_Ok on_error_def Let_def bnd_def lift_result_def ret_def throw_def
        split: sum.splits prod.splits)
qed

lemma slot_key_eq:
  assumes "as_store svc = Filesystem root" "plain_kind kind" "slot D svc t kind a = slot D svc t kind b"
  shows "cid_from_bytes D (as_bytes a) = cid_from_bytes D (as_bytes b)"
  using assms by (simp add: slot_def path_join_inject store_key_not_absolute)
    (simp add: store_key_def store_file_name_def)

text \<open>
  \<open>names_content D cid bs\<close>: \<open>cid\<close> is the content identifier of \<open>bs\<close>, or the two identifiers are a
  SHA-256 collision.
\<close>

definition names_content :: "'x core_deps_scheme \<Rightarrow> string \<Rightarrow> byte list \<Rightarrow> bool" where
  "names_content D cid bs \<longleftrightarrow>
     cid = cid_from_bytes D bs \<or>
     cid \<noteq> cid_from_bytes D bs \<and> sha256 D (as_bytes cid) = sha256 D (as_bytes (cid_from_bytes D bs))"

lemma read_chunk_names:
  assumes laws: "integrity_laws D svc" "base32_injective D" and ok: "chunks_ok D svc (w_files s)"
    and rd: "read_chunk D svc t cid s = (Ok bs, s')"
  shows "names_content D cid bs"
proof -
  obtain root where root: "as_store svc = Filesystem root" using laws(1) by (auto simp: integrity_laws_def)
  have "read_encrypted_bytes D svc t ''chunks'' cid s = (Ok (Some bs), s')"
    using rd by (auto simp: read_chunk_def bnd_Ok)
  then have "slot D svc t ''chunks'' (cid_from_bytes D bs) = slot D svc t ''chunks'' cid"
    using ok read_encrypted_bytes_sound [OF root] by (simp add: chunks_ok_def)
  then have "cid_from_bytes D (as_bytes (cid_from_bytes D bs)) = cid_from_bytes D (as_bytes cid)"
    by (rule slot_key_eq [OF root plain_kind_literals(1)])
  then show ?thesis
    using laws(2) unfolding names_content_def cid_from_bytes_def base32_injective_def by auto
qed

lemma get_chunks_names:
  assumes laws: "integrity_laws D svc" "base32_injective D"
  shows "get_chunks D svc t a b refs s = (Ok chunks, s') \<Longrightarrow> chunks_ok D svc (w_files s) \<Longrightarrow> ch \<in> set chunks \<Longrightarrow>
    \<exists>bs. names_content D (gd_chunk_cid (gc_descriptor ch)) bs \<and>
      slice_get bs (unat (gd_fragment_offset (gc_descriptor ch)))
        (unat (gd_fragment_offset (gc_descriptor ch) + gd_fragment_length (gc_descriptor ch))) = Some (gc_bytes ch)"
proof (induction refs arbitrary: s chunks)
  case (Cons c refs)
  have kp: "keeps (\<lambda>_ f. integrity_laws D svc \<longrightarrow> chunks_ok D svc f) (read_chunk D svc t (cr_cid c))"
    unfolding read_chunk_def by (intro keeps_rules)
  show ?case
  proof (cases "chunk_end c < a \<or> cr_offset c > b")
    case True
    then show ?thesis using Cons by simp
  next
    case False
    let ?d = "chunk_fragment a b c"
    obtain bs s1 fragment rest where r: "read_chunk D svc t (cr_cid c) s = (Ok bs, s1)"
      "slice_get bs (unat (gd_fragment_offset ?d)) (unat (gd_fragment_offset ?d + gd_fragment_length ?d)) = Some fragment"
      "get_chunks D svc t a b refs s1 = (Ok rest, s')" "chunks = \<lparr>gc_descriptor = ?d, gc_bytes = fragment\<rparr> # rest"
      using Cons.prems(1) False by (auto simp: Let_def bnd_Ok)
    have "names_content D (gd_chunk_cid ?d) bs"
      using read_chunk_names [OF laws Cons.prems(2) r(1)] by (simp add: chunk_fragment_def Let_def)
    moreover have "chunks_ok D svc (w_files s1)"
      using keepsD [OF kp r(1)] Cons.prems(2) laws(1) by simp
    ultimately show ?thesis
      using Cons.IH [OF r(3)] Cons.prems(3) r(2,4) by auto
  qed
qed simp

text \<open>
  C11. What \<open>GET\<close> returns is content-addressed. Start from a store whose chunk slots hold what
  their identifiers name, as an empty store does; after any sequence of requests, with whichever
  system calls failing, every fragment of a successful \<open>GET\<close> is the announced slice
  of some bytes whose content identifier is the chunk identifier in the fragment's descriptor,
  unless two identifiers collide under SHA-256.
\<close>

theorem get_content_addressed:
  assumes laws: "integrity_laws D svc" "base32_injective D"
    and "chunks_ok D svc (w_files s0)" "s = snd (run_steps (serve D svc) reqs s0)"
    and "get D svc auth request s = (Ok response, s')" "ch \<in> set (gr_chunks response)"
  shows "\<exists>bs. names_content D (gd_chunk_cid (gc_descriptor ch)) bs \<and>
    slice_get bs (unat (gd_fragment_offset (gc_descriptor ch)))
      (unat (gd_fragment_offset (gc_descriptor ch) + gd_fragment_length (gc_descriptor ch))) = Some (gc_bytes ch)"
proof -
  let ?J = "\<lambda>_ f. integrity_laws D svc \<longrightarrow> chunks_ok D svc f"
  have "?J (fate s) (w_files s)"
    unfolding assms(4)
    by (rule chunk_files.keeps_run) (use assms(3) in auto)
  obtain t1 s1 s2 res s3 dec s4 rec s5 where g: "now_ms s = (Ok t1 :: ApiError + u64, s1)"
    "selector_resolution D svc (gq_tenant_id request) (gq_selector request) s1 = (Ok res, s2)"
    "service_authorize D svc auth (selector_meta Op_Get (gq_tenant_id request) res) s2 = (Ok dec, s3)"
    "manifest_record D svc (gq_tenant_id request) (srs_manifest_cid res) s3 = (Ok rec, s4)"
    and c: "gr_chunks response = [] \<or> (\<exists>a b s5. get_chunks D svc (gq_tenant_id request) a b
      (mf_chunk_refs (mrec_manifest rec)) s4 = (Ok (gr_chunks response), s5))"
    using assms(5) unfolding get_def
    by (auto simp: bnd_Ok Let_def split: if_splits prod.splits) blast
  have "?J (fate s4) (w_files s4)"
    using \<open>?J (fate s) (w_files s)\<close> g keepsD [OF keeps_now_ms g(1), of ?J] keepsD [OF chunk_files.keeps_selector_resolution g(2)]
      keepsD [OF chunk_files.keeps_service_authorize g(3)] keepsD [OF chunk_files.keeps_reads(1) g(4)] by auto
  then show ?thesis
    using c assms(6) laws(1) get_chunks_names [OF laws] by fastforce
qed

end
