(* ===== verification/HSP_Denial.thy ===== *)
theory HSP_Denial
  imports HSP_Safety
begin

text \<open>
  Requests for a tenant that is not the one of the credentials: every operation of the service refuses them,
  and the only trace is the denial that the policy engine records in the event log of the tenant the request
  names.
\<close>

section \<open>Refusal\<close>

text \<open>A computation that keeps a property of the files and never returns a value.\<close>

definition refused :: "disk_prop \<Rightarrow> ('z world_scheme, 'e, 'a) comp \<Rightarrow> bool" where
  "refused J m \<longleftrightarrow>
     (\<forall>s r s'. m s = (r, s') \<longrightarrow> J (fate s) (w_files s) \<longrightarrow> J (fate s') (w_files s') \<and> isl r)"

named_theorems refused_rules \<open>rules that a computation is refused\<close>

lemma refused_keeps: "refused J m \<Longrightarrow> keeps J m"
  by (rule keepsI) (auto simp: refused_def)

lemma refused_first [refused_rules]: "refused J m \<Longrightarrow> refused J (bnd m f)"
  unfolding refused_def bnd_def by (fastforce split: prod.splits sum.splits)

lemma refused_then [refused_rules]: "keeps J m \<Longrightarrow> (\<And>x. refused J (f x)) \<Longrightarrow> refused J (bnd m f)"
  unfolding refused_def bnd_def by (auto split: prod.splits sum.splits; metis keepsD sum.disc(1))

lemma refused_throw [refused_rules]: "refused J (throw e)"
  by (simp add: refused_def throw_def)

lemma refused_if [refused_rules]: "refused J m \<Longrightarrow> refused J m' \<Longrightarrow> refused J (if b then m else m')"
  by simp

lemma refused_prod [refused_rules]: "(\<And>a b. refused J (f a b)) \<Longrightarrow> refused J (case p of (a, b) \<Rightarrow> f a b)"
  by (cases p) simp

lemma refused_Let [refused_rules]: "refused J (f x) \<Longrightarrow> refused J (Let x f)"
  by simp

section \<open>Foreign requests\<close>

text \<open>Only the event log of a tenant may have changed.\<close>

definition log_only :: "service_deps \<Rightarrow> AlphaService \<Rightarrow> TenantId \<Rightarrow> (string \<rightharpoonup> byte list) \<Rightarrow> disk_prop" where
  "log_only D svc t f0 = (\<lambda>_ f. \<forall>p. (\<forall>key. p \<noteq> slot D svc t ''events'' key) \<longrightarrow> f p = f0 p)"

lemma log_only_free: "free_at (log_only D svc t f0) (slot D svc t ''events'' key)"
  by (auto simp: free_at_def log_only_def)

lemma keeps_log: "keeps (log_only D svc t f0) (append_event D svc t ev)"
  unfolding append_event_def next_event_seq_def
  by (intro keeps_rules keeps_write_encrypted_json log_only_free)

lemma foreign_authorize_denied:
  assumes "cl_tenant_id (ac_claims auth) \<noteq> am_tenant_id meta"
  shows "\<exists>reason. authorize now auth meta pe = (Err reason, pe)"
  using assms unfolding authorize_def authorize_checks_def Let_def
  by (cases "validate_time_window now (ac_claims auth)")
    (auto simp: bnd_def lift_result_def rbnd_def deny_if_def)

lemma policy_denied:
  assumes "cl_tenant_id (ac_claims auth) \<noteq> am_tenant_id meta"
  shows "refused J (policy_authorize auth meta)"
  unfolding refused_def
proof (intro allI impI)
  fix s :: service and r s'
  assume "policy_authorize auth meta s = (r, s')" "J (fate s) (w_files s)"
  moreover obtain t s1 where now: "now_ms s = (Ok t :: DenialReason + u64, s1)" "fate s1 = fate s" "w_files s1 = w_files s" by (auto simp: now_ms_def)
  moreover obtain reason where "authorize t auth meta (sv_policy_engine s1) = (Err reason, sv_policy_engine s1)"
    using foreign_authorize_denied [OF assms] by blast
  ultimately show "J (fate s') (w_files s') \<and> isl r" by (auto simp: policy_authorize_def bnd_def)
qed

lemma refused_authorize:
  assumes "cl_tenant_id (ac_claims auth) \<noteq> t" "am_tenant_id meta = t"
  shows "refused (log_only D svc t f0) (service_authorize D svc auth meta)"
  unfolding service_authorize_def
proof (rule refused_first)
  let ?J = "log_only D svc t f0" and ?m = "policy_authorize auth meta"
  have recorded: "refused ?J (bnd (authorization_denied_api_error D svc meta reason) throw)" for reason
    unfolding authorization_denied_api_error_def assms(2)
    by (intro refused_then refused_rules keeps_rules keeps_log)
  have "refused ?J ?m" by (rule policy_denied) (simp add: assms)
  then show "refused ?J (on_error ?m (\<lambda>reason. bnd (authorization_denied_api_error D svc meta reason) throw))"
    using recorded unfolding refused_def on_error_def by (fastforce split: prod.splits sum.splits)
qed

text \<open>What only reads keeps every property of the files: the contract of the operations with no tenant at all.\<close>

interpretation reads_only: file_invariant D svc "{}" J for D svc J
  by unfold_locales simp_all

lemmas foreign_rules = refused_authorize refused_rules keeps_rules reads_only.keeps_reads reads_only.keeps_observe_op
  reads_only.keeps_selector_resolution

lemma foreign_operations:
  "cl_tenant_id (ac_claims auth) \<noteq> hq_tenant_id hq \<Longrightarrow> refused (log_only D svc (hq_tenant_id hq) f0) (head D svc auth hq)"
  "cl_tenant_id (ac_claims auth) \<noteq> gq_tenant_id gq \<Longrightarrow> refused (log_only D svc (gq_tenant_id gq) f0) (get D svc auth gq)"
  "cl_tenant_id (ac_claims auth) \<noteq> rs_tenant_id rs \<Longrightarrow> refused (log_only D svc (rs_tenant_id rs) f0) (resolve D svc auth rs)"
  "cl_tenant_id (ac_claims auth) \<noteq> lr_tenant_id lr \<Longrightarrow> refused (log_only D svc (lr_tenant_id lr) f0) (list_op D svc auth lr)"
  "cl_tenant_id (ac_claims auth) \<noteq> pi_tenant_id pin \<Longrightarrow> refused (log_only D svc (pi_tenant_id pin) f0) (put_init D svc auth pin)"
  "cl_tenant_id (ac_claims auth) \<noteq> pc_tenant_id pc \<Longrightarrow> refused (log_only D svc (pc_tenant_id pc) f0) (put_chunk D svc auth pc bytes)"
  "cl_tenant_id (ac_claims auth) \<noteq> pm_tenant_id pm \<Longrightarrow> refused (log_only D svc (pm_tenant_id pm) f0) (put_commit D svc auth pm)"
  "cl_tenant_id (ac_claims auth) \<noteq> br_tenant_id br \<Longrightarrow> refused (log_only D svc (br_tenant_id br) f0) (bind_op D svc auth br)"
  "cl_tenant_id (ac_claims auth) \<noteq> ub_tenant_id ub \<Longrightarrow> refused (log_only D svc (ub_tenant_id ub) f0) (unbind_op D svc auth ub)"
  unfolding head_def get_def resolve_def list_op_def put_init_def put_chunk_def put_commit_def bind_op_def unbind_op_def
    bind_internal_def unbind_internal_def
  by (intro foreign_rules; simp; fail)+


lemma foreign_filters:
  "cl_tenant_id (ac_claims auth) \<noteq> t \<Longrightarrow> fs \<noteq> [] \<Longrightarrow> refused (log_only D svc t f0) (authorize_filters D svc auth t i fs)"
  by (cases fs) (auto intro!: refused_first refused_authorize)

lemma foreign_subscribe:
  assumes "cl_tenant_id (ac_claims auth) \<noteq> sr_tenant_id sr"
  shows "refused (log_only D svc (sr_tenant_id sr) f0) (subscribe_start D svc auth sr)"
    and "refused (log_only D svc (sr_tenant_id sr) f0) (subscribe_poll D svc auth sr c)"
proof -
  show start: "refused (log_only D svc (sr_tenant_id sr) f0) (subscribe_start D svc auth sr)"
    using assms unfolding subscribe_start_def
    by (cases "sr_filters sr = []") (simp_all, (intro foreign_rules foreign_filters; simp)+)
  then show "refused (log_only D svc (sr_tenant_id sr) f0) (subscribe_poll D svc auth sr c)"
    unfolding subscribe_poll_def by (rule refused_first)
qed

text \<open>An operation, with its result reduced to success or the error.\<close>

fun perform :: "service_deps \<Rightarrow> AlphaService \<Rightarrow> AuthContext \<times> ServiceRequest \<Rightarrow> unit svc_op" where
  "perform D svc (auth, Rq_PutInit r) = bnd (put_init D svc auth r) (\<lambda>_. ret ())"
| "perform D svc (auth, Rq_PutChunk r bytes) = bnd (put_chunk D svc auth r bytes) (\<lambda>_. ret ())"
| "perform D svc (auth, Rq_PutCommit r) = bnd (put_commit D svc auth r) (\<lambda>_. ret ())"
| "perform D svc (auth, Rq_Head r) = bnd (head D svc auth r) (\<lambda>_. ret ())"
| "perform D svc (auth, Rq_Get r) = bnd (get D svc auth r) (\<lambda>_. ret ())"
| "perform D svc (auth, Rq_Resolve r) = bnd (resolve D svc auth r) (\<lambda>_. ret ())"
| "perform D svc (auth, Rq_Bind r) = bnd (bind_op D svc auth r) (\<lambda>_. ret ())"
| "perform D svc (auth, Rq_Unbind r) = bnd (unbind_op D svc auth r) (\<lambda>_. ret ())"
| "perform D svc (auth, Rq_List r) = bnd (list_op D svc auth r) (\<lambda>_. ret ())"
| "perform D svc (auth, Rq_Subscribe r) = bnd (subscribe_start D svc auth r) (\<lambda>_. ret ())"
| "perform D svc (auth, Rq_Poll r c) = bnd (subscribe_poll D svc auth r c) (\<lambda>_. ret ())"

lemma discard_perform: "snd (discard m s) = snd (bnd m (\<lambda>_. ret ()) s)"
  by (simp add: discard_def bnd_def ret_def split: prod.splits sum.splits)

lemma serve_perform: "snd (serve D svc ar s) = snd (perform D svc ar s)"
  by (cases "(D, svc, ar)" rule: perform.cases) (simp_all add: discard_perform)

lemma foreign_perform:
  "cl_tenant_id (ac_claims auth) \<noteq> request_tenant req \<Longrightarrow>
   refused (log_only D svc (request_tenant req) f0) (perform D svc (auth, req))"
  by (cases req) (simp_all add: refused_first foreign_operations foreign_subscribe)

text \<open>
  C6. Credentials of one tenant are good for no other: a request that names a tenant other than the one of
  its credentials fails, whatever the operation and whichever system calls fail, and no file is other than
  it was but those of the event log of the named tenant, where the denial is recorded.
\<close>

theorem foreign_request_refused:
  assumes "cl_tenant_id (ac_claims auth) \<noteq> request_tenant req" "perform D svc (auth, req) s = (r, s')"
  shows "isl r \<and> (\<forall>p. (\<forall>key. p \<noteq> slot D svc (request_tenant req) ''events'' key) \<longrightarrow> w_files s' p = w_files s p)"
  using foreign_perform [OF assms(1), of D svc "w_files s"] assms(2) unfolding refused_def log_only_def by blast

end
