(* ===== verification/HSP_Front_Safety.thy ===== *)
theory HSP_Front_Safety
  imports HSP_Native HSP_Gateway HSP_Denial
begin

text \<open>
  The two servers over QUIC as clients of the service: all that a request does to the service is to call
  its operations with the credentials that were verified for the TLS session of the request, and a
  subscription ends or keeps sending events. The proofs go through each server once, in a locale over its
  world that only says where the state of the service is.
\<close>

text \<open>Whatever every turn, the end and every pause respect, the loop respects.\<close>

lemma poll_loop_related:
  assumes "poll_loop poll finish rest n idle c s = Some y"
    and "\<And>s1 s2 s3. R s1 s2 \<Longrightarrow> R s2 s3 \<Longrightarrow> R s1 s3"
    and "\<And>c s. R s (snd (poll c s))" "\<And>s. R s (snd (finish s))" "\<And>n s. R s (rest n s)"
  shows "R s (snd y)"
proof -
  let ?P = "\<lambda>poll finish rest (n :: nat) (idle :: nat) c s y.
    (\<forall>c s. R s (snd (poll c s))) \<longrightarrow> (\<forall>s. R s (snd (finish s))) \<longrightarrow> (\<forall>n s. R s (rest n s)) \<longrightarrow> R s (snd y)"
  have "?P poll finish rest n idle c s y"
  proof (rule poll_loop.raw_induct [where P = ?P, OF _ assms(1)], intro impI)
    fix loop poll finish rest n idle c s y
    assume IH: "\<And>poll finish rest n idle c s y. loop poll finish rest n idle c s = Some y \<Longrightarrow> ?P poll finish rest n idle c s y"
      and step: "(case poll c s of (Inl r, s') \<Rightarrow> Some (r, s')
        | (Inr (e, c'), s') \<Rightarrow> if 20 \<le> (if e then 0 else idle + 1) then Some (finish s')
            else loop poll finish rest (Suc n) (if e then 0 else idle + 1) c' (rest n s')) = Some y"
      and P: "\<forall>c s. R s (snd (poll c s))" and F: "\<forall>s. R s (snd (finish s))" and W: "\<forall>n s. R s (rest n s)"
    obtain x s1 where p: "poll c s = (x, s1)" by fastforce
    have one: "R s s1" using P p by (metis snd_conv)
    have again: "R s (snd z)" if "loop poll finish rest m k d (rest n s1) = Some z" for m k d z
      using IH [OF that] P F W one by (meson assms(2))
    have last: "R s (snd (finish s1))" using F one by (meson assms(2))
    show "R s (snd y)"
      using step p one again last by (auto split: sum.splits prod.splits if_splits)
  qed
  then show ?thesis using assms(3-5) by blast
qed

section \<open>Sessions of the service\<close>

text \<open>
  What a client with the credentials \<open>A\<close> may do: requests to the service, and waiting while the rest of the
  system goes on (\<open>others\<close>).
\<close>

inductive session ::
  "service_deps \<Rightarrow> AlphaService \<Rightarrow> AuthContext set \<Rightarrow> (service \<Rightarrow> service \<Rightarrow> bool) \<Rightarrow> service \<Rightarrow> service \<Rightarrow> bool"
  for D svc A others where
  session_start: "session D svc A others s s"
| session_serve: "session D svc A others s s1 \<Longrightarrow> auth \<in> A \<Longrightarrow> serve D svc (auth, req) s1 = (r, s2) \<Longrightarrow>
    session D svc A others s s2"
| session_wait: "session D svc A others s s1 \<Longrightarrow> others s1 s2 \<Longrightarrow> session D svc A others s s2"

lemma session_trans:
  "session D svc A others s2 s3 \<Longrightarrow> session D svc A others s1 s2 \<Longrightarrow> session D svc A others s1 s3"
  by (induction rule: session.induct) (auto intro: session.intros)

lemma session_empty: "session D svc {} (\<lambda>_ _. False) s s' \<Longrightarrow> s' = s"
  by (induction rule: session.induct) auto

text \<open>A call of an operation is a session of one step.\<close>

lemma session_call:
  assumes "m s = (r, s')" "auth \<in> A" "discard m = serve D svc (auth, req)"
  shows "session D svc A others s s'"
proof -
  have "snd (serve D svc (auth, req) s) = s'"
    using assms(1) by (simp add: assms(3) [symmetric] discard_def split: prod.splits sum.splits)
  then show ?thesis by (intro session_serve [OF session_start assms(2)]) (simp add: prod_eq_iff)
qed

locale service_view =
  fixes view :: "'w \<Rightarrow> service" and put :: "service \<Rightarrow> 'w \<Rightarrow> 'w"
    and D :: service_deps and svc :: AlphaService and A :: "AuthContext set" and others :: "service \<Rightarrow> service \<Rightarrow> bool"
  assumes view_put: "view (put s w) = s"
begin

definition connects :: "'w \<Rightarrow> 'w \<Rightarrow> bool" where
  "connects w w' \<longleftrightarrow> session D svc A others (view w) (view w')"

definition served :: "('w, 'e, 'a) comp \<Rightarrow> bool" where
  "served m \<longleftrightarrow> (\<forall>w. connects w (snd (m w)))"

definition still :: "('w, 'e, 'a) comp \<Rightarrow> bool" where
  "still m \<longleftrightarrow> (\<forall>w. view (snd (m w)) = view w)"

lemma connects_refl: "view w' = view w \<Longrightarrow> connects w w'"
  by (simp add: connects_def session_start)

lemma connects_trans: "connects w1 w2 \<Longrightarrow> connects w2 w3 \<Longrightarrow> connects w1 w3"
  unfolding connects_def by (rule session_trans)

lemma connects_then: "connects w1 w2 \<Longrightarrow> view w3 = view w2 \<Longrightarrow> connects w1 w3"
  by (simp add: connects_def)

lemma servedD: "served m \<Longrightarrow> m w = (r, w') \<Longrightarrow> connects w w'"
  by (metis served_def snd_conv)

lemma stillD: "still m \<Longrightarrow> m w = (r, w') \<Longrightarrow> view w' = view w"
  by (metis still_def snd_conv)

lemma still_served: "still m \<Longrightarrow> served m"
  by (simp add: still_def served_def connects_refl)

lemma still_basic: "still (ret x)" "still (throw e)" "still (lift_result r)" "still (ensure b e)"
  by (auto simp: still_def ret_def throw_def lift_result_def ensure_def)

lemma still_bnd: "still m \<Longrightarrow> (\<And>x. still (f x)) \<Longrightarrow> still (bnd m f)"
  by (auto simp: still_def bnd_def split: prod.splits sum.splits) (metis snd_conv)+

lemma still_on_err: "still m \<Longrightarrow> still (on_err g m)"
  by (auto simp: still_def on_err_def split: prod.splits) (metis snd_conv)

lemma served_bnd:
  assumes "served m" "\<And>x. served (f x)"
  shows "served (bnd m f)"
  unfolding served_def
proof
  fix w
  obtain r w1 where m: "m w = (r, w1)" by fastforce
  show "connects w (snd (bnd m f w))"
  proof (cases r)
    case (Inr x)
    obtain r2 w2 where "f x w1 = (r2, w2)" by fastforce
    then show ?thesis
      using m Inr connects_trans [OF servedD [OF assms(1) m] servedD [OF assms(2)]] by (simp add: bnd_def)
  qed (use m servedD [OF assms(1) m] in \<open>simp add: bnd_def\<close>)
qed

text \<open>Only what is done with verified credentials matters.\<close>

lemma served_lift_bnd: "(\<And>x. r = Ok x \<Longrightarrow> served (f x)) \<Longrightarrow> served (bnd (lift_result r) f)"
  by (cases r) (auto simp: served_def bnd_def lift_result_def connects_refl)

lemma served_if: "(b \<Longrightarrow> served m) \<Longrightarrow> (\<not> b \<Longrightarrow> served m') \<Longrightarrow> served (if b then m else m')"
  by simp

lemma served_prod: "(\<And>x y. p = (x, y) \<Longrightarrow> served (f x y)) \<Longrightarrow> served (case p of (x, y) \<Rightarrow> f x y)"
  by (cases p) simp

lemma served_option:
  "(x = None \<Longrightarrow> served m) \<Longrightarrow> (\<And>y. x = Some y \<Longrightarrow> served (f y)) \<Longrightarrow> served (case x of None \<Rightarrow> m | Some y \<Rightarrow> f y)"
  by (cases x) simp_all

lemma connects_call: "m (view w) = (r, s) \<Longrightarrow> auth \<in> A \<Longrightarrow> discard m = serve D svc (auth, req) \<Longrightarrow> connects w (put s w)"
  by (auto simp: connects_def view_put intro: session_call)

lemma connects_wait: "others (view w) s \<Longrightarrow> connects w (put s w)"
  by (simp add: connects_def view_put session_wait [OF session_start])

lemma poll_loop_connects:
  assumes "poll_loop poll finish rest n idle c w = Some (r, w')"
    and "\<And>c w. connects w (snd (poll c w))" "\<And>w. connects w (snd (finish w))" "\<And>n w. connects w (rest n w)"
  shows "connects w w'"
  using poll_loop_related [OF assms(1), of connects] assms(2-4) by (auto intro: connects_trans)

end

lemmas serve_calls = serve.simps [symmetric]

section \<open>The native server\<close>

interpretation native_view:
  service_view "nw_service :: native_world \<Rightarrow> service" "\<lambda>s w. w\<lparr>nw_service := s\<rparr>" D svc A others for D svc A others
  by unfold_locales simp

abbreviation native_still :: "(native_world, 'e, 'a) comp \<Rightarrow> bool" where
  "native_still \<equiv> service_view.still nw_service"

abbreviation native_served ::
  "'j native_deps \<Rightarrow> NativeState \<Rightarrow> AuthContext set \<Rightarrow> (service \<Rightarrow> service \<Rightarrow> bool) \<Rightarrow> (native_world, 'e, 'a) comp \<Rightarrow> bool" where
  "native_served N st \<equiv> service_view.served nw_service (nd_service N) (nst_service st)"

abbreviation native_connects ::
  "'j native_deps \<Rightarrow> NativeState \<Rightarrow> AuthContext set \<Rightarrow> (service \<Rightarrow> service \<Rightarrow> bool) \<Rightarrow> native_world \<Rightarrow> native_world \<Rightarrow> bool" where
  "native_connects N st \<equiv> service_view.connects nw_service (nd_service N) (nst_service st)"

lemmas native_rules = native_view.still_basic native_view.still_bnd native_view.still_on_err

lemma native_stream_still:
  "native_still (on_recv m)" "native_still (on_send m')"
  by (auto simp: native_view.still_def on_recv_def on_send_def split: prod.splits)

lemma native_write_still: "native_still (native_write N frame)"
  unfolding native_write_def by (rule native_stream_still)

lemma write_data_frames_still: "native_still (write_data_frames N chunks)"
  by (induction chunks) (auto intro!: native_rules native_write_still)

lemma write_envelopes_still: "native_still (write_envelopes N envelopes)"
  by (induction envelopes) (auto intro!: native_rules native_write_still split: option.splits)

lemma native_answers_still:
  "native_still (write_json_response N status j)" "native_still (write_chunk_stream_response N status meta chunks)"
  "native_still (write_subscription_header N cursor)" "native_still (write_error N error)" "native_still (native_finish N)"
  unfolding write_json_response_def write_chunk_stream_response_def write_subscription_header_def write_error_def native_finish_def
  by (intro native_rules native_write_still write_data_frames_still)+

lemma native_get_reply_still: "native_still (native_get_reply N response)"
  unfolding native_get_reply_def by (simp add: native_answers_still)

lemma native_reply_served:
  assumes "auth \<in> A" "discard m = serve (nd_service N) (nst_service st) (auth, req)" "\<And>r. native_still (f r)"
  shows "native_served N st A others (native_reply N m f)"
  unfolding native_view.served_def
proof
  fix w :: native_world
  obtain r s where m: "m (nw_service w) = (r, s)" by fastforce
  have call: "native_connects N st A others w (w\<lparr>nw_service := s\<rparr>)"
    by (rule native_view.connects_call [OF _ assms(1,2)], rule m)
  have "nw_service (snd (native_reply N m f w)) = s"
    using m assms(3) native_answers_still(4) [of N]
    by (auto simp: native_reply_def native_view.still_def split: sum.splits)
  then show "native_connects N st A others w (snd (native_reply N m f w))"
    by (intro native_view.connects_then [OF call]) simp
qed

lemma native_dispatch_served:
  assumes "\<And>a. auth = Some a \<Longrightarrow> a \<in> A"
  shows "native_served N st A others (native_dispatch N st auth header body)"
proof -
  have ok: "a \<in> A" if "required_auth auth op = Ok a" for op a
    using that assms by (cases auth) (auto simp: required_auth_def ok_or_def)
  show ?thesis
    unfolding native_dispatch_def Let_def
    by (cases "rq_operation header"; simp;
        (rule native_view.served_lift_bnd native_reply_served serve_calls native_answers_still native_get_reply_still
           native_view.still_served [OF native_answers_still(1)] native_view.still_served [OF native_view.still_basic(1)]
         | erule ok)+)
qed

lemma native_subscribe_served:
  assumes "native_subscribe N st asleep auth body w = Some (r, w')" "\<And>a. auth = Some a \<Longrightarrow> a \<in> A"
  shows "native_connects N st A (\<lambda>s s'. \<exists>ms n. s' = asleep ms n s) w w'"
proof -
  let ?c = "native_connects N st A (\<lambda>s s'. \<exists>ms n. s' = asleep ms n s)"
  note trans = native_view.connects_trans and same = native_view.connects_refl and stay = native_view.connects_then
  consider (refused) "w' = w"
    | (go) a request where "a \<in> A"
        "(case subscribe_start (nd_service N) (nst_service st) a request (nw_service w) of
            (Err error, s) \<Rightarrow> Some (write_error N error (w\<lparr>nw_service := s\<rparr>))
          | (Ok cursor, s) \<Rightarrow>
              (case write_subscription_header N cursor (w\<lparr>nw_service := s\<rparr>) of
                 (Err error, w') \<Rightarrow> Some (Err error, w')
               | (Ok _, w') \<Rightarrow> native_subscribe_loop N st asleep a request cursor w')) = Some (r, w')"
    using assms by (cases auth) (auto simp: native_subscribe_def required_auth_def ok_or_def rbnd_def split: sum.splits)
  then show ?thesis
  proof cases
    case refused
    then show ?thesis by (intro same) simp
  next
    case go
    obtain r1 s where start: "subscribe_start (nd_service N) (nst_service st) a request (nw_service w) = (r1, s)" by fastforce
    have call: "?c w (w\<lparr>nw_service := s\<rparr>)"
      by (rule native_view.connects_call [OF _ go(1) serve_calls(10)], rule start)
    have poll: "?c w1 (snd (native_poll N st a request cursor w1))" for cursor w1
    proof -
      obtain r2 s2 where p: "subscribe_poll (nd_service N) (nst_service st) a request cursor (nw_service w1) = (r2, s2)" by fastforce
      have "?c w1 (w1\<lparr>nw_service := s2\<rparr>)"
        by (rule native_view.connects_call [OF _ go(1) serve_calls(11)], rule p)
      moreover have "nw_service (snd (native_poll N st a request cursor w1)) = s2"
      proof (cases r2)
        case (Inl error)
        then show ?thesis
          using p native_view.stillD [OF native_answers_still(4) [of N error] prod.collapse [symmetric], of "w1\<lparr>nw_service := s2\<rparr>"]
          by (auto simp: native_poll_def split: prod.split)
      next
        case (Inr ec)
        obtain r3 w3 where e: "write_envelopes N (fst ec) (w1\<lparr>nw_service := s2\<rparr>) = (r3, w3)" by fastforce
        have "nw_service w3 = s2" using native_view.stillD [OF write_envelopes_still e] by simp
        then show ?thesis using p Inr e by (cases ec; cases r3) (simp_all add: native_poll_def)
      qed
      ultimately show ?thesis by (auto elim: stay)
    qed
    have loop: "?c w1 w2" if "native_subscribe_loop N st asleep a request cursor w1 = Some (r2, w2)" for cursor w1 r2 w2
      using that unfolding native_subscribe_loop_def
    proof (rule native_view.poll_loop_connects)
      show "?c w (snd (native_finish N w))" for w
        by (intro same native_view.stillD [OF native_answers_still(5) prod.collapse [symmetric]])
    qed (auto intro!: poll native_view.connects_wait)
    show ?thesis
    proof (cases r1)
      case (Inl error)
      then show ?thesis
        using go(2) start native_view.stillD [OF native_answers_still(4) [of N error], of "w\<lparr>nw_service := s\<rparr>" r w']
        by (intro stay [OF call]) auto
    next
      case (Inr cursor)
      obtain r3 w1 where h: "write_subscription_header N cursor (w\<lparr>nw_service := s\<rparr>) = (r3, w1)" by fastforce
      have "?c w w1" by (rule stay [OF call native_view.stillD [OF native_answers_still(3) h]])
      then show ?thesis
        using go(2) start Inr h by (cases r3) (auto dest!: loop elim: trans)
    qed
  qed
qed

text \<open>The credentials of the \<open>AUTH\<close> frame that opens a stream, when they verify.\<close>

definition stream_credentials :: "'j native_deps \<Rightarrow> NativeState \<Rightarrow> tls_exporter \<Rightarrow> native_world \<Rightarrow> AuthContext set" where
  "stream_credentials N st tls_export w =
     {auth. \<exists>frame rd. read_frame (nd_wire N) (nw_recv w) = (Ok (Fr_Auth frame), rd) \<and>
        verify_auth_frame N tls_export (nst_issuer_registry st) frame = Ok auth}"

lemma read_request_head_still: "native_still (read_request_head N st tls_export)"
  unfolding read_request_head_def
  by (intro native_rules native_stream_still) (auto intro!: native_rules native_stream_still split: Frame.split)

lemma read_request_head_credentials:
  assumes "read_request_head N st tls_export w = (Ok (Ok (auth, header)), w')"
  shows "nw_service w' = nw_service w" "\<And>a. auth = Some a \<Longrightarrow> a \<in> stream_credentials N st tls_export w"
    "auth = None \<Longrightarrow> rq_operation header = Op_Info"
proof -
  from native_view.stillD [OF read_request_head_still assms] show "nw_service w' = nw_service w" .
  show "\<And>a. auth = Some a \<Longrightarrow> a \<in> stream_credentials N st tls_export w" "auth = None \<Longrightarrow> rq_operation header = Op_Info"
    using assms by (auto simp: read_request_head_def stream_credentials_def bnd_def on_recv_def ret_def lift_result_def
        split: prod.splits sum.splits Frame.splits if_splits)
qed

lemma handle_request_stream_cases:
  assumes "handle_request_stream N st asleep tls_export w = Some (r, w')"
  obtains "nw_service w' = nw_service w"
    | auth header body w1 w2 where "read_request_head N st tls_export w = (Ok (Ok (auth, header)), w1)" "nw_service w2 = nw_service w"
        "(if rq_operation header = Op_Subscribe then native_subscribe N st asleep auth body w2
          else Some (native_dispatch N st auth header body w2)) = Some (r, w')"
proof -
  obtain x w1 where head: "read_request_head N st tls_export w = (x, w1)" by fastforce
  note same = native_view.stillD [OF read_request_head_still head]
  consider (failed) e where "x = Err e" | (refused) e where "x = Ok (Err e)" | (read) auth header where "x = Ok (Ok (auth, header))"
    by (metis old.prod.exhaust sum.exhaust)
  then show ?thesis
  proof cases
    case (refused e)
    then show ?thesis
      using that(1) assms head same native_view.stillD [OF native_answers_still(4) [of N e], of w1 r w']
      by (simp add: handle_request_stream_def)
  next
    case (read auth header)
    obtain b w2 where body: "on_recv (read_body N (native_body_limit header)) w1 = (b, w2)" by fastforce
    have "nw_service w2 = nw_service w" using native_view.stillD [OF native_stream_still(1) body] same by simp
    then show ?thesis
      using that assms head read body by (cases b) (simp_all add: handle_request_stream_def)
  qed (use that(1) assms head same in \<open>simp add: handle_request_stream_def\<close>)
qed

lemma native_session:
  assumes "handle_request_stream N st asleep tls_export w = Some (r, w')"
  shows "session (nd_service N) (nst_service st) (stream_credentials N st tls_export w) (\<lambda>s s'. \<exists>ms n. s' = asleep ms n s)
      (nw_service w) (nw_service w') \<and>
    (stream_credentials N st tls_export w = {} \<longrightarrow> nw_service w' = nw_service w)"
  using assms
proof (cases rule: handle_request_stream_cases)
  case (2 auth header body w1 w2)
  let ?A = "stream_credentials N st tls_export w"
  note creds = read_request_head_credentials [OF 2(1)]
  have "native_connects N st ?A (\<lambda>s s'. \<exists>ms n. s' = asleep ms n s) w2 w'"
    using 2(3) native_subscribe_served [of N st asleep auth body w2 r w', OF _ creds(2)]
      native_view.servedD [OF native_dispatch_served [OF creds(2)]] by (auto split: if_splits)
  moreover have "nw_service w' = nw_service w2" if "?A = {}"
  proof -
    have "auth = None" "rq_operation header = Op_Info" using creds that by (cases auth; blast)+
    then show ?thesis
      using 2(3) native_view.stillD [OF native_answers_still(1)] by (simp add: native_dispatch_def)
  qed
  ultimately show ?thesis using 2(2) by (simp add: native_view.connects_def)
qed (simp add: session_start)

text \<open>
  C7. Whatever comes on a stream of the native server, what it does to the service is a sequence of requests
  with the credentials of the \<open>AUTH\<close> frame that opens the stream, verified by the issuer registry and for
  this TLS session, with the rest of the system going on only while a subscription sleeps. Where the stream
  does not open with such a frame, the service is as it was.
\<close>

theorem native_requests_verified:
  assumes "handle_request_stream N st asleep tls_export w = Some (r, w')"
  shows "session (nd_service N) (nst_service st) (stream_credentials N st tls_export w) (\<lambda>s s'. \<exists>ms n. s' = asleep ms n s)
      (nw_service w) (nw_service w') \<and>
    (stream_credentials N st tls_export w = {} \<longrightarrow> nw_service w' = nw_service w)"
  by (rule native_session [OF assms])

section \<open>The gateway\<close>

interpretation gateway_view:
  service_view "gw_service :: gw_world \<Rightarrow> service" "\<lambda>s w. w\<lparr>gw_service := s\<rparr>" D svc A others for D svc A others
  by unfold_locales simp

abbreviation gw_still :: "(gw_world, 'e, 'a) comp \<Rightarrow> bool" where
  "gw_still \<equiv> service_view.still gw_service"

abbreviation gw_served ::
  "'x http_deps_scheme \<Rightarrow> GatewayState \<Rightarrow> AuthContext set \<Rightarrow> (service \<Rightarrow> service \<Rightarrow> bool) \<Rightarrow> (gw_world, 'e, 'a) comp \<Rightarrow> bool" where
  "gw_served H st \<equiv> service_view.served gw_service (gw_code H) (gws_service st)"

abbreviation gw_connects ::
  "'x http_deps_scheme \<Rightarrow> GatewayState \<Rightarrow> AuthContext set \<Rightarrow> (service \<Rightarrow> service \<Rightarrow> bool) \<Rightarrow> gw_world \<Rightarrow> gw_world \<Rightarrow> bool" where
  "gw_connects H st \<equiv> service_view.connects gw_service (gw_code H) (gws_service st)"

lemmas gw_rules = gateway_view.still_basic gateway_view.still_bnd gateway_view.still_on_err

lemma h3_send_still: "gw_still (h3_send what)"
  by (auto simp: gateway_view.still_def h3_send_def Let_def split: option.splits)

lemma h3_send_all_still: "gw_still (h3_send_all chunks)"
  by (induction chunks) (auto intro!: gw_rules h3_send_still)

lemma gw_send_envelopes_still: "gw_still (gw_send_envelopes H envelopes)"
  by (induction envelopes) (auto intro!: gw_rules h3_send_still)

lemma gw_answers_still: "gw_still (gw_send_reply reply)" "gw_still (gw_send_error H error)" "gw_still (gw_body n)"
proof -
  show reply: "gw_still (gw_send_reply reply)" for reply
    unfolding gw_send_reply_def by (intro gw_rules h3_send_still) (auto intro!: gw_rules h3_send_all_still split: option.split)
  then show "gw_still (gw_send_error H error)"
    unfolding gw_send_error_def by (intro gw_rules)
  have "gw_still (read_http_body n)" by (auto simp: gateway_view.still_def read_http_body_def split: prod.splits)
  then show "gw_still (gw_body n)" unfolding gw_body_def by (rule gw_rules)
qed

lemma at_service_served:
  assumes "auth \<in> A" "discard m = serve (gw_code H) (gws_service st) (auth, req)"
  shows "gw_served H st A others (at_service m)"
  unfolding gateway_view.served_def
proof
  fix w :: gw_world
  obtain r s where m: "m (gw_service w) = (r, s)" by fastforce
  have "gw_connects H st A others w (w\<lparr>gw_service := s\<rparr>)"
    by (rule gateway_view.connects_call [OF _ assms], rule m)
  then show "gw_connects H st A others w (snd (at_service m w))" using m by (simp add: at_service_def)
qed

lemmas gw_call_rules = gateway_view.served_lift_bnd gateway_view.served_prod gateway_view.served_if at_service_served serve_calls
  gateway_view.served_bnd [OF gateway_view.still_served [OF gw_answers_still(3)]]
  gateway_view.served_bnd [OF gateway_view.still_served [OF gateway_view.still_basic(4)]]
  gateway_view.still_served [OF gateway_view.still_basic(2)] gateway_view.still_served [OF gateway_view.still_basic(3)]

lemma gw_reply_served:
  "auth \<in> A \<Longrightarrow> discard m = serve (gw_code H) (gws_service st) (auth, req) \<Longrightarrow> gw_served H st A others (gw_reply m f)"
  unfolding gw_reply_def by (intro gateway_view.served_bnd gw_call_rules)

lemma gw_operations_served:
  assumes "auth \<in> A"
  shows "gw_served H st A others (gw_get_object H st auth query selector)"
    "gw_served H st A others (gw_head_object H st auth query selector response)"
    "gw_served H st A others (gw_put_chunk H st auth path query)"
    "gw_served H st A others (gw_list H st auth namespace query)"
    "gw_served H st A others (gw_resolve H st auth namespace item query)"
  unfolding gw_get_object_def gw_head_object_def gw_put_chunk_def gw_list_def gw_resolve_def Let_def
  by (rule gw_call_rules gw_reply_served assms)+


text \<open>The credentials in the headers of a request, when they verify.\<close>

definition gateway_credentials :: "'x http_deps_scheme \<Rightarrow> GatewayState \<Rightarrow> tls_exporter \<Rightarrow> gw_request \<Rightarrow> AuthContext set" where
  "gateway_credentials H st tls_export request =
     {auth. verify_gateway_auth H tls_export (gwq_headers request) (gws_issuer_registry st) = Ok auth}"

lemma gateway_credentialsI:
  "verify_gateway_auth H tls_export (gwq_headers request) (gws_issuer_registry st) = Ok auth \<Longrightarrow>
   auth \<in> gateway_credentials H st tls_export request"
  by (simp add: gateway_credentials_def)

lemma if_some_goal: "(if b then Some x else r) = Some h \<Longrightarrow> (h = x \<Longrightarrow> P) \<Longrightarrow> (r = Some h \<Longrightarrow> P) \<Longrightarrow> P"
  by (cases b) simp_all

lemma gw_routes_served:
  fixes H :: "'x gw_deps_scheme"
  shows "gw_object_routes H st tls_export request = Some h \<Longrightarrow> gw_served H st (gateway_credentials H st tls_export request) others h"
    "gw_upload_routes H st tls_export request = Some h \<Longrightarrow> gw_served H st (gateway_credentials H st tls_export request) others h"
    "gw_namespace_routes H st tls_export request = Some h \<Longrightarrow> gw_served H st (gateway_credentials H st tls_export request) others h"
  unfolding gw_object_routes_def gw_upload_routes_def gw_namespace_routes_def Let_def
  by - ((elim if_some_goal; simp only: option.distinct);
    (rule gw_call_rules gw_reply_served gw_operations_served | erule gateway_credentialsI)+)+


lemma gw_route_request_served:
  "gw_served H st (gateway_credentials H st tls_export request) others (gw_route_request H st tls_export request)"
proof -
  have show_state: "gw_served H st A others (\<lambda>w. (f w :: ApiError + 'b, w))" for A f
    by (simp add: gateway_view.served_def gateway_view.connects_refl)
  show ?thesis
    unfolding gw_route_request_def Let_def
    by (rule gw_call_rules gw_reply_served show_state gateway_view.served_option
        | erule gateway_credentialsI gw_routes_served)+
qed

lemma gw_poll_connects:
  assumes "auth \<in> A"
  shows "gw_connects H st A others w (snd (gw_poll H st auth request cursor w))"
proof -
  let ?m = "bnd (at_service (subscribe_poll (gw_code H) (gws_service st) auth request cursor)) (\<lambda>(envelopes, next_cursor).
           bnd (gw_send_envelopes H envelopes) (\<lambda>_.
           ret (list_ex (\<lambda>envelope. se_kind envelope = Env_Event) envelopes, next_cursor)))"
  obtain r w' where m: "?m w = (r, w')" by fastforce
  have "gw_served H st A others ?m"
    by (intro gateway_view.served_bnd at_service_served [OF assms serve_calls(11)] gateway_view.served_prod
        gateway_view.still_served gw_send_envelopes_still gw_rules)
  from gateway_view.servedD [OF this m] show ?thesis
    unfolding gw_poll_def m by (cases r) simp_all
qed

lemma handle_gateway_subscribe_connects:
  assumes "handle_gateway_subscribe H st asleep tls_export request w = Some (r, w')"
  shows "gw_connects H st (gateway_credentials H st tls_export request) (\<lambda>s s'. \<exists>ms n. s' = asleep ms n s) w w'"
proof -
  let ?A = "gateway_credentials H st tls_export request" and ?o = "\<lambda>s s'. \<exists>ms n. s' = asleep ms n s"
  let ?m = "bnd (lift_result (verify_gateway_auth H tls_export (gwq_headers request) (gws_issuer_registry st))) (\<lambda>auth.
           bnd (lift_result (gw_subscribe_request (gwq_query request))) (\<lambda>subscribe.
           bnd (at_service (subscribe_start (gw_code H) (gws_service st) auth subscribe)) (\<lambda>cursor.
           bnd (lift_result (build_response H http_build_error 200
                  [(''content-type'', ''application/x-hsp-events+jsonl'')] [])) (\<lambda>response.
           bnd (on_err http3_error (h3_send (Sent_Response response))) (\<lambda>_.
           ret (auth, subscribe, cursor))))))"
  obtain x w1 where m: "?m w = (x, w1)" by fastforce
  have "gw_served H st ?A ?o ?m"
    by (intro gateway_view.served_lift_bnd gateway_view.served_bnd [OF at_service_served [OF _ serve_calls(10)]]
        gateway_view.still_served gw_rules h3_send_still) (erule gateway_credentialsI)
  from gateway_view.servedD [OF this m] have opened: "gw_connects H st ?A ?o w w1" .
  show ?thesis
  proof (cases x)
    case (Inr y)
    obtain auth subscribe cursor where y: "y = (auth, subscribe, cursor)" by (cases y)
    have "auth \<in> ?A"
      using m Inr y by (auto simp: gateway_credentials_def bnd_def lift_result_def ret_def split: sum.splits prod.splits)
    have "gw_still (on_err http3_error (h3_send Sent_Finish))" by (intro gw_rules h3_send_still)
    then have finish: "gw_connects H st ?A ?o w (snd (on_err http3_error (h3_send Sent_Finish) w))" for w
      by (intro gateway_view.connects_refl) (simp add: gateway_view.still_def)
    have "gw_connects H st ?A ?o w1 w'"
      using assms m Inr y unfolding handle_gateway_subscribe_def gw_subscribe_loop_def
      by (simp, elim gateway_view.poll_loop_connects)
        (auto intro!: gw_poll_connects [OF \<open>auth \<in> ?A\<close>] gateway_view.connects_wait finish)
    with opened show ?thesis by (rule gateway_view.connects_trans)
  qed (use assms m opened in \<open>simp add: handle_gateway_subscribe_def\<close>)
qed

text \<open>An answer was sent after a route was taken or a subscription ended.\<close>

lemma handle_gateway_request_cases:
  assumes "handle_gateway_request H st asleep tls_export request w = Some (r, w')"
  obtains (route) x w1 where "gw_route_request H st tls_export request w = (x, w1)" "gw_service w' = gw_service w1"
    | (events) x w1 where "handle_gateway_subscribe H st asleep tls_export request w = Some (x, w1)" "gw_service w' = gw_service w1"
proof (cases "gwq_method request = ''GET'' \<and> gwq_path request = ''/v1/events''")
  case True
  then obtain x w1 where sub: "handle_gateway_subscribe H st asleep tls_export request w = Some (x, w1)"
    using assms by (auto simp: handle_gateway_request_def)
  have "gw_service w' = gw_service w1"
    using assms True sub gateway_view.stillD [OF gw_answers_still(2), of H _ w1 r w']
    by (cases x) (auto simp: handle_gateway_request_def)
  with events sub show ?thesis .
next
  case False
  obtain x w1 where m: "gw_route_request H st tls_export request w = (x, w1)" by fastforce
  have "gw_service w' = gw_service w1"
    using assms False m gateway_view.stillD [OF gw_answers_still(1), of _ w1 r w'] gateway_view.stillD [OF gw_answers_still(2), of H _ w1 r w']
    by (cases x) (auto simp: handle_gateway_request_def)
  with route m show ?thesis .
qed

lemma gateway_session:
  assumes "handle_gateway_request H st asleep tls_export request w = Some (r, w')"
  shows "session (gw_code H) (gws_service st) (gateway_credentials H st tls_export request) (\<lambda>s s'. \<exists>ms n. s' = asleep ms n s)
      (gw_service w) (gw_service w') \<and>
    (gateway_credentials H st tls_export request = {} \<longrightarrow> gw_service w' = gw_service w)"
  using assms
proof (cases rule: handle_gateway_request_cases)
  case (route x w1)
  let ?A = "gateway_credentials H st tls_export request"
  have "gw_connects H st ?A others w w1" for others
    by (rule gateway_view.servedD [OF gw_route_request_served route(1)])
  then have any: "session (gw_code H) (gws_service st) ?A others (gw_service w) (gw_service w1)" for others
    by (simp add: gateway_view.connects_def)
  then show ?thesis using route(2) any session_empty [of "gw_code H" "gws_service st" "gw_service w" "gw_service w1"] by auto
next
  case (events x w1)
  have "w1 = w" if "gateway_credentials H st tls_export request = {}"
  proof -
    obtain e where "verify_gateway_auth H tls_export (gwq_headers request) (gws_issuer_registry st) = Err e"
      using \<open>_ = {}\<close> by (cases "verify_gateway_auth H tls_export (gwq_headers request) (gws_issuer_registry st)")
        (auto simp: gateway_credentials_def)
    then show ?thesis using events(1) by (simp add: handle_gateway_subscribe_def bnd_def lift_result_def)
  qed
  then show ?thesis
    using events(2) handle_gateway_subscribe_connects [OF events(1)] by (simp add: gateway_view.connects_def)
qed

text \<open>
  C8. Whatever request reaches the gateway, what it does to the service is a sequence of requests with the
  credentials of its headers, verified by the issuer registry and for this TLS session, with the rest of the
  system going on only while a subscription sleeps. Where the headers have no such credentials, the service
  is as it was.
\<close>

theorem gateway_requests_verified:
  assumes "handle_gateway_request H st asleep tls_export request w = Some (r, w')"
  shows "session (gw_code H) (gws_service st) (gateway_credentials H st tls_export request) (\<lambda>s s'. \<exists>ms n. s' = asleep ms n s)
      (gw_service w) (gw_service w') \<and>
    (gateway_credentials H st tls_export request = {} \<longrightarrow> gw_service w' = gw_service w)"
  by (rule gateway_session [OF assms])


section \<open>Tenant isolation over QUIC\<close>

lemma serve_foreign_data:
  assumes "as_store svc = Filesystem root" "dir_laws D" "plain_kind kind" "kind \<noteq> ''events''"
    and "cl_tenant_id (ac_claims auth) \<noteq> t" "serve D svc (auth, req) s = (r, s')"
  shows "w_files s' (slot D svc t kind key) = w_files s (slot D svc t kind key)"
proof (cases "request_tenant req = t")
  case True
  obtain r1 where "perform D svc (auth, req) s = (r1, s')"
    using assms(6) serve_perform [of D svc "(auth, req)" s] by (metis prod.collapse snd_conv)
  moreover have "refused (log_only D svc t (w_files s)) (perform D svc (auth, req))"
    using foreign_perform [of auth req D svc] assms(5) True by simp
  ultimately have "log_only D svc t (w_files s) (fate s') (w_files s')"
    unfolding refused_def by (simp add: log_only_def)
  moreover have "slot D svc t kind key \<noteq> slot D svc t ''events'' key'" for key'
    by (rule slot_kind_neq [OF assms(1,3) _ assms(4)]) simp
  ultimately show ?thesis by (simp add: log_only_def)
next
  case False
  then have "keeps (\<lambda>_. isolated D svc t (w_files s)) (serve D svc (auth, req))" by (intro tenant_files.keeps_serve) simp
  from keepsD [OF this assms(6)] show ?thesis using assms(1-3) by (simp add: isolated_def)
qed

lemma session_foreign_data:
  assumes "session D svc A others s s'" "as_store svc = Filesystem root" "dir_laws D" "plain_kind kind" "kind \<noteq> ''events''"
    and "\<And>auth. auth \<in> A \<Longrightarrow> cl_tenant_id (ac_claims auth) \<noteq> t"
    and "\<And>s s'. others s s' \<Longrightarrow> w_files s' (slot D svc t kind key) = w_files s (slot D svc t kind key)"
  shows "w_files s' (slot D svc t kind key) = w_files s (slot D svc t kind key)"
  using assms(1) by induction (simp_all add: assms(6,7) serve_foreign_data [OF assms(2-5) assms(6)])

text \<open>
  A run of the two servers without the tenant \<open>t\<close>: requests without verified credentials or with those of
  other tenants. What happens while a subscription sleeps is such a run too.
\<close>

inductive quic_run ::
  "'j native_deps \<Rightarrow> NativeState \<Rightarrow> 'x gw_deps_scheme \<Rightarrow> GatewayState \<Rightarrow> TenantId \<Rightarrow> service \<Rightarrow> service \<Rightarrow> bool"
  for N st H gst t where
  quic_start: "quic_run N st H gst t s s"
| quic_native: "quic_run N st H gst t s (nw_service w) \<Longrightarrow>
    (\<And>auth. auth \<in> stream_credentials N st tls_export w \<Longrightarrow> cl_tenant_id (ac_claims auth) \<noteq> t) \<Longrightarrow>
    (\<And>ms n s. quic_run N st H gst t s (asleep ms n s)) \<Longrightarrow>
    handle_request_stream N st asleep tls_export w = Some (r, w') \<Longrightarrow> quic_run N st H gst t s (nw_service w')"
| quic_gateway: "quic_run N st H gst t s (gw_service v) \<Longrightarrow>
    (\<And>auth. auth \<in> gateway_credentials H gst tls_export request \<Longrightarrow> cl_tenant_id (ac_claims auth) \<noteq> t) \<Longrightarrow>
    (\<And>ms n s. quic_run N st H gst t s (asleep ms n s)) \<Longrightarrow>
    handle_gateway_request H gst asleep tls_export request v = Some (r', v') \<Longrightarrow> quic_run N st H gst t s (gw_service v')"

text \<open>
  C9. Tenants are isolated at the servers over QUIC: whatever requests reach the native server and the gateway
  without verified credentials or with those of other tenants, whatever tenants the requests name, in any
  order, with others served while a subscription sleeps and with whichever system calls fail, every file of
  a tenant but those of its event log stays the same. (For a file system store; the tenant's directory name
  is base64url of its identifier.)
\<close>

theorem quic_tenant_isolation:
  assumes "quic_run N st H gst t s s'" "as_store (nst_service st) = Filesystem root" "dir_laws (nd_service N)"
    and "gw_code H = nd_service N" "gws_service gst = nst_service st" "plain_kind kind" "kind \<noteq> ''events''"
  shows "w_files s' (slot (nd_service N) (nst_service st) t kind key) = w_files s (slot (nd_service N) (nst_service st) t kind key)"
  using assms(1)
proof induction
  case (quic_native s w tls_export asleep r w')
  have "w_files (nw_service w') (slot (nd_service N) (nst_service st) t kind key) =
      w_files (nw_service w) (slot (nd_service N) (nst_service st) t kind key)"
    by (rule session_foreign_data [OF conjunct1 [OF native_session [OF quic_native.hyps(4)]] assms(2,3,6,7)])
      (use quic_native in auto)
  then show ?case using quic_native by simp
next
  case (quic_gateway s v tls_export request asleep r' v')
  have "w_files (gw_service v') (slot (nd_service N) (nst_service st) t kind key) =
      w_files (gw_service v) (slot (nd_service N) (nst_service st) t kind key)"
    by (rule session_foreign_data [OF conjunct1 [OF gateway_session [OF quic_gateway.hyps(4)], unfolded assms(4,5)] assms(2,3,6,7)])
      (use quic_gateway in auto)
  then show ?case using quic_gateway by simp
qed simp


section \<open>Every request is answered\<close>









end
