(* ===== verification/HSP_Native_Stream.thy ===== *)
theory HSP_Native_Stream
  imports HSP_Native
begin

text \<open>
  A request on the stream of the native server: the loop that reads its body ends and respects the limit,
  and what a client writes is what the server serves.
\<close>

section \<open>Frames take bytes\<close>

lemma read_frame_takes_header:
  assumes "read_frame D r = (Ok f, r')"
  shows "length (rd_pending r') + FRAME_HEADER_LEN \<le> length (rd_pending r)"
proof -
  obtain header r1 where h: "read_exact FRAME_HEADER_LEN r = (Ok header, r1)"
    using assms by (auto simp: read_frame_def bnd_Ok)
  then have "length (rd_pending r1) + FRAME_HEADER_LEN = length (rd_pending r)"
    by (auto simp: read_exact_def split: if_splits)
  moreover have "length (rd_pending r') \<le> length (rd_pending r1)"
    using assms h by (auto simp: read_frame_def bnd_Ok lift_result_def ret_def Let_def read_exact_def split: if_splits)
  ultimately show ?thesis by simp
qed




section \<open>A request as the client writes it\<close>

lemma frame_written:
  assumes "wire_laws D" "frame_ok f" "write_frame D f w = (Ok u, w')"
  obtains bytes where "wr_sent w' = wr_sent w @ bytes"
    "\<And>rest. read_frame D \<lparr>rd_pending = bytes @ rest\<rparr> = (Ok f, \<lparr>rd_pending = rest\<rparr>)"
  using assms(3)
proof (rule write_frame_Ok)
  fix p
  assume p: "encode_frame_payload D f = Ok p" "length p \<le> 8 * 1024 * 1024" "wr_sent w' = wr_sent w @ frame_bytes f p"
  show thesis
    using that [OF p(3)] read_frame_bytes [OF p(2), of D f] decode_encode_payload [OF assms(1,2) p(1)] by simp
qed

lemma write_frames_Cons: "write_frames D (f # fs) w = (Ok u, w') \<longleftrightarrow>
    (\<exists>w1. write_frame D f w = (Ok (), w1) \<and> write_frames D fs w1 = (Ok u, w'))"
  by (auto simp: bnd_Ok)

lemma body_written:
  assumes "wire_laws (nd_wire N)" "write_frames (nd_wire N) (map Fr_Data datas @ [Fr_End]) w = (Ok u, w')"
    and "length body + length (concat datas) \<le> limit"
  shows "\<exists>bytes. wr_sent w' = wr_sent w @ bytes \<and> length datas < length bytes \<and>
    (\<forall>rest fuel. length datas < fuel \<longrightarrow>
       read_body_loop N limit fuel body \<lparr>rd_pending = bytes @ rest\<rparr> = (Ok (body @ concat datas), \<lparr>rd_pending = rest\<rparr>))"
  using assms(2,3)
proof (induction datas arbitrary: w body)
  case Nil
  then obtain bytes where b: "wr_sent w' = wr_sent w @ bytes"
      "\<And>rest. read_frame (nd_wire N) \<lparr>rd_pending = bytes @ rest\<rparr> = (Ok Fr_End, \<lparr>rd_pending = rest\<rparr>)"
    using frame_written [OF assms(1), of Fr_End w] by (auto simp: bnd_Ok ret_def)
  have "bytes \<noteq> []"
    using read_frame_takes_header [OF b(2) [of "[]"]] by (auto simp: FRAME_HEADER_LEN_def)
  moreover have "read_body_loop N limit fuel body \<lparr>rd_pending = bytes @ rest\<rparr> = (Ok body, \<lparr>rd_pending = rest\<rparr>)"
    if "0 < fuel" for fuel rest
    using that b(2) by (cases fuel) (simp_all add: bnd_def ret_def)
  ultimately show ?case using b(1) by auto
next
  case (Cons d datas)
  obtain w1 where w1: "write_frame (nd_wire N) (Fr_Data d) w = (Ok (), w1)"
      "write_frames (nd_wire N) (map Fr_Data datas @ [Fr_End]) w1 = (Ok u, w')"
    using Cons.prems(1) by (auto simp: bnd_Ok)
  obtain b1 where b1: "wr_sent w1 = wr_sent w @ b1"
      "\<And>rest. read_frame (nd_wire N) \<lparr>rd_pending = b1 @ rest\<rparr> = (Ok (Fr_Data d), \<lparr>rd_pending = rest\<rparr>)"
    using frame_written [OF assms(1) _ w1(1)] by auto
  obtain b2 where b2: "wr_sent w' = wr_sent w1 @ b2" "length datas < length b2"
      "\<And>rest fuel. length datas < fuel \<Longrightarrow> read_body_loop N limit fuel (body @ d) \<lparr>rd_pending = b2 @ rest\<rparr>
         = (Ok ((body @ d) @ concat datas), \<lparr>rd_pending = rest\<rparr>)"
    using Cons.IH [OF w1(2), of "body @ d"] Cons.prems(2) by auto
  have "b1 \<noteq> []"
    using read_frame_takes_header [OF b1(2) [of "[]"]] by (auto simp: FRAME_HEADER_LEN_def)
  moreover have "read_body_loop N limit fuel body \<lparr>rd_pending = (b1 @ b2) @ rest\<rparr>
      = (Ok (body @ concat (d # datas)), \<lparr>rd_pending = rest\<rparr>)" if "length (d # datas) < fuel" for fuel rest
    using that b1(2) b2(3) Cons.prems(2) by (cases fuel) (simp_all add: bnd_def)
  ultimately show ?case
    using b1(1) b2(1,2) by (intro exI [of _ "b1 @ b2"]) (auto simp: neq_Nil_conv)
qed


lemma native_request_read:
  assumes "wire_laws (nd_wire N)" "length (concat datas) \<le> native_body_limit header"
    and "write_frames (nd_wire N) ([Fr_Auth auth_frame, Fr_ReqHeader header] @ map Fr_Data datas @ [Fr_End]) cw = (Ok (), cw')"
  shows "\<exists>bytes. wr_sent cw' = wr_sent cw @ bytes \<and>
    (\<forall>rest. fst (read_frame (nd_wire N) \<lparr>rd_pending = bytes @ rest\<rparr>) = Ok (Fr_Auth auth_frame)) \<and>
    (\<forall>rest s out. let w = \<lambda>pending. \<lparr>nw_service = s, nw_recv = \<lparr>rd_pending = pending\<rparr>, nw_send = out\<rparr> in
       case verify_auth_frame N tls_export (nst_issuer_registry st) auth_frame of
         Ok auth \<Rightarrow>
           handle_request_stream N st asleep tls_export (w (bytes @ rest)) =
             (if rq_operation header = Op_Subscribe then native_subscribe N st asleep (Some auth) (concat datas) (w rest)
              else Some (native_dispatch N st (Some auth) header (concat datas) (w rest)))
       | Err error \<Rightarrow>
           \<exists>unread. handle_request_stream N st asleep tls_export (w (bytes @ rest)) = Some (Err (api_to_wire error), w unread))"
proof -
  obtain w1 w2 where w1: "write_frame (nd_wire N) (Fr_Auth auth_frame) cw = (Ok (), w1)"
      "write_frame (nd_wire N) (Fr_ReqHeader header) w1 = (Ok (), w2)"
      "write_frames (nd_wire N) (map Fr_Data datas @ [Fr_End]) w2 = (Ok (), cw')"
    using assms(3) by (auto simp: bnd_Ok)
  obtain b1 where b1: "wr_sent w1 = wr_sent cw @ b1"
      "\<And>rest. read_frame (nd_wire N) \<lparr>rd_pending = b1 @ rest\<rparr> = (Ok (Fr_Auth auth_frame), \<lparr>rd_pending = rest\<rparr>)"
    using frame_written [OF assms(1) _ w1(1)] by auto
  obtain b2 where b2: "wr_sent w2 = wr_sent w1 @ b2"
      "\<And>rest. read_frame (nd_wire N) \<lparr>rd_pending = b2 @ rest\<rparr> = (Ok (Fr_ReqHeader header), \<lparr>rd_pending = rest\<rparr>)"
    using frame_written [OF assms(1) _ w1(2)] by auto
  obtain b3 where b3: "wr_sent cw' = wr_sent w2 @ b3" "length datas < length b3"
      "\<And>rest fuel. length datas < fuel \<Longrightarrow> read_body_loop N (native_body_limit header) fuel [] \<lparr>rd_pending = b3 @ rest\<rparr>
         = (Ok (concat datas), \<lparr>rd_pending = rest\<rparr>)"
    using body_written [OF assms(1) w1(3), of "[]" "native_body_limit header"] assms(2) by auto
  have body: "read_body N (native_body_limit header) \<lparr>rd_pending = b3 @ rest\<rparr> = (Ok (concat datas), \<lparr>rd_pending = rest\<rparr>)" for rest
    unfolding read_body_def by (rule b3(3)) (use b3(2) in simp)
  note run = handle_request_stream_def read_request_head_def bnd_def on_recv_def lift_result_def ret_def map_err_def
  show ?thesis
  proof (intro exI [of _ "b1 @ b2 @ b3"] conjI allI)
    show "wr_sent cw' = wr_sent cw @ b1 @ b2 @ b3" using b1(1) b2(1) b3(1) by simp
    show "fst (read_frame (nd_wire N) \<lparr>rd_pending = (b1 @ b2 @ b3) @ rest\<rparr>) = Ok (Fr_Auth auth_frame)" for rest
      by (simp add: b1(2))
    fix rest s out
    show "let w = \<lambda>pending. \<lparr>nw_service = s, nw_recv = \<lparr>rd_pending = pending\<rparr>, nw_send = out\<rparr> in
       case verify_auth_frame N tls_export (nst_issuer_registry st) auth_frame of
         Ok auth \<Rightarrow>
           handle_request_stream N st asleep tls_export (w ((b1 @ b2 @ b3) @ rest)) =
             (if rq_operation header = Op_Subscribe then native_subscribe N st asleep (Some auth) (concat datas) (w rest)
              else Some (native_dispatch N st (Some auth) header (concat datas) (w rest)))
       | Err error \<Rightarrow>
           \<exists>unread. handle_request_stream N st asleep tls_export (w ((b1 @ b2 @ b3) @ rest)) = Some (Err (api_to_wire error), w unread)"
      by (cases "verify_auth_frame N tls_export (nst_issuer_registry st) auth_frame") (auto simp: run b1(2) b2(2) body)
  qed
qed

text \<open>
  C24. Requests arrive as they were written: when a client writes the frames of a request without an error and
  the body is within the limit of the operation, the server, whatever follows on the stream, verifies the
  credentials of the \<open>AUTH\<close> frame, leaves what follows unread, and serves that operation with the body the
  client cut into \<open>DATA\<close> frames; credentials that do not verify end the stream before anything is served.
\<close>

theorem native_request_roundtrip:
  assumes "wire_laws (nd_wire N)" "length (concat datas) \<le> native_body_limit header"
    and "write_frames (nd_wire N) ([Fr_Auth auth_frame, Fr_ReqHeader header] @ map Fr_Data datas @ [Fr_End]) cw = (Ok (), cw')"
  shows "\<exists>bytes. wr_sent cw' = wr_sent cw @ bytes \<and>
    (\<forall>rest s out. let w = \<lambda>pending. \<lparr>nw_service = s, nw_recv = \<lparr>rd_pending = pending\<rparr>, nw_send = out\<rparr> in
       case verify_auth_frame N tls_export (nst_issuer_registry st) auth_frame of
         Ok auth \<Rightarrow>
           handle_request_stream N st asleep tls_export (w (bytes @ rest)) =
             (if rq_operation header = Op_Subscribe then native_subscribe N st asleep (Some auth) (concat datas) (w rest)
              else Some (native_dispatch N st (Some auth) header (concat datas) (w rest)))
       | Err error \<Rightarrow>
           \<exists>unread. handle_request_stream N st asleep tls_export (w (bytes @ rest)) = Some (Err (api_to_wire error), w unread))"
  using native_request_read [OF assms, where tls_export = tls_export and st = st and asleep = asleep] by blast

end
