(* ===== verification/HSP_Namespace.thy ===== *)
theory HSP_Namespace
  imports HSP_Safety
begin

text \<open>
  The versioned namespace: the current state, the journal and the revision counter of a namespace
  are three records of the encrypted store, written one after the other by \<open>bind\<close> and \<open>unbind\<close>.
  The abstract view is the journal alone: the current bindings are its replay, revisions are the
  positions in it, and it only ever grows. Every operation of the service keeps this, so old
  revisions read the same for ever.
\<close>

section \<open>The abstract view\<close>

definition stored_current ::
  "service_deps \<Rightarrow> AlphaService \<Rightarrow> TenantId \<Rightarrow> string \<Rightarrow> (string \<rightharpoonup> byte list) \<Rightarrow> ApiError + NamespaceCurrentState" where
  "stored_current D svc t ns f =
     rbnd (peek D svc (json_ns_current D) t ''namespace-current'' ns f) (\<lambda>found.
     Ok (case found of
           Some state \<Rightarrow> state
         | None \<Rightarrow> \<lparr>nc_namespace = ns, nc_revision = 0, nc_bindings = []\<rparr>))"

definition stored_journal ::
  "service_deps \<Rightarrow> AlphaService \<Rightarrow> TenantId \<Rightarrow> string \<Rightarrow> (string \<rightharpoonup> byte list)
   \<Rightarrow> ApiError + NamespaceJournalEntry list" where
  "stored_journal D svc t ns f =
     rbnd (peek D svc (json_ns_journal D) t ''namespace-journal'' ns f) (\<lambda>found.
     Ok (case found of None \<Rightarrow> [] | Some journal \<Rightarrow> journal))"

definition stored_revision ::
  "service_deps \<Rightarrow> AlphaService \<Rightarrow> TenantId \<Rightarrow> string \<Rightarrow> (string \<rightharpoonup> byte list) \<Rightarrow> ApiError + u64" where
  "stored_revision D svc t ns f =
     rbnd (peek D svc (json_ns_revision D) t ''namespace-revisions'' ns f) (\<lambda>found.
     Ok (case found of None \<Rightarrow> 1 | Some state \<Rightarrow> nr_next_revision state))"

definition journal_bindings :: "NamespaceJournalEntry list \<Rightarrow> (string, NamespaceBindingState) btm" where
  "journal_bindings journal = fold journal_step journal []"

definition numbered :: "NamespaceJournalEntry list \<Rightarrow> bool" where
  "numbered journal \<longleftrightarrow> map nj_revision journal = map (\<lambda>i. of_nat (Suc i)) [0..<length journal]"

text \<open>The three records agree with one journal, which continues \<open>past\<close>.\<close>

definition ns_agree ::
  "service_deps \<Rightarrow> AlphaService \<Rightarrow> TenantId \<Rightarrow> string \<Rightarrow> (string \<rightharpoonup> byte list) \<Rightarrow> NamespaceJournalEntry list \<Rightarrow> bool" where
  "ns_agree D svc t ns f journal \<longleftrightarrow>
     stored_journal D svc t ns f = Ok journal \<and> numbered journal \<and>
     stored_revision D svc t ns f = Ok (of_nat (Suc (length journal))) \<and>
     (\<exists>current. stored_current D svc t ns f = Ok current \<and> nc_bindings current = journal_bindings journal \<and>
        nc_revision current = of_nat (length journal))"

definition ns_ok ::
  "service_deps \<Rightarrow> AlphaService \<Rightarrow> TenantId \<Rightarrow> string \<Rightarrow> NamespaceJournalEntry list \<Rightarrow> (string \<rightharpoonup> byte list) \<Rightarrow> bool" where
  "ns_ok D svc t ns past f \<longleftrightarrow> (\<exists>later. ns_agree D svc t ns f (past @ later))"

lemma ns_agree_empty [simp]: "ns_agree D svc t ns Map.empty []"
  by (simp add: ns_agree_def stored_journal_def stored_revision_def stored_current_def peek_def peek_bytes_def
      numbered_def journal_bindings_def)

lemma ns_ok_refl: "ns_agree D svc t ns f journal \<Longrightarrow> ns_ok D svc t ns journal f"
  unfolding ns_ok_def by (rule exI [of _ "[]"]) simp

lemma ns_agree_peek:
  assumes "peek D svc (json_ns_current D) t ''namespace-current'' ns f =
      peek D svc (json_ns_current D) t ''namespace-current'' ns' g"
    and "peek D svc (json_ns_journal D) t ''namespace-journal'' ns f =
      peek D svc (json_ns_journal D) t ''namespace-journal'' ns' g"
    and "peek D svc (json_ns_revision D) t ''namespace-revisions'' ns f =
      peek D svc (json_ns_revision D) t ''namespace-revisions'' ns' g"
  shows "ns_agree D svc t ns f journal = ns_agree D svc t ns' g journal"
  by (cases "peek D svc (json_ns_current D) t ''namespace-current'' ns' g")
    (auto simp: ns_agree_def stored_journal_def stored_revision_def stored_current_def assms split: option.splits)

lemma ns_agree_cong:
  assumes "\<And>kind. kind \<in> set namespace_kinds \<Longrightarrow> f (slot D svc t kind ns) = g (slot D svc t kind ns)"
  shows "ns_agree D svc t ns f journal = ns_agree D svc t ns g journal"
  by (rule ns_agree_peek; rule peek_cong; rule assms; simp add: namespace_kinds_def)

text \<open>Two namespaces whose names collide share all three records.\<close>

lemma ns_agree_same_file:
  assumes "store_file_name D ns = store_file_name D ns'"
  shows "ns_agree D svc t ns f journal = ns_agree D svc t ns' f journal"
  by (rule ns_agree_peek; simp add: peek_def peek_bytes_def slot_def store_key_def assms)

section \<open>The three writes\<close>

definition total_codec :: "'a codec \<Rightarrow> bool" where
  "total_codec c \<longleftrightarrow> codec_ok c \<and> (\<forall>v. \<exists>bytes. to_vec c v = Ok bytes)"

text \<open>Nothing that is to be stored fails to serialize or to be sealed.\<close>

definition namespace_laws :: "service_deps \<Rightarrow> AlphaService \<Rightarrow> bool" where
  "namespace_laws D svc \<longleftrightarrow>
     store_laws D \<and> dir_laws D \<and> (\<exists>root. as_store svc = Filesystem root) \<and>
     (\<forall>t kind plaintext s. \<exists>env s1 bytes. local_encrypt_store_payload D (as_kms svc) t kind plaintext (s :: service) = (Ok env, s1) \<and>
        to_vec (json_envelope D) env = Ok bytes) \<and>
     total_codec (json_ns_current D) \<and> total_codec (json_ns_journal D) \<and> total_codec (json_ns_revision D)"

lemma write_encrypted_json_Ok:
  assumes "namespace_laws D svc" "total_codec c" "fs_ready svc s"
  obtains s' where "write_encrypted_json D svc c t kind key v s = (Ok (), s')" "wrote_json D svc c t kind key v s s'"
proof -
  obtain bytes where v: "to_vec c v = Ok bytes" using assms(2) by (auto simp: total_codec_def)
  obtain env s1 raw where enc: "local_encrypt_store_payload D (as_kms svc) t kind bytes s = (Ok env, s1)"
    "to_vec (json_envelope D) env = Ok raw"
    using assms(1) unfolding namespace_laws_def by blast
  obtain r s' where w: "write_encrypted_json D svc c t kind key v s = (r, s')" by force
  obtain y s2 where wr: "store_write D (as_store svc) (store_key D t kind key) raw s1 = (y, s2)" by force
  have "r = y" using w enc v wr
    by (simp add: write_encrypted_json_def write_encrypted_bytes_def bnd_def lift_result_def map_err_def on_error_def
        write_envelope_def)
  moreover have "y = Ok ()"
    using store_write_spec [OF fs_ready_quiet [OF local_encrypt_frame [OF enc(1)] assms(3)] wr] by simp
  ultimately show ?thesis
    using write_encrypted_json_spec [OF _ _ assms(3) w] w assms(1,2) that
    by (auto simp: namespace_laws_def total_codec_def)
qed

lemma namespace_journal_spec:
  assumes "fs_ready svc s" "namespace_journal D svc t ns s = (r, s')"
  shows "quiet s s' \<and> r = stored_journal D svc t ns (w_files s)"
proof -
  obtain x s1 where rd: "read_encrypted_json D svc (json_ns_journal D) t ''namespace-journal'' ns s = (x, s1)" by force
  show ?thesis
    using assms(2) rd read_encrypted_json_spec [OF assms(1) rd]
    by (auto simp: namespace_journal_def stored_journal_def bnd_def ret_def rbnd_def split: sum.splits)
qed

lemma namespace_current_state_spec:
  assumes "fs_ready svc s" "namespace_current_state D svc t ns s = (r, s')"
  shows "quiet s s' \<and> r = stored_current D svc t ns (w_files s)"
proof -
  obtain x s1 where rd: "read_encrypted_json D svc (json_ns_current D) t ''namespace-current'' ns s = (x, s1)" by force
  show ?thesis
    using assms(2) rd read_encrypted_json_spec [OF assms(1) rd]
    by (auto simp: namespace_current_state_def stored_current_def bnd_def ret_def rbnd_def split: sum.splits)
qed

lemma slot_kinds_neq:
  assumes "namespace_laws D svc" "kind \<noteq> kind'" "kind \<in> set namespace_kinds" "kind' \<in> set namespace_kinds"
  shows "slot D svc t kind ns \<noteq> slot D svc t kind' ns"
proof -
  obtain root where root: "as_store svc = Filesystem root" using assms(1) unfolding namespace_laws_def by blast
  have "plain_kind kind" "plain_kind kind'" using assms(3,4) by (auto simp: namespace_kinds_def)
  then show ?thesis by (rule slot_kind_neq [OF root _ _ assms(2)])
qed

text \<open>
  A change of the namespace: take a revision, write the current state, append to the journal. From
  records that agree with a journal it always gets through, to records that agree with the journal
  and its new entry, when the new bindings are the step of the new entry.
\<close>

lemma namespace_change_spec:
  assumes laws: "namespace_laws D svc" and ready: "fs_ready svc s"
    and agree: "ns_agree D svc t ns (w_files s) journal"
    and current: "stored_current D svc t ns (w_files s) = Ok current"
    and rv: "rv = of_nat (Suc (length journal))"
    and state: "nc_bindings (F rv) = journal_step (E rv) (nc_bindings current)" "nc_revision (F rv) = rv"
    and entry: "nj_revision (E rv) = rv"
  obtains s' where
    "namespace_change D svc t ns F E s = (Ok rv, s')"
    "ns_agree D svc t ns (w_files s') (journal @ [E rv])" "fs_ready svc s'"
    "stored_current D svc t ns (w_files s') = Ok (F rv)"
    "\<And>t' kind key. plain_kind kind \<Longrightarrow> kind \<notin> set namespace_kinds \<Longrightarrow>
      w_files s' (slot D svc t' kind key) = w_files s (slot D svc t' kind key)"
proof -
  note tc = laws [unfolded namespace_laws_def]
  note neq = slot_kinds_neq [OF laws, of _ _ t ns, unfolded namespace_kinds_def]
  obtain x s1 where rd: "read_encrypted_json D svc (json_ns_revision D) t ''namespace-revisions'' ns s = (x, s1)" by force
  have q1: "quiet s s1" "rbnd x (\<lambda>found. Ok (case found of None \<Rightarrow> 1 | Some state \<Rightarrow> nr_next_revision state)) = Ok rv"
    using read_encrypted_json_spec [OF ready rd] agree rv by (simp_all add: ns_agree_def stored_revision_def)
  then obtain found where found: "x = Ok found" "(case found of None \<Rightarrow> 1 | Some state \<Rightarrow> nr_next_revision state) = rv"
    by (cases x) auto
  note ready1 = fs_ready_quiet [OF q1(1) ready]
  obtain s2 where w2: "write_encrypted_json D svc (json_ns_revision D) t ''namespace-revisions'' ns
      \<lparr>nr_next_revision = rv + 1\<rparr> s1 = (Ok (), s2)"
    "wrote_json D svc (json_ns_revision D) t ''namespace-revisions'' ns \<lparr>nr_next_revision = rv + 1\<rparr> s1 s2"
    using write_encrypted_json_Ok [OF laws _ ready1, of "json_ns_revision D"] tc by blast
  note ready2 = wrote_json_ready [OF ready1 w2(2)]
  obtain s3 where w3: "write_encrypted_json D svc (json_ns_current D) t ''namespace-current'' ns (F rv) s2 = (Ok (), s3)"
    "wrote_json D svc (json_ns_current D) t ''namespace-current'' ns (F rv) s2 s3"
    using write_encrypted_json_Ok [OF laws _ ready2, of "json_ns_current D"] tc by blast
  note ready3 = wrote_json_ready [OF ready2 w3(2)]
  obtain y s4 where j: "namespace_journal D svc t ns s3 = (y, s4)" by force
  note f23 = wrote_json_other [OF w2(2)] wrote_json_other [OF w3(2)]
  have files1: "w_files s1 = w_files s" by (rule quietD(1) [OF q1(1)])
  have y: "quiet s3 s4" "y = Ok journal"
    using namespace_journal_spec [OF ready3 j] agree neq files1 by (simp_all add: ns_agree_def stored_journal_def f23)
  note ready4 = fs_ready_quiet [OF y(1) ready3]
  obtain s5 where w5: "write_encrypted_json D svc (json_ns_journal D) t ''namespace-journal'' ns (journal @ [E rv]) s4 = (Ok (), s5)"
    "wrote_json D svc (json_ns_journal D) t ''namespace-journal'' ns (journal @ [E rv]) s4 s5"
    using write_encrypted_json_Ok [OF laws _ ready4, of "json_ns_journal D"] tc by blast
  have files4: "w_files s4 = w_files s3" by (rule quietD(1) [OF y(1)])
  have cur: "peek D svc (json_ns_current D) t ''namespace-current'' ns (w_files s5) = Ok (Some (F rv))"
    using w3(2) neq files4 by (simp add: wrote_json_other [OF w5(2)]) (simp add: wrote_json_def)
  have nxt: "peek D svc (json_ns_revision D) t ''namespace-revisions'' ns (w_files s5) =
      Ok (Some \<lparr>nr_next_revision = rv + 1\<rparr>)"
    using w2(2) neq files4 by (simp add: wrote_json_other [OF w5(2)] f23(2)) (simp add: wrote_json_def)
  have jrn: "peek D svc (json_ns_journal D) t ''namespace-journal'' ns (w_files s5) = Ok (Some (journal @ [E rv]))"
    using w5(2) by (simp add: wrote_json_def)
  have "nc_bindings current = journal_bindings journal" "numbered journal"
    using agree current by (auto simp: ns_agree_def)
  then have "ns_agree D svc t ns (w_files s5) (journal @ [E rv])"
    using state entry rv
    by (simp add: ns_agree_def stored_journal_def stored_revision_def stored_current_def cur nxt jrn numbered_def
        journal_bindings_def)
  moreover have "namespace_change D svc t ns F E s = (Ok rv, s5)"
    using rd found w2(1) w3(1) j y w5(1)
    by (simp add: namespace_change_def next_namespace_revision_def write_namespace_current_state_def append_namespace_journal_def bnd_def
        ret_def Let_def)
  moreover have "w_files s5 (slot D svc t' kind key) = w_files s (slot D svc t' kind key)"
    if "plain_kind kind" "kind \<notin> set namespace_kinds" for t' kind key
  proof -
    obtain root where root: "as_store svc = Filesystem root" using tc by blast
    have "slot D svc t' kind key \<noteq> slot D svc t k ns" if "k \<in> set namespace_kinds" for k
      using that \<open>kind \<notin> _\<close> by (intro slot_kind_neq [OF root \<open>plain_kind kind\<close>]) (auto simp: namespace_kinds_def)
    then have "slot D svc t' kind key \<noteq> slot D svc t ''namespace-current'' ns"
      "slot D svc t' kind key \<noteq> slot D svc t ''namespace-journal'' ns"
      "slot D svc t' kind key \<noteq> slot D svc t ''namespace-revisions'' ns"
      by (simp_all add: namespace_kinds_def)
    then show ?thesis using w2(2) w3(2) w5(2) files1 files4 unfolding wrote_json_def by auto
  qed
  ultimately show ?thesis
    using that wrote_json_ready [OF ready4 w5(2)] cur by (simp add: stored_current_def)
qed

section \<open>Every operation keeps the records in agreement\<close>

definition ns_kept ::
  "service_deps \<Rightarrow> AlphaService \<Rightarrow> TenantId \<Rightarrow> string \<Rightarrow> NamespaceJournalEntry list \<Rightarrow> disk_prop" where
  "ns_kept D svc t ns past io f \<longleftrightarrow> (namespace_laws D svc \<and> fst io = (\<lambda>_. IoOk) \<longrightarrow> ns_ok D svc t ns past f)"


lemma slot_other_namespace:
  assumes "namespace_laws D svc" "kind \<in> set namespace_kinds" "kind' \<in> set namespace_kinds"
    and "t' = t \<longrightarrow> store_file_name D ns' \<noteq> store_file_name D ns"
  shows "slot D svc t' kind ns' \<noteq> slot D svc t kind' ns"
proof -
  obtain root where root: "as_store svc = Filesystem root" using assms(1) unfolding namespace_laws_def by blast
  have dirs: "dir_laws D" using assms(1) by (simp add: namespace_laws_def)
  have plain: "plain_kind kind" "plain_kind kind'" using assms(2,3) by (auto simp: namespace_kinds_def)
  consider "kind \<noteq> kind'" | "t' \<noteq> t" | "kind = kind'" "t' = t" by blast
  then show ?thesis
  proof cases
    case 1
    then show ?thesis by (rule slot_kind_neq [OF root plain])
  next
    case 2
    then show ?thesis by (rule slot_tenant_neq [OF root dirs _ plain])
  next
    case 3
    then show ?thesis using assms(4) plain
      by (simp add: slot_def root path_join_inject store_key_not_absolute) (simp add: store_key_def)
  qed
qed

lemma ns_kept_free:
  assumes "\<And>kind'. namespace_laws D svc \<Longrightarrow> kind' \<in> set namespace_kinds \<Longrightarrow> p \<noteq> slot D svc t kind' ns"
  shows "free_at (ns_kept D svc t ns past) p"
  unfolding free_at_def ns_kept_def ns_ok_def
proof (intro allI impI, elim conjE)
  fix io f x
  assume ok: "namespace_laws D svc \<and> fst io = (\<lambda>_. IoOk) \<longrightarrow> (\<exists>later. ns_agree D svc t ns f (past @ later))"
    and laws: "namespace_laws D svc" "fst io = (\<lambda>_. IoOk)"
  have "ns_agree D svc t ns (f(p := x)) journal = ns_agree D svc t ns f journal" for journal
    using assms [OF laws(1)] by (intro ns_agree_cong) auto
  then show "\<exists>later. ns_agree D svc t ns (f(p := x)) (past @ later)" using ok laws by simp
qed

lemma ns_kept_free_kind:
  assumes "plain_kind kind" "kind \<notin> set namespace_kinds"
  shows "free_at (ns_kept D svc t ns past) (slot D svc t' kind key)"
proof (rule ns_kept_free)
  fix kind' assume laws: "namespace_laws D svc" and kind': "kind' \<in> set namespace_kinds"
  obtain root where root: "as_store svc = Filesystem root" using laws unfolding namespace_laws_def by blast
  have "plain_kind kind'" "kind \<noteq> kind'" using kind' assms(2) by (auto simp: namespace_kinds_def)
  then show "slot D svc t' kind key \<noteq> slot D svc t kind' ns"
    by (rule slot_kind_neq [OF root assms(1)])
qed

lemma ns_kept_free_other:
  assumes "kind \<in> set namespace_kinds" "t' = t \<longrightarrow> store_file_name D ns' \<noteq> store_file_name D ns"
  shows "free_at (ns_kept D svc t ns past) (slot D svc t' kind ns')"
  using slot_other_namespace [OF _ assms(1) _ assms(2)] by (intro ns_kept_free) auto

lemma keeps_ns_kept:
  assumes "\<And>io0. keeps (\<lambda>io f. io = io0) m"
    and "\<And>s r s' later. m s = (r, s') \<Longrightarrow> namespace_laws D svc \<Longrightarrow> fs_ready svc s \<Longrightarrow> w_io s = (\<lambda>_. IoOk) \<Longrightarrow>
      ns_agree D svc t ns (w_files s) (past @ later) \<Longrightarrow> ns_ok D svc t ns past (w_files s')"
  shows "keeps (ns_kept D svc t ns past) m"
proof (rule keepsI)
  fix s r s'
  assume m: "m s = (r, s')" and J: "ns_kept D svc t ns past (fate s) (w_files s)"
  have io: "w_io s' = w_io s" using keepsD [OF assms(1) [of "fate s"] m] by simp
  show "ns_kept D svc t ns past (fate s') (w_files s')"
    unfolding ns_kept_def
  proof (intro impI, elim conjE)
    assume laws: "namespace_laws D svc" "fst (fate s') = (\<lambda>_. IoOk)"
    then have "fs_ready svc s" using io by (auto simp: fs_ready_def namespace_laws_def io_reliable_def)
    moreover obtain later where "ns_agree D svc t ns (w_files s) (past @ later)"
      using J laws io by (auto simp: ns_kept_def ns_ok_def)
    ultimately show "ns_ok D svc t ns past (w_files s')" using assms(2) [OF m laws(1)] laws(2) io by simp
  qed
qed

text \<open>Where a computation leads from a given state.\<close>

definition leads :: "('s \<Rightarrow> bool) \<Rightarrow> 's \<Rightarrow> ('s, 'e, 'a) comp \<Rightarrow> bool" where
  "leads P s m \<longleftrightarrow> P (snd (m s))"

lemma leadsD: "leads P s m \<Longrightarrow> m s = (r, s') \<Longrightarrow> P s'"
  by (simp add: leads_def)

lemma leads_lift:
  "(\<And>e. r = Err e \<Longrightarrow> P s) \<Longrightarrow> (\<And>x. r = Ok x \<Longrightarrow> leads P s (f x)) \<Longrightarrow> leads P s (bnd (lift_result r) f)"
  by (cases r) (simp_all add: leads_def bnd_def lift_result_def)

lemma leads_ensure: "P s \<Longrightarrow> (b \<Longrightarrow> leads P s (f ())) \<Longrightarrow> leads P s (bnd (ensure b e) f)"
  by (cases b) (simp_all add: leads_def bnd_def ensure_def ret_def throw_def)

lemma leads_quiet:
  assumes "\<And>r s1. m s = (r, s1) \<Longrightarrow> quiet s s1" "\<And>s1. w_files s1 = w_files s \<Longrightarrow> P s1"
    and "\<And>x s1. m s = (Ok x, s1) \<Longrightarrow> quiet s s1 \<Longrightarrow> leads P s1 (f x)"
  shows "leads P s (bnd m f)"
proof (cases "m s")
  case (Pair r s1)
  then show ?thesis
    using assms(1) [OF Pair] assms(2) [of s1] assms(3) [of _ s1]
    by (cases r) (simp_all add: leads_def bnd_def quiet_def)
qed

lemma manifest_record_quiet:
  "fs_ready svc s \<Longrightarrow> manifest_record D svc t cid s = (r, s1) \<Longrightarrow> quiet s s1"
  by (cases "read_encrypted_json D svc (json_manifest_record D) t ''manifests'' cid s")
    (auto simp: manifest_record_def bnd_def lift_result_def split: sum.splits dest: read_encrypted_json_spec)

lemma keeps_fixed_io:
  "keeps (\<lambda>io f. io = io0) (bind_apply D svc r ns path rec)" "keeps (\<lambda>io f. io = io0) (unbind_apply D svc u ns path rec)"
  by (rule keeps_bind_apply keeps_unbind_apply; simp add: free_at_def)+

lemma leads_keeps:
  assumes "keeps (ns_kept D svc t ns past) m" "\<And>io0. keeps (\<lambda>io f. io = io0) m"
    and "namespace_laws D svc" "w_io s = (\<lambda>_. IoOk)" "ns_ok D svc t ns past (w_files s)"
  shows "leads (\<lambda>s. ns_ok D svc t ns past (w_files s)) s m"
proof -
  obtain r s' where m: "m s = (r, s')" by force
  have "ns_kept D svc t ns past (fate s') (w_files s')" "w_io s' = w_io s"
    using keepsD [OF assms(1) m] keepsD [OF assms(2) [of "fate s"] m] assms(4,5) by (simp_all add: ns_kept_def)
  then show ?thesis using m assms(3,4) by (simp add: leads_def ns_kept_def)
qed

text \<open>
  The change of a namespace, with what follows it: the rest \<open>K\<close> touches only events and the audit
  trail.
\<close>

lemma leads_namespace_change:
  assumes state: "\<And>rv. nc_bindings (F rv) = journal_step (E rv) (nc_bindings current)" "\<And>rv. nc_revision (F rv) = rv"
    and entry: "\<And>rv. nj_revision (E rv) = rv" and same: "store_file_name D ns' = store_file_name D ns"
    and rest: "\<And>J rv. (\<And>kind key. kind \<in> {''audit'', ''events''} \<Longrightarrow> free_at J (slot D svc t kind key)) \<Longrightarrow> keeps J (K rv)"
    and laws: "namespace_laws D svc" "fs_ready svc s" "w_io s = (\<lambda>_. IoOk)"
    and agree: "ns_agree D svc t ns (w_files s) (past @ later)"
    and current: "stored_current D svc t ns' (w_files s) = Ok current"
  shows "leads (\<lambda>s. ns_ok D svc t ns past (w_files s)) s (bnd (namespace_change D svc t ns' F E) K)"
proof -
  let ?rv = "of_nat (Suc (length (past @ later)))"
  note same' = ns_agree_same_file [OF same]
  obtain s1 where s1: "namespace_change D svc t ns' F E s = (Ok ?rv, s1)"
      "ns_agree D svc t ns' (w_files s1) ((past @ later) @ [E ?rv])"
    by (rule namespace_change_spec [OF laws(1,2) agree [folded same'] current refl, where F = F and E = E])
      (simp_all only: state entry)
  have io: "keeps (\<lambda>io f. fst io = (\<lambda>_. IoOk)) (namespace_change D svc t ns' F E)"
    unfolding namespace_change_def next_namespace_revision_def write_namespace_current_state_def
      append_namespace_journal_def namespace_journal_def
    by (intro keeps_rules keeps_write_encrypted_json; simp add: free_at_def)
  have "w_io s1 = (\<lambda>_. IoOk)" using keepsD [OF io s1(1)] laws(3) by simp
  moreover have "ns_ok D svc t ns past (w_files s1)"
    using s1(2) by (auto simp: same' ns_ok_def)
  moreover have "keeps (ns_kept D svc t ns past) (K ?rv)"
    by (rule rest, rule ns_kept_free_kind) (auto simp: namespace_kinds_def)
  moreover have "keeps (\<lambda>io f. io = io0) (K ?rv)" for io0
    by (rule rest) (simp add: free_at_def)
  ultimately have "leads (\<lambda>s. ns_ok D svc t ns past (w_files s)) s1 (K ?rv)"
    by (intro leads_keeps laws)
  then show ?thesis using s1(1) by (simp add: leads_def bnd_def)
qed

lemma keeps_finish:
  assumes "\<And>kind key. kind \<in> {''audit'', ''events''} \<Longrightarrow> free_at J (slot D svc t kind key)"
  shows "br_tenant_id r = t \<Longrightarrow> keeps J (bind_finish D svc r ns path rcid rv)"
    "ub_tenant_id u = t \<Longrightarrow> keeps J (unbind_finish D svc u ns path rcid b rv)"
  unfolding bind_finish_def unbind_finish_def
  by (intro keeps_rules keeps_event_writes; simp add: assms)+

lemma leads_current:
  assumes "fs_ready svc s" "\<And>s1. w_files s1 = w_files s \<Longrightarrow> P s1"
    and "\<And>current s2. stored_current D svc t ns (w_files s2) = Ok current \<Longrightarrow> w_files s2 = w_files s \<Longrightarrow>
      fs_ready svc s2 \<Longrightarrow> w_io s2 = w_io s \<Longrightarrow> leads P s2 (G current)"
  shows "leads P s (bnd (namespace_current_state D svc t ns) G)"
proof (rule leads_quiet)
  fix r s1 assume "namespace_current_state D svc t ns s = (r, s1)"
  then show "quiet s s1" using namespace_current_state_spec [OF assms(1)] by blast
next
  fix current s2 assume c: "namespace_current_state D svc t ns s = (Ok current, s2)" and q: "quiet s s2"
  have "stored_current D svc t ns (w_files s) = Ok current"
    using namespace_current_state_spec [OF assms(1) c] by simp
  then show "leads P s2 (G current)"
    using quietD [OF q] fs_ready_quiet [OF q assms(1)] by (intro assms(3)) simp_all
qed (rule assms(2))

lemma leads_manifest:
  assumes "fs_ready svc s" "\<And>s1. w_files s1 = w_files s \<Longrightarrow> P s1"
    and "\<And>s2. w_files s2 = w_files s \<Longrightarrow> fs_ready svc s2 \<Longrightarrow> w_io s2 = w_io s \<Longrightarrow> leads P s2 m"
  shows "leads P s (bnd (manifest_record D svc t cid) (\<lambda>_. m))"
proof (rule leads_quiet)
  fix r s1 assume "manifest_record D svc t cid s = (r, s1)"
  then show "quiet s s1" by (rule manifest_record_quiet [OF assms(1)])
next
  fix x s2 assume q: "quiet s s2"
  then show "leads P s2 m"
    using quietD [OF q] fs_ready_quiet [OF q assms(1)] by (intro assms(3)) simp_all
qed (rule assms(2))

lemma bind_apply_leads:
  assumes rec: "nm_path rec = path" "nm_kind rec = NM_Bind"
    and t: "br_tenant_id r = t" and same: "store_file_name D ns' = store_file_name D ns"
    and laws: "namespace_laws D svc" "fs_ready svc s" "w_io s = (\<lambda>_. IoOk)"
    and agree: "ns_agree D svc t ns (w_files s) (past @ later)"
  shows "leads (\<lambda>s. ns_ok D svc t ns past (w_files s)) s (bind_apply D svc r ns' path rec)"
proof -
  have ok: "ns_ok D svc t ns past (w_files s1)" if "w_files s1 = w_files s" for s1 :: service
    using agree that by (auto simp: ns_ok_def)
  note change = leads_namespace_change [OF _ _ _ same _ laws(1), where past = past and later = later]
  show ?thesis
    unfolding bind_apply_def t Let_def
    apply (rule leads_ensure, rule ok, rule refl)
    apply (rule leads_manifest [OF laws(2) ok], assumption)
    apply (rule leads_current, assumption, rule ok, simp)
    apply (rule leads_lift, rule ok, simp)
    apply (rule change, simp_all add: rec bind_entry_def bound_state_def journal_step_def laws agree)
    apply (rule keeps_finish(1) [OF _ t], simp)
    done
qed

lemma unbind_apply_leads:
  assumes rec: "nm_path rec = path" "nm_kind rec = (if ub_hard_delete u then NM_HardDelete else NM_Unbind)"
    and t: "ub_tenant_id u = t" and same: "store_file_name D ns' = store_file_name D ns"
    and laws: "namespace_laws D svc" "fs_ready svc s" "w_io s = (\<lambda>_. IoOk)"
    and agree: "ns_agree D svc t ns (w_files s) (past @ later)"
  shows "leads (\<lambda>s. ns_ok D svc t ns past (w_files s)) s (unbind_apply D svc u ns' path rec)"
proof -
  have ok: "ns_ok D svc t ns past (w_files s1)" if "w_files s1 = w_files s" for s1 :: service
    using agree that by (auto simp: ns_ok_def)
  note change = leads_namespace_change [OF _ _ _ same _ laws(1), where past = past and later = later]
  show ?thesis
    unfolding unbind_apply_def t Let_def
    apply (rule leads_current [OF laws(2) ok], assumption)
    apply (rule leads_lift, rule ok, simp)
    apply (rule leads_ensure, rule ok, simp)
    apply (rule change, simp_all add: rec unbind_entry_def unbound_state_def journal_step_def Let_def laws agree)
    apply (rule keeps_finish(2) [OF _ t], simp)
    done
qed

lemma namespace_steps_keep:
  shows "nm_path rec = path \<Longrightarrow> nm_kind rec = NM_Bind \<Longrightarrow> keeps (ns_kept D svc t ns past) (bind_apply D svc r ns' path rec)"
    and "nm_path rec = path \<Longrightarrow> nm_kind rec = (if ub_hard_delete u then NM_HardDelete else NM_Unbind) \<Longrightarrow>
      keeps (ns_kept D svc t ns past) (unbind_apply D svc u ns' path rec)"
proof -
  show "keeps (ns_kept D svc t ns past) (bind_apply D svc r ns' path rec)"
    if rec: "nm_path rec = path" "nm_kind rec = NM_Bind"
  proof (cases "br_tenant_id r = t \<and> store_file_name D ns' = store_file_name D ns")
    case False
    show ?thesis
    proof (rule keeps_bind_apply)
      fix kind key assume "kind \<in> {''audit'', ''events''}"
      then show "free_at (ns_kept D svc t ns past) (slot D svc (br_tenant_id r) kind key)"
        by (intro ns_kept_free_kind) (auto simp: namespace_kinds_def)
    next
      fix kind assume "kind \<in> set namespace_kinds"
      then show "free_at (ns_kept D svc t ns past) (slot D svc (br_tenant_id r) kind ns')"
        using False by (intro ns_kept_free_other) simp_all
    qed
  next
    case True
    show ?thesis
    proof (rule keeps_ns_kept [OF keeps_fixed_io(1)])
      fix s res s' later
      assume m: "bind_apply D svc r ns' path rec s = (res, s')" and laws: "namespace_laws D svc" "fs_ready svc s"
        "w_io s = (\<lambda>_. IoOk)" and agree: "ns_agree D svc t ns (w_files s) (past @ later)"
      show "ns_ok D svc t ns past (w_files s')"
        by (rule leadsD [OF bind_apply_leads [OF rec _ _ laws agree] m]) (use True in simp_all)
    qed
  qed
  show "keeps (ns_kept D svc t ns past) (unbind_apply D svc u ns' path rec)"
    if rec: "nm_path rec = path" "nm_kind rec = (if ub_hard_delete u then NM_HardDelete else NM_Unbind)"
  proof (cases "ub_tenant_id u = t \<and> store_file_name D ns' = store_file_name D ns")
    case False
    show ?thesis
    proof (rule keeps_unbind_apply)
      fix kind key assume "kind \<in> {''audit'', ''events''}"
      then show "free_at (ns_kept D svc t ns past) (slot D svc (ub_tenant_id u) kind key)"
        by (intro ns_kept_free_kind) (auto simp: namespace_kinds_def)
    next
      fix kind assume "kind \<in> set namespace_kinds"
      then show "free_at (ns_kept D svc t ns past) (slot D svc (ub_tenant_id u) kind ns')"
        using False by (intro ns_kept_free_other) simp_all
    qed
  next
    case True
    show ?thesis
    proof (rule keeps_ns_kept [OF keeps_fixed_io(2)])
      fix s res s' later
      assume m: "unbind_apply D svc u ns' path rec s = (res, s')" and laws: "namespace_laws D svc" "fs_ready svc s"
        "w_io s = (\<lambda>_. IoOk)" and agree: "ns_agree D svc t ns (w_files s) (past @ later)"
      show "ns_ok D svc t ns past (w_files s')"
        by (rule leadsD [OF unbind_apply_leads [OF rec _ _ laws agree] m]) (use True in simp_all)
    qed
  qed
qed

interpretation namespace_files: file_invariant D svc UNIV "ns_kept D svc t ns past" for D svc t ns past
proof
  fix t' kind key
  assume "kind \<in> set store_kinds" "kind \<notin> set data_kinds"
  then show "free_at (ns_kept D svc t ns past) (slot D svc t' kind key)"
    by (intro ns_kept_free_kind store_kinds_plain) (simp_all add: data_kinds_def)
next
  fix t' bytes
  show "keeps (ns_kept D svc t ns past) (write_encrypted_bytes D svc t' ''chunks'' (cid_from_bytes D bytes) bytes)"
    by (intro keeps_write_encrypted_bytes ns_kept_free_kind) (simp_all add: namespace_kinds_def)
next
  fix t' key v
  show "keeps (ns_kept D svc t ns past) (create_encrypted_json D svc (json_replay D) t' ''replay'' key v)"
    by (intro keeps_create_encrypted_json ns_kept_free_kind) (simp_all add: namespace_kinds_def)
qed (simp_all add: namespace_steps_keep)

section \<open>Snapshots\<close>

interpretation io_outcomes: record_free_invariant D svc UNIV "\<lambda>io f. io = given" for D svc given
  by unfold_locales (auto intro!: keeps_write_encrypted_bytes simp: free_at_def)

lemma io_of_run: "w_io (snd (run_steps (serve D svc) reqs s)) = w_io s"
  using io_outcomes.keeps_run [where reqs = reqs and given = "fate s" and s = s and D = D and svc = svc] by simp

lemma fault_free_ready: "namespace_laws D svc \<Longrightarrow> w_io s = (\<lambda>_. IoOk) \<Longrightarrow> fs_ready svc s"
  by (auto simp: fs_ready_def namespace_laws_def io_reliable_def)

lemma ns_ok_run:
  assumes "namespace_laws D svc" "w_io s = (\<lambda>_. IoOk)" "ns_agree D svc t ns (w_files s) journal"
  shows "ns_ok D svc t ns journal (w_files (snd (run_steps (serve D svc) reqs s)))"
proof -
  let ?s = "snd (run_steps (serve D svc) reqs s)"
  have "ns_kept D svc t ns journal (fate ?s) (w_files ?s)"
    by (rule namespace_files.keeps_run) (simp_all add: ns_kept_def ns_ok_refl assms)
  then show ?thesis using assms io_of_run [of D svc reqs s] by (simp add: ns_kept_def)
qed

lemma replay_numbered:
  assumes "map nj_revision entries = map (\<lambda>i. of_nat (Suc i)) [k..<k + length entries]" "k \<le> unat limit" "limit < - 1"
  shows "replay_journal limit entries bindings = fold journal_step (take (unat limit - k) entries) bindings"
  using assms
proof (induction entries arbitrary: k bindings)
  case (Cons e entries)
  have bound: "unat limit < 2 ^ 64 - 1"
    using Cons.prems(3) by (simp add: word_less_nat_alt unsigned_minus_1_eq_mask mask_eq_exp_minus_1)
  have "[k..<k + length (e # entries)] = k # [Suc k..<Suc k + length entries]"
    using upt_conv_Cons [of k "k + length (e # entries)"] by simp
  then have e: "nj_revision e = of_nat (Suc k)"
    and rest: "map nj_revision entries = map (\<lambda>i. of_nat (Suc i)) [Suc k..<Suc k + length entries]"
    using Cons.prems(1) by simp_all
  have u: "unat (of_nat (Suc k) :: u64) = Suc k"
    using Cons.prems(2) bound by (simp add: unsigned_of_nat take_bit_nat_eq_self del: of_nat_Suc)
  show ?case
  proof (cases "k < unat limit")
    case True
    then have "\<not> nj_revision e > limit" using u by (simp add: e word_less_nat_alt del: of_nat_Suc)
    moreover have "unat limit - k = Suc (unat limit - Suc k)" using True by simp
    ultimately show ?thesis using Cons.IH [OF rest] True Cons.prems(3) by simp
  next
    case False
    then have "nj_revision e > limit" using u Cons.prems(2) by (simp add: e word_less_nat_alt del: of_nat_Suc)
    then show ?thesis using False by simp
  qed
qed simp

lemma snapshot_at_spec:
  assumes "fs_ready svc s" "ns_agree D svc t ns (w_files s) journal" "unat limit \<le> length journal" "limit < - 1"
  obtains s' where "namespace_snapshot_at D svc t ns (Some limit) s =
    (Ok \<lparr>nc_namespace = ns, nc_revision = limit, nc_bindings = journal_bindings (take (unat limit) journal)\<rparr>, s')"
    "quiet s s'"
proof -
  obtain r s' where j: "namespace_journal D svc t ns s = (r, s')" by force
  have "quiet s s'" "r = Ok journal"
    using namespace_journal_spec [OF assms(1) j] assms(2) by (simp_all add: ns_agree_def)
  then show ?thesis
    using j assms(2,4) replay_numbered [of journal 0 limit "[]"]
    by (intro that) (simp_all add: namespace_snapshot_at_def bnd_def ret_def ns_agree_def numbered_def journal_bindings_def)
qed

text \<open>
  C12. The records of a namespace stay in agreement. Whenever the current state, the journal and the
  revision counter of a namespace agree with one journal (its entries numbered 1, 2, \<dots>, the current
  bindings its replay, the current revision its length, the counter one more), as in an empty store,
  they agree after any sequence of requests, by any callers for any tenants, refused or served, with
  a journal that continues the earlier one. System calls and serialization do not fail here.
\<close>

theorem namespace_records_agree:
  assumes "namespace_laws D svc" "w_io s = (\<lambda>_. IoOk)" "ns_agree D svc t ns (w_files s) journal"
  shows "\<exists>later. ns_agree D svc t ns (w_files (snd (run_steps (serve D svc) reqs s))) (journal @ later)"
  using ns_ok_run [OF assms] by (simp add: ns_ok_def)

text \<open>
  C15. History does not change while the disk works. When no system call and no serialization fails and the
  records of a namespace agree with one journal, a snapshot at a revision that exists (below the largest
  64-bit number) is the replay of that many journal entries, and the same snapshot is read after any later
  sequence of requests.
\<close>

theorem snapshot_immutable:
  assumes "namespace_laws D svc" "w_io s = (\<lambda>_. IoOk)" "ns_agree D svc t ns (w_files s) journal"
    and "unat limit \<le> length journal" "limit < - 1"
    and "namespace_snapshot_at D svc t ns (Some limit) s = (before, s1)"
    and "namespace_snapshot_at D svc t ns (Some limit) (snd (run_steps (serve D svc) reqs s)) = (after, s2)"
  shows "before = Ok \<lparr>nc_namespace = ns, nc_revision = limit,
      nc_bindings = journal_bindings (take (unat limit) journal)\<rparr> \<and> after = before"
proof -
  let ?s = "snd (run_steps (serve D svc) reqs s)"
  obtain later where later: "ns_agree D svc t ns (w_files ?s) (journal @ later)"
    using ns_ok_run [OF assms(1-3)] by (auto simp: ns_ok_def)
  have ready: "fs_ready svc s" "fs_ready svc ?s"
    using fault_free_ready [OF assms(1)] assms(2) io_of_run [of D svc reqs s] by simp_all
  show ?thesis
    by (rule snapshot_at_spec [OF ready(1) assms(3-5)], rule snapshot_at_spec [OF ready(2) later _ assms(5)])
      (use assms(4,6,7) in auto)
qed

text \<open>No record of the namespace has been written.\<close>

definition ns_absent :: "service_deps \<Rightarrow> AlphaService \<Rightarrow> TenantId \<Rightarrow> string \<Rightarrow> (string \<rightharpoonup> byte list) \<Rightarrow> bool" where
  "ns_absent D svc t ns f \<longleftrightarrow> (\<forall>kind\<in>set namespace_kinds. f (slot D svc t kind ns) = None)"

lemma ns_absent_agree: "ns_absent D svc t ns f \<Longrightarrow> ns_agree D svc t ns f []"
  using ns_agree_cong [of f D svc t ns Map.empty "[]"] by (simp add: ns_absent_def)

text \<open>
  C16. The fast path refines the slow one. From a store without records of a namespace, whatever requests are
  served, by any callers for any tenants, reading the namespace without a revision (the stored current
  state) returns the revision and the bindings that replaying the journal up to that revision returns. No
  system call and no serialization fails here, and the journal has fewer than \<open>2^64 - 1\<close> entries.
\<close>

theorem current_refines_journal:
  assumes "namespace_laws D svc" "w_io s = (\<lambda>_. IoOk)" "ns_absent D svc t ns (w_files s)"
    and "s' = snd (run_steps (serve D svc) reqs s)"
    and "\<And>journal. stored_journal D svc t ns (w_files s') = Ok journal \<Longrightarrow> length journal < 2 ^ 64 - 1"
  shows "\<exists>current s1 s2. namespace_snapshot_at D svc t ns None s' = (Ok current, s1) \<and>
    namespace_snapshot_at D svc t ns (Some (nc_revision current)) s' =
      (Ok \<lparr>nc_namespace = ns, nc_revision = nc_revision current, nc_bindings = nc_bindings current\<rparr>, s2)"
proof -
  obtain journal where agree: "ns_agree D svc t ns (w_files s') journal"
    using ns_ok_run [OF assms(1,2) ns_absent_agree [OF assms(3)], of reqs] assms(4) by (auto simp: ns_ok_def)
  then have len: "length journal < 2 ^ 64 - 1" by (intro assms(5)) (simp add: ns_agree_def)
  have ready: "fs_ready svc s'"
    using fault_free_ready [OF assms(1)] assms(2,4) io_of_run [of D svc reqs s] by simp
  obtain current where current: "stored_current D svc t ns (w_files s') = Ok current"
      "nc_bindings current = journal_bindings journal" "nc_revision current = of_nat (length journal)"
    using agree by (auto simp: ns_agree_def)
  obtain r s1 where r: "namespace_snapshot_at D svc t ns None s' = (r, s1)" by fastforce
  have "r = Ok current"
    using r current(1) namespace_current_state_spec [OF ready] by (simp add: namespace_snapshot_at_def)
  moreover have u: "unat (nc_revision current) = length journal"
    using len current(3) by (simp add: unsigned_of_nat take_bit_nat_eq_self)
  then have "nc_revision current < - 1"
    using len by (simp add: word_less_nat_alt unsigned_minus_1_eq_mask mask_eq_exp_minus_1)
  ultimately show ?thesis
    using r snapshot_at_spec [OF ready agree, of "nc_revision current"] current(2) u by (metis order_refl take_all)
qed

section \<open>Reading a binding back\<close>

definition current_is ::
  "service_deps \<Rightarrow> AlphaService \<Rightarrow> TenantId \<Rightarrow> string \<Rightarrow> NamespaceCurrentState \<Rightarrow> disk_prop" where
  "current_is D svc t ns current io f \<longleftrightarrow> (namespace_laws D svc \<longrightarrow> stored_current D svc t ns f = Ok current)"

lemma current_is_free:
  assumes "plain_kind kind" "kind \<noteq> ''namespace-current''"
  shows "free_at (current_is D svc t ns current) (slot D svc t' kind key)"
proof -
  have "peek D svc (json_ns_current D) t ''namespace-current'' ns (f(slot D svc t' kind key := x)) =
      peek D svc (json_ns_current D) t ''namespace-current'' ns f" if laws: "namespace_laws D svc" for f x
  proof -
    obtain root where "as_store svc = Filesystem root" using laws unfolding namespace_laws_def by blast
    then show ?thesis using assms by (intro peek_other_kind) simp_all
  qed
  then show ?thesis by (simp add: free_at_def current_is_def stored_current_def)
qed

lemma bind_apply_current:
  assumes rec: "nm_path rec = path" "nm_kind rec = NM_Bind"
    and laws: "namespace_laws D svc" "fs_ready svc s"
    and agree: "ns_agree D svc (br_tenant_id r) ns (w_files s) journal"
    and run: "bind_apply D svc r ns path rec s = (Ok response, s')"
  obtains current where "stored_current D svc (br_tenant_id r) ns (w_files s') = Ok current"
    "btm_get (nc_bindings current) path = Some (bound_state path r (bp_revision response) (bp_record_cid response))"
proof -
  let ?t = "br_tenant_id r" and ?rcid = "record_cid D rec" and ?rv = "of_nat (Suc (length journal))"
  obtain mr s1 current s2 where m: "manifest_record D svc ?t (br_target_cid r) s = (Ok mr, s1)"
    "namespace_current_state D svc ?t ns s1 = (Ok current, s2)"
    and rest: "bnd (namespace_change D svc ?t ns
            (\<lambda>revision. current\<lparr>nc_revision := revision,
                       nc_bindings := btm_insert path (bound_state path r revision ?rcid) (nc_bindings current)\<rparr>)
            (\<lambda>revision. bind_entry rec (bound_state path r revision ?rcid))) 
          (bind_finish D svc r ns path ?rcid) s2 = (Ok response, s')"
    using run by (auto simp: bind_apply_def Let_def bnd_Ok)
  have q1: "quiet s s1" by (rule manifest_record_quiet [OF laws(2) m(1)])
  note ready1 = fs_ready_quiet [OF q1 laws(2)]
  have q2: "quiet s1 s2" "stored_current D svc ?t ns (w_files s1) = Ok current"
    using namespace_current_state_spec [OF ready1 m(2)] by simp_all
  note files = quietD(1) [OF q1] quietD(1) [OF q2(1)]
  let ?F = "\<lambda>revision. current\<lparr>nc_revision := revision,
      nc_bindings := btm_insert path (bound_state path r revision ?rcid) (nc_bindings current)\<rparr>"
  obtain s3 where s3: "namespace_change D svc ?t ns ?F (\<lambda>revision. bind_entry rec (bound_state path r revision ?rcid)) s2 = (Ok ?rv, s3)"
    "stored_current D svc ?t ns (w_files s3) = Ok (?F ?rv)"
    by (rule namespace_change_spec [OF laws(1) fs_ready_quiet [OF q2(1) ready1], where F = ?F
          and E = "\<lambda>revision. bind_entry rec (bound_state path r revision ?rcid)" and t = ?t and ns = ns and journal = journal])
      (use agree q2(2) files rec in \<open>simp_all add: bind_entry_def bound_state_def journal_step_def\<close>)
  have fin: "bind_finish D svc r ns path ?rcid ?rv s3 = (Ok response, s')"
    using rest s3(1) by (simp add: bnd_def)
  have kf: "keeps (current_is D svc ?t ns (?F ?rv)) (bind_finish D svc r ns path ?rcid ?rv)"
    by (rule keeps_finish(1) [where t = ?t], rule current_is_free) auto
  have cur: "stored_current D svc ?t ns (w_files s') = Ok (?F ?rv)"
    using keepsD [OF kf fin] s3(2) laws(1) by (simp add: current_is_def)
  have "bp_revision response = ?rv" "bp_record_cid response = ?rcid"
    using fin by (auto simp: bind_finish_def bnd_Ok)
  then have "btm_get (nc_bindings (?F ?rv)) path = Some (bound_state path r (bp_revision response) (bp_record_cid response))"
    by simp
  then show ?thesis by (rule that [OF cur])
qed

lemma keeps_idempotency_slot:
  assumes "namespace_laws D svc"
  shows "keeps (\<lambda>io f. f (slot D svc t ''idempotency'' key) = None) (service_authorize D svc auth meta)"
proof -
  obtain root where root: "as_store svc = Filesystem root" using assms unfolding namespace_laws_def by blast
  have "free_at (\<lambda>io f. f (slot D svc t ''idempotency'' key) = None) (slot D svc (am_tenant_id meta) kind key')"
    if "kind \<in> {''replay'', ''events''}" for kind key'
  proof -
    have "slot D svc t ''idempotency'' key \<noteq> slot D svc (am_tenant_id meta) kind key'"
      using that by (intro slot_kind_neq [OF root]) auto
    then show ?thesis by (simp add: free_at_def)
  qed
  then show ?thesis
    by (intro keeps_authorize keeps_create_encrypted_json keeps_write_encrypted_json) simp_all
qed

text \<open>
  C14. A binding is what its name resolves to. When no system call and no serialization fails, the records of
  the namespace agree with one journal, no earlier response is stored under the idempotency key of the
  request (which a retry would return, whatever the name is bound to by then) and \<open>bind\<close> succeeds, then the
  name in the request selects, for \<open>head\<close> and \<open>get\<close>, the bound object with the revision and record
  identifier of the response.
\<close>

theorem bind_selects_target:
  assumes "namespace_laws D svc" "w_io s = (\<lambda>_. IoOk)"
    and "canonical_namespace_and_path (br_namespace r) (br_path r) = Ok (ns, path)"
    and "ns_agree D svc (br_tenant_id r) ns (w_files s) journal"
    and "w_files s (slot D svc (br_tenant_id r) ''idempotency''
           (idempotency_key D (br_tenant_id r) ''bind'' (br_idempotency_key r))) = None"
    and "bind_op D svc auth r s = (Ok response, s')"
    and "sel_kind selector = Sel_Namespace" "sel_namespace selector = Some (br_namespace r)"
      "sel_path selector = Some (br_path r)"
  shows "fst (selector_resolution D svc (br_tenant_id r) selector s') =
    Ok \<lparr>srs_manifest_cid = br_target_cid r, srs_namespace = Some (br_namespace r), srs_path = Some (br_path r),
        srs_revision = Some (bp_revision response), srs_record_cid = Some (bp_record_cid response)\<rparr>"
proof -
  let ?t = "br_tenant_id r" and ?idem = "idempotency_key D (br_tenant_id r) ''bind'' (br_idempotency_key r)"
  let ?meta = "(namespace_meta Op_Bind ?t ns path)\<lparr>am_idempotency_key := Some (br_idempotency_key r)\<rparr>"
  obtain rec decision s1 s2 earlier where a: "verify_signed_bind_record D svc r ns path = Ok rec"
    "service_authorize D svc auth ?meta s = (Ok decision, s1)"
    "(if ad_replay_status decision = IdempotentRetry then read_encrypted_json D svc (json_idem_bind D) ?t ''idempotency'' ?idem
      else ret None) s1 = (Ok earlier, s2)"
    and b: "(case earlier of Some rec \<Rightarrow> ret (idr_response rec)
     | None \<Rightarrow> bnd (bind_apply D svc r ns path rec) (\<lambda>response.
         bnd (write_encrypted_json D svc (json_idem_bind D) ?t ''idempotency'' ?idem \<lparr>idr_response = response\<rparr>) (\<lambda>_.
         ret response))) s2 = (Ok response, s')"
    using assms(6) unfolding bind_op_def bind_internal_def
    by (auto simp: bnd_Ok Let_def assms(3))
  have io1: "w_io s1 = (\<lambda>_. IoOk)"
    using keepsD [OF io_outcomes.keeps_service_authorize a(2), of "fate s"] assms(2) by simp
  obtain later where agree1: "ns_agree D svc ?t ns (w_files s1) (journal @ later)"
    using keepsD [OF namespace_files.keeps_service_authorize a(2), of ?t ns journal] assms(1) io1
      ns_ok_refl [OF assms(4)] unfolding ns_kept_def ns_ok_def fst_conv by blast
  have "w_files s1 (slot D svc ?t ''idempotency'' ?idem) = None"
    using keepsD [OF keeps_idempotency_slot a(2)] assms(1,5) by blast
  then have peek: "peek D svc (json_idem_bind D) ?t ''idempotency'' ?idem (w_files s1) = Ok None"
    by (simp add: peek_def peek_bytes_def)
  have ready1: "fs_ready svc s1" by (rule fault_free_ready [OF assms(1) io1])
  have q: "quiet s1 s2" "earlier = None"
    using a(3) peek read_encrypted_json_spec [OF ready1, of D "json_idem_bind D" ?t "''idempotency''" ?idem "Ok earlier" s2]
    by (auto split: if_splits)
  note ready2 = fs_ready_quiet [OF q(1) ready1]
  obtain s3 where c: "bind_apply D svc r ns path rec s2 = (Ok response, s3)"
    "write_encrypted_json D svc (json_idem_bind D) ?t ''idempotency'' ?idem \<lparr>idr_response = response\<rparr> s3 = (Ok (), s')"
    using b q(2) by (auto simp: bnd_Ok)
  note rec = verified_bind_record [OF a(1)]
  obtain current where cur: "stored_current D svc ?t ns (w_files s3) = Ok current"
    "btm_get (nc_bindings current) path = Some (bound_state path r (bp_revision response) (bp_record_cid response))"
    using bind_apply_current [OF _ _ assms(1) ready2 _ c(1), of "journal @ later"] rec agree1 quietD [OF q(1)] by auto
  have kw: "keeps (current_is D svc ?t ns current)
      (write_encrypted_json D svc (json_idem_bind D) ?t ''idempotency'' ?idem \<lparr>idr_response = response\<rparr>)"
    by (rule keeps_write_encrypted_json, rule current_is_free) simp_all
  have cur': "stored_current D svc ?t ns (w_files s') = Ok current"
    using keepsD [OF kw c(2)] cur(1) assms(1) by (simp add: current_is_def)
  have io': "w_io s' = (\<lambda>_. IoOk)"
    using keepsD [OF io_outcomes.keeps_bind_internal assms(6) [unfolded bind_op_def], of "fate s"] assms(2) by simp
  obtain x s4 where n: "namespace_current_state D svc ?t ns s' = (x, s4)" by force
  have "x = Ok current"
    using namespace_current_state_spec [OF fault_free_ready [OF assms(1) io'] n] cur' by simp
  then show ?thesis
    using n cur(2) assms(3,7-9)
    by (simp add: selector_resolution_def resolve_snapshot_def namespace_snapshot_at_def snapshot_lookup_def bnd_def
        lift_result_def ok_or_def binding_response_def bound_state_def ensure_def ret_def)
qed

end
