(* ===== verification/HSP_Dist_Safety.thy ===== *)
theory HSP_Dist_Safety
  imports HSP_Distribution HSP_Namespace
begin

text \<open>
  The distribution layer as a state machine: one step per request of its interface or of the native
  service it shares the store with. Every operation is gone through once, in a locale for an
  invariant of the stored files; tenant isolation and the permanence of compliance retention are
  instances.
\<close>

section \<open>What the computations of the distribution layer leave alone\<close>

lemma keeps_fill_bytes [keeps_rules]: "keeps J (fill_bytes n)"
  by (rule keepsI) (auto simp: fill_bytes_def)

lemma keeps_generate_object_data_key [keeps_rules]: "keeps J generate_object_data_key"
  unfolding generate_object_data_key_def by (intro keeps_rules)

lemma keeps_encrypt_aes_gcm [keeps_rules]: "keeps J (encrypt_aes_gcm D k m a)"
  unfolding encrypt_aes_gcm_def by (intro keeps_rules)

lemma keeps_aws_cli_json [keeps_rules]: "keeps J (aws_cli_json D p args)"
  by (rule keepsI) (auto simp: aws_cli_json_def)

lemma keeps_aws_live [keeps_rules]:
  "keeps J (generate_data_key_live D p t k)" "keeps J (decrypt_key_live D p t c blob err)"
  "keeps J (wrap_object_key_live D p t rk key)"
  unfolding generate_data_key_live_def decrypt_key_live_def wrap_object_key_live_def by (intro keeps_rules)+

lemma keeps_local_kms [keeps_rules]:
  "keeps J (local_encrypt_store_payload D kms t k m)" "keeps J (local_wrap_object_key D kms t rk key)"
  "keeps J (encrypt_client_chunk D key m)"
  unfolding local_encrypt_store_payload_def local_wrap_object_key_def encrypt_client_chunk_def by (intro keeps_rules)+

lemma keeps_kms [keeps_rules]:
  "keeps J (encrypt_store_payload D kms t k m)" "keeps J (decrypt_store_payload D kms t k e)"
  "keeps J (wrap_object_key_for_recipient D kms t rk key)" "keeps J (unwrap_object_key_for_recipient D kms t rec)"
  by (cases kms; simp add: aws_encrypt_store_payload_def aws_decrypt_store_payload_def decrypt_data_key_live_def
      unwrap_object_key_live_def; intro conjI impI keeps_rules)+

lemma keeps_directory [keeps_rules]: "keeps J (dir_exists p)" "keeps J dir_entry" "keeps J (fs_read_dir D p)"
  by (rule keepsI, auto simp: dir_exists_def dir_entry_def fs_read_dir_def split: io_outcome.splits if_splits)+

lemma keeps_read_files [keeps_rules]: "keeps J (read_files root names)"
  by (induction names) (auto simp: Let_def intro!: keeps_rules)

lemma keeps_child_dirs [keeps_rules]: "keeps J (child_dirs root names)"
  by (induction names) (auto intro!: keeps_rules)

lemma keeps_list_pages [keeps_rules]: "keeps J (list_pages D st pfx fuel token)"
  by (induction fuel arbitrary: token) (auto simp: Let_def intro!: keeps_rules)

lemma keeps_list_keys [keeps_rules]: "keeps J (list_keys_s3 D st pfx)"
  unfolding list_keys_s3_def by (rule keeps_list_pages)

lemma keeps_get_objects [keeps_rules]: "keeps J (get_objects D st keys)"
  by (induction keys) (auto intro!: keeps_rules)

lemma keeps_store_lists [keeps_rules]: "keeps J (store_list_values D sb pfx)" "keeps J (store_list_child_dirs D sb pfx)"
  by (cases sb; auto simp: Let_def intro!: keeps_rules)+

lemma keeps_try_op [keeps_rules]: "keeps J m \<Longrightarrow> keeps J (try_op m)"
  by (rule keepsI) (auto simp: try_op_def split: prod.splits sum.splits dest: keepsD)

section \<open>The slots of the distribution layer\<close>

definition dist_slot :: "dist_deps \<Rightarrow> DistributionService \<Rightarrow> TenantId \<Rightarrow> string \<Rightarrow> string \<Rightarrow> string" where
  "dist_slot D ds t kind key = store_path (ds_store ds) (dist_store_key (alpha_code D) t kind key)"

lemma keeps_dist_reads [keeps_rules]:
  "keeps J (dist_open_envelope D ds t kind bytes)" "keeps J (dist_read_encrypted_bytes D ds t kind key)"
  "keeps J (dist_read_json D ds c t kind key)"
  unfolding dist_open_envelope_def dist_read_encrypted_bytes_def dist_read_json_def by (intro keeps_rules)+

lemma keeps_dist_decode_all [keeps_rules]: "keeps J (dist_decode_all D ds c t kind values)"
  by (induction "values") (auto intro!: keeps_rules)

lemma keeps_dist_list_json [keeps_rules]: "keeps J (dist_list_json D ds c t kind)"
  unfolding dist_list_json_def by (intro keeps_rules)

lemma keeps_dist_writes:
  assumes "free_at J (dist_slot D ds t kind key)"
  shows "keeps J (dist_write_encrypted_bytes D ds t kind key bytes)" "keeps J (dist_write_json D ds c t kind key v)"
    "keeps J (dist_delete_store_key D ds t kind key)"
  unfolding dist_write_json_def dist_write_encrypted_bytes_def dist_write_envelope_def dist_delete_store_key_def
  by (intro keeps_rules keeps_store_write_free keeps_store_delete_free assms [unfolded dist_slot_def])+

lemma keeps_dist_scopes [keeps_rules]:
  "keeps J (bucket_record D ds t b)" "keeps J (require_bucket D ds t b)"
  "keeps J (ensure_bucket_read_scope_for D ds auth t b k)" "keeps J (ensure_object_mutation_unlocked D ds t b k' del auth)"
  "keeps J (ensure_retention_update_allowed cur u m auth)"
  unfolding bucket_record_def require_bucket_def ensure_bucket_read_scope_for_def ensure_object_mutation_unlocked_def
    ensure_retention_update_allowed_def
  by (intro keeps_rules)+


text \<open>Where the two files of a layer can meet: kinds with a slash in them do not occur.\<close>

lemma dist_store_kinds_plain: "kind \<in> set dist_store_kinds \<Longrightarrow> plain_kind kind"
  by (auto simp: dist_store_kinds_def dist_stores plain_kind_def)

section \<open>Invariants over the distribution layer\<close>

lemma keeps_upload_fixed_chunks:
  "(\<And>bytes i off. keeps J (put_fixed_chunk D alpha auth u sid bytes i off)) \<Longrightarrow>
   keeps J (upload_fixed_chunks D alpha auth u sid bytes cur)"
proof (induction D alpha auth u sid bytes cur rule: upload_fixed_chunks.induct)
  case (1 D alpha auth u sid bytes cur)
  show ?case
    by (subst upload_fixed_chunks.simps) (auto simp: Let_def intro!: keeps_rules 1)
qed

lemma keeps_match:
  "keeps J m \<Longrightarrow> (\<And>e. keeps J (g e)) \<Longrightarrow> (\<And>x. keeps J (h x)) \<Longrightarrow>
   keeps J (\<lambda>s. case m s of (Err e, s') \<Rightarrow> g e s' | (Ok x, s') \<Rightarrow> h x s')"
  by (rule keepsI) (auto split: prod.splits sum.splits; metis keepsD)

text \<open>The request that replication makes for one object.\<close>

definition replication_copy :: "dist_deps \<Rightarrow> TenantId \<Rightarrow> ReplicationConfig \<Rightarrow> ObjectListItem \<Rightarrow> u64 \<Rightarrow> CopyObjectRequest" where
  "replication_copy D t config ob now =
     \<lparr>cyo_tenant_id = t, cyo_source_bucket = rcf_source_bucket config, cyo_source_key = oi_key ob,
      cyo_destination_bucket = rcf_destination_bucket config, cyo_destination_key = oi_key ob,
      cyo_idempotency_key = replication_idempotency_key D config (oi_key ob) now\<rparr>"

locale dist_invariant = file_invariant "alpha_code D" "ds_alpha ds" T J
  for D :: dist_deps and ds :: DistributionService and T :: "TenantId set" and J :: disk_prop +
  assumes free_dist: "t \<in> T \<Longrightarrow> kind \<in> set dist_store_kinds \<Longrightarrow> kind \<noteq> OBJECT_LOCK_STORE \<Longrightarrow>
      free_at J (dist_slot D ds t kind key)"
    and retention_step: "t \<in> T \<Longrightarrow> keeps J (put_object_retention D ds auth t b k until mode)"
    and hold_step: "t \<in> T \<Longrightarrow> keeps J (put_object_legal_hold D ds auth t b k hold)"
begin

lemma keeps_dist_kind:
  assumes "t \<in> T" "kind \<in> set dist_store_kinds" "kind \<noteq> OBJECT_LOCK_STORE"
  shows "keeps J (dist_write_encrypted_bytes D ds t kind key bytes)" "keeps J (dist_write_json D ds c t kind key v)"
    "keeps J (dist_delete_store_key D ds t kind key)"
  by (rule keeps_dist_writes [OF free_dist [OF assms]])+

lemma keeps_dist_json:
  assumes "t \<in> T"
  shows "keeps J (dist_write_json D ds c t BUCKET_REGISTRY_STORE key v)"
    "keeps J (dist_write_json D ds c t DISTRIBUTION_METADATA_STORE key v)"
    "keeps J (dist_write_json D ds c t MULTIPART_SESSIONS_STORE key v)"
    "keeps J (dist_write_json D ds c t ACL_STORE key v)"
    "keeps J (dist_write_json D ds c t LIFECYCLE_STORE key v)"
    "keeps J (dist_write_json D ds c t WEBSITE_STORE key v)"
    "keeps J (dist_write_json D ds c t REPLICATION_STORE key v)"
    "keeps J (dist_write_encrypted_bytes D ds t MULTIPART_PARTS_STORE key bytes)"
  by (rule keeps_dist_kind [OF assms]; simp add: dist_store_kinds_def dist_stores)+

lemma keeps_dist_delete:
  assumes "t \<in> T"
  shows "keeps J (dist_delete_store_key D ds t BUCKET_REGISTRY_STORE key)"
    "keeps J (dist_delete_store_key D ds t DISTRIBUTION_METADATA_STORE key)"
    "keeps J (dist_delete_store_key D ds t MULTIPART_SESSIONS_STORE key)"
    "keeps J (dist_delete_store_key D ds t MULTIPART_PARTS_STORE key)"
    "keeps J (dist_delete_store_key D ds t LIFECYCLE_STORE key)"
    "keeps J (dist_delete_store_key D ds t WEBSITE_STORE key)"
    "keeps J (dist_delete_store_key D ds t REPLICATION_STORE key)"
  by (rule keeps_dist_kind [OF assms]; simp add: dist_store_kinds_def dist_stores)+

lemmas dist_rules = keeps_rules keeps_dist_json keeps_dist_delete keeps_queries

lemma keeps_bucket_ops:
  "keeps J (head_bucket D ds auth u b)" "keeps J (list_buckets D ds auth u)" "keeps J (get_bucket_acl D ds auth u b)"
  "keeps J (get_object_acl D ds auth u b k)" "keeps J (get_lifecycle_config D ds auth u b)"
  "keeps J (get_website_config D ds auth u b)" "keeps J (get_object_lock D ds auth u b k)"
  "keeps J (get_replication_config D ds auth u b)" "keeps J (get_replication_status D ds auth u b)"
  "keeps J (has_multipart_sessions D ds u b)"
  unfolding head_bucket_def list_buckets_def get_bucket_acl_def get_object_acl_def get_lifecycle_config_def
    get_website_config_def get_object_lock_def get_replication_config_def get_replication_status_def
    has_multipart_sessions_def
  by (intro keeps_rules)+

lemma keeps_bucket_writes:
  assumes "t \<in> T"
  shows "keeps J (create_bucket D ds auth t b)" "keeps J (delete_bucket D ds auth t b)"
    "keeps J (put_bucket_acl D ds auth t b acl)" "keeps J (put_object_acl D ds auth t b k acl)"
    "keeps J (delete_lifecycle_config D ds auth t b)" "keeps J (delete_website_config D ds auth t b)"
    "keeps J (delete_replication_config D ds auth t b)"
  unfolding create_bucket_def delete_bucket_def put_bucket_acl_def put_object_acl_def delete_lifecycle_config_def
    delete_website_config_def delete_replication_config_def
  by (intro dist_rules keeps_bucket_ops; simp add: assms)+

lemma keeps_config_writes:
  "lcc_tenant_id lc \<in> T \<Longrightarrow> keeps J (put_lifecycle_config D ds auth lc)"
  "wb_tenant_id wb \<in> T \<Longrightarrow> keeps J (put_website_config D ds auth wb)"
  "rcf_tenant_id rc \<in> T \<Longrightarrow> keeps J (put_replication_config D ds auth rc)"
  "sk_tenant_id sk \<in> T \<Longrightarrow> keeps J (register_sigv4_access_key D ds sk)"
  unfolding put_lifecycle_config_def put_website_config_def put_replication_config_def register_sigv4_access_key_def
  by (intro dist_rules; simp)+

lemma keeps_existing_binding: "u \<in> T \<Longrightarrow> keeps J (existing_binding D ds auth u ns k)"
  unfolding existing_binding_def by (intro dist_rules; simp add: resolve_request_def)

lemma keeps_sign_atomic_bind: "keeps J (sign_atomic_bind D ds u ns k cid rv m)"
  unfolding sign_atomic_bind_def by (intro keeps_rules)

lemma keeps_build_manifest:
  "keeps J (build_manifest (alpha_code D) mi)" "keeps J (build_manifest_from_chunk_refs mci)"
  unfolding build_manifest_def build_manifest_from_chunk_refs_def by (intro keeps_rules)+

lemma keeps_put_staged_chunks: "u \<in> T \<Longrightarrow> keeps J (put_staged_chunks (alpha_code D) (ds_alpha ds) auth u sid chunks)"
  by (induction chunks) (auto intro!: keeps_rules keeps_put_chunk)

lemma keeps_put_object: "po_tenant_id r \<in> T \<Longrightarrow> keeps J (put_object D ds auth r payload)"
  unfolding put_object_def encrypt_plaintext_payload_def put_object_manifest_def put_object_upload_def
  by (intro dist_rules keeps_existing_binding keeps_sign_atomic_bind keeps_build_manifest keeps_put_staged_chunks
      keeps_put_init keeps_put_commit; simp)

lemma keeps_head_object: "ho_tenant_id r \<in> T \<Longrightarrow> keeps J (head_object D ds auth r)"
  unfolding head_object_def by (intro dist_rules; simp add: get_request_def)

lemma keeps_get_object: "go_tenant_id r \<in> T \<Longrightarrow> keeps J (get_object D ds auth r)"
  unfolding get_object_def select_by_cid_def select_by_name_def cid_binding_def decrypt_object_body_def
  by (intro dist_rules keeps_head_object; simp add: get_request_def resolve_request_def)

lemma keeps_delete_object: "dor_tenant_id r \<in> T \<Longrightarrow> keeps J (delete_object D ds auth r)"
  unfolding delete_object_def unbind_op_def
  by (intro dist_rules keeps_unbind_internal; simp add: resolve_request_def)

lemma keeps_head_items: "u \<in> T \<Longrightarrow> keeps J (head_items D ds auth u b items)"
  by (induction items) (auto intro!: keeps_rules keeps_head_object)

lemma keeps_list_objects: "lo_tenant_id r \<in> T \<Longrightarrow> keeps J (list_objects D ds auth r)"
  unfolding list_objects_def by (intro dist_rules keeps_head_items; simp)

lemma keeps_copy_object: "cyo_tenant_id r \<in> T \<Longrightarrow> keeps J (copy_object D ds auth r)"
  unfolding copy_object_def bind_op_def
  by (intro dist_rules keeps_existing_binding keeps_bind_internal; simp add: resolve_request_def)

lemma keeps_multipart_reads:
  "keeps J (multipart_session D ds u uid)" "keeps J (multipart_parts D ds u uid)"
  "keeps J (multipart_part_ciphertext D ds u uid part)"
  unfolding multipart_session_def multipart_parts_def multipart_part_ciphertext_def by (intro keeps_rules)+

lemma keeps_create_multipart_upload: "cm_tenant_id r \<in> T \<Longrightarrow> keeps J (create_multipart_upload D ds auth r)"
  unfolding create_multipart_upload_def by (intro dist_rules; simp)

lemma keeps_upload_part: "upq_tenant_id r \<in> T \<Longrightarrow> keeps J (upload_part D ds auth r part)"
  unfolding upload_part_def by (intro dist_rules keeps_multipart_reads; simp)

lemma keeps_cleanup_multipart: "u \<in> T \<Longrightarrow> keeps J (cleanup_multipart D ds u uid numbers)"
proof -
  assume "u \<in> T"
  then have "keeps J (delete_part_keys D ds u uid numbers)"
    by (induction numbers) (auto simp: Let_def intro!: dist_rules)
  with \<open>u \<in> T\<close> show ?thesis unfolding cleanup_multipart_def by (intro dist_rules)
qed

lemma keeps_collect_parts: "keeps J (collect_parts D ds u uid previous parts cur refs)"
  by (induction parts arbitrary: previous cur refs) (auto intro!: keeps_rules keeps_multipart_reads)

lemma keeps_put_fixed_chunk: "u \<in> T \<Longrightarrow> keeps J (put_fixed_chunk (alpha_code D) (ds_alpha ds) auth u sid bytes i off)"
  unfolding put_fixed_chunk_def by (intro keeps_rules keeps_put_chunk) (simp add: fixed_chunk_request_def)

lemma keeps_uploads:
  assumes "u \<in> T"
  shows "keeps J (upload_fixed_chunks (alpha_code D) (ds_alpha ds) auth u sid bytes cur)"
    "keeps J (flush_fixed_chunk_upload (alpha_code D) (ds_alpha ds) auth u sid cur)"
    "keeps J (upload_collected_parts D ds auth u uid sid parts cur)"
proof -
  show up: "keeps J (upload_fixed_chunks (alpha_code D) (ds_alpha ds) auth u sid bytes cur)" for bytes cur
    by (rule keeps_upload_fixed_chunks) (rule keeps_put_fixed_chunk [OF assms])
  show fl: "keeps J (flush_fixed_chunk_upload (alpha_code D) (ds_alpha ds) auth u sid cur)" for cur
    unfolding flush_fixed_chunk_upload_def by (intro keeps_rules keeps_put_fixed_chunk assms)
  show "keeps J (upload_collected_parts D ds auth u uid sid parts cur)"
    by (induction parts arbitrary: cur) (auto intro!: keeps_rules keeps_multipart_reads up fl)
qed

lemma keeps_complete_multipart_upload: "cmu_tenant_id r \<in> T \<Longrightarrow> keeps J (complete_multipart_upload D ds auth r)"
  unfolding complete_multipart_upload_def complete_upload_def
  by (intro dist_rules keeps_multipart_reads keeps_collect_parts keeps_existing_binding keeps_sign_atomic_bind
      keeps_build_manifest keeps_uploads keeps_put_init keeps_put_commit keeps_cleanup_multipart; simp)

lemma keeps_abort_multipart_upload: "amu_tenant_id r \<in> T \<Longrightarrow> keeps J (abort_multipart_upload D ds auth r)"
  unfolding abort_multipart_upload_def by (intro dist_rules keeps_multipart_reads keeps_cleanup_multipart)

lemma keeps_replicate_objects: "u \<in> T \<Longrightarrow> keeps J (replicate_objects D ds auth u rc objects copied failed err)"
proof (induction objects arbitrary: copied failed err)
  case (Cons ob objects)
  have copy: "keeps J (copy_object D ds auth (replication_copy D u rc ob now))" for now
    by (rule keeps_copy_object) (simp add: replication_copy_def Cons.prems)
  show ?case
    unfolding replicate_objects.simps
    by (intro keeps_rules keeps_match copy [unfolded replication_copy_def] Cons.IH [OF Cons.prems])
qed (auto intro!: keeps_rules)

lemma keeps_run_replication_once: "u \<in> T \<Longrightarrow> keeps J (run_replication_once D ds auth u b)"
  unfolding run_replication_once_def
  by (intro dist_rules keeps_bucket_ops keeps_list_objects keeps_replicate_objects; simp)

end

section \<open>Steps and runs\<close>

text \<open>
  One request, of the distribution layer or of the native service beside it, made for a tenant with
  any credentials and with any outcome.
\<close>

inductive dist_step :: "dist_deps \<Rightarrow> DistributionService \<Rightarrow> TenantId \<Rightarrow> service \<Rightarrow> service \<Rightarrow> bool" for D ds where
  native: "serve (alpha_code D) (ds_alpha ds) (auth, req) s = (r, s') \<Longrightarrow> dist_step D ds (request_tenant req) s s'"
| register_key: "register_sigv4_access_key D ds sk s = (r1, s') \<Longrightarrow> dist_step D ds (sk_tenant_id sk) s s'"
| create_bucket: "create_bucket D ds auth t b s = (r2, s') \<Longrightarrow> dist_step D ds t s s'"
| list_buckets: "list_buckets D ds auth t s = (r3, s') \<Longrightarrow> dist_step D ds t s s'"
| head_bucket: "head_bucket D ds auth t b s = (r4, s') \<Longrightarrow> dist_step D ds t s s'"
| delete_bucket: "delete_bucket D ds auth t b s = (r5, s') \<Longrightarrow> dist_step D ds t s s'"
| put_bucket_acl: "put_bucket_acl D ds auth t b acl s = (r6, s') \<Longrightarrow> dist_step D ds t s s'"
| get_bucket_acl: "get_bucket_acl D ds auth t b s = (r7, s') \<Longrightarrow> dist_step D ds t s s'"
| put_object_acl: "put_object_acl D ds auth t b k acl s = (r8, s') \<Longrightarrow> dist_step D ds t s s'"
| get_object_acl: "get_object_acl D ds auth t b k s = (r9, s') \<Longrightarrow> dist_step D ds t s s'"
| put_lifecycle: "put_lifecycle_config D ds auth lc s = (r10, s') \<Longrightarrow> dist_step D ds (lcc_tenant_id lc) s s'"
| get_lifecycle: "get_lifecycle_config D ds auth t b s = (r11, s') \<Longrightarrow> dist_step D ds t s s'"
| delete_lifecycle: "delete_lifecycle_config D ds auth t b s = (r12, s') \<Longrightarrow> dist_step D ds t s s'"
| put_website: "put_website_config D ds auth wb s = (r13, s') \<Longrightarrow> dist_step D ds (wb_tenant_id wb) s s'"
| get_website: "get_website_config D ds auth t b s = (r14, s') \<Longrightarrow> dist_step D ds t s s'"
| delete_website: "delete_website_config D ds auth t b s = (r15, s') \<Longrightarrow> dist_step D ds t s s'"
| put_retention: "put_object_retention D ds auth t b k until mode s = (r16, s') \<Longrightarrow> dist_step D ds t s s'"
| put_legal_hold: "put_object_legal_hold D ds auth t b k hold s = (r17, s') \<Longrightarrow> dist_step D ds t s s'"
| get_lock: "get_object_lock D ds auth t b k s = (r18, s') \<Longrightarrow> dist_step D ds t s s'"
| put_replication: "put_replication_config D ds auth rc s = (r19, s') \<Longrightarrow> dist_step D ds (rcf_tenant_id rc) s s'"
| get_replication: "get_replication_config D ds auth t b s = (r20, s') \<Longrightarrow> dist_step D ds t s s'"
| replication_status: "get_replication_status D ds auth t b s = (r21, s') \<Longrightarrow> dist_step D ds t s s'"
| delete_replication: "delete_replication_config D ds auth t b s = (r22, s') \<Longrightarrow> dist_step D ds t s s'"
| run_replication: "run_replication_once D ds auth t b s = (r23, s') \<Longrightarrow> dist_step D ds t s s'"
| put_object: "put_object D ds auth po payload s = (r24, s') \<Longrightarrow> dist_step D ds (po_tenant_id po) s s'"
| head_object: "head_object D ds auth ho s = (r25, s') \<Longrightarrow> dist_step D ds (ho_tenant_id ho) s s'"
| get_object: "get_object D ds auth go s = (r26, s') \<Longrightarrow> dist_step D ds (go_tenant_id go) s s'"
| delete_object: "delete_object D ds auth dor s = (r27, s') \<Longrightarrow> dist_step D ds (dor_tenant_id dor) s s'"
| list_objects: "list_objects D ds auth lo s = (r28, s') \<Longrightarrow> dist_step D ds (lo_tenant_id lo) s s'"
| copy_object: "copy_object D ds auth cyo s = (r29, s') \<Longrightarrow> dist_step D ds (cyo_tenant_id cyo) s s'"
| create_multipart: "create_multipart_upload D ds auth cm s = (r30, s') \<Longrightarrow> dist_step D ds (cm_tenant_id cm) s s'"
| upload_part: "upload_part D ds auth upq part s = (r31, s') \<Longrightarrow> dist_step D ds (upq_tenant_id upq) s s'"
| complete_multipart: "complete_multipart_upload D ds auth cmu s = (r32, s') \<Longrightarrow> dist_step D ds (cmu_tenant_id cmu) s s'"
| abort_multipart: "abort_multipart_upload D ds auth amu s = (r33, s') \<Longrightarrow> dist_step D ds (amu_tenant_id amu) s s'"

text \<open>A run: requests of the given tenants, with restarts, which lose what is held in memory.\<close>

inductive dist_run :: "dist_deps \<Rightarrow> DistributionService \<Rightarrow> TenantId set \<Rightarrow> service \<Rightarrow> service \<Rightarrow> bool" for D ds T where
  run_start: "dist_run D ds T s s"
| run_request: "dist_run D ds T s s1 \<Longrightarrow> t \<in> T \<Longrightarrow> dist_step D ds t s1 s2 \<Longrightarrow> dist_run D ds T s s2"
| run_restart: "dist_run D ds T s s1 \<Longrightarrow> reset_memory s1 = (Ok () :: ApiError + unit, s2) \<Longrightarrow> dist_run D ds T s s2"

lemma keeps_reset_memory [keeps_rules]: "keeps J reset_memory"
  by (rule keepsI) (auto simp: reset_memory_def)

context dist_invariant
begin

lemmas keeps_requests = keeps_config_writes keeps_bucket_writes keeps_bucket_ops keeps_put_object keeps_head_object
  keeps_get_object keeps_delete_object keeps_list_objects keeps_copy_object keeps_create_multipart_upload
  keeps_upload_part keeps_complete_multipart_upload keeps_abort_multipart_upload keeps_run_replication_once
  retention_step hold_step

lemmas kept_after = keepsD [where J = J]

lemma keeps_step:
  assumes "dist_step D ds t s s'" "t \<in> T" "J (fate s) (w_files s)"
  shows "J (fate s') (w_files s')"
  using assms(1)
proof cases
  case (native auth req r)
  show ?thesis by (rule kept_after [OF keeps_serve native(2) assms(3)]) (use assms(2) native(1) in simp)
qed (insert assms(2), (erule kept_after [where s = s, OF _ _ assms(3), rotated]; simp add: keeps_requests)+)

lemma keeps_dist_run:
  assumes "dist_run D ds T s s'" "J (fate s) (w_files s)"
  shows "J (fate s') (w_files s')"
  using assms
  by (induction rule: dist_run.induct) (blast intro: keeps_step keepsD [OF keeps_reset_memory])+

end

section \<open>Tenant isolation\<close>

text \<open>A file in the directory that a tenant has for a kind of record.\<close>

definition tenant_file :: "'x core_deps_scheme \<Rightarrow> string \<Rightarrow> TenantId \<Rightarrow> string \<Rightarrow> string \<Rightarrow> string" where
  "tenant_file D root t kind name = path_join root (kind @ ''/'' @ tenant_store_dir D t @ ''/'' @ name)"

lemma tenant_file_slot:
  "as_store svc = Filesystem root \<Longrightarrow> slot D svc t kind key = tenant_file D root t kind (store_file_name D key)"
  "ds_store ds = Filesystem root \<Longrightarrow>
     dist_slot E ds t kind key = tenant_file (alpha_code E) root t kind (dist_store_file_name (alpha_code E) key)"
  by (simp_all add: slot_def dist_slot_def tenant_file_def store_key_def dist_store_key_def dist_tenant_store_dir_def
      tenant_store_dir_def)

lemma tenant_file_inject:
  assumes "dir_laws D" "plain_kind k" "plain_kind k'"
  shows "tenant_file D root t k n = tenant_file D root t' k' n' \<longleftrightarrow> t = t' \<and> k = k' \<and> n = n'"
proof -
  have abs: "\<not> starts_with (kd @ r) ''/''" if "plain_kind kd" for kd r
    using that by (cases kd) (auto simp: plain_kind_def starts_with_def)
  have dir: "CHR ''/'' \<notin> set (tenant_store_dir D u)" for u
    using assms(1) by (simp add: dir_laws_def tenant_store_dir_def)
  have "tenant_store_dir D t = tenant_store_dir D t' \<longleftrightarrow> t = t'"
    using assms(1) unfolding dir_laws_def tenant_store_dir_def by (metis as_bytes_inject TenantId.expand)
  then show ?thesis
    using assms(2,3) append_sep_eq [of "CHR ''/''" k k'] append_sep_eq [OF dir [of t] dir [of t']]
    by (auto simp: tenant_file_def path_join_inject abs plain_kind_def)
qed

section \<open>The records in the store\<close>

text \<open>What a read of a record returns when no system call fails, with the local key management.\<close>

definition dist_peek_bytes ::
  "dist_deps \<Rightarrow> DistributionService \<Rightarrow> LocalDevKms \<Rightarrow> TenantId \<Rightarrow> string \<Rightarrow> string \<Rightarrow> (string \<rightharpoonup> byte list)
   \<Rightarrow> ApiError + byte list option" where
  "dist_peek_bytes D ds kms t kind key f =
     (case f (dist_slot D ds t kind key) of
        None \<Rightarrow> Ok None
      | Some bytes \<Rightarrow>
          rbnd (map_err storage_deserialize_error (from_slice (json_envelope (alpha_code D)) bytes)) (\<lambda>envelope.
          rbnd (map_err dist_decrypt_error (local_decrypt_store_payload (alpha_code D) kms t kind envelope)) (\<lambda>plaintext.
          Ok (Some plaintext))))"

definition dist_peek ::
  "dist_deps \<Rightarrow> DistributionService \<Rightarrow> LocalDevKms \<Rightarrow> 'a codec \<Rightarrow> TenantId \<Rightarrow> string \<Rightarrow> string \<Rightarrow> (string \<rightharpoonup> byte list)
   \<Rightarrow> ApiError + 'a option" where
  "dist_peek D ds kms c t kind key f =
     rbnd (dist_peek_bytes D ds kms t kind key f) (\<lambda>found.
     case found of
       None \<Rightarrow> Ok None
     | Some bytes \<Rightarrow> map_err storage_deserialize_error (rbnd (from_slice c bytes) (\<lambda>v. Ok (Some v))))"

text \<open>What the layer relies on, for a store on disk with the local key management.\<close>

definition dist_laws :: "dist_deps \<Rightarrow> DistributionService \<Rightarrow> string \<Rightarrow> LocalDevKms \<Rightarrow> bool" where
  "dist_laws D ds root kms \<longleftrightarrow>
     integrity_laws (alpha_code D) (ds_alpha ds) \<and> dir_laws (alpha_code D) \<and> codec_ok (json_object_lock D) \<and>
     as_store (ds_alpha ds) = Filesystem root \<and> ds_store ds = Filesystem root \<and> ds_store_kms ds = LocalKms kms"

lemma dist_lawsD:
  assumes "dist_laws D ds root kms"
  shows "store_laws (alpha_code D)" "dir_laws (alpha_code D)" "codec_ok (json_object_lock D)"
    "as_store (ds_alpha ds) = Filesystem root" "ds_store ds = Filesystem root" "ds_store_kms ds = LocalKms kms"
    "to_vec (json_envelope (alpha_code D)) env = Ok bs \<Longrightarrow> n < length bs \<Longrightarrow>
       \<exists>e. from_slice (json_envelope (alpha_code D)) (take n bs) = Err e"
  using assms by (simp_all add: dist_laws_def integrity_laws_def)

lemma dist_slot_eq:
  assumes "dist_laws D ds root kms" "plain_kind k" "plain_kind k'"
  shows "dist_slot D ds t k key = dist_slot D ds t' k' key' \<longleftrightarrow>
     t = t' \<and> k = k' \<and> dist_store_file_name (alpha_code D) key = dist_store_file_name (alpha_code D) key'"
  using tenant_file_inject [OF dist_lawsD(2) [OF assms(1)] assms(2,3)] by (simp add: tenant_file_slot dist_lawsD(5) [OF assms(1)])

lemma dist_slot_neq_slot:
  assumes "dist_laws D ds root kms" "plain_kind k" "plain_kind k'" "k \<noteq> k'"
  shows "dist_slot D ds t k key \<noteq> slot (alpha_code D) (ds_alpha ds) t' k' key'"
  using tenant_file_inject [OF dist_lawsD(2) [OF assms(1)] assms(2,3)] assms(4)
  by (simp add: tenant_file_slot dist_lawsD(4,5) [OF assms(1)])

lemma dist_peek_cong:
  "f (dist_slot D ds t kind key) = g (dist_slot D ds t kind key) \<Longrightarrow>
   dist_peek D ds kms c t kind key f = dist_peek D ds kms c t kind key g"
  by (simp add: dist_peek_def dist_peek_bytes_def)

lemma dist_peek_same_slot:
  "dist_store_file_name (alpha_code D) key = dist_store_file_name (alpha_code D) key' \<Longrightarrow>
   dist_peek D ds kms c t kind key f = dist_peek D ds kms c t kind key' f"
  by (simp add: dist_peek_def dist_peek_bytes_def dist_slot_def dist_store_key_def)

text \<open>A read returns what is stored, or fails, or finds nothing because a system call failed.\<close>

lemma dist_read_json_sound:
  assumes "dist_laws D ds root kms" "dist_read_json D ds c t kind key s = (Ok (Some v), s')"
  shows "dist_peek D ds kms c t kind key (w_files s) = Ok (Some v)"
proof -
  note laws = dist_lawsD [OF assms(1)]
  obtain bytes s1 where rd: "store_read (alpha_code D) (ds_store ds) (dist_store_key (alpha_code D) t kind key) s = (Ok (Some bytes), s1)"
    and rest: "bnd (bnd (dist_open_envelope D ds t kind bytes) (\<lambda>plaintext. ret (Some plaintext))) (\<lambda>found.
       case found of None \<Rightarrow> ret None
       | Some bytes \<Rightarrow> lift_result (map_err storage_deserialize_error (rbnd (from_slice c bytes) (\<lambda>v. Ok (Some v))))) s1 = (Ok (Some v), s')"
    using assms(2) unfolding dist_read_json_def dist_read_encrypted_bytes_def
    by (auto simp: bnd_Ok split: option.splits)
  have "w_files s (dist_slot D ds t kind key) = Some bytes"
    using store_read_sound rd by (simp add: laws dist_slot_def)
  then show ?thesis
    using rest by (auto simp: dist_peek_def dist_peek_bytes_def dist_open_envelope_def bnd_Ok laws on_err_def map_err_def
        lift_result_def rbnd_def split: prod.splits sum.splits)
qed

lemma dist_read_json_ready:
  assumes "dist_laws D ds root kms" "fs_ready (ds_alpha ds) s" "dist_read_json D ds c t kind key s = (r, s')"
  shows "quiet s s' \<and> r = dist_peek D ds kms c t kind key (w_files s)"
proof -
  note laws = dist_lawsD [OF assms(1)]
  obtain x s1 where rd: "store_read (alpha_code D) (ds_store ds) (dist_store_key (alpha_code D) t kind key) s = (x, s1)" by force
  then have "quiet s s1 \<and> x = Ok (w_files s (dist_slot D ds t kind key))"
    using store_read_quiet [OF assms(2)] by (simp add: laws dist_slot_def)
  then show ?thesis
    using assms(3) rd unfolding dist_read_json_def dist_read_encrypted_bytes_def
    by (auto simp: bnd_def ret_def dist_peek_def dist_peek_bytes_def dist_open_envelope_def laws on_err_def map_err_def
        lift_result_def rbnd_def split: prod.splits sum.splits option.splits)
qed

text \<open>The bytes of an encrypted record and their strict prefixes, read back.\<close>

lemma encrypted_record_peek:
  assumes "dist_laws D ds root kms" "codec_ok c" "to_vec c v = Ok plaintext"
    and "local_encrypt_store_payload (alpha_code D) kms t kind plaintext (s :: service) = (Ok env, s1)"
    and "to_vec (json_envelope (alpha_code D)) env = Ok raw"
  shows "dist_peek D ds kms c t kind key (f(dist_slot D ds t kind key \<mapsto> raw)) = Ok (Some v)"
    "n < length raw \<Longrightarrow> \<exists>e. dist_peek D ds kms c t kind key (f(dist_slot D ds t kind key \<mapsto> take n raw)) = Err e"
proof -
  note laws = dist_lawsD [OF assms(1)]
  show "dist_peek D ds kms c t kind key (f(dist_slot D ds t kind key \<mapsto> raw)) = Ok (Some v)"
    using laws(1) local_store_roundtrip [OF _ assms(4)] codec_okD [OF _ assms(5)] codec_okD [OF assms(2,3)]
    by (simp add: dist_peek_def dist_peek_bytes_def store_laws_def map_err_def)
  show "\<exists>e. dist_peek D ds kms c t kind key (f(dist_slot D ds t kind key \<mapsto> take n raw)) = Err e" if "n < length raw"
    using laws(7) [OF assms(5) that] by (auto simp: dist_peek_def dist_peek_bytes_def map_err_def)
qed

lemma keeps_dist_write_json:
  assumes "dist_laws D ds root kms" "codec_ok c"
    and J: "\<And>io f x. J io f \<Longrightarrow>
      dist_peek D ds kms c t kind key (f(dist_slot D ds t kind key \<mapsto> x)) \<in> insert (Ok (Some v)) (range Err) \<Longrightarrow>
      J io (f(dist_slot D ds t kind key \<mapsto> x))"
  shows "keeps J (dist_write_json D ds c t kind key v)"
  unfolding dist_write_json_def dist_write_encrypted_bytes_def dist_write_envelope_def
proof (intro keeps_lift_bnd keeps_bnd_result)
  fix plaintext env raw and s s' :: service
  assume "map_err storage_serialize_error (to_vec c v) = Ok plaintext"
    and "on_err dist_encrypt_error (encrypt_store_payload (alpha_code D) (ds_store_kms ds) t kind plaintext) s = (Ok env, s')"
    and "map_err storage_serialize_error (to_vec (json_envelope (alpha_code D)) env) = Ok raw"
  then have enc: "to_vec c v = Ok plaintext"
    "local_encrypt_store_payload (alpha_code D) kms t kind plaintext s = (Ok env, s')"
    "to_vec (json_envelope (alpha_code D)) env = Ok raw"
    by (auto simp: map_err_def on_err_def dist_lawsD [OF assms(1)] split: sum.splits prod.splits)
  note pk = encrypted_record_peek [OF assms(1,2) enc]
  show "keeps J (store_write (alpha_code D) (ds_store ds) (dist_store_key (alpha_code D) t kind key) raw)"
  proof (rule keeps_store_write, fold dist_slot_def)
    fix io f n assume "J io f"
    then show "J io (f(dist_slot D ds t kind key \<mapsto> take n raw))"
    proof (rule J)
      show "dist_peek D ds kms c t kind key (f(dist_slot D ds t kind key \<mapsto> take n raw)) \<in> insert (Ok (Some v)) (range Err)"
        using pk(1) [of key f] pk(2) [of n key f] by (cases "n < length raw") auto
    qed
  qed
qed (intro keeps_rules)

lemma dist_write_json_ready:
  assumes "dist_laws D ds root kms" "codec_ok c" "fs_ready (ds_alpha ds) s" "dist_write_json D ds c t kind key v s = (r, s')"
  shows "quiet s s' \<or> (\<exists>x. w_files s' = (w_files s)(dist_slot D ds t kind key \<mapsto> x) \<and>
    dist_peek D ds kms c t kind key (w_files s') = Ok (Some v))"
proof (cases "to_vec c v")
  case (Inl e)
  then show ?thesis
    using assms(4) by (auto simp: dist_write_json_def bnd_def lift_result_def map_err_def)
next
  case plaintext: (Inr plaintext)
  note laws = dist_lawsD [OF assms(1)]
  obtain x s1 where enc: "local_encrypt_store_payload (alpha_code D) kms t kind plaintext s = (x, s1)" by force
  have q: "quiet s s1" by (rule local_encrypt_frame [OF enc])
  show ?thesis
  proof (cases x)
    case (Inl e)
    then show ?thesis
      using assms(4) enc q plaintext
      by (auto simp: dist_write_json_def dist_write_encrypted_bytes_def bnd_def lift_result_def map_err_def on_err_def laws)
  next
    case env: (Inr env)
    show ?thesis
    proof (cases "to_vec (json_envelope (alpha_code D)) env")
      case (Inl e)
      then show ?thesis
        using assms(4) enc q plaintext env
        by (auto simp: dist_write_json_def dist_write_encrypted_bytes_def dist_write_envelope_def bnd_def lift_result_def
            map_err_def on_err_def laws)
    next
      case raw: (Inr raw)
      have "store_write (alpha_code D) (as_store (ds_alpha ds)) (dist_store_key (alpha_code D) t kind key) raw s1 = (r, s')"
        using assms(4) enc plaintext env raw
        by (simp add: dist_write_json_def dist_write_encrypted_bytes_def dist_write_envelope_def bnd_def lift_result_def
            map_err_def on_err_def laws)
      then have "w_files s' = (w_files s)(dist_slot D ds t kind key \<mapsto> raw)"
        using store_write_spec [OF fs_ready_quiet [OF q assms(3)]] quietD(1) [OF q] by (simp add: laws dist_slot_def)
      then show ?thesis
        using encrypted_record_peek(1) [OF assms(1,2) plaintext enc [unfolded env] raw] by auto
    qed
  qed
qed

section \<open>Lock records\<close>

text \<open>
  A lock record says which object it is for. \<open>put_object_legal_hold\<close> writes a record where its own
  fields say, so the fields of a stored record must name the slot it is stored in.
\<close>

definition lock_names_slot :: "dist_deps \<Rightarrow> TenantId \<Rightarrow> string \<Rightarrow> ObjectLockRecord \<Rightarrow> bool" where
  "lock_names_slot D t key rec \<longleftrightarrow> ol_tenant_id rec = t \<and>
     dist_store_file_name (alpha_code D) (object_lock_store_key (ol_bucket rec) (ol_key rec)) =
     dist_store_file_name (alpha_code D) key"

definition stored_lock ::
  "dist_deps \<Rightarrow> DistributionService \<Rightarrow> LocalDevKms \<Rightarrow> TenantId \<Rightarrow> string \<Rightarrow> (string \<rightharpoonup> byte list)
   \<Rightarrow> ApiError + ObjectLockRecord option" where
  "stored_lock D ds kms t key f = dist_peek D ds kms (json_object_lock D) t OBJECT_LOCK_STORE key f"

definition locks_own :: "dist_deps \<Rightarrow> DistributionService \<Rightarrow> LocalDevKms \<Rightarrow> (string \<rightharpoonup> byte list) \<Rightarrow> bool" where
  "locks_own D ds kms f \<longleftrightarrow>
     (\<forall>t key rec. stored_lock D ds kms t key f = Ok (Some rec) \<longrightarrow> lock_names_slot D t key rec)"

lemma locks_own_empty [simp]: "locks_own D ds kms Map.empty"
  by (simp add: locks_own_def stored_lock_def dist_peek_def dist_peek_bytes_def)

lemma plain_object_lock [simp]: "plain_kind OBJECT_LOCK_STORE"
  by (rule dist_store_kinds_plain) (simp add: dist_store_kinds_def)

lemma default_names_slot: "lock_names_slot D t (object_lock_store_key b k) (default_object_lock t b k now)"
  by (simp add: lock_names_slot_def default_object_lock_def)

lemma keeps_bnd_kept:
  assumes "keeps J m" "\<And>x s s'. m s = (Ok x, s') \<Longrightarrow> J (fate s) (w_files s) \<Longrightarrow> keeps J (f x)"
  shows "keeps J (bnd m f)"
proof (rule keepsI)
  fix s r s' assume run: "bnd m f s = (r, s')" and J: "J (fate s) (w_files s)"
  obtain x s1 where m: "m s = (x, s1)" by force
  have J1: "J (fate s1) (w_files s1)" by (rule keepsD [OF assms(1) m J])
  show "J (fate s') (w_files s')"
  proof (cases x)
    case (Inl e)
    then show ?thesis using run m J1 by (simp add: bnd_def)
  next
    case (Inr y)
    have "f y s1 = (r, s')" using run m Inr by (simp add: bnd_def)
    then show ?thesis by (rule keepsD [OF assms(2) [OF m [unfolded Inr] J] _ J1])
  qed
qed

text \<open>The two operations write only records that name their slot, into that slot.\<close>

lemma keeps_lock_ops:
  assumes laws: "dist_laws D ds root kms" and own: "\<And>io f. J io f \<Longrightarrow> locks_own D ds kms f"
    and wr: "\<And>key rec. lock_names_slot D t key rec \<Longrightarrow>
      keeps J (dist_write_json D ds (json_object_lock D) t OBJECT_LOCK_STORE key rec)"
  shows "keeps J (put_object_retention D ds auth t b k until mode)" "keeps J (put_object_legal_hold D ds auth t b k hold)"
proof -
  have read: "lock_names_slot D t key rec"
    if "dist_read_json D ds (json_object_lock D) t OBJECT_LOCK_STORE key s = (Ok (Some rec), s')" "J (fate s) (w_files s)"
    for key rec s s'
    using dist_read_json_sound [OF laws that(1)] own [OF that(2)] by (simp add: locks_own_def stored_lock_def)
  have upd: "lock_names_slot D t key (case found of Some rec \<Rightarrow> rec | None \<Rightarrow> default_object_lock t b k now)"
    if "dist_read_json D ds (json_object_lock D) t OBJECT_LOCK_STORE key s = (Ok found, s')" "J (fate s) (w_files s)"
      "key = object_lock_store_key b k" for key found s s' b k now
    using that read by (cases found) (auto simp: default_names_slot)
  show "keeps J (put_object_retention D ds auth t b k until mode)"
    unfolding put_object_retention_def
  proof ((rule keeps_bnd [OF keeps_basic(3)])+, rule keeps_bnd [OF keeps_dist_scopes(2)], rule keeps_bnd_kept)
    fix b k found and s s' :: service
    assume "dist_read_json D ds (json_object_lock D) t OBJECT_LOCK_STORE (object_lock_store_key b k) s = (Ok found, s')"
      "J (fate s) (w_files s)"
    note names = upd [OF this refl]
    show "keeps J (bnd now_ms (\<lambda>now.
      let rec = (case found of Some rec \<Rightarrow> rec | None \<Rightarrow> default_object_lock t b k now) in
      bnd (ensure_retention_update_allowed rec until mode auth) (\<lambda>_. bnd now_ms (\<lambda>updated_at_ms.
      let rec = rec\<lparr>ol_immutable_until_ms := until, ol_mode := mode, ol_updated_at_ms := updated_at_ms\<rparr> in
      bnd (dist_write_json D ds (json_object_lock D) t OBJECT_LOCK_STORE (object_lock_store_key b k) rec) (\<lambda>_.
      ret rec)))))"
      using names by (intro keeps_rules wr) (simp add: lock_names_slot_def)
  qed (intro keeps_rules)
  show "keeps J (put_object_legal_hold D ds auth t b k hold)"
    unfolding put_object_legal_hold_def
  proof ((rule keeps_bnd [OF keeps_basic(3)])+, rule keeps_bnd [OF keeps_dist_scopes(2)], rule keeps_bnd_kept)
    fix b k found and s s' :: service
    assume "dist_read_json D ds (json_object_lock D) t OBJECT_LOCK_STORE (object_lock_store_key b k) s = (Ok found, s')"
      "J (fate s) (w_files s)"
    note names = upd [OF this refl]
    have hold_wr: "keeps J (dist_write_json D ds (json_object_lock D) (ol_tenant_id rec) OBJECT_LOCK_STORE
        (object_lock_store_key (ol_bucket rec) (ol_key rec)) rec)" if "ol_tenant_id rec = t" for rec
      using that wr by (simp add: lock_names_slot_def)
    show "keeps J (bnd now_ms (\<lambda>now.
      let rec = (case found of Some rec \<Rightarrow> rec | None \<Rightarrow> default_object_lock t b k now) in
      bnd (lift_result (if ol_legal_hold rec \<and> \<not> hold then require_admin_repair auth ''legal_hold_active'' else Ok ())) (\<lambda>_.
      bnd now_ms (\<lambda>updated_at_ms.
      let rec = rec\<lparr>ol_legal_hold := hold, ol_updated_at_ms := updated_at_ms\<rparr> in
      bnd (dist_write_json D ds (json_object_lock D) (ol_tenant_id rec) OBJECT_LOCK_STORE
            (object_lock_store_key (ol_bucket rec) (ol_key rec)) rec) (\<lambda>_.
      ret rec)))))"
      using names by (intro keeps_rules hold_wr) (simp add: lock_names_slot_def)
  qed (intro keeps_rules)
qed

lemma stored_lock_other:
  assumes "dist_laws D ds root kms" "p \<noteq> dist_slot D ds t OBJECT_LOCK_STORE key"
  shows "stored_lock D ds kms t key (f(p := x)) = stored_lock D ds kms t key f"
  unfolding stored_lock_def using assms(2) by (intro dist_peek_cong) simp

lemma locks_own_other:
  assumes "\<And>t key. p \<noteq> dist_slot D ds t OBJECT_LOCK_STORE key"
  shows "locks_own D ds kms (f(p := x)) = locks_own D ds kms f"
proof -
  have "stored_lock D ds kms t key (f(p := x)) = stored_lock D ds kms t key f" for t key
    unfolding stored_lock_def by (rule dist_peek_cong) (simp add: assms [symmetric])
  then show ?thesis by (simp add: locks_own_def)
qed

lemma locks_own_update:
  assumes laws: "dist_laws D ds root kms" and own: "locks_own D ds kms f" and names: "lock_names_slot D t key rec"
    and peek: "stored_lock D ds kms t key (f(dist_slot D ds t OBJECT_LOCK_STORE key \<mapsto> x)) \<in> insert (Ok (Some rec)) (range Err)"
  shows "locks_own D ds kms (f(dist_slot D ds t OBJECT_LOCK_STORE key \<mapsto> x))"
  unfolding locks_own_def
proof (intro allI impI)
  let ?p = "dist_slot D ds t OBJECT_LOCK_STORE key"
  fix t' key' rec'
  assume r: "stored_lock D ds kms t' key' (f(?p \<mapsto> x)) = Ok (Some rec')"
  show "lock_names_slot D t' key' rec'"
  proof (cases "dist_slot D ds t' OBJECT_LOCK_STORE key' = ?p")
    case True
    have same: "t' = t" "dist_store_file_name (alpha_code D) key' = dist_store_file_name (alpha_code D) key"
      using True dist_slot_eq [OF laws plain_object_lock plain_object_lock, of t' key' t key] by blast+
    have "stored_lock D ds kms t' key' (f(?p \<mapsto> x)) = stored_lock D ds kms t key (f(?p \<mapsto> x))"
      unfolding stored_lock_def same(1) by (rule dist_peek_same_slot [OF same(2)])
    then have "rec' = rec" using peek r by auto
    then show ?thesis using names same unfolding lock_names_slot_def by simp
  next
    case False
    have "stored_lock D ds kms t' key' (f(?p \<mapsto> x)) = stored_lock D ds kms t' key' f"
      by (rule stored_lock_other [OF laws]) (use False in simp)
    then show ?thesis using r own by (simp add: locks_own_def)
  qed
qed

lemma lock_slot_other:
  assumes "dist_laws D ds root kms"
  shows "kind \<in> set store_kinds \<Longrightarrow> slot (alpha_code D) (ds_alpha ds) u kind key' \<noteq> dist_slot D ds t OBJECT_LOCK_STORE key"
    "kind \<in> set dist_store_kinds \<Longrightarrow> kind \<noteq> OBJECT_LOCK_STORE \<Longrightarrow> dist_slot D ds u kind key' \<noteq> dist_slot D ds t OBJECT_LOCK_STORE key"
proof -
  assume k: "kind \<in> set store_kinds"
  then have "kind \<noteq> OBJECT_LOCK_STORE" by (auto simp: store_kinds_def dist_stores)
  then show "slot (alpha_code D) (ds_alpha ds) u kind key' \<noteq> dist_slot D ds t OBJECT_LOCK_STORE key"
    using dist_slot_neq_slot [OF assms plain_object_lock store_kinds_plain [OF k], of t key u key'] by simp
qed (simp add: dist_slot_eq [OF assms] dist_store_kinds_plain)

section \<open>Tenant isolation\<close>

definition tenant_kept ::
  "dist_deps \<Rightarrow> DistributionService \<Rightarrow> string \<Rightarrow> LocalDevKms \<Rightarrow> TenantId \<Rightarrow> (string \<rightharpoonup> byte list) \<Rightarrow> disk_prop" where
  "tenant_kept D ds root kms t f0 io f \<longleftrightarrow>
     (dist_laws D ds root kms \<longrightarrow> locks_own D ds kms f \<and>
        (\<forall>kind name. plain_kind kind \<longrightarrow>
           f (tenant_file (alpha_code D) root t kind name) = f0 (tenant_file (alpha_code D) root t kind name)))"

lemma tenant_kept_freeI:
  assumes "\<And>t key. dist_laws D ds root kms \<Longrightarrow> p \<noteq> dist_slot D ds t OBJECT_LOCK_STORE key"
    and "\<And>kind name. dist_laws D ds root kms \<Longrightarrow> plain_kind kind \<Longrightarrow> p \<noteq> tenant_file (alpha_code D) root t kind name"
  shows "free_at (tenant_kept D ds root kms t f0) p"
  unfolding free_at_def tenant_kept_def
proof (intro allI impI conjI)
  fix io :: "(nat \<Rightarrow> io_outcome) \<times> (nat \<Rightarrow> u64)" and f x kind name
  assume J: "dist_laws D ds root kms \<longrightarrow> locks_own D ds kms f \<and> (\<forall>kind name. plain_kind kind \<longrightarrow>
      f (tenant_file (alpha_code D) root t kind name) = f0 (tenant_file (alpha_code D) root t kind name))"
    and laws: "dist_laws D ds root kms"
  show "locks_own D ds kms (f(p := x))" using J laws locks_own_other [OF assms(1) [OF laws]] by blast
  assume "plain_kind kind"
  then show "(f(p := x)) (tenant_file (alpha_code D) root t kind name) = f0 (tenant_file (alpha_code D) root t kind name)"
    using J laws assms(2) [OF laws, of kind name] by simp
qed

lemma tenant_kept_free:
  assumes "t' \<noteq> t"
  shows "kind \<in> set store_kinds \<Longrightarrow> free_at (tenant_kept D ds root kms t f0) (slot (alpha_code D) (ds_alpha ds) t' kind key)"
    "kind \<in> set dist_store_kinds \<Longrightarrow> kind \<noteq> OBJECT_LOCK_STORE \<Longrightarrow>
     free_at (tenant_kept D ds root kms t f0) (dist_slot D ds t' kind key)"
proof -
  have other: "slot (alpha_code D) (ds_alpha ds) t' k key \<noteq> tenant_file (alpha_code D) root t k' name"
      "dist_slot D ds t' k key \<noteq> tenant_file (alpha_code D) root t k' name"
    if laws: "dist_laws D ds root kms" and "plain_kind k" "plain_kind k'" for k k' name
    using tenant_file_inject [OF dist_lawsD(2) [OF laws] that(2,3)] assms
    by (simp_all add: tenant_file_slot(1) [OF dist_lawsD(4) [OF laws]] tenant_file_slot(2) [OF dist_lawsD(5) [OF laws]])
  show "free_at (tenant_kept D ds root kms t f0) (slot (alpha_code D) (ds_alpha ds) t' kind key)" if "kind \<in> set store_kinds"
    by (intro tenant_kept_freeI lock_slot_other(1) other(1)) (use that store_kinds_plain in simp_all)
  show "free_at (tenant_kept D ds root kms t f0) (dist_slot D ds t' kind key)"
    if "kind \<in> set dist_store_kinds" "kind \<noteq> OBJECT_LOCK_STORE"
    by (intro tenant_kept_freeI lock_slot_other(2) other(2)) (use that dist_store_kinds_plain in simp_all)
qed


lemma tenant_kept_lock_write:
  assumes laws: "dist_laws D ds root kms" and "t' \<noteq> t" "lock_names_slot D t' key rec"
  shows "keeps (tenant_kept D ds root kms t f0) (dist_write_json D ds (json_object_lock D) t' OBJECT_LOCK_STORE key rec)"
proof (rule keeps_dist_write_json [OF laws dist_lawsD(3) [OF laws]])
  let ?p = "dist_slot D ds t' OBJECT_LOCK_STORE key"
  fix io f x
  assume J: "tenant_kept D ds root kms t f0 io f"
    and "dist_peek D ds kms (json_object_lock D) t' OBJECT_LOCK_STORE key (f(?p \<mapsto> x)) \<in> insert (Ok (Some rec)) (range Err)"
  then have "locks_own D ds kms (f(?p \<mapsto> x))"
    using locks_own_update [OF laws _ assms(3)] laws unfolding stored_lock_def tenant_kept_def by blast
  moreover have "tenant_file (alpha_code D) root t kind name \<noteq> ?p" if "plain_kind kind" for kind name
    using tenant_file_inject [OF dist_lawsD(2) [OF laws] that plain_object_lock] assms(2)
    by (simp add: tenant_file_slot(2) [OF dist_lawsD(5) [OF laws]])
  ultimately show "tenant_kept D ds root kms t f0 io (f(?p \<mapsto> x))"
    using J laws by (auto simp: tenant_kept_def)
qed

interpretation tenant_records: record_free_invariant "alpha_code D" "ds_alpha ds" "{t'. t' \<noteq> t}" "tenant_kept D ds root kms t f0"
  for D ds root kms t f0
  by unfold_locales (auto intro!: keeps_write_encrypted_bytes tenant_kept_free simp: store_kinds_def)

lemma keeps_without_laws: "\<not> dist_laws D ds root kms \<Longrightarrow> keeps (tenant_kept D ds root kms t f0) m"
  by (rule keepsI) (simp add: tenant_kept_def)

interpretation dist_tenants: dist_invariant D ds "{t'. t' \<noteq> t}" "tenant_kept D ds root kms t f0" for D ds root kms t f0
proof unfold_locales
  fix u auth b k until mode hold
  assume "u \<in> {t'. t' \<noteq> t}"
  then have u: "u \<noteq> t" by simp
  show "keeps (tenant_kept D ds root kms t f0) (put_object_retention D ds auth u b k until mode)"
    "keeps (tenant_kept D ds root kms t f0) (put_object_legal_hold D ds auth u b k hold)"
  proof (atomize (full), cases "dist_laws D ds root kms")
    case True
    show "keeps (tenant_kept D ds root kms t f0) (put_object_retention D ds auth u b k until mode) \<and>
      keeps (tenant_kept D ds root kms t f0) (put_object_legal_hold D ds auth u b k hold)"
      using True by (intro conjI keeps_lock_ops [OF True] tenant_kept_lock_write u) (simp_all add: tenant_kept_def)
  qed (simp add: keeps_without_laws)
qed (auto intro!: tenant_kept_free)

text \<open>
  C4. Tenants are isolated across both interfaces: whatever requests the distribution layer and the
  native service serve for other tenants, interleaved in any order with restarts, with whatever
  credentials and whichever system calls fail, every file in a directory of a tenant is the same
  afterwards. (For a store on disk with the local key management, in which every lock record names
  the object it is stored for, as in an empty store; this is kept too.)
\<close>

theorem dist_tenant_isolation:
  assumes "dist_laws D ds root kms" "locks_own D ds kms (w_files s)" "plain_kind kind"
    and "dist_run D ds {t'. t' \<noteq> t} s s'"
  shows "w_files s' (tenant_file (alpha_code D) root t kind name) = w_files s (tenant_file (alpha_code D) root t kind name)"
  using dist_tenants.keeps_dist_run [OF assms(4), of root kms "w_files s"] assms(1-3) by (simp add: tenant_kept_def)

section \<open>Compliance retention\<close>

definition is_compliance :: "ObjectLockRecord \<Rightarrow> bool" where
  "is_compliance rec \<longleftrightarrow> (case ol_mode rec of None \<Rightarrow> False | Some mode \<Rightarrow> eq_ignore_ascii_case mode ''compliance'')"

text \<open>The record forbids changes of the object until the given time at least.\<close>

definition retains :: "u64 \<Rightarrow> ObjectLockRecord \<Rightarrow> bool" where
  "retains until rec \<longleftrightarrow> is_compliance rec \<and> (\<exists>u. ol_immutable_until_ms rec = Some u \<and> until \<le> u)"

definition retained_in ::
  "dist_deps \<Rightarrow> DistributionService \<Rightarrow> LocalDevKms \<Rightarrow> TenantId \<Rightarrow> string \<Rightarrow> u64 \<Rightarrow> (string \<rightharpoonup> byte list) \<Rightarrow> bool" where
  "retained_in D ds kms t key until f \<longleftrightarrow>
     locks_own D ds kms f \<and> (\<exists>rec. stored_lock D ds kms t key f = Ok (Some rec) \<and> retains until rec)"

definition before :: "u64 \<Rightarrow> (nat \<Rightarrow> io_outcome) \<times> (nat \<Rightarrow> u64) \<Rightarrow> bool" where
  "before until given \<longleftrightarrow> fst given = (\<lambda>_. IoOk) \<and> (\<forall>n. snd given n < until)"

definition retained ::
  "dist_deps \<Rightarrow> DistributionService \<Rightarrow> string \<Rightarrow> LocalDevKms \<Rightarrow> TenantId \<Rightarrow> string \<Rightarrow> u64
   \<Rightarrow> (nat \<Rightarrow> io_outcome) \<times> (nat \<Rightarrow> u64) \<Rightarrow> disk_prop" where
  "retained D ds root kms t key until given io f \<longleftrightarrow>
     (dist_laws D ds root kms \<and> before until given \<longrightarrow> io = given \<and> retained_in D ds kms t key until f)"

lemma retained_trivial: "\<not> (dist_laws D ds root kms \<and> before until given) \<Longrightarrow> keeps (retained D ds root kms t key until given) m"
  by (rule keepsI) (auto simp: retained_def)

lemma retained_freeI:
  assumes "\<And>t key. dist_laws D ds root kms \<Longrightarrow> p \<noteq> dist_slot D ds t OBJECT_LOCK_STORE key"
  shows "free_at (retained D ds root kms t key until given) p"
proof (cases "dist_laws D ds root kms")
  case True
  then show ?thesis
    using locks_own_other [OF assms [OF True]] stored_lock_other [OF True assms [OF True]]
    by (simp add: free_at_def retained_def retained_in_def)
qed (simp add: free_at_def retained_def)

lemma retained_free:
  "kind \<in> set store_kinds \<Longrightarrow> free_at (retained D ds root kms t key until given) (slot (alpha_code D) (ds_alpha ds) u kind key')"
  "kind \<in> set dist_store_kinds \<Longrightarrow> kind \<noteq> OBJECT_LOCK_STORE \<Longrightarrow>
   free_at (retained D ds root kms t key until given) (dist_slot D ds u kind key')"
  by (intro retained_freeI lock_slot_other; assumption)+

text \<open>A write of a lock record that names its slot and, in the slot in question, still retains.\<close>

lemma retained_write:
  assumes hyp: "dist_laws D ds root kms" "before until given"
    and names: "lock_names_slot D u key' rec"
    and ret: "dist_slot D ds u OBJECT_LOCK_STORE key' = dist_slot D ds t OBJECT_LOCK_STORE key \<Longrightarrow> retains until rec"
  shows "keeps (retained D ds root kms t key until given) (dist_write_json D ds (json_object_lock D) u OBJECT_LOCK_STORE key' rec)"
proof (rule keepsI)
  let ?p = "dist_slot D ds u OBJECT_LOCK_STORE key'"
  fix s r s'
  assume wr: "dist_write_json D ds (json_object_lock D) u OBJECT_LOCK_STORE key' rec s = (r, s')"
    and J: "retained D ds root kms t key until given (fate s) (w_files s)"
  have k: "keeps (\<lambda>io f. io = given) (dist_write_json D ds (json_object_lock D) u OBJECT_LOCK_STORE key' rec)"
    by (rule keeps_dist_writes) (simp add: free_at_def)
  have io: "fate s' = given" using keepsD [OF k wr] J hyp by (simp add: retained_def)
  have ready: "fs_ready (ds_alpha ds) s"
    using J hyp dist_lawsD(4) [OF hyp(1)] by (auto simp: retained_def before_def fs_ready_def io_reliable_def)
  show "retained D ds root kms t key until given (fate s') (w_files s')"
  proof (cases "quiet s s'")
    case True
    then show ?thesis using J by (simp add: quietD)
  next
    case False
    then obtain x where x: "w_files s' = (w_files s)(?p \<mapsto> x)"
        "stored_lock D ds kms u key' (w_files s') = Ok (Some rec)"
      using dist_write_json_ready [OF hyp(1) dist_lawsD(3) [OF hyp(1)] ready wr] by (auto simp: stored_lock_def)
    have "locks_own D ds kms (w_files s')"
      using J hyp x locks_own_update [OF hyp(1) _ names, of "w_files s" x] by (simp add: retained_def retained_in_def)
    moreover have "\<exists>rec. stored_lock D ds kms t key (w_files s') = Ok (Some rec) \<and> retains until rec"
    proof (cases "?p = dist_slot D ds t OBJECT_LOCK_STORE key")
      case True
      then have "u = t" "dist_store_file_name (alpha_code D) key' = dist_store_file_name (alpha_code D) key"
        using dist_slot_eq [OF hyp(1) plain_object_lock plain_object_lock, of u key' t key] by blast+
      then have "stored_lock D ds kms t key (w_files s') = stored_lock D ds kms u key' (w_files s')"
        unfolding stored_lock_def by (metis dist_peek_same_slot)
      then show ?thesis using x(2) ret [OF True] by simp
    next
      case False
      then show ?thesis
        using J hyp stored_lock_other [OF hyp(1) False] by (simp add: x(1) retained_def retained_in_def)
    qed
    ultimately show ?thesis using io by (simp add: retained_def retained_in_def)
  qed
qed


text \<open>What the two operations find in the slot before they write it.\<close>

lemma retained_read:
  assumes hyp: "dist_laws D ds root kms" "before until given"
    and read: "dist_read_json D ds (json_object_lock D) u OBJECT_LOCK_STORE (object_lock_store_key b k) s = (Ok found, s')"
    and J: "retained D ds root kms t key until given (fate s) (w_files s)"
  defines "rec \<equiv> (\<lambda>now. case found of Some rec \<Rightarrow> rec | None \<Rightarrow> default_object_lock u b k now)"
  shows "lock_names_slot D u (object_lock_store_key b k) (rec now)"
    and "dist_slot D ds u OBJECT_LOCK_STORE (object_lock_store_key b k) = dist_slot D ds t OBJECT_LOCK_STORE key \<Longrightarrow>
      retains until (rec now)"
proof -
  have ready: "fs_ready (ds_alpha ds) s"
    using J hyp dist_lawsD(4) [OF hyp(1)] by (auto simp: retained_def before_def fs_ready_def io_reliable_def)
  have found: "stored_lock D ds kms u (object_lock_store_key b k) (w_files s) = Ok found"
    using dist_read_json_ready [OF hyp(1) ready read] by (simp add: stored_lock_def)
  then show "lock_names_slot D u (object_lock_store_key b k) (rec now)"
    using J hyp by (cases found) (auto simp: rec_def default_names_slot retained_def retained_in_def locks_own_def)
  assume "dist_slot D ds u OBJECT_LOCK_STORE (object_lock_store_key b k) = dist_slot D ds t OBJECT_LOCK_STORE key"
  then have "u = t" "dist_store_file_name (alpha_code D) (object_lock_store_key b k) = dist_store_file_name (alpha_code D) key"
    using dist_slot_eq [OF hyp(1) plain_object_lock plain_object_lock, of u "object_lock_store_key b k" t key] by blast+
  then have "stored_lock D ds kms t key (w_files s) = Ok found"
    using found unfolding stored_lock_def by (metis dist_peek_same_slot)
  then show "retains until (rec now)"
    using J hyp by (auto simp: rec_def retained_def retained_in_def)
qed

text \<open>While the retention is active, an allowed update keeps the mode and does not shorten it.\<close>

lemma allowed_update_retains:
  assumes "retains until rec" "ensure_retention_update_allowed rec until' mode auth s = (Ok x, s')" "before until (fate s)"
  shows "retains until (rec\<lparr>ol_immutable_until_ms := until', ol_mode := mode, ol_updated_at_ms := at\<rparr>)"
proof -
  obtain u where u: "is_compliance rec" "ol_immutable_until_ms rec = Some u" "until \<le> u"
    using assms(1) by (auto simp: retains_def)
  have "w_clock s n < u" for n using assms(3) u(3) by (auto simp: before_def intro: less_le_trans)
  then have "\<not> u \<le> w_clock s (w_ticks s)" by (simp add: not_le)
  then show ?thesis
    using assms(2) u
    by (auto simp: ensure_retention_update_allowed_def bnd_def now_ms_def ret_def throw_def is_compliance_def retains_def
        Let_def split: if_splits option.splits)
qed

lemma retention_keeps_retained:
  "keeps (retained D ds root kms t key until given) (put_object_retention D ds auth u b k until' mode)"
proof (cases "dist_laws D ds root kms \<and> before until given")
  case True
  then have hyp: "dist_laws D ds root kms" "before until given" by simp_all
  show ?thesis
    unfolding put_object_retention_def
  proof ((rule keeps_bnd [OF keeps_basic(3)])+, rule keeps_bnd [OF keeps_dist_scopes(2)], rule keeps_bnd_kept)
    fix b k found and s s' :: service
    assume "dist_read_json D ds (json_object_lock D) u OBJECT_LOCK_STORE (object_lock_store_key b k) s = (Ok found, s')"
      "retained D ds root kms t key until given (fate s) (w_files s)"
    note found = retained_read [OF hyp this]
    show "keeps (retained D ds root kms t key until given) (bnd now_ms (\<lambda>now.
      let rec = (case found of Some rec \<Rightarrow> rec | None \<Rightarrow> default_object_lock u b k now) in
      bnd (ensure_retention_update_allowed rec until' mode auth) (\<lambda>_. bnd now_ms (\<lambda>updated_at_ms.
      let rec = rec\<lparr>ol_immutable_until_ms := until', ol_mode := mode, ol_updated_at_ms := updated_at_ms\<rparr> in
      bnd (dist_write_json D ds (json_object_lock D) u OBJECT_LOCK_STORE (object_lock_store_key b k) rec) (\<lambda>_.
      ret rec)))))"
    proof (rule keeps_bnd [OF keeps_now_ms], unfold Let_def, rule keeps_bnd_kept [OF keeps_dist_scopes(5)])
      fix now x and s s' :: service
      let ?rec = "case found of Some rec \<Rightarrow> rec | None \<Rightarrow> default_object_lock u b k now"
      assume upd: "ensure_retention_update_allowed ?rec until' mode auth s = (Ok x, s')"
        and J: "retained D ds root kms t key until given (fate s) (w_files s)"
      have "before until (fate s)" using J hyp by (simp add: retained_def)
      note kept = allowed_update_retains [OF _ upd this]
      show "keeps (retained D ds root kms t key until given) (bnd now_ms (\<lambda>updated_at_ms.
        bnd (dist_write_json D ds (json_object_lock D) u OBJECT_LOCK_STORE (object_lock_store_key b k)
               (?rec\<lparr>ol_immutable_until_ms := until', ol_mode := mode, ol_updated_at_ms := updated_at_ms\<rparr>)) (\<lambda>_.
        ret (?rec\<lparr>ol_immutable_until_ms := until', ol_mode := mode, ol_updated_at_ms := updated_at_ms\<rparr>))))"
        using found(1) [of now]
        by (intro keeps_rules retained_write [OF hyp] kept found(2)) (simp_all add: lock_names_slot_def)
    qed
  qed (intro keeps_rules)
qed (rule retained_trivial)

lemma hold_keeps_retained:
  "keeps (retained D ds root kms t key until given) (put_object_legal_hold D ds auth u b k hold)"
proof (cases "dist_laws D ds root kms \<and> before until given")
  case True
  then have hyp: "dist_laws D ds root kms" "before until given" by simp_all
  show ?thesis
    unfolding put_object_legal_hold_def
  proof ((rule keeps_bnd [OF keeps_basic(3)])+, rule keeps_bnd [OF keeps_dist_scopes(2)], rule keeps_bnd_kept)
    fix b k found and s s' :: service
    assume "dist_read_json D ds (json_object_lock D) u OBJECT_LOCK_STORE (object_lock_store_key b k) s = (Ok found, s')"
      "retained D ds root kms t key until given (fate s) (w_files s)"
    note found = retained_read [OF hyp this]
    have wr: "keeps (retained D ds root kms t key until given) (dist_write_json D ds (json_object_lock D) (ol_tenant_id rec)
        OBJECT_LOCK_STORE (object_lock_store_key (ol_bucket rec) (ol_key rec)) rec)"
      if rec: "rec = (case found of Some rec \<Rightarrow> rec | None \<Rightarrow> default_object_lock u b k now)
        \<lparr>ol_legal_hold := hold, ol_updated_at_ms := at\<rparr>" for rec now at
    proof (rule retained_write [OF hyp])
      have names: "lock_names_slot D u (object_lock_store_key b k) rec"
        using found(1) [of now] by (simp add: rec lock_names_slot_def)
      then show "lock_names_slot D (ol_tenant_id rec) (object_lock_store_key (ol_bucket rec) (ol_key rec)) rec"
        by (simp add: lock_names_slot_def)
      assume "dist_slot D ds (ol_tenant_id rec) OBJECT_LOCK_STORE (object_lock_store_key (ol_bucket rec) (ol_key rec)) =
        dist_slot D ds t OBJECT_LOCK_STORE key"
      then have "retains until (case found of Some rec \<Rightarrow> rec | None \<Rightarrow> default_object_lock u b k now)"
        using names by (intro found(2)) (simp add: lock_names_slot_def dist_slot_def dist_store_key_def)
      then show "retains until rec" by (simp add: rec retains_def is_compliance_def)
    qed
    show "keeps (retained D ds root kms t key until given) (bnd now_ms (\<lambda>now.
      let rec = (case found of Some rec \<Rightarrow> rec | None \<Rightarrow> default_object_lock u b k now) in
      bnd (lift_result (if ol_legal_hold rec \<and> \<not> hold then require_admin_repair auth ''legal_hold_active'' else Ok ())) (\<lambda>_.
      bnd now_ms (\<lambda>updated_at_ms.
      let rec = rec\<lparr>ol_legal_hold := hold, ol_updated_at_ms := updated_at_ms\<rparr> in
      bnd (dist_write_json D ds (json_object_lock D) (ol_tenant_id rec) OBJECT_LOCK_STORE
            (object_lock_store_key (ol_bucket rec) (ol_key rec)) rec) (\<lambda>_.
      ret rec)))))"
      by (intro keeps_rules wr [OF refl])
  qed (intro keeps_rules)
qed (rule retained_trivial)

interpretation lock_records: record_free_invariant "alpha_code D" "ds_alpha ds" UNIV "retained D ds root kms t key until given"
  for D ds root kms t key until given
  by unfold_locales (auto intro!: keeps_write_encrypted_bytes retained_free simp: store_kinds_def)

interpretation lock_files: dist_invariant D ds UNIV "retained D ds root kms t key until given"
  for D ds root kms t key until given
  by unfold_locales (simp_all add: retained_free retention_keeps_retained hold_keeps_retained)

text \<open>
  C10. A compliance retention outlives every request. From a state whose lock record for an object
  says compliance mode until some time, whatever requests are served for any tenant with any
  credentials, as long as no system call fails and the clock has not reached that time, the record
  still says compliance mode, and until that time or later.
\<close>

theorem compliance_retention_kept:
  assumes "dist_laws D ds root kms" "locks_own D ds kms (w_files s)" "w_io s = (\<lambda>_. IoOk)" "\<And>n. w_clock s n < until"
    and "stored_lock D ds kms t (object_lock_store_key bucket key) (w_files s) = Ok (Some rec)" "is_compliance rec"
    and "ol_immutable_until_ms rec = Some until" "dist_run D ds UNIV s s'"
  shows "\<exists>rec' until'. stored_lock D ds kms t (object_lock_store_key bucket key) (w_files s') = Ok (Some rec') \<and>
    is_compliance rec' \<and> ol_immutable_until_ms rec' = Some until' \<and> until \<le> until'"
  using lock_files.keeps_dist_run [OF assms(8), of root kms t "object_lock_store_key bucket key" until "fate s"] assms(1-7)
  by (auto simp: retained_def retained_in_def retains_def before_def)

end
