(* ===== verification/HSP_S3_Types.thy ===== *)
theory HSP_S3_Types
  imports HSP_Http
begin

text \<open>
  The XML documents of \<open>server/hsp-s3/src/lib.rs\<close> and their conversions from and to the types of the
  distribution layer. How \<open>quick_xml\<close> prints and reads a document is a parameter (\<open>s3_deps\<close>).
\<close>

section \<open>Documents\<close>

record ErrorXml =
  ex_code :: string
  ex_message :: string

definition error_xml_from :: "ApiError \<Rightarrow> ErrorXml" where
  "error_xml_from error = \<lparr>ex_code = err_code error, ex_message = err_message error\<rparr>"

record BucketXml =
  bx_name :: string

record BucketsXml =
  bsx_bucket :: "BucketXml list"

record ListAllMyBucketsResult =
  lab_buckets :: BucketsXml

definition list_all_my_buckets_from :: "BucketSummary list \<Rightarrow> ListAllMyBucketsResult" where
  "list_all_my_buckets_from summaries =
     \<lparr>lab_buckets = \<lparr>bsx_bucket = map (\<lambda>bucket. \<lparr>bx_name = bsm_bucket bucket\<rparr>) summaries\<rparr>\<rparr>"

record ListBucketContentsXml =
  lbc_key :: string
  lbc_etag :: string
  lbc_size :: u64

record ListBucketResult =
  lbr_name :: string
  lbr_is_truncated :: bool
  lbr_next_continuation_token :: "string option"
  lbr_contents :: "ListBucketContentsXml list"

definition list_bucket_result_from :: "ListObjectsResponse \<Rightarrow> ListBucketResult" where
  "list_bucket_result_from listed =
     \<lparr>lbr_name = lop_bucket listed, lbr_is_truncated = lop_is_truncated listed,
      lbr_next_continuation_token = lop_next_continuation_token listed,
      lbr_contents = map (\<lambda>item. \<lparr>lbc_key = oi_key item, lbc_etag = quoted (oi_etag item),
                                   lbc_size = oi_content_length item\<rparr>) (lop_items listed)\<rparr>"

record DeleteObjectXml =
  dox_key :: string

record DeleteObjectsXml =
  dosx_objects :: "DeleteObjectXml list"

record DeleteResultXml =
  drx_deleted :: "DeleteObjectXml list"

record CopyObjectResultXml =
  cox_etag :: string

definition copy_object_result_from :: "CopyObjectResponse \<Rightarrow> CopyObjectResultXml" where
  "copy_object_result_from copied = \<lparr>cox_etag = quoted (cyr_object_cid copied)\<rparr>"

record InitiateMultipartUploadResultXml =
  imx_bucket :: string
  imx_key :: string
  imx_upload_id :: string

definition initiate_multipart_from :: "CreateMultipartUploadResponse \<Rightarrow> InitiateMultipartUploadResultXml" where
  "initiate_multipart_from created =
     \<lparr>imx_bucket = cmr_bucket created, imx_key = cmr_key created, imx_upload_id = cmr_upload_id created\<rparr>"

record CompletedMultipartPartXml =
  cpx_part_number :: u32
  cpx_etag :: string

record CompleteMultipartUploadXml =
  cux_parts :: "CompletedMultipartPartXml list"

definition trim_etag :: "string \<Rightarrow> string" where
  "trim_etag value = trim_char (CHR 0x22) (trim value)"

definition completed_part_from :: "CompletedMultipartPartXml \<Rightarrow> CompletedMultipartPart" where
  "completed_part_from part = \<lparr>cmp_part_number = cpx_part_number part, cmp_etag = trim_etag (cpx_etag part)\<rparr>"

record CompleteMultipartUploadResultXml =
  crx_bucket :: string
  crx_key :: string
  crx_etag :: string

definition complete_multipart_result_from :: "PutObjectResponse \<Rightarrow> CompleteMultipartUploadResultXml" where
  "complete_multipart_result_from response =
     \<lparr>crx_bucket = por_bucket response, crx_key = por_key response, crx_etag = quoted (por_etag response)\<rparr>"

record AccessControlPolicyXml =
  acx_canned_acl :: string

definition access_control_policy_from :: "CannedAcl \<Rightarrow> AccessControlPolicyXml" where
  "access_control_policy_from acl = \<lparr>acx_canned_acl = canned_acl_as_str acl\<rparr>"

record LifecycleRuleXml =
  lrx_id :: "string option"
  lrx_prefix :: "string option"
  lrx_status :: string
  lrx_expiration_days :: "u32 option"
  lrx_transition_days :: "u32 option"
  lrx_transition_storage_class :: "string option"

record LifecycleConfigurationXml =
  lcx_rules :: "LifecycleRuleXml list"

definition lifecycle_rule_from_xml :: "'x core_deps_scheme \<Rightarrow> string \<Rightarrow> LifecycleRuleXml \<Rightarrow> LifecycleRule" where
  "lifecycle_rule_from_xml D bucket rule =
     \<lparr>lcr_id = (case lrx_id rule of None \<Rightarrow> cid_from_bytes D (as_bytes bucket) | Some i \<Rightarrow> i),
      lcr_prefix = lrx_prefix rule, lcr_expire_after_days = lrx_expiration_days rule,
      lcr_transition_after_days = lrx_transition_days rule,
      lcr_transition_storage_class = lrx_transition_storage_class rule,
      lcr_enabled = eq_ignore_ascii_case (lrx_status rule) ''enabled''\<rparr>"

definition lifecycle_config_from_xml ::
  "'x core_deps_scheme \<Rightarrow> TenantId \<Rightarrow> string \<Rightarrow> LifecycleConfigurationXml \<Rightarrow> LifecycleConfig" where
  "lifecycle_config_from_xml D tenant_id bucket doc =
     \<lparr>lcc_tenant_id = tenant_id, lcc_bucket = bucket, lcc_rules = map (lifecycle_rule_from_xml D bucket) (lcx_rules doc),
      lcc_updated_at_ms = 0\<rparr>"

definition lifecycle_configuration_from :: "LifecycleConfig \<Rightarrow> LifecycleConfigurationXml" where
  "lifecycle_configuration_from config =
     \<lparr>lcx_rules = map (\<lambda>rule.
        \<lparr>lrx_id = Some (lcr_id rule), lrx_prefix = lcr_prefix rule,
         lrx_status = (if lcr_enabled rule then ''Enabled'' else ''Disabled''),
         lrx_expiration_days = lcr_expire_after_days rule, lrx_transition_days = lcr_transition_after_days rule,
         lrx_transition_storage_class = lcr_transition_storage_class rule\<rparr>) (lcc_rules config)\<rparr>"

record ObjectRetentionXml =
  orx_mode :: "string option"
  orx_retain_until_ms :: "u64 option"

definition object_retention_from :: "ObjectLockRecord \<Rightarrow> ObjectRetentionXml" where
  "object_retention_from lock = \<lparr>orx_mode = ol_mode lock, orx_retain_until_ms = ol_immutable_until_ms lock\<rparr>"

record LegalHoldXml =
  lhx_status :: string

definition legal_hold_from :: "bool \<Rightarrow> LegalHoldXml" where
  "legal_hold_from hold = \<lparr>lhx_status = (if hold then ''ON'' else ''OFF'')\<rparr>"

record WebsiteConfigurationXml =
  wcx_enabled :: bool
  wcx_index_document :: string
  wcx_error_document :: string
  wcx_access_profile :: string

definition website_config_from_xml :: "TenantId \<Rightarrow> string \<Rightarrow> WebsiteConfigurationXml \<Rightarrow> WebsiteConfig" where
  "website_config_from_xml tenant_id bucket doc =
     \<lparr>wb_tenant_id = tenant_id, wb_bucket = bucket, wb_enabled = wcx_enabled doc,
      wb_index_document = wcx_index_document doc, wb_error_document = wcx_error_document doc,
      wb_access_profile = (if wcx_access_profile doc = ''trusted-edge-v1'' then TrustedEdgeV1 else PublicCiphertext),
      wb_updated_at_ms = 0\<rparr>"

definition website_configuration_from :: "WebsiteConfig \<Rightarrow> WebsiteConfigurationXml" where
  "website_configuration_from config =
     \<lparr>wcx_enabled = wb_enabled config, wcx_index_document = wb_index_document config,
      wcx_error_document = wb_error_document config,
      wcx_access_profile = access_profile_as_str (wb_access_profile config)\<rparr>"

record ReplicationConfigurationXml =
  rcx_destination_bucket :: string
  rcx_prefix :: "string option"
  rcx_enabled :: bool

definition replication_config_from_xml :: "TenantId \<Rightarrow> string \<Rightarrow> ReplicationConfigurationXml \<Rightarrow> ReplicationConfig" where
  "replication_config_from_xml tenant_id source_bucket doc =
     \<lparr>rcf_tenant_id = tenant_id, rcf_source_bucket = source_bucket,
      rcf_destination_bucket = rcx_destination_bucket doc, rcf_prefix = rcx_prefix doc,
      rcf_enabled = rcx_enabled doc, rcf_updated_at_ms = 0\<rparr>"

definition replication_configuration_from :: "ReplicationConfig \<Rightarrow> ReplicationConfigurationXml" where
  "replication_configuration_from config =
     \<lparr>rcx_destination_bucket = rcf_destination_bucket config, rcx_prefix = rcf_prefix config,
      rcx_enabled = rcf_enabled config\<rparr>"

record ReplicationStatusXml =
  rsx_source_bucket :: string
  rsx_destination_bucket :: string
  rsx_copied_objects :: u64
  rsx_failed_objects :: u64
  rsx_last_run_ms :: u64
  rsx_last_error :: "string option"

definition replication_status_from :: "ReplicationStatus \<Rightarrow> ReplicationStatusXml" where
  "replication_status_from status =
     \<lparr>rsx_source_bucket = rst_source_bucket status, rsx_destination_bucket = rst_destination_bucket status,
      rsx_copied_objects = rst_copied_objects status, rsx_failed_objects = rst_failed_objects status,
      rsx_last_run_ms = rst_last_run_ms status, rsx_last_error = rst_last_error status\<rparr>"

section \<open>Third-party code\<close>

record 'a xml_codec =
  to_xml :: "'a \<Rightarrow> string + string"
  from_xml :: "string \<Rightarrow> string + 'a"

record s3_deps = http_deps +
  xml_error_doc :: "ErrorXml \<Rightarrow> string + string"
  xml_buckets :: "ListAllMyBucketsResult \<Rightarrow> string + string"
  xml_list_bucket :: "ListBucketResult \<Rightarrow> string + string"
  xml_delete :: "DeleteObjectsXml xml_codec"
  xml_delete_result :: "DeleteResultXml \<Rightarrow> string + string"
  xml_copy_result :: "CopyObjectResultXml \<Rightarrow> string + string"
  xml_initiate :: "InitiateMultipartUploadResultXml \<Rightarrow> string + string"
  xml_complete :: "string \<Rightarrow> string + CompleteMultipartUploadXml"
  xml_complete_result :: "CompleteMultipartUploadResultXml \<Rightarrow> string + string"
  xml_acl :: "AccessControlPolicyXml xml_codec"
  xml_lifecycle :: "LifecycleConfigurationXml xml_codec"
  xml_retention :: "ObjectRetentionXml xml_codec"
  xml_legal_hold :: "LegalHoldXml xml_codec"
  xml_website :: "WebsiteConfigurationXml xml_codec"
  xml_replication :: "ReplicationConfigurationXml xml_codec"
  xml_replication_status :: "ReplicationStatusXml \<Rightarrow> string + string"

end
