(* ===== verification/HSP_S3_Server.thy ===== *)
theory HSP_S3_Server
  imports HSP_S3_Types
begin

text \<open>
  \<open>server/hsp-s3/src/lib.rs\<close>: the S3 facade. A request is resolved to a bucket and a key, by path or by virtual
  host, authenticated, and dispatched to one operation of \<open>DistributionService\<close> for the tenant of its
  credentials; the answer is XML.

  The state is that of the service. The arms of the match in \<open>dispatch_request\<close> are in three definitions:
  without a bucket, for a bucket and for a key, which share no arm.
\<close>

section \<open>State and construction\<close>

definition MAX_S3_REQUEST_BODY_BYTES :: nat where
  "MAX_S3_REQUEST_BODY_BYTES = 128 * 1024 * 1024"

record S3ServerConfig =
  s3c_authority :: string
  s3c_gateway_base_url :: string
  s3c_root_dir :: string
  s3c_storage_backend :: StorageBackendConfig
  s3c_server_instance_id :: string
  s3c_capability_audience :: string
  s3c_immutable_cid_ttl_sec :: u64
  s3c_namespace_ttl_sec :: u64
  s3c_namespace_signing_seed :: "byte list"
  s3c_namespace_signing_key_id :: string
  s3c_edge_signing_secret :: "byte list"
  s3c_kms_seed :: "byte list"
  s3c_aws_kms :: "AwsKmsProviderConfig option"
  s3c_virtual_host_suffix :: "string option"
  s3c_sigv4_access_keys :: "SigV4AccessKeyRecord list"

record S3State =
  s3s_service :: DistributionService
  s3s_virtual_host_suffix :: "string option"

primrec register_access_keys :: "dist_deps \<Rightarrow> DistributionService \<Rightarrow> SigV4AccessKeyRecord list \<Rightarrow> unit svc_op" where
  "register_access_keys D ds [] = ret ()"
| "register_access_keys D ds (rec # recs) =
     bnd (register_sigv4_access_key D ds rec) (\<lambda>_. register_access_keys D ds recs)"

definition s3_build_distribution_service ::
  "dist_deps \<Rightarrow> (string \<Rightarrow> string option) \<Rightarrow> S3ServerConfig \<Rightarrow> string + byte list \<Rightarrow> DistributionService svc_op" where
  "s3_build_distribution_service D env config registry_file =
     bnd (lift_result (registry_load (auth_code (alpha_code D)) registry_file)) (\<lambda>issuer_registry.
     bnd (lift_result (map_err (\<lambda>error. crypto_error_to_api error ''failed to initialize KMS'')
            (from_seed (alpha_code D) (s3c_kms_seed config)))) (\<lambda>kms.
     bnd (distribution_service_new D env
       \<lparr>dc_alpha =
          \<lparr>cf_authority = s3c_authority config, cf_gateway_base_url = s3c_gateway_base_url config,
           cf_root_dir = s3c_root_dir config, cf_native_port = 443,
           cf_server_instance_id = s3c_server_instance_id config, cf_storage_backend = s3c_storage_backend config\<rparr>,
        dc_capability_audience = s3c_capability_audience config,
        dc_immutable_cid_ttl_sec = s3c_immutable_cid_ttl_sec config,
        dc_namespace_ttl_sec = s3c_namespace_ttl_sec config, dc_plaintext_profile_enabled = False,
        dc_aws_kms = s3c_aws_kms config\<rparr>
       kms issuer_registry (s3c_namespace_signing_seed config) (s3c_namespace_signing_key_id config)
       (s3c_edge_signing_secret config)) (\<lambda>ds.
     bnd (register_access_keys D ds (s3c_sigv4_access_keys config)) (\<lambda>_. ret ds))))"

definition s3_start ::
  "dist_deps \<Rightarrow> (string \<Rightarrow> string option) \<Rightarrow> S3ServerConfig \<Rightarrow> string + byte list \<Rightarrow> S3State svc_op" where
  "s3_start D env config registry_file =
     bnd (s3_build_distribution_service D env config registry_file) (\<lambda>ds.
     ret \<lparr>s3s_service = ds, s3s_virtual_host_suffix = s3c_virtual_host_suffix config\<rparr>)"

section \<open>Responses\<close>

definition s3_http_error :: "string \<Rightarrow> ApiError" where
  "s3_http_error message = api_error Cat_Storage ''http_build_failed'' message"

definition xml_error :: "string \<Rightarrow> ApiError" where
  "xml_error message = api_error Cat_Validation ''invalid_xml'' message"

definition empty_response :: "'x http_deps_scheme \<Rightarrow> nat \<Rightarrow> ApiError + HttpResponse" where
  "empty_response H status = build_response H s3_http_error status [] []"

definition s3_text_response :: "'x http_deps_scheme \<Rightarrow> nat \<Rightarrow> string \<Rightarrow> string \<Rightarrow> ApiError + HttpResponse" where
  "s3_text_response H status content_type body =
     build_response H s3_http_error status [(''content-type'', content_type)] (as_bytes body)"

definition s3_json_response :: "'x http_deps_scheme \<Rightarrow> nat \<Rightarrow> string + byte list \<Rightarrow> ApiError + HttpResponse" where
  "s3_json_response H status serialized =
     rbnd (map_err (api_error Cat_Storage ''json_serialize_failed'') serialized) (\<lambda>body.
     build_response H s3_http_error status [(''content-type'', ''application/json'')] body)"

definition xml_response :: "'x http_deps_scheme \<Rightarrow> nat \<Rightarrow> string + string \<Rightarrow> ApiError + HttpResponse" where
  "xml_response H status serialized =
     rbnd (map_err xml_error serialized) (\<lambda>xml.
     build_response H s3_http_error status [(''content-type'', ''application/xml'')] (as_bytes xml))"

fun s3_error_status :: "ApiErrorCategory \<Rightarrow> nat" where
  "s3_error_status Cat_Auth = 403"
| "s3_error_status Cat_Replay = 409"
| "s3_error_status Cat_Policy = 403"
| "s3_error_status Cat_Validation = 400"
| "s3_error_status Cat_Unsupported = 400"
| "s3_error_status Cat_NotFound = 404"
| "s3_error_status Cat_Conflict = 409"
| "s3_error_status Cat_Storage = 500"

definition s3_api_error_response :: "'x s3_deps_scheme \<Rightarrow> ApiError \<Rightarrow> HttpResponse" where
  "s3_api_error_response H error =
     \<lparr>rs_status = s3_error_status (err_category error), rs_headers = [(''content-type'', ''application/xml'')],
      rs_body = as_bytes
        (case xml_error_doc H (error_xml_from error) of
           Ok xml \<Rightarrow> xml
         | Err _ \<Rightarrow> ''<Error><Code>internal_error</Code><Message>failed to serialize error</Message></Error>'')\<rparr>"

definition s3_head_headers :: "HeadObjectResponse \<Rightarrow> (string \<times> string) list" where
  "s3_head_headers object_head =
     [(''etag'', quoted (hor_etag object_head)), (''x-hsp-exists'', show_bool (hor_exists object_head)),
      (''x-hsp-deleted'', show_bool (hor_deleted object_head)), (''x-hsp-cid'', hor_cid object_head),
      (''x-hsp-object-cid'', hor_object_cid object_head), (''x-hsp-manifest-cid'', hor_manifest_cid object_head),
      (''x-hsp-integrity-hash'', hor_integrity_hash object_head), (''x-hsp-size-bytes'', show_u64 (hor_size_bytes object_head)),
      (''x-hsp-ciphertext-size-bytes'', show_u64 (hor_ciphertext_size_bytes object_head)),
      (''content-length'', show_u64 (hor_content_length object_head)), (''content-type'', hor_content_type object_head),
      (''last-modified'', show_u64 (hor_last_modified_ms object_head)),
      (''x-hsp-created-at-ms'', show_u64 (hor_last_modified_ms object_head)),
      (''x-hsp-encryption-profile-id'', encryption_profile_str (hor_encryption_profile_id object_head)),
      (''x-hsp-key-policy-id'', key_policy_str (hor_key_policy_id object_head)),
      (''x-hsp-metadata-visibility'', visibility_as_str (hor_metadata_visibility object_head)),
      (''x-hsp-encrypted-client-metadata-redacted'', show_bool (hor_encrypted_client_metadata_redacted object_head))]"

definition s3_head_response :: "'x http_deps_scheme \<Rightarrow> HeadObjectResponse \<Rightarrow> ApiError + HttpResponse" where
  "s3_head_response H object_head = rbnd (empty_response H 200) (insert_headers H (s3_head_headers object_head))"

definition s3_get_headers :: "GetObjectResponse \<Rightarrow> (string \<times> string) list" where
  "s3_get_headers response =
     [(''etag'', quoted (hor_etag (gor_head response))),
      (''content-length'', show_u64 (hor_content_length (gor_head response))),
      (''content-type'', hor_content_type (gor_head response)), (''cache-control'', gor_cache_control response)] @
     (case gor_content_range response of None \<Rightarrow> [] | Some content_range \<Rightarrow> [(''content-range'', content_range)])"

definition s3_get_response :: "'x http_deps_scheme \<Rightarrow> GetObjectResponse \<Rightarrow> ApiError + HttpResponse" where
  "s3_get_response H response =
     rbnd (build_response H s3_http_error (if gor_content_range response \<noteq> None then 206 else 200) []
             (gor_body response))
       (insert_headers H (s3_get_headers response))"

definition etag_response :: "'x http_deps_scheme \<Rightarrow> string \<Rightarrow> ApiError + HttpResponse" where
  "etag_response H etag = rbnd (empty_response H 200) (insert_header H (''etag'', quoted etag))"

section \<open>Reading a request\<close>

record ResolvedRoute =
  rt_bucket :: "string option"
  rt_key :: "string option"

definition some_nonempty :: "string \<Rightarrow> string option" where
  "some_nonempty s = (if s = [] then None else Some s)"

definition resolve_path :: "string \<Rightarrow> ResolvedRoute" where
  "resolve_path uri_path =
     (let path = trim_start_char CHR ''/'' uri_path in
      if path = [] then \<lparr>rt_bucket = None, rt_key = None\<rparr>
      else case split_once CHR ''/'' path of
             Some (bucket, key) \<Rightarrow> \<lparr>rt_bucket = Some bucket, rt_key = some_nonempty key\<rparr>
           | None \<Rightarrow> \<lparr>rt_bucket = Some path, rt_key = None\<rparr>)"

definition resolve_bucket_and_key ::
  "'x http_deps_scheme \<Rightarrow> HeaderMap \<Rightarrow> string \<Rightarrow> string option \<Rightarrow> ApiError + ResolvedRoute" where
  "resolve_bucket_and_key H headers uri_path virtual_host_suffix =
     (case (virtual_host_suffix, header_text H headers ''host'') of
        (Some sfx, Some host) \<Rightarrow>
          if ends_with host sfx then
            Ok \<lparr>rt_bucket = Some (trim_end_char CHR ''.'' (trim_end_str sfx host)),
                rt_key = some_nonempty (trim_start_char CHR ''/'' uri_path)\<rparr>
          else Ok (resolve_path uri_path)
      | _ \<Rightarrow> Ok (resolve_path uri_path))"

definition s3_authenticate_request ::
  "'x http_deps_scheme \<Rightarrow> DistributionService \<Rightarrow> string \<Rightarrow> string \<Rightarrow> string \<Rightarrow> HeaderMap \<Rightarrow> byte list \<Rightarrow> AuthContext svc_op" where
  "s3_authenticate_request H ds method path query headers body =
     (let binding = \<lparr>hrb_method = method, hrb_raw_path = path, hrb_raw_query = query, hrb_headers = headers,
                     hrb_body = body\<rparr> in
      if has_header headers ''x-hsp-capability'' then
        lift_result (authenticate_hsp_capability (dist_code H) ds binding)
      else if has_header headers ''authorization'' \<or> str_contains query ''X-Amz-Signature='' then
        authenticate_sigv4 (dist_code H) ds binding
      else
        throw (api_error Cat_Auth ''missing_auth''
                 ''request must use HSP capability auth, SigV4, or presigned URL auth''))"

definition s3_require_scope :: "AuthContext \<Rightarrow> CapabilityScope \<Rightarrow> ApiError + unit" where
  "s3_require_scope auth scope =
     (if scope \<in> set (cl_ops (ac_claims auth)) then Ok ()
      else Err (api_error Cat_Policy ''missing_required_scope'' (scope_as_str scope @ '' scope is required'')))"

definition s3_required_header :: "'x http_deps_scheme \<Rightarrow> HeaderMap \<Rightarrow> string \<Rightarrow> ApiError + string" where
  "s3_required_header H headers name =
     ok_or (header_text H headers name)
       (api_error Cat_Validation ''missing_required_header'' (''required header `'' @ name @ ''` is missing''))"

definition header_or :: "'x http_deps_scheme \<Rightarrow> HeaderMap \<Rightarrow> string \<Rightarrow> string \<Rightarrow> string" where
  "header_or H headers name dflt = (case header_text H headers name of None \<Rightarrow> dflt | Some v \<Rightarrow> v)"

definition parse_visibility_mode :: "string \<Rightarrow> ApiError + VisibilityMode" where
  "parse_visibility_mode value =
     (if value = ''server_visible'' then Ok ServerVisible
      else if value = ''encrypted_only'' then Ok EncryptedOnly
      else if value = ''split'' then Ok Split
      else Err (api_error Cat_Validation ''invalid_metadata_visibility''
                  ''x-hsp-metadata-visibility must be server_visible, encrypted_only, or split''))"

definition s3_invalid_range :: "string \<Rightarrow> ApiError" where
  "s3_invalid_range message = api_error Cat_Validation ''invalid_range'' message"

definition s3_parse_range :: "'x http_deps_scheme \<Rightarrow> HeaderMap \<Rightarrow> ApiError + RangeSpec option" where
  "s3_parse_range H headers =
     (case header_text H headers ''range'' of
        None \<Rightarrow> Ok None
      | Some header \<Rightarrow>
          rbnd (ok_or (strip_prefix ''bytes='' header)
                  (s3_invalid_range ''Range header must use bytes=start-end syntax'')) (\<lambda>raw.
          rbnd (ok_or (split_once CHR ''-'' raw) (s3_invalid_range ''Range header must include start and end'')) (\<lambda>(start, stop).
          rbnd (ok_or (parse_u64 start) (s3_invalid_range ''Range header is invalid'')) (\<lambda>start.
          rbnd (ok_or (parse_u64 stop) (s3_invalid_range ''Range header is invalid'')) (\<lambda>stop.
          Ok (Some \<lparr>rg_start = start, rg_end = stop\<rparr>))))))"

definition parse_access_profile :: "'x http_deps_scheme \<Rightarrow> HeaderMap \<Rightarrow> ApiError + AccessProfile" where
  "parse_access_profile H headers =
     (let value = header_or H headers ''x-hsp-access-profile'' ''public-ciphertext'' in
      if value = ''public-ciphertext'' then Ok PublicCiphertext
      else if value = ''trusted-edge-v1'' then Ok TrustedEdgeV1
      else Err (api_error Cat_Validation ''invalid_access_profile''
                  ''x-hsp-access-profile must be public-ciphertext or trusted-edge-v1''))"

definition parse_payload_plaintext :: "'x http_deps_scheme \<Rightarrow> HeaderMap \<Rightarrow> bool" where
  "parse_payload_plaintext H headers =
     (case header_text H headers ''x-hsp-payload-mode'' of
        None \<Rightarrow> False
      | Some value \<Rightarrow> eq_ignore_ascii_case value ''plaintext'')"

definition canned_acl_from_str :: "string \<Rightarrow> ApiError + CannedAcl" where
  "canned_acl_from_str value =
     (if value = ''private'' then Ok Acl_Private
      else if value = ''public-read'' then Ok Acl_PublicRead
      else if value = ''authenticated-read'' then Ok Acl_AuthenticatedRead
      else Err (api_error Cat_Validation ''acl_denied''
                  ''supported canned ACL values are private, public-read, authenticated-read''))"

definition parse_xml :: "(string \<Rightarrow> string + 'a) \<Rightarrow> byte list \<Rightarrow> ApiError + 'a" where
  "parse_xml read body = map_err xml_error (read (case str_from_utf8 body of None \<Rightarrow> [] | Some s \<Rightarrow> s))"

definition parse_canned_acl :: "'x s3_deps_scheme \<Rightarrow> HeaderMap \<Rightarrow> byte list \<Rightarrow> ApiError + CannedAcl" where
  "parse_canned_acl H headers body =
     (case header_text H headers ''x-amz-acl'' of
        Some value \<Rightarrow> canned_acl_from_str value
      | None \<Rightarrow>
          if body \<noteq> [] then
            rbnd (parse_xml (from_xml (xml_acl H)) body) (\<lambda>parsed. canned_acl_from_str (acx_canned_acl parsed))
          else Ok Acl_Private)"

definition parse_wrapped_object_key :: "'x http_deps_scheme \<Rightarrow> HeaderMap \<Rightarrow> ApiError + WrappedObjectKeyRecord" where
  "parse_wrapped_object_key H headers =
     rbnd (s3_required_header H headers ''x-hsp-recipient-key-id'') (\<lambda>recipient_key_id.
     rbnd (s3_required_header H headers ''x-hsp-key-wrapping-suite'') (\<lambda>wrapping_suite.
     rbnd (s3_required_header H headers ''x-hsp-wrapped-object-key'') (\<lambda>wrapped_key_b64.
     Ok \<lparr>wk_recipient_key_id = recipient_key_id, wk_wrapping_suite = wrapping_suite,
         wk_wrapped_key_b64 = wrapped_key_b64,
         wk_key_version =
           (case Option.bind (header_text H headers ''x-hsp-wrapped-object-key-version'') parse_u32 of
              None \<Rightarrow> 1 | Some v \<Rightarrow> v),
         wk_encapsulated_key_b64 = header_text H headers ''x-hsp-encapsulated-key''\<rparr>)))"

definition parse_wrapped_object_keys ::
  "'x http_deps_scheme \<Rightarrow> HeaderMap \<Rightarrow> bool \<Rightarrow> ApiError + WrappedObjectKeyRecord list" where
  "parse_wrapped_object_keys H headers payload_plaintext =
     (if has_header headers ''x-hsp-recipient-key-id'' \<and> has_header headers ''x-hsp-wrapped-object-key'' then
        rbnd (parse_wrapped_object_key H headers) (\<lambda>k. Ok [k])
      else if payload_plaintext then Ok []
      else Err (api_error Cat_Validation ''missing_required_header''
                  ''ciphertext mode requires wrapped object key headers''))"

definition server_visible_metadata :: "'x http_deps_scheme \<Rightarrow> HeaderMap \<Rightarrow> metadata" where
  "server_visible_metadata H headers =
     foldl (\<lambda>m (name, value).
        case strip_prefix ''x-amz-meta-'' name of
          None \<Rightarrow> m
        | Some meta_key \<Rightarrow>
            btm_insert meta_key (case header_to_str (dist_code H) value of None \<Rightarrow> [] | Some v \<Rightarrow> v) m) [] headers"

definition parse_put_object_request ::
  "'x http_deps_scheme \<Rightarrow> AuthContext \<Rightarrow> string \<Rightarrow> string \<Rightarrow> HeaderMap \<Rightarrow> ApiError + PutObjectRequest" where
  "parse_put_object_request H auth bucket key headers =
     (let payload_plaintext = parse_payload_plaintext H headers in
      rbnd (parse_access_profile H headers) (\<lambda>access_profile.
      rbnd (s3_required_header H headers ''x-hsp-encryption-profile-id'') (\<lambda>encryption_profile_id.
      rbnd (s3_required_header H headers ''x-hsp-key-policy-id'') (\<lambda>key_policy_id.
      rbnd (s3_required_header H headers ''x-hsp-metadata-visibility'') (\<lambda>visibility.
      rbnd (parse_visibility_mode visibility) (\<lambda>metadata_visibility.
      rbnd (parse_wrapped_object_keys H headers payload_plaintext) (\<lambda>wrapped_object_keys.
      Ok \<lparr>po_tenant_id = cl_tenant_id (ac_claims auth), po_bucket = bucket, po_key = key,
          po_access_profile = access_profile, po_payload_plaintext = payload_plaintext,
          po_content_type = header_or H headers ''content-type'' ''application/octet-stream'',
          po_encryption_profile_id = EncryptionProfileId encryption_profile_id,
          po_key_policy_id = KeyPolicyId key_policy_id, po_metadata_visibility = metadata_visibility,
          po_content_encryption_suite = header_or H headers ''x-hsp-content-encryption-suite'' ''XChaCha20-Poly1305'',
          po_key_wrapping_suite = header_or H headers ''x-hsp-key-wrapping-suite'' ''HPKE/X25519'',
          po_wrapped_object_keys = wrapped_object_keys,
          po_server_visible_metadata = server_visible_metadata H headers, po_encrypted_client_metadata = [],
          po_storage_class = header_or H headers ''x-hsp-storage-class'' ''hot'',
          po_idempotency_key = header_or H headers ''x-hsp-idempotency-key'' ''put-object''\<rparr>)))))))"

definition parse_create_multipart_request ::
  "'x http_deps_scheme \<Rightarrow> AuthContext \<Rightarrow> string \<Rightarrow> string \<Rightarrow> HeaderMap \<Rightarrow> ApiError + CreateMultipartUploadRequest" where
  "parse_create_multipart_request H auth bucket key headers =
     (let payload_plaintext = parse_payload_plaintext H headers in
      rbnd (parse_access_profile H headers) (\<lambda>access_profile.
      rbnd (s3_required_header H headers ''x-hsp-encryption-profile-id'') (\<lambda>encryption_profile_id.
      rbnd (s3_required_header H headers ''x-hsp-key-policy-id'') (\<lambda>key_policy_id.
      rbnd (s3_required_header H headers ''x-hsp-metadata-visibility'') (\<lambda>visibility.
      rbnd (parse_visibility_mode visibility) (\<lambda>metadata_visibility.
      rbnd (parse_wrapped_object_keys H headers payload_plaintext) (\<lambda>wrapped_object_keys.
      Ok \<lparr>cm_tenant_id = cl_tenant_id (ac_claims auth), cm_bucket = bucket, cm_key = key,
          cm_access_profile = access_profile, cm_payload_plaintext = payload_plaintext,
          cm_content_type = header_or H headers ''content-type'' ''application/octet-stream'',
          cm_encryption_profile_id = EncryptionProfileId encryption_profile_id,
          cm_key_policy_id = KeyPolicyId key_policy_id, cm_metadata_visibility = metadata_visibility,
          cm_content_encryption_suite = header_or H headers ''x-hsp-content-encryption-suite'' ''XChaCha20-Poly1305'',
          cm_key_wrapping_suite = header_or H headers ''x-hsp-key-wrapping-suite'' ''HPKE/X25519'',
          cm_wrapped_object_keys = wrapped_object_keys,
          cm_server_visible_metadata = server_visible_metadata H headers, cm_encrypted_client_metadata = [],
          cm_storage_class = header_or H headers ''x-hsp-storage-class'' ''hot'',
          cm_idempotency_key = header_or H headers ''x-hsp-idempotency-key'' ''multipart''\<rparr>)))))))"

section \<open>Dispatch\<close>

abbreviation tenant_of :: "AuthContext \<Rightarrow> TenantId" where
  "tenant_of auth \<equiv> cl_tenant_id (ac_claims auth)"

definition answer :: "'a svc_op \<Rightarrow> ('a \<Rightarrow> ApiError + HttpResponse) \<Rightarrow> HttpResponse svc_op" where
  "answer m response = bnd m (\<lambda>v. lift_result (response v))"

definition s3_delete_request ::
  "'x http_deps_scheme \<Rightarrow> AuthContext \<Rightarrow> string \<Rightarrow> string \<Rightarrow> DeleteObjectRequest" where
  "s3_delete_request H auth bucket key =
     \<lparr>dor_tenant_id = tenant_of auth, dor_bucket = bucket, dor_key = key,
      dor_idempotency_key = ''delete-'' @ cid_from_bytes (alpha_code (dist_code H)) (as_bytes key)\<rparr>"

text \<open>The loop of a bulk delete ignores what each \<open>delete_object\<close> returns.\<close>

primrec delete_objects ::
  "'x http_deps_scheme \<Rightarrow> DistributionService \<Rightarrow> AuthContext \<Rightarrow> string \<Rightarrow> DeleteObjectXml list \<Rightarrow> unit svc_op" where
  "delete_objects H ds auth bucket [] = ret ()"
| "delete_objects H ds auth bucket (object # objects) =
     bnd (discard (delete_object (dist_code H) ds auth (s3_delete_request H auth bucket (dox_key object)))) (\<lambda>_.
     delete_objects H ds auth bucket objects)"

definition s3_list_request :: "AuthContext \<Rightarrow> string \<Rightarrow> (string, string) btm \<Rightarrow> ListObjectsRequest" where
  "s3_list_request auth bucket params =
     \<lparr>lo_tenant_id = tenant_of auth, lo_bucket = bucket, lo_prefix = btm_get params ''prefix'',
      lo_continuation_token = btm_get params ''continuation-token'',
      lo_limit = Option.bind (btm_get params ''max-keys'') parse_u32\<rparr>"

definition s3_dispatch_bucket_config ::
  "'x s3_deps_scheme \<Rightarrow> DistributionService \<Rightarrow> AuthContext \<Rightarrow> string \<Rightarrow> HeaderMap \<Rightarrow> (string, string) btm \<Rightarrow> string
   \<Rightarrow> byte list \<Rightarrow> HttpResponse svc_op option" where
  "s3_dispatch_bucket_config H ds auth method headers params bucket body =
     (let D = dist_code H; tenant = tenant_of auth; has = (\<lambda>k. btm_get params k \<noteq> None) in
      if method = ''GET'' \<and> has ''acl'' then
        Some (answer (get_bucket_acl D ds auth tenant bucket) (\<lambda>acl.
                xml_response H 200 (to_xml (xml_acl H) (access_control_policy_from (ba_acl acl)))))
      else if method = ''PUT'' \<and> has ''acl'' then
        Some (bnd (lift_result (parse_canned_acl H headers body)) (\<lambda>acl.
              answer (put_bucket_acl D ds auth tenant bucket acl) (\<lambda>_. empty_response H 200)))
      else if method = ''GET'' \<and> has ''lifecycle'' then
        Some (answer (get_lifecycle_config D ds auth tenant bucket) (\<lambda>lifecycle.
                xml_response H 200 (to_xml (xml_lifecycle H) (lifecycle_configuration_from lifecycle))))
      else if method = ''PUT'' \<and> has ''lifecycle'' then
        Some (bnd (lift_result (parse_xml (from_xml (xml_lifecycle H)) body)) (\<lambda>parsed.
              answer (put_lifecycle_config D ds auth (lifecycle_config_from_xml (alpha_code D) tenant bucket parsed))
                (\<lambda>_. empty_response H 200)))
      else if method = ''DELETE'' \<and> has ''lifecycle'' then
        Some (answer (delete_lifecycle_config D ds auth tenant bucket) (\<lambda>_. empty_response H 204))
      else if method = ''GET'' \<and> has ''website'' then
        Some (answer (get_website_config D ds auth tenant bucket) (\<lambda>website.
                xml_response H 200 (to_xml (xml_website H) (website_configuration_from website))))
      else if method = ''PUT'' \<and> has ''website'' then
        Some (bnd (lift_result (parse_xml (from_xml (xml_website H)) body)) (\<lambda>parsed.
              answer (put_website_config D ds auth (website_config_from_xml tenant bucket parsed))
                (\<lambda>_. empty_response H 200)))
      else if method = ''DELETE'' \<and> has ''website'' then
        Some (answer (delete_website_config D ds auth tenant bucket) (\<lambda>_. empty_response H 204))
      else if method = ''GET'' \<and> has ''replication-status'' then
        Some (answer (get_replication_status D ds auth tenant bucket) (\<lambda>status.
                xml_response H 200 (xml_replication_status H (replication_status_from status))))
      else if method = ''POST'' \<and> has ''replication-run'' then
        Some (answer (run_replication_once D ds auth tenant bucket) (\<lambda>status.
                xml_response H 200 (xml_replication_status H (replication_status_from status))))
      else if method = ''GET'' \<and> has ''replication'' then
        Some (answer (get_replication_config D ds auth tenant bucket) (\<lambda>config.
                xml_response H 200 (to_xml (xml_replication H) (replication_configuration_from config))))
      else if method = ''PUT'' \<and> has ''replication'' then
        Some (bnd (lift_result (parse_xml (from_xml (xml_replication H)) body)) (\<lambda>parsed.
              answer (put_replication_config D ds auth (replication_config_from_xml tenant bucket parsed))
                (\<lambda>_. empty_response H 200)))
      else if method = ''DELETE'' \<and> has ''replication'' then
        Some (answer (delete_replication_config D ds auth tenant bucket) (\<lambda>_. empty_response H 204))
      else None)"

definition route_not_found :: ApiError where
  "route_not_found = api_error Cat_NotFound ''route_not_found'' ''S3 route not found''"

definition s3_dispatch_bucket ::
  "'x s3_deps_scheme \<Rightarrow> DistributionService \<Rightarrow> AuthContext \<Rightarrow> string \<Rightarrow> HeaderMap \<Rightarrow> (string, string) btm \<Rightarrow> string
   \<Rightarrow> byte list \<Rightarrow> HttpResponse svc_op" where
  "s3_dispatch_bucket H ds auth method headers params bucket body =
     (let D = dist_code H; tenant = tenant_of auth in
      case s3_dispatch_bucket_config H ds auth method headers params bucket body of
        Some handler \<Rightarrow> handler
      | None \<Rightarrow>
          if method = ''PUT'' then
            answer (create_bucket D ds auth tenant bucket) (\<lambda>_. empty_response H 200)
          else if method = ''HEAD'' then
            answer (head_bucket D ds auth tenant bucket) (\<lambda>_. empty_response H 200)
          else if method = ''DELETE'' then
            answer (delete_bucket D ds auth tenant bucket) (\<lambda>_. empty_response H 204)
          else if method = ''GET'' \<and> btm_get params ''list-type'' = Some ''2'' then
            answer (list_objects D ds auth (s3_list_request auth bucket params)) (\<lambda>listed.
              xml_response H 200 (xml_list_bucket H (list_bucket_result_from listed)))
          else if method = ''POST'' \<and> btm_get params ''delete'' \<noteq> None then
            bnd (lift_result (parse_xml (from_xml (xml_delete H)) body)) (\<lambda>delete.
            bnd (delete_objects H ds auth bucket (dosx_objects delete)) (\<lambda>_.
            lift_result (xml_response H 200 (xml_delete_result H \<lparr>drx_deleted = dosx_objects delete\<rparr>))))
          else throw route_not_found)"

definition s3_dispatch_object_config ::
  "'x s3_deps_scheme \<Rightarrow> DistributionService \<Rightarrow> AuthContext \<Rightarrow> string \<Rightarrow> HeaderMap \<Rightarrow> (string, string) btm \<Rightarrow> string
   \<Rightarrow> string \<Rightarrow> byte list \<Rightarrow> HttpResponse svc_op option" where
  "s3_dispatch_object_config H ds auth method headers params bucket key body =
     (let D = dist_code H; tenant = tenant_of auth; has = (\<lambda>k. btm_get params k \<noteq> None) in
      if method = ''GET'' \<and> has ''acl'' then
        Some (answer (get_object_acl D ds auth tenant bucket key) (\<lambda>acl.
                xml_response H 200 (to_xml (xml_acl H) (access_control_policy_from (oa_acl acl)))))
      else if method = ''PUT'' \<and> has ''acl'' then
        Some (bnd (lift_result (parse_canned_acl H headers body)) (\<lambda>acl.
              answer (put_object_acl D ds auth tenant bucket key acl) (\<lambda>_. empty_response H 200)))
      else if method = ''GET'' \<and> has ''retention'' then
        Some (answer (get_object_lock D ds auth tenant bucket key) (\<lambda>lock.
                xml_response H 200 (to_xml (xml_retention H) (object_retention_from lock))))
      else if method = ''PUT'' \<and> has ''retention'' then
        Some (bnd (lift_result (parse_xml (from_xml (xml_retention H)) body)) (\<lambda>retention.
              answer (put_object_retention D ds auth tenant bucket key (orx_retain_until_ms retention) (orx_mode retention))
                (\<lambda>_. empty_response H 200)))
      else if method = ''GET'' \<and> has ''legal-hold'' then
        Some (answer (get_object_lock D ds auth tenant bucket key) (\<lambda>lock.
                xml_response H 200 (to_xml (xml_legal_hold H) (legal_hold_from (ol_legal_hold lock)))))
      else if method = ''PUT'' \<and> has ''legal-hold'' then
        Some (bnd (lift_result (parse_xml (from_xml (xml_legal_hold H)) body)) (\<lambda>legal_hold.
              answer (put_object_legal_hold D ds auth tenant bucket key
                        (eq_ignore_ascii_case (lhx_status legal_hold) ''on''))
                (\<lambda>_. empty_response H 200)))
      else None)"

definition s3_copy_object ::
  "'x s3_deps_scheme \<Rightarrow> DistributionService \<Rightarrow> AuthContext \<Rightarrow> HeaderMap \<Rightarrow> string \<Rightarrow> string \<Rightarrow> HttpResponse svc_op" where
  "s3_copy_object H ds auth headers bucket key =
     (let source = trim_start_char CHR ''/'' (header_or H headers ''x-amz-copy-source'' []) in
      bnd (lift_result (ok_or (split_once CHR ''/'' source)
             (api_error Cat_Validation ''invalid_copy_source''
                ''x-amz-copy-source must use /bucket/key syntax''))) (\<lambda>(source_bucket, source_key).
      answer (copy_object (dist_code H) ds auth
                \<lparr>cyo_tenant_id = tenant_of auth, cyo_source_bucket = source_bucket, cyo_source_key = source_key,
                 cyo_destination_bucket = bucket, cyo_destination_key = key,
                 cyo_idempotency_key = ''copy-'' @ cid_from_bytes (alpha_code (dist_code H)) (as_bytes source)\<rparr>)
        (\<lambda>copied. xml_response H 200 (xml_copy_result H (copy_object_result_from copied)))))"

definition s3_upload_part ::
  "'x s3_deps_scheme \<Rightarrow> DistributionService \<Rightarrow> AuthContext \<Rightarrow> (string, string) btm \<Rightarrow> byte list \<Rightarrow> HttpResponse svc_op" where
  "s3_upload_part H ds auth params body =
     (let upload_id = (case btm_get params ''uploadId'' of None \<Rightarrow> [] | Some v \<Rightarrow> v) in
      bnd (lift_result (ok_or (Option.bind (btm_get params ''partNumber'') parse_u32)
             (api_error Cat_Validation ''invalid_part_number'' ''partNumber must be present for UploadPart''))) (\<lambda>part_number.
      answer (upload_part (dist_code H) ds auth
                \<lparr>upq_tenant_id = tenant_of auth, upq_upload_id = upload_id, upq_part_number = part_number\<rparr> body)
        (\<lambda>uploaded. etag_response H (upp_etag uploaded))))"

definition s3_complete_multipart ::
  "'x s3_deps_scheme \<Rightarrow> DistributionService \<Rightarrow> AuthContext \<Rightarrow> (string, string) btm \<Rightarrow> byte list \<Rightarrow> HttpResponse svc_op" where
  "s3_complete_multipart H ds auth params body =
     (let upload_id = (case btm_get params ''uploadId'' of None \<Rightarrow> [] | Some v \<Rightarrow> v) in
      bnd (lift_result (parse_xml (xml_complete H) body)) (\<lambda>completed.
      answer (complete_multipart_upload (dist_code H) ds auth
                \<lparr>cmu_tenant_id = tenant_of auth, cmu_upload_id = upload_id,
                 cmu_parts = map completed_part_from (cux_parts completed)\<rparr>)
        (\<lambda>response. xml_response H 200 (xml_complete_result H (complete_multipart_result_from response)))))"

definition s3_get_request ::
  "'x http_deps_scheme \<Rightarrow> AuthContext \<Rightarrow> HeaderMap \<Rightarrow> (string, string) btm \<Rightarrow> string \<Rightarrow> string \<Rightarrow> ApiError + GetObjectRequest" where
  "s3_get_request H auth headers params bucket key =
     rbnd (parse_access_profile H headers) (\<lambda>access_profile.
     rbnd (s3_parse_range H headers) (\<lambda>rng.
     Ok \<lparr>go_tenant_id = tenant_of auth, go_bucket = Some bucket, go_key = Some key, go_cid = None,
         go_access_profile = access_profile,
         go_prefer_plaintext =
           (case header_text H headers ''x-hsp-prefer-plaintext'' of
              None \<Rightarrow> False | Some value \<Rightarrow> eq_ignore_ascii_case value ''true'') \<or>
           btm_get params ''mode'' = Some ''plaintext'',
         go_range = rng, go_if_match = map_option trim_etag (header_text H headers ''if-match''),
         go_if_none_match = map_option trim_etag (header_text H headers ''if-none-match'')\<rparr>))"

definition s3_dispatch_object ::
  "'x s3_deps_scheme \<Rightarrow> DistributionService \<Rightarrow> AuthContext \<Rightarrow> string \<Rightarrow> HeaderMap \<Rightarrow> (string, string) btm \<Rightarrow> string
   \<Rightarrow> string \<Rightarrow> byte list \<Rightarrow> HttpResponse svc_op" where
  "s3_dispatch_object H ds auth method headers params bucket key body =
     (let D = dist_code H; tenant = tenant_of auth; has = (\<lambda>k. btm_get params k \<noteq> None) in
      case s3_dispatch_object_config H ds auth method headers params bucket key body of
        Some handler \<Rightarrow> handler
      | None \<Rightarrow>
          if method = ''PUT'' \<and> has_header headers ''x-amz-copy-source'' then
            s3_copy_object H ds auth headers bucket key
          else if method = ''POST'' \<and> has ''uploads'' then
            bnd (lift_result (parse_create_multipart_request H auth bucket key headers)) (\<lambda>request.
            answer (create_multipart_upload D ds auth request) (\<lambda>created.
              xml_response H 200 (xml_initiate H (initiate_multipart_from created))))
          else if method = ''PUT'' \<and> has ''uploadId'' \<and> has ''partNumber'' then s3_upload_part H ds auth params body
          else if method = ''POST'' \<and> has ''uploadId'' then s3_complete_multipart H ds auth params body
          else if method = ''DELETE'' \<and> has ''uploadId'' then
            answer (abort_multipart_upload D ds auth
                      \<lparr>amu_tenant_id = tenant,
                       amu_upload_id = (case btm_get params ''uploadId'' of None \<Rightarrow> [] | Some v \<Rightarrow> v)\<rparr>)
              (\<lambda>_. empty_response H 204)
          else if method = ''PUT'' then
            bnd (lift_result (parse_put_object_request H auth bucket key headers)) (\<lambda>request.
            answer (put_object D ds auth request body) (\<lambda>response. etag_response H (por_etag response)))
          else if method = ''HEAD'' then
            answer (head_object D ds auth \<lparr>ho_tenant_id = tenant, ho_bucket = bucket, ho_key = key\<rparr>)
              (s3_head_response H)
          else if method = ''GET'' then
            bnd (lift_result (s3_get_request H auth headers params bucket key)) (\<lambda>request.
            answer (get_object D ds auth request) (s3_get_response H))
          else if method = ''DELETE'' then
            answer (delete_object D ds auth (s3_delete_request H auth bucket key)) (\<lambda>_. empty_response H 204)
          else throw route_not_found)"

definition s3_dispatch_request ::
  "'x s3_deps_scheme \<Rightarrow> DistributionService \<Rightarrow> AuthContext \<Rightarrow> string \<Rightarrow> HeaderMap \<Rightarrow> string \<Rightarrow> ResolvedRoute
   \<Rightarrow> byte list \<Rightarrow> HttpResponse svc_op" where
  "s3_dispatch_request H ds auth method headers query route body =
     (let params = query_pairs query in
      case (rt_bucket route, rt_key route) of
        (None, None) \<Rightarrow>
          if method = ''GET'' then
            answer (list_buckets (dist_code H) ds auth (tenant_of auth)) (\<lambda>buckets.
              xml_response H 200 (xml_buckets H (list_all_my_buckets_from buckets)))
          else throw route_not_found
      | (Some bucket, None) \<Rightarrow> s3_dispatch_bucket H ds auth method headers params bucket body
      | (Some bucket, Some key) \<Rightarrow> s3_dispatch_object H ds auth method headers params bucket key body
      | (None, Some _) \<Rightarrow> throw route_not_found)"

definition s3_handle :: "'x s3_deps_scheme \<Rightarrow> S3State \<Rightarrow> HttpRequest \<Rightarrow> HttpResponse svc_op" where
  "s3_handle H st request =
     (let method = hq_method request; path = hq_path request; query = query_text request;
          headers = hq_headers request; ds = s3s_service st in
      bnd (lift_result (map_err (api_error Cat_Validation ''invalid_body'')
             (to_bytes H MAX_S3_REQUEST_BODY_BYTES (hq_body request)))) (\<lambda>body.
      let authenticate = s3_authenticate_request H ds method path query headers body in
      if method = ''GET'' \<and> path = ''/metrics'' then
        bnd authenticate (\<lambda>auth.
        bnd (lift_result (s3_require_scope auth Sc_AdminMetricsRead)) (\<lambda>_ s.
          (s3_text_response H 200 ''text/plain; version=0.0.4'' (dist_prometheus_metrics s), s)))
      else if method = ''GET'' \<and> path = ''/v1/observability/logs'' then
        bnd authenticate (\<lambda>auth.
        bnd (lift_result (s3_require_scope auth Sc_AdminAuditRead)) (\<lambda>_ s.
          (s3_json_response H 200 (json_logs H (dist_structured_logs s)), s)))
      else
        bnd (lift_result (resolve_bucket_and_key H headers path (s3s_virtual_host_suffix st))) (\<lambda>resolved.
        bnd authenticate (\<lambda>auth.
        s3_dispatch_request H ds auth method headers query resolved body))))"

definition s3_handle_request :: "'x s3_deps_scheme \<Rightarrow> S3State \<Rightarrow> HttpRequest \<Rightarrow> service \<Rightarrow> http_outcome \<times> service" where
  "s3_handle_request H st request = respond (s3_api_error_response H) (s3_handle H st request)"

end
