(* ===== verification/HSP_Http_Safety.thy ===== *)
theory HSP_Http_Safety
  imports HSP_Dist_Safety HSP_S3_Server HSP_Cdn
begin

text \<open>
  The S3 server and the CDN over the distribution layer: what they do to the store is what its
  operations do for the tenant of the verified credentials.
\<close>

section \<open>Authentication changes no file\<close>

lemma keeps_list_case [keeps_rules]:
  "keeps J m \<Longrightarrow> (\<And>y ys. keeps J (f y ys)) \<Longrightarrow> keeps J (case xs of [] \<Rightarrow> m | y # ys \<Rightarrow> f y ys)"
  by (cases xs) simp_all

lemma keeps_access_keys [keeps_rules]:
  "keeps J (access_keys_of D ds dirs)" "keeps J (list_all_access_keys D ds)" "keeps J (sigv4_access_key D ds key_id)"
proof -
  show keys: "keeps J (access_keys_of D ds dirs)" for dirs
    by (induction dirs) (auto intro!: keeps_rules)
  show all: "keeps J (list_all_access_keys D ds)"
    unfolding list_all_access_keys_def by (intro keeps_rules keys)
  show "keeps J (sigv4_access_key D ds key_id)"
    unfolding sigv4_access_key_def by (intro keeps_rules all)
qed

lemma keeps_verify [keeps_rules]:
  "keeps J (verify_presigned_sigv4 D ds binding)" "keeps J (authenticate_header_sigv4 D ds binding)"
  "keeps J (decode_edge_token D ds token)" "keeps J (authenticate_edge_token D ds token method)"
  "keeps J (edge_claims H ds headers query)"
  unfolding verify_presigned_sigv4_def authenticate_header_sigv4_def ensure_sigv4_time_window_def sigv4_auth_context_def
    decode_edge_token_def authenticate_edge_token_def edge_claims_def
  by (intro keeps_rules)+

text \<open>
  The tenant whose access key signed a request. A presigned URL is also written to the audit store of
  that tenant, after its signature was verified.
\<close>

definition sigv4_tenant :: "dist_deps \<Rightarrow> DistributionService \<Rightarrow> HttpRequestBinding \<Rightarrow> service \<Rightarrow> TenantId option" where
  "sigv4_tenant D ds binding s =
     (if str_find ''X-Amz-Signature='' (hrb_raw_query binding) \<noteq> None then
        case fst (verify_presigned_sigv4 D ds binding s) of Ok (rec, _) \<Rightarrow> Some (sk_tenant_id rec) | Err _ \<Rightarrow> None
      else case fst (authenticate_header_sigv4 D ds binding s) of Ok auth \<Rightarrow> Some (tenant_of auth) | Err _ \<Rightarrow> None)"

lemma sigv4_auth_context_tenant: "sigv4_auth_context rec m sig s = (Ok auth, s') \<Longrightarrow> tenant_of auth = sk_tenant_id rec"
  by (auto simp: sigv4_auth_context_def bnd_def ret_def now_ms_def)

lemma authenticate_sigv4_tenant:
  "authenticate_sigv4 D ds binding s = (Ok auth, s') \<Longrightarrow> sigv4_tenant D ds binding s = Some (tenant_of auth)"
  by (auto simp: authenticate_sigv4_def sigv4_tenant_def authenticate_presigned_sigv4_def Let_def bnd_def
      split: prod.splits sum.splits if_splits dest: sigv4_auth_context_tenant)

section \<open>The S3 server\<close>

lemma keeps_answer [keeps_rules]: "keeps J m \<Longrightarrow> keeps J (answer m f)"
  unfolding answer_def by (intro keeps_rules)

context dist_invariant
begin

lemma keeps_delete_objects:
  assumes "tenant_of auth \<in> T" "dist_code H = D"
  shows "keeps J (delete_objects H ds auth b objects)"
proof -
  have "keeps J (delete_object (dist_code H) ds auth (s3_delete_request H auth b k))" for k
    unfolding assms(2) by (rule keeps_delete_object) (simp add: s3_delete_request_def assms(1))
  then show ?thesis by (induction objects) (auto intro!: keeps_rules)
qed

lemma keeps_s3_bucket_config:
  assumes "tenant_of auth \<in> T" "dist_code H = D" "s3_dispatch_bucket_config H ds auth method headers params b body = Some h"
  shows "keeps J h"
  using assms(3) unfolding s3_dispatch_bucket_config_def assms(2) Let_def
  by (auto split: if_splits intro!: keeps_rules keeps_requests
      simp: assms(1) lifecycle_config_from_xml_def website_config_from_xml_def replication_config_from_xml_def)

lemma keeps_s3_object_config:
  assumes "tenant_of auth \<in> T" "dist_code H = D" "s3_dispatch_object_config H ds auth method headers params b k body = Some h"
  shows "keeps J h"
  using assms(3) unfolding s3_dispatch_object_config_def assms(2) Let_def
  by (auto split: if_splits intro!: keeps_rules keeps_requests simp: assms(1))

lemma keeps_s3_bucket:
  assumes "tenant_of auth \<in> T" "dist_code H = D"
  shows "keeps J (s3_dispatch_bucket H ds auth method headers params b body)"
proof (cases "s3_dispatch_bucket_config H ds auth method headers params b body")
  case None
  show ?thesis
    unfolding s3_dispatch_bucket_def Let_def None option.case
    by (intro keeps_rules keeps_delete_objects assms; (simp add: assms(2))?; intro keeps_requests;
        simp add: assms s3_list_request_def)
next
  case (Some h)
  then show ?thesis
    unfolding s3_dispatch_bucket_def Let_def by (simp add: keeps_s3_bucket_config [OF assms Some])
qed

lemma keeps_s3_object:
  assumes "tenant_of auth \<in> T" "dist_code H = D"
  shows "keeps J (s3_dispatch_object H ds auth method headers params b k body)"
proof (cases "s3_dispatch_object_config H ds auth method headers params b k body")
  case None
  have put: "po_tenant_id r = tenant_of auth" if "parse_put_object_request H auth b k headers = Ok r" for r
    using that by (auto simp: parse_put_object_request_def Let_def rbnd_def split: sum.splits)
  have create: "cm_tenant_id r = tenant_of auth" if "parse_create_multipart_request H auth b k headers = Ok r" for r
    using that by (auto simp: parse_create_multipart_request_def Let_def rbnd_def split: sum.splits)
  have get: "go_tenant_id r = tenant_of auth" if "s3_get_request H auth headers params b k = Ok r" for r
    using that by (auto simp: s3_get_request_def rbnd_def split: sum.splits)
  show ?thesis
    unfolding s3_dispatch_object_def s3_copy_object_def s3_upload_part_def s3_complete_multipart_def s3_delete_request_def
      Let_def None option.case
    by (rule keeps_lift_bnd keeps_if keeps_answer keeps_bnd keeps_prod keeps_basic keeps_requests
        | simp add: assms put create get)+
next
  case (Some h)
  then show ?thesis
    unfolding s3_dispatch_object_def Let_def by (simp add: keeps_s3_object_config [OF assms Some])
qed

lemma keeps_s3_dispatch:
  assumes "tenant_of auth \<in> T" "dist_code H = D"
  shows "keeps J (s3_dispatch_request H ds auth method headers query route body)"
  unfolding s3_dispatch_request_def Let_def
  by (auto split: option.splits intro!: keeps_rules keeps_s3_bucket keeps_s3_object keeps_requests simp: assms)

lemma authenticate_sigv4_kept:
  assumes "authenticate_sigv4 D ds binding s = (r, s')" "J (fate s) (w_files s)"
    and "\<And>t. sigv4_tenant D ds binding s = Some t \<Longrightarrow> t \<in> T"
  shows "J (fate s') (w_files s')"
proof (cases "str_find ''X-Amz-Signature='' (hrb_raw_query binding)")
  case None
  then show ?thesis
    using assms(1) kept_after [OF keeps_verify(2) _ assms(2)] by (simp add: authenticate_sigv4_def)
next
  case (Some i)
  obtain v s1 where v: "verify_presigned_sigv4 D ds binding s = (v, s1)" by fastforce
  have s1: "J (fate s1) (w_files s1)" by (rule kept_after [OF keeps_verify(1) v assms(2)])
  show ?thesis
  proof (cases v)
    case (Inl e)
    then show ?thesis using assms(1) Some v s1 by (simp add: authenticate_sigv4_def authenticate_presigned_sigv4_def bnd_def)
  next
    case (Inr x)
    obtain rec sig ex where x: "x = (rec, sig, ex)" by (cases x)
    have "sk_tenant_id rec \<in> T" using assms(3) Some v Inr x by (simp add: sigv4_tenant_def)
    then have "keeps J (dist_write_json D ds c (sk_tenant_id rec) PRESIGN_AUDIT_STORE key val)" for c key and val :: PresignAuditRecord
      by (rule keeps_dist_kind) (simp_all add: dist_store_kinds_def dist_stores)
    then have rest: "keeps J (let token_id = tid in bnd now_ms (\<lambda>n. bnd (dist_write_json D ds (json_presign_audit D)
        (sk_tenant_id rec) PRESIGN_AUDIT_STORE token_id (audit token_id n)) (\<lambda>_.
        sigv4_auth_context rec (hrb_method binding) sig)))" for tid audit
      unfolding sigv4_auth_context_def by (intro keeps_rules)
    show ?thesis
      using assms(1) Some v
      unfolding authenticate_sigv4_def authenticate_presigned_sigv4_def bnd_def [of "verify_presigned_sigv4 D ds binding"]
        Inr x
      by (simp, elim kept_after [OF rest _ s1])
  qed
qed

end

text \<open>The tenant that the credentials of a request belong to, if they verify.\<close>

definition request_binding :: "HttpRequest \<Rightarrow> byte list \<Rightarrow> HttpRequestBinding" where
  "request_binding request body =
     \<lparr>hrb_method = hq_method request, hrb_raw_path = hq_path request, hrb_raw_query = query_text request,
      hrb_headers = hq_headers request, hrb_body = body\<rparr>"

definition ok_tenant :: "ApiError + AuthContext \<Rightarrow> TenantId option" where
  "ok_tenant r = (case r of Ok auth \<Rightarrow> Some (tenant_of auth) | Err _ \<Rightarrow> None)"

definition signed_tenant :: "'x http_deps_scheme \<Rightarrow> DistributionService \<Rightarrow> HttpRequest \<Rightarrow> byte list \<Rightarrow> service \<Rightarrow> TenantId option" where
  "signed_tenant H ds request body s =
     (if has_header (hq_headers request) ''x-hsp-capability'' then
        ok_tenant (authenticate_hsp_capability (dist_code H) ds (request_binding request body))
      else if has_header (hq_headers request) ''authorization'' \<or> str_contains (query_text request) ''X-Amz-Signature='' then
        sigv4_tenant (dist_code H) ds (request_binding request body) s
      else None)"

definition s3_tenant :: "'x http_deps_scheme \<Rightarrow> S3State \<Rightarrow> HttpRequest \<Rightarrow> service \<Rightarrow> TenantId option" where
  "s3_tenant H st request s =
     (case to_bytes H MAX_S3_REQUEST_BODY_BYTES (hq_body request) of
        Err _ \<Rightarrow> None
      | Ok body \<Rightarrow> signed_tenant H (s3s_service st) request body s)"

definition cdn_tenant :: "'x http_deps_scheme \<Rightarrow> CdnState \<Rightarrow> HttpRequest \<Rightarrow> service \<Rightarrow> TenantId option" where
  "cdn_tenant H st request s =
     (case to_bytes H MAX_CDN_REQUEST_BODY_BYTES (hq_body request) of
        Err _ \<Rightarrow> None
      | Ok body \<Rightarrow>
          (case edge_token_of H (hq_headers request) (query_text request) of
             Some token \<Rightarrow>
               ok_tenant (fst (authenticate_edge_token (dist_code H) (cst_service st) token (hq_method request) s))
           | None \<Rightarrow> signed_tenant H (cst_service st) request body s))"

lemma resolve_total: "\<exists>route. resolve_bucket_and_key H headers path sfx = Ok route"
  by (simp add: resolve_bucket_and_key_def split: option.split)

lemma map_err_of_Ok: "map_err f (Ok x) = Ok x"
  by simp

lemma bnd_lift_Ok: "bnd (lift_result (Ok x)) f = f x"
  by (simp add: bnd_def lift_result_def fun_eq_iff)

lemma if_goal: "(if b then m else n) s = r \<Longrightarrow> (b \<Longrightarrow> m s = r \<Longrightarrow> P) \<Longrightarrow> (\<not> b \<Longrightarrow> n s = r \<Longrightarrow> P) \<Longrightarrow> P"
  by (simp split: if_splits)

context dist_invariant
begin

lemma s3_authenticated:
  assumes "s3_authenticate_request H ds (hq_method request) (hq_path request) (query_text request) (hq_headers request) body s = (r, s')"
    and "dist_code H = D" "J (fate s) (w_files s)" "\<And>t. signed_tenant H ds request body s = Some t \<Longrightarrow> t \<in> T"
  shows "J (fate s') (w_files s') \<and> (\<forall>auth. r = Ok auth \<longrightarrow> tenant_of auth \<in> T)"
  using assms(1,3,4)
  by (auto simp: s3_authenticate_request_def signed_tenant_def request_binding_def [symmetric] assms(2) Let_def ok_tenant_def
      lift_result_def throw_def split: if_splits sum.splits
      dest: authenticate_sigv4_tenant authenticate_sigv4_kept)

lemma cdn_authenticated:
  assumes "cdn_authenticate_request H ds (hq_method request) (hq_path request) (query_text request) (hq_headers request) body s = (r, s')"
    and "dist_code H = D" "J (fate s) (w_files s)" "cst_service st = ds"
    and "to_bytes H MAX_CDN_REQUEST_BODY_BYTES (hq_body request) = Ok body"
    and "\<And>t. cdn_tenant H st request s = Some t \<Longrightarrow> t \<in> T"
  shows "J (fate s') (w_files s') \<and> (\<forall>auth. r = Ok auth \<longrightarrow> tenant_of auth \<in> T)"
proof (cases "edge_token_of H (hq_headers request) (query_text request)")
  case None
  then have "s3_authenticate_request H ds (hq_method request) (hq_path request) (query_text request) (hq_headers request) body s = (r', s')
    \<and> (\<forall>auth. r = Ok auth \<longrightarrow> r' = Ok auth)" if "r' = (if r = Err (api_error Cat_Auth ''missing_auth''
                     ''CDN requests require edge token, HSP capability auth, or SigV4 auth'') then fst (s3_authenticate_request H ds (hq_method request) (hq_path request) (query_text request) (hq_headers request) body s) else r)" for r'
    using assms(1) that by (auto simp: cdn_authenticate_request_def s3_authenticate_request_def Let_def throw_def split: if_splits)
  then show ?thesis
    using s3_authenticated [OF _ assms(2,3), of request body] assms(4-6) None by (auto simp: cdn_tenant_def)
next
  case (Some token)
  then show ?thesis
    using assms(1,3,5,6) kept_after [OF keeps_verify(4) _ assms(3)]
    by (fastforce simp: cdn_authenticate_request_def cdn_tenant_def ok_tenant_def assms(2,4) Let_def split: sum.splits)
qed

lemma after_authentication:
  assumes "bnd m f s = (r, s')" "\<And>ra s1. m s = (ra, s1) \<Longrightarrow> J (fate s1) (w_files s1) \<and> (\<forall>auth. ra = Ok auth \<longrightarrow> tenant_of auth \<in> T)"
    and "\<And>auth. tenant_of auth \<in> T \<Longrightarrow> keeps J (f auth)"
  shows "J (fate s') (w_files s')"
proof (cases "m s")
  case (Pair ra s1)
  then show ?thesis
    using assms(1) assms(2) [OF Pair] kept_after [OF assms(3)] by (cases ra) (auto simp: bnd_def)
qed

lemma s3_handle_kept:
  assumes "s3_handle H st request s = (r, s')" "dist_code H = D" "s3s_service st = ds" "J (fate s) (w_files s)"
    and "\<And>t. s3_tenant H st request s = Some t \<Longrightarrow> t \<in> T"
  shows "J (fate s') (w_files s')"
proof (cases "to_bytes H MAX_S3_REQUEST_BODY_BYTES (hq_body request)")
  case (Inl e)
  then show ?thesis using assms(1,4) by (simp add: s3_handle_def Let_def bnd_def lift_result_def map_err_def)
next
  case (Inr body)
  let ?m = "s3_authenticate_request H ds (hq_method request) (hq_path request) (query_text request) (hq_headers request) body"
  note auth = s3_authenticated [OF _ assms(2,4) assms(5) [unfolded s3_tenant_def], of request body, unfolded Inr assms(3), simplified]
  obtain route where route: "resolve_bucket_and_key H (hq_headers request) (hq_path request) (s3s_virtual_host_suffix st) = Ok route"
    using resolve_total by blast
  have final: "J (fate s') (w_files s')" if "bnd ?m f s = (r, s')" "\<And>auth. tenant_of auth \<in> T \<Longrightarrow> keeps J (f auth)" for f
    by (rule after_authentication [OF that(1) auth that(2)])
  have show_state: "keeps J (\<lambda>s. (g s, s))" for g :: "service \<Rightarrow> ApiError + HttpResponse"
    by (rule keepsI) simp
  show ?thesis
    using assms(1) unfolding s3_handle_def Let_def assms(3) Inr map_err_of_Ok bnd_lift_Ok route
    by (elim if_goal; elim final) (intro keeps_rules show_state keeps_s3_dispatch assms(2); assumption?)+
qed

end

section \<open>The CDN\<close>

abbreviation over_service :: "disk_prop \<Rightarrow> cdn_world \<Rightarrow> bool" where
  "over_service J w \<equiv> J (fate (cw_service w)) (w_files (cw_service w))"

lemma on_service_preserves: "keeps J m \<Longrightarrow> preserves (over_service J) (on_service m)"
  unfolding keeps_def preserves_def on_service_def by (simp split: prod.split) (metis snd_conv)

lemma cache_preserves:
  "preserves (over_service J) (cache_insert k e)" "preserves (over_service J) (cache_lookup k)"
  by (simp_all add: preserves_def cache_insert_def cache_lookup_def)

lemma show_state: "preserves I (\<lambda>w. (g w, w))"
  by (simp add: preserves_def)

context dist_invariant
begin

lemma cdn_dispatch_preserves:
  assumes "tenant_of auth \<in> T" "dist_code H = D" "cst_service st = ds"
  shows "preserves (over_service J) (cdn_dispatch_request H st auth claims method headers path query)"
proof -
  have "preserves (over_service J) (serve_cached_object H st method ck im hit
      (get_object (dist_code H) (cst_service st) auth (cdn_get_request auth claims bind cid query rng)))" for ck im hit bind cid rng
    unfolding serve_cached_object_def fetch_and_store_def Let_def assms(2,3)
    by (intro preserves_rules on_service_preserves cache_preserves keeps_now_ms keeps_get_object;
        simp add: cdn_get_request_def assms(1))
  then show ?thesis
    unfolding cdn_dispatch_request_def cdn_serve_cid_def cdn_serve_binding_def Let_def
    by (auto split: option.splits prod.splits intro!: preserves_rules)
qed

lemma cdn_handle_kept:
  assumes "cdn_handle H st request w = (r, w')" "dist_code H = D" "cst_service st = ds" "over_service J w"
    and "\<And>t. cdn_tenant H st request (cw_service w) = Some t \<Longrightarrow> t \<in> T"
  shows "over_service J w'"
proof (cases "(hq_method request = ''GET'' \<or> hq_method request = ''HEAD'') \<and> (\<exists>body. to_bytes H MAX_CDN_REQUEST_BODY_BYTES (hq_body request) = Ok body)")
  case False
  then show ?thesis
    using assms(1,4) by (cases "to_bytes H MAX_CDN_REQUEST_BODY_BYTES (hq_body request)")
      (auto simp: cdn_handle_def Let_def bnd_def lift_result_def ensure_def map_err_def throw_def split: if_splits)
next
  case True
  then obtain body where body: "to_bytes H MAX_CDN_REQUEST_BODY_BYTES (hq_body request) = Ok body" by blast
  let ?m = "cdn_authenticate_request H ds (hq_method request) (hq_path request) (query_text request) (hq_headers request) body"
  obtain ra s1 where m: "?m (cw_service w) = (ra, s1)" by fastforce
  have auth: "J (fate s1) (w_files s1) \<and> (\<forall>auth. ra = Ok auth \<longrightarrow> tenant_of auth \<in> T)"
    by (rule cdn_authenticated [OF m assms(2,4,3) body assms(5)])
  have handle: "cdn_handle H st request w = bnd (on_service ?m) (cdn_answer H st request) w"
    using True unfolding cdn_handle_def Let_def assms(3) body map_err_of_Ok bnd_lift_Ok
    by (auto simp: bnd_def [of "ensure True e" for e] ensure_def)
  show ?thesis
  proof (cases ra)
    case (Inr a)
    then have "preserves (over_service J) (cdn_answer H st request a)"
      unfolding cdn_answer_def Let_def using auth
      by (intro preserves_rules show_state on_service_preserves keeps_try_op keeps_verify cdn_dispatch_preserves assms(2,3)) blast
    from preservesD [OF this] show ?thesis
      using assms(1) handle m auth Inr by (simp add: bnd_def on_service_def)
  qed (use assms(1) handle m auth in \<open>auto simp: bnd_def on_service_def\<close>)
qed

end

section \<open>Tenant isolation over HTTP\<close>

text \<open>
  A run of the system without the tenant \<open>t\<close>: requests to the S3 server and to the CDN whose credentials
  do not verify or are those of other tenants, with any content of the cache, and whatever the other
  interfaces serve for other tenants.
\<close>

inductive http_run ::
  "'x s3_deps_scheme \<Rightarrow> S3State \<Rightarrow> 'y cdn_deps_scheme \<Rightarrow> CdnState \<Rightarrow> TenantId \<Rightarrow> service \<Rightarrow> service \<Rightarrow> bool" for H st H' st' t where
  http_start: "http_run H st H' st' t s s"
| http_s3: "http_run H st H' st' t s s1 \<Longrightarrow> s3_tenant H st request s1 \<noteq> Some t \<Longrightarrow>
    s3_handle_request H st request s1 = (out, s2) \<Longrightarrow> http_run H st H' st' t s s2"
| http_cdn: "http_run H st H' st' t s (cw_service w) \<Longrightarrow> cdn_tenant H' st' request (cw_service w) \<noteq> Some t \<Longrightarrow>
    cdn_router H' st' request w = (out, w') \<Longrightarrow> http_run H st H' st' t s (cw_service w')"
| http_other: "http_run H st H' st' t s s1 \<Longrightarrow> dist_run (dist_code H) (s3s_service st) {t'. t' \<noteq> t} s1 s2 \<Longrightarrow>
    http_run H st H' st' t s s2"

context dist_invariant
begin

lemma http_run_kept:
  assumes "http_run H st H' st' t s s'" "T = {t'. t' \<noteq> t}" "dist_code H = D" "dist_code H' = D"
    and "s3s_service st = ds" "cst_service st' = ds" "J (fate s) (w_files s)"
  shows "J (fate s') (w_files s')"
  using assms(1,7)
proof induction
  case (http_s3 s s1 request out s2)
  obtain r where "s3_handle H st request s1 = (r, s2)"
    using http_s3.hyps(3) respond_state [of "s3_api_error_response H" "s3_handle H st request" s1]
    by (metis s3_handle_request_def snd_conv prod.collapse)
  then show ?case
    by (rule s3_handle_kept [OF _ assms(3,5) http_s3.IH]) (use http_s3 assms(2) in auto)
next
  case (http_cdn s w request out w')
  show ?case
  proof (cases "w' = w")
    case False
    then have "cdn_handle_request H' st' request w = (out, w')"
      using http_cdn.hyps(3) by (simp add: cdn_router_def split: if_splits)
    then obtain r where "cdn_handle H' st' request w = (r, w')"
      using respond_state [of "cdn_api_error_response H'" "cdn_handle H' st' request" w]
      by (metis cdn_handle_request_def snd_conv prod.collapse)
    then show ?thesis
      by (rule cdn_handle_kept [OF _ assms(4,6) http_cdn.IH]) (use http_cdn assms(2) in auto)
  qed (use http_cdn in simp)
next
  case (http_other s s1 s2)
  then show ?case using keeps_dist_run [of s1 s2] assms(2,3,5) by simp
qed

end

text \<open>
  C5. Tenants are isolated at the HTTP servers: whatever requests reach the S3 server and the CDN
  whose credentials (a capability with its request proof, a SigV4 signature, a presigned URL or an edge
  token) do not verify or belong to other tenants, interleaved with whatever the other interfaces serve
  for other tenants and with whichever system calls fail, every file in a directory of the tenant stays
  the same. (For a store as in the isolation of the distribution layer.)
\<close>

theorem http_tenant_isolation:
  assumes "dist_laws (dist_code H) (s3s_service st) root kms" "locks_own (dist_code H) (s3s_service st) kms (w_files s)"
    and "plain_kind kind" "dist_code H' = dist_code H" "cst_service st' = s3s_service st"
    and "http_run H st H' st' t s s'"
  shows "w_files s' (tenant_file (alpha_code (dist_code H)) root t kind name) =
    w_files s (tenant_file (alpha_code (dist_code H)) root t kind name)"
  using dist_tenants.http_run_kept [OF assms(6) refl refl assms(4) refl assms(5), of root kms "w_files s"] assms(1-3)
  by (simp add: tenant_kept_def)

end
