(* ===== verification/HSP_Replay.thy ===== *)
theory HSP_Replay
  imports HSP_Safety
begin

text \<open>
  The durable replay log: a mutating request leaves a record under its token identifier, operation
  and subject before it takes effect, and no later request with the same identifier, operation and
  subject is granted as fresh, across any other requests, restarts and I/O failures.
\<close>

lemma store_create_cases:
  assumes "store_create D (Filesystem root) k bytes w = (r, w')"
  shows "r = Ok True \<and> w_files w (path_join root k) = None \<and> w_files w' = (w_files w)(path_join root k \<mapsto> bytes) \<or>
    r \<noteq> Ok True \<and> (r = Ok False \<longrightarrow> w_files w (path_join root k) \<noteq> None) \<and>
      (w_files w (path_join root k) \<noteq> None \<longrightarrow> w_files w' = w_files w)"
proof -
  obtain m w1 where mk: "make_parent (path_join root k) w = (m, w1)" by force
  show ?thesis using assms mk make_parent_files [OF mk]
    by (cases m) (auto simp: fs_defs split: io_outcome.splits if_splits option.splits)
qed

text \<open>Creating a record, under any I/O failures.\<close>

lemma create_encrypted_json_sound:
  assumes fs: "as_store svc = Filesystem root" and laws: "store_laws D" "codec_ok c"
    and cr: "create_encrypted_json D svc c t kind key v s = (r, s')"
  shows "(r = Ok True \<longrightarrow> peek D svc c t kind key (w_files s') = Ok (Some v)) \<and>
    (w_files s (slot D svc t kind key) \<noteq> None \<longrightarrow> r \<noteq> Ok True \<and> w_files s' = w_files s) \<and>
    (r = Ok False \<longrightarrow> w_files s' = w_files s)"
proof (cases "to_vec c v")
  case (Inl e)
  then show ?thesis
    using cr by (auto simp: create_encrypted_json_def bnd_def lift_result_def map_err_def)
next
  case (Inr plaintext)
  obtain x s1 where enc: "local_encrypt_store_payload D (as_kms svc) t kind plaintext s = (x, s1)" by force
  have q: "w_files s1 = w_files s" by (rule quietD(1) [OF local_encrypt_frame [OF enc]])
  show ?thesis
  proof (cases x)
    case (Inl e)
    then show ?thesis
      using cr enc q Inr by (auto simp: create_encrypted_json_def bnd_def lift_result_def map_err_def on_err_def)
  next
    case env: (Inr env)
    show ?thesis
    proof (cases "to_vec (json_envelope D) env")
      case (Inl e)
      then show ?thesis
        using cr enc q Inr env
        by (auto simp: create_encrypted_json_def create_envelope_def bnd_def lift_result_def map_err_def on_err_def)
    next
      case bytes: (Inr bytes)
      have st: "store_create D (Filesystem root) (store_key D t kind key) bytes s1 = (r, s')"
        using cr enc Inr env bytes fs
        by (simp add: create_encrypted_json_def create_envelope_def bnd_def lift_result_def map_err_def on_err_def)
      have slot: "path_join root (store_key D t kind key) = slot D svc t kind key" by (simp add: slot_def fs)
      have "peek D svc c t kind key (w_files s') = Ok (Some v)" if "r = Ok True"
        using store_create_cases [OF st, unfolded slot q] that codec_okD [OF laws(2) Inr]
          encrypted_envelope_peek [OF laws(1) enc [unfolded env] bytes, of "w_files s'" key]
        by (simp add: peek_def map_err_def)
      then show ?thesis using store_create_cases [OF st, unfolded slot q] by auto
    qed
  qed
qed

lemma read_encrypted_json_sound:
  assumes "as_store svc = Filesystem root" "read_encrypted_json D svc c t kind key s = (Ok (Some v), s')"
  shows "peek D svc c t kind key (w_files s) = Ok (Some v)"
proof -
  obtain found s1 where rd: "read_encrypted_bytes D svc t kind key s = (Ok found, s1)"
    and rest: "(case found of None \<Rightarrow> ret None | Some bytes \<Rightarrow>
       lift_result (map_err (api_error Cat_Storage ''json_deserialize_failed'') (rbnd (from_slice c bytes) (\<lambda>v. Ok (Some v))))) s1
       = (Ok (Some v), s')"
    using assms(2) by (auto simp: read_encrypted_json_def bnd_Ok)
  then obtain bs where "found = Some bs" by (cases found) auto
  then show ?thesis
    using rest read_encrypted_bytes_sound [OF assms(1), of D t kind key s bs s1] rd
    by (simp add: peek_def lift_result_def)
qed

lemma peek_Some_slot: "peek D svc c t kind key f = Ok (Some v) \<Longrightarrow> \<exists>bytes. f (slot D svc t kind key) = Some bytes"
  by (cases "f (slot D svc t kind key)") (simp_all add: peek_def peek_bytes_def)

section \<open>Records of the log are never changed\<close>

definition log_entry ::
  "service_deps \<Rightarrow> AlphaService \<Rightarrow> TenantId \<Rightarrow> string \<Rightarrow> byte list \<Rightarrow> disk_prop" where
  "log_entry D svc t key bytes io f \<longleftrightarrow>
     ((\<exists>root. as_store svc = Filesystem root) \<and> store_laws D \<and> codec_ok (json_replay D) \<longrightarrow>
      f (slot D svc t ''replay'' key) = Some bytes)"

lemma log_entry_free:
  assumes "plain_kind kind" "kind \<noteq> ''replay''"
  shows "free_at (log_entry D svc t key bytes) (slot D svc t' kind key')"
proof -
  have "slot D svc t' kind key' \<noteq> slot D svc t ''replay'' key" if "as_store svc = Filesystem root" for root
    by (rule slot_kind_neq [OF that assms(1) _ assms(2)]) simp
  then show ?thesis by (auto simp: free_at_def log_entry_def)
qed

interpretation replay_files: file_invariant D svc UNIV "log_entry D svc t key bytes" for D svc t key bytes
proof
  fix t' kind key'
  assume "kind \<in> set store_kinds" "kind \<notin> set data_kinds"
  then show "free_at (log_entry D svc t key bytes) (slot D svc t' kind key')"
    by (intro log_entry_free store_kinds_plain) (simp_all add: data_kinds_def)
next
  fix t' key' v
  show "keeps (log_entry D svc t key bytes) (create_encrypted_json D svc (json_replay D) t' ''replay'' key' v)"
  proof (cases "slot D svc t' ''replay'' key' = slot D svc t ''replay'' key")
    case True
    show ?thesis
    proof (rule keepsI)
      fix s r s'
      assume cr: "create_encrypted_json D svc (json_replay D) t' ''replay'' key' v s = (r, s')"
        and J: "log_entry D svc t key bytes (fate s) (w_files s)"
      show "log_entry D svc t key bytes (fate s') (w_files s')"
        using create_encrypted_json_sound [OF _ _ _ cr] J True by (auto simp: log_entry_def)
    qed
  next
    case False
    then show ?thesis by (intro keeps_create_encrypted_json) (simp add: free_at_def log_entry_def)
  qed
next
  fix t' bytes'
  show "keeps (log_entry D svc t key bytes) (write_encrypted_bytes D svc t' ''chunks'' (cid_from_bytes D bytes') bytes')"
    by (intro keeps_write_encrypted_bytes log_entry_free) simp_all
qed (intro keeps_bind_apply keeps_unbind_apply log_entry_free; auto simp: namespace_kinds_def)+

section \<open>No second fresh grant\<close>

definition idem_text :: "AuthRequestMeta \<Rightarrow> string" where
  "idem_text meta = (case am_idempotency_key meta of None \<Rightarrow> [] | Some k \<Rightarrow> k)"

text \<open>How a mutation with a token identifier can be granted.\<close>

lemma authorize_mutation_cases:
  assumes ok: "service_authorize D svc auth meta s = (Ok d, s')"
    and mutation: "is_mutation (am_operation meta)" "cl_jti (ac_claims auth) = Some jti"
  defines "key \<equiv> durable_replay_key D (am_tenant_id meta) jti (am_operation meta) (am_subject meta)"
  obtains (created) rec s1 where "w_files s1 = w_files s" "rp_idempotency_key rec = idem_text meta"
      "create_encrypted_json D svc (json_replay D) (am_tenant_id meta) ''replay'' key rec s1 = (Ok True, s')"
  | (repeated) rec s1 s2 existing where "w_files s1 = w_files s"
      "create_encrypted_json D svc (json_replay D) (am_tenant_id meta) ''replay'' key rec s1 = (Ok False, s2)"
      "read_encrypted_json D svc (json_replay D) (am_tenant_id meta) ''replay'' key s2 = (Ok (Some existing), s')"
      "am_idempotency_key meta = Some (rp_idempotency_key existing)" "ad_replay_status d = IdempotentRetry"
proof -
  obtain decision s0 where policy: "policy_authorize auth meta s = (Ok decision, s0)"
    and obs: "observe_durable_replay D svc auth meta decision s0 = (Ok d, s')"
    using ok by (auto simp: service_authorize_def bnd_Ok on_error_def split: prod.splits sum.splits)
  have "keeps (\<lambda>_ f. f = w_files s) (policy_authorize auth meta)" by (rule keeps_rules)
  from keepsD [OF this policy] have files: "w_files s0 = w_files s" by simp
  let ?rec = "\<lambda>now. \<lparr>rp_tenant_id = am_tenant_id meta, rp_jti = jti, rp_operation = operation_as_str (am_operation meta),
      rp_subject = am_subject meta, rp_idempotency_key = idem_text meta, rp_observed_at_ms = now\<rparr>"
  obtain now s1 where now: "now_ms s0 = (Ok now :: ApiError + u64, s1)" "w_files s1 = w_files s"
    by (simp add: now_ms_def files)
  let ?create = "create_encrypted_json D svc (json_replay D) (am_tenant_id meta) ''replay'' key (?rec now) s1"
  obtain b s2 where cr: "?create = (Ok b, s2)"
    and rest: "(if b then ret decision else
          bnd (read_encrypted_json D svc (json_replay D) (am_tenant_id meta) ''replay'' key) (\<lambda>found.
          bnd (lift_result (ok_or found (api_error Cat_Storage ''replay_record_missing''
                 ''replay record disappeared after create conflict''))) (\<lambda>existing.
          if am_idempotency_key meta = Some (rp_idempotency_key existing) then
            ret (decision\<lparr>ad_replay_status := IdempotentRetry\<rparr>)
          else bnd (authorization_denied_api_error D svc meta ReplayDetected) throw))) s2 = (Ok d, s')"
    using obs now mutation
    by (auto simp: observe_durable_replay_def bnd_Ok key_def [symmetric] idem_text_def Let_def)
  show ?thesis
  proof (cases b)
    case True
    then show ?thesis using created [of s1 "?rec now"] now(2) cr rest by simp
  next
    case False
    then obtain existing where "read_encrypted_json D svc (json_replay D) (am_tenant_id meta) ''replay'' key s2 = (Ok (Some existing), s')"
      "am_idempotency_key meta = Some (rp_idempotency_key existing)" "ad_replay_status d = IdempotentRetry"
      using rest by (auto simp: bnd_Ok ok_or_def split: option.splits if_splits)
    then show ?thesis using repeated [OF now(2), of "?rec now" s2 existing] cr False by simp
  qed
qed

lemma authorize_leaves_record:
  assumes fs: "as_store svc = Filesystem root" and laws: "store_laws D" "codec_ok (json_replay D)"
    and ok: "service_authorize D svc auth meta s = (Ok d, s')"
    and mutation: "is_mutation (am_operation meta)" "cl_jti (ac_claims auth) = Some jti"
  defines "key \<equiv> durable_replay_key D (am_tenant_id meta) jti (am_operation meta) (am_subject meta)"
  shows "\<exists>rec. peek D svc (json_replay D) (am_tenant_id meta) ''replay'' key (w_files s') = Ok (Some rec) \<and>
    rp_idempotency_key rec = idem_text meta"
  using ok mutation
proof (cases rule: authorize_mutation_cases)
  case (created rec s1)
  then show ?thesis using create_encrypted_json_sound [OF fs laws created(3)] by (auto simp: key_def)
next
  case (repeated rec s1 s2 existing)
  have "keeps (\<lambda>_ f. f = w_files s2) (read_encrypted_json D svc (json_replay D) (am_tenant_id meta) ''replay'' key)"
    by (rule keeps_rules)
  from keepsD [OF this, folded key_def, OF repeated(3) [folded key_def]] have "w_files s' = w_files s2" by simp
  then show ?thesis
    using read_encrypted_json_sound [OF fs repeated(3)] repeated(4) by (simp add: key_def idem_text_def)
qed

lemma authorize_repeats_record:
  assumes fs: "as_store svc = Filesystem root" and laws: "store_laws D" "codec_ok (json_replay D)"
    and ok: "service_authorize D svc auth meta s = (Ok d, s')"
    and mutation: "is_mutation (am_operation meta)" "cl_jti (ac_claims auth) = Some jti"
    and there: "peek D svc (json_replay D) (am_tenant_id meta) ''replay''
      (durable_replay_key D (am_tenant_id meta) jti (am_operation meta) (am_subject meta)) (w_files s) = Ok (Some rec)"
  shows "ad_replay_status d = IdempotentRetry \<and> am_idempotency_key meta = Some (rp_idempotency_key rec)"
proof -
  let ?key = "durable_replay_key D (am_tenant_id meta) jti (am_operation meta) (am_subject meta)"
  have slot: "w_files s (slot D svc (am_tenant_id meta) ''replay'' ?key) \<noteq> None"
    using peek_Some_slot [OF there] by auto
  show ?thesis
    using ok mutation
  proof (cases rule: authorize_mutation_cases)
    case (created rec s1)
    then show ?thesis using create_encrypted_json_sound [OF fs laws created(3)] slot by simp
  next
    case (repeated rec' s1 s2 existing)
    have "w_files s2 = w_files s"
      using create_encrypted_json_sound [OF fs laws repeated(2)] repeated(1) by simp
    then have "existing = rec"
      using read_encrypted_json_sound [OF fs repeated(3)] there by simp
    then show ?thesis using repeated(4,5) by simp
  qed
qed

text \<open>
  C13. A token identifier authorizes a mutation once, for good. After a mutating request was granted,
  let any requests of any tenants be served and the process be restarted, with whichever system
  calls failing: a later request with the same tenant, token identifier, operation and subject is
  granted only as an idempotent retry, with the idempotency key of the first.
\<close>

theorem durable_replay:
  assumes "as_store svc = Filesystem root" "store_laws D" "codec_ok (json_replay D)"
    and "service_authorize D svc auth meta s = (Ok d, s1)"
    and "is_mutation (am_operation meta)" "cl_jti (ac_claims auth) = Some jti"
    and "w_files s2 = w_files (snd (run_steps (serve D svc) reqs s1))"
    and "service_authorize D svc auth' meta' s2 = (Ok d', s3)"
    and "am_operation meta' = am_operation meta" "cl_jti (ac_claims auth') = Some jti"
      "am_tenant_id meta' = am_tenant_id meta" "am_subject meta' = am_subject meta"
  shows "ad_replay_status d' = IdempotentRetry \<and> am_idempotency_key meta' = Some (idem_text meta)"
proof -
  let ?key = "durable_replay_key D (am_tenant_id meta) jti (am_operation meta) (am_subject meta)"
  let ?slot = "slot D svc (am_tenant_id meta) ''replay'' ?key"
  obtain rec where rec: "peek D svc (json_replay D) (am_tenant_id meta) ''replay'' ?key (w_files s1) = Ok (Some rec)"
      "rp_idempotency_key rec = idem_text meta"
    using authorize_leaves_record [OF assms(1-6)] by blast
  obtain bytes where bytes: "w_files s1 ?slot = Some bytes"
    using peek_Some_slot [OF rec(1)] by blast
  then have "log_entry D svc (am_tenant_id meta) ?key bytes (fate s1) (w_files s1)" by (simp add: log_entry_def)
  from replay_files.keeps_run [OF _ this, of reqs] have "w_files s2 ?slot = Some bytes"
    using assms(1-3,7) by (simp add: log_entry_def)
  then have "peek D svc (json_replay D) (am_tenant_id meta) ''replay'' ?key (w_files s2) = Ok (Some rec)"
    using rec(1) bytes peek_cong [of "w_files s2" D svc "am_tenant_id meta" "''replay''" ?key "w_files s1" "json_replay D"] by simp
  then show ?thesis
    using authorize_repeats_record [OF assms(1-3,8), of jti rec] assms(5,9-12) rec(2) by simp
qed

end
