(* ===== verification/HSP_Samples.thy ===== *)
theory HSP_Samples
  imports HSP_Namespace HSP_Replay "HOL-Library.Countable"
begin

text \<open>
  Concrete instances of the third-party code, with which the hypotheses of the service theorems
  hold: a JSON-like text form of envelopes, codecs that write a record as its number, and a service
  on an empty filesystem.
\<close>

section \<open>Codecs\<close>

definition ref_put_str :: "string \<Rightarrow> byte list" where
  "ref_put_str s = concat (map (\<lambda>c. [1, of_char c]) s) @ [0]"

fun ref_get_str :: "byte list \<Rightarrow> (string \<times> byte list) option" where
  "ref_get_str [] = None"
| "ref_get_str (b # r) =
     (if b = 0 then Some ([], r)
      else case r of [] \<Rightarrow> None | c # r' \<Rightarrow> map_option (\<lambda>(s, rest). (char_of (unat c) # s, rest)) (ref_get_str r'))"

fun ref_get_strs :: "nat \<Rightarrow> byte list \<Rightarrow> string list option" where
  "ref_get_strs 0 bs = (if bs = [] then Some [] else None)"
| "ref_get_strs (Suc n) bs =
     (case ref_get_str bs of None \<Rightarrow> None | Some (s, rest) \<Rightarrow> map_option (Cons s) (ref_get_strs n rest))"

lemma ref_get_put_str [simp]: "ref_get_str (ref_put_str s @ r) = Some (s, r)"
  by (induction s) (simp_all add: ref_put_str_def)

lemma ref_get_str_prefix: "n < length (ref_put_str s) \<Longrightarrow> ref_get_str (take n (ref_put_str s)) = None"
proof (induction s arbitrary: n)
  case Nil
  then show ?case by (simp add: ref_put_str_def)
next
  case (Cons c s)
  show ?case
  proof (cases n)
    case (Suc m)
    then show ?thesis
    proof (cases m)
      case (Suc k)
      then show ?thesis using Cons \<open>n = Suc m\<close> by (auto simp: ref_put_str_def)
    qed (simp add: ref_put_str_def)
  qed simp
qed

lemma ref_get_put_strs [simp]: "ref_get_strs (length ss) (concat (map ref_put_str ss)) = Some ss"
  by (induction ss) simp_all

lemma ref_get_strs_prefix:
  "n < length (concat (map ref_put_str ss)) \<Longrightarrow> ref_get_strs (length ss) (take n (concat (map ref_put_str ss))) = None"
proof (induction ss arbitrary: n)
  case (Cons s ss)
  show ?case
  proof (cases "n < length (ref_put_str s)")
    case True
    then show ?thesis using ref_get_str_prefix [OF True] by simp
  next
    case False
    then have "ref_get_strs (length ss) (take (n - length (ref_put_str s)) (concat (map ref_put_str ss))) = None"
      using Cons by auto
    then show ?thesis using False by simp
  qed
qed simp

definition envelope_texts :: "StoredEnvelope \<Rightarrow> string list" where
  "envelope_texts env =
     [show_nat (unat (se_key_version env)), se_tenant_id env, se_store_kind env, se_wrapped_dek_b64 env,
      se_wrap_nonce_b64 env, se_data_nonce_b64 env, se_ciphertext_b64 env]"

definition ref_envelope_codec :: "StoredEnvelope codec" where
  "ref_envelope_codec =
     \<lparr>to_vec = (\<lambda>env. Ok (concat (map ref_put_str (envelope_texts env)))),
      from_slice = (\<lambda>bs.
        case ref_get_strs 7 bs of
          Some [version, tenant, kind, dek, wrap_nonce, data_nonce, ciphertext] \<Rightarrow>
            Ok \<lparr>se_key_version = word_of_nat (read_nat version), se_tenant_id = tenant, se_store_kind = kind,
                se_wrapped_dek_b64 = dek, se_wrap_nonce_b64 = wrap_nonce, se_data_nonce_b64 = data_nonce,
                se_ciphertext_b64 = ciphertext\<rparr>
        | _ \<Rightarrow> Err ''invalid'')\<rparr>"

lemma envelope_texts_length [simp]: "length (envelope_texts env) = 7"
  by (simp add: envelope_texts_def)

lemma ref_envelope_ok: "codec_ok ref_envelope_codec"
proof -
  have "ref_get_strs 7 (concat (map ref_put_str (envelope_texts env))) = Some (envelope_texts env)" for env
    using ref_get_put_strs [of "envelope_texts env"] by simp
  then show ?thesis
    by (auto simp: codec_ok_def ref_envelope_codec_def) (simp add: envelope_texts_def)
qed

lemma ref_envelope_prefix:
  assumes "to_vec ref_envelope_codec env = Ok bs" "n < length bs"
  shows "\<exists>e. from_slice ref_envelope_codec (take n bs) = Err e"
  using assms ref_get_strs_prefix [of n "envelope_texts env"] by (auto simp: ref_envelope_codec_def)

text \<open>A codec for the values of a list, each written as its position.\<close>

definition table_codec :: "'a list \<Rightarrow> 'a codec" where
  "table_codec vs =
     \<lparr>to_vec = (\<lambda>v. case position (\<lambda>x. x = v) vs of
        Some i \<Rightarrow> if i < 256 then Ok [word_of_nat i] else Err ''unsupported'' | None \<Rightarrow> Err ''unsupported''),
      from_slice = (\<lambda>bs. case bs of [b] \<Rightarrow> if unat b < length vs then Ok (vs ! unat b) else Err ''invalid'' | _ \<Rightarrow> Err ''invalid'')\<rparr>"

lemma position_Some: "position P xs = Some i \<Longrightarrow> i < length xs \<and> P (xs ! i)"
  by (induction P xs arbitrary: i rule: position.induct) (auto split: if_splits)

lemma table_codec_ok [simp]: "codec_ok (table_codec vs)"
  by (auto simp: codec_ok_def table_codec_def unat_of_nat take_bit_eq_mod split: option.splits if_splits
      dest!: position_Some)

section \<open>A codec for every record\<close>

text \<open>The stored records are countable, so each can be written as its number.\<close>

instance TenantId :: countable
  by countable_datatype

instance KeyPolicyId :: countable
  by countable_datatype

instance EncryptionProfileId :: countable
  by countable_datatype

instance VisibilityMode :: countable
  by countable_datatype

instance EventType :: countable
  by countable_datatype

instance NamespaceMutationKind :: countable
  by countable_datatype

instance WrappedObjectKeyRecord_ext :: (countable) countable
proof (rule countable_classI [of "\<lambda>r. to_nat (wk_recipient_key_id r, wk_wrapping_suite r, wk_wrapped_key_b64 r, wk_key_version r, wk_encapsulated_key_b64 r, WrappedObjectKeyRecord.more r)"])
  show "x = y" if "to_nat (wk_recipient_key_id x, wk_wrapping_suite x, wk_wrapped_key_b64 x, wk_key_version x, wk_encapsulated_key_b64 x, WrappedObjectKeyRecord.more x) =
      to_nat (wk_recipient_key_id y, wk_wrapping_suite y, wk_wrapped_key_b64 y, wk_key_version y, wk_encapsulated_key_b64 y, WrappedObjectKeyRecord.more y)" for x y :: "('a) WrappedObjectKeyRecord_scheme"
    using that by simp
qed

instance EncryptionDescriptor_ext :: (countable) countable
proof (rule countable_classI [of "\<lambda>r. to_nat (ed_encryption_profile_id r, ed_key_policy_id r, ed_content_encryption_suite r, ed_key_wrapping_suite r, ed_metadata_visibility r, ed_wrapped_object_keys r, ed_server_visible_metadata r, ed_encrypted_client_metadata r, EncryptionDescriptor.more r)"])
  show "x = y" if "to_nat (ed_encryption_profile_id x, ed_key_policy_id x, ed_content_encryption_suite x, ed_key_wrapping_suite x, ed_metadata_visibility x, ed_wrapped_object_keys x, ed_server_visible_metadata x, ed_encrypted_client_metadata x, EncryptionDescriptor.more x) =
      to_nat (ed_encryption_profile_id y, ed_key_policy_id y, ed_content_encryption_suite y, ed_key_wrapping_suite y, ed_metadata_visibility y, ed_wrapped_object_keys y, ed_server_visible_metadata y, ed_encrypted_client_metadata y, EncryptionDescriptor.more y)" for x y :: "('a) EncryptionDescriptor_scheme"
    using that by simp
qed

instance ChunkRef_ext :: (countable) countable
proof (rule countable_classI [of "\<lambda>r. to_nat (cr_chunk_index r, cr_cid r, cr_offset r, cr_logical_len r, cr_stored_len r, cr_content_encoding r, ChunkRef.more r)"])
  show "x = y" if "to_nat (cr_chunk_index x, cr_cid x, cr_offset x, cr_logical_len x, cr_stored_len x, cr_content_encoding x, ChunkRef.more x) =
      to_nat (cr_chunk_index y, cr_cid y, cr_offset y, cr_logical_len y, cr_stored_len y, cr_content_encoding y, ChunkRef.more y)" for x y :: "('a) ChunkRef_scheme"
    using that by simp
qed

instance Manifest_ext :: (countable) countable
proof (rule countable_classI [of "\<lambda>r. to_nat (mf_version r, mf_tenant_id r, mf_logical_size r, mf_stored_size r, mf_chunker r, mf_chunk_refs r, mf_content_type r, mf_created_at_ms r, mf_encryption_descriptor r, Manifest.more r)"])
  show "x = y" if "to_nat (mf_version x, mf_tenant_id x, mf_logical_size x, mf_stored_size x, mf_chunker x, mf_chunk_refs x, mf_content_type x, mf_created_at_ms x, mf_encryption_descriptor x, Manifest.more x) =
      to_nat (mf_version y, mf_tenant_id y, mf_logical_size y, mf_stored_size y, mf_chunker y, mf_chunk_refs y, mf_content_type y, mf_created_at_ms y, mf_encryption_descriptor y, Manifest.more y)" for x y :: "('a) Manifest_scheme"
    using that by simp
qed

instance AtomicBindRequest_ext :: (countable) countable
proof (rule countable_classI [of "\<lambda>r. to_nat (ab_namespace r, ab_path r, ab_if_revision r, ab_metadata r, ab_ttl_ms r, ab_signed_record_b64 r, AtomicBindRequest.more r)"])
  show "x = y" if "to_nat (ab_namespace x, ab_path x, ab_if_revision x, ab_metadata x, ab_ttl_ms x, ab_signed_record_b64 x, AtomicBindRequest.more x) =
      to_nat (ab_namespace y, ab_path y, ab_if_revision y, ab_metadata y, ab_ttl_ms y, ab_signed_record_b64 y, AtomicBindRequest.more y)" for x y :: "('a) AtomicBindRequest_scheme"
    using that by simp
qed

instance PutInitResponse_ext :: (countable) countable
proof (rule countable_classI [of "\<lambda>r. to_nat (pir_session_id r, pir_missing_chunks r, pir_accepted_manifest_cid r, pir_upload_deadline_ms r, pir_max_parallel_chunk_streams r, PutInitResponse.more r)"])
  show "x = y" if "to_nat (pir_session_id x, pir_missing_chunks x, pir_accepted_manifest_cid x, pir_upload_deadline_ms x, pir_max_parallel_chunk_streams x, PutInitResponse.more x) =
      to_nat (pir_session_id y, pir_missing_chunks y, pir_accepted_manifest_cid y, pir_upload_deadline_ms y, pir_max_parallel_chunk_streams y, PutInitResponse.more y)" for x y :: "('a) PutInitResponse_scheme"
    using that by simp
qed

instance PutCommitResponse_ext :: (countable) countable
proof (rule countable_classI [of "\<lambda>r. to_nat (pmr_object_cid r, pmr_committed r, pmr_event_seq r, PutCommitResponse.more r)"])
  show "x = y" if "to_nat (pmr_object_cid x, pmr_committed x, pmr_event_seq x, PutCommitResponse.more x) =
      to_nat (pmr_object_cid y, pmr_committed y, pmr_event_seq y, PutCommitResponse.more y)" for x y :: "('a) PutCommitResponse_scheme"
    using that by simp
qed

instance BindResponse_ext :: (countable) countable
proof (rule countable_classI [of "\<lambda>r. to_nat (bp_revision r, bp_record_cid r, bp_event_seq r, BindResponse.more r)"])
  show "x = y" if "to_nat (bp_revision x, bp_record_cid x, bp_event_seq x, BindResponse.more x) =
      to_nat (bp_revision y, bp_record_cid y, bp_event_seq y, BindResponse.more y)" for x y :: "('a) BindResponse_scheme"
    using that by simp
qed

instance UnbindResponse_ext :: (countable) countable
proof (rule countable_classI [of "\<lambda>r. to_nat (up_revision r, up_record_cid r, up_event_seq r, up_tombstone r, UnbindResponse.more r)"])
  show "x = y" if "to_nat (up_revision x, up_record_cid x, up_event_seq x, up_tombstone x, UnbindResponse.more x) =
      to_nat (up_revision y, up_record_cid y, up_event_seq y, up_tombstone y, UnbindResponse.more y)" for x y :: "('a) UnbindResponse_scheme"
    using that by simp
qed

instance NamespaceMutationRecord_ext :: (countable) countable
proof (rule countable_classI [of "\<lambda>r. to_nat (nm_version r, nm_tenant_id r, nm_namespace r, nm_path r, nm_kind r, nm_target_cid r, nm_if_revision r, nm_ttl_ms r, nm_metadata r, nm_issued_at_ms r, NamespaceMutationRecord.more r)"])
  show "x = y" if "to_nat (nm_version x, nm_tenant_id x, nm_namespace x, nm_path x, nm_kind x, nm_target_cid x, nm_if_revision x, nm_ttl_ms x, nm_metadata x, nm_issued_at_ms x, NamespaceMutationRecord.more x) =
      to_nat (nm_version y, nm_tenant_id y, nm_namespace y, nm_path y, nm_kind y, nm_target_cid y, nm_if_revision y, nm_ttl_ms y, nm_metadata y, nm_issued_at_ms y, NamespaceMutationRecord.more y)" for x y :: "('a) NamespaceMutationRecord_scheme"
    using that by simp
qed

instance EventRecord_ext :: (countable) countable
proof (rule countable_classI [of "\<lambda>r. to_nat (ev_version r, ev_seq r, ev_at_ms r, ev_event_type r, ev_subject_kind r, ev_namespace r, ev_path r, ev_cid r, ev_revision r, ev_trace_id r, ev_payload r, EventRecord.more r)"])
  show "x = y" if "to_nat (ev_version x, ev_seq x, ev_at_ms x, ev_event_type x, ev_subject_kind x, ev_namespace x, ev_path x, ev_cid x, ev_revision x, ev_trace_id x, ev_payload x, EventRecord.more x) =
      to_nat (ev_version y, ev_seq y, ev_at_ms y, ev_event_type y, ev_subject_kind y, ev_namespace y, ev_path y, ev_cid y, ev_revision y, ev_trace_id y, ev_payload y, EventRecord.more y)" for x y :: "('a) EventRecord_scheme"
    using that by simp
qed

instance UploadSessionRecord_ext :: (countable) countable
proof (rule countable_classI [of "\<lambda>r. to_nat (us_session_id r, us_tenant_id r, us_manifest r, us_manifest_cid r, us_idempotency_key r, us_storage_class r, us_atomic_bind r, us_uploaded_chunks r, us_committed r, us_created_at_ms r, us_upload_deadline_ms r, UploadSessionRecord.more r)"])
  show "x = y" if "to_nat (us_session_id x, us_tenant_id x, us_manifest x, us_manifest_cid x, us_idempotency_key x, us_storage_class x, us_atomic_bind x, us_uploaded_chunks x, us_committed x, us_created_at_ms x, us_upload_deadline_ms x, UploadSessionRecord.more x) =
      to_nat (us_session_id y, us_tenant_id y, us_manifest y, us_manifest_cid y, us_idempotency_key y, us_storage_class y, us_atomic_bind y, us_uploaded_chunks y, us_committed y, us_created_at_ms y, us_upload_deadline_ms y, UploadSessionRecord.more y)" for x y :: "('a) UploadSessionRecord_scheme"
    using that by simp
qed

instance ManifestRecord_ext :: (countable) countable
proof (rule countable_classI [of "\<lambda>r. to_nat (mrec_tenant_id r, mrec_manifest r, mrec_manifest_cid r, mrec_object_cid r, mrec_storage_class r, mrec_committed_at_ms r, ManifestRecord.more r)"])
  show "x = y" if "to_nat (mrec_tenant_id x, mrec_manifest x, mrec_manifest_cid x, mrec_object_cid x, mrec_storage_class x, mrec_committed_at_ms x, ManifestRecord.more x) =
      to_nat (mrec_tenant_id y, mrec_manifest y, mrec_manifest_cid y, mrec_object_cid y, mrec_storage_class y, mrec_committed_at_ms y, ManifestRecord.more y)" for x y :: "('a) ManifestRecord_scheme"
    using that by simp
qed

instance IdempotencyRecord_ext :: (countable, countable) countable
proof (rule countable_classI [of "\<lambda>r. to_nat (idr_response r, IdempotencyRecord.more r)"])
  show "x = y" if "to_nat (idr_response x, IdempotencyRecord.more x) =
      to_nat (idr_response y, IdempotencyRecord.more y)" for x y :: "('a, 'b) IdempotencyRecord_scheme"
    using that by simp
qed

instance ReplayRecord_ext :: (countable) countable
proof (rule countable_classI [of "\<lambda>r. to_nat (rp_tenant_id r, rp_jti r, rp_operation r, rp_subject r, rp_idempotency_key r, rp_observed_at_ms r, ReplayRecord.more r)"])
  show "x = y" if "to_nat (rp_tenant_id x, rp_jti x, rp_operation x, rp_subject x, rp_idempotency_key x, rp_observed_at_ms x, ReplayRecord.more x) =
      to_nat (rp_tenant_id y, rp_jti y, rp_operation y, rp_subject y, rp_idempotency_key y, rp_observed_at_ms y, ReplayRecord.more y)" for x y :: "('a) ReplayRecord_scheme"
    using that by simp
qed

instance AuditRecord_ext :: (countable) countable
proof (rule countable_classI [of "\<lambda>r. to_nat (au_seq r, au_tenant_id r, au_operation r, au_subject r, au_at_ms r, AuditRecord.more r)"])
  show "x = y" if "to_nat (au_seq x, au_tenant_id x, au_operation x, au_subject x, au_at_ms x, AuditRecord.more x) =
      to_nat (au_seq y, au_tenant_id y, au_operation y, au_subject y, au_at_ms y, AuditRecord.more y)" for x y :: "('a) AuditRecord_scheme"
    using that by simp
qed

instance SequenceState_ext :: (countable) countable
proof (rule countable_classI [of "\<lambda>r. to_nat (sq_next_seq r, SequenceState.more r)"])
  show "x = y" if "to_nat (sq_next_seq x, SequenceState.more x) =
      to_nat (sq_next_seq y, SequenceState.more y)" for x y :: "('a) SequenceState_scheme"
    using that by simp
qed

instance NamespaceBindingState_ext :: (countable) countable
proof (rule countable_classI [of "\<lambda>r. to_nat (nb_path r, nb_target_cid r, nb_manifest_cid r, nb_revision r, nb_record_cid r, nb_metadata r, nb_tombstone r, NamespaceBindingState.more r)"])
  show "x = y" if "to_nat (nb_path x, nb_target_cid x, nb_manifest_cid x, nb_revision x, nb_record_cid x, nb_metadata x, nb_tombstone x, NamespaceBindingState.more x) =
      to_nat (nb_path y, nb_target_cid y, nb_manifest_cid y, nb_revision y, nb_record_cid y, nb_metadata y, nb_tombstone y, NamespaceBindingState.more y)" for x y :: "('a) NamespaceBindingState_scheme"
    using that by simp
qed

instance NamespaceCurrentState_ext :: (countable) countable
proof (rule countable_classI [of "\<lambda>r. to_nat (nc_namespace r, nc_revision r, nc_bindings r, NamespaceCurrentState.more r)"])
  show "x = y" if "to_nat (nc_namespace x, nc_revision x, nc_bindings x, NamespaceCurrentState.more x) =
      to_nat (nc_namespace y, nc_revision y, nc_bindings y, NamespaceCurrentState.more y)" for x y :: "('a) NamespaceCurrentState_scheme"
    using that by simp
qed

instance NamespaceRevisionState_ext :: (countable) countable
proof (rule countable_classI [of "\<lambda>r. to_nat (nr_next_revision r, NamespaceRevisionState.more r)"])
  show "x = y" if "to_nat (nr_next_revision x, NamespaceRevisionState.more x) =
      to_nat (nr_next_revision y, NamespaceRevisionState.more y)" for x y :: "('a) NamespaceRevisionState_scheme"
    using that by simp
qed

instance NamespaceJournalEntry_ext :: (countable) countable
proof (rule countable_classI [of "\<lambda>r. to_nat (nj_revision r, nj_record r, nj_record_cid r, nj_target_cid r, nj_manifest_cid r, nj_metadata r, nj_tombstone r, NamespaceJournalEntry.more r)"])
  show "x = y" if "to_nat (nj_revision x, nj_record x, nj_record_cid x, nj_target_cid x, nj_manifest_cid x, nj_metadata x, nj_tombstone x, NamespaceJournalEntry.more x) =
      to_nat (nj_revision y, nj_record y, nj_record_cid y, nj_target_cid y, nj_manifest_cid y, nj_metadata y, nj_tombstone y, NamespaceJournalEntry.more y)" for x y :: "('a) NamespaceJournalEntry_scheme"
    using that by simp
qed

definition counting_codec :: "'a::countable codec" where
  "counting_codec =
     \<lparr>to_vec = (\<lambda>v. Ok (replicate (to_nat v) 0)), from_slice = (\<lambda>bs. Ok (from_nat (length bs)))\<rparr>"

lemma counting_codec_total [simp]: "total_codec counting_codec" "codec_ok counting_codec"
  by (simp_all add: total_codec_def codec_ok_def counting_codec_def)

section \<open>A reference service\<close>

definition ref_auth_deps :: auth_deps where
  "ref_auth_deps = core_deps.extend ref_core_deps
     \<lparr>cose_from_slice = (\<lambda>bs. None), cose_tbs = (\<lambda>c aad. []), ed25519_key_ok = (\<lambda>k. True),
      ed25519_signature_ok = (\<lambda>s. True), ed25519_verify = (\<lambda>k m s. True),
      cbor_claims = (\<lambda>bs. Err ''''), cbor_mutation = (\<lambda>bs. Err ''''), json_registry = (\<lambda>bs. Err '''')\<rparr>"

definition ref_service_deps :: service_deps where
  "ref_service_deps = backend_deps.extend ref_backend_deps
     \<lparr>auth_code = ref_auth_deps, json_envelope = ref_envelope_codec, json_session = counting_codec,
      json_manifest_record = counting_codec, json_idem_put_init = counting_codec,
      json_idem_put_commit = counting_codec, json_idem_bind = counting_codec, json_idem_unbind = counting_codec,
      json_replay = counting_codec, json_audit = counting_codec, json_sequence = counting_codec,
      json_ns_current = counting_codec, json_ns_revision = counting_codec, json_ns_journal = counting_codec,
      json_event = counting_codec\<rparr>"

lemmas ref_service_unfold = ref_service_deps_def backend_deps.defs crypto_deps.defs core_deps.defs
  ref_backend_deps_def ref_crypto_deps_def

lemma ref_service_simps [simp]:
  "json_envelope ref_service_deps = ref_envelope_codec" "auth_code ref_service_deps = ref_auth_deps"
  "b64url_encode ref_service_deps = ref_text_encode" "sha256 ref_service_deps = (\<lambda>bs. bs)"
  "base32_nopad ref_service_deps = ref_text_encode" "b64url_decode ref_service_deps = ref_text_decode"
  by (simp_all add: ref_service_unfold ref_core_deps_def)

definition sample_svc :: AlphaService where
  "sample_svc =
     \<lparr>as_config = \<lparr>cf_authority = ''h'', cf_gateway_base_url = ''g'', cf_root_dir = ''/d'', cf_native_port = 443,
                   cf_server_instance_id = ''i'', cf_storage_backend = Backend_Filesystem\<rparr>,
      as_kms = sample_kms, as_store = Filesystem ''/d'', as_issuer_registry = None\<rparr>"

definition sample_service :: "(nat \<Rightarrow> io_outcome) \<Rightarrow> service" where
  "sample_service io = world.extend (sample_world io)
     \<lparr>sv_policy_engine = policy_engine_new, sv_metrics = [], sv_logs = []\<rparr>"

text \<open>Instances that differ from \<open>ref_service_deps\<close> only in the codecs of the stored records.\<close>

definition ref_like :: "service_deps \<Rightarrow> bool" where
  "ref_like D \<longleftrightarrow>
     json_envelope D = ref_envelope_codec \<and> sha256 D = (\<lambda>bs. bs) \<and> base32_nopad D = ref_text_encode \<and>
     b64url_encode D = ref_text_encode \<and> b64url_decode D = ref_text_decode \<and>
     b64_nopad_encode D = ref_text_encode \<and> b64_nopad_decode D = ref_text_decode \<and>
     aes_gcm_encrypt D = (\<lambda>k n m a. Some (n @ m)) \<and> aes_gcm_decrypt D = (\<lambda>k n c a. Some (drop (length n) c)) \<and>
     xchacha_encrypt D = (\<lambda>k n m a. Some (n @ m)) \<and> xchacha_decrypt D = (\<lambda>k n c a. Some (drop (length n) c)) \<and>
     hkdf_sha256 D = (\<lambda>salt ikm info n. Some (replicate n 7))"

lemma ref_service_like: "ref_like ref_service_deps"
  by (simp add: ref_like_def ref_service_unfold ref_core_deps_def)

lemma ref_store_laws: "ref_like D \<Longrightarrow> store_laws D"
  by (simp add: ref_like_def store_laws_def crypto_laws_def ref_envelope_ok)

lemma ref_text_encode_chars: "c \<in> set (ref_text_encode bs) \<Longrightarrow> (97 :: nat) \<le> of_char c \<and> of_char c \<le> (112 :: nat)"
proof -
  assume "c \<in> set (ref_text_encode bs)"
  then obtain b :: byte where "c = char_of (97 + unat b div 16) \<or> c = char_of (97 + unat b mod 16)"
    by (auto simp: ref_text_encode_def)
  moreover have "unat b < 2 ^ LENGTH(8)" by (rule unsigned_less)
  then have "unat b div 16 < 16" by (simp add: less_mult_imp_div_less)
  moreover have "unat b mod 16 < 16" by simp
  ultimately show ?thesis by (auto simp del: mod_less_divisor)
qed

lemma ref_dir_laws: "ref_like D \<Longrightarrow> dir_laws D"
proof -
  have "CHR ''/'' \<notin> set (ref_text_encode bs)" for bs
    using ref_text_encode_chars [of "CHR ''/''" bs] by auto
  moreover have "a = b" if "ref_text_encode a = ref_text_encode b" for a b
    using that by (metis option.inject ref_text_decode_encode)
  ultimately show "ref_like D \<Longrightarrow> dir_laws D" by (auto simp: ref_like_def dir_laws_def)
qed

lemma ref_integrity_laws: "ref_like D \<Longrightarrow> as_store svc = Filesystem root \<Longrightarrow> integrity_laws D svc"
  using ref_envelope_prefix ref_store_laws by (auto simp: integrity_laws_def ref_like_def)

lemma ref_like_base32: "ref_like D \<Longrightarrow> base32_injective D"
  using ref_base32_injective by (simp add: base32_injective_def ref_like_def ref_core_deps_def)

lemma ref_encrypt_total:
  fixes s :: service
  assumes "ref_like D"
  shows "\<exists>env s1. local_encrypt_store_payload D kms t kind bytes s = (Ok env, s1)"
  using assms
  by (auto simp: ref_like_def local_encrypt_store_payload_def generate_object_data_key_def derive_context_key_def
      bnd_def lift_result_def ret_def ensure_def encrypt_aes_gcm_def fill_bytes_def ok_or_def)

lemma ref_write_total:
  assumes "ref_like D" "fs_ready svc s"
  shows "\<exists>s'. write_encrypted_bytes D svc t kind key bytes s = (Ok (), s') \<and> wrote D svc t kind key bytes s s'"
proof -
  obtain env s1 where enc: "local_encrypt_store_payload D (as_kms svc) t kind bytes s = (Ok env, s1)"
    using ref_encrypt_total [OF assms(1)] by blast
  obtain raw where raw: "to_vec (json_envelope D) env = Ok raw"
    using assms(1) by (auto simp: ref_like_def ref_envelope_codec_def)
  obtain r s' where w: "write_encrypted_bytes D svc t kind key bytes s = (r, s')" by force
  moreover have "store_write D (as_store svc) (store_key D t kind key) raw s1 = (r, s')"
    using w enc raw
    by (simp add: write_encrypted_bytes_def bnd_def on_error_def write_envelope_def lift_result_def map_err_def)
  then have "r = Ok ()"
    using store_write_spec [OF fs_ready_quiet [OF local_encrypt_frame [OF enc] assms(2)]] by blast
  ultimately show ?thesis
    using write_encrypted_bytes_spec [OF ref_store_laws [OF assms(1)] assms(2) w] by auto
qed

lemma ref_write_json_total:
  assumes "ref_like D" "fs_ready svc s" "codec_ok c" "to_vec c v = Ok bytes"
  shows "\<exists>s'. write_encrypted_json D svc c t kind key v s = (Ok (), s') \<and> wrote_json D svc c t kind key v s s'"
proof -
  obtain s' where s': "write_encrypted_bytes D svc t kind key bytes s = (Ok (), s')"
    using ref_write_total [OF assms(1,2)] by blast
  then have w: "write_encrypted_json D svc c t kind key v s = (Ok (), s')"
    using assms(4) by (simp add: write_encrypted_json_def bnd_def lift_result_def map_err_def)
  then show ?thesis
    using write_encrypted_json_spec [OF ref_store_laws [OF assms(1)] assms(3,2) w] by auto
qed

lemma ref_namespace_laws:
  assumes "ref_like D" "as_store svc = Filesystem root"
    and "total_codec (json_ns_current D)" "total_codec (json_ns_journal D)" "total_codec (json_ns_revision D)"
  shows "namespace_laws D svc"
proof -
  have "\<exists>env s1 bytes. local_encrypt_store_payload D (as_kms svc) t kind plaintext (s :: service) = (Ok env, s1) \<and>
      to_vec (json_envelope D) env = Ok bytes" for t kind plaintext s
    using ref_encrypt_total [OF assms(1), of "as_kms svc" t kind plaintext s] assms(1)
    by (auto simp: ref_like_def ref_envelope_codec_def)
  then show ?thesis
    using assms ref_store_laws [OF assms(1)] ref_dir_laws [OF assms(1)] by (simp add: namespace_laws_def)
qed

lemma ref_codecs [simp]:
  "json_ns_current ref_service_deps = counting_codec" "json_ns_journal ref_service_deps = counting_codec"
  "json_ns_revision ref_service_deps = counting_codec" "json_replay ref_service_deps = counting_codec"
  "json_idem_bind ref_service_deps = counting_codec" "json_event ref_service_deps = counting_codec"
  "json_sequence ref_service_deps = counting_codec" "json_audit ref_service_deps = counting_codec"
  "json_manifest_record ref_service_deps = counting_codec"
  by (simp_all add: ref_service_unfold ref_core_deps_def)

lemma sample_ready [simp]: "fs_ready sample_svc (sample_service (\<lambda>_. IoOk))"
  by (simp add: fs_ready_def sample_svc_def sample_service_def io_reliable_def world.defs sample_world_def entropy.defs)

lemma sample_files [simp]: "w_files (sample_service io) = Map.empty"
  by (simp add: sample_service_def world.defs sample_world_def entropy.defs)

lemma sample_store [simp]: "as_store sample_svc = Filesystem ''/d''" "as_kms sample_svc = sample_kms"
  by (simp_all add: sample_svc_def)

lemma table_codec_single [simp]: "to_vec (table_codec [v]) v = Ok [0]"
  by (simp add: table_codec_def)

lemma observe_op_Ok: "\<exists>s'. observe_op a b c d e f g h s = (Ok () :: 'e + unit, s') \<and> quiet s s'"
proof -
  obtain l and s1 :: service where l: "elapsed_ms a s = (Ok l :: 'e + u64, s1)" "quiet s s1"
    by (auto simp: elapsed_ms_def bnd_def now_ms_def ret_def quiet_def io_reliable_def)
  let ?ob = "\<lparr>ob_operation = b, ob_tenant_id = c, ob_namespace = d, ob_status_code = e, ob_outcome = f,
    ob_latency_ms = l, ob_object_size_bytes = g, ob_error_code = h\<rparr>"
  obtain r :: "'e + unit" and s2 where r: "record_observation ?ob s1 = (r, s2)" by force
  show ?thesis
    using l r record_observation_quiet [OF r] by (auto simp: observe_op_def bnd_def intro: quiet_trans)
qed

section \<open>Witnesses of the safety theorems\<close>

definition sample_subscribe :: "TenantId \<Rightarrow> SubscribeRequest" where
  "sample_subscribe t =
     \<lparr>sr_tenant_id = t, sr_filters = [], sr_cursor = None, sr_from_seq = None, sr_heartbeat_ms = None,
      sr_batch_max = None\<rparr>"

definition sample_chunk_request :: "TenantId \<Rightarrow> PutChunkRequest" where
  "sample_chunk_request t =
     \<lparr>pc_tenant_id = t, pc_session_id = ''s'', pc_chunk_index = 0, pc_chunk_cid = ''c'', pc_chunk_offset = 0,
      pc_chunk_length = 2, pc_content_encoding = ''identity''\<rparr>"

theorem tenant_isolation_witness:
  "let io = (\<lambda>n. if n = 1 then IoFail ''disk'' None else IoOk);
       reqs = [(sample_auth, Rq_PutChunk (sample_chunk_request (TenantId ''t'')) [1, 2]),
               (sample_auth, Rq_Subscribe (sample_subscribe (TenantId ''u'')))];
       p = slot ref_service_deps sample_svc (TenantId ''v'') ''chunks'' ''c'' in
   w_files (snd (run_steps (serve ref_service_deps sample_svc) reqs (sample_service io))) p
     = w_files (sample_service io) p"
  unfolding Let_def
  by (rule tenant_isolation [of _ "''/d''"])
    (auto simp: ref_dir_laws ref_service_like sample_subscribe_def sample_chunk_request_def)

definition sample_cid :: string where
  "sample_cid = cid_from_bytes ref_service_deps [1, 2]"

definition sample_ref :: ChunkRef where
  "sample_ref =
     \<lparr>cr_chunk_index = 0, cr_cid = sample_cid, cr_offset = 0, cr_logical_len = 2, cr_stored_len = 2,
      cr_content_encoding = ''identity''\<rparr>"

definition sample_mrec :: ManifestRecord where
  "sample_mrec =
     \<lparr>mrec_tenant_id = TenantId ''t'',
      mrec_manifest = sample_manifest\<lparr>mf_chunk_refs := [sample_ref]\<rparr>,
      mrec_manifest_cid = ''m'', mrec_object_cid = ''m'', mrec_storage_class = ''hot'', mrec_committed_at_ms = 1\<rparr>"

definition sample_read_deps :: service_deps where
  "sample_read_deps = ref_service_deps\<lparr>json_manifest_record := table_codec [sample_mrec]\<rparr>"

definition sample_reader :: AuthContext where
  "sample_reader = sample_auth\<lparr>ac_claims := sample_claims\<lparr>cl_ops := [Sc_Read]\<rparr>\<rparr>"

definition sample_get :: GetRequest where
  "sample_get =
     \<lparr>gq_tenant_id = TenantId ''t'',
      gq_selector = \<lparr>sel_kind = Sel_Cid, sel_cid = Some ''m'', sel_namespace = None, sel_path = None\<rparr>,
      gq_preference = None, gq_range = None\<rparr>"

lemma sample_read_like: "ref_like sample_read_deps"
  using ref_service_like by (simp add: sample_read_deps_def ref_like_def)

text \<open>A query whose request is permitted passes authorization and leaves the files alone.\<close>

lemma authorize_query:
  assumes "permitted (w_clock s (w_ticks s)) auth meta" "\<not> is_mutation (am_operation meta)"
  shows "\<exists>s'. service_authorize D svc auth meta s = (Ok \<lparr>ad_replay_status = Fresh\<rparr>, s') \<and> quiet s s'"
proof -
  have "authorize (w_clock s (w_ticks s)) auth meta pe = (Ok \<lparr>ad_replay_status = Fresh\<rparr>, pe)" for pe
    using assms by (simp add: authorize_eq request_key_def iffD2 [OF authorize_checks_Ok [where u = "()"]])
  then show ?thesis
    using assms(2)
    by (auto simp: service_authorize_def policy_authorize_def now_ms_def bnd_def on_error_def ret_def quiet_def
        observe_durable_replay_def io_reliable_def)
qed

lemma sample_stored:
  "\<exists>s. fs_ready sample_svc s \<and> w_clock s = (\<lambda>_. 5) \<and> chunks_ok sample_read_deps sample_svc (w_files s) \<and>
     peek_bytes sample_read_deps sample_svc (TenantId ''t'') ''chunks'' sample_cid (w_files s) = Ok (Some [1, 2]) \<and>
     peek sample_read_deps sample_svc (table_codec [sample_mrec]) (TenantId ''t'') ''manifests'' ''m'' (w_files s)
       = Ok (Some sample_mrec)"
proof -
  let ?D = sample_read_deps and ?t = "TenantId ''t''" and ?s = "sample_service (\<lambda>_. IoOk)"
  let ?J = "\<lambda>f. integrity_laws ?D sample_svc \<longrightarrow> chunks_ok ?D sample_svc f"
  obtain s1 where w1: "write_encrypted_bytes ?D sample_svc ?t ''chunks'' sample_cid [1, 2] ?s = (Ok (), s1)"
      "wrote ?D sample_svc ?t ''chunks'' sample_cid [1, 2] ?s s1"
    using ref_write_total [OF sample_read_like sample_ready] by blast
  have ready1: "fs_ready sample_svc s1" using w1(2) by (simp add: wrote_def fs_ready_def)
  obtain s2 where w2: "write_encrypted_json ?D sample_svc (table_codec [sample_mrec]) ?t ''manifests'' ''m'' sample_mrec s1 = (Ok (), s2)"
      "wrote_json ?D sample_svc (table_codec [sample_mrec]) ?t ''manifests'' ''m'' sample_mrec s1 s2"
    using ref_write_json_total [OF sample_read_like ready1 table_codec_ok table_codec_single [of sample_mrec]] by blast
  have "cid_from_bytes ?D [1, 2] = sample_cid"
    by (simp add: sample_cid_def sample_read_deps_def cid_from_bytes_def)
  then have "?J (w_files s1)"
    using keepsD [OF chunk_files.chunk_write [of ?t ?D sample_svc "[1, 2]"], of _ "Ok ()" s1] w1(1) by force
  then have "?J (w_files s2)"
    using keepsD [OF chunk_files.keeps_kinds(1) w2(1)] by simp
  moreover have "peek_bytes ?D sample_svc ?t ''chunks'' sample_cid (w_files s2) = Ok (Some [1, 2])"
  proof -
    have "slot ?D sample_svc ?t ''chunks'' sample_cid \<noteq> slot ?D sample_svc ?t ''manifests'' ''m''"
      by (rule slot_kind_neq) simp_all
    then have "peek_bytes ?D sample_svc ?t ''chunks'' sample_cid (w_files s2) =
        peek_bytes ?D sample_svc ?t ''chunks'' sample_cid (w_files s1)"
      using w2(2) by (intro peek_bytes_cong) (auto simp: wrote_json_def)
    then show ?thesis using w1(2) by (simp add: wrote_def)
  qed
  ultimately show ?thesis
    using w2(2) ref_integrity_laws [OF sample_read_like sample_store(1)] wrote_json_ready [OF ready1 w2(2)]
    by (intro exI [of _ "s2\<lparr>w_clock := \<lambda>_. 5\<rparr>"])
      (auto simp: wrote_json_def fs_ready_def io_reliable_def)
qed

theorem get_content_addressed_witness:
  "\<exists>s response s' bs. get sample_read_deps sample_svc sample_reader sample_get s = (Ok response, s') \<and>
     map gc_bytes (gr_chunks response) = [[1, 2]] \<and>
     names_content sample_read_deps sample_cid bs \<and> slice_get bs 0 2 = Some [1, 2]"
proof -
  let ?D = sample_read_deps and ?t = "TenantId ''t''"
  obtain s where s: "fs_ready sample_svc s" "w_clock s = (\<lambda>_. 5)" "chunks_ok ?D sample_svc (w_files s)"
      "peek_bytes ?D sample_svc ?t ''chunks'' sample_cid (w_files s) = Ok (Some [1, 2])"
      "peek ?D sample_svc (table_codec [sample_mrec]) ?t ''manifests'' ''m'' (w_files s) = Ok (Some sample_mrec)"
    using sample_stored by blast
  let ?res = "\<lparr>srs_manifest_cid = ''m'', srs_namespace = None, srs_path = None, srs_revision = None, srs_record_cid = None\<rparr>"
  let ?s1 = "s\<lparr>w_ticks := w_ticks s + 1\<rparr>"
  have ready1: "fs_ready sample_svc ?s1" using s(1) by (simp add: fs_ready_def io_reliable_def)
  have "permitted (w_clock ?s1 (w_ticks ?s1)) sample_reader (selector_meta Op_Get ?t ?res)"
    by (simp add: s(2) permitted_def sample_reader_def sample_auth_def sample_claims_def selector_meta_def auth_meta_def
        Let_def covers_def is_mutation_def)
  then obtain s2 where s2: "service_authorize ?D sample_svc sample_reader (selector_meta Op_Get ?t ?res) ?s1 =
      (Ok \<lparr>ad_replay_status = Fresh\<rparr>, s2)" "quiet ?s1 s2"
    using authorize_query [of ?s1 sample_reader "selector_meta Op_Get ?t ?res"]
    by (auto simp: selector_meta_def auth_meta_def is_mutation_def)
  obtain r3 s3 where r3: "read_encrypted_json ?D sample_svc (json_manifest_record ?D) ?t ''manifests'' ''m'' s2 = (r3, s3)"
    by force
  have s3: "r3 = Ok (Some sample_mrec)" "quiet s2 s3"
    using read_encrypted_json_spec [OF fs_ready_quiet [OF s2(2) ready1] r3] s(5) quietD [OF s2(2)]
    by (simp_all add: sample_read_deps_def)
  obtain r4 s4 where r4: "read_encrypted_bytes ?D sample_svc ?t ''chunks'' sample_cid s3 = (r4, s4)" by force
  have s4: "r4 = Ok (Some [1, 2])"
    using read_encrypted_bytes_spec [OF fs_ready_quiet [OF s3(2) fs_ready_quiet [OF s2(2) ready1]] r4] s(4)
      quietD [OF s2(2)] quietD [OF s3(2)] by simp
  let ?ch = "\<lparr>gc_descriptor = chunk_fragment 0 1 sample_ref, gc_bytes = [1, 2]\<rparr>"
  have frag: "chunk_end sample_ref = 1" "cr_offset sample_ref = 0" "cr_cid sample_ref = sample_cid"
      "gd_fragment_offset (chunk_fragment 0 1 sample_ref) = 0" "gd_fragment_length (chunk_fragment 0 1 sample_ref) = 2"
      "gd_chunk_cid (chunk_fragment 0 1 sample_ref) = sample_cid" "mf_chunk_refs (mrec_manifest sample_mrec) = [sample_ref]"
      "mf_logical_size (mrec_manifest sample_mrec) = 2" "mf_stored_size (mrec_manifest sample_mrec) = 2"
    by (simp_all add: sample_mrec_def sample_manifest_def sample_ref_def chunk_end_def chunk_fragment_def Let_def saturating_add_def
        saturating_sub_def)
  have chunks: "get_chunks ?D sample_svc ?t 0 1 [sample_ref] s3 = (Ok [?ch], s4)"
    using r4 s4 by (simp add: frag Let_def read_chunk_def bnd_def lift_result_def ok_or_def ret_def slice_get_def)
  obtain s5 where s5: "observe_op (w_clock s (w_ticks s)) ''get'' ?t None 200 ''chunk_stream'' (Some 2) None s4 = (Ok () :: ApiError + unit, s5)"
    using observe_op_Ok by blast
  let ?resp = "\<lparr>gr_meta = (get_meta sample_mrec ?res Pref_ChunkStream)\<lparr>gm_chunk_descriptors := [chunk_fragment 0 1 sample_ref]\<rparr>,
      gr_chunks = [?ch]\<rparr>"
  have get: "get ?D sample_svc sample_reader sample_get s = (Ok ?resp, s5)"
    using s2(1) r3 s3(1) chunks s5
    by (simp add: get_def sample_get_def bnd_def now_ms_def lift_result_def get_validate_def selector_validate_def none_or_empty_def
        selector_resolution_def ret_def manifest_record_def ok_or_def Let_def ensure_def get_range_def frag
        saturating_sub_def get_meta_def)
  have "\<exists>bs. names_content ?D (gd_chunk_cid (gc_descriptor ?ch)) bs \<and>
    slice_get bs (unat (gd_fragment_offset (gc_descriptor ?ch)))
      (unat (gd_fragment_offset (gc_descriptor ?ch) + gd_fragment_length (gc_descriptor ?ch))) = Some (gc_bytes ?ch)"
    by (rule get_content_addressed [OF ref_integrity_laws [OF sample_read_like sample_store(1)]
          ref_like_base32 [OF sample_read_like] s(3) _ get, of "[]"]) simp_all
  then obtain bs where "names_content ?D sample_cid bs" "slice_get bs 0 2 = Some [1, 2]"
    using frag by auto
  moreover have "map gc_bytes (gr_chunks ?resp) = [[1, 2]]" by simp
  ultimately show ?thesis using get by (intro exI conjI)
qed

section \<open>Operations on the reference service succeed\<close>

lemma create_encrypted_json_Ok:
  assumes laws: "namespace_laws D svc" "total_codec c" and ready: "fs_ready svc s"
  obtains s' where "create_encrypted_json D svc c t kind key v s = (Ok (w_files s (slot D svc t kind key) = None), s')"
    "w_files s (slot D svc t kind key) = None \<Longrightarrow> wrote_json D svc c t kind key v s s'"
    "w_files s (slot D svc t kind key) \<noteq> None \<Longrightarrow> quiet s s'"
proof -
  obtain bytes where v: "to_vec c v = Ok bytes" using laws(2) by (auto simp: total_codec_def)
  obtain env s1 raw where enc: "local_encrypt_store_payload D (as_kms svc) t kind bytes s = (Ok env, s1)"
    "to_vec (json_envelope D) env = Ok raw"
    using laws(1) unfolding namespace_laws_def by blast
  obtain r s' where c: "create_encrypted_json D svc c t kind key v s = (r, s')" by force
  have st: "store_create D (as_store svc) (store_key D t kind key) raw s1 = (r, s')"
    using c enc v by (simp add: create_encrypted_json_def create_envelope_def bnd_def lift_result_def map_err_def on_err_def)
  have "r = Ok (w_files s (slot D svc t kind key) = None)"
    using store_create_spec [OF fs_ready_quiet [OF local_encrypt_frame [OF enc(1)] ready] st]
      quietD(1) [OF local_encrypt_frame [OF enc(1)]] by (simp add: slot_def)
  moreover have "store_laws D" "codec_ok c" using laws by (simp_all add: namespace_laws_def total_codec_def)
  ultimately show ?thesis
    using create_encrypted_json_spec [OF _ _ ready c] c that by auto
qed

lemma wrote_json_files:
  assumes "as_store svc = Filesystem root" "wrote_json D svc c t kind key v s s'" "plain_kind kind" "plain_kind kind'"
    "kind \<noteq> kind'"
  shows "w_files s' (slot D svc t' kind' key') = w_files s (slot D svc t' kind' key')"
  using assms(2) slot_kind_neq [OF assms(1,4,3), of D t' key' t key] assms(5) by (auto simp: wrote_json_def)

text \<open>A permitted mutation the engine has not seen.\<close>

lemma authorize_mutation:
  assumes laws: "namespace_laws D svc" "total_codec (json_replay D)" and ready: "fs_ready svc s"
    and perm: "permitted (w_clock s (w_ticks s)) auth meta" "is_mutation (am_operation meta)"
      "cl_jti (ac_claims auth) = Some jti"
    and new: "sv_policy_engine s = policy_engine_new"
  defines "key \<equiv> durable_replay_key D (am_tenant_id meta) jti (am_operation meta) (am_subject meta)"
  shows "w_files s (slot D svc (am_tenant_id meta) ''replay'' key) = None \<Longrightarrow>
      \<exists>rec s1 s'. service_authorize D svc auth meta s = (Ok \<lparr>ad_replay_status = Fresh\<rparr>, s') \<and> w_files s1 = w_files s \<and>
        fs_ready svc s' \<and> wrote_json D svc (json_replay D) (am_tenant_id meta) ''replay'' key rec s1 s'"
    and "peek D svc (json_replay D) (am_tenant_id meta) ''replay'' key (w_files s) = Ok (Some rec) \<Longrightarrow>
      am_idempotency_key meta = Some (rp_idempotency_key rec) \<Longrightarrow>
      \<exists>s'. service_authorize D svc auth meta s = (Ok \<lparr>ad_replay_status = IdempotentRetry\<rparr>, s')"
proof -
  have "fst (authorize (w_clock s (w_ticks s)) auth meta policy_engine_new) = Ok \<lparr>ad_replay_status = Fresh\<rparr>"
    using authorize_permitted(1) [OF perm(1,3,2), of policy_engine_new] by (simp add: policy_engine_new_def)
  then obtain pe where "authorize (w_clock s (w_ticks s)) auth meta policy_engine_new = (Ok \<lparr>ad_replay_status = Fresh\<rparr>, pe)"
    by (cases "authorize (w_clock s (w_ticks s)) auth meta policy_engine_new") auto
  then obtain s0 where policy: "policy_authorize auth meta s = (Ok \<lparr>ad_replay_status = Fresh\<rparr>, s0)"
    and s0: "w_files s0 = w_files s" "fs_ready svc s0"
    using ready by (auto simp: policy_authorize_def bnd_def now_ms_def new fs_ready_def io_reliable_def)
  obtain now s1 where now: "now_ms s0 = (Ok now :: ApiError + u64, s1)" "w_files s1 = w_files s" "fs_ready svc s1"
    using s0 by (auto simp: now_ms_def fs_ready_def io_reliable_def)
  let ?rec = "\<lparr>rp_tenant_id = am_tenant_id meta, rp_jti = jti, rp_operation = operation_as_str (am_operation meta),
      rp_subject = am_subject meta, rp_idempotency_key = (case am_idempotency_key meta of None \<Rightarrow> [] | Some k \<Rightarrow> k),
      rp_observed_at_ms = now\<rparr>"
  let ?t = "am_tenant_id meta"
  obtain s2 where s2: "create_encrypted_json D svc (json_replay D) ?t ''replay'' key ?rec s1 =
      (Ok (w_files s1 (slot D svc ?t ''replay'' key) = None), s2)"
    "w_files s1 (slot D svc ?t ''replay'' key) = None \<Longrightarrow> wrote_json D svc (json_replay D) ?t ''replay'' key ?rec s1 s2"
    "w_files s1 (slot D svc ?t ''replay'' key) \<noteq> None \<Longrightarrow> quiet s1 s2"
    using create_encrypted_json_Ok [OF laws now(3), of ?t "''replay''" key ?rec] by blast
  show "\<exists>rec s1 s'. service_authorize D svc auth meta s = (Ok \<lparr>ad_replay_status = Fresh\<rparr>, s') \<and> w_files s1 = w_files s \<and>
        fs_ready svc s' \<and> wrote_json D svc (json_replay D) ?t ''replay'' key rec s1 s'"
    if "w_files s (slot D svc ?t ''replay'' key) = None"
    using that policy now s2(1,2) wrote_json_ready [OF now(3)] perm(2,3)
    by (intro exI [of _ ?rec] exI [of _ s1] exI [of _ s2])
      (auto simp: service_authorize_def observe_durable_replay_def bnd_def on_error_def Let_def key_def ret_def)
  show "\<exists>s'. service_authorize D svc auth meta s = (Ok \<lparr>ad_replay_status = IdempotentRetry\<rparr>, s')"
    if there: "peek D svc (json_replay D) ?t ''replay'' key (w_files s) = Ok (Some rec)"
      "am_idempotency_key meta = Some (rp_idempotency_key rec)"
  proof -
    have some: "w_files s (slot D svc ?t ''replay'' key) \<noteq> None" using peek_Some_slot [OF there(1)] by auto
    then have q: "quiet s1 s2" using s2(3) now(2) by simp
    obtain x s3 where rd: "read_encrypted_json D svc (json_replay D) ?t ''replay'' key s2 = (x, s3)" by force
    have "x = Ok (Some rec)"
      using read_encrypted_json_spec [OF fs_ready_quiet [OF q now(3)] rd] quietD(1) [OF q] now(2) there(1) by simp
    then show ?thesis
      using some policy now s2(1) rd perm(2,3) there(2)
      by (auto simp: service_authorize_def observe_durable_replay_def bnd_def on_error_def Let_def key_def ret_def
          lift_result_def ok_or_def)
  qed
qed

lemma now_ms_ready:
  assumes "fs_ready svc s"
  obtains now s' where "now_ms s = (Ok now :: ApiError + u64, s')" "fs_ready svc s'" "w_files s' = w_files s"
  using assms by (auto simp: now_ms_def fs_ready_def io_reliable_def)

lemma append_event_Ok:
  assumes laws: "namespace_laws D svc" "total_codec (json_sequence D)" "total_codec (json_event D)" and ready: "fs_ready svc s"
    and seq: "peek D svc (json_sequence D) t ''events'' ''sequence'' (w_files s) = Ok found"
  obtains n s' where "append_event D svc t ev s = (Ok n, s')" "fs_ready svc s'"
proof -
  obtain x s1 where rd: "read_encrypted_json D svc (json_sequence D) t ''events'' ''sequence'' s = (x, s1)" by force
  have x: "x = Ok found" "quiet s s1" using read_encrypted_json_spec [OF ready rd] seq by simp_all
  note ready1 = fs_ready_quiet [OF x(2) ready]
  let ?n = "case found of None \<Rightarrow> 1 | Some state \<Rightarrow> sq_next_seq state"
  obtain s2 where s2: "write_encrypted_json D svc (json_sequence D) t ''events'' ''sequence'' \<lparr>sq_next_seq = ?n + 1\<rparr> s1 = (Ok (), s2)"
    "wrote_json D svc (json_sequence D) t ''events'' ''sequence'' \<lparr>sq_next_seq = ?n + 1\<rparr> s1 s2"
    using write_encrypted_json_Ok [OF laws(1,2) ready1] by blast
  note ready2 = wrote_json_ready [OF ready1 s2(2)]
  obtain s3 where s3: "write_encrypted_json D svc (json_event D) t ''events'' (event_key ?n) (ev\<lparr>ev_seq := ?n\<rparr>) s2 = (Ok (), s3)"
    "wrote_json D svc (json_event D) t ''events'' (event_key ?n) (ev\<lparr>ev_seq := ?n\<rparr>) s2 s3"
    using write_encrypted_json_Ok [OF laws(1,3) ready2] by blast
  show ?thesis
    using that [of ?n s3] rd x(1) s2(1) s3(1) wrote_json_ready [OF ready2 s3(2)]
    by (simp add: append_event_def next_event_seq_def bnd_def ret_def Let_def)
qed

lemma write_audit_Ok:
  assumes laws: "namespace_laws D svc" "total_codec (json_audit D)" and ready: "fs_ready svc s"
  obtains s' where "write_audit D svc t seq op subject s = (Ok (), s')" "fs_ready svc s'"
proof -
  obtain now s1 where now: "now_ms s = (Ok now :: ApiError + u64, s1)" "fs_ready svc s1" by (rule now_ms_ready [OF ready])
  let ?key = "show_nat (unat seq) @ ''-'' @ cid_from_bytes D (as_bytes subject)"
  let ?rec = "\<lparr>au_seq = seq, au_tenant_id = t, au_operation = op, au_subject = subject, au_at_ms = now\<rparr>"
  obtain s2 where s2: "write_encrypted_json D svc (json_audit D) t ''audit'' ?key ?rec s1 = (Ok (), s2)"
      "wrote_json D svc (json_audit D) t ''audit'' ?key ?rec s1 s2"
    using write_encrypted_json_Ok [OF laws now(2), of t "''audit''" ?key ?rec] by blast
  then show ?thesis
    using that [of s2] now(1) wrote_json_ready [OF now(2) s2(2)] by (simp add: write_audit_def bnd_def)
qed

definition sample_bind_svc :: AlphaService where
  "sample_bind_svc = sample_svc\<lparr>as_issuer_registry := Some
     \<lparr>rg_issuers = [\<lparr>is_issuer = ''i'', is_key_id = ''k'', is_algorithm = ''Ed25519'',
        is_public_key_b64 = ref_text_encode (replicate 32 0), is_audiences = []\<rparr>]\<rparr>\<rparr>"

definition sample_nrec :: NamespaceMutationRecord where
  "sample_nrec =
     \<lparr>nm_version = 1, nm_tenant_id = TenantId ''t'', nm_namespace = ''n'', nm_path = ''p'', nm_kind = NM_Bind,
      nm_target_cid = Some ''m'', nm_if_revision = None, nm_ttl_ms = None, nm_metadata = [], nm_issued_at_ms = 1\<rparr>"

definition sample_signature :: CoseSign1 where
  "sample_signature = \<lparr>cs_protected = [], cs_key_id = [107], cs_payload = Some [], cs_signature = []\<rparr>"

definition sample_auth_code :: auth_deps where
  "sample_auth_code = ref_auth_deps\<lparr>cose_from_slice := \<lambda>_. Some sample_signature, cbor_mutation := \<lambda>_. Ok sample_nrec\<rparr>"

definition sample_bind_deps :: service_deps where
  "sample_bind_deps = ref_service_deps\<lparr>auth_code := sample_auth_code\<rparr>"

definition sample_bind :: BindRequest where
  "sample_bind =
     \<lparr>br_tenant_id = TenantId ''t'', br_namespace = ''n'', br_path = ''p'', br_target_cid = ''m'', br_if_revision = None,
      br_if_absent = True, br_metadata = [], br_ttl_ms = None, br_idempotency_key = ''i'', br_signed_record_b64 = []\<rparr>"

lemma sample_bind_canonical: "canonical_namespace_and_path ''n'' ''p'' = Ok (''n'', ''p'')"
  by code_simp

lemma core_of_auth_code [simp]:
  "sha256 (D\<lparr>auth_code := a\<rparr>) = sha256 D" "base32_nopad (D\<lparr>auth_code := a\<rparr>) = base32_nopad D"
  "b64url_encode (D\<lparr>auth_code := a\<rparr>) = b64url_encode D" "b64url_decode (D\<lparr>auth_code := a\<rparr>) = b64url_decode D"
  by (cases D, simp)+

lemma sample_bind_like: "ref_like sample_bind_deps"
  using ref_service_like by (simp add: sample_bind_deps_def ref_like_def)

lemma sample_bind_codecs [simp]:
  "json_ns_current sample_bind_deps = counting_codec" "json_ns_journal sample_bind_deps = counting_codec"
  "json_ns_revision sample_bind_deps = counting_codec" "json_replay sample_bind_deps = counting_codec"
  "json_idem_bind sample_bind_deps = counting_codec" "json_event sample_bind_deps = counting_codec"
  "json_sequence sample_bind_deps = counting_codec" "json_audit sample_bind_deps = counting_codec"
  "json_manifest_record sample_bind_deps = counting_codec" "as_store sample_bind_svc = Filesystem ''/d''"
  by (simp_all add: sample_bind_deps_def sample_bind_svc_def)

lemma sample_bind_laws: "namespace_laws sample_bind_deps sample_bind_svc"
  by (rule ref_namespace_laws [OF sample_bind_like]) simp_all

lemma sample_auth_code_simps [simp]:
  "cose_from_slice sample_auth_code = (\<lambda>_. Some sample_signature)" "cbor_mutation sample_auth_code = (\<lambda>_. Ok sample_nrec)"
  "ed25519_key_ok sample_auth_code = (\<lambda>_. True)" "ed25519_signature_ok sample_auth_code = (\<lambda>_. True)"
  "ed25519_verify sample_auth_code = (\<lambda>_ _ _. True)" "b64url_decode sample_auth_code = ref_text_decode"
  by (simp_all add: sample_auth_code_def ref_auth_deps_def core_deps.defs ref_core_deps_def)

lemma sample_bind_verified: "verify_signed_bind_record sample_bind_deps sample_bind_svc sample_bind ''n'' ''p'' = Ok sample_nrec"
proof -
  have "mutation_record_validate sample_nrec = Ok ()" unfolding sample_nrec_def by code_simp
  moreover have "ref_text_decode (as_bytes []) = Some []" by code_simp
  moreover have "str_from_utf8 [107] = Some ''k''" by code_simp
  ultimately show ?thesis
    by (simp add: verify_signed_bind_record_def sample_bind_svc_def ok_or_def verify_signed_namespace_record_def
        verify_cose_sign1_payload_def sample_bind_deps_def sample_bind_def resolve_key_id_def sample_signature_def)
      (simp add: sample_nrec_def)
qed

text \<open>A store with one committed manifest and nothing else.\<close>

lemma sample_committed:
  "\<exists>s. fs_ready sample_bind_svc s \<and> w_io s = (\<lambda>_. IoOk) \<and> w_clock s = (\<lambda>_. 5) \<and> sv_policy_engine s = policy_engine_new \<and>
     (\<forall>t kind key. plain_kind kind \<and> kind \<noteq> ''manifests'' \<longrightarrow> w_files s (slot sample_bind_deps sample_bind_svc t kind key) = None) \<and>
     peek sample_bind_deps sample_bind_svc counting_codec (TenantId ''t'') ''manifests'' ''m'' (w_files s) = Ok (Some sample_mrec)"
proof -
  let ?D = sample_bind_deps and ?svc = sample_bind_svc and ?t = "TenantId ''t''"
  let ?s = "(sample_service (\<lambda>_. IoOk))\<lparr>w_clock := \<lambda>_. 5\<rparr>"
  have s: "w_files ?s = Map.empty" "w_io ?s = (\<lambda>_. IoOk)" "sv_policy_engine ?s = policy_engine_new"
    by (simp_all add: sample_service_def world.defs sample_world_def entropy.defs)
  have ready: "fs_ready ?svc ?s" by (rule fault_free_ready [OF sample_bind_laws s(2)])
  obtain s1 where w: "write_encrypted_json ?D ?svc counting_codec ?t ''manifests'' ''m'' sample_mrec ?s = (Ok (), s1)"
      "wrote_json ?D ?svc counting_codec ?t ''manifests'' ''m'' sample_mrec ?s s1"
    by (rule write_encrypted_json_Ok [OF sample_bind_laws _ ready, of counting_codec ?t "''manifests''" "''m''" sample_mrec]) simp_all
  have kio: "keeps (\<lambda>io f. fst io = (\<lambda>_. IoOk)) (write_encrypted_json ?D ?svc counting_codec ?t ''manifests'' ''m'' sample_mrec)"
    by (intro keeps_write_encrypted_json) (simp add: free_at_def)
  have "w_files s1 (slot ?D ?svc t kind key) = None" if "plain_kind kind" "kind \<noteq> ''manifests''" for t kind key
    using wrote_json_files [of ?svc "''/d''", OF _ w(2) _ that(1)] that(2) s(1) by simp
  then show ?thesis
    using w(2) s keepsD [OF kio w(1)] wrote_json_ready [OF ready w(2)]
    by (intro exI [of _ "s1\<lparr>w_clock := \<lambda>_. 5\<rparr>"]) (auto simp: wrote_json_def fs_ready_def io_reliable_def)
qed

lemma ns_agree_absent:
  assumes "\<And>kind. kind \<in> set namespace_kinds \<Longrightarrow> f (slot D svc t kind ns) = None"
  shows "ns_agree D svc t ns f []"
  using ns_agree_cong [of f D svc t ns Map.empty "[]"] assms by simp

lemma free_at_ns_agree:
  assumes "namespace_laws D svc" "plain_kind kind" "kind \<notin> set namespace_kinds"
  shows "free_at (\<lambda>io f. ns_agree D svc t ns f journal) (slot D svc t' kind key)"
proof -
  obtain root where root: "as_store svc = Filesystem root" using assms(1) unfolding namespace_laws_def by blast
  have "slot D svc t kind' ns \<noteq> slot D svc t' kind key" if "kind' \<in> set namespace_kinds" for kind'
    using that assms(2,3) by (intro slot_kind_neq [OF root]) (auto simp: namespace_kinds_def)
  then have "ns_agree D svc t ns (f(slot D svc t' kind key := x)) journal = ns_agree D svc t ns f journal" for f x
    by (intro ns_agree_cong) simp
  then show ?thesis by (simp add: free_at_def)
qed

lemma sample_bind_sels:
  "br_tenant_id sample_bind = TenantId ''t''" "br_namespace sample_bind = ''n''" "br_path sample_bind = ''p''"
  "br_target_cid sample_bind = ''m''" "br_if_revision sample_bind = None" "br_if_absent sample_bind"
  "br_idempotency_key sample_bind = ''i''" "br_metadata sample_bind = []" "br_ttl_ms sample_bind = None"
  by (simp_all add: sample_bind_def)

lemma sample_bind_runs:
  "\<exists>s response s'. namespace_laws sample_bind_deps sample_bind_svc \<and> w_io s = (\<lambda>_. IoOk) \<and>
     ns_agree sample_bind_deps sample_bind_svc (TenantId ''t'') ''n'' (w_files s) [] \<and>
     ns_absent sample_bind_deps sample_bind_svc (TenantId ''t'') ''n'' (w_files s) \<and>
     (\<forall>key. w_files s (slot sample_bind_deps sample_bind_svc (TenantId ''t'') ''idempotency'' key) = None) \<and>
     bind_op sample_bind_deps sample_bind_svc sample_auth sample_bind s = (Ok response, s') \<and>
     (\<exists>e. ns_agree sample_bind_deps sample_bind_svc (TenantId ''t'') ''n'' (w_files s') [e]) \<and> w_io s' = (\<lambda>_. IoOk)"
proof -
  let ?D = sample_bind_deps and ?svc = sample_bind_svc and ?t = "TenantId ''t''"
  note laws = sample_bind_laws
  note total = counting_codec_total(1)
  obtain s where s: "fs_ready ?svc s" "w_io s = (\<lambda>_. IoOk)" "w_clock s = (\<lambda>_. 5)" "sv_policy_engine s = policy_engine_new"
    "\<And>t kind key. plain_kind kind \<Longrightarrow> kind \<noteq> ''manifests'' \<Longrightarrow> w_files s (slot ?D ?svc t kind key) = None"
    "peek ?D ?svc counting_codec ?t ''manifests'' ''m'' (w_files s) = Ok (Some sample_mrec)"
    using sample_committed by blast
  let ?meta = "(namespace_meta Op_Bind ?t ''n'' ''p'')\<lparr>am_idempotency_key := Some ''i''\<rparr>"
  let ?key = "durable_replay_key ?D ?t ''j'' Op_Bind (am_subject ?meta)"
  have perm: "permitted (w_clock s (w_ticks s)) sample_auth ?meta" "is_mutation Op_Bind" "cl_jti (ac_claims sample_auth) = Some ''j''"
    by (simp_all add: s(3) permitted_def sample_auth_def sample_claims_def namespace_meta_def auth_meta_def Let_def
        covers_def is_mutation_def)
  have meta: "am_tenant_id ?meta = ?t" "am_operation ?meta = Op_Bind"
    by (simp_all add: namespace_meta_def auth_meta_def)
  obtain rec :: ReplayRecord and s1 s2 where s2: "service_authorize ?D ?svc sample_auth ?meta s = (Ok \<lparr>ad_replay_status = Fresh\<rparr>, s2)"
      "w_files s1 = w_files s" "fs_ready ?svc s2" "wrote_json ?D ?svc counting_codec ?t ''replay'' ?key rec s1 s2"
    using authorize_mutation(1) [OF laws, of s sample_auth ?meta "''j''"] s perm meta total by auto
  have f2: "w_files s2 (slot ?D ?svc t kind key) = w_files s (slot ?D ?svc t kind key)"
    if "plain_kind kind" "kind \<noteq> ''replay''" for t kind key
    using wrote_json_files [of ?svc "''/d''", OF _ s2(4) _ that(1)] that(2) s2(2) by simp
  have ns2: "ns_agree ?D ?svc ?t ''n'' (w_files s2) []"
    by (rule ns_agree_absent) (auto simp: namespace_kinds_def f2 s(5))
  have m2: "peek ?D ?svc counting_codec ?t ''manifests'' ''m'' (w_files s2) = Ok (Some sample_mrec)"
    using s(6) peek_cong [of "w_files s2" ?D ?svc ?t "''manifests''" "''m''" "w_files s" "counting_codec :: ManifestRecord codec"]
    by (simp add: f2)
  obtain x s3 where rd: "read_encrypted_json ?D ?svc (counting_codec :: ManifestRecord codec) ?t ''manifests'' ''m'' s2 = (x, s3)" by force
  have x: "x = Ok (Some sample_mrec)" "quiet s2 s3" using read_encrypted_json_spec [OF s2(3) rd] m2 by simp_all
  note ready3 = fs_ready_quiet [OF x(2) s2(3)]
  have "stored_current ?D ?svc ?t ''n'' (w_files s3) = Ok \<lparr>nc_namespace = ''n'', nc_revision = 0, nc_bindings = []\<rparr>"
    using f2 s(5) quietD(1) [OF x(2)] by (simp add: stored_current_def peek_def peek_bytes_def)
  note cur3 = this
  obtain y s4 where cur: "namespace_current_state ?D ?svc ?t ''n'' s3 = (y, s4)" by force
  have y: "y = Ok \<lparr>nc_namespace = ''n'', nc_revision = 0, nc_bindings = []\<rparr>" "quiet s3 s4"
    using namespace_current_state_spec [OF ready3 cur] cur3 by simp_all
  note ready4 = fs_ready_quiet [OF y(2) ready3]
  have files4: "w_files s4 = w_files s2" using quietD(1) [OF x(2)] quietD(1) [OF y(2)] by simp
  let ?rcid = "record_cid ?D sample_nrec"
  let ?F = "\<lambda>rv. \<lparr>nc_namespace = ''n'', nc_revision = rv, nc_bindings = [(''p'', bound_state ''p'' sample_bind rv ?rcid)]\<rparr>"
  let ?E = "\<lambda>rv. bind_entry sample_nrec (bound_state ''p'' sample_bind rv ?rcid)"
  have h: "ns_agree ?D ?svc ?t ''n'' (w_files s4) []"
      "stored_current ?D ?svc ?t ''n'' (w_files s4) = Ok \<lparr>nc_namespace = ''n'', nc_revision = 0, nc_bindings = []\<rparr>"
      "(1 :: u64) = of_nat (Suc (length ([] :: NamespaceJournalEntry list)))"
    using ns2 cur3 files4 quietD(1) [OF x(2)] by simp_all
  have h': "nc_bindings (?F 1) = journal_step (?E 1) (nc_bindings \<lparr>nc_namespace = ''n'', nc_revision = 0, nc_bindings = []\<rparr>)"
      "nc_revision (?F 1) = 1" "nj_revision (?E 1) = 1"
    by (simp_all add: bind_entry_def bound_state_def journal_step_def Let_def) (simp add: sample_nrec_def)
  obtain s5 where change: "namespace_change ?D ?svc ?t ''n'' ?F ?E s4 = (Ok 1, s5)"
      "ns_agree ?D ?svc ?t ''n'' (w_files s5) ([] @ [?E 1])" and ready5: "fs_ready ?svc s5"
      and "stored_current ?D ?svc ?t ''n'' (w_files s5) = Ok (?F 1)" and files5:
    "\<And>t' kind key. plain_kind kind \<Longrightarrow> kind \<notin> set namespace_kinds \<Longrightarrow>
      w_files s5 (slot ?D ?svc t' kind key) = w_files s4 (slot ?D ?svc t' kind key)"
    apply (rule namespace_change_spec [where F = ?F and E = ?E, OF laws ready4 h h'])
    subgoal premises p by (rule p(1) [OF p(2-5)]) (rule p(6))
    done
  obtain now s6 where s6: "now_ms s5 = (Ok now :: ApiError + u64, s6)" "fs_ready ?svc s6" "w_files s6 = w_files s5"
    by (rule now_ms_ready [OF ready5])
  have seq: "peek ?D ?svc counting_codec ?t ''events'' ''sequence'' (w_files s6) = Ok None"
    using files5 s6(3) files4 f2 s(5) by (simp add: peek_def peek_bytes_def namespace_kinds_def)
  let ?ev = "\<lparr>ev_version = 1, ev_seq = 0, ev_at_ms = now, ev_event_type = NamespaceBound, ev_subject_kind = ''namespace'',
      ev_namespace = Some ''n'', ev_path = Some ''p'', ev_cid = Some ''m'', ev_revision = Some 1, ev_trace_id = None,
      ev_payload = []\<rparr>"
  obtain n s7 where s7: "append_event ?D ?svc ?t ?ev s6 = (Ok n, s7)" "fs_ready ?svc s7"
    by (rule append_event_Ok [OF laws _ _ s6(2), of ?t None ?ev]) (use seq in simp_all)
  obtain s8 where s8: "write_audit ?D ?svc ?t n (operation_as_str Op_Bind) (''n'' @ '':'' @ ''p'') s7 = (Ok (), s8)" "fs_ready ?svc s8"
    by (rule write_audit_Ok [OF laws _ s7(2), of ?t n "operation_as_str Op_Bind" "''n'' @ '':'' @ ''p''"]) simp_all
  let ?resp = "\<lparr>bp_revision = 1, bp_record_cid = ?rcid, bp_event_seq = n\<rparr>"
  let ?idem = "idempotency_key ?D ?t ''bind'' ''i''"
  obtain s9 where s9: "write_encrypted_json ?D ?svc counting_codec ?t ''idempotency'' ?idem \<lparr>idr_response = ?resp\<rparr> s8 = (Ok (), s9)"
    by (rule write_encrypted_json_Ok [OF laws _ s8(2), of counting_codec ?t "''idempotency''" ?idem]) simp_all
  have fin: "bind_finish ?D ?svc sample_bind ''n'' ''p'' ?rcid 1 s5 = (Ok ?resp, s8)"
    using s6(1) s7(1) s8(1) by (simp add: bind_finish_def bnd_def ret_def sample_bind_def)
  from fin have "bind_apply ?D ?svc sample_bind ''n'' ''p'' sample_nrec s2 = (Ok ?resp, s8)"
    using rd x(1) cur y(1) change(1)
    by (simp add: bind_apply_def bnd_def ensure_def ret_def manifest_record_def lift_result_def ok_or_def bind_precondition_def
        Let_def sample_bind_sels)
  then have op: "bind_op ?D ?svc sample_auth sample_bind s = (Ok ?resp, s9)"
    using sample_bind_canonical sample_bind_verified s2(1) s9
    by (simp add: bind_op_def bind_internal_def bnd_def lift_result_def ret_def Let_def sample_bind_sels)
  let ?J = "\<lambda>io f. ns_agree ?D ?svc ?t ''n'' f [?E 1]"
  have free: "free_at ?J (slot ?D ?svc ?t kind key)" if "plain_kind kind" "kind \<notin> set namespace_kinds" for kind key
    by (rule free_at_ns_agree [OF laws that])
  have "keeps ?J (bind_finish ?D ?svc sample_bind ''n'' ''p'' ?rcid 1)"
    by (rule keeps_finish(1) [where t = ?t], rule free) (auto simp: sample_bind_sels namespace_kinds_def)
  note k8 = keepsD [OF this fin]
  have "keeps ?J (write_encrypted_json ?D ?svc counting_codec ?t ''idempotency'' ?idem \<lparr>idr_response = ?resp\<rparr>)"
    by (rule keeps_write_encrypted_json, rule free) (auto simp: namespace_kinds_def)
  note k9 = keepsD [OF this s9]
  have agree9: "ns_agree ?D ?svc ?t ''n'' (w_files s9) [?E 1]" by (rule k9, rule k8) (use change(2) in simp)
  have "snd (run_steps (serve ?D ?svc) [(sample_auth, Rq_Bind sample_bind)] s) = s9"
    by (simp add: discard_def bnd_def ret_def op)
  then have "w_io s9 = (\<lambda>_. IoOk)" using s(2) io_of_run [of ?D ?svc "[(sample_auth, Rq_Bind sample_bind)]" s] by simp
  moreover have "ns_agree ?D ?svc ?t ''n'' (w_files s) []"
    by (rule ns_agree_absent) (auto simp: namespace_kinds_def s(5))
  moreover have "ns_absent ?D ?svc ?t ''n'' (w_files s)" by (auto simp: ns_absent_def namespace_kinds_def s(5))
  moreover have "\<forall>key. w_files s (slot ?D ?svc ?t ''idempotency'' key) = None" by (simp add: s(5))
  ultimately show ?thesis using op laws s(2) agree9
    by (intro exI [of _ s] exI [of _ ?resp] exI [of _ s9] conjI exI [of _ "?E 1"]) assumption+
qed

lemma sample_bind_name: "canonical_namespace_and_path (br_namespace sample_bind) (br_path sample_bind) = Ok (''n'', ''p'')"
  using sample_bind_canonical by (simp add: sample_bind_sels)

theorem namespace_records_agree_witness:
  "\<exists>(s :: service) later. w_io s = (\<lambda>_. IoOk) \<and> ns_agree sample_bind_deps sample_bind_svc (TenantId ''t'') ''n'' (w_files s) [] \<and>
     ns_agree sample_bind_deps sample_bind_svc (TenantId ''t'') ''n''
       (w_files (snd (run_steps (serve sample_bind_deps sample_bind_svc) [(sample_auth, Rq_Bind sample_bind)] s))) ([] @ later)"
proof -
  obtain s :: service where s: "w_io s = (\<lambda>_. IoOk)" "ns_agree sample_bind_deps sample_bind_svc (TenantId ''t'') ''n'' (w_files s) []"
    using sample_bind_runs by blast
  show ?thesis
    using namespace_records_agree [OF sample_bind_laws s, of "[(sample_auth, Rq_Bind sample_bind)]"] s by blast
qed

theorem snapshot_immutable_witness:
  "\<exists>(s :: service) e r. ns_agree sample_bind_deps sample_bind_svc (TenantId ''t'') ''n'' (w_files s) [e] \<and>
     fst (namespace_snapshot_at sample_bind_deps sample_bind_svc (TenantId ''t'') ''n'' (Some 1) s) = r \<and>
     fst (namespace_snapshot_at sample_bind_deps sample_bind_svc (TenantId ''t'') ''n'' (Some 1)
       (snd (run_steps (serve sample_bind_deps sample_bind_svc) [(sample_auth, Rq_Bind sample_bind)] s))) = r \<and>
     r = Ok \<lparr>nc_namespace = ''n'', nc_revision = 1, nc_bindings = journal_bindings [e]\<rparr>"
proof -
  obtain s :: service and e where s: "w_io s = (\<lambda>_. IoOk)" "ns_agree sample_bind_deps sample_bind_svc (TenantId ''t'') ''n'' (w_files s) [e]"
    using sample_bind_runs by blast
  have "(1 :: u64) < - 1" by (simp add: word_less_nat_alt unsigned_minus_1_eq_mask mask_eq_exp_minus_1)
  then show ?thesis
    using snapshot_immutable [OF sample_bind_laws s, of 1 _ _ "[(sample_auth, Rq_Bind sample_bind)]", OF _ _ surjective_pairing surjective_pairing]
    by (intro exI [of _ s] exI [of _ e] exI conjI s(2)) simp_all
qed

text \<open>After a bind, the current state and the journal of one entry.\<close>

theorem current_refines_journal_witness:
  "\<exists>(s :: service) s' e current s1 s2. ns_absent sample_bind_deps sample_bind_svc (TenantId ''t'') ''n'' (w_files s) \<and>
     s' = snd (run_steps (serve sample_bind_deps sample_bind_svc) [(sample_auth, Rq_Bind sample_bind)] s) \<and>
     stored_journal sample_bind_deps sample_bind_svc (TenantId ''t'') ''n'' (w_files s') = Ok [e] \<and>
     namespace_snapshot_at sample_bind_deps sample_bind_svc (TenantId ''t'') ''n'' None s' = (Ok current, s1) \<and>
     namespace_snapshot_at sample_bind_deps sample_bind_svc (TenantId ''t'') ''n'' (Some (nc_revision current)) s' =
       (Ok \<lparr>nc_namespace = ''n'', nc_revision = nc_revision current, nc_bindings = nc_bindings current\<rparr>, s2)"
proof -
  let ?D = sample_bind_deps and ?svc = sample_bind_svc and ?t = "TenantId ''t''"
  obtain s response s' e where s: "w_io s = (\<lambda>_. IoOk)" "ns_absent ?D ?svc ?t ''n'' (w_files s)"
      "bind_op ?D ?svc sample_auth sample_bind s = (Ok response, s')" "ns_agree ?D ?svc ?t ''n'' (w_files s') [e]"
    using sample_bind_runs by blast
  have run: "s' = snd (run_steps (serve ?D ?svc) [(sample_auth, Rq_Bind sample_bind)] s)"
    using s(3) by (simp add: discard_def)
  have journal: "stored_journal ?D ?svc ?t ''n'' (w_files s') = Ok [e]" using s(4) by (simp add: ns_agree_def)
  then have "length journal < 2 ^ 64 - 1" if "stored_journal ?D ?svc ?t ''n'' (w_files s') = Ok journal" for journal
    using that by simp
  from current_refines_journal [OF sample_bind_laws s(1,2) run this] s(2) run journal show ?thesis by blast
qed

definition sample_selector :: ObjectSelector where
  "sample_selector = \<lparr>sel_kind = Sel_Namespace, sel_cid = None, sel_namespace = Some ''n'', sel_path = Some ''p''\<rparr>"

theorem bind_selects_target_witness:
  "\<exists>s response s'. bind_op sample_bind_deps sample_bind_svc sample_auth sample_bind s = (Ok response, s') \<and>
     fst (selector_resolution sample_bind_deps sample_bind_svc (TenantId ''t'') sample_selector s') =
       Ok \<lparr>srs_manifest_cid = ''m'', srs_namespace = Some ''n'', srs_path = Some ''p'',
           srs_revision = Some (bp_revision response), srs_record_cid = Some (bp_record_cid response)\<rparr>"
proof -
  obtain s response s' where s: "w_io s = (\<lambda>_. IoOk)"
    "ns_agree sample_bind_deps sample_bind_svc (TenantId ''t'') ''n'' (w_files s) []"
    "\<forall>key. w_files s (slot sample_bind_deps sample_bind_svc (TenantId ''t'') ''idempotency'' key) = None"
    "bind_op sample_bind_deps sample_bind_svc sample_auth sample_bind s = (Ok response, s')"
    using sample_bind_runs by blast
  have "fst (selector_resolution sample_bind_deps sample_bind_svc (br_tenant_id sample_bind) sample_selector s') =
       Ok \<lparr>srs_manifest_cid = br_target_cid sample_bind, srs_namespace = Some (br_namespace sample_bind),
           srs_path = Some (br_path sample_bind),
           srs_revision = Some (bp_revision response), srs_record_cid = Some (bp_record_cid response)\<rparr>"
    by (rule bind_selects_target [OF sample_bind_laws s(1) sample_bind_name _ _ s(4)])
      (use s in \<open>simp_all add: sample_bind_sels sample_selector_def\<close>)
  then show ?thesis using s(4) by (auto simp: sample_bind_sels)
qed


theorem durable_replay_witness:
  "\<exists>s d s1 d' s3. service_authorize sample_bind_deps sample_bind_svc sample_auth
        ((namespace_meta Op_Bind (TenantId ''t'') ''n'' ''p'')\<lparr>am_idempotency_key := Some ''i''\<rparr>) s = (Ok d, s1) \<and>
      ad_replay_status d = Fresh \<and>
      service_authorize sample_bind_deps sample_bind_svc sample_auth
        ((namespace_meta Op_Bind (TenantId ''t'') ''n'' ''p'')\<lparr>am_idempotency_key := Some ''i''\<rparr>)
        (s1\<lparr>sv_policy_engine := policy_engine_new, w_clock := \<lambda>_. 5\<rparr>) = (Ok d', s3) \<and>
      ad_replay_status d' = IdempotentRetry"
proof -
  let ?D = sample_bind_deps and ?svc = sample_bind_svc and ?t = "TenantId ''t''"
  note laws = sample_bind_laws
  obtain s where s: "fs_ready ?svc s" "w_io s = (\<lambda>_. IoOk)" "w_clock s = (\<lambda>_. 5)" "sv_policy_engine s = policy_engine_new"
    "\<And>t kind key. plain_kind kind \<Longrightarrow> kind \<noteq> ''manifests'' \<Longrightarrow> w_files s (slot ?D ?svc t kind key) = None"
    using sample_committed by blast
  let ?meta = "(namespace_meta Op_Bind ?t ''n'' ''p'')\<lparr>am_idempotency_key := Some ''i''\<rparr>"
  let ?key = "durable_replay_key ?D ?t ''j'' Op_Bind (am_subject ?meta)"
  have perm: "permitted 5 sample_auth ?meta" "is_mutation Op_Bind" "cl_jti (ac_claims sample_auth) = Some ''j''"
    by (simp_all add: permitted_def sample_auth_def sample_claims_def namespace_meta_def auth_meta_def Let_def
        covers_def is_mutation_def)
  have meta: "am_tenant_id ?meta = ?t" "am_operation ?meta = Op_Bind" "am_idempotency_key ?meta = Some ''i''"
    by (simp_all add: namespace_meta_def auth_meta_def)
  have total: "total_codec (json_replay ?D)" using counting_codec_total(1) by simp
  obtain s1 where s1: "service_authorize ?D ?svc sample_auth ?meta s = (Ok \<lparr>ad_replay_status = Fresh\<rparr>, s1)" "fs_ready ?svc s1"
    using authorize_mutation(1) [OF laws total, of s sample_auth ?meta "''j''"] s perm meta by auto
  have codec: "codec_ok (json_replay ?D)" and store: "as_store ?svc = Filesystem ''/d''" "store_laws ?D"
    using total laws by (simp_all add: total_codec_def namespace_laws_def)
  obtain rec where rec: "peek ?D ?svc (json_replay ?D) ?t ''replay'' ?key (w_files s1) = Ok (Some rec)"
      "rp_idempotency_key rec = ''i''"
    using authorize_leaves_record [OF store codec s1(1) _ perm(3)] meta perm(2) by (auto simp: idem_text_def)
  let ?s2 = "s1\<lparr>sv_policy_engine := policy_engine_new, w_clock := \<lambda>_. 5\<rparr>"
  have ready2: "fs_ready ?svc ?s2" using s1(2) by (auto simp: fs_ready_def io_reliable_def)
  obtain s3 where s3: "service_authorize ?D ?svc sample_auth ?meta ?s2 = (Ok \<lparr>ad_replay_status = IdempotentRetry\<rparr>, s3)"
    using authorize_mutation(2) [OF laws total ready2, of sample_auth ?meta "''j''" rec] perm meta rec by auto
  have "ad_replay_status \<lparr>ad_replay_status = IdempotentRetry\<rparr> = IdempotentRetry"
    using durable_replay [where reqs = "[]" and ?s2.0 = ?s2, OF store codec s1(1) _ perm(3) _ s3] meta perm by simp
  then show ?thesis using s1(1) s3 by fastforce
qed

end
