(* ===== verification/HSP_Dist_Samples.thy ===== *)
theory HSP_Dist_Samples
  imports HSP_Dist_Safety HSP_Samples
begin

text \<open>
  A small instance of the distribution layer, on the reference service, for the witnesses of the
  properties that have hypotheses.
\<close>

section \<open>A reference distribution layer\<close>

instance BucketRecord_ext :: (countable) countable
proof (rule countable_classI [of "\<lambda>r. to_nat (bk_tenant_id r, bk_bucket r, bk_namespace r, bk_visibility_policy r, bk_namespace_cache_ttl_sec r, bk_immutable_cid_cache_ttl_sec r, bk_created_at_ms r, BucketRecord.more r)"])
  fix r s :: "'a BucketRecord_scheme"
  assume "to_nat (bk_tenant_id r, bk_bucket r, bk_namespace r, bk_visibility_policy r, bk_namespace_cache_ttl_sec r, bk_immutable_cid_cache_ttl_sec r, bk_created_at_ms r, BucketRecord.more r) = to_nat (bk_tenant_id s, bk_bucket s, bk_namespace s, bk_visibility_policy s, bk_namespace_cache_ttl_sec s, bk_immutable_cid_cache_ttl_sec s, bk_created_at_ms s, BucketRecord.more s)"
  then show "r = s" by (cases r; cases s) simp
qed

instance ObjectLockRecord_ext :: (countable) countable
proof (rule countable_classI [of "\<lambda>r. to_nat (ol_tenant_id r, ol_bucket r, ol_key r, ol_immutable_until_ms r, ol_legal_hold r, ol_mode r, ol_updated_at_ms r, ObjectLockRecord.more r)"])
  fix r s :: "'a ObjectLockRecord_scheme"
  assume "to_nat (ol_tenant_id r, ol_bucket r, ol_key r, ol_immutable_until_ms r, ol_legal_hold r, ol_mode r, ol_updated_at_ms r, ObjectLockRecord.more r) = to_nat (ol_tenant_id s, ol_bucket s, ol_key s, ol_immutable_until_ms s, ol_legal_hold s, ol_mode s, ol_updated_at_ms s, ObjectLockRecord.more s)"
  then show "r = s" by (cases r; cases s) simp
qed

definition ref_dist_deps :: "service_deps \<Rightarrow> dist_deps" where
  "ref_dist_deps E =
     \<lparr>alpha_code = E, json_bucket = counting_codec, json_dist_metadata = refusing_codec,
      json_bucket_acl = refusing_codec, json_object_acl = refusing_codec, json_lifecycle = refusing_codec,
      json_object_lock = counting_codec, json_website = refusing_codec, json_replication = refusing_codec,
      json_replication_status = refusing_codec, json_access_key = refusing_codec, json_multipart_session = refusing_codec,
      json_multipart_part = refusing_codec, json_presign_audit = refusing_codec, json_edge_claims = refusing_codec,
      cbor_write_mutation = (\<lambda>_. Ok []), cose_sign1 = (\<lambda>_ _ _. Ok []), hmac_key_error = (\<lambda>_. None),
      header_to_str = (\<lambda>bytes. Some (from_bytes bytes))\<rparr>"

definition sample_ds :: "AlphaService \<Rightarrow> DistributionService" where
  "sample_ds svc =
     \<lparr>ds_config = \<lparr>dc_alpha = as_config svc, dc_capability_audience = ''a'', dc_immutable_cid_ttl_sec = 60,
                   dc_namespace_ttl_sec = 5, dc_plaintext_profile_enabled = True, dc_aws_kms = None\<rparr>,
      ds_alpha = svc, ds_object_kms = sample_kms, ds_store_kms = LocalKms sample_kms, ds_store = as_store svc,
      ds_issuer_registry = \<lparr>rg_issuers = []\<rparr>, ds_namespace_signing_key = [], ds_namespace_signing_key_id = ''k'',
      ds_edge_signing_secret = []\<rparr>"

lemma ref_dist_simps [simp]:
  "alpha_code (ref_dist_deps E) = E" "json_object_lock (ref_dist_deps E) = counting_codec"
  "json_bucket (ref_dist_deps E) = counting_codec"
  "ds_alpha (sample_ds svc) = svc" "ds_store (sample_ds svc) = as_store svc" "ds_store_kms (sample_ds svc) = LocalKms sample_kms"
  by (simp_all add: ref_dist_deps_def sample_ds_def)

lemma ref_dist_laws: "ref_like E \<Longrightarrow> as_store svc = Filesystem root \<Longrightarrow> dist_laws (ref_dist_deps E) (sample_ds svc) root sample_kms"
  by (simp add: dist_laws_def ref_integrity_laws ref_dir_laws)

lemma ref_envelope_total: "ref_like E \<Longrightarrow> \<exists>raw. to_vec (json_envelope E) env = Ok raw"
  by (simp add: ref_like_def ref_envelope_codec_def)

lemma sample_io [simp]: "w_io (sample_service io) = io"
  by (simp add: sample_service_def world.defs sample_world_def entropy.defs)

text \<open>A state whose store holds one lock record and nothing else.\<close>

lemma sample_lock_state:
  assumes "ref_like E" "as_store svc = Filesystem root" "lock_names_slot (ref_dist_deps E) t key rec"
  shows "\<exists>s :: service. w_io s = io \<and> w_clock s = clock \<and> locks_own (ref_dist_deps E) (sample_ds svc) sample_kms (w_files s) \<and>
    stored_lock (ref_dist_deps E) (sample_ds svc) sample_kms t key (w_files s) = Ok (Some rec)"
proof -
  let ?D = "ref_dist_deps E" and ?ds = "sample_ds svc"
  note laws = ref_dist_laws [OF assms(1,2)]
  obtain plaintext where p: "to_vec counting_codec rec = Ok plaintext"
    using counting_codec_total(1) unfolding total_codec_def by blast
  obtain env s1 where e: "local_encrypt_store_payload E sample_kms t OBJECT_LOCK_STORE plaintext (sample_service io) = (Ok env, s1)"
    using ref_encrypt_total [OF assms(1)] by blast
  obtain raw where r: "to_vec (json_envelope E) env = Ok raw" using ref_envelope_total [OF assms(1)] by blast
  let ?f = "Map.empty(dist_slot ?D ?ds t OBJECT_LOCK_STORE key \<mapsto> raw)"
  have st: "stored_lock ?D ?ds sample_kms t key ?f = Ok (Some rec)"
    unfolding stored_lock_def ref_dist_simps(2)
    by (rule encrypted_record_peek(1) [OF laws counting_codec_total(2) p]) (unfold ref_dist_simps(1), rule e, rule r)
  have "locks_own ?D ?ds sample_kms ?f"
    by (rule locks_own_update [OF laws locks_own_empty assms(3)]) (unfold st, rule insertI1)
  with st show ?thesis
    by (intro exI [of _ "(sample_service io)\<lparr>w_clock := clock, w_files := ?f\<rparr>"] conjI) simp_all
qed

section \<open>Witnesses\<close>

definition sample_lock :: "ObjectLockRecord" where
  "sample_lock = \<lparr>ol_tenant_id = TenantId ''t'', ol_bucket = ''b'', ol_key = ''k'', ol_immutable_until_ms = Some 9,
     ol_legal_hold = False, ol_mode = Some ''COMPLIANCE'', ol_updated_at_ms = 1\<rparr>"

lemma sample_lock_named: "lock_names_slot D (TenantId ''t'') (object_lock_store_key ''b'' ''k'') sample_lock"
  by (simp add: lock_names_slot_def sample_lock_def)

text \<open>Another tenant creates a bucket, while every second system call fails.\<close>

theorem dist_tenant_isolation_witness:
  "\<exists>s'. dist_run (ref_dist_deps ref_service_deps) (sample_ds sample_svc) {t'. t' \<noteq> TenantId ''t''}
        (sample_service (\<lambda>n. if even n then IoOk else IoFail ''e'' None)) s' \<and>
     w_files s' (tenant_file ref_service_deps ''/d'' (TenantId ''t'') ''acl'' ''x'') = None" (is "\<exists>s'. dist_run ?D ?ds ?T ?s s' \<and> _")
proof -
  let ?r = "create_bucket ?D ?ds sample_auth (TenantId ''o'') ''b'' ?s"
  have "dist_run ?D ?ds ?T ?s (snd ?r)"
    by (rule run_request [OF run_start, of "TenantId ''o''"]) (auto intro!: dist_step.create_bucket simp: prod_eq_iff)
  moreover have "w_files (snd ?r) (tenant_file ref_service_deps ''/d'' (TenantId ''t'') ''acl'' ''x'') = None"
    using dist_tenant_isolation [OF ref_dist_laws [OF ref_service_like, of sample_svc "''/d''"] _ _ calculation, of "''acl''" "''x''"]
    by (simp add: plain_kind_def)
  ultimately show ?thesis by blast
qed

text \<open>An attempt to clear the retention of an object, four milliseconds before it ends.\<close>

theorem compliance_retention_kept_witness:
  "\<exists>s s' rec. stored_lock (ref_dist_deps ref_service_deps) (sample_ds sample_svc) sample_kms (TenantId ''t'')
        (object_lock_store_key ''b'' ''k'') (w_files s) = Ok (Some sample_lock) \<and>
     s' = snd (put_object_retention (ref_dist_deps ref_service_deps) (sample_ds sample_svc) sample_auth (TenantId ''t'')
        ''b'' ''k'' None None s) \<and>
     stored_lock (ref_dist_deps ref_service_deps) (sample_ds sample_svc) sample_kms (TenantId ''t'')
        (object_lock_store_key ''b'' ''k'') (w_files s') = Ok (Some rec) \<and> is_compliance rec"
proof -
  let ?D = "ref_dist_deps ref_service_deps" and ?ds = "sample_ds sample_svc" and ?t = "TenantId ''t''"
  obtain s :: service where s: "w_io s = (\<lambda>_. IoOk)" "w_clock s = (\<lambda>_. 5)" "locks_own ?D ?ds sample_kms (w_files s)"
      "stored_lock ?D ?ds sample_kms ?t (object_lock_store_key ''b'' ''k'') (w_files s) = Ok (Some sample_lock)"
    using sample_lock_state [OF ref_service_like _ sample_lock_named, of sample_svc "''/d''" "\<lambda>_. IoOk" "\<lambda>_. 5"] by auto
  let ?s' = "snd (put_object_retention ?D ?ds sample_auth ?t ''b'' ''k'' None None s)"
  have run: "dist_run ?D ?ds UNIV s ?s'"
    by (rule run_request [OF run_start, of ?t]) (auto intro!: dist_step.put_retention simp: prod_eq_iff)
  have "is_compliance sample_lock" "ol_immutable_until_ms sample_lock = Some 9"
    by (simp_all add: is_compliance_def sample_lock_def eq_ignore_ascii_case_def, code_simp)
  then have "\<exists>rec' until'. stored_lock ?D ?ds sample_kms ?t (object_lock_store_key ''b'' ''k'') (w_files ?s') = Ok (Some rec') \<and>
      is_compliance rec' \<and> ol_immutable_until_ms rec' = Some until' \<and> 9 \<le> until'"
    using s by (intro compliance_retention_kept [OF ref_dist_laws [OF ref_service_like, of sample_svc "''/d''"] _ _ _ s(4) _ _ run]) simp_all
  then show ?thesis using s(4) by blast
qed

end
