(* ===== verification/HSP_Http_Samples.thy ===== *)
theory HSP_Http_Samples
  imports HSP_Http_Safety HSP_Dist_Samples
begin

text \<open>
  The two HTTP servers on the reference distribution layer, for the witnesses of their properties.
\<close>

definition ref_http_deps :: http_deps where
  "ref_http_deps =
     \<lparr>dist_code = ref_dist_deps ref_service_deps, header_value_error = (\<lambda>_. None), length_limit_error = ''length limit exceeded'',
      route_matches = (\<lambda>pattern path. pattern = path), unrouted = \<lparr>rs_status = 404, rs_headers = [], rs_body = []\<rparr>,
      json_logs = (\<lambda>_. Err ''json'')\<rparr>"

definition ref_cdn_deps :: cdn_deps where
  "ref_cdn_deps = http_deps.extend ref_http_deps \<lparr>json_error_body = (\<lambda>e. Ok (as_bytes (eb_code e)))\<rparr>"

definition refusing_xml :: "'a xml_codec" where
  "refusing_xml = \<lparr>to_xml = (\<lambda>_. Err ''xml''), from_xml = (\<lambda>_. Err ''xml'')\<rparr>"

definition ref_s3_deps :: s3_deps where
  "ref_s3_deps = http_deps.extend ref_http_deps
     \<lparr>xml_error_doc = (\<lambda>_. Err ''xml''), xml_buckets = (\<lambda>_. Err ''xml''), xml_list_bucket = (\<lambda>_. Err ''xml''),
      xml_delete = refusing_xml, xml_delete_result = (\<lambda>_. Err ''xml''), xml_copy_result = (\<lambda>_. Err ''xml''),
      xml_initiate = (\<lambda>_. Err ''xml''), xml_complete = (\<lambda>_. Err ''xml''), xml_complete_result = (\<lambda>_. Err ''xml''),
      xml_acl = refusing_xml, xml_lifecycle = refusing_xml, xml_retention = refusing_xml, xml_legal_hold = refusing_xml,
      xml_website = refusing_xml, xml_replication = refusing_xml, xml_replication_status = (\<lambda>_. Err ''xml'')\<rparr>"

lemma ref_front_simps [simp]:
  "dist_code ref_http_deps = ref_dist_deps ref_service_deps" "dist_code ref_cdn_deps = ref_dist_deps ref_service_deps"
  "dist_code ref_s3_deps = ref_dist_deps ref_service_deps"
  by (simp_all add: ref_s3_deps_def ref_cdn_deps_def ref_http_deps_def http_deps.defs)

definition sample_s3 :: S3State where
  "sample_s3 = \<lparr>s3s_service = sample_ds sample_svc, s3s_virtual_host_suffix = None\<rparr>"

definition sample_cdn :: CdnState where
  "sample_cdn = \<lparr>cst_service = sample_ds sample_svc, cst_immutable_cid_ttl_sec = 60, cst_namespace_ttl_sec = 5\<rparr>"

text \<open>A request without credentials.\<close>

definition anonymous :: "string \<Rightarrow> string \<Rightarrow> HttpRequest" where
  "anonymous m p = \<lparr>hq_method = m, hq_path = p, hq_query = None, hq_headers = [], hq_body = Ok []\<rparr>"

lemma anonymous_tenant:
  "s3_tenant H st (anonymous m p) s = None" "cdn_tenant H' st' (anonymous m p) s = None"
  by (auto simp: s3_tenant_def cdn_tenant_def signed_tenant_def anonymous_def has_header_def header_get_def query_text_def
      edge_token_of_def header_text_def header_values_def query_pairs_def str_contains_def to_bytes_def rbnd_def
      split: sum.splits option.splits)

text \<open>Requests without credentials at both servers, then another tenant creates a bucket.\<close>

theorem http_tenant_isolation_witness:
  "\<exists>s'. http_run ref_s3_deps sample_s3 ref_cdn_deps sample_cdn (TenantId ''t'')
        (sample_service (\<lambda>n. if even n then IoOk else IoFail ''e'' None)) s' \<and>
     w_files s' (tenant_file ref_service_deps ''/d'' (TenantId ''t'') ''acl'' ''x'') = None"
  (is "\<exists>s'. http_run ?H ?st ?H' ?st' ?t ?s s' \<and> _")
proof -
  let ?s1 = "snd (s3_handle_request ?H ?st (anonymous ''DELETE'' ''/b/k'') ?s)"
  let ?w = "\<lparr>cw_service = ?s1, cw_cache = []\<rparr>"
  let ?s2 = "cw_service (snd (cdn_router ?H' ?st' (anonymous ''GET'' ''/b/b/k'') ?w))"
  let ?s3 = "snd (create_bucket (ref_dist_deps ref_service_deps) (sample_ds sample_svc) sample_auth (TenantId ''o'') ''b'' ?s2)"
  have "dist_run (dist_code ?H) (s3s_service ?st) {t'. t' \<noteq> ?t} ?s2 ?s3"
    unfolding ref_front_simps by (rule run_request [OF run_start, of "TenantId ''o''"])
      (auto intro!: dist_step.create_bucket simp: prod_eq_iff sample_s3_def)
  moreover have "http_run ?H ?st ?H' ?st' ?t ?s ?s1"
    by (rule http_s3 [OF http_start]) (auto simp: prod_eq_iff anonymous_tenant)
  then have "http_run ?H ?st ?H' ?st' ?t ?s (cw_service ?w)" by simp
  then have "http_run ?H ?st ?H' ?st' ?t ?s ?s2"
    by (rule http_cdn) (auto simp: prod_eq_iff anonymous_tenant)
  ultimately have run: "http_run ?H ?st ?H' ?st' ?t ?s ?s3" by (rule http_other [rotated])
  then have "w_files ?s3 (tenant_file ref_service_deps ''/d'' ?t ''acl'' ''x'') = None"
    using http_tenant_isolation [OF _ _ _ _ _ run, of "''/d''" sample_kms "''acl''" "''x''"]
      ref_dist_laws [OF ref_service_like, of sample_svc "''/d''"]
    by (simp add: plain_kind_def sample_s3_def sample_cdn_def)
  with run show ?thesis by blast
qed

end
