(* ===== verification/HSP_Front_Samples.thy ===== *)
theory HSP_Front_Samples
  imports HSP_Front_Safety HSP_Native_Stream HSP_Http_Samples
begin

text \<open>
  The native server and the gateway on the reference service, for the witnesses of their properties: a
  capability of the tenant \<open>t\<close> that verifies, on a TLS session that exports no bytes.
\<close>

section \<open>Reference servers\<close>

definition front_auth_code :: auth_deps where
  "front_auth_code = ref_auth_deps\<lparr>cose_from_slice := \<lambda>_. Some sample_signature, cbor_claims := \<lambda>_. Ok sample_claims\<rparr>"

definition front_deps :: service_deps where
  "front_deps = ref_service_deps\<lparr>auth_code := front_auth_code\<rparr>"

definition front_registry :: IssuerRegistry where
  "front_registry =
     \<lparr>rg_issuers = [\<lparr>is_issuer = ''i'', is_key_id = ''k'', is_algorithm = ''Ed25519'',
        is_public_key_b64 = ref_text_encode (replicate 32 0), is_audiences = []\<rparr>]\<rparr>"

definition front_binding :: ChannelBindingProof where
  "front_binding = \<lparr>cb_binding_kind = ''tls-exporter'', cb_proof_b64 = [], cb_nonce = ''n''\<rparr>"

definition front_auth :: AuthContext where
  "front_auth = \<lparr>ac_claims = sample_claims, ac_channel_binding = Some front_binding\<rparr>"

definition front_tls :: tls_exporter where
  "front_tls = (\<lambda>_ _. Some [])"

lemma front_simps [simp]:
  "auth_code front_deps = front_auth_code" "b64url_encode front_deps = ref_text_encode"
  "cose_from_slice front_auth_code = (\<lambda>_. Some sample_signature)" "cbor_claims front_auth_code = (\<lambda>_. Ok sample_claims)"
  "ed25519_key_ok front_auth_code = (\<lambda>_. True)" "ed25519_signature_ok front_auth_code = (\<lambda>_. True)"
  "ed25519_verify front_auth_code = (\<lambda>_ _ _. True)" "b64url_decode front_auth_code = ref_text_decode"
  "ac_claims front_auth = sample_claims" "cl_tenant_id sample_claims = TenantId ''t''"
  by (simp_all add: front_deps_def front_auth_code_def ref_auth_deps_def core_deps.defs ref_core_deps_def front_auth_def
      sample_claims_def)

lemma front_like: "ref_like front_deps"
  using ref_service_like by (simp add: front_deps_def ref_like_def)

lemma front_verified: "verify_channel front_deps front_tls front_registry [] front_binding = Ok front_auth"
proof -
  have "ref_text_decode (as_bytes []) = Some []" by code_simp
  then have "verify_cose_sign1_token front_auth_code [] front_registry = Ok sample_claims"
    by (simp add: verify_cose_sign1_token_def verify_cose_sign1_payload_def ok_or_def sample_signature_def front_registry_def
        registry_resolve_def) (simp add: sample_claims_def)
  then show ?thesis
    by (simp add: verify_channel_def front_tls_def ok_or_def verify_tls_exporter_binding_def front_binding_def
        front_auth_def ref_text_encode_def)
qed

text \<open>A codec of one value.\<close>

definition one_codec :: "'a \<Rightarrow> 'a codec" where
  "one_codec v = \<lparr>to_vec = (\<lambda>x. if x = v then Ok [1] else Err ''unsupported''), from_slice = (\<lambda>_. Ok v)\<rparr>"

lemma one_codec_ok [simp]: "codec_ok (one_codec v)"
  by (simp add: codec_ok_def one_codec_def)

definition front_header :: "unit ReqHeader" where
  "front_header =
     \<lparr>rq_version = 1, rq_operation = Op_Head, rq_request_id = None, rq_payload_mode = None, rq_payload_length = None,
      rq_params = [], rq_extensions = []\<rparr>"

definition front_frame :: AuthFrame where
  "front_frame = \<lparr>af_token_b64 = [], af_channel_binding = front_binding\<rparr>"

definition front_wire :: "unit wire_deps" where
  "front_wire = ref_wire_deps\<lparr>cbor_req_header := one_codec front_header, cbor_auth := one_codec front_frame\<rparr>"


lemma front_wire_laws: "wire_laws front_wire"
  using ref_wire_laws by (simp add: wire_laws_def front_wire_def)

definition other_head :: HeadRequest where
  "other_head = \<lparr>hq_tenant_id = TenantId ''o'', hq_selector = selector_cid ''c''\<rparr>"

definition front_json :: api_json where
  "front_json =
     \<lparr>aj_bootstrap = (\<lambda>_. Err ''json''), aj_info = (\<lambda>_. Err ''json''), aj_logs = (\<lambda>_. Err ''json''),
      aj_error = (\<lambda>e. Ok (as_bytes (err_code e))), aj_head_request = (\<lambda>_. Ok other_head), aj_head = (\<lambda>_. Err ''json''),
      aj_get_request = (\<lambda>_. Err ''json''), aj_get_meta = (\<lambda>_. Err ''json''), aj_resolve_request = (\<lambda>_. Err ''json''),
      aj_resolve = (\<lambda>_. Err ''json''), aj_bind_request = (\<lambda>_. Err ''json''), aj_bind = (\<lambda>_. Err ''json''),
      aj_unbind_request = (\<lambda>_. Err ''json''), aj_unbind = (\<lambda>_. Err ''json''), aj_list_request = (\<lambda>_. Err ''json''),
      aj_list = (\<lambda>_. Err ''json''), aj_subscribe_request = (\<lambda>_. Err ''json''), aj_envelope = (\<lambda>_. Err ''json''),
      aj_put_init_request = (\<lambda>_. Err ''json''), aj_put_init = (\<lambda>_. Err ''json''), aj_put_chunk = (\<lambda>_. Err ''json''),
      aj_put_commit_request = (\<lambda>_. Err ''json''), aj_put_commit = (\<lambda>_. Err ''json'')\<rparr>"

definition front_native :: "unit native_deps" where
  "front_native =
     \<lparr>nd_service = front_deps, nd_wire = front_wire, nd_json = front_json, json_meta_value = (\<lambda>_. Err ''json''),
      json_string_value = (\<lambda>_. ()), json_put_chunk_params = (\<lambda>_. Err ''json'')\<rparr>"

definition front_state :: NativeState where
  "front_state = \<lparr>nst_service = sample_svc, nst_issuer_registry = front_registry\<rparr>"

definition front_gw :: gw_deps where
  "front_gw = http_deps.extend (ref_http_deps\<lparr>dist_code := ref_dist_deps front_deps\<rparr>)
     \<lparr>gw_json = front_json, gw_meta_line = (\<lambda>_. []), gw_chunk_line = (\<lambda>_ _. []), uri_host = (\<lambda>_. None),
      uri_with_authority = (\<lambda>_ _. None)\<rparr>"

definition front_gw_state :: GatewayState where
  "front_gw_state = \<lparr>gws_service = sample_svc, gws_issuer_registry = front_registry\<rparr>"

lemma front_state_simps [simp]:
  "nd_service front_native = front_deps" "nd_wire front_native = front_wire" "nst_service front_state = sample_svc"
  "nst_issuer_registry front_state = front_registry" "gws_service front_gw_state = sample_svc"
  "gws_issuer_registry front_gw_state = front_registry" "dist_code front_gw = ref_dist_deps front_deps"
  by (simp_all add: front_native_def front_state_def front_gw_state_def front_gw_def http_deps.defs)

section \<open>A request of the native server\<close>

definition front_frames :: "unit Frame list" where
  "front_frames = [Fr_Auth front_frame, Fr_ReqHeader front_header] @ map Fr_Data [[1, 2], [3]] @ [Fr_End]"

lemma front_frames_written:
  obtains cw' where "write_frames front_wire front_frames \<lparr>wr_sent = [], wr_room = None\<rparr> = (Ok (), cw')"
proof -
  have "fst (write_frames front_wire front_frames \<lparr>wr_sent = [], wr_room = None\<rparr>) = Ok ()"
    by (simp add: front_frames_def bnd_def write_frame_def lift_result_def front_wire_def encode_cbor_def map_err_def
        enforce_frame_len_def MAX_CONTROL_FRAME_LEN_def MAX_DATA_FRAME_LEN_def Let_def io_step_def write_all_def ret_def
        one_codec_def)
  then show ?thesis using that by (metis prod.collapse)
qed

lemma front_frame_verified: "verify_auth_frame front_native front_tls front_registry front_frame = Ok front_auth"
  by (simp add: verify_auth_frame_def front_frame_def front_verified)

lemma front_request_hyps:
  "length (concat [[1, 2], [3 :: byte]]) \<le> native_body_limit front_header" "rq_operation front_header = Op_Head"
  "\<exists>cw'. write_frames (nd_wire front_native) ([Fr_Auth front_frame, Fr_ReqHeader front_header] @
      map Fr_Data [[1, 2], [3]] @ [Fr_End]) \<lparr>wr_sent = [], wr_room = None\<rparr> = (Ok (), cw')"
proof -
  obtain cw' where "write_frames front_wire front_frames \<lparr>wr_sent = [], wr_room = None\<rparr> = (Ok (), cw')"
    by (rule front_frames_written)
  then show "\<exists>cw'. write_frames (nd_wire front_native) ([Fr_Auth front_frame, Fr_ReqHeader front_header] @
      map Fr_Data [[1, 2], [3]] @ [Fr_End]) \<lparr>wr_sent = [], wr_room = None\<rparr> = (Ok (), cw')"
    unfolding front_frames_def front_state_simps by (rule exI)
qed (simp_all add: native_body_limit_def front_header_def NATIVE_JSON_BODY_LIMIT_BYTES_def)

text \<open>The body arrives in two frames and the operation is served with the three bytes.\<close>

theorem native_request_roundtrip_witness:
  "\<exists>bytes. handle_request_stream front_native front_state (\<lambda>_ _ s. s) front_tls
       \<lparr>nw_service = sample_service (\<lambda>_. IoOk), nw_recv = \<lparr>rd_pending = bytes @ [7]\<rparr>, nw_send = \<lparr>wr_sent = [], wr_room = None\<rparr>\<rparr> =
     Some (native_dispatch front_native front_state (Some front_auth) front_header [1, 2, 3]
       \<lparr>nw_service = sample_service (\<lambda>_. IoOk), nw_recv = \<lparr>rd_pending = [7]\<rparr>, nw_send = \<lparr>wr_sent = [], wr_room = None\<rparr>\<rparr>)"
proof -
  obtain cw' where w: "write_frames (nd_wire front_native) ([Fr_Auth front_frame, Fr_ReqHeader front_header] @
      map Fr_Data [[1, 2], [3]] @ [Fr_End]) \<lparr>wr_sent = [], wr_room = None\<rparr> = (Ok (), cw')"
    using front_request_hyps(3) by blast
  from native_request_roundtrip [OF _ front_request_hyps(1) w, where tls_export = front_tls and st = front_state and asleep = "\<lambda>_ _ s. s"]
  show ?thesis by (simp add: front_wire_laws front_frame_verified Let_def front_request_hyps(2)) auto
qed

text \<open>A stream of one request, and its credentials.\<close>

definition front_world :: "byte list \<Rightarrow> native_world" where
  "front_world bytes =
     \<lparr>nw_service = sample_service (\<lambda>n. if even n then IoOk else IoFail ''e'' None), nw_recv = \<lparr>rd_pending = bytes\<rparr>,
      nw_send = \<lparr>wr_sent = [], wr_room = None\<rparr>\<rparr>"

lemma front_stream:
  obtains bytes where "stream_credentials front_native front_state front_tls (front_world bytes) = {front_auth}"
    "\<And>asleep. \<exists>w. handle_request_stream front_native front_state asleep front_tls (front_world bytes) =
       Some (native_dispatch front_native front_state (Some front_auth) front_header [1, 2, 3] w) \<and>
       nw_service w = nw_service (front_world bytes)"
proof -
  obtain cw' where w: "write_frames (nd_wire front_native) ([Fr_Auth front_frame, Fr_ReqHeader front_header] @
      map Fr_Data [[1, 2], [3]] @ [Fr_End]) \<lparr>wr_sent = [], wr_room = None\<rparr> = (Ok (), cw')"
    using front_request_hyps(3) by blast
  define bytes where "bytes = wr_sent cw'"
  note read = native_request_read [OF _ front_request_hyps(1) w, where tls_export = front_tls and st = front_state]
  have first: "fst (read_frame front_wire \<lparr>rd_pending = bytes\<rparr>) = Ok (Fr_Auth front_frame)"
    using read by (simp add: front_wire_laws bytes_def) (metis append_Nil2)
  show ?thesis
  proof (rule that [of bytes])
    show "stream_credentials front_native front_state front_tls (front_world bytes) = {front_auth}"
      using first by (auto simp: stream_credentials_def front_world_def front_frame_verified prod_eq_iff)
    fix asleep
    from read [of asleep] show "\<exists>w. handle_request_stream front_native front_state asleep front_tls (front_world bytes) =
       Some (native_dispatch front_native front_state (Some front_auth) front_header [1, 2, 3] w) \<and>
       nw_service w = nw_service (front_world bytes)"
      by (simp add: front_wire_laws front_frame_verified Let_def front_request_hyps(2) front_world_def bytes_def)
        (metis append_Nil2 native_world.select_convs(1))
  qed
qed

text \<open>The capability of one tenant, the operation on an object of another, every second system call failing.\<close>

theorem native_requests_verified_witness:
  "\<exists>bytes r w'. stream_credentials front_native front_state front_tls (front_world bytes) = {front_auth} \<and>
     handle_request_stream front_native front_state (\<lambda>_ _ s. s) front_tls (front_world bytes) = Some (r, w') \<and>
     session front_deps sample_svc {front_auth} (\<lambda>s s'. s' = s) (nw_service (front_world bytes)) (nw_service w')"
proof -
  obtain bytes where b: "stream_credentials front_native front_state front_tls (front_world bytes) = {front_auth}"
      "\<exists>result. handle_request_stream front_native front_state (\<lambda>_ _ s. s) front_tls (front_world bytes) = Some result"
    by (rule front_stream) blast
  then obtain r w' where r: "handle_request_stream front_native front_state (\<lambda>_ _ s. s) front_tls (front_world bytes) = Some (r, w')"
    by auto
  from native_requests_verified [OF r] b(1) r show ?thesis by auto
qed


section \<open>A request of the gateway\<close>

definition front_request :: gw_request where
  "front_request =
     \<lparr>gwq_method = ''HEAD'', gwq_path = ''/v1/objects/cid/c'', gwq_query = ''tenant_id=o'',
      gwq_headers = [(''x-hsp-capability'', []), (''x-hsp-channel-binding-kind'', as_bytes ''tls-exporter''),
        (''x-hsp-channel-binding-proof'', []), (''x-hsp-channel-binding-nonce'', as_bytes ''n'')]\<rparr>"

definition front_gw_world :: "service \<Rightarrow> gw_world" where
  "front_gw_world s = \<lparr>gw_service = s, gw_stream = \<lparr>h3_incoming = [], h3_log = [], h3_send_error = (\<lambda>_. None)\<rparr>\<rparr>"

lemma front_gw_credentials: "gateway_credentials front_gw front_gw_state front_tls front_request = {front_auth}"
proof -
  have low: "to_ascii_lowercase ''x-hsp-capability'' = ''x-hsp-capability''"
    "to_ascii_lowercase ''x-hsp-channel-binding-kind'' = ''x-hsp-channel-binding-kind''"
    "to_ascii_lowercase ''x-hsp-channel-binding-proof'' = ''x-hsp-channel-binding-proof''"
    "to_ascii_lowercase ''x-hsp-channel-binding-nonce'' = ''x-hsp-channel-binding-nonce''"
    by code_simp+
  have empty: "from_bytes [] = []" by (simp add: from_bytes_def)
  have "verify_gateway_auth front_gw front_tls (gwq_headers front_request) front_registry = Ok front_auth"
    using front_verified
    by (simp add: verify_gateway_auth_def gw_required_header_def header_text_def header_get_def header_values_def low empty
        front_request_def ref_dist_deps_def front_binding_def ok_or_def)
  then show ?thesis by (simp add: gateway_credentials_def)
qed

lemma front_gw_answers:
  obtains r v' where "handle_gateway_request front_gw front_gw_state asleep front_tls front_request v = Some (r, v')"
proof -
  have "\<exists>r v'. handle_gateway_request front_gw front_gw_state asleep front_tls front_request v = Some (r, v')"
    by (simp add: handle_gateway_request_def front_request_def)
  then show ?thesis using that by blast
qed

theorem gateway_requests_verified_witness:
  "\<exists>r v'. gateway_credentials front_gw front_gw_state front_tls front_request = {front_auth} \<and>
     handle_gateway_request front_gw front_gw_state (\<lambda>_ _ s. s) front_tls front_request (front_gw_world (sample_service (\<lambda>_. IoOk))) =
       Some (r, v') \<and>
     session front_deps sample_svc {front_auth} (\<lambda>s s'. s' = s) (sample_service (\<lambda>_. IoOk)) (gw_service v')"
proof -
  obtain r v' where r: "handle_gateway_request front_gw front_gw_state (\<lambda>_ _ s. s) front_tls front_request
      (front_gw_world (sample_service (\<lambda>_. IoOk))) = Some (r, v')"
    by (rule front_gw_answers)
  from gateway_requests_verified [OF r] front_gw_credentials r show ?thesis by (auto simp: front_gw_world_def)
qed

text \<open>A request to each server with the capability of one tenant for an object of another.\<close>

theorem quic_tenant_isolation_witness:
  "\<exists>s s'. quic_run front_native front_state front_gw front_gw_state (TenantId ''o'') s s' \<and>
     w_files s' (slot front_deps sample_svc (TenantId ''o'') ''manifests'' ''c'') =
     w_files s (slot front_deps sample_svc (TenantId ''o'') ''manifests'' ''c'')"
proof -
  let ?run = "quic_run front_native front_state front_gw front_gw_state (TenantId ''o'')"
  obtain bytes r w' where b: "stream_credentials front_native front_state front_tls (front_world bytes) = {front_auth}"
      "handle_request_stream front_native front_state (\<lambda>_ _ s. s) front_tls (front_world bytes) = Some (r, w')"
    by (rule front_stream) (metis prod.collapse)
  obtain r2 v' where g: "handle_gateway_request front_gw front_gw_state (\<lambda>_ _ s. s) front_tls front_request
      (front_gw_world (nw_service w')) = Some (r2, v')"
    by (rule front_gw_answers)
  have "?run (nw_service (front_world bytes)) (nw_service w')"
    by (rule quic_native [OF quic_start _ _ b(2)]) (auto simp: b(1) quic_start)
  then have "?run (nw_service (front_world bytes)) (gw_service (front_gw_world (nw_service w')))" by (simp add: front_gw_world_def)
  then have run: "?run (nw_service (front_world bytes)) (gw_service v')"
    by (rule quic_gateway [OF _ _ _ g]) (auto simp: front_gw_credentials quic_start)
  have "dir_laws front_deps" by (rule ref_dir_laws [OF front_like])
  then show ?thesis
    using quic_tenant_isolation [OF run, of "''/d''" "''manifests''" "''c''"] run
    by (auto simp: sample_svc_def)
qed

text \<open>Such a request at the service itself.\<close>

theorem foreign_request_refused_witness:
  "isl (fst (perform front_deps sample_svc (front_auth, Rq_Head other_head) (sample_service (\<lambda>_. IoOk)))) \<and>
   cl_tenant_id (ac_claims front_auth) \<noteq> request_tenant (Rq_Head other_head)"
proof -
  obtain r s' where r: "perform front_deps sample_svc (front_auth, Rq_Head other_head) (sample_service (\<lambda>_. IoOk)) = (r, s')"
    by fastforce
  have "cl_tenant_id (ac_claims front_auth) \<noteq> request_tenant (Rq_Head other_head)" by (simp add: other_head_def)
  from foreign_request_refused [OF this r] r this show ?thesis by simp
qed

end
