(* ===== verification/HSP_Cdn_Samples.thy ===== *)
theory HSP_Cdn_Samples
  imports HSP_Cdn_Cache HSP_Front_Samples
begin

text \<open>
  An edge token of the reference distribution layer, before and after it expires.
\<close>

definition edge_sample :: EdgeTokenClaims where
  "edge_sample =
     \<lparr>et_tenant_id = TenantId ''t'', et_bucket = None, et_key = None, et_cid = Some ''m'',
      et_access_profile = PublicCiphertext, et_method = ''GET'', et_exp = 100\<rparr>"

definition edge_deps :: dist_deps where
  "edge_deps = (ref_dist_deps sample_read_deps)\<lparr>json_edge_claims := one_codec edge_sample\<rparr>"

lemma edge_simps [simp]:
  "alpha_code edge_deps = sample_read_deps" "json_edge_claims edge_deps = one_codec edge_sample"
  "hmac_key_error edge_deps = (\<lambda>_. None)" "header_to_str edge_deps = (\<lambda>bytes. Some (from_bytes bytes))"
  by (simp_all add: edge_deps_def ref_dist_deps_def)

lemma edge_token_laws: "token_laws edge_deps"
proof -
  have "CHR ''.'' \<notin> set (ref_text_encode bs)" for bs
    using ref_text_encode_chars [of "CHR ''.''" bs] by auto
  then show ?thesis
    using sample_read_like by (simp add: token_laws_def ref_like_def)
qed

definition edge_token :: string where
  "edge_token = projr (mint_edge_token edge_deps (sample_ds sample_svc) edge_sample)"

lemma edge_token_minted: "mint_edge_token edge_deps (sample_ds sample_svc) edge_sample = Ok edge_token"
  by (simp add: edge_token_def mint_edge_token_def one_codec_def edge_signature_def Let_def map_err_def)

text \<open>Before it expires, and after.\<close>

theorem edge_token_roundtrip_witness:
  "(\<exists>auth s'. authenticate_edge_token edge_deps (sample_ds sample_svc) edge_token ''get'' ((sample_service (\<lambda>_. IoOk))\<lparr>w_clock := \<lambda>_. 5\<rparr>)
       = (Ok auth, s') \<and> cl_tenant_id (ac_claims auth) = TenantId ''t'') \<and>
   isl (fst (authenticate_edge_token edge_deps (sample_ds sample_svc) edge_token ''get'' ((sample_service (\<lambda>_. IoOk))\<lparr>w_clock := \<lambda>_. 101\<rparr>)))"
proof -
  have "eq_ignore_ascii_case (et_method edge_sample) ''get''" unfolding edge_sample_def by code_simp
  then show ?thesis
    using edge_token_roundtrip [OF edge_token_laws edge_token_minted, of "(sample_service (\<lambda>_. IoOk))\<lparr>w_clock := \<lambda>_. 5\<rparr>" "''get''"]
      edge_token_roundtrip [OF edge_token_laws edge_token_minted, of "(sample_service (\<lambda>_. IoOk))\<lparr>w_clock := \<lambda>_. 101\<rparr>" "''get''"]
    by (auto simp: edge_sample_def)
qed

end
